(* ===== verification/Smb2_Base.thy ===== *)
theory Smb2_Base
  imports Main "HOL-Library.Word" "HOL-Library.Monad_Syntax"
begin

text \<open>
  The prelude of the development: the machine types of the C++ sources, byte buffers
  with their bounds, the little- and big-endian codecs of \<^verbatim>\<open>Endian.h\<close> and the generic
  lemmas the components share.

  Conventions. Undefined behaviour of the source (an access outside an allocation, a
  null dereference, the use of an uninitialised local, a payload cast to the wrong
  struct) is the value \<open>None\<close> of the outer \<open>option\<close> of an operation; everything the
  source reports through a return code or an error string is an ordinary value inside
  it. Allocations are taken to succeed.
\<close>

unbundle bit_operations_syntax

type_synonym u8 = "8 word"
type_synonym u16 = "16 word"
type_synonym u32 = "32 word"
type_synonym u64 = "64 word"
type_synonym bytes = "u8 list"

named_theorems mem_simps \<open>reading and writing inside the bounds of a buffer\<close>
named_theorems wire_simps \<open>fixed-width codecs and their lengths\<close>

section \<open>Little- and big-endian codecs\<close>

fun le_bytes :: "nat \<Rightarrow> 'a::len word \<Rightarrow> bytes" where
  "le_bytes 0 w = []"
| "le_bytes (Suc n) w = ucast w # le_bytes n (drop_bit 8 w)"

fun le_word :: "bytes \<Rightarrow> 'a::len word" where
  "le_word [] = 0"
| "le_word (b # bs) = ucast b OR push_bit 8 (le_word bs)"

definition be_bytes :: "nat \<Rightarrow> 'a::len word \<Rightarrow> bytes" where
  "be_bytes n w = rev (le_bytes n w)"

definition be_word :: "bytes \<Rightarrow> 'a::len word" where
  "be_word bs = le_word (rev bs)"

lemma length_le_bytes [simp, wire_simps]: "length (le_bytes n w) = n"
  by (induction n arbitrary: w) auto

lemma length_be_bytes [simp, wire_simps]: "length (be_bytes n w) = n"
  by (simp add: be_bytes_def)

lemma bit_ucast_u8: "bit (ucast (b :: u8) :: 'a::len word) i \<longleftrightarrow> i < LENGTH('a) \<and> bit b i"
  by (simp add: bit_ucast_iff)

lemma le_word_le_bytes: "le_word (le_bytes n w) = take_bit (8 * n) (w :: 'a::len word)"
proof (induction n arbitrary: w)
  case 0
  then show ?case by simp
next
  case (Suc n)
  show ?case
  proof (rule bit_word_eqI)
    fix i assume "i < LENGTH('a)"
    then show "bit (le_word (le_bytes (Suc n) w) :: 'a word) i = bit (take_bit (8 * Suc n) w) i"
      by (auto simp: Suc.IH bit_simps not_less)
  qed
qed

lemma le_bytes_le_word:
  assumes "8 * length bs \<le> LENGTH('a)"
  shows "le_bytes (length bs) (le_word bs :: 'a::len word) = bs"
  using assms
proof (induction bs)
  case Nil
  then show ?case by simp
next
  case (Cons b bs)
  let ?w = "le_word bs :: 'a word"
  have "(ucast (ucast b OR push_bit 8 ?w) :: u8) = b"
    using Cons.prems by (intro bit_word_eqI) (auto simp: bit_simps)
  moreover have "drop_bit 8 (ucast b OR push_bit 8 ?w) = take_bit (LENGTH('a) - 8) ?w"
    using Cons.prems by (intro bit_word_eqI) (auto simp: bit_simps dest: bit_imp_le_length)
  moreover have "take_bit (LENGTH('a) - 8) ?w = ?w"
  proof -
    have "?w = le_word (le_bytes (length bs) ?w)"
      using Cons by simp
    also have "\<dots> = take_bit (8 * length bs) ?w"
      by (rule le_word_le_bytes)
    finally have *: "?w = take_bit (8 * length bs) ?w" .
    have "8 * length bs \<le> LENGTH('a) - 8"
      using Cons.prems by simp
    then have "take_bit (LENGTH('a) - 8) (take_bit (8 * length bs) ?w) = take_bit (8 * length bs) ?w"
      by (simp add: min.absorb2)
    with * show ?thesis by metis
  qed
  ultimately show ?case
    using Cons by simp
qed


lemma le_bytes_le_word_len:
  "length bs = n \<Longrightarrow> 8 * n \<le> LENGTH('a) \<Longrightarrow> le_bytes n (le_word bs :: 'a::len word) = bs"
  using le_bytes_le_word by blast

lemma be_word_be_bytes: "be_word (be_bytes n w) = take_bit (8 * n) (w :: 'a::len word)"
  by (simp add: be_word_def be_bytes_def le_word_le_bytes)

lemma be_bytes_be_word:
  "8 * length bs \<le> LENGTH('a) \<Longrightarrow> be_bytes (length bs) (be_word bs :: 'a::len word) = bs"
  using le_bytes_le_word [where 'a = 'a and bs = "rev bs"]
  by (simp add: be_word_def be_bytes_def)

text \<open>The byte order macros of \<^verbatim>\<open>Endian.h\<close>, as the bytes they put into memory.\<close>

definition htole16 :: "u16 \<Rightarrow> bytes" where "htole16 w = le_bytes 2 w"
definition htole32 :: "u32 \<Rightarrow> bytes" where "htole32 w = le_bytes 4 w"
definition htole64 :: "u64 \<Rightarrow> bytes" where "htole64 w = le_bytes 8 w"
definition htobe32 :: "u32 \<Rightarrow> bytes" where "htobe32 w = be_bytes 4 w"

definition le16toh :: "bytes \<Rightarrow> u16" where "le16toh bs = le_word bs"
definition le32toh :: "bytes \<Rightarrow> u32" where "le32toh bs = le_word bs"
definition le64toh :: "bytes \<Rightarrow> u64" where "le64toh bs = le_word bs"
definition be32toh :: "bytes \<Rightarrow> u32" where "be32toh bs = be_word bs"

lemma be32toh_htobe32 [simp, wire_simps]: "be32toh (htobe32 w) = w"
  by (simp add: be32toh_def htobe32_def be_word_be_bytes take_bit_word_eq_self)

lemma length_htole [simp, wire_simps]:
  "length (htole16 a) = 2" "length (htole32 b) = 4" "length (htole64 c) = 8"
  "length (htobe32 b) = 4"
  by (simp_all add: htole16_def htole32_def htole64_def htobe32_def)

section \<open>Byte buffers\<close>

text \<open>
  A pointer into an allocation is modelled by the bytes from the pointer to the end of
  the allocation. \<open>mem_read\<close> and \<open>mem_write\<close> are \<^verbatim>\<open>memcpy\<close> from and to \<open>buf + off\<close>;
  \<open>mem_ptr\<close> is the pointer \<open>&buf[off]\<close>. Outside the allocation they are undefined.
\<close>

definition sub_bytes :: "bytes \<Rightarrow> nat \<Rightarrow> nat \<Rightarrow> bytes" where
  "sub_bytes b off n = take n (drop off b)"

definition put_bytes :: "bytes \<Rightarrow> nat \<Rightarrow> bytes \<Rightarrow> bytes" where
  "put_bytes b off bs = take off b @ bs @ drop (off + length bs) b"

definition mem_read :: "bytes \<Rightarrow> int \<Rightarrow> nat \<Rightarrow> bytes option" where
  "mem_read b off n =
     (if 0 \<le> off \<and> nat off + n \<le> length b then Some (sub_bytes b (nat off) n) else None)"

definition mem_write :: "bytes \<Rightarrow> int \<Rightarrow> bytes \<Rightarrow> bytes option" where
  "mem_write b off bs =
     (if 0 \<le> off \<and> nat off + length bs \<le> length b
      then Some (put_bytes b (nat off) bs) else None)"

definition mem_ptr :: "bytes \<Rightarrow> int \<Rightarrow> bytes option" where
  "mem_ptr b off = (if 0 \<le> off \<and> nat off \<le> length b then Some (drop (nat off) b) else None)"

lemma length_sub_bytes [simp]: "off + n \<le> length b \<Longrightarrow> length (sub_bytes b off n) = n"
  by (simp add: sub_bytes_def)

lemma length_put_bytes [simp]:
  "off + length bs \<le> length b \<Longrightarrow> length (put_bytes b off bs) = length b"
  by (simp add: put_bytes_def)

lemma sub_put_same [simp]:
  "off + length bs \<le> length b \<Longrightarrow> n = length bs \<Longrightarrow> sub_bytes (put_bytes b off bs) off n = bs"
  by (simp add: sub_bytes_def put_bytes_def)

lemma sub_put_before:
  assumes "off' + n \<le> off" and "off + length bs \<le> length b"
  shows "sub_bytes (put_bytes b off bs) off' n = sub_bytes b off' n"
proof -
  have "take n (drop off' (take off b)) = take n (drop off' b)"
    using assms by (simp add: drop_take min_def)
  moreover have "length (drop off' (take off b)) \<ge> n"
    using assms by simp
  ultimately show ?thesis
    using assms by (simp add: sub_bytes_def put_bytes_def)
qed

lemma sub_put_after:
  assumes "off + length bs \<le> off'" and "off + length bs \<le> length b"
  shows "sub_bytes (put_bytes b off bs) off' n = sub_bytes b off' n"
proof -
  have "drop off' (put_bytes b off bs) = drop off' b"
    using assms by (simp add: put_bytes_def min_def)
  then show ?thesis by (simp add: sub_bytes_def)
qed

lemma sub_put_frame [mem_simps]:
  "off + length bs \<le> length b \<Longrightarrow> off' + n \<le> off \<or> off + length bs \<le> off' \<Longrightarrow>
   sub_bytes (put_bytes b off bs) off' n = sub_bytes b off' n"
  using sub_put_before sub_put_after by blast

lemma mem_read_in [mem_simps]:
  "0 \<le> off \<Longrightarrow> nat off + n \<le> length b \<Longrightarrow> mem_read b off n = Some (sub_bytes b (nat off) n)"
  by (simp add: mem_read_def)

lemma mem_write_in [mem_simps]:
  "0 \<le> off \<Longrightarrow> nat off + length bs \<le> length b \<Longrightarrow>
   mem_write b off bs = Some (put_bytes b (nat off) bs)"
  by (simp add: mem_write_def)

lemma mem_ptr_in [mem_simps]:
  "0 \<le> off \<Longrightarrow> nat off \<le> length b \<Longrightarrow> mem_ptr b off = Some (drop (nat off) b)"
  by (simp add: mem_ptr_def)

lemma sub_bytes_drop [mem_simps]: "sub_bytes (drop k b) off n = sub_bytes b (k + off) n"
  by (simp add: sub_bytes_def add.commute)

lemma sub_bytes_all: "sub_bytes b 0 (length b) = b"
  by (simp add: sub_bytes_def)

section \<open>Character strings\<close>

text \<open>
  A \<^verbatim>\<open>std::string\<close> is its bytes; \<^verbatim>\<open>c_str()\<close> is the buffer with the terminating NUL, and reading a
  buffer as a C string stops at the first NUL. \<open>strchr c s\<close> cuts \<open>s\<close> at the first \<open>c\<close>, which is what
  the callers of \<^verbatim>\<open>strchr\<close> do with the result.
\<close>

definition c_str :: "bytes \<Rightarrow> bytes" where
  "c_str s = s @ [0]"

definition c_string :: "bytes \<Rightarrow> bytes" where
  "c_string b = takeWhile (\<lambda>x. x \<noteq> 0) b"

fun strchr :: "u8 \<Rightarrow> bytes \<Rightarrow> (bytes \<times> bytes) option" where
  "strchr c [] = None"
| "strchr c (x # xs) =
     (if x = c then Some ([], xs)
      else (case strchr c xs of None \<Rightarrow> None | Some (a, b) \<Rightarrow> Some (x # a, b)))"

lemma strchr_append: "c \<notin> set a \<Longrightarrow> strchr c (a @ c # b) = Some (a, b)"
  by (induction a) auto

lemma strchr_SomeD: "strchr c s = Some (a, b) \<Longrightarrow> s = a @ c # b \<and> c \<notin> set a"
  by (induction s arbitrary: a) (auto split: option.splits if_splits)

lemma strchr_None: "strchr c s = None \<longleftrightarrow> c \<notin> set s"
  by (induction s) (auto split: option.splits)

lemma c_string_c_str: "0 \<notin> set s \<Longrightarrow> c_string (c_str s) = s"
  unfolding c_string_def c_str_def by (subst takeWhile_append2) auto

section \<open>Words as sizes\<close>

lemma unat_u64_less: "unat (w :: u64) < 2 ^ 64"
proof -
  have "unat w < 2 ^ LENGTH(64)" by (rule unsigned_less)
  then show ?thesis by simp
qed

lemma unat_of_nat_u64: "n < 2 ^ 64 \<Longrightarrow> unat (of_nat n :: u64) = n"
  by (simp add: unat_of_nat take_bit_nat_eq_self)

lemma unat_of_nat_u32: "n < 2 ^ 32 \<Longrightarrow> unat (of_nat n :: u32) = n"
  by (simp add: unat_of_nat take_bit_nat_eq_self)

lemma unat_u32_less: "unat (w :: u32) < 2 ^ 32"
proof -
  have "unat w < 2 ^ LENGTH(32)" by (rule unsigned_less)
  then show ?thesis by simp
qed

lemma unat_u16_less: "unat (w :: u16) < 2 ^ 16"
proof -
  have "unat w < 2 ^ LENGTH(16)" by (rule unsigned_less)
  then show ?thesis by simp
qed

lemma unat_ucast_u32_u64 [simp]: "unat (ucast (w :: u32) :: u64) = unat w"
  using unat_u32_less [of w] by (simp add: unsigned_ucast_eq take_bit_nat_eq_self)

lemma unat_ucast_u16_u32 [simp]: "unat (ucast (w :: u16) :: u32) = unat w"
  using unat_u16_less [of w] by (simp add: unsigned_ucast_eq take_bit_nat_eq_self)

lemma unat_ucast_u16_u64 [simp]: "unat (ucast (w :: u16) :: u64) = unat w"
  using unat_u16_less [of w] by (simp add: unsigned_ucast_eq take_bit_nat_eq_self)

section \<open>Alignment to four bytes\<close>

abbreviation pad4 :: "nat \<Rightarrow> nat" where
  "pad4 n \<equiv> (4 - n mod 4) mod 4"

lemma pad4_word:
  "(if (n :: u32) AND 3 \<noteq> 0 then 4 - (n AND 3) else 0) = of_nat (pad4 (unat n))"
proof -
  have "n AND 3 = take_bit 2 n"
    by (simp add: take_bit_eq_mask mask_eq_exp_minus_1)
  then have a: "n AND 3 = of_nat (unat n mod 4)"
    by (simp add: take_bit_eq_mod word_arith_nat_mod)
  have "unat n mod 4 < 4" by simp
  then consider "unat n mod 4 = 0" | "unat n mod 4 = 1" | "unat n mod 4 = 2" | "unat n mod 4 = 3"
    by linarith
  then show ?thesis
    unfolding a by cases simp_all
qed

lemma mod4_sum:
  assumes "4 dvd unat (sz :: u32)"
  shows "unat (sz + of_nat n) mod 4 = n mod 4"
proof -
  have "unat (sz + of_nat n) mod 4 = (unat sz + n) mod 4"
    by (simp add: unat_word_ariths unat_of_nat mod_add_right_eq mod_mod_cancel)
  also have "\<dots> = n mod 4"
    using assms by (metis dvd_imp_mod_0 mod_add_left_eq add_0)
  finally show ?thesis .
qed

lemma pad4_dvd: "(n + pad4 n) mod 4 = 0"
proof (cases "n mod 4 = 0")
  case False
  then have "pad4 n = 4 - n mod 4" by simp
  moreover have "n + (4 - n mod 4) = 4 * (n div 4 + 1)"
    by presburger
  ultimately show ?thesis by simp
qed simp

lemma aligned_step:
  assumes "4 dvd unat (sz :: u32)"
  shows "4 dvd unat (sz + of_nat (n + pad4 n))"
  unfolding dvd_eq_mod_eq_0 mod4_sum [OF assms] by (rule pad4_dvd)

end
