(* ===== verification/Smb2_Iovec.thy ===== *)
theory Smb2_Iovec
  imports Smb2_Base
begin

text \<open>
  The I/O vectors of \<^verbatim>\<open>PrivateData.h\<close> and \<^verbatim>\<open>DataTypes.cpp\<close>: \<^verbatim>\<open>smb2_iovec\<close>, a pointer with a
  length and eight bounds-checked accessors, and \<^verbatim>\<open>smb2_io_vectors\<close>, a list of them with
  a running total. The locale \<open>iovec_field\<close> is the contract of one accessor pair; it is
  interpreted on the accessors of all four widths.
\<close>

section \<open>smb2_iovec\<close>

record smb2_iovec =
  iov_buf :: bytes
  iov_len :: u64
  iov_free :: bool

definition smb2_iovec_empty :: smb2_iovec where
  "smb2_iovec_empty = \<lparr>iov_buf = [], iov_len = 0, iov_free = False\<rparr>"

definition smb2_iovec_size :: "u64 \<Rightarrow> smb2_iovec" where
  \<comment> \<open>the member \<open>free\<close> hides \<^verbatim>\<open>::free\<close>, so the vector does not own its buffer\<close>
  "smb2_iovec_size sz =
     (if sz > 0
      then \<lparr>iov_buf = replicate (unat sz) 0, iov_len = sz, iov_free = False\<rparr>
      else smb2_iovec_empty)"

definition smb2_iovec_make :: "bytes \<Rightarrow> u64 \<Rightarrow> bool \<Rightarrow> smb2_iovec" where
  "smb2_iovec_make buf len free = \<lparr>iov_buf = buf, iov_len = len, iov_free = free\<rparr>"

text \<open>The test \<open>offset + sizeof(T) > len\<close>: the \<open>int\<close> offset is converted to \<open>size_t\<close>.\<close>

definition iov_rejects :: "smb2_iovec \<Rightarrow> int \<Rightarrow> nat \<Rightarrow> bool" where
  "iov_rejects v off n \<longleftrightarrow> word_of_int off + of_nat n > iov_len v"

definition iov_store :: "smb2_iovec \<Rightarrow> int \<Rightarrow> bytes \<Rightarrow> (int \<times> smb2_iovec) option" where
  "iov_store v off bs =
     (if iov_rejects v off (length bs) then Some (-1, v)
      else do { b \<leftarrow> mem_write (iov_buf v) off bs; Some (0, v\<lparr>iov_buf := b\<rparr>) })"

definition iov_load :: "smb2_iovec \<Rightarrow> int \<Rightarrow> nat \<Rightarrow> (bytes \<Rightarrow> 'a) \<Rightarrow> 'a \<Rightarrow> (int \<times> 'a) option" where
  "iov_load v off n dec old =
     (if iov_rejects v off n then Some (-1, old)
      else do { bs \<leftarrow> mem_read (iov_buf v) off n; Some (0, dec bs) })"

definition smb2_set_uint8 :: "smb2_iovec \<Rightarrow> int \<Rightarrow> u8 \<Rightarrow> (int \<times> smb2_iovec) option" where
  "smb2_set_uint8 v offset value = iov_store v offset [value]"

definition smb2_set_uint16 :: "smb2_iovec \<Rightarrow> int \<Rightarrow> u16 \<Rightarrow> (int \<times> smb2_iovec) option" where
  "smb2_set_uint16 v offset value = iov_store v offset (htole16 value)"

definition smb2_set_uint32 :: "smb2_iovec \<Rightarrow> int \<Rightarrow> u32 \<Rightarrow> (int \<times> smb2_iovec) option" where
  "smb2_set_uint32 v offset value = iov_store v offset (htole32 value)"

definition smb2_set_uint64 :: "smb2_iovec \<Rightarrow> int \<Rightarrow> u64 \<Rightarrow> (int \<times> smb2_iovec) option" where
  "smb2_set_uint64 v offset value = iov_store v offset (htole64 value)"

text \<open>\<open>*value\<close> before the call is the last argument: it is kept when the check fails.\<close>

definition smb2_get_uint8 :: "smb2_iovec \<Rightarrow> int \<Rightarrow> u8 \<Rightarrow> (int \<times> u8) option" where
  "smb2_get_uint8 v offset value = iov_load v offset 1 hd value"

definition smb2_get_uint16 :: "smb2_iovec \<Rightarrow> int \<Rightarrow> u16 \<Rightarrow> (int \<times> u16) option" where
  "smb2_get_uint16 v offset value = iov_load v offset 2 le16toh value"

definition smb2_get_uint32 :: "smb2_iovec \<Rightarrow> int \<Rightarrow> u32 \<Rightarrow> (int \<times> u32) option" where
  "smb2_get_uint32 v offset value = iov_load v offset 4 le32toh value"

definition smb2_get_uint64 :: "smb2_iovec \<Rightarrow> int \<Rightarrow> u64 \<Rightarrow> (int \<times> u64) option" where
  "smb2_get_uint64 v offset value = iov_load v offset 8 le64toh value"

text \<open>
  Every caller discards the return codes: the value that a statement \<^verbatim>\<open>iov.smb2_set_..(..)\<close>
  leaves in the vector, and that \<^verbatim>\<open>iov.smb2_get_..(off, &x)\<close> leaves in \<open>x\<close>.
\<close>

definition set8 :: "smb2_iovec \<Rightarrow> int \<Rightarrow> u8 \<Rightarrow> smb2_iovec option" where
  "set8 v off x = map_option snd (smb2_set_uint8 v off x)"
definition set16 :: "smb2_iovec \<Rightarrow> int \<Rightarrow> u16 \<Rightarrow> smb2_iovec option" where
  "set16 v off x = map_option snd (smb2_set_uint16 v off x)"
definition set32 :: "smb2_iovec \<Rightarrow> int \<Rightarrow> u32 \<Rightarrow> smb2_iovec option" where
  "set32 v off x = map_option snd (smb2_set_uint32 v off x)"
definition set64 :: "smb2_iovec \<Rightarrow> int \<Rightarrow> u64 \<Rightarrow> smb2_iovec option" where
  "set64 v off x = map_option snd (smb2_set_uint64 v off x)"

definition get8 :: "smb2_iovec \<Rightarrow> int \<Rightarrow> u8 \<Rightarrow> u8 option" where
  "get8 v off old = map_option snd (smb2_get_uint8 v off old)"
definition get16 :: "smb2_iovec \<Rightarrow> int \<Rightarrow> u16 \<Rightarrow> u16 option" where
  "get16 v off old = map_option snd (smb2_get_uint16 v off old)"
definition get32 :: "smb2_iovec \<Rightarrow> int \<Rightarrow> u32 \<Rightarrow> u32 option" where
  "get32 v off old = map_option snd (smb2_get_uint32 v off old)"
definition get64 :: "smb2_iovec \<Rightarrow> int \<Rightarrow> u64 \<Rightarrow> u64 option" where
  "get64 v off old = map_option snd (smb2_get_uint64 v off old)"

text \<open>
  Reading into an uninitialised local and using it: undefined when the check fails.
\<close>

definition local16 :: "smb2_iovec \<Rightarrow> int \<Rightarrow> u16 option" where
  "local16 v off =
     (case smb2_get_uint16 v off 0 of Some (rc, x) \<Rightarrow> if rc = 0 then Some x else None | None \<Rightarrow> None)"
definition local32 :: "smb2_iovec \<Rightarrow> int \<Rightarrow> u32 option" where
  "local32 v off =
     (case smb2_get_uint32 v off 0 of Some (rc, x) \<Rightarrow> if rc = 0 then Some x else None | None \<Rightarrow> None)"

section \<open>smb2_io_vectors\<close>

record smb2_io_vectors =
  total_size :: u64
  iovs :: "smb2_iovec list"

definition smb2_io_vectors_empty :: smb2_io_vectors where
  "smb2_io_vectors_empty = \<lparr>total_size = 0, iovs = []\<rparr>"

definition smb2_free_iovector :: "smb2_io_vectors \<Rightarrow> smb2_io_vectors" where
  "smb2_free_iovector vs = vs\<lparr>iovs := [], total_size := 0\<rparr>"

definition smb2_add_iovector_buf ::
  "smb2_io_vectors \<Rightarrow> bytes \<Rightarrow> u32 \<Rightarrow> bool \<Rightarrow> smb2_io_vectors" where
  \<comment> \<open>\<open>len\<close> is an \<open>int\<close>, sign-extended to \<open>size_t\<close>\<close>
  "smb2_add_iovector_buf vs buf len free =
     vs\<lparr>iovs := iovs vs @ [\<lparr>iov_buf = buf, iov_len = scast len, iov_free = free\<rparr>],
        total_size := total_size vs + scast len\<rparr>"

definition smb2_add_iovector :: "smb2_io_vectors \<Rightarrow> smb2_iovec \<Rightarrow> smb2_io_vectors" where
  "smb2_add_iovector vs vec =
     vs\<lparr>total_size := total_size vs + iov_len vec, iovs := iovs vs @ [vec]\<rparr>"

definition smb2_append_iovectors :: "smb2_io_vectors \<Rightarrow> smb2_io_vectors \<Rightarrow> smb2_io_vectors" where
  "smb2_append_iovectors vs iovecs = foldl smb2_add_iovector vs (iovs iovecs)"

definition smb2_pad_to_64bit :: "smb2_io_vectors \<Rightarrow> smb2_io_vectors" where
  "smb2_pad_to_64bit vs =
     (let len = foldl (\<lambda>len iov. len + ucast (iov_len iov)) (0 :: u32) (iovs vs)
      in if len AND 7 = 0 then vs
         else smb2_add_iovector_buf vs (replicate 7 0) (8 - (len AND 7)) False)"

section \<open>Well-formedness\<close>

text \<open>A vector that describes memory it really has.\<close>

definition wf_iovec :: "smb2_iovec \<Rightarrow> bool" where
  "wf_iovec v \<longleftrightarrow> unat (iov_len v) \<le> length (iov_buf v)"

definition iov_data :: "smb2_iovec \<Rightarrow> bytes" where
  "iov_data v = take (unat (iov_len v)) (iov_buf v)"

definition wf_vectors :: "smb2_io_vectors \<Rightarrow> bool" where
  "wf_vectors vs \<longleftrightarrow>
     list_all wf_iovec (iovs vs) \<and> total_size vs = sum_list (map iov_len (iovs vs))"

definition vectors_data :: "smb2_io_vectors \<Rightarrow> bytes" where
  "vectors_data vs = concat (map iov_data (iovs vs))"

definition mk_vec :: "bytes \<Rightarrow> smb2_iovec" where
  "mk_vec b = \<lparr>iov_buf = b, iov_len = of_nat (length b), iov_free = False\<rparr>"

lemma length_iov_data [simp]: "wf_iovec v \<Longrightarrow> length (iov_data v) = unat (iov_len v)"
  by (simp add: wf_iovec_def iov_data_def)

lemma iov_rejects_nonneg:
  assumes "0 \<le> off" and "nat off + n < 2 ^ 64"
  shows "iov_rejects v off n \<longleftrightarrow> unat (iov_len v) < nat off + n"
proof -
  have "(word_of_int off + of_nat n :: u64) = of_nat (nat off + n)"
    using assms(1) by simp
  then have "iov_rejects v off n \<longleftrightarrow> iov_len v < (of_nat (nat off + n) :: u64)"
    by (simp only: iov_rejects_def)
  also have "\<dots> \<longleftrightarrow> unat (iov_len v) < nat off + n"
    by (simp only: word_less_nat_alt unat_of_nat_u64 [OF assms(2)])
  finally show ?thesis .
qed

section \<open>The contract of an accessor pair\<close>

locale iovec_field =
  fixes width :: nat
    and enc :: "'a \<Rightarrow> bytes"
    and dec :: "bytes \<Rightarrow> 'a"
    and setf :: "smb2_iovec \<Rightarrow> int \<Rightarrow> 'a \<Rightarrow> (int \<times> smb2_iovec) option"
    and getf :: "smb2_iovec \<Rightarrow> int \<Rightarrow> 'a \<Rightarrow> (int \<times> 'a) option"
  assumes enc_len: "length (enc x) = width"
    and width_pos: "0 < width"
    and width_small: "width \<le> 8"
    and dec_enc: "dec (enc x) = x"
    and enc_dec: "length bs = width \<Longrightarrow> enc (dec bs) = bs"
    and setf_eq: "setf v off x = iov_store v off (enc x)"
    and getf_eq: "getf v off old = iov_load v off width dec old"
begin

lemma set_inside:
  assumes "wf_iovec v" and "0 \<le> off" and "nat off + width \<le> unat (iov_len v)"
  shows "setf v off x = Some (0, v\<lparr>iov_buf := put_bytes (iov_buf v) (nat off) (enc x)\<rparr>)"
proof -
  have "nat off + width < 2 ^ 64"
    using assms(3) unat_u64_less [of "iov_len v"] by linarith
  with assms show ?thesis
    by (simp add: setf_eq iov_store_def iov_rejects_nonneg enc_len mem_write_in wf_iovec_def)
qed

lemma get_inside:
  assumes "wf_iovec v" and "0 \<le> off" and "nat off + width \<le> unat (iov_len v)"
  shows "getf v off old = Some (0, dec (sub_bytes (iov_buf v) (nat off) width))"
proof -
  have "nat off + width < 2 ^ 64"
    using assms(3) unat_u64_less [of "iov_len v"] by linarith
  with assms show ?thesis
    by (simp add: getf_eq iov_load_def iov_rejects_nonneg mem_read_in wf_iovec_def)
qed

lemma get_outside:
  assumes "0 \<le> off" and "unat (iov_len v) < nat off + width" and "nat off < 2 ^ 31"
  shows "getf v off old = Some (-1, old)"
  using assms width_small by (simp add: getf_eq iov_load_def iov_rejects_nonneg)

lemma set_outside:
  assumes "0 \<le> off" and "unat (iov_len v) < nat off + width" and "nat off < 2 ^ 31"
  shows "setf v off x = Some (-1, v)"
  using assms width_small by (simp add: setf_eq iov_store_def iov_rejects_nonneg enc_len)

lemma get_defined:
  assumes "wf_iovec v" and "0 \<le> off" and "nat off < 2 ^ 31"
  shows "getf v off old \<noteq> None"
  using assms get_inside [of v off old] get_outside [of off v old] by (cases "unat (iov_len v) < nat off + width") auto

lemma set_defined:
  assumes "wf_iovec v" and "0 \<le> off" and "nat off < 2 ^ 31"
  shows "setf v off x \<noteq> None"
  using assms set_inside [of v off x] set_outside [of off v x] by (cases "unat (iov_len v) < nat off + width") auto

lemma get_set_same:
  assumes "wf_iovec v" and "0 \<le> off" and "setf v off x = Some (0, v')"
  shows "getf v' off old = Some (0, x)"
proof -
  have rej: "\<not> iov_rejects v off width"
    using assms(3) by (auto simp: setf_eq iov_store_def enc_len split: if_splits bind_splits)
  with assms(3) obtain b where b: "mem_write (iov_buf v) off (enc x) = Some b"
    and v': "v' = v\<lparr>iov_buf := b\<rparr>"
    by (auto simp: setf_eq iov_store_def enc_len split: if_splits bind_splits)
  from b have in_range: "nat off + width \<le> length (iov_buf v)"
    and b': "b = put_bytes (iov_buf v) (nat off) (enc x)"
    by (auto simp: mem_write_def enc_len split: if_splits)
  have "iov_rejects v' off width \<longleftrightarrow> iov_rejects v off width"
    by (simp add: iov_rejects_def v')
  with rej show ?thesis
    using assms(2) in_range
    by (simp add: getf_eq iov_load_def v' b' mem_read_in enc_len dec_enc)
qed

lemma set_keeps_wf:
  assumes "setf v off x = Some (rc, v')" and "wf_iovec v"
  shows "wf_iovec v'" and "iov_len v' = iov_len v"
  using assms
  by (auto simp: setf_eq iov_store_def wf_iovec_def mem_write_def split: if_splits bind_splits)

end


text \<open>Two accessor pairs on the same vector do not disturb each other outside their bytes.\<close>

locale iovec_two_fields = a: iovec_field wa enca deca seta geta + b: iovec_field wb encb decb setb getb
  for wa enca deca seta geta wb encb decb setb getb
begin

lemma get_set_other:
  assumes "wf_iovec v" and "0 \<le> off" and "0 \<le> off'"
    and "nat off' + wb \<le> nat off \<or> nat off + wa \<le> nat off'"
    and "nat off' < 2 ^ 31"
    and "seta v off x = Some (rc, v')"
  shows "getb v' off' old = getb v off' old"
proof (cases "iov_rejects v off wa")
  case True
  with assms(6) show ?thesis
    by (simp add: a.setf_eq iov_store_def a.enc_len)
next
  case False
  with assms(6) obtain m where m: "mem_write (iov_buf v) off (enca x) = Some m"
    and v': "v' = v\<lparr>iov_buf := m\<rparr>"
    by (auto simp: a.setf_eq iov_store_def a.enc_len split: bind_splits)
  from m have range: "nat off + wa \<le> length (iov_buf v)"
    and m': "m = put_bytes (iov_buf v) (nat off) (enca x)"
    by (auto simp: mem_write_def a.enc_len split: if_splits)
  have len: "length m = length (iov_buf v)"
    using range by (simp add: m' a.enc_len)
  have "sub_bytes m (nat off') wb = sub_bytes (iov_buf v) (nat off') wb"
    unfolding m' using range assms(4) by (intro sub_put_frame) (auto simp: a.enc_len)
  then show ?thesis
    using len by (simp add: b.getf_eq iov_load_def iov_rejects_def v' mem_read_def)
qed

end

interpretation f8: iovec_field 1 "\<lambda>x. [x]" hd smb2_set_uint8 smb2_get_uint8
  by unfold_locales (auto simp: smb2_set_uint8_def smb2_get_uint8_def length_Suc_conv)

interpretation f16: iovec_field 2 htole16 le16toh smb2_set_uint16 smb2_get_uint16
  by unfold_locales
    (auto simp: smb2_set_uint16_def smb2_get_uint16_def htole16_def le16toh_def
      le_word_le_bytes le_bytes_le_word_len take_bit_word_eq_self)

interpretation f32: iovec_field 4 htole32 le32toh smb2_set_uint32 smb2_get_uint32
  by unfold_locales
    (auto simp: smb2_set_uint32_def smb2_get_uint32_def htole32_def le32toh_def
      le_word_le_bytes le_bytes_le_word_len take_bit_word_eq_self)

interpretation f64: iovec_field 8 htole64 le64toh smb2_set_uint64 smb2_get_uint64
  by unfold_locales
    (auto simp: smb2_set_uint64_def smb2_get_uint64_def htole64_def le64toh_def
      le_word_le_bytes le_bytes_le_word_len take_bit_word_eq_self)

interpretation f16_32: iovec_two_fields 2 htole16 le16toh smb2_set_uint16 smb2_get_uint16
  4 htole32 le32toh smb2_set_uint32 smb2_get_uint32
  by unfold_locales



interpretation f32_16: iovec_two_fields 4 htole32 le32toh smb2_set_uint32 smb2_get_uint32
  2 htole16 le16toh smb2_set_uint16 smb2_get_uint16
  by unfold_locales


section \<open>The accessors without their return codes\<close>

lemma set_in [mem_simps]:
  assumes "wf_iovec v" and "0 \<le> off"
  shows "nat off + 1 \<le> unat (iov_len v) \<Longrightarrow>
      set8 v off a = Some (v\<lparr>iov_buf := put_bytes (iov_buf v) (nat off) [a]\<rparr>)"
    and "nat off + 2 \<le> unat (iov_len v) \<Longrightarrow>
      set16 v off b = Some (v\<lparr>iov_buf := put_bytes (iov_buf v) (nat off) (htole16 b)\<rparr>)"
    and "nat off + 4 \<le> unat (iov_len v) \<Longrightarrow>
      set32 v off c = Some (v\<lparr>iov_buf := put_bytes (iov_buf v) (nat off) (htole32 c)\<rparr>)"
    and "nat off + 8 \<le> unat (iov_len v) \<Longrightarrow>
      set64 v off d = Some (v\<lparr>iov_buf := put_bytes (iov_buf v) (nat off) (htole64 d)\<rparr>)"
  using assms
  by (simp_all add: set8_def set16_def set32_def set64_def
      f8.set_inside f16.set_inside f32.set_inside f64.set_inside)

lemma get_in [mem_simps]:
  assumes "wf_iovec v" and "0 \<le> off"
  shows "nat off + 1 \<le> unat (iov_len v) \<Longrightarrow>
      get8 v off a = Some (hd (sub_bytes (iov_buf v) (nat off) 1))"
    and "nat off + 2 \<le> unat (iov_len v) \<Longrightarrow>
      get16 v off b = Some (le16toh (sub_bytes (iov_buf v) (nat off) 2))"
    and "nat off + 4 \<le> unat (iov_len v) \<Longrightarrow>
      get32 v off c = Some (le32toh (sub_bytes (iov_buf v) (nat off) 4))"
    and "nat off + 8 \<le> unat (iov_len v) \<Longrightarrow>
      get64 v off d = Some (le64toh (sub_bytes (iov_buf v) (nat off) 8))"
  using assms
  by (simp_all add: get8_def get16_def get32_def get64_def
      f8.get_inside f16.get_inside f32.get_inside f64.get_inside)

lemma local_in [mem_simps]:
  assumes "wf_iovec v" and "0 \<le> off"
  shows "nat off + 2 \<le> unat (iov_len v) \<Longrightarrow>
      local16 v off = Some (le16toh (sub_bytes (iov_buf v) (nat off) 2))"
    and "nat off + 4 \<le> unat (iov_len v) \<Longrightarrow>
      local32 v off = Some (le32toh (sub_bytes (iov_buf v) (nat off) 4))"
  using assms by (simp_all add: local16_def local32_def f16.get_inside f32.get_inside)

section \<open>smb2_io_vectors keep their total\<close>

lemma wf_add_iovector [simp]:
  "wf_vectors vs \<Longrightarrow> wf_iovec v \<Longrightarrow> wf_vectors (smb2_add_iovector vs v)"
  by (simp add: wf_vectors_def smb2_add_iovector_def)

lemma vectors_data_add [simp]:
  "vectors_data (smb2_add_iovector vs v) = vectors_data vs @ iov_data v"
  by (simp add: vectors_data_def smb2_add_iovector_def)

lemma iovs_foldl_add: "iovs (foldl smb2_add_iovector vs xs) = iovs vs @ xs"
  by (induction xs arbitrary: vs) (auto simp: smb2_add_iovector_def)

lemma total_foldl_add:
  "total_size (foldl smb2_add_iovector vs xs) = total_size vs + sum_list (map iov_len xs)"
  by (induction xs arbitrary: vs) (auto simp: smb2_add_iovector_def)

lemma wf_append_iovectors [simp]:
  "wf_vectors vs \<Longrightarrow> wf_vectors ws \<Longrightarrow> wf_vectors (smb2_append_iovectors vs ws)"
  by (simp add: wf_vectors_def smb2_append_iovectors_def iovs_foldl_add total_foldl_add)

lemma vectors_data_append [simp]:
  "vectors_data (smb2_append_iovectors vs ws) = vectors_data vs @ vectors_data ws"
  by (simp add: vectors_data_def smb2_append_iovectors_def iovs_foldl_add)

section \<open>Padding\<close>

lemma unat_and_7: "unat ((w :: u32) AND 7) = unat w mod 8"
proof -
  have "w AND 7 = take_bit 3 w"
    by (simp add: take_bit_eq_mask mask_eq_exp_minus_1)
  then show ?thesis
    by (simp add: unsigned_take_bit_eq take_bit_nat_def)
qed

lemma of_nat_and_7: "(of_nat n AND 7 :: u32) = of_nat (n mod 8)"
  by (simp add: word_unat_eq_iff unat_and_7 unat_of_nat take_bit_nat_def mod_mod_cancel)

lemma pad_amount:
  assumes "n mod 8 \<noteq> 0"
  shows "unat (scast (8 - (of_nat n AND 7 :: u32)) :: u64) = 8 - n mod 8"
proof -
  have "n mod 8 \<in> {1, 2, 3, 4, 5, 6, 7}"
    using assms pos_mod_bound [of 8 "int n"] by auto
  then show ?thesis
    unfolding of_nat_and_7 by auto
qed

lemma foldl_len:
  "foldl (\<lambda>len iov. len + ucast (iov_len iov)) (of_nat k :: u32) xs
     = of_nat (k + sum_list (map (\<lambda>v. unat (iov_len v)) xs))"
proof (induction xs arbitrary: k)
  case Nil
  then show ?case by simp
next
  case (Cons x xs)
  have "(of_nat k + ucast (iov_len x) :: u32) = of_nat (k + unat (iov_len x))"
    by simp
  then show ?case
    by (simp only: foldl.simps Cons.IH list.map sum_list.Cons add.assoc)
qed

lemma length_vectors_data:
  "list_all wf_iovec (iovs vs) \<Longrightarrow>
   length (vectors_data vs) = sum_list (map (\<lambda>v. unat (iov_len v)) (iovs vs))"
  by (auto simp: vectors_data_def length_concat list_all_iff intro!: arg_cong [where f = sum_list])

lemma pad_to_64bit_data:
  assumes "wf_vectors vs"
  shows "vectors_data (smb2_pad_to_64bit vs) =
     vectors_data vs @ replicate ((8 - length (vectors_data vs) mod 8) mod 8) 0"
    and "wf_vectors (smb2_pad_to_64bit vs)"
proof -
  let ?n = "length (vectors_data vs)"
  have len: "foldl (\<lambda>len iov. len + ucast (iov_len iov)) (0 :: u32) (iovs vs) = of_nat ?n"
    using foldl_len [of 0 "iovs vs"] assms by (simp add: length_vectors_data wf_vectors_def)
  have zero: "(of_nat ?n AND 7 :: u32) = 0 \<longleftrightarrow> ?n mod 8 = 0"
    by (simp add: of_nat_and_7 word_unat_eq_iff unat_of_nat take_bit_nat_def mod_mod_cancel)
  show "vectors_data (smb2_pad_to_64bit vs) = vectors_data vs @ replicate ((8 - ?n mod 8) mod 8) 0"
    using pad_amount [of ?n] 
    by (auto simp: smb2_pad_to_64bit_def Let_def len zero)
       (auto simp: vectors_data_def smb2_add_iovector_buf_def iov_data_def min_def)
  show "wf_vectors (smb2_pad_to_64bit vs)"
    using assms pad_amount [of ?n] 
    by (auto simp: smb2_pad_to_64bit_def Let_def len zero wf_vectors_def smb2_add_iovector_buf_def wf_iovec_def)
qed

section \<open>Vectors over a given buffer\<close>

lemma mk_vec_buf [simp]: "iov_buf (mk_vec b) = b"
  by (simp add: mk_vec_def)

lemma mk_vec_len [simp]: "length b < 2 ^ 64 \<Longrightarrow> unat (iov_len (mk_vec b)) = length b"
  by (simp only: mk_vec_def smb2_iovec.simps unat_of_nat_u64)

lemma mk_vec_len_less [simp]:
  "length b < 2 ^ 64 \<Longrightarrow> iov_len (mk_vec b) < w \<longleftrightarrow> length b < unat w"
  "length b < 2 ^ 64 \<Longrightarrow> w \<le> iov_len (mk_vec b) \<longleftrightarrow> unat w \<le> length b"
  by (simp_all only: word_less_nat_alt word_le_nat_alt mk_vec_len)

lemma wf_mk_vec [simp]: "wf_iovec (mk_vec b)"
  by (simp add: wf_iovec_def mk_vec_def unat_of_nat)

lemma sub_bytes_head [simp]: "n = length h \<Longrightarrow> sub_bytes (h @ t) 0 n = h"
  by (simp add: sub_bytes_def)

lemma sub_bytes_tail [simp]: "length h \<le> off \<Longrightarrow> sub_bytes (h @ t) off n = sub_bytes t (off - length h) n"
  by (simp add: sub_bytes_def)

lemma sub_bytes_Cons1 [simp]: "0 < off \<Longrightarrow> sub_bytes (x # t) off n = sub_bytes t (off - 1) n"
  by (cases off) (auto simp: sub_bytes_def)

lemma hd_sub_bytes [simp]: "0 < n \<Longrightarrow> hd (sub_bytes (x # t) 0 n) = x"
  by (cases n) (auto simp: sub_bytes_def)

lemma le_inv [simp]: "le16toh (htole16 a) = a" "le32toh (htole32 b) = b" "le64toh (htole64 c) = c"
  using f16.dec_enc f32.dec_enc f64.dec_enc by auto

section \<open>Properties\<close>

text \<open>A 32-bit field written inside a vector is read back by the accessor of the same
  offset, the vector stays well formed, and no 16-bit field outside the four bytes changes,
  whether it lies inside the vector or is refused.\<close>

lemma iovec_write_read:
  assumes "wf_iovec v" and "0 \<le> off" and "nat off + 4 \<le> unat (iov_len v)"
  shows "\<exists>v'. smb2_set_uint32 v off x = Some (0, v') \<and> smb2_get_uint32 v' off old = Some (0, x) \<and>
     wf_iovec v' \<and> iov_len v' = iov_len v \<and>
     (\<forall>off' old'. 0 \<le> off' \<and> off' < 2 ^ 31 \<and> (off' + 2 \<le> off \<or> off + 4 \<le> off') \<longrightarrow>
        smb2_get_uint16 v' off' old' = smb2_get_uint16 v off' old')"
proof -
  obtain v' where v': "smb2_set_uint32 v off x = Some (0, v')"
    using f32.set_inside [OF assms] by blast
  moreover have "smb2_get_uint16 v' off' old' = smb2_get_uint16 v off' old'"
    if "0 \<le> off'" "off' < 2 ^ 31" "off' + 2 \<le> off \<or> off + 4 \<le> off'" for off' old'
    using that assms(2) by (intro f32_16.get_set_other [OF assms(1,2) _ _ _ v']) auto
  ultimately show ?thesis
    using f32.get_set_same [OF assms(1,2) v'] f32.set_keeps_wf [OF v' assms(1)] by blast
qed

text \<open>On a vector that owns its bytes no accessor leaves them, for any offset from 0 to the
  largest \<open>int\<close>: it succeeds inside the vector, and outside it returns -1 and changes nothing.\<close>

lemma iovec_access_safe:
  assumes "wf_iovec v" and "0 \<le> off" and "off < 2 ^ 31"
  shows "if nat off + 8 \<le> unat (iov_len v)
    then smb2_get_uint64 v off old = Some (0, le64toh (sub_bytes (iov_buf v) (nat off) 8)) \<and>
         smb2_set_uint64 v off x = Some (0, v\<lparr>iov_buf := put_bytes (iov_buf v) (nat off) (htole64 x)\<rparr>)
    else smb2_get_uint64 v off old = Some (-1, old) \<and> smb2_set_uint64 v off x = Some (-1, v)"
  using assms by (auto simp: f64.get_inside f64.set_inside intro: f64.get_outside f64.set_outside)

text \<open>The bound check adds the signed offset to \<open>size_t\<close>: with the offset -1 it wraps, accepts,
  and the accessor reads the byte before the buffer of every non-empty vector.\<close>

lemma iovec_negative_offset:
  assumes "0 < iov_len v"
  shows "\<not> iov_rejects v (-1) 2 \<and> smb2_get_uint16 v (-1) old = None"
proof -
  have "(word_of_int (-1) + of_nat 2 :: u64) = 1"
    by simp
  then have "\<not> iov_rejects v (-1) 2"
    using assms by (simp add: iov_rejects_def word_less_nat_alt)
  then show ?thesis
    by (simp add: smb2_get_uint16_def iov_load_def mem_read_def)
qed

lemma iovec_negative_offset_witness: "smb2_get_uint16 (mk_vec [1, 2]) (-1) 0 = None"
  using iovec_negative_offset [of "mk_vec [1, 2]" 0] by (simp add: mk_vec_def)

end
