(* ===== verification/Smb2_Types.thy ===== *)
theory Smb2_Types
  imports Smb2_Iovec
begin

text \<open>
  The protocol constants and structs of \<^verbatim>\<open>smb2.h\<close>, \<^verbatim>\<open>NtStatus.h\<close>, \<^verbatim>\<open>DataTypes.h\<close> and
  \<^verbatim>\<open>AppData.h\<close>. Pointers to buffers a reply owns are the bytes they point to, with \<open>None\<close>
  for the null pointer; file handles and application data are shared between PDUs and are
  addresses into the store of the context.
\<close>

section \<open>Error strings\<close>

text \<open>
  An error string is kept as the literal or format string of the source with its numeric
  arguments; the rendering by \<^verbatim>\<open>vsnprintf\<close> is not modelled. \<open>Pre s xs e\<close> is the formatted prefix \<open>s\<close> followed by \<open>e\<close>.
\<close>

datatype err_msg = Msg string "u64 list" | Pre string "u64 list" err_msg

section \<open>Status codes\<close>

abbreviation (input) "SMB2_STATUS_SEVERITY_MASK \<equiv> (0xc0000000 :: u32)"
abbreviation (input) "SMB2_STATUS_SEVERITY_ERROR \<equiv> (0xc0000000 :: u32)"
abbreviation (input) "SMB2_STATUS_SUCCESS \<equiv> (0x00000000 :: u32)"
abbreviation (input) "SMB2_STATUS_PENDING \<equiv> (0x00000103 :: u32)"
abbreviation (input) "SMB2_STATUS_NO_MORE_FILES \<equiv> (0x80000006 :: u32)"
abbreviation (input) "SMB2_STATUS_NO_MORE_EAS \<equiv> (0x80000012 :: u32)"
abbreviation (input) "SMB2_STATUS_INVALID_PARAMETER \<equiv> (0xC000000d :: u32)"
abbreviation (input) "SMB2_STATUS_NO_SUCH_FILE \<equiv> (0xC000000F :: u32)"
abbreviation (input) "SMB2_STATUS_END_OF_FILE \<equiv> (0xC0000011 :: u32)"
abbreviation (input) "SMB2_STATUS_MORE_PROCESSING_REQUIRED \<equiv> (0xC0000016 :: u32)"
abbreviation (input) "SMB2_STATUS_ACCESS_DENIED \<equiv> (0xC0000022 :: u32)"
abbreviation (input) "SMB2_STATUS_OBJECT_NAME_NOT_FOUND \<equiv> (0xC0000034 :: u32)"
abbreviation (input) "SMB2_STATUS_OBJECT_NAME_COLLISION \<equiv> (0xC0000035 :: u32)"
abbreviation (input) "SMB2_STATUS_OBJECT_PATH_NOT_FOUND \<equiv> (0xC000003A :: u32)"
abbreviation (input) "SMB2_STATUS_SHARING_VIOLATION \<equiv> (0xC0000043 :: u32)"
abbreviation (input) "SMB2_STATUS_QUOTA_EXCEEDED \<equiv> (0xC0000044 :: u32)"
abbreviation (input) "SMB2_STATUS_NO_EAS_ON_FILE \<equiv> (0xC0000052 :: u32)"
abbreviation (input) "SMB2_STATUS_LOGON_FAILURE \<equiv> (0xC000006d :: u32)"
abbreviation (input) "SMB2_STATUS_ALLOTTED_SPACE_EXCEEDED \<equiv> (0xC0000099 :: u32)"
abbreviation (input) "SMB2_STATUS_INSUFFICIENT_RESOURCES \<equiv> (0xC000009A :: u32)"
abbreviation (input) "SMB2_STATUS_BAD_NETWORK_NAME \<equiv> (0xC00000CC :: u32)"
abbreviation (input) "SMB2_STATUS_NOT_A_DIRECTORY \<equiv> (0xC0000103 :: u32)"
abbreviation (input) "SMB2_STATUS_FILE_CLOSED \<equiv> (0xC0000128 :: u32)"
abbreviation (input) "SMB2_STATUS_NO_MEMORY \<equiv> (0xC0000017 :: u32)"
abbreviation (input) "SMB2_STATUS_INVALID_CONNECTION \<equiv> (0xC0000140 :: u32)"
abbreviation (input) "SMB2_STATUS_CONNECTION_DISCONNECTED \<equiv> (0xC000020C :: u32)"
abbreviation (input) "SMB2_STATUS_NO_USER_SESSION_KEY \<equiv> (0xC0000202 :: u32)"
abbreviation (input) "SMB2_STATUS_NOT_SUPPORTED \<equiv> (0xC00000BB :: u32)"
abbreviation (input) "SMB2_STATUS_INTERNAL_ERROR \<equiv> (0xABCDfffc :: u32)"
abbreviation (input) "SMB2_STATUS_INVALID_ARGUMENT \<equiv> (0xABCDfffd :: u32)"
abbreviation (input) "SMB2_STATUS_SOCKET_ERROR \<equiv> (0xABCDfffe :: u32)"
abbreviation (input) "SMB2_STATUS_PAYLOAD_FAILED \<equiv> (0xABCDffff :: u32)"

section \<open>Header, commands, dialects\<close>

abbreviation (input) "SMB2_FLAGS_SERVER_TO_REDIR \<equiv> (0x00000001 :: u32)"
abbreviation (input) "SMB2_FLAGS_ASYNC_COMMAND \<equiv> (0x00000002 :: u32)"
abbreviation (input) "SMB2_FLAGS_RELATED_OPERATIONS \<equiv> (0x00000004 :: u32)"
abbreviation (input) "SMB2_FLAGS_SIGNED \<equiv> (0x00000008 :: u32)"

abbreviation (input) "SMB2_NEGOTIATE \<equiv> (0 :: u16)"
abbreviation (input) "SMB2_SESSION_SETUP \<equiv> (1 :: u16)"
abbreviation (input) "SMB2_LOGOFF \<equiv> (2 :: u16)"
abbreviation (input) "SMB2_TREE_CONNECT \<equiv> (3 :: u16)"
abbreviation (input) "SMB2_TREE_DISCONNECT \<equiv> (4 :: u16)"
abbreviation (input) "SMB2_CREATE \<equiv> (5 :: u16)"
abbreviation (input) "SMB2_CLOSE \<equiv> (6 :: u16)"
abbreviation (input) "SMB2_FLUSH \<equiv> (7 :: u16)"
abbreviation (input) "SMB2_READ \<equiv> (8 :: u16)"
abbreviation (input) "SMB2_WRITE \<equiv> (9 :: u16)"
abbreviation (input) "SMB2_IOCTL \<equiv> (11 :: u16)"
abbreviation (input) "SMB2_ECHO \<equiv> (13 :: u16)"
abbreviation (input) "SMB2_QUERY_DIRECTORY \<equiv> (14 :: u16)"
abbreviation (input) "SMB2_QUERY_INFO \<equiv> (16 :: u16)"
abbreviation (input) "SMB2_SET_INFO \<equiv> (17 :: u16)"

abbreviation (input) "SMB2_SPL_SIZE \<equiv> (4 :: nat)"
abbreviation (input) "SMB2_HEADER_SIZE \<equiv> (64 :: nat)"
abbreviation (input) "MAX_CREDITS \<equiv> (1024 :: u32)"

text \<open>
  The union of \<^verbatim>\<open>async\<close> and \<^verbatim>\<open>sync\<close> is eight bytes of storage, \<open>hdr_async_id\<close>; on a
  little-endian host \<^verbatim>\<open>sync.process_id\<close> is its low and \<^verbatim>\<open>sync.tree_id\<close> its high half.
\<close>

record smb2_header =
  hdr_protocol_id :: bytes
  hdr_struct_size :: u16
  hdr_credit_charge :: u16
  hdr_status :: u32
  hdr_command :: u16
  hdr_credit_request_response :: u16
  hdr_flags :: u32
  hdr_next_command :: u32
  hdr_message_id :: u64
  hdr_async_id :: u64
  hdr_session_id :: u64
  hdr_signature :: bytes

definition sync_process_id :: "smb2_header \<Rightarrow> u32" where
  "sync_process_id h = ucast (hdr_async_id h)"

definition sync_tree_id :: "smb2_header \<Rightarrow> u32" where
  "sync_tree_id h = ucast (drop_bit 32 (hdr_async_id h))"

definition mk_sync :: "u32 \<Rightarrow> u32 \<Rightarrow> u64" where
  "mk_sync pid tid = ucast pid OR push_bit 32 (ucast tid)"

definition zero_header :: smb2_header where
  "zero_header = \<lparr>hdr_protocol_id = replicate 4 0, hdr_struct_size = 0, hdr_credit_charge = 0,
     hdr_status = 0, hdr_command = 0, hdr_credit_request_response = 0, hdr_flags = 0,
     hdr_next_command = 0, hdr_message_id = 0, hdr_async_id = 0, hdr_session_id = 0,
     hdr_signature = replicate 16 0\<rparr>"

datatype smb2_negotiate_version =
    SMB2_VERSION_ANY | SMB2_VERSION_ANY2 | SMB2_VERSION_ANY3
  | SMB2_VERSION_MAX_210 | SMB2_VERSION_MAX_300 | SMB2_VERSION_MAX_302 | SMB2_VERSION_MAX_311
  | SMB2_VERSION_0202 | SMB2_VERSION_0210 | SMB2_VERSION_0300 | SMB2_VERSION_0302
  | SMB2_VERSION_0311

fun version_value :: "smb2_negotiate_version \<Rightarrow> u16" where
  "version_value SMB2_VERSION_ANY = 0"
| "version_value SMB2_VERSION_ANY2 = 2"
| "version_value SMB2_VERSION_ANY3 = 3"
| "version_value SMB2_VERSION_MAX_210 = 210"
| "version_value SMB2_VERSION_MAX_300 = 300"
| "version_value SMB2_VERSION_MAX_302 = 302"
| "version_value SMB2_VERSION_MAX_311 = 311"
| "version_value SMB2_VERSION_0202 = 0x0202"
| "version_value SMB2_VERSION_0210 = 0x0210"
| "version_value SMB2_VERSION_0300 = 0x0300"
| "version_value SMB2_VERSION_0302 = 0x0302"
| "version_value SMB2_VERSION_0311 = 0x0311"

datatype smb2_sec = SMB2_SEC_UNDEFINED | SMB2_SEC_NTLMSSP | SMB2_SEC_KRB5

record smb2_file_id =
  persistent_id :: u64
  volatile_id :: u64

section \<open>Replies\<close>

record smb2_error_reply =
  err_context_count :: u8
  err_byte_count :: u32
  err_data :: "bytes option"

record smb2_negotiate_reply =
  neg_security_mode :: u16
  neg_dialect_revision :: u16
  neg_context_count :: u16
  neg_server_guid :: bytes
  neg_capabilities :: u32
  neg_max_transact_size :: u32
  neg_max_read_size :: u32
  neg_max_write_size :: u32
  neg_system_time :: u64
  neg_server_start_time :: u64
  neg_security_buffer_length :: u16
  neg_security_buffer_offset :: u16
  neg_context_offset :: u32
  neg_security_buffer :: "bytes option"

record smb2_session_setup_reply =
  ssr_session_flags :: u16
  ssr_security_buffer_length :: u16
  ssr_security_buffer_offset :: u16
  ssr_security_buffer :: "bytes option"

record smb2_tree_connect_reply =
  tcr_share_type :: u8
  tcr_share_flags :: u32
  tcr_capabilities :: u32
  tcr_maximal_access :: u32

record smb2_create_reply =
  crr_oplock_level :: u8
  crr_flags :: u8
  crr_create_action :: u32
  crr_creation_time :: u64
  crr_last_access_time :: u64
  crr_last_write_time :: u64
  crr_change_time :: u64
  crr_allocation_size :: u64
  crr_end_of_file :: u64
  crr_file_attributes :: u32
  crr_file_id :: smb2_file_id
  crr_create_context_length :: u32
  crr_create_context_offset :: u32

record smb2_close_reply =
  clr_flags :: u16
  clr_creation_time :: u64
  clr_last_access_time :: u64
  clr_last_write_time :: u64
  clr_change_time :: u64
  clr_allocation_size :: u64
  clr_end_of_file :: u64
  clr_file_attributes :: u32

record smb2_query_directory_reply =
  qdr_output_buffer_offset :: u16
  qdr_output_buffer_length :: u32
  qdr_output_buffer :: "bytes option"

record smb2_read_reply =
  rdr_data_offset :: u8
  rdr_data_length :: u32
  rdr_data_remaining :: u32
  rdr_readData :: "bytes option"

record smb2_write_reply =
  wrr_count :: u32
  wrr_remaining :: u32

record smb2_ioctl_reply =
  ior_reserved :: u16
  ior_ctl_code :: u32
  ior_file_id :: smb2_file_id
  ior_input_offset :: u32
  ior_input_count :: u32
  ior_output_offset :: u32
  ior_output_count :: u32
  ior_flags :: u32
  ior_reserved2 :: u32
  ior_output_buffer :: "bytes option"

section \<open>Queried information\<close>

record smb2_file_basic_info =
  bas_creation_time :: u64
  bas_last_access_time :: u64
  bas_last_write_time :: u64
  bas_change_time :: u64
  bas_file_attributes :: u32

record smb2_file_standard_info =
  std_allocation_size :: u64
  std_end_of_file :: u64
  std_number_of_links :: u32
  std_delete_pending :: u8
  std_directory :: u8

record smb2_file_all_info =
  all_basic :: smb2_file_basic_info
  all_standard :: smb2_file_standard_info
  all_index_number :: u64
  all_ea_size :: u32
  all_access_flags :: u32
  all_current_byte_offset :: u64
  all_mode :: u32
  all_alignment_requirement :: u32

record smb2_file_full_ea_info =
  ea_next_entry_offset :: u32
  ea_flags :: u8
  ea_name_length :: u8
  ea_value_length :: u16
  ea_name :: bytes
  ea_value :: bytes

record smb2_file_extended_info =
  ext_name :: bytes
  ext_name_len :: u8
  ext_value :: bytes
  ext_value_len :: u16

record smb2_file_full_stream_info =
  str_next_entry_offset :: u32
  str_name_length :: u32
  str_size :: u64
  str_allocation_size :: u64
  str_name :: bytes

record smb2_file_stream_info =
  stm_name :: bytes
  stm_size :: u64
  stm_allocation_size :: u64

record smb2_file_fs_size_info =
  fsz_total_allocation_units :: u64
  fsz_available_allocation_units :: u64
  fsz_sectors_per_allocation_unit :: u32
  fsz_bytes_per_sector :: u32

record smb2_file_fs_device_info =
  fsd_device_type :: u32
  fsd_characteristics :: u32

record smb2_file_fs_control_info =
  fsc_free_space_start_filtering :: u64
  fsc_free_space_threshold :: u64
  fsc_free_space_stop_filtering :: u64
  fsc_default_quota_threshold :: u64
  fsc_default_quota_limit :: u64
  fsc_file_system_control_flags :: u32

record smb2_file_fs_full_size_info =
  fsf_total_allocation_units :: u64
  fsf_caller_available_allocation_units :: u64
  fsf_actual_available_allocation_units :: u64
  fsf_sectors_per_allocation_unit :: u32
  fsf_bytes_per_sector :: u32

record smb2_file_fs_sector_size_info =
  fss_logical_bytes_per_sector :: u32
  fss_physical_bytes_per_sector_for_atomicity :: u32
  fss_physical_bytes_per_sector_for_performance :: u32
  fss_effective_physical_bytes_per_sector_for_atomicity :: u32
  fss_flags :: u32
  fss_byte_offset_for_sector_alignment :: u32
  fss_byte_offset_for_partition_alignment :: u32

end
