(* ===== verification/Smb2_Unicode.thy ===== *)
theory Smb2_Unicode
  imports Smb2_Base
begin

text \<open>
  The conversions of \<^verbatim>\<open>util.cpp\<close> between UTF-8 and the UCS-2 names of the protocol. A C
  string is the memory from its pointer on; reading past the end of it is undefined, so
  the theorems below say that the terminating NUL always stops the scan. The host is
  little-endian, where \<^verbatim>\<open>htole32\<close> and \<^verbatim>\<open>le32toh\<close> are the identity on 16-bit values.
\<close>

section \<open>Bits of small words\<close>

lemma less_16_cases: "i < (16 :: nat) \<longleftrightarrow> i \<in> {0, 1, 2, 3, 4, 5, 6, 7, 8, 9, 10, 11, 12, 13, 14, 15}"
  by simp presburger

lemma less_8_cases: "i < (8 :: nat) \<longleftrightarrow> i \<in> {0, 1, 2, 3, 4, 5, 6, 7}"
  by simp presburger

lemma u16_eqI: "(\<And>i. i < 16 \<Longrightarrow> bit a i = bit b i) \<Longrightarrow> a = (b :: u16)"
  by (rule bit_word_eqI) simp

lemma u8_eqI: "(\<And>i. i < 8 \<Longrightarrow> bit a i = bit b i) \<Longrightarrow> a = (b :: u8)"
  by (rule bit_word_eqI) simp

lemma not_bit_u16: "16 \<le> n \<Longrightarrow> \<not> bit (c :: u16) n"
  using bit_imp_le_length [of c n] by auto

lemma u16_below_bits:
  assumes "unat (c :: u16) < 2 ^ k" and "k \<le> n"
  shows "\<not> bit c n"
proof -
  have "(2 :: nat) ^ k \<le> 2 ^ n"
    using assms(2) by simp
  then have "unat c < 2 ^ n"
    using assms(1) by linarith
  then have "\<not> bit (unat c) n"
    by (simp add: bit_iff_odd)
  then show ?thesis
    by (simp add: bit_unsigned_iff)
qed

lemma and_0x80: "(c :: u8) AND 0x80 \<noteq> 0 \<longleftrightarrow> bit c 7"
proof -
  have "c AND 0x80 = (if bit c 7 then 0x80 else 0)"
    by (rule u8_eqI) (unfold less_8_cases, elim insertE emptyE; simp add: bit_simps)
  then show ?thesis by simp
qed

lemma unat_double_less:
  assumes "bit (c :: u8) 7"
  shows "unat (c * 2) < unat c"
proof -
  have c: "unat c < 256"
    using unsigned_less [of c] by simp
  have "bit (unat c) 7"
    using assms by (simp add: bit_unsigned_iff)
  then have "odd (unat c div 128)"
    by (simp add: bit_iff_odd)
  then have "unat c \<ge> 128"
    by (cases "unat c < 128") auto
  moreover have "unat (c * 2) = (unat c * 2) mod 256"
    by (simp add: unat_word_ariths)
  moreover have "(unat c * 2) mod 256 = unat c * 2 - 256"
    using c \<open>unat c \<ge> 128\<close> by (simp add: mod_if [of "unat c * 2"] mod_less)
  ultimately show ?thesis using c by linarith
qed

section \<open>UTF-8 to UCS-2\<close>

function l1_loop :: "u8 \<Rightarrow> nat \<Rightarrow> nat" where
  "l1_loop c i = (if c AND 0x80 \<noteq> 0 then l1_loop (push_bit 1 c) (i + 1) else i)"
  by pat_completeness auto
termination
  by (relation "measure (\<lambda>(c, i). unat c)") (auto simp: and_0x80 unat_double_less)

declare l1_loop.simps [simp del]

definition l1 :: "u8 \<Rightarrow> nat" where
  "l1 c = l1_loop c 0"

fun utf8_continuation :: "nat \<Rightarrow> bytes \<Rightarrow> u16 \<Rightarrow> (int \<times> u16 \<times> bytes) option" where
  "utf8_continuation 0 utf8 cp = Some (0, cp, utf8)"
| "utf8_continuation (Suc l) [] cp = None"
| "utf8_continuation (Suc l) (c # utf8) cp =
     (if l1 c \<noteq> 1 then Some (-1, cp, utf8)
      else utf8_continuation l utf8 (push_bit 6 cp OR ucast (c AND 0x3f)))"

fun validate_utf8_cp :: "bytes \<Rightarrow> u16 \<Rightarrow> (int \<times> u16 \<times> bytes) option" where
  "validate_utf8_cp [] cp = None"
| "validate_utf8_cp (c # utf8) cp =
     (let l = l1 c in
      if l = 0 then Some (0, ucast (c AND 0x7f), utf8)
      else if l = 1 then Some (-1, cp, utf8)
      else if l = 2 \<or> l = 3 then utf8_continuation (l - 1) utf8 (ucast (c AND 0x1f))
      else Some (-1, cp, utf8))"

lemma utf8_continuation_length:
  "utf8_continuation l u cp = Some (rc, cp', u') \<Longrightarrow> length u' \<le> length u"
  by (induction l u cp rule: utf8_continuation.induct) (auto split: if_splits)

lemma validate_utf8_cp_length:
  "validate_utf8_cp u cp = Some (rc, cp', u') \<Longrightarrow> length u' < length u"
  by (induction u cp rule: validate_utf8_cp.induct)
    (auto simp: Let_def less_Suc_eq_le split: if_splits dest: utf8_continuation_length)

function validate_utf8_str_loop :: "bytes \<Rightarrow> u16 \<Rightarrow> int \<Rightarrow> int option" where
  "validate_utf8_str_loop u cp i =
     (case u of [] \<Rightarrow> None
      | c # _ \<Rightarrow>
        if c = 0 then Some i
        else (case validate_utf8_cp u cp of None \<Rightarrow> None
              | Some (rc, cp', u') \<Rightarrow>
                  if rc < 0 then Some (-1) else validate_utf8_str_loop u' cp' (i + 1)))"
  by pat_completeness auto
termination
  by (relation "measure (\<lambda>(u, cp, i). length u)")
    (auto simp del: validate_utf8_cp.simps dest!: validate_utf8_cp_length)

declare validate_utf8_str_loop.simps [simp del]

definition validate_utf8_str :: "bytes \<Rightarrow> int option" where
  "validate_utf8_str utf8 = validate_utf8_str_loop utf8 0 0"

text \<open>The second pass fills \<^verbatim>\<open>ucs2->val\<close> and ignores the return code.\<close>

fun ucs2_fill :: "nat \<Rightarrow> bytes \<Rightarrow> u16 list option" where
  "ucs2_fill 0 utf8 = Some []"
| "ucs2_fill (Suc n) utf8 =
     do { (rc, cp, utf8') \<leftarrow> validate_utf8_cp utf8 0;
          vals \<leftarrow> ucs2_fill n utf8';
          Some (cp # vals) }"

definition utf8_to_ucs2 :: "bytes \<Rightarrow> u16 list option option" where
  \<comment> \<open>\<open>Some None\<close> is the null pointer that reports an invalid string\<close>
  "utf8_to_ucs2 utf8 =
     do { len \<leftarrow> validate_utf8_str utf8;
          if len < 0 then Some None
          else do { val \<leftarrow> ucs2_fill (nat len) utf8; Some (Some val) } }"

section \<open>UCS-2 to UTF-8\<close>

definition ucs2_cp_size :: "u16 \<Rightarrow> nat" where
  "ucs2_cp_size cp = (if cp > 0x07ff then 3 else if cp > 0x007f then 2 else 1)"

definition ucs2_cp_bytes :: "u16 \<Rightarrow> bytes" where
  "ucs2_cp_bytes c =
     (let l = ucs2_cp_size c in
      if l = 3 then [ucast (0xe0 OR drop_bit 12 c),
                     ucast (0x80 OR (drop_bit 6 c AND 0xbf)),
                     ucast (0x80 OR (c AND 0xbf))]
      else if l = 2 then [ucast (0xc0 OR drop_bit 6 c), ucast (0x80 OR (c AND 0xbf))]
      else [ucast c])"

definition ucs2_to_utf8 :: "u8 \<Rightarrow> u16 list \<Rightarrow> int \<Rightarrow> bytes option" where
  \<comment> \<open>\<open>junk\<close> is what \<^verbatim>\<open>malloc\<close> leaves in the block. The lengths are \<^verbatim>\<open>int\<close> in the code and unbounded here:
      the two agree for strings of fewer than \<open>2\<^sup>3\<^sup>1\<close> bytes in UTF-8\<close>
  "ucs2_to_utf8 junk ucs2 ucs2_len =
     (if ucs2_len > int (length ucs2) then None
      else let cs = take (nat ucs2_len) ucs2;
               utf8_len = foldl (\<lambda>n c. n + ucs2_cp_size c) 1 cs
           in do { str \<leftarrow> mem_write (replicate utf8_len junk) (int utf8_len - 1) [0];
                   mem_write str 0 (concat (map ucs2_cp_bytes cs)) })"

section \<open>Leading ones\<close>

lemma bit_double_u8: "bit (c * 2 :: u8) i \<longleftrightarrow> 0 < i \<and> i < 8 \<and> bit c (i - 1)"
  using bit_double_iff [of c i] by (auto simp: mult.commute)

lemma l1_loop_step: "l1_loop c i = (if bit c 7 then l1_loop (c * 2) (i + 1) else i)"
  by (subst l1_loop.simps) (simp add: and_0x80)

lemma l1_loop_ge: "i \<le> l1_loop c i"
proof (induction c i rule: l1_loop.induct)
  case (1 c i)
  show ?case
    using 1 by (subst l1_loop.simps) (auto split: if_splits)
qed

lemma l1_cases:
  "l1 c = (if \<not> bit c 7 then 0 else if \<not> bit c 6 then 1 else if \<not> bit c 5 then 2
           else if \<not> bit c 4 then 3 else l1_loop (c * 2 * 2 * 2 * 2) 4)"
proof -
  have "bit (c * 2) 7 = bit c 6"
    by (simp only: bit_double_u8) simp
  moreover have "bit (c * 2 * 2) 7 = bit c 5"
    by (simp only: bit_double_u8) simp
  moreover have "bit (c * 2 * 2 * 2) 7 = bit c 4"
    by (simp only: bit_double_u8) simp
  ultimately show ?thesis
    unfolding l1_def l1_loop_step [of c 0] l1_loop_step [of "c * 2" "0 + 1"]
      l1_loop_step [of "c * 2 * 2" "0 + 1 + 1"] l1_loop_step [of "c * 2 * 2 * 2" "0 + 1 + 1 + 1"]
    by (simp add: eval_nat_numeral)
qed

lemma l1_ge_4: "bit c 7 \<Longrightarrow> bit c 6 \<Longrightarrow> bit c 5 \<Longrightarrow> bit c 4 \<Longrightarrow> 4 \<le> l1 c"
  by (simp only: l1_cases) (simp add: l1_loop_ge)

lemma l1_iff [simp]:
  "l1 c = 0 \<longleftrightarrow> \<not> bit c 7"
  "l1 c = Suc 0 \<longleftrightarrow> bit c 7 \<and> \<not> bit c 6"
  "l1 c = 2 \<longleftrightarrow> bit c 7 \<and> bit c 6 \<and> \<not> bit c 5"
  "l1 c = 3 \<longleftrightarrow> bit c 7 \<and> bit c 6 \<and> bit c 5 \<and> \<not> bit c 4"
  using l1_ge_4 [of c] by (auto simp: l1_cases split: if_splits)

lemma l1_nul [simp]: "l1 0 = 0"
  by simp

section \<open>The scan stops at the terminating NUL\<close>

lemma utf8_continuation_nul:
  assumes "0 \<in> set u"
  shows "\<exists>rc cp' u'. utf8_continuation l u cp = Some (rc, cp', u') \<and> (rc = 0 \<longrightarrow> 0 \<in> set u')"
  using assms
proof (induction l u cp rule: utf8_continuation.induct)
  case (3 l c u cp)
  show ?case
  proof (cases "l1 c = 1")
    case True
    then have "c \<noteq> 0" by auto
    with 3 True show ?thesis by auto
  qed simp
qed auto

lemma utf8_continuation_rc:
  "utf8_continuation l u cp = Some (rc, cp', u') \<Longrightarrow> rc = 0 \<or> rc = -1"
  by (induction l u cp rule: utf8_continuation.induct) (auto split: if_splits)

lemma validate_utf8_cp_nul:
  assumes "0 \<in> set u" and "hd u \<noteq> 0"
  shows "\<exists>rc cp' u'. validate_utf8_cp u cp = Some (rc, cp', u') \<and> (0 \<le> rc \<longrightarrow> 0 \<in> set u')"
proof -
  from assms obtain c r where u: "u = c # r" and r: "0 \<in> set r"
    by (cases u) auto
  have "\<exists>rc cp' u'. utf8_continuation l r cp'' = Some (rc, cp', u') \<and> (0 \<le> rc \<longrightarrow> 0 \<in> set u')" for l cp''
    using utf8_continuation_nul [OF r, of l cp''] utf8_continuation_rc by fastforce
  then show ?thesis
    using r by (auto simp: u Let_def)
qed

section \<open>Code points\<close>

lemma ucs2_cp_bytes_3:
  assumes "0x07ff < c"
  shows "validate_utf8_cp (ucs2_cp_bytes c @ rest) cp = Some (0, c, rest)"
proof -
  let ?b0 = "ucast (0xe0 OR drop_bit 12 c) :: u8"
  let ?b1 = "ucast (0x80 OR (drop_bit 6 c AND 0xbf)) :: u8"
  let ?b2 = "ucast (0x80 OR (c AND 0xbf)) :: u8"
  have b: "ucs2_cp_bytes c = [?b0, ?b1, ?b2]"
    using assms by (simp add: ucs2_cp_bytes_def ucs2_cp_size_def)
  have "l1 ?b0 = 3" "l1 ?b1 = 1" "l1 ?b2 = 1"
    by (simp_all add: bit_simps not_bit_u16)
  moreover have "push_bit 6 (push_bit 6 (ucast (?b0 AND 0x1f)) OR ucast (?b1 AND 0x3f)) OR
      ucast (?b2 AND 0x3f) = c"
    by (rule u16_eqI) (unfold less_16_cases, elim insertE emptyE; simp add: bit_simps)
  ultimately show ?thesis
    by (simp add: b Let_def numeral_2_eq_2 numeral_3_eq_3 del: l1_iff)
qed

lemma ucs2_cp_bytes_2:
  assumes "0x007f < c" and "c \<le> 0x07ff"
  shows "validate_utf8_cp (ucs2_cp_bytes c @ rest) cp = Some (0, c, rest)"
proof -
  let ?b0 = "ucast (0xc0 OR drop_bit 6 c) :: u8"
  let ?b1 = "ucast (0x80 OR (c AND 0xbf)) :: u8"
  have b: "ucs2_cp_bytes c = [?b0, ?b1]"
    using assms by (simp add: ucs2_cp_bytes_def ucs2_cp_size_def)
  have hi: "\<not> bit c 11" "\<not> bit c 12" "\<not> bit c 13" "\<not> bit c 14" "\<not> bit c 15"
    using u16_below_bits [of c 11] assms(2) by (simp_all add: word_le_nat_alt)
  then have "l1 ?b0 = 2" "l1 ?b1 = 1"
    by (simp_all add: bit_simps not_bit_u16)
  moreover have "push_bit 6 (ucast (?b0 AND 0x1f)) OR ucast (?b1 AND 0x3f) = c"
    by (rule u16_eqI) (unfold less_16_cases, elim insertE emptyE; simp add: bit_simps hi)
  ultimately show ?thesis
    by (simp add: b Let_def numeral_2_eq_2 del: l1_iff)
qed

lemma ucs2_cp_bytes_1:
  assumes "c \<le> 0x007f"
  shows "validate_utf8_cp (ucs2_cp_bytes c @ rest) cp = Some (0, c, rest)"
proof -
  have b: "ucs2_cp_bytes c = [ucast c]"
    using assms by (simp add: ucs2_cp_bytes_def ucs2_cp_size_def word_le_nat_alt word_less_nat_alt)
  have hi: "\<not> bit c n" if "7 \<le> n" for n
    using u16_below_bits [of c 7 n] assms that by (simp add: word_le_nat_alt)
  then have "l1 (ucast c) = 0"
    by (simp add: bit_simps)
  moreover have "ucast (ucast c AND 0x7f :: u8) = c"
    by (rule u16_eqI) (unfold less_16_cases, elim insertE emptyE; simp add: bit_simps hi)
  ultimately show ?thesis
    by (simp add: b del: l1_iff)
qed


lemma ucs2_cp_roundtrip: "validate_utf8_cp (ucs2_cp_bytes c @ rest) cp = Some (0, c, rest)"
  using ucs2_cp_bytes_1 ucs2_cp_bytes_2 ucs2_cp_bytes_3
  by (metis word_less_nat_alt word_le_nat_alt linorder_not_less)

lemma length_ucs2_cp_bytes: "length (ucs2_cp_bytes c) = ucs2_cp_size c"
  by (simp add: ucs2_cp_bytes_def ucs2_cp_size_def Let_def)

lemma hd_ucs2_cp_bytes:
  assumes "c \<noteq> 0"
  shows "ucs2_cp_bytes c \<noteq> []" and "hd (ucs2_cp_bytes c) \<noteq> 0"
proof -
  show ne: "ucs2_cp_bytes c \<noteq> []"
    by (simp add: ucs2_cp_bytes_def Let_def)
  show "hd (ucs2_cp_bytes c) \<noteq> 0"
  proof
    assume "hd (ucs2_cp_bytes c) = 0"
    then obtain r where "ucs2_cp_bytes c = 0 # r"
      using ne by (cases "ucs2_cp_bytes c") auto
    then have "validate_utf8_cp (0 # r @ []) 0 = Some (0, c, [])"
      using ucs2_cp_roundtrip [of c "[]" 0] by simp
    then show False using assms by simp
  qed
qed

section \<open>The two passes agree\<close>

lemma validate_utf8_cp_indep:
  "validate_utf8_cp u cp = Some (rc, cp', u') \<Longrightarrow> 0 \<le> rc \<Longrightarrow> validate_utf8_cp u x = Some (rc, cp', u')"
  by (cases u) (auto simp: Let_def split: if_splits)

lemma validate_utf8_str_loop_defined:
  "0 \<in> set u \<Longrightarrow> 0 \<le> i \<Longrightarrow>
   \<exists>n. validate_utf8_str_loop u cp i = Some n \<and>
     (0 \<le> n \<longrightarrow> i \<le> n \<and> (\<exists>vals. ucs2_fill (nat (n - i)) u = Some vals))"
proof (induction u cp i rule: validate_utf8_str_loop.induct)
  case (1 u cp i)
  show ?case
  proof (cases "hd u = 0")
    case True
    with 1(2) show ?thesis
      by (cases u) (auto simp: validate_utf8_str_loop.simps [of "0 # _"])
  next
    case False
    then obtain c r where u: "u = c # r" and c: "c \<noteq> 0"
      using 1(2) by (cases u) auto
    from validate_utf8_cp_nul [OF 1(2) False, of cp] obtain rc cp' u' where
      v: "validate_utf8_cp u cp = Some (rc, cp', u')" and nul: "0 \<le> rc \<longrightarrow> 0 \<in> set u'"
      by blast
    have step: "validate_utf8_str_loop u cp i =
        (if rc < 0 then Some (-1) else validate_utf8_str_loop u' cp' (i + 1))"
      using c v by (subst validate_utf8_str_loop.simps) (simp add: u del: validate_utf8_cp.simps)
    show ?thesis
    proof (cases "rc < 0")
      case True
      with step show ?thesis by simp
    next
      case rc: False
      then obtain n where n: "validate_utf8_str_loop u' cp' (i + 1) = Some n"
        and fill: "0 \<le> n \<longrightarrow> i + 1 \<le> n \<and> (\<exists>vals. ucs2_fill (nat (n - (i + 1))) u' = Some vals)"
        using 1(1) [OF u c v refl refl] nul 1(3) by fastforce
      have v0: "validate_utf8_cp u 0 = Some (rc, cp', u')"
        using validate_utf8_cp_indep [OF v] rc by simp
      have "nat (n - i) = Suc (nat (n - (i + 1)))" if "i + 1 \<le> n"
        using that by simp
      then show ?thesis
        using n fill rc step v0 by (auto simp del: validate_utf8_cp.simps)
    qed
  qed
qed

lemma validate_concat:
  assumes "0 \<notin> set cs"
  shows "validate_utf8_str_loop (concat (map ucs2_cp_bytes cs) @ [0]) cp i = Some (i + int (length cs))"
    and "ucs2_fill (length cs) (concat (map ucs2_cp_bytes cs) @ [0]) = Some cs"
  using assms
proof (induction cs arbitrary: cp i)
  case Nil
  { case 1 then show ?case by (simp add: validate_utf8_str_loop.simps) }
  { case 2 then show ?case by simp }
next
  case (Cons c cs)
  let ?r = "concat (map ucs2_cp_bytes cs) @ [0]"
  have c: "c \<noteq> 0" if "0 \<notin> set (c # cs)"
    using that by auto
  have v: "validate_utf8_cp (ucs2_cp_bytes c @ ?r) x = Some (0, c, ?r)" for x
    by (rule ucs2_cp_roundtrip)
  { case 1
    then obtain b bs where b: "ucs2_cp_bytes c = b # bs" and "b \<noteq> 0"
      using hd_ucs2_cp_bytes [OF c] by (cases "ucs2_cp_bytes c") auto
    then have "validate_utf8_str_loop (ucs2_cp_bytes c @ ?r) cp i = validate_utf8_str_loop ?r c (i + 1)"
      using v [of cp] by (subst validate_utf8_str_loop.simps) (simp del: validate_utf8_cp.simps)
    then show ?case using Cons(1) [of c "i + 1"] 1 by simp }
  { case 2
    then show ?case using Cons(2) v [of 0] by (simp del: validate_utf8_cp.simps) }
qed

lemma foldl_cp_size: "foldl (\<lambda>n c. n + ucs2_cp_size c) k cs = k + length (concat (map ucs2_cp_bytes cs))"
  by (induction cs arbitrary: k) (auto simp: length_ucs2_cp_bytes)

section \<open>Properties\<close>

text \<open>C39. The conversion of any NUL-terminated string to UCS-2 is defined: neither of its two
  passes reads past the terminator, even when the string ends inside a multi-byte
  sequence.
\<close>

theorem utf8_to_ucs2_memory_safe:
  assumes "0 \<in> set utf8"
  shows "utf8_to_ucs2 utf8 \<noteq> None"
proof -
  obtain n where "validate_utf8_str utf8 = Some n"
    and "0 \<le> n \<longrightarrow> (\<exists>vals. ucs2_fill (nat n) utf8 = Some vals)"
    using validate_utf8_str_loop_defined [OF assms, of 0 0] by (auto simp: validate_utf8_str_def)
  then show ?thesis
    by (auto simp: utf8_to_ucs2_def)
qed

theorem utf8_to_ucs2_memory_safe_witness:
  "(0 :: u8) \<in> set [0x61, 0xe2, 0x82, 0] \<and> utf8_to_ucs2 [0x61, 0xe2, 0x82, 0] \<noteq> None"
  using utf8_to_ucs2_memory_safe [of "[0x61, 0xe2, 0x82, 0]"] by simp

text \<open>C40. A UCS-2 string without NUL code points survives the way through UTF-8: the buffer
  that \<^verbatim>\<open>ucs2_to_utf8\<close> allocates is filled exactly up to its terminator, whatever was in
  it before, and \<^verbatim>\<open>utf8_to_ucs2\<close> gives the same code points back.
\<close>

theorem ucs2_utf8_roundtrip:
  assumes "0 \<notin> set cs"
  shows "\<exists>str. ucs2_to_utf8 junk cs (int (length cs)) = Some (str @ [0]) \<and>
     utf8_to_ucs2 (str @ [0]) = Some (Some cs)"
proof -
  let ?b = "concat (map ucs2_cp_bytes cs)"
  have "ucs2_to_utf8 junk cs (int (length cs)) = Some (?b @ [0])"
    by (simp add: ucs2_to_utf8_def foldl_cp_size mem_write_def put_bytes_def Let_def)
  moreover have "utf8_to_ucs2 (?b @ [0]) = Some (Some cs)"
    using validate_concat(1) [OF assms, of 0 0] validate_concat(2) [OF assms]
    by (simp add: utf8_to_ucs2_def validate_utf8_str_def)
  ultimately show ?thesis by blast
qed

theorem ucs2_utf8_roundtrip_witness:
  "(0 :: u16) \<notin> set [0x41, 0x20ac] \<and>
   (\<exists>str. ucs2_to_utf8 7 [0x41, 0x20ac] (int (length [0x41 :: u16, 0x20ac])) = Some (str @ [0]) \<and>
      utf8_to_ucs2 (str @ [0]) = Some (Some [0x41, 0x20ac]))"
  using ucs2_utf8_roundtrip [of "[0x41, 0x20ac]" 7] by simp

text \<open>\<^verbatim>\<open>validate_utf8_cp\<close> takes overlong sequences, which are not valid UTF-8: the two bytes
  C0 AF become the path separator U+002F.
\<close>

lemma utf8_overlong_separator: "utf8_to_ucs2 [0xc0, 0xaf, 0] = Some (Some [0x002f])"
  by code_simp

end
