(* ===== verification/Smb2_FileData.thy ===== *)
theory Smb2_FileData
  imports Smb2_Types Smb2_Unicode
begin

text \<open>
  The codecs of \<^verbatim>\<open>Smb2DataFile.cpp\<close> and \<^verbatim>\<open>Smb2DataFs.cpp\<close>. A decoder takes the struct it
  fills, with whatever it held before, because an accessor that fails leaves its field
  alone. The loops over entry chains (\<^verbatim>\<open>next_entry_offset\<close>) share \<open>decode_chain\<close>; they carry
  fuel, since the 32-bit offset can wrap around.
\<close>

section \<open>Fixed-size information\<close>

definition smb2_decode_file_basic_info ::
  "smb2_file_basic_info \<Rightarrow> smb2_iovec \<Rightarrow> (int \<times> smb2_file_basic_info) option" where
  "smb2_decode_file_basic_info fs vec =
     do { a \<leftarrow> get64 vec 0 (bas_creation_time fs);
          b \<leftarrow> get64 vec 8 (bas_last_access_time fs);
          c \<leftarrow> get64 vec 16 (bas_last_write_time fs);
          d \<leftarrow> get64 vec 24 (bas_change_time fs);
          e \<leftarrow> get32 vec 32 (bas_file_attributes fs);
          Some (0, \<lparr>bas_creation_time = a, bas_last_access_time = b, bas_last_write_time = c,
                    bas_change_time = d, bas_file_attributes = e\<rparr>) }"

definition smb2_decode_file_standard_info ::
  "smb2_file_standard_info \<Rightarrow> smb2_iovec \<Rightarrow> (int \<times> smb2_file_standard_info) option" where
  "smb2_decode_file_standard_info fs vec =
     do { a \<leftarrow> get64 vec 0 (std_allocation_size fs);
          b \<leftarrow> get64 vec 8 (std_end_of_file fs);
          c \<leftarrow> get32 vec 16 (std_number_of_links fs);
          d \<leftarrow> get8 vec 20 (std_delete_pending fs);
          e \<leftarrow> get8 vec 21 (std_directory fs);
          Some (0, \<lparr>std_allocation_size = a, std_end_of_file = b, std_number_of_links = c,
                    std_delete_pending = d, std_directory = e\<rparr>) }"

definition iov_sub :: "smb2_iovec \<Rightarrow> nat \<Rightarrow> u64 \<Rightarrow> smb2_iovec option" where
  \<comment> \<open>\<^verbatim>\<open>v.buf = &vec->buf[off]; v.len = len\<close>\<close>
  "iov_sub vec off len =
     do { b \<leftarrow> mem_ptr (iov_buf vec) (int off);
          Some \<lparr>iov_buf = b, iov_len = len, iov_free = False\<rparr> }"

definition smb2_decode_file_all_info ::
  "smb2_file_all_info \<Rightarrow> smb2_iovec \<Rightarrow> (int \<times> smb2_file_all_info) option" where
  "smb2_decode_file_all_info fs vec =
     (if iov_len vec < 40 then Some (-1, fs)
      else do { v \<leftarrow> iov_sub vec 0 40;
                (_, bas) \<leftarrow> smb2_decode_file_basic_info (all_basic fs) v;
                let fs1 = fs\<lparr>all_basic := bas\<rparr>;
                if iov_len vec < 64 then Some (-1, fs1)
                else do { w \<leftarrow> iov_sub vec 40 24;
                          (_, std) \<leftarrow> smb2_decode_file_standard_info (all_standard fs1) w;
                          a \<leftarrow> get64 vec 64 (all_index_number fs1);
                          b \<leftarrow> get32 vec 72 (all_ea_size fs1);
                          c \<leftarrow> get32 vec 76 (all_access_flags fs1);
                          d \<leftarrow> get64 vec 80 (all_current_byte_offset fs1);
                          e \<leftarrow> get32 vec 88 (all_mode fs1);
                          f \<leftarrow> get32 vec 92 (all_alignment_requirement fs1);
                          Some (0, \<lparr>all_basic = bas, all_standard = std, all_index_number = a,
                                    all_ea_size = b, all_access_flags = c,
                                    all_current_byte_offset = d, all_mode = e,
                                    all_alignment_requirement = f\<rparr>) } })"

definition smb2_decode_file_fs_size_info ::
  "smb2_file_fs_size_info \<Rightarrow> smb2_iovec \<Rightarrow> (int \<times> smb2_file_fs_size_info) option" where
  "smb2_decode_file_fs_size_info fs vec =
     (if iov_len vec < 24 then Some (-1, fs)
      else do { a \<leftarrow> get64 vec 0 (fsz_total_allocation_units fs);
                b \<leftarrow> get64 vec 8 (fsz_available_allocation_units fs);
                c \<leftarrow> get32 vec 16 (fsz_sectors_per_allocation_unit fs);
                d \<leftarrow> get32 vec 20 (fsz_bytes_per_sector fs);
                Some (0, \<lparr>fsz_total_allocation_units = a, fsz_available_allocation_units = b,
                          fsz_sectors_per_allocation_unit = c, fsz_bytes_per_sector = d\<rparr>) })"

definition smb2_decode_file_fs_device_info ::
  "smb2_file_fs_device_info \<Rightarrow> smb2_iovec \<Rightarrow> (int \<times> smb2_file_fs_device_info) option" where
  "smb2_decode_file_fs_device_info fs vec =
     (if iov_len vec < 8 then Some (-1, fs)
      else do { a \<leftarrow> get32 vec 0 (fsd_device_type fs);
                b \<leftarrow> get32 vec 4 (fsd_characteristics fs);
                Some (0, \<lparr>fsd_device_type = a, fsd_characteristics = b\<rparr>) })"

definition smb2_decode_file_fs_control_info ::
  "smb2_file_fs_control_info \<Rightarrow> smb2_iovec \<Rightarrow> (int \<times> smb2_file_fs_control_info) option" where
  "smb2_decode_file_fs_control_info fs vec =
     (if iov_len vec < 48 then Some (-1, fs)
      else do { a \<leftarrow> get64 vec 0 (fsc_free_space_start_filtering fs);
                b \<leftarrow> get64 vec 8 (fsc_free_space_threshold fs);
                c \<leftarrow> get64 vec 16 (fsc_free_space_stop_filtering fs);
                d \<leftarrow> get64 vec 24 (fsc_default_quota_threshold fs);
                e \<leftarrow> get64 vec 32 (fsc_default_quota_limit fs);
                f \<leftarrow> get32 vec 40 (fsc_file_system_control_flags fs);
                Some (0, \<lparr>fsc_free_space_start_filtering = a, fsc_free_space_threshold = b,
                          fsc_free_space_stop_filtering = c, fsc_default_quota_threshold = d,
                          fsc_default_quota_limit = e, fsc_file_system_control_flags = f\<rparr>) })"

definition smb2_decode_file_fs_full_size_info ::
  "smb2_file_fs_full_size_info \<Rightarrow> smb2_iovec \<Rightarrow> (int \<times> smb2_file_fs_full_size_info) option" where
  "smb2_decode_file_fs_full_size_info fs vec =
     (if iov_len vec < 32 then Some (-1, fs)
      else do { a \<leftarrow> get64 vec 0 (fsf_total_allocation_units fs);
                b \<leftarrow> get64 vec 8 (fsf_caller_available_allocation_units fs);
                c \<leftarrow> get64 vec 16 (fsf_actual_available_allocation_units fs);
                d \<leftarrow> get32 vec 24 (fsf_sectors_per_allocation_unit fs);
                e \<leftarrow> get32 vec 28 (fsf_bytes_per_sector fs);
                Some (0, \<lparr>fsf_total_allocation_units = a,
                          fsf_caller_available_allocation_units = b,
                          fsf_actual_available_allocation_units = c,
                          fsf_sectors_per_allocation_unit = d, fsf_bytes_per_sector = e\<rparr>) })"

definition smb2_decode_file_fs_sector_size_info ::
  "smb2_file_fs_sector_size_info \<Rightarrow> smb2_iovec \<Rightarrow> (int \<times> smb2_file_fs_sector_size_info) option"
  where
  "smb2_decode_file_fs_sector_size_info fs vec =
     (if iov_len vec < 28 then Some (-1, fs)
      else do { a \<leftarrow> get32 vec 0 (fss_logical_bytes_per_sector fs);
                b \<leftarrow> get32 vec 4 (fss_physical_bytes_per_sector_for_atomicity fs);
                c \<leftarrow> get32 vec 8 (fss_physical_bytes_per_sector_for_performance fs);
                d \<leftarrow> get32 vec 12 (fss_effective_physical_bytes_per_sector_for_atomicity fs);
                e \<leftarrow> get32 vec 16 (fss_flags fs);
                f \<leftarrow> get32 vec 20 (fss_byte_offset_for_sector_alignment fs);
                g \<leftarrow> get32 vec 24 (fss_byte_offset_for_partition_alignment fs);
                Some (0, \<lparr>fss_logical_bytes_per_sector = a,
                          fss_physical_bytes_per_sector_for_atomicity = b,
                          fss_physical_bytes_per_sector_for_performance = c,
                          fss_effective_physical_bytes_per_sector_for_atomicity = d,
                          fss_flags = e, fss_byte_offset_for_sector_alignment = f,
                          fss_byte_offset_for_partition_alignment = g\<rparr>) })"

section \<open>Chains of entries\<close>

datatype 'e chain_result = ChainError err_msg "'e list" | ChainDone "'e list" | ChainFuel

text \<open>
  The loop \<^verbatim>\<open>do { .. offset += fs.next_entry_offset; } while (fs.next_entry_offset)\<close>. The
  struct \<open>fs\<close> lives outside the loop; \<open>dec\<close> fills it from the rest of the vector.
\<close>

fun decode_chain ::
  "('fs \<Rightarrow> smb2_iovec \<Rightarrow> (err_msg + 'fs) option) \<Rightarrow> ('fs \<Rightarrow> u32) \<Rightarrow> ('fs \<Rightarrow> 'e option) \<Rightarrow>
   err_msg \<Rightarrow> nat \<Rightarrow> smb2_iovec \<Rightarrow> u32 \<Rightarrow> 'fs \<Rightarrow> 'e list \<Rightarrow> 'e chain_result option" where
  "decode_chain dec nxt emit malformed 0 vec offset fs acc = Some ChainFuel"
| "decode_chain dec nxt emit malformed (Suc fuel) vec offset fs acc =
     (if ucast offset \<ge> iov_len vec then Some (ChainError malformed acc)
      else do { tmp_vec \<leftarrow> iov_sub vec (unat offset) (iov_len vec - ucast offset);
                r \<leftarrow> dec fs tmp_vec;
                case r of Inl e \<Rightarrow> Some (ChainError e acc)
                | Inr fs' \<Rightarrow>
                    do { ent \<leftarrow> emit fs';
                         if nxt fs' = 0 then Some (ChainDone (acc @ [ent]))
                         else decode_chain dec nxt emit malformed fuel vec (offset + nxt fs') fs'
                                (acc @ [ent]) } })"

definition smb2_decode_file_full_ea_info ::
  "smb2_file_full_ea_info \<Rightarrow> smb2_iovec \<Rightarrow> (err_msg + smb2_file_full_ea_info) option" where
  "smb2_decode_file_full_ea_info info vec =
     do { nx \<leftarrow> get32 vec 0 (ea_next_entry_offset info);
          fl \<leftarrow> get8 vec 4 (ea_flags info);
          nl \<leftarrow> get8 vec 5 (ea_name_length info);
          vl \<leftarrow> get16 vec 6 (ea_value_length info);
          nm \<leftarrow> mem_read (iov_buf vec) 8 (unat nl);
          vlu \<leftarrow> mem_read (iov_buf vec) (8 + uint nl) (unat vl);
          Some (Inr \<lparr>ea_next_entry_offset = nx, ea_flags = fl, ea_name_length = nl,
                     ea_value_length = vl, ea_name = nm @ [0], ea_value = vlu @ [0]\<rparr>) }"

definition ea_node :: "smb2_file_full_ea_info \<Rightarrow> smb2_file_extended_info option" where
  "ea_node e = Some \<lparr>ext_name = ea_name e, ext_name_len = ea_name_length e,
                     ext_value = ea_value e, ext_value_len = ea_value_length e\<rparr>"

definition smb2_decode_file_extended_info ::
  "nat \<Rightarrow> smb2_file_full_ea_info \<Rightarrow> smb2_iovec \<Rightarrow> smb2_file_extended_info chain_result option" where
  \<comment> \<open>\<open>full_ea_info\<close> is the uninitialised local of that name\<close>
  "smb2_decode_file_extended_info fuel full_ea_info vec =
     decode_chain smb2_decode_file_full_ea_info ea_next_entry_offset ea_node
       (Msg ''smb2_decode_file_extended_info:Malformed query reply'' []) fuel vec 0 full_ea_info []"

definition smb2_decode_file_full_stream_info ::
  "u8 \<Rightarrow> smb2_iovec \<Rightarrow> (err_msg + smb2_file_full_stream_info) option" where
  \<comment> \<open>the struct is cleared before each call; \<open>junk\<close> fills the block of \<^verbatim>\<open>ucs2_to_utf8\<close>\<close>
  "smb2_decode_file_full_stream_info junk vec =
     do { nx \<leftarrow> get32 vec 0 0;
          nl \<leftarrow> get32 vec 4 0;
          sz \<leftarrow> get64 vec 8 0;
          al \<leftarrow> get64 vec 16 0;
          raw \<leftarrow> mem_read (iov_buf vec) 24 (2 * (unat nl div 2));
          nm \<leftarrow> ucs2_to_utf8 junk (map (\<lambda>i. le16toh (sub_bytes raw (2 * i) 2)) [0..<unat nl div 2])
                 (int (unat nl div 2));
          Some (Inr \<lparr>str_next_entry_offset = nx, str_name_length = nl, str_size = sz,
                     str_allocation_size = al, str_name = nm\<rparr>) }"

definition stream_node :: "smb2_file_full_stream_info \<Rightarrow> smb2_file_stream_info option" where
  \<comment> \<open>\<^verbatim>\<open>memset(node->name, 0, 4096); memcpy(node->name, stream_name, stream_name_length/2)\<close>\<close>
  "stream_node s =
     do { nm \<leftarrow> mem_read (str_name s) 0 (unat (str_name_length s) div 2);
          name \<leftarrow> mem_write (replicate 4096 0) 0 nm;
          Some \<lparr>stm_name = name, stm_size = str_size s, stm_allocation_size = str_allocation_size s\<rparr> }"

definition zero_stream :: smb2_file_full_stream_info where
  "zero_stream = \<lparr>str_next_entry_offset = 0, str_name_length = 0, str_size = 0,
     str_allocation_size = 0, str_name = []\<rparr>"

definition smb2_decode_file_stream_info ::
  "nat \<Rightarrow> u8 \<Rightarrow> smb2_iovec \<Rightarrow> smb2_file_stream_info chain_result option" where
  "smb2_decode_file_stream_info fuel junk vec =
     decode_chain (\<lambda>_. smb2_decode_file_full_stream_info junk) str_next_entry_offset stream_node
       (Msg ''smb2_decode_file_stream_info:Malformed query reply'' []) fuel vec 0 zero_stream []"

section \<open>Encoding extended attributes\<close>

text \<open>
  One turn of the loop writes the eight header bytes through the struct overlay, the name
  with its NUL, the value, and steps over the alignment bytes. The entries are the array
  \<open>info[0..count)\<close>; \<open>next_entry_offset\<close> is written for all but the last.
\<close>

fun encode_ea_entries ::
  "smb2_file_extended_info list \<Rightarrow> bytes \<Rightarrow> u32 \<Rightarrow> (bytes \<times> u32) option" where
  "encode_ea_entries [] buffer offset = Some (buffer, offset)"
| "encode_ea_entries (e # es) buffer offset =
     do { let nl = unat (ext_name_len e);
          let vl = unat (ext_value_len e);
          b1 \<leftarrow> mem_write buffer (uint offset + 4) ([0, ext_name_len e] @ htole16 (ext_value_len e));
          nm \<leftarrow> mem_read (ext_name e) 0 (nl + 1);
          b2 \<leftarrow> mem_write b1 (uint (offset + 8)) nm;
          vlu \<leftarrow> mem_read (ext_value e) 0 vl;
          b3 \<leftarrow> mem_write b2 (uint (offset + 8 + of_nat (nl + 1))) vlu;
          let len = (8 + of_nat nl + 1 + of_nat vl :: u32);
          let offset' = offset + len + (if len AND 3 \<noteq> 0 then 4 - (len AND 3) else 0);
          b4 \<leftarrow> (if es \<noteq> [] then mem_write b3 (uint offset) (htole32 offset') else Some b3);
          encode_ea_entries es b4 offset' }"

definition smb2_encode_file_extended_info ::
  "smb2_file_extended_info list \<Rightarrow> bytes option \<Rightarrow> u32 option \<Rightarrow>
   (int \<times> bytes option \<times> u32 option) option" where
  \<comment> \<open>\<open>None\<close> is the null pointer; \<open>buffer_len\<close> is an output\<close>
  "smb2_encode_file_extended_info info buffer buffer_len =
     (case (buffer, buffer_len) of
        (Some b, Some _) \<Rightarrow> do { (b', n) \<leftarrow> encode_ea_entries info b 0; Some (0, Some b', Some n) }
      | _ \<Rightarrow> Some (-1, buffer, buffer_len))"


section \<open>What the chain loop does\<close>

text \<open>
  The layout the loop is written for: entries back to back, each one naming its own
  length as the distance to the next, the last one naming 0.
\<close>

fun chain_ok ::
  "('fs \<Rightarrow> smb2_iovec \<Rightarrow> (err_msg + 'fs) option) \<Rightarrow> ('fs \<Rightarrow> u32) \<Rightarrow> ('fs \<Rightarrow> 'e option) \<Rightarrow>
   'fs \<Rightarrow> bytes list \<Rightarrow> 'e list \<Rightarrow> bool" where
  "chain_ok dec nxt emit fs [] es = False"
| "chain_ok dec nxt emit fs (b # bs) es =
     (case dec fs (mk_vec (b @ concat bs)) of
        Some (Inr fs') \<Rightarrow>
          (case emit fs' of None \<Rightarrow> False
           | Some e \<Rightarrow>
               es \<noteq> [] \<and> hd es = e \<and> 0 < length b \<and>
               (if bs = [] then nxt fs' = 0 \<and> tl es = []
                else nxt fs' \<noteq> 0 \<and> unat (nxt fs') = length b \<and>
                     chain_ok dec nxt emit fs' bs (tl es)))
      | _ \<Rightarrow> False)"

text \<open>
  The bytes the extended-attribute decoder is written for, one block per entry: the header,
  the name and the value back to back.
\<close>

fun ea_layout :: "(bytes \<times> bytes) list \<Rightarrow> bytes list" where
  "ea_layout [] = []"
| "ea_layout ((nm, v) # xs) =
     (htole32 (if xs = [] then 0 else of_nat (8 + length nm + length v)) @ [0, of_nat (length nm)]
        @ htole16 (of_nat (length v)) @ nm @ v) # ea_layout xs"

definition ea_entry :: "bytes \<times> bytes \<Rightarrow> smb2_file_extended_info" where
  "ea_entry = (\<lambda>(nm, v). \<lparr>ext_name = nm @ [0], ext_name_len = of_nat (length nm),
     ext_value = v @ [0], ext_value_len = of_nat (length v)\<rparr>)"

definition ea_fits :: "bytes \<times> bytes \<Rightarrow> bool" where
  "ea_fits = (\<lambda>(nm, v). length nm < 256 \<and> length v < 65536)"

text \<open>Inputs for the concrete theorems: a two-byte attribute, and two entries that name each
  other through a 32-bit offset that wraps.\<close>

definition ex_ea :: "u8 \<Rightarrow> smb2_file_extended_info" where
  "ex_ea n = \<lparr>ext_name = [n, 0], ext_name_len = 1, ext_value = [1, 2], ext_value_len = 2\<rparr>"

definition junk_ea :: smb2_file_full_ea_info where
  "junk_ea = \<lparr>ea_next_entry_offset = 7, ea_flags = 7, ea_name_length = 7, ea_value_length = 7,
     ea_name = [], ea_value = []\<rparr>"

definition cyclic_ea :: bytes where
  "cyclic_ea = [8, 0, 0, 0, 0, 0, 0, 0, 0xf8, 0xff, 0xff, 0xff, 0, 0, 0, 0]"

definition empty_ea_info :: "u32 \<Rightarrow> smb2_file_full_ea_info" where
  "empty_ea_info n = \<lparr>ea_next_entry_offset = n, ea_flags = 0, ea_name_length = 0,
       ea_value_length = 0, ea_name = [0], ea_value = [0]\<rparr>"

lemma iov_sub_drop:
  assumes "k < length v" and "length v < 2 ^ 32"
  shows "iov_sub (mk_vec v) k (iov_len (mk_vec v) - ucast (of_nat k :: u32)) = Some (mk_vec (drop k v))"
proof -
  have k: "(ucast (of_nat k :: u32) :: u64) = of_nat k"
    using assms by (simp add: word_unat_eq_iff unat_of_nat take_bit_nat_eq_self)
  have "iov_len (mk_vec v) - of_nat k = of_nat (length v - k)"
    using assms(1) by (simp add: mk_vec_def of_nat_diff)
  then show ?thesis
    using assms by (simp add: iov_sub_def mem_ptr_in k mk_vec_def)
qed

lemma decode_chain_complete:
  assumes "chain_ok dec nxt emit fs bs es"
    and "length (pre @ concat bs) < 2 ^ 31"
    and "length bs \<le> fuel"
  shows "decode_chain dec nxt emit m fuel (mk_vec (pre @ concat bs)) (of_nat (length pre)) fs acc
     = Some (ChainDone (acc @ es))"
  using assms
proof (induction bs arbitrary: fs es pre acc fuel)
  case Nil
  then show ?case by simp
next
  case (Cons b bs)
  let ?v = "pre @ b @ concat bs"
  obtain fs' e where dec: "dec fs (mk_vec (b @ concat bs)) = Some (Inr fs')"
    and emit: "emit fs' = Some e" and es: "es = e # tl es" and b: "0 < length b"
    and rest: "if bs = [] then nxt fs' = 0 \<and> tl es = []
       else nxt fs' \<noteq> 0 \<and> unat (nxt fs') = length b \<and> chain_ok dec nxt emit fs' bs (tl es)"
    using Cons.prems(1) by (cases es) (auto split: option.splits sum.splits)
  obtain fuel' where fuel: "fuel = Suc fuel'"
    using Cons.prems(3) by (cases fuel) auto
  have len: "length ?v < 2 ^ 31"
    using Cons.prems(2) by simp
  have pre: "unat (of_nat (length pre) :: u32) = length pre"
    using len by (simp add: unat_of_nat_u32)
  have "unat (ucast (of_nat (length pre) :: u32) :: u64) = length pre"
    using pre by simp
  then have inside: "\<not> iov_len (mk_vec ?v) \<le> ucast (of_nat (length pre) :: u32)"
    using len b by (simp add: word_le_nat_alt)
  have sub: "iov_sub (mk_vec ?v) (length pre) (iov_len (mk_vec ?v) - ucast (of_nat (length pre) :: u32))
      = Some (mk_vec (b @ concat bs))"
    using iov_sub_drop [of "length pre" ?v] len b by simp
  show ?case
  proof (cases "bs = []")
    case True
    then show ?thesis
      using dec emit es rest inside sub pre by (simp add: fuel)
  next
    case False
    then have nx: "nxt fs' \<noteq> 0" "unat (nxt fs') = length b" "chain_ok dec nxt emit fs' bs (tl es)"
      using rest by simp_all
    have off: "of_nat (length pre) + nxt fs' = (of_nat (length (pre @ b)) :: u32)"
      using nx(2) by (metis length_append of_nat_add of_nat_unat ucast_id)
    have "decode_chain dec nxt emit m fuel' (mk_vec ((pre @ b) @ concat bs)) (of_nat (length (pre @ b))) fs'
        (acc @ [e]) = Some (ChainDone ((acc @ [e]) @ tl es))"
      using nx(3) len Cons.prems(3) by (intro Cons.IH) (simp_all add: fuel)
    then show ?thesis
      using dec emit nx inside sub pre off es by (simp add: fuel)
  qed
qed

section \<open>Extended attributes\<close>

lemma ea_layout_Nil [simp]: "ea_layout xs = [] \<longleftrightarrow> xs = []"
  by (cases xs) auto

lemma decode_full_ea_at:
  assumes "unat nl = length nm" and "unat vl = length v" and "length rest < 2 ^ 30"
  shows "smb2_decode_file_full_ea_info fs
     (mk_vec (htole32 nx @ [0, nl] @ htole16 vl @ nm @ v @ rest))
   = Some (Inr \<lparr>ea_next_entry_offset = nx, ea_flags = 0, ea_name_length = nl,
       ea_value_length = vl, ea_name = nm @ [0], ea_value = v @ [0]\<rparr>)"
proof -
  have len: "length nm < 256" "length v < 65536"
    using unsigned_less [where 'a = nat, of nl] unsigned_less [where 'a = nat, of vl] assms(1,2)
    by simp_all
  have u: "uint nl = int (length nm)" "nat (8 + int (length nm)) = 8 + length nm"
    by (simp_all add: uint_nat assms(1))
  show ?thesis
    using assms len
    by (simp add: smb2_decode_file_full_ea_info_def mem_simps) (simp add: mem_read_def sub_bytes_def u drop_Cons')
qed

lemma ea_layout_chain_ok:
  assumes "xs \<noteq> []" and "\<forall>x \<in> set xs. ea_fits x" and "length (concat (ea_layout xs)) < 2 ^ 30"
  shows "chain_ok smb2_decode_file_full_ea_info ea_next_entry_offset ea_node fs (ea_layout xs) (map ea_entry xs)"
  using assms
proof (induction xs arbitrary: fs)
  case Nil
  then show ?case by simp
next
  case (Cons x xs)
  obtain nm v where x: "x = (nm, v)" by (cases x)
  let ?n = "8 + length nm + length v"
  have fit: "ea_fits (nm, v)" and rest: "length (concat (ea_layout xs)) < 2 ^ 30"
    using Cons.prems by (simp_all add: x)
  have nl: "unat (of_nat (length nm) :: u8) = length nm" and vl: "unat (of_nat (length v) :: u16) = length v"
    using fit by (simp_all add: ea_fits_def unat_of_nat)
  have n: "unat (of_nat ?n :: u32) = ?n"
    using fit by (intro unat_of_nat_u32) (simp add: ea_fits_def)
  then have n0: "(of_nat ?n :: u32) \<noteq> 0"
    by (metis add_is_0 unat_0 zero_neq_numeral)
  show ?case
    using Cons n n0 fit rest decode_full_ea_at [OF nl vl rest]
    by (cases "xs = []") (simp_all add: x ea_node_def ea_entry_def add.assoc del: of_nat_add)
qed

lemma empty_ea:
  assumes "length nx = 4" and "length rest < 100"
  shows "smb2_decode_file_full_ea_info fs (mk_vec (nx @ [0, 0, 0, 0] @ rest)) =
    Some (Inr \<lparr>ea_next_entry_offset = le32toh nx, ea_flags = 0, ea_name_length = 0,
       ea_value_length = 0, ea_name = [0], ea_value = [0]\<rparr>)"
proof -
  have "le16toh [0, 0] = 0" by code_simp
  then show ?thesis
  using assms
  by (simp add: smb2_decode_file_full_ea_info_def mem_simps) (simp add: sub_bytes_def mem_read_def)
qed

lemma cyclic_chain:
  "decode_chain smb2_decode_file_full_ea_info ea_next_entry_offset ea_node m fuel (mk_vec cyclic_ea) 0 fs acc
     = Some ChainFuel \<and>
   decode_chain smb2_decode_file_full_ea_info ea_next_entry_offset ea_node m fuel (mk_vec cyclic_ea) 8 fs' acc'
     = Some ChainFuel"
proof (induction fuel arbitrary: fs acc fs' acc')
  case 0
  show ?case by simp
next
  case (Suc fuel)
  define k :: u32 where "k = 0xfffffff8"
  have n: "le32toh [8, 0, 0, 0] = 8" "le32toh [0xf8, 0xff, 0xff, 0xff] = k"
    unfolding k_def by code_simp+
  have w: "8 + k = 0" "k \<noteq> 0"
    by (simp_all add: k_def)
  have s0: "iov_sub (mk_vec cyclic_ea) 0 (iov_len (mk_vec cyclic_ea))
      = Some (mk_vec ([8, 0, 0, 0] @ [0, 0, 0, 0] @ [0xf8, 0xff, 0xff, 0xff, 0, 0, 0, 0]))"
    by code_simp
  have s8: "iov_sub (mk_vec cyclic_ea) 8 (iov_len (mk_vec cyclic_ea) - 8)
      = Some (mk_vec ([0xf8, 0xff, 0xff, 0xff] @ [0, 0, 0, 0] @ []))"
    by code_simp
  have l: "\<not> iov_len (mk_vec cyclic_ea) \<le> 0" "\<not> iov_len (mk_vec cyclic_ea) \<le> 8"
    by (simp_all add: mk_vec_def cyclic_ea_def)
  have d0: "smb2_decode_file_full_ea_info f (mk_vec ([8, 0, 0, 0] @ [0, 0, 0, 0] @ [0xf8, 0xff, 0xff, 0xff, 0, 0, 0, 0]))
      = Some (Inr (empty_ea_info 8))" for f
    by (subst empty_ea) (simp_all add: n empty_ea_info_def)
  have d8: "smb2_decode_file_full_ea_info f (mk_vec ([0xf8, 0xff, 0xff, 0xff] @ [0, 0, 0, 0] @ []))
      = Some (Inr (empty_ea_info k))" for f
    by (subst empty_ea) (simp_all add: n empty_ea_info_def)
  have e: "\<exists>x. ea_node f = Some x" for f
    by (simp add: ea_node_def)
  obtain x y where x: "ea_node (empty_ea_info 8) = Some x" and y: "ea_node (empty_ea_info k) = Some y"
    using e by meson
  have nx: "ea_next_entry_offset (empty_ea_info k) = k" for k
    by (simp add: empty_ea_info_def)
  show ?case
    using Suc.IH l s0 s8 d0 d8 x y w by (simp add: nx)
qed

section \<open>Properties\<close>

text \<open>A well-formed answer to a query for file information decodes to exactly the fields the
  server laid out, at any length of trailing name data and whatever the struct held before.\<close>

lemma all_info_layout:
  assumes "length rest < 2 ^ 31 - 100"
  shows "smb2_decode_file_all_info fs
    (mk_vec (htole64 ct @ htole64 at @ htole64 wt @ htole64 ch @ htole32 fa @ htole32 0
       @ htole64 al @ htole64 eof @ htole32 nl @ [dp, dir] @ htole16 0
       @ htole64 ix @ htole32 es @ htole32 af @ htole64 pos @ htole32 md @ htole32 ar @ rest))
   = Some (0, \<lparr>all_basic = \<lparr>bas_creation_time = ct, bas_last_access_time = at, bas_last_write_time = wt,
                  bas_change_time = ch, bas_file_attributes = fa\<rparr>,
        all_standard = \<lparr>std_allocation_size = al, std_end_of_file = eof, std_number_of_links = nl,
                  std_delete_pending = dp, std_directory = dir\<rparr>,
        all_index_number = ix, all_ea_size = es, all_access_flags = af, all_current_byte_offset = pos,
        all_mode = md, all_alignment_requirement = ar\<rparr>)"
  using assms
  by (simp add: smb2_decode_file_all_info_def smb2_decode_file_basic_info_def smb2_decode_file_standard_info_def
     iov_sub_def mem_simps wf_iovec_def)

text \<open>The extended-attribute decoder reads back every chain of entries laid out back to back
  with the value directly behind the name, in order, and ends with as much fuel as there are entries.\<close>

lemma ea_decode_layout:
  assumes "xs \<noteq> []" and "\<forall>x \<in> set xs. ea_fits x"
    and "length (concat (ea_layout xs)) < 2 ^ 30" and "length xs \<le> fuel"
  shows "smb2_decode_file_extended_info fuel full_ea_info (mk_vec (concat (ea_layout xs)))
     = Some (ChainDone (map ea_entry xs))"
proof -
  have "length (ea_layout xs) = length xs"
    by (induction xs rule: ea_layout.induct) auto
  then show ?thesis
    using decode_chain_complete [OF ea_layout_chain_ok [OF assms(1-3)], where pre = "[]" and acc = "[]"] assms(3,4)
    by (simp add: smb2_decode_file_extended_info_def)
qed

text \<open>The encoder and the decoder of extended attributes disagree on the value: the encoder
  writes the NUL of the name before it, the decoder does not step over that byte, so an attribute
  encoded with the value 1 2 is decoded with the value 0 1.\<close>

lemma ea_value_shifted:
  "\<exists>b. smb2_encode_file_extended_info [ex_ea 0x41] (Some (replicate 12 0)) (Some 0) = Some (0, Some b, Some 12) \<and>
     smb2_decode_file_extended_info 1 junk_ea (mk_vec b)
       = Some (ChainDone [\<lparr>ext_name = [0x41, 0], ext_name_len = 1, ext_value = [0, 1, 0], ext_value_len = 2\<rparr>])"
proof -
  have "smb2_encode_file_extended_info [ex_ea 0x41] (Some (replicate 12 0)) (Some 0) =
     Some (0, Some [0, 0, 0, 0, 0, 1, 2, 0, 0x41, 0, 1, 2], Some 12)"
    by code_simp
  moreover have "smb2_decode_file_extended_info 1 junk_ea (mk_vec [0, 0, 0, 0, 0, 1, 2, 0, 0x41, 0, 1, 2])
       = Some (ChainDone [\<lparr>ext_name = [0x41, 0], ext_name_len = 1, ext_value = [0, 1, 0], ext_value_len = 2\<rparr>])"
    by code_simp
  ultimately show ?thesis by blast
qed

text \<open>The encoder stores the position of the next entry from the start of the buffer where the
  decoder expects the distance from the current one: three encoded attributes decode to two and an
  error.\<close>

lemma ea_third_entry_lost:
  "\<exists>b. smb2_encode_file_extended_info [ex_ea 0x41, ex_ea 0x42, ex_ea 0x43] (Some (replicate 36 0)) (Some 0)
       = Some (0, Some b, Some 36) \<and>
     (\<exists>es. smb2_decode_file_extended_info 3 junk_ea (mk_vec b)
       = Some (ChainError (Msg ''smb2_decode_file_extended_info:Malformed query reply'' []) es))"
proof -
  let ?b = "[12, 0, 0, 0, 0, 1, 2, 0, 0x41, 0, 1, 2, 24, 0, 0, 0, 0, 1, 2, 0, 0x42, 0, 1, 2,
             0, 0, 0, 0, 0, 1, 2, 0, 0x43, 0, 1, 2]"
  have "smb2_encode_file_extended_info [ex_ea 0x41, ex_ea 0x42, ex_ea 0x43] (Some (replicate 36 0)) (Some 0) =
     Some (0, Some ?b, Some 36)"
    by code_simp
  moreover have "smb2_decode_file_extended_info 3 junk_ea (mk_vec ?b)
       = Some (ChainError (Msg ''smb2_decode_file_extended_info:Malformed query reply'' [])
          [\<lparr>ext_name = [0x41, 0], ext_name_len = 1, ext_value = [0, 1, 0], ext_value_len = 2\<rparr>,
           \<lparr>ext_name = [0x42, 0], ext_name_len = 1, ext_value = [0, 1, 0], ext_value_len = 2\<rparr>])"
    by code_simp
  ultimately show ?thesis by blast
qed

text \<open>The name length of an attribute is not checked against the reply: an eight-byte reply that
  announces a name of 255 bytes makes the decoder read outside its buffer.\<close>

lemma ea_read_overrun: "smb2_decode_file_extended_info 1 junk_ea (mk_vec [0, 0, 0, 0, 0, 255, 0, 0]) = None"
  by code_simp

text \<open>The entry loop does not end on every reply: two entries whose 32-bit distances add up to
  \<open>2 ^ 32\<close> keep it running on any amount of fuel.\<close>

lemma ea_chain_never_ends: "smb2_decode_file_extended_info fuel junk (mk_vec cyclic_ea) = Some ChainFuel"
  using cyclic_chain by (simp add: smb2_decode_file_extended_info_def)

text \<open>The decoder of stream information copies one byte per UTF-16 unit of the converted name: a
  stream named by the single character U+20AC keeps only the first of its three UTF-8 bytes.\<close>

lemma stream_name_truncated:
  "smb2_decode_file_stream_info 1 7 (mk_vec (replicate 4 0 @ [2, 0, 0, 0] @ replicate 16 0 @ [0xac, 0x20]))
    = Some (ChainDone [\<lparr>stm_name = 0xe2 # replicate 4095 0, stm_size = 0, stm_allocation_size = 0\<rparr>])"
  by code_simp

end
