(* ===== verification/Smb2_Security.thy ===== *)
theory Smb2_Security
  imports Smb2_FileData
begin

text \<open>
  The security descriptors of \<^verbatim>\<open>Smb2DataSecurity.cpp\<close>: SIDs, ACEs, ACLs and the
  self-relative descriptor, with their decoders and encoders. A decoder returns the error
  string or the object; the encoders write into the caller's buffer at a given offset.
  The \<open>iov\<close> arguments of the decoders are passed by value, as in the source: what
  \<^verbatim>\<open>decode_sid\<close> does to its copy is not seen by its caller.
\<close>

section \<open>Objects\<close>

record smb2_sid =
  sid_revision :: u8
  sid_sub_auth_count :: u8
  sid_id_auth :: bytes
  sid_sub_auth :: "u32 list"

record smb2_ace =
  ace_type :: u8
  ace_flags :: u8
  ace_size :: u16
  ace_mask :: u32
  ace_obj_flags :: u32
  ace_sid :: "smb2_sid option"
  ace_object_type :: bytes
  ace_inherited_object_type :: bytes
  ace_ad_len :: nat
  ace_ad_data :: "bytes option"
  ace_raw_len :: nat
  ace_raw_data :: "bytes option"

record smb2_acl =
  acl_revision :: u8
  acl_size :: u16
  acl_ace_count :: u16
  acl_aces :: "smb2_ace list"

record smb2_security_descriptor =
  sd_revision :: u8
  sd_control :: u16
  sd_owner :: "smb2_sid option"
  sd_group :: "smb2_sid option"
  sd_dacl :: "smb2_acl option"

definition new_smb2_ace :: smb2_ace where
  "new_smb2_ace = \<lparr>ace_type = 0, ace_flags = 0, ace_size = 0, ace_mask = 0, ace_obj_flags = 0,
     ace_sid = None, ace_object_type = replicate 16 0, ace_inherited_object_type = replicate 16 0,
     ace_ad_len = 0, ace_ad_data = None, ace_raw_len = 0, ace_raw_data = None\<rparr>"

definition new_smb2_security_descriptor :: smb2_security_descriptor where
  "new_smb2_security_descriptor =
     \<lparr>sd_revision = 0, sd_control = 0, sd_owner = None, sd_group = None, sd_dacl = None\<rparr>"

text \<open>The case labels of the two switches over the ACE type.\<close>

definition ace_is_simple :: "u8 \<Rightarrow> bool" where
  "ace_is_simple t \<longleftrightarrow> t \<in> {0x00, 0x01, 0x02, 0x11, 0x13}"

definition ace_is_object :: "u8 \<Rightarrow> bool" where
  "ace_is_object t \<longleftrightarrow> t \<in> {0x05, 0x06, 0x07}"

definition ace_is_callback :: "u8 \<Rightarrow> bool" where
  "ace_is_callback t \<longleftrightarrow> t \<in> {0x09, 0x10, 0x12}"

section \<open>Sizes\<close>

definition smb2_get_sid_size :: "smb2_sid \<Rightarrow> u32" where
  "smb2_get_sid_size sid = 8 + 4 * ucast (sid_sub_auth_count sid)"

definition smb2_get_ace_size :: "smb2_ace \<Rightarrow> u32" where
  "smb2_get_ace_size ace = ucast (ace_size ace)"

definition smb2_get_acl_size :: "smb2_acl \<Rightarrow> u32" where
  "smb2_get_acl_size acl = foldl (\<lambda>n ace. n + ucast (ace_size ace)) 8 (acl_aces acl)"

definition smb2_get_security_descriptor_size :: "smb2_security_descriptor \<Rightarrow> u32" where
  "smb2_get_security_descriptor_size sd =
     20 + (case sd_owner sd of None \<Rightarrow> 0 | Some s \<Rightarrow> smb2_get_sid_size s)
        + (case sd_group sd of None \<Rightarrow> 0 | Some s \<Rightarrow> smb2_get_sid_size s)
        + (case sd_dacl sd of None \<Rightarrow> 0 | Some a \<Rightarrow> smb2_get_acl_size a)"

section \<open>Decoding\<close>

definition iov_skip :: "smb2_iovec \<Rightarrow> nat \<Rightarrow> smb2_iovec option" where
  \<comment> \<open>\<^verbatim>\<open>v.len -= n; v.buf = &v.buf[n]\<close>\<close>
  "iov_skip v n = iov_sub v n (iov_len v - of_nat n)"

fun sid_sub_auths :: "smb2_iovec \<Rightarrow> nat \<Rightarrow> nat \<Rightarrow> u32 list option" where
  "sid_sub_auths v i 0 = Some []"
| "sid_sub_auths v i (Suc n) =
     do { x \<leftarrow> get32 v (int (8 + i * 4)) 0;
          xs \<leftarrow> sid_sub_auths v (Suc i) n;
          Some (x # xs) }"

definition decode_sid :: "smb2_iovec \<Rightarrow> (err_msg + smb2_sid) option" where
  "decode_sid v =
     (if iov_len v < 8 then Some (Inl (Msg ''decode_sid: SID must be at least 8 bytes'' []))
      else do { revision \<leftarrow> get8 v 0 0;
                if revision \<noteq> 1
                then Some (Inl (Msg ''decode_sid: can not decode sid with revision %d'' [ucast revision]))
                else do { sub_auth_count \<leftarrow> get8 v 1 0;
                          if iov_len v < 8 + 4 * ucast sub_auth_count
                          then Some (Inl (Msg ''decode_sid: SID is bigger than the buffer'' []))
                          else do { ia \<leftarrow> mem_read (iov_buf v) 2 6;
                                    sa \<leftarrow> sid_sub_auths v 0 (unat sub_auth_count);
                                    Some (Inr \<lparr>sid_revision = revision,
                                               sid_sub_auth_count = sub_auth_count,
                                               sid_id_auth = ia, sid_sub_auth = sa\<rparr>) } } })"

definition decode_ace_sid :: "smb2_ace \<Rightarrow> smb2_iovec \<Rightarrow> (err_msg + smb2_ace) option" where
  \<comment> \<open>the tail of every branch that carries a SID\<close>
  "decode_ace_sid ace v =
     do { r \<leftarrow> decode_sid v;
          case r of
            Inl e \<Rightarrow> Some (Inl (Pre ''decode_ace: Failed to decode sid. ace_type %x - '' [ucast (ace_type ace)] e))
          | Inr sid \<Rightarrow> Some (Inr (ace\<lparr>ace_sid := Some sid\<rparr>)) }"

definition iov_copy :: "smb2_iovec \<Rightarrow> bytes option" where
  \<comment> \<open>\<^verbatim>\<open>int n = v.len; p = malloc(n); memcpy(p, v.buf, v.len)\<close>\<close>
  "iov_copy v =
     (if iov_len v < 0x80000000 then mem_read (iov_buf v) 0 (unat (iov_len v)) else None)"

definition decode_ace :: "smb2_iovec \<Rightarrow> (err_msg + smb2_ace) option" where
  "decode_ace v =
     (if iov_len v < 4 then Some (Inl (Msg ''decode_ace: not enough data for ace header'' []))
      else do {
        ty \<leftarrow> get8 v 0 0;
        fl \<leftarrow> get8 v 1 0;
        sz \<leftarrow> get16 v 2 0;
        let ace = new_smb2_ace\<lparr>ace_type := ty, ace_flags := fl, ace_size := sz\<rparr>;
        if sz < 4 then Some (Inl (Msg ''decode_ace: not enough data for ace data'' []))
        else if iov_len v < ucast sz then Some (Inl (Msg ''decode_ace: not enough data for ace data'' []))
        else do {
          v \<leftarrow> iov_skip v 4;
          if ace_is_simple ty then
            do { m \<leftarrow> get32 v 0 0;
                 if iov_len v < 4 then Some (Inl (Msg ''decode_ace: not enough data for ace data.'' []))
                 else do { v \<leftarrow> iov_skip v 4; decode_ace_sid (ace\<lparr>ace_mask := m\<rparr>) v } }
          else if ace_is_object ty then
            (if iov_len v < 40 then Some (Inl (Msg ''decode_ace: not enough data for ace data.'' []))
             else do { m \<leftarrow> get32 v 0 0;
                       v \<leftarrow> iov_skip v 4;
                       f \<leftarrow> get32 v 0 0;
                       v \<leftarrow> iov_skip v 4;
                       ot \<leftarrow> mem_read (iov_buf v) 0 16;
                       v \<leftarrow> iov_skip v 16;
                       it \<leftarrow> mem_read (iov_buf v) 0 16;
                       v \<leftarrow> iov_skip v 16;
                       decode_ace_sid (ace\<lparr>ace_mask := m, ace_obj_flags := f, ace_object_type := ot,
                                           ace_inherited_object_type := it\<rparr>) v })
          else if ace_is_callback ty then
            do { m \<leftarrow> get32 v 0 0;
                 if iov_len v < 4 then Some (Inl (Msg ''decode_ace: not enough data for ace data.'' []))
                 else do { v \<leftarrow> iov_skip v 4;
                           r \<leftarrow> decode_ace_sid (ace\<lparr>ace_mask := m\<rparr>) v;
                           case r of Inl e \<Rightarrow> Some (Inl e)
                           | Inr ace \<Rightarrow>
                               do { d \<leftarrow> iov_copy v;
                                    Some (Inr (ace\<lparr>ace_ad_len := length d, ace_ad_data := Some d\<rparr>)) } } }
          else do { d \<leftarrow> iov_copy v;
                    Some (Inr (ace\<lparr>ace_raw_len := length d, ace_raw_data := Some d\<rparr>)) } } })"

fun decode_aces :: "nat \<Rightarrow> nat \<Rightarrow> smb2_iovec \<Rightarrow> smb2_ace list \<Rightarrow> (err_msg + smb2_ace list) option" where
  "decode_aces i 0 v acc = Some (Inr acc)"
| "decode_aces i (Suc n) v acc =
     do { r \<leftarrow> decode_ace v;
          case r of
            Inl e \<Rightarrow> Some (Inl (Pre ''decode_acl: Failed to decode ace # %d: '' [of_nat i] e))
          | Inr ace \<Rightarrow>
              if ucast (ace_size ace) > iov_len v
              then Some (Inl (Msg ''decode_acl: not enough data for ace'' []))
              else do { v' \<leftarrow> iov_skip v (unat (ace_size ace));
                        decode_aces (Suc i) n v' (acc @ [ace]) } }"

definition decode_acl :: "smb2_iovec \<Rightarrow> (err_msg + smb2_acl) option" where
  "decode_acl v =
     (if iov_len v < 8 then Some (Inl (Msg ''decode_acl: not enough data for acl header'' []))
      else do {
        revision \<leftarrow> get8 v 0 0;
        sz \<leftarrow> get16 v 2 0;
        ace_count \<leftarrow> get16 v 4 0;
        if revision \<notin> {0x02, 0x04}
        then Some (Inl (Msg ''decode_acl: can not decode acl with revision %d'' [ucast revision]))
        else do {
          sz \<leftarrow> get16 v 2 sz;
          let v = (if iov_len v > ucast sz then v\<lparr>iov_len := ucast sz\<rparr> else v);
          if iov_len v < ucast sz then Some (Inl (Msg ''decode_acl: not enough data for acl'' []))
          else do { v \<leftarrow> iov_skip v 8;
                    r \<leftarrow> decode_aces 0 (unat ace_count) v [];
                    case r of Inl e \<Rightarrow> Some (Inl e)
                    | Inr aces \<Rightarrow> Some (Inr \<lparr>acl_revision = revision, acl_size = sz,
                                            acl_ace_count = ace_count, acl_aces = aces\<rparr>) } } })"

text \<open>
  One of the three optional parts of a descriptor. The test adds in 32 bits and compares in 64.
\<close>

definition decode_sd_part ::
  "(smb2_iovec \<Rightarrow> (err_msg + 'a) option) \<Rightarrow> string \<Rightarrow> smb2_iovec \<Rightarrow> u32 \<Rightarrow> (err_msg + 'a option) option" where
  "decode_sd_part dec failed vec offset =
     (if offset > 0 \<and> ucast (offset + 8) < iov_len vec
      then do { v \<leftarrow> iov_sub vec (unat offset) (iov_len vec - ucast offset);
                r \<leftarrow> dec v;
                case r of Inl e \<Rightarrow> Some (Inl (Pre failed [] e)) | Inr x \<Rightarrow> Some (Inr (Some x)) }
      else Some (Inr None))"

definition smb2DecodeSecDescInternal ::
  "smb2_security_descriptor \<Rightarrow> smb2_iovec \<Rightarrow> (err_msg + smb2_security_descriptor) option" where
  "smb2DecodeSecDescInternal sd vec =
     (if iov_len vec < 20
      then Some (Inl (Msg ''smb2DecodeSecDescInternal: Invalid buffer length for security descriptor %ld'' [iov_len vec]))
      else do {
        v \<leftarrow> iov_sub vec 0 20;
        revision \<leftarrow> get8 v 0 (sd_revision sd);
        if revision \<noteq> 1
        then Some (Inl (Msg ''smb2DecodeSecDescInternal: can't decode security descriptor with revision %d'' [ucast revision]))
        else do {
          control \<leftarrow> get16 v 2 (sd_control sd);
          offset_owner \<leftarrow> get32 v 4 0;
          offset_group \<leftarrow> get32 v 8 0;
          offset_sacl \<leftarrow> get32 v 12 0;
          offset_dacl \<leftarrow> get32 v 16 0;
          r \<leftarrow> decode_sd_part decode_sid ''smb2DecodeSecDescInternal: Failed to decode owner sid: '' vec offset_owner;
          case r of Inl e \<Rightarrow> Some (Inl e)
          | Inr ow \<Rightarrow> do {
              r \<leftarrow> decode_sd_part decode_sid ''smb2DecodeSecDescInternal: Failed to decode group sid: '' vec offset_group;
              case r of Inl e \<Rightarrow> Some (Inl e)
              | Inr gr \<Rightarrow> do {
                  r \<leftarrow> decode_sd_part decode_acl ''smb2DecodeSecDescInternal: Failed to decode dacl: '' vec offset_dacl;
                  case r of Inl e \<Rightarrow> Some (Inl e)
                  | Inr da \<Rightarrow>
                      Some (Inr \<lparr>sd_revision = revision, sd_control = control,
                                 sd_owner = (if ow = None then sd_owner sd else ow),
                                 sd_group = (if gr = None then sd_group sd else gr),
                                 sd_dacl = (if da = None then sd_dacl sd else da)\<rparr>) } } } })"

definition smb2DecodeSecurityDescriptor ::
  "bytes \<Rightarrow> u32 \<Rightarrow> (err_msg + smb2_security_descriptor) option" where
  "smb2DecodeSecurityDescriptor buf buf_len =
     do { r \<leftarrow> smb2DecodeSecDescInternal new_smb2_security_descriptor
                \<lparr>iov_buf = buf, iov_len = ucast buf_len, iov_free = False\<rparr>;
          case r of Inl e \<Rightarrow> Some (Inl (Pre ''smb2DecodeSecDescInternal: Failed - '' [] e))
          | Inr sd \<Rightarrow> Some (Inr sd) }"

section \<open>Encoding\<close>

definition encode_sid :: "smb2_sid \<Rightarrow> bytes \<Rightarrow> nat \<Rightarrow> u32 \<Rightarrow> (err_msg + bytes \<times> u32) option" where
  "encode_sid sid buffer off buffer_len =
     (let size_required = 8 + 4 * ucast (sid_sub_auth_count sid)
      in if buffer_len < size_required
         then Some (Inl (Msg ''encode_sid: not enough memory to encode SID'' []))
         else if length (sid_id_auth sid) < 6 \<or> length (sid_sub_auth sid) < unat (sid_sub_auth_count sid)
         then None
         else do { b \<leftarrow> mem_write buffer (int off)
                     ([sid_revision sid, sid_sub_auth_count sid] @ take 6 (sid_id_auth sid) @
                      concat (map htole32 (take (unat (sid_sub_auth_count sid)) (sid_sub_auth sid))));
                   Some (Inr (b, size_required)) })"

definition encode_ace_sid ::
  "smb2_ace \<Rightarrow> bytes \<Rightarrow> nat \<Rightarrow> u32 \<Rightarrow> u32 \<Rightarrow> (err_msg + bytes \<times> u32) option" where
  \<comment> \<open>the SID behind \<open>hdr\<close> bytes; \<open>buffer_len - offset\<close> wraps\<close>
  "encode_ace_sid ace buffer off hdr buffer_len =
     (case ace_sid ace of None \<Rightarrow> None
      | Some sid \<Rightarrow>
          do { r \<leftarrow> encode_sid sid buffer (off + unat hdr) (buffer_len - hdr);
               case r of
                 Inl e \<Rightarrow> Some (Inl (Pre ''encode_ace: Failed to encode SID/ACE type %x: '' [ucast (ace_type ace)] e))
               | Inr (b, n) \<Rightarrow> Some (Inr (b, hdr + n)) })"

definition encode_ace :: "smb2_ace \<Rightarrow> bytes \<Rightarrow> nat \<Rightarrow> u32 \<Rightarrow> (err_msg + bytes \<times> u32) option" where
  "encode_ace ace buffer off buffer_len =
     (if buffer_len < ucast (ace_size ace)
      then Some (Inl (Msg ''encode_ace: Not enough buffer to encode ACE'' []))
      else do {
        b \<leftarrow> mem_write buffer (int off) ([ace_type ace, ace_flags ace] @ htole16 (ace_size ace));
        if ace_is_simple (ace_type ace) then
          do { b \<leftarrow> mem_write b (int (off + 4)) (htole32 (ace_mask ace));
               encode_ace_sid ace b off 8 buffer_len }
        else if ace_is_object (ace_type ace) then
          do { b \<leftarrow> mem_write b (int (off + 4)) (htole32 (ace_mask ace));
               b \<leftarrow> mem_write b (int (off + 8)) (htole32 (ace_obj_flags ace));
               b \<leftarrow> mem_write b (int (off + 12)) (take 16 (ace_object_type ace));
               b \<leftarrow> mem_write b (int (off + 28)) (take 16 (ace_inherited_object_type ace));
               encode_ace_sid ace b off 44 buffer_len }
        else if ace_is_callback (ace_type ace) then
          do { b \<leftarrow> mem_write b (int (off + 4)) (htole32 (ace_mask ace));
               r \<leftarrow> encode_ace_sid ace b off 8 buffer_len;
               case r of Inl e \<Rightarrow> Some (Inl e)
               | Inr (b, n) \<Rightarrow>
                   do { d \<leftarrow> mem_read (case ace_ad_data ace of None \<Rightarrow> [] | Some d \<Rightarrow> d) 0 (ace_ad_len ace);
                        b \<leftarrow> mem_write b (int (off + unat n)) d;
                        Some (Inr (b, n + of_nat (ace_ad_len ace))) } }
        else do { d \<leftarrow> mem_read (case ace_raw_data ace of None \<Rightarrow> [] | Some d \<Rightarrow> d) 0 (ace_raw_len ace);
                  b \<leftarrow> mem_write b (int (off + 4)) d;
                  Some (Inr (b, 4 + of_nat (ace_raw_len ace))) } })"

fun acl_size_check :: "u16 \<Rightarrow> smb2_ace list \<Rightarrow> u32 \<Rightarrow> err_msg + u32" where
  "acl_size_check limit [] n = Inr n"
| "acl_size_check limit (ace # aces) n =
     (let n' = n + ucast (ace_size ace) in
      if n' < ucast (ace_size ace) then Inl (Msg ''encode_acl: ACL overflow detected'' [])
      else if n' > ucast limit then Inl (Msg ''encode_acl: Invalid ACL'' [])
      else acl_size_check limit aces n')"

fun encode_aces :: "smb2_ace list \<Rightarrow> bytes \<Rightarrow> nat \<Rightarrow> u32 \<Rightarrow> u32 \<Rightarrow> (err_msg + bytes \<times> u32) option" where
  "encode_aces [] buffer off offset buffer_len = Some (Inr (buffer, offset))"
| "encode_aces (ace # aces) buffer off offset buffer_len =
     do { r \<leftarrow> encode_ace ace buffer (off + unat offset) (buffer_len - offset);
          case r of Inl e \<Rightarrow> Some (Inl (Pre ''encode_acl: Failed to encode ACE : '' [] e))
          | Inr (b, used) \<Rightarrow> encode_aces aces b off (offset + used) buffer_len }"

definition encode_acl :: "smb2_acl \<Rightarrow> bytes \<Rightarrow> nat \<Rightarrow> u32 \<Rightarrow> (err_msg + bytes \<times> u32) option" where
  "encode_acl acl buffer off buffer_len =
     (case acl_size_check (acl_size acl) (acl_aces acl) 8 of
        Inl e \<Rightarrow> Some (Inl e)
      | Inr sz \<Rightarrow>
          if buffer_len < sz then Some (Inl (Msg ''encode_acl: Not enough memory to encode ACL'' []))
          else do { b \<leftarrow> mem_write buffer (int off)
                      ([acl_revision acl, 0] @ htole16 (acl_size acl) @ htole16 (acl_ace_count acl) @ htole16 0);
                    encode_aces (acl_aces acl) b off 8 buffer_len })"

text \<open>One part of the descriptor: encode it at \<open>offset\<close>, store the offset in the header at \<open>field\<close>.\<close>

definition encode_sd_part ::
  "('a \<Rightarrow> bytes \<Rightarrow> nat \<Rightarrow> u32 \<Rightarrow> (err_msg + bytes \<times> u32) option) \<Rightarrow> string \<Rightarrow> 'a option \<Rightarrow> nat \<Rightarrow>
   bytes \<Rightarrow> u32 \<Rightarrow> u32 \<Rightarrow> (err_msg + bytes \<times> u32) option" where
  "encode_sd_part enc failed x field buffer offset sz =
     (case x of None \<Rightarrow> Some (Inr (buffer, offset))
      | Some x \<Rightarrow>
          do { r \<leftarrow> enc x buffer (unat offset) (sz - offset);
               case r of Inl e \<Rightarrow> Some (Inl (Pre failed [] e))
               | Inr (b, used) \<Rightarrow>
                   do { b \<leftarrow> mem_write b (int field) (htole32 offset);
                        Some (Inr (b, offset + used)) } })"

datatype encode_result = EncodeFailed int err_msg | Encoded bytes u32

definition smb2EncodeSecurityDescriptor ::
  "smb2_security_descriptor \<Rightarrow> bytes option \<Rightarrow> u32 option \<Rightarrow> encode_result option" where
  "smb2EncodeSecurityDescriptor sd buffer buffer_len =
     (case (buffer, buffer_len) of
        (Some buffer, Some sz) \<Rightarrow>
          if sz < smb2_get_security_descriptor_size sd
          then Some (EncodeFailed (-9) (Msg ''smb2EncodeSecurityDescriptor: Buffer too small to encode security descriptor'' []))
          else do {
            b \<leftarrow> mem_write buffer 0 ([sd_revision sd, 0] @ htole16 (sd_control sd) @ htole32 0 @ htole32 0
                                      @ htole32 0 @ htole32 0);
            r \<leftarrow> encode_sd_part encode_sid ''smb2EncodeSecurityDescriptor: Failed to encode owner SID : ''
                   (sd_owner sd) 4 b 20 sz;
            case r of Inl e \<Rightarrow> Some (EncodeFailed (-1) e)
            | Inr (b, offset) \<Rightarrow> do {
                r \<leftarrow> encode_sd_part encode_sid ''smb2EncodeSecurityDescriptor: Failed to encode group SID : ''
                       (sd_group sd) 8 b offset sz;
                case r of Inl e \<Rightarrow> Some (EncodeFailed (-1) e)
                | Inr (b, offset) \<Rightarrow> do {
                    r \<leftarrow> encode_sd_part encode_acl ''smb2EncodeSecurityDescriptor: Failed to encode DACL : ''
                           (sd_dacl sd) 16 b offset sz;
                    case r of Inl e \<Rightarrow> Some (EncodeFailed (-1) e)
                    | Inr (b, offset) \<Rightarrow> Some (Encoded b offset) } } }
      | _ \<Rightarrow> Some (EncodeFailed (-1) (Msg ''smb2EncodeSecurityDescriptor: Buffer not allocated for security descriptor'' [])))"

section \<open>The wire form and concrete descriptors\<close>

definition sid_bytes :: "smb2_sid \<Rightarrow> bytes" where
  "sid_bytes s = [sid_revision s, sid_sub_auth_count s] @ sid_id_auth s @ concat (map htole32 (sid_sub_auth s))"

definition wf_sid :: "smb2_sid \<Rightarrow> bool" where
  "wf_sid s \<longleftrightarrow> sid_revision s = 1 \<and> length (sid_id_auth s) = 6 \<and> sid_sub_auth s \<noteq> [] \<and>
     length (sid_sub_auth s) = unat (sid_sub_auth_count s)"

definition ace_hdr_bytes :: "smb2_ace \<Rightarrow> bytes" where
  "ace_hdr_bytes a = [ace_type a, ace_flags a] @ htole16 (ace_size a) @ htole32 (ace_mask a) @
     (if ace_is_object (ace_type a)
      then htole32 (ace_obj_flags a) @ ace_object_type a @ ace_inherited_object_type a else [])"

definition ace_bytes :: "smb2_ace \<Rightarrow> bytes" where
  "ace_bytes a = ace_hdr_bytes a @ (case ace_sid a of None \<Rightarrow> [] | Some s \<Rightarrow> sid_bytes s)"

text \<open>ACEs of the types whose whole content the encoder writes once.\<close>

definition wf_ace :: "smb2_ace \<Rightarrow> bool" where
  "wf_ace a \<longleftrightarrow> (case ace_sid a of None \<Rightarrow> False | Some s \<Rightarrow> wf_sid s) \<and>
     unat (ace_size a) = length (ace_bytes a) \<and>
     length (ace_object_type a) = 16 \<and> length (ace_inherited_object_type a) = 16 \<and>
     ace_ad_len a = 0 \<and> ace_ad_data a = None \<and> ace_raw_len a = 0 \<and> ace_raw_data a = None \<and>
     (if ace_is_simple (ace_type a)
      then ace_obj_flags a = 0 \<and> ace_object_type a = replicate 16 0 \<and> ace_inherited_object_type a = replicate 16 0
      else ace_is_object (ace_type a))"

definition acl_bytes :: "smb2_acl \<Rightarrow> bytes" where
  "acl_bytes acl = [acl_revision acl, 0] @ htole16 (acl_size acl) @ htole16 (acl_ace_count acl) @ htole16 0 @
     concat (map ace_bytes (acl_aces acl))"

definition wf_acl :: "smb2_acl \<Rightarrow> bool" where
  "wf_acl acl \<longleftrightarrow> acl_revision acl \<in> {2, 4} \<and> list_all wf_ace (acl_aces acl) \<and> acl_aces acl \<noteq> [] \<and>
     unat (acl_size acl) = length (acl_bytes acl) \<and> unat (acl_ace_count acl) = length (acl_aces acl)"

definition opt_bytes :: "('a \<Rightarrow> bytes) \<Rightarrow> 'a option \<Rightarrow> bytes" where
  "opt_bytes f x = (case x of None \<Rightarrow> [] | Some y \<Rightarrow> f y)"

definition sd_bytes :: "smb2_security_descriptor \<Rightarrow> bytes" where
  "sd_bytes sd =
     (let ow = opt_bytes sid_bytes (sd_owner sd); gr = opt_bytes sid_bytes (sd_group sd);
          da = opt_bytes acl_bytes (sd_dacl sd);
          off = (\<lambda>bs n. htole32 (if bs = [] then 0 else of_nat n))
      in [sd_revision sd, 0] @ htole16 (sd_control sd) @ off ow 20 @ off gr (20 + length ow) @ htole32 0
         @ off da (20 + length ow + length gr) @ ow @ gr @ da)"

definition wf_sd :: "smb2_security_descriptor \<Rightarrow> bool" where
  "wf_sd sd \<longleftrightarrow> sd_revision sd = 1 \<and> pred_option wf_sid (sd_owner sd) \<and> pred_option wf_sid (sd_group sd) \<and>
     pred_option wf_acl (sd_dacl sd)"

definition ex_sid :: smb2_sid where
  "ex_sid = \<lparr>sid_revision = 1, sid_sub_auth_count = 2, sid_id_auth = [0, 0, 0, 0, 0, 5], sid_sub_auth = [32, 544]\<rparr>"

definition ex_ace :: smb2_ace where
  "ex_ace = new_smb2_ace\<lparr>ace_size := 24, ace_mask := 0x1f01ff, ace_sid := Some ex_sid\<rparr>"

definition ex_sd :: smb2_security_descriptor where
  "ex_sd = \<lparr>sd_revision = 1, sd_control = 0x8004, sd_owner = Some ex_sid, sd_group = None,
     sd_dacl = Some \<lparr>acl_revision = 2, acl_size = 32, acl_ace_count = 1, acl_aces = [ex_ace]\<rparr>\<rparr>"

definition deny_all_sd :: smb2_security_descriptor where
  "deny_all_sd = \<lparr>sd_revision = 1, sd_control = 0x8004, sd_owner = None, sd_group = None,
     sd_dacl = Some \<lparr>acl_revision = 2, acl_size = 8, acl_ace_count = 0, acl_aces = []\<rparr>\<rparr>"

definition sd_header :: "u32 \<Rightarrow> u32 \<Rightarrow> bytes" where
  "sd_header owner dacl = [1, 0] @ htole16 0x8004 @ htole32 owner @ htole32 0 @ htole32 0 @ htole32 dacl"

definition slack_acl :: bytes where
  "slack_acl = [2, 0] @ htole16 32 @ htole16 1 @ htole16 0 @ [3, 0] @ htole16 4 @ replicate 20 7"

section \<open>Encoding and decoding are inverse\<close>

lemma length_concat_htole32 [simp]: "length (concat (map htole32 xs)) = 4 * length xs"
  by (induction xs) auto

lemma length_sid_bytes: "wf_sid s \<Longrightarrow> length (sid_bytes s) = 8 + 4 * unat (sid_sub_auth_count s)"
  by (simp add: wf_sid_def sid_bytes_def)

lemma unat_u8_less: "unat (w :: u8) < 256"
  using unsigned_less [where 'a = nat, of w] by simp

lemma sid_size_nat:
  "unat (8 + 4 * ucast (c :: u8) :: u32) = 8 + 4 * unat c" "unat (8 + 4 * ucast (c :: u8) :: u64) = 8 + 4 * unat c"
proof -
  have "(8 + 4 * ucast c :: u32) = of_nat (8 + 4 * unat c)" "(8 + 4 * ucast c :: u64) = of_nat (8 + 4 * unat c)"
    by simp_all
  moreover have "8 + 4 * unat c < 2 ^ 32"
    using unat_u8_less [of c] by simp
  moreover have "8 + 4 * unat c < 2 ^ 64"
    using unat_u8_less [of c] by simp
  ultimately show "unat (8 + 4 * ucast (c :: u8) :: u32) = 8 + 4 * unat c" "unat (8 + 4 * ucast (c :: u8) :: u64) = 8 + 4 * unat c"
    by (simp_all only: unat_of_nat_u32 unat_of_nat_u64)
qed

lemma mem_write_end:
  "length bs \<le> length junk \<Longrightarrow> off = int (length pre) \<Longrightarrow>
   mem_write (pre @ junk) off bs = Some (pre @ bs @ drop (length bs) junk)"
  by (simp add: mem_write_def put_bytes_def)

lemma unat_sid_size [simp]: "wf_sid s \<Longrightarrow> unat (smb2_get_sid_size s) = length (sid_bytes s)"
  by (simp add: smb2_get_sid_size_def sid_size_nat length_sid_bytes)

lemma encode_sid_at:
  assumes "wf_sid s" and "length (sid_bytes s) \<le> length junk" and "length (sid_bytes s) \<le> unat bl"
  shows "encode_sid s (pre @ junk) (length pre) bl
     = Some (Inr (pre @ sid_bytes s @ drop (length (sid_bytes s)) junk, smb2_get_sid_size s))"
proof -
  have small: "\<not> bl < smb2_get_sid_size s"
    using assms by (simp add: word_less_nat_alt)
  have bytes: "[sid_revision s, sid_sub_auth_count s] @ take 6 (sid_id_auth s) @
      concat (map htole32 (take (unat (sid_sub_auth_count s)) (sid_sub_auth s))) = sid_bytes s"
    using assms(1) by (simp add: wf_sid_def sid_bytes_def)
  have "mem_write (pre @ junk) (int (length pre)) (sid_bytes s)
      = Some (pre @ sid_bytes s @ drop (length (sid_bytes s)) junk)"
    using assms by (simp add: mem_write_end)
  moreover have "\<not> (length (sid_id_auth s) < 6 \<or> length (sid_sub_auth s) < unat (sid_sub_auth_count s))"
    using assms(1) by (simp add: wf_sid_def)
  ultimately show ?thesis
    unfolding encode_sid_def Let_def bytes smb2_get_sid_size_def [symmetric] using small by simp
qed

lemma sid_sub_auths_at:
  assumes "wf_iovec v" and "iov_buf v = h @ concat (map htole32 xs) @ rest" and "length h = 8 + 4 * i"
    and "length h + 4 * length xs \<le> unat (iov_len v)"
  shows "sid_sub_auths v i (length xs) = Some xs"
  using assms
proof (induction xs arbitrary: i h)
  case Nil
  then show ?case by simp
next
  case (Cons x xs)
  have "get32 v (int (8 + i * 4)) 0 = Some x"
    using Cons.prems by (simp add: mem_simps nat_add_distrib nat_mult_distrib)
  moreover have "sid_sub_auths v (Suc i) (length xs) = Some xs"
    using Cons.prems by (intro Cons.IH [where h = "h @ htole32 x"]) auto
  ultimately show ?case
    by simp
qed

lemma decode_sid_at:
  assumes "wf_sid s" and "wf_iovec v" and "iov_buf v = sid_bytes s @ rest"
    and "length (sid_bytes s) \<le> unat (iov_len v)"
  shows "decode_sid v = Some (Inr s)"
proof -
  have len: "\<not> iov_len v < 8" "\<not> iov_len v < 8 + 4 * ucast (sid_sub_auth_count s)"
    using assms by (simp_all add: word_less_nat_alt sid_size_nat length_sid_bytes)
  have buf: "iov_buf v = ([sid_revision s, sid_sub_auth_count s] @ sid_id_auth s) @ concat (map htole32 (sid_sub_auth s)) @ rest"
    using assms(3) by (simp add: sid_bytes_def)
  have g: "get8 v 0 0 = Some 1" "get8 v 1 0 = Some (sid_sub_auth_count s)"
    using assms by (simp_all add: mem_simps buf wf_sid_def length_sid_bytes)
  have m: "mem_read (iov_buf v) 2 6 = Some (sid_id_auth s)"
    using assms(1) by (simp add: mem_read_def buf wf_sid_def sub_bytes_def)
  have s: "sid_sub_auths v 0 (length (sid_sub_auth s)) = Some (sid_sub_auth s)"
    using assms by (intro sid_sub_auths_at [OF assms(2) buf]) (simp_all add: wf_sid_def length_sid_bytes)
  show ?thesis
    using len g m s assms(1) by (simp add: decode_sid_def wf_sid_def)
qed

lemma simple_not_object [simp]: "ace_is_object t \<Longrightarrow> \<not> ace_is_simple t"
  by (auto simp: ace_is_simple_def ace_is_object_def)

lemma mem_write_seq [simp]:
  assumes "off' = off + int (length b1)" and "0 \<le> off"
  shows "mem_write buf off b1 \<bind> (\<lambda>b. mem_write b off' b2 \<bind> f) = mem_write buf off (b1 @ b2) \<bind> f"
proof (cases "nat off + length b1 \<le> length buf")
  case True
  have "nat off' = nat off + length b1"
    using assms by simp
  then show ?thesis
    using True assms by (auto simp: mem_write_def put_bytes_def ac_simps)
next
  case False
  then show ?thesis
    using assms by (simp add: mem_write_def)
qed

lemma wf_ace_sidD: "wf_ace a \<Longrightarrow> \<exists>s. ace_sid a = Some s \<and> wf_sid s"
  by (auto simp: wf_ace_def split: option.splits)

lemma encode_ace_sid_at:
  assumes "wf_ace a" and "unat hdr = length (ace_hdr_bytes a)"
    and "length (ace_bytes a) \<le> length (ace_hdr_bytes a @ junk)" and "length (ace_bytes a) \<le> unat bl"
  shows "encode_ace_sid a (pre @ ace_hdr_bytes a @ junk) (length pre) hdr bl
     = Some (Inr (pre @ ace_bytes a @ drop (length (ace_bytes a)) (ace_hdr_bytes a @ junk), ucast (ace_size a)))"
proof -
  obtain s where s: "ace_sid a = Some s" and wf: "wf_sid s"
    using wf_ace_sidD [OF assms(1)] by blast
  have b: "ace_bytes a = ace_hdr_bytes a @ sid_bytes s"
    by (simp add: ace_bytes_def s)
  have le: "hdr \<le> bl"
    using assms(2,4) by (simp add: word_le_nat_alt b)
  then have sub: "unat (bl - hdr) = unat bl - unat hdr"
    by (simp add: unat_sub)
  have "encode_sid s ((pre @ ace_hdr_bytes a) @ junk) (length (pre @ ace_hdr_bytes a)) (bl - hdr)
     = Some (Inr ((pre @ ace_hdr_bytes a) @ sid_bytes s @ drop (length (sid_bytes s)) junk, smb2_get_sid_size s))"
    using assms(2-4) by (intro encode_sid_at [OF wf]) (simp_all add: b sub)
  moreover have "hdr + smb2_get_sid_size s = ucast (ace_size a)"
  proof -
    have n: "unat (ace_size a) = unat hdr + unat (smb2_get_sid_size s)"
      using assms(1,2) wf by (simp add: wf_ace_def b)
    have "unat hdr + unat (smb2_get_sid_size s) < 2 ^ 32"
      using n unat_u16_less [of "ace_size a"] by simp
    then have "unat (hdr + smb2_get_sid_size s) = unat hdr + unat (smb2_get_sid_size s)"
      by (simp add: unat_word_ariths)
    then show ?thesis
      using n by (simp add: word_unat_eq_iff)
  qed
  ultimately show ?thesis
    by (simp add: encode_ace_sid_def s b assms(2))
qed

lemma encode_ace_at:
  assumes "wf_ace a" and "length (ace_bytes a) \<le> length junk" and "length (ace_bytes a) \<le> unat bl"
  shows "encode_ace a (pre @ junk) (length pre) bl
     = Some (Inr (pre @ ace_bytes a @ drop (length (ace_bytes a)) junk, ucast (ace_size a)))"
proof -
  let ?h = "ace_hdr_bytes a" and ?n = "if ace_is_object (ace_type a) then 44 else 8 :: u32"
  have ty: "ace_is_simple (ace_type a) \<or> ace_is_object (ace_type a)"
    and lens: "length (ace_object_type a) = 16" "length (ace_inherited_object_type a) = 16"
    and size: "unat (ace_size a) = length (ace_bytes a)"
    using assms(1) unfolding wf_ace_def by (metis, blast+)
  have h: "length ?h = unat ?n" and le: "length ?h \<le> length (ace_bytes a)"
    by (simp_all add: ace_hdr_bytes_def lens ace_bytes_def)
  have ex: "ace_is_simple (ace_type a) \<Longrightarrow> \<not> ace_is_object (ace_type a)"
    using simple_not_object by blast
  have enough: "\<not> bl < ucast (ace_size a)"
    using assms(3) size by (simp add: word_less_nat_alt)
  have wr: "mem_write (pre @ junk) (int (length pre)) ?h = Some (pre @ ?h @ drop (length ?h) junk)"
    using assms(2) le by (intro mem_write_end) auto
  have "encode_ace a (pre @ junk) (length pre) bl
     = mem_write (pre @ junk) (int (length pre)) ?h \<bind> (\<lambda>b. encode_ace_sid a b (length pre) ?n bl)"
    using enough ty lens by (cases "ace_is_simple (ace_type a)") (auto simp: encode_ace_def ace_hdr_bytes_def ex)
  also have "\<dots> = encode_ace_sid a (pre @ ?h @ drop (length ?h) junk) (length pre) ?n bl"
    by (simp only: wr Option.bind.bind_lunit)
  also have "\<dots> = Some (Inr (pre @ ace_bytes a @ drop (length (ace_bytes a)) (?h @ drop (length ?h) junk), ucast (ace_size a)))"
    using assms(2,3) le h by (intro encode_ace_sid_at [OF assms(1)]) simp_all
  finally show ?thesis
    using le by simp
qed

lemma encode_aces_at:
  assumes "list_all wf_ace aces" and "length (concat (map ace_bytes aces)) \<le> length junk"
    and "length h + length (concat (map ace_bytes aces)) \<le> unat bl"
  shows "encode_aces aces (pre @ h @ junk) (length pre) (of_nat (length h)) bl
     = Some (Inr (pre @ h @ concat (map ace_bytes aces) @ drop (length (concat (map ace_bytes aces))) junk,
          of_nat (length (h @ concat (map ace_bytes aces)))))"
  using assms
proof (induction aces arbitrary: h junk)
  case Nil
  then show ?case by simp
next
  case (Cons a aces)
  have bl: "unat bl < 2 ^ 32"
    by (rule unat_u32_less)
  have off: "unat (of_nat (length h) :: u32) = length h"
    using Cons.prems(3) bl by (intro unat_of_nat_u32) simp
  have sub: "unat (bl - of_nat (length h)) = unat bl - length h"
    using Cons.prems(3) off by (simp add: unat_sub word_le_nat_alt)
  have one: "encode_ace a ((pre @ h) @ junk) (length (pre @ h)) (bl - of_nat (length h))
     = Some (Inr ((pre @ h) @ ace_bytes a @ drop (length (ace_bytes a)) junk, ucast (ace_size a)))"
    using Cons.prems by (intro encode_ace_at) (simp_all add: sub)
  have sz: "of_nat (length h) + ucast (ace_size a) = (of_nat (length (h @ ace_bytes a)) :: u32)"
  proof -
    have "unat (ace_size a) = length (ace_bytes a)"
      using Cons.prems(1) by (simp add: wf_ace_def)
    then show ?thesis
      by (metis length_append of_nat_add of_nat_unat ucast_id unsigned_ucast_eq)
  qed
  have "encode_aces aces (pre @ (h @ ace_bytes a) @ drop (length (ace_bytes a)) junk) (length pre)
      (of_nat (length (h @ ace_bytes a))) bl = Some (Inr (pre @ (h @ ace_bytes a) @ concat (map ace_bytes aces) @
        drop (length (concat (map ace_bytes aces))) (drop (length (ace_bytes a)) junk),
        of_nat (length ((h @ ace_bytes a) @ concat (map ace_bytes aces)))))"
    using Cons.prems by (intro Cons.IH) simp_all
  then show ?case
    using one off sz by (simp add: ac_simps)
qed

lemma acl_size_check_ok:
  assumes "list_all wf_ace aces" and "n + length (concat (map ace_bytes aces)) \<le> unat limit"
  shows "acl_size_check limit aces (of_nat n) = Inr (of_nat (n + length (concat (map ace_bytes aces))))"
  using assms
proof (induction aces arbitrary: n)
  case Nil
  then show ?case by simp
next
  case (Cons a aces)
  have lim: "unat limit < 2 ^ 16"
    by (rule unat_u16_less)
  have "unat (ace_size a) = length (ace_bytes a)"
    using Cons.prems(1) by (simp add: wf_ace_def)
  then have sz: "(of_nat n + ucast (ace_size a) :: u32) = of_nat (n + length (ace_bytes a))"
    by (metis of_nat_add of_nat_unat ucast_id unsigned_ucast_eq)
  have m: "unat (of_nat (n + length (ace_bytes a)) :: u32) = n + length (ace_bytes a)"
    using Cons.prems(2) lim by (intro unat_of_nat_u32) simp
  have "acl_size_check limit aces (of_nat (n + length (ace_bytes a)))
      = Inr (of_nat (n + length (ace_bytes a) + length (concat (map ace_bytes aces))))"
    using Cons.prems by (intro Cons.IH) simp_all
  then show ?case
    using m sz Cons.prems(2) \<open>unat (ace_size a) = _\<close>
    by (simp add: Let_def word_less_nat_alt add.assoc del: of_nat_add)
qed

lemma encode_acl_at:
  assumes "wf_acl acl" and "length (acl_bytes acl) \<le> length junk" and "length (acl_bytes acl) \<le> unat bl"
  shows "encode_acl acl (pre @ junk) (length pre) bl
     = Some (Inr (pre @ acl_bytes acl @ drop (length (acl_bytes acl)) junk, of_nat (length (acl_bytes acl))))"
proof -
  let ?h = "[acl_revision acl, 0] @ htole16 (acl_size acl) @ htole16 (acl_ace_count acl) @ htole16 0"
  let ?as = "concat (map ace_bytes (acl_aces acl))"
  have wf: "list_all wf_ace (acl_aces acl)" "unat (acl_size acl) = 8 + length ?as"
    and b: "acl_bytes acl = ?h @ ?as" and len: "length (acl_bytes acl) = 8 + length ?as"
    using assms(1) by (simp_all add: wf_acl_def acl_bytes_def)
  have "acl_size_check (acl_size acl) (acl_aces acl) (of_nat 8) = Inr (of_nat (8 + length ?as))"
    using wf by (intro acl_size_check_ok) simp_all
  moreover have "\<not> bl < of_nat (8 + length ?as)"
    using assms(3) len unat_u32_less [of bl]
    by (simp add: word_less_nat_alt unat_of_nat_u32 del: of_nat_add)
  moreover have "mem_write (pre @ junk) (int (length pre)) ?h = Some (pre @ ?h @ drop 8 junk)"
    using assms(2) len by (subst mem_write_end) simp_all
  moreover have "encode_aces (acl_aces acl) (pre @ ?h @ drop 8 junk) (length pre) (of_nat (length ?h)) bl
     = Some (Inr (pre @ ?h @ ?as @ drop (length ?as) (drop 8 junk), of_nat (length (?h @ ?as))))"
    using assms(2,3) len wf(1) by (intro encode_aces_at) simp_all
  ultimately show ?thesis
    by (simp add: encode_acl_def b add.commute eval_nat_numeral)
qed

lemma iov_skip_in:
  assumes "wf_iovec v" and "n \<le> unat (iov_len v)"
  shows "\<exists>v'. iov_skip v n = Some v' \<and> iov_buf v' = drop n (iov_buf v) \<and>
     unat (iov_len v') = unat (iov_len v) - n \<and> wf_iovec v'"
proof -
  have "unat (of_nat n :: u64) = n"
    using assms(2) unat_u64_less [of "iov_len v"] by (intro unat_of_nat_u64) linarith
  then have "unat (iov_len v - of_nat n) = unat (iov_len v) - n"
    using assms(2) by (simp add: unat_sub word_le_nat_alt)
  then show ?thesis
    using assms by (auto simp: iov_skip_def iov_sub_def mem_ptr_in wf_iovec_def)
qed

lemma iov_skip_from:
  assumes "wf_iovec v" and "iov_buf v = drop k b" and "unat (iov_len v) = l - k" and "k + n \<le> l"
    and "k' = k + n"
  obtains v' where "iov_skip v n = Some v'" "iov_buf v' = drop k' b" "unat (iov_len v') = l - k'" "wf_iovec v'"
proof -
  have "n \<le> unat (iov_len v)"
    using assms(3,4) by simp
  then show ?thesis
    using iov_skip_in [OF assms(1)] assms(2,3,5) by (fastforce intro: that simp: add.commute)
qed

lemma decode_ace_sid_at:
  assumes "wf_sid s" and "wf_iovec v" and "iov_buf v = sid_bytes s @ rest"
    and "length (sid_bytes s) \<le> unat (iov_len v)"
  shows "decode_ace_sid ace v = Some (Inr (ace\<lparr>ace_sid := Some s\<rparr>))"
  using decode_sid_at [OF assms] by (simp add: decode_ace_sid_def)

lemma decode_ace_at:
  assumes "wf_ace a" and "wf_iovec v" and "iov_buf v = ace_bytes a @ rest"
    and "length (ace_bytes a) \<le> unat (iov_len v)"
  shows "decode_ace v = Some (Inr a)"
proof -
  obtain s where s: "ace_sid a = Some s" and wfs: "wf_sid s"
    using wf_ace_sidD [OF assms(1)] by blast
  let ?t = "ace_type a"
  have size: "unat (ace_size a) = length (ace_bytes a)"
    and lens: "length (ace_object_type a) = 16" "length (ace_inherited_object_type a) = 16"
    and dflt: "ace_ad_len a = 0" "ace_ad_data a = None" "ace_raw_len a = 0" "ace_raw_data a = None"
    and ty: "if ace_is_simple ?t
      then ace_obj_flags a = 0 \<and> ace_object_type a = replicate 16 0 \<and> ace_inherited_object_type a = replicate 16 0
      else ace_is_object ?t"
    using assms(1) unfolding wf_ace_def by blast+
  have long: "8 + length (sid_bytes s) \<le> length (ace_bytes a)"
    by (simp add: ace_bytes_def ace_hdr_bytes_def s)
  have g: "get8 v 0 0 = Some ?t" "get8 v 1 0 = Some (ace_flags a)" "get16 v 2 0 = Some (ace_size a)"
    using assms long by (simp_all add: mem_simps ace_bytes_def ace_hdr_bytes_def)
  have ok: "\<not> iov_len v < 4" "\<not> ace_size a < 4" "\<not> iov_len v < ucast (ace_size a)"
    using assms long size by (simp_all add: word_less_nat_alt)
  obtain v1 where v1: "iov_skip v 4 = Some v1" "iov_buf v1 = drop 4 (iov_buf v)"
      "unat (iov_len v1) = unat (iov_len v) - 4" "wf_iovec v1"
    using long assms(4) by (rule_tac k' = 4 in iov_skip_from [OF assms(2), of 0 "iov_buf v" "unat (iov_len v)" 4]) auto
  have m: "get32 v1 0 0 = Some (ace_mask a)"
    using v1 assms(3,4) long by (simp add: mem_simps ace_bytes_def ace_hdr_bytes_def drop_Cons')
  obtain v2 where v2: "iov_skip v1 4 = Some v2" "iov_buf v2 = drop 8 (iov_buf v)"
      "unat (iov_len v2) = unat (iov_len v) - 8" "wf_iovec v2"
    using long assms(4) by (rule_tac k' = 8 in iov_skip_from [OF v1(4,2,3), of 4]) auto
  show ?thesis
  proof (cases "ace_is_simple ?t")
    case True
    then have no: "\<not> ace_is_object ?t"
      using simple_not_object by blast
    let ?a = "new_smb2_ace\<lparr>ace_type := ?t, ace_flags := ace_flags a, ace_size := ace_size a, ace_mask := ace_mask a\<rparr>"
    have "\<not> iov_len v1 < 4"
      using v1(3) long assms(4) by (simp add: word_less_nat_alt)
    then have "decode_ace v = decode_ace_sid ?a v2"
      using g ok v1(1) v2(1) m True unfolding decode_ace_def Let_def by simp
    also have "\<dots> = Some (Inr (?a\<lparr>ace_sid := Some s\<rparr>))"
      using v2 assms(3,4) long no
      by (intro decode_ace_sid_at [OF wfs, where rest = rest]) (simp_all add: ace_bytes_def ace_hdr_bytes_def s drop_Cons')
    also have "?a\<lparr>ace_sid := Some s\<rparr> = a"
      by (rule smb2_ace.equality) (use ty True dflt s in \<open>simp_all add: new_smb2_ace_def\<close>)
    finally show ?thesis .
  next
    case False
    then have obj: "ace_is_object ?t"
      using ty by simp
    have long: "44 + length (sid_bytes s) \<le> length (ace_bytes a)"
      by (simp add: ace_bytes_def ace_hdr_bytes_def s obj lens)
    note b = assms(3) [unfolded ace_bytes_def ace_hdr_bytes_def s]
    have f: "get32 v2 0 0 = Some (ace_obj_flags a)"
      using v2 b assms(4) long obj by (simp add: mem_simps drop_Cons')
    obtain v3 where v3: "iov_skip v2 4 = Some v3" "iov_buf v3 = drop 12 (iov_buf v)"
        "unat (iov_len v3) = unat (iov_len v) - 12" "wf_iovec v3"
      using long assms(4) by (rule_tac k' = 12 in iov_skip_from [OF v2(4,2,3), of 4]) auto
    have ot: "mem_read (iov_buf v3) 0 16 = Some (ace_object_type a)"
      using v3 b obj lens by (simp add: mem_read_def sub_bytes_def drop_Cons')
    obtain v4 where v4: "iov_skip v3 16 = Some v4" "iov_buf v4 = drop 28 (iov_buf v)"
        "unat (iov_len v4) = unat (iov_len v) - 28" "wf_iovec v4"
      using long assms(4) by (rule_tac k' = 28 in iov_skip_from [OF v3(4,2,3), of 16]) auto
    have it: "mem_read (iov_buf v4) 0 16 = Some (ace_inherited_object_type a)"
      using v4 b obj lens by (simp add: mem_read_def sub_bytes_def drop_Cons')
    obtain v5 where v5: "iov_skip v4 16 = Some v5" "iov_buf v5 = drop 44 (iov_buf v)"
        "unat (iov_len v5) = unat (iov_len v) - 44" "wf_iovec v5"
      using long assms(4) by (rule_tac k' = 44 in iov_skip_from [OF v4(4,2,3), of 16]) auto
    let ?a = "new_smb2_ace\<lparr>ace_type := ?t, ace_flags := ace_flags a, ace_size := ace_size a,
        ace_mask := ace_mask a, ace_obj_flags := ace_obj_flags a, ace_object_type := ace_object_type a,
        ace_inherited_object_type := ace_inherited_object_type a\<rparr>"
    have "\<not> iov_len v1 < 40"
      using v1(3) long assms(4) by (simp add: word_less_nat_alt)
    then have "decode_ace v = decode_ace_sid ?a v5"
      using g ok v1(1) v2(1) v3(1) v4(1) v5(1) m f ot it obj unfolding decode_ace_def Let_def by simp
    also have "\<dots> = Some (Inr (?a\<lparr>ace_sid := Some s\<rparr>))"
      using v5 b assms(4) long obj lens
      by (intro decode_ace_sid_at [OF wfs, where rest = rest]) (simp_all add: drop_Cons')
    also have "?a\<lparr>ace_sid := Some s\<rparr> = a"
      by (rule smb2_ace.equality) (use dflt s in \<open>simp_all add: new_smb2_ace_def\<close>)
    finally show ?thesis .
  qed
qed

lemma decode_aces_at:
  assumes "list_all wf_ace aces" and "wf_iovec v" and "iov_buf v = concat (map ace_bytes aces) @ rest"
    and "length (concat (map ace_bytes aces)) \<le> unat (iov_len v)"
  shows "decode_aces i (length aces) v acc = Some (Inr (acc @ aces))"
  using assms
proof (induction aces arbitrary: i v acc)
  case Nil
  then show ?case by simp
next
  case (Cons a aces)
  have size: "unat (ace_size a) = length (ace_bytes a)"
    using Cons.prems(1) by (simp add: wf_ace_def)
  have a: "decode_ace v = Some (Inr a)"
    using Cons.prems by (intro decode_ace_at [where rest = "concat (map ace_bytes aces) @ rest"]) simp_all
  obtain v' where v': "iov_skip v (unat (ace_size a)) = Some v'" "iov_buf v' = drop (unat (ace_size a)) (iov_buf v)"
      "unat (iov_len v') = unat (iov_len v) - unat (ace_size a)" "wf_iovec v'"
    using iov_skip_in [OF Cons.prems(2), of "unat (ace_size a)"] Cons.prems(4) size by auto
  have "decode_aces (Suc i) (length aces) v' (acc @ [a]) = Some (Inr ((acc @ [a]) @ aces))"
    using Cons.prems v' size by (intro Cons.IH) auto
  moreover have "\<not> iov_len v < ucast (ace_size a)"
    using Cons.prems(4) size by (simp add: word_less_nat_alt)
  ultimately show ?case
    using a v'(1) by simp
qed

lemma decode_acl_at:
  assumes "wf_acl acl" and "wf_iovec v" and "iov_buf v = acl_bytes acl @ rest"
    and "length (acl_bytes acl) \<le> unat (iov_len v)"
  shows "decode_acl v = Some (Inr acl)"
proof -
  let ?as = "concat (map ace_bytes (acl_aces acl))"
  have wf: "acl_revision acl \<in> {2, 4}" "list_all wf_ace (acl_aces acl)"
      "unat (acl_ace_count acl) = length (acl_aces acl)" "unat (acl_size acl) = length (acl_bytes acl)"
    and len: "length (acl_bytes acl) = 8 + length ?as"
    using assms(1) by (simp_all add: wf_acl_def acl_bytes_def)
  have g: "get8 v 0 0 = Some (acl_revision acl)" "get16 v 2 z = Some (acl_size acl)"
      "get16 v 4 0 = Some (acl_ace_count acl)" for z
    using assms(2-4) len by (simp_all add: mem_simps acl_bytes_def)
  define v1 where "v1 = (if iov_len v > ucast (acl_size acl) then v\<lparr>iov_len := ucast (acl_size acl)\<rparr> else v)"
  have v1: "iov_buf v1 = iov_buf v" "unat (iov_len v1) = 8 + length ?as" "wf_iovec v1"
    using assms(2,4) wf(4) len by (auto simp: v1_def wf_iovec_def word_less_nat_alt)
  obtain v2 where v2: "iov_skip v1 8 = Some v2" "iov_buf v2 = drop 8 (iov_buf v1)"
      "unat (iov_len v2) = unat (iov_len v1) - 8" "wf_iovec v2"
    using iov_skip_in [OF v1(3), of 8] v1(2) by auto
  have aces: "decode_aces 0 (unat (acl_ace_count acl)) v2 [] = Some (Inr ([] @ acl_aces acl))"
    unfolding wf(3) using v2 v1 assms(3) wf(2)
    by (intro decode_aces_at [where rest = rest]) (simp_all add: acl_bytes_def drop_Cons')
  have ok: "\<not> iov_len v < 8" "\<not> iov_len v1 < ucast (acl_size acl)" "\<not> acl_revision acl \<notin> {2, 4}"
    using assms(4) len wf v1(2) by (simp_all add: word_less_nat_alt)
  show ?thesis
    unfolding decode_acl_def Let_def
    by (simp only: ok g Option.bind.bind_lunit if_False if_not_P [OF ok(3)] v1_def [symmetric] v2(1) aces
        sum.case append_Nil) simp
qed

lemma encode_sd_part_at:
  assumes enc: "\<And>y pre junk bl. x = Some y \<Longrightarrow> length (f y) \<le> length junk \<Longrightarrow> length (f y) \<le> unat bl \<Longrightarrow>
      enc y (pre @ junk) (length pre) bl = Some (Inr (pre @ f y @ drop (length (f y)) junk, of_nat (length (f y))))"
    and "length hdr = 20" and "field + 4 \<le> 20"
    and "length (opt_bytes f x) \<le> length junk"
    and "20 + length body + length (opt_bytes f x) \<le> unat sz"
  shows "encode_sd_part enc failed x field (hdr @ body @ junk) (of_nat (20 + length body)) sz
     = Some (Inr ((if x = None then hdr else put_bytes hdr field (htole32 (of_nat (20 + length body))))
          @ (body @ opt_bytes f x) @ drop (length (opt_bytes f x)) junk, of_nat (20 + length (body @ opt_bytes f x))))"
proof (cases x)
  case None
  then show ?thesis by (simp add: encode_sd_part_def opt_bytes_def)
next
  case (Some y)
  let ?o = "of_nat (20 + length body) :: u32"
  have o: "unat ?o = 20 + length body"
    using assms(5) unat_u32_less [of sz] by (intro unat_of_nat_u32) simp
  have sub: "unat (sz - ?o) = unat sz - (20 + length body)"
    using assms(5) o by (simp add: unat_sub word_le_nat_alt del: of_nat_add)
  have "enc y ((hdr @ body) @ junk) (length (hdr @ body)) (sz - ?o)
      = Some (Inr ((hdr @ body) @ f y @ drop (length (f y)) junk, of_nat (length (f y))))"
    using assms(4,5) Some by (intro enc) (simp_all add: opt_bytes_def sub del: of_nat_add)
  moreover have "mem_write (hdr @ z) (int field) (htole32 ?o) = Some (put_bytes hdr field (htole32 ?o) @ z)" for z
    using assms(2,3) by (simp add: mem_write_def put_bytes_def del: of_nat_add)
  ultimately show ?thesis
    using Some o assms(2) by (simp add: encode_sd_part_def opt_bytes_def add.assoc)
qed

lemma decode_sd_part_at:
  assumes "\<And>v. wf_iovec v \<Longrightarrow> iov_buf v = bs @ rest \<Longrightarrow> length bs \<le> unat (iov_len v) \<Longrightarrow> dec v = Some (Inr x)"
    and "wf_iovec vec" and "iov_buf vec = pre @ bs @ rest" and "length pre + length bs \<le> unat (iov_len vec)"
    and "8 < length bs" and "0 < length pre" and "length pre + 8 < 2 ^ 32"
  shows "decode_sd_part dec failed vec (of_nat (length pre)) = Some (Inr (Some x))"
proof -
  let ?o = "of_nat (length pre) :: u32"
  have o: "unat ?o = length pre" "unat (?o + 8) = length pre + 8"
    using assms(7) unat_of_nat_u32 [of "length pre"] unat_of_nat_u32 [of "length pre + 8"] by simp_all
  have len: "unat (iov_len vec - ucast ?o) = unat (iov_len vec) - length pre"
    using assms(4) o by (simp add: unat_sub word_le_nat_alt)
  obtain v where v: "iov_sub vec (length pre) (iov_len vec - ucast ?o) = Some v" "iov_buf v = bs @ rest"
      "unat (iov_len v) = unat (iov_len vec) - length pre" "wf_iovec v"
    using assms(2-4) len by (auto simp: iov_sub_def mem_ptr_in wf_iovec_def)
  have "?o > 0" "ucast (?o + 8) < iov_len vec"
    using o assms(4-6) by (simp_all add: word_less_nat_alt)
  then show ?thesis
    using v assms(1) [OF v(4,2)] assms(4) o(1) by (simp add: decode_sd_part_def)
qed

lemma sid_size_of_nat: "wf_sid s \<Longrightarrow> smb2_get_sid_size s = of_nat (length (sid_bytes s))"
  by (metis of_nat_unat ucast_id unat_sid_size)

lemma acl_size_of_nat:
  assumes "list_all wf_ace aces"
  shows "foldl (\<lambda>n ace. n + ucast (ace_size ace)) (of_nat k :: u32) aces = of_nat (k + length (concat (map ace_bytes aces)))"
  using assms
proof (induction aces arbitrary: k)
  case Nil
  then show ?case by simp
next
  case (Cons a aces)
  have "unat (ace_size a) = length (ace_bytes a)"
    using Cons.prems by (simp add: wf_ace_def)
  then have "(of_nat k + ucast (ace_size a) :: u32) = of_nat (k + length (ace_bytes a))"
    by (metis of_nat_add of_nat_unat ucast_id unsigned_ucast_eq)
  then show ?case
    using Cons.IH [of "k + length (ace_bytes a)"] Cons.prems by (simp add: add.assoc del: of_nat_add)
qed

lemma get_acl_size_of_nat: "wf_acl acl \<Longrightarrow> smb2_get_acl_size acl = of_nat (length (acl_bytes acl))"
  using acl_size_of_nat [of "acl_aces acl" 8]
  by (simp add: smb2_get_acl_size_def wf_acl_def acl_bytes_def)

lemma sd_size_of_nat: "wf_sd sd \<Longrightarrow> smb2_get_security_descriptor_size sd = of_nat (length (sd_bytes sd))"
  by (auto simp: wf_sd_def smb2_get_security_descriptor_size_def sd_bytes_def opt_bytes_def Let_def
      sid_size_of_nat get_acl_size_of_nat split: option.splits)

lemma sid_bytes_len: "wf_sid s \<Longrightarrow> 8 < length (sid_bytes s) \<and> length (sid_bytes s) < 2000"
  using unat_u8_less [of "sid_sub_auth_count s"] length_sid_bytes [of s]
  by (cases "sid_sub_auth s") (auto simp: wf_sid_def)

lemma acl_bytes_len: "wf_acl acl \<Longrightarrow> 8 < length (acl_bytes acl) \<and> length (acl_bytes acl) < 70000"
  using unat_u16_less [of "acl_size acl"]
  by (cases "acl_aces acl") (auto simp: wf_acl_def acl_bytes_def ace_bytes_def ace_hdr_bytes_def)

lemma opt_len:
  "pred_option wf_sid x \<Longrightarrow> length (opt_bytes sid_bytes x) < 2000 \<and> (opt_bytes sid_bytes x = [] \<longleftrightarrow> x = None)"
  "pred_option wf_acl y \<Longrightarrow> length (opt_bytes acl_bytes y) < 70000 \<and> (opt_bytes acl_bytes y = [] \<longleftrightarrow> y = None)"
  using sid_bytes_len acl_bytes_len by (force simp: opt_bytes_def split: option.splits)+

lemma encode_sd_at:
  assumes "wf_sd sd" and "length (sd_bytes sd) \<le> length buffer" and "length buffer < 2 ^ 32"
  shows "smb2EncodeSecurityDescriptor sd (Some buffer) (Some (of_nat (length buffer)))
     = Some (Encoded (sd_bytes sd @ drop (length (sd_bytes sd)) buffer) (of_nat (length (sd_bytes sd))))"
proof -
  let ?ow = "opt_bytes sid_bytes (sd_owner sd)" and ?gr = "opt_bytes sid_bytes (sd_group sd)"
    and ?da = "opt_bytes acl_bytes (sd_dacl sd)"
  let ?sz = "of_nat (length buffer) :: u32"
  define h0 where "h0 = [sd_revision sd, 0] @ htole16 (sd_control sd) @ htole32 0 @ htole32 0 @ htole32 0 @ htole32 0"
  define h1 where "h1 = (if sd_owner sd = None then h0 else put_bytes h0 4 (htole32 (of_nat (20 + length ([] :: bytes)))))"
  define h2 where "h2 = (if sd_group sd = None then h1 else put_bytes h1 8 (htole32 (of_nat (20 + length ?ow))))"
  define h3 where "h3 = (if sd_dacl sd = None then h2 else put_bytes h2 16 (htole32 (of_nat (20 + length (?ow @ ?gr)))))"
  note wf = assms(1) [unfolded wf_sd_def]
  have len: "length (sd_bytes sd) = 20 + length ?ow + length ?gr + length ?da"
    by (simp add: sd_bytes_def Let_def)
  have sz: "unat ?sz = length buffer"
    using assms(3) by (rule unat_of_nat_u32)
  have enough: "\<not> ?sz < smb2_get_security_descriptor_size sd"
    using assms sz by (simp add: sd_size_of_nat word_less_nat_alt unat_of_nat_u32)
  have l: "length h0 = 20" "length h1 = 20" "length h2 = 20"
    by (simp_all add: h0_def h1_def h2_def put_bytes_def)
  have w0: "mem_write buffer 0 h0 = Some (h0 @ [] @ drop 20 buffer)"
    using assms(2) len l mem_write_end [of h0 buffer 0 "[]"] by simp
  have e1: "encode_sd_part encode_sid f (sd_owner sd) 4 (h0 @ [] @ drop 20 buffer) (of_nat (20 + length ([] :: bytes))) ?sz
     = Some (Inr (h1 @ ([] @ ?ow) @ drop (length ?ow) (drop 20 buffer), of_nat (20 + length ([] @ ?ow))))" for f
    unfolding h1_def using wf assms(2) len sz l
    by (intro encode_sd_part_at) (simp_all add: encode_sid_at sid_size_of_nat)
  have e2: "encode_sd_part encode_sid f (sd_group sd) 8 (h1 @ ?ow @ drop (length ?ow) (drop 20 buffer)) (of_nat (20 + length ?ow)) ?sz
     = Some (Inr (h2 @ (?ow @ ?gr) @ drop (length ?gr) (drop (length ?ow) (drop 20 buffer)), of_nat (20 + length (?ow @ ?gr))))" for f
    unfolding h2_def using wf assms(2) len sz l
    by (intro encode_sd_part_at) (simp_all add: encode_sid_at sid_size_of_nat)
  have e3: "encode_sd_part encode_acl f (sd_dacl sd) 16 (h2 @ (?ow @ ?gr) @ drop (length ?gr) (drop (length ?ow) (drop 20 buffer)))
      (of_nat (20 + length (?ow @ ?gr))) ?sz
     = Some (Inr (h3 @ ((?ow @ ?gr) @ ?da) @ drop (length ?da) (drop (length ?gr) (drop (length ?ow) (drop 20 buffer))),
          of_nat (20 + length ((?ow @ ?gr) @ ?da))))" for f
    unfolding h3_def using wf assms(2) len sz l
    by (intro encode_sd_part_at) (simp_all add: encode_acl_at)
  have h3: "sd_bytes sd = h3 @ (?ow @ ?gr) @ ?da"
    using opt_len(1) [of "sd_owner sd"] opt_len(1) [of "sd_group sd"] opt_len(2) [of "sd_dacl sd"] wf
    by (simp add: sd_bytes_def Let_def put_bytes_def h0_def h1_def h2_def h3_def ac_simps)
  have twenty: "of_nat (20 + length ([] :: bytes)) = (20 :: u32)"
    by simp
  have d: "drop (length ?da) (drop (length ?gr) (drop (length ?ow) (drop 20 buffer))) = drop (length (sd_bytes sd)) buffer"
    by (simp add: len ac_simps)
  have n: "20 + length ((?ow @ ?gr) @ ?da) = length (sd_bytes sd)"
    by (simp add: len)
  show ?thesis
    unfolding smb2EncodeSecurityDescriptor_def
    by (simp only: prod.case option.case if_not_P [OF enough] h0_def [symmetric] w0 [unfolded append_Nil]
        Option.bind.bind_lunit e1 [unfolded twenty append_Nil] sum.case e2 e3 d n)
      (simp only: h3 append_assoc)
qed

lemma decode_sd_part_opt:
  assumes dec: "\<And>y v. x = Some y \<Longrightarrow> wf_iovec v \<Longrightarrow> iov_buf v = f y @ rest \<Longrightarrow> length (f y) \<le> unat (iov_len v) \<Longrightarrow>
       dec v = Some (Inr y)"
    and "wf_iovec vec" and "iov_buf vec = pre @ opt_bytes f x @ rest"
    and "length pre + length (opt_bytes f x) \<le> unat (iov_len vec)"
    and "\<And>y. x = Some y \<Longrightarrow> 8 < length (f y)" and "0 < length pre" and "length pre + 8 < 2 ^ 32"
  shows "decode_sd_part dec failed vec (if opt_bytes f x = [] then 0 else of_nat (length pre)) = Some (Inr x)"
proof (cases x)
  case None
  then show ?thesis by (simp add: decode_sd_part_def opt_bytes_def)
next
  case (Some y)
  have "decode_sd_part dec failed vec (of_nat (length pre)) = Some (Inr (Some y))"
    using assms Some by (intro decode_sd_part_at [where bs = "f y" and rest = rest]) (simp_all add: opt_bytes_def)
  moreover have "f y \<noteq> []"
    using assms(5) [OF Some] by auto
  ultimately show ?thesis
    by (simp add: Some opt_bytes_def)
qed

lemma decode_sd_at:
  assumes "wf_sd sd"
  shows "smb2DecodeSecurityDescriptor (sd_bytes sd @ junk) (of_nat (length (sd_bytes sd))) = Some (Inr sd)"
proof -
  let ?ow = "opt_bytes sid_bytes (sd_owner sd)" and ?gr = "opt_bytes sid_bytes (sd_group sd)"
    and ?da = "opt_bytes acl_bytes (sd_dacl sd)"
  let ?off = "\<lambda>bs n. if bs = [] then 0 else of_nat n :: u32"
  define hdr where "hdr = [sd_revision sd, 0] @ htole16 (sd_control sd) @ htole32 (?off ?ow 20) @
      htole32 (?off ?gr (20 + length ?ow)) @ htole32 0 @ htole32 (?off ?da (20 + length ?ow + length ?gr))"
  note wf = assms [unfolded wf_sd_def]
  have b: "sd_bytes sd = hdr @ ?ow @ ?gr @ ?da" and h: "length hdr = 20"
    by (simp_all add: sd_bytes_def hdr_def Let_def)
  have small: "length ?ow < 2000" "length ?gr < 2000" "length ?da < 70000"
    using opt_len wf by blast+
  define vec where "vec = \<lparr>iov_buf = sd_bytes sd @ junk, iov_len = ucast (of_nat (length (sd_bytes sd)) :: u32), iov_free = False\<rparr>"
  have vec: "iov_buf vec = hdr @ ?ow @ ?gr @ ?da @ junk" "unat (iov_len vec) = length (sd_bytes sd)"
    using small h by (simp_all add: vec_def b unat_of_nat_u32 del: of_nat_add)
  then have wfv: "wf_iovec vec" and len: "unat (iov_len vec) = 20 + length ?ow + length ?gr + length ?da"
    by (simp_all add: wf_iovec_def b h)
  obtain v where v: "iov_sub vec 0 20 = Some v" "iov_buf v = iov_buf vec" "iov_len v = 20" "wf_iovec v"
    using vec(1) h by (simp add: iov_sub_def mem_ptr_def wf_iovec_def)
  have g: "get8 v 0 z = Some 1" "get16 v 2 y = Some (sd_control sd)" "get32 v 4 0 = Some (?off ?ow 20)"
      "get32 v 8 0 = Some (?off ?gr (20 + length ?ow))" "get32 v 12 0 = Some 0"
      "get32 v 16 0 = Some (?off ?da (20 + length ?ow + length ?gr))" for z y
    using v vec(1) wf by (simp_all add: mem_simps hdr_def del: of_nat_add)
  have "decode_sd_part decode_sid f vec (?off ?ow (length (hdr))) = Some (Inr (sd_owner sd))" for f
    by (rule decode_sd_part_opt [where rest = "?gr @ ?da @ junk"])
      (use wf wfv vec(1) len h small sid_bytes_len in \<open>auto intro: decode_sid_at\<close>)
  then have p1: "decode_sd_part decode_sid f vec (?off ?ow (20)) = Some (Inr (sd_owner sd))" for f
    by (simp only: length_append h add.assoc)
  have "decode_sd_part decode_sid f vec (?off ?gr (length (hdr @ ?ow))) = Some (Inr (sd_group sd))" for f
    by (rule decode_sd_part_opt [where rest = "?da @ junk"])
      (use wf wfv vec(1) len h small sid_bytes_len in \<open>auto intro: decode_sid_at\<close>)
  then have p2: "decode_sd_part decode_sid f vec (?off ?gr (20 + length ?ow)) = Some (Inr (sd_group sd))" for f
    by (simp only: length_append h add.assoc)
  have "decode_sd_part decode_acl f vec (?off ?da (length (hdr @ ?ow @ ?gr))) = Some (Inr (sd_dacl sd))" for f
    by (rule decode_sd_part_opt [where rest = "junk"])
      (use wf wfv vec(1) len h small acl_bytes_len in \<open>auto intro: decode_acl_at\<close>)
  then have p3: "decode_sd_part decode_acl f vec (?off ?da (20 + length ?ow + length ?gr)) = Some (Inr (sd_dacl sd))" for f
    by (simp only: length_append h add.assoc)
  have "\<not> iov_len vec < 20"
    using len by (simp add: word_less_nat_alt)
  then have "smb2DecodeSecDescInternal new_smb2_security_descriptor vec = Some (Inr sd)"
    unfolding smb2DecodeSecDescInternal_def
    using wf by (simp only: if_False v(1) g Option.bind.bind_lunit p1 p2 p3 sum.case)
      (auto simp: new_smb2_security_descriptor_def intro!: smb2_security_descriptor.equality)
  then show ?thesis
    by (simp add: smb2DecodeSecurityDescriptor_def vec_def)
qed

lemma sid_sub_auths_safe:
  assumes "wf_iovec v" and "4 * (i + n) < 2 ^ 30"
  shows "sid_sub_auths v i n \<noteq> None"
  using assms
proof (induction n arbitrary: i)
  case 0
  then show ?case by simp
next
  case (Suc n)
  then have "get32 v (int (8 + i * 4)) 0 \<noteq> None" "sid_sub_auths v (Suc i) n \<noteq> None"
    using f32.get_defined [of v "int (8 + i * 4)" 0] by (auto simp: get32_def nat_add_distrib nat_mult_distrib)
  then show ?case
    by auto
qed

section \<open>Properties\<close>

text \<open>Decoding a SID from a vector that owns its bytes never leaves them, whatever the bytes say.\<close>

lemma decode_sid_memory_safe:
  assumes "wf_iovec v"
  shows "decode_sid v \<noteq> None"
proof (cases "iov_len v < 8")
  case True
  then show ?thesis by (simp add: decode_sid_def)
next
  case False
  then have l: "8 \<le> unat (iov_len v)"
    by (simp add: word_less_nat_alt)
  obtain a b where g: "get8 v 0 0 = Some a" "get8 v 1 0 = Some b"
    using assms l by (simp add: mem_simps)
  moreover obtain c where "mem_read (iov_buf v) 2 6 = Some c"
    using assms l by (simp add: mem_read_def wf_iovec_def)
  moreover obtain d where "sid_sub_auths v 0 (unat b) = Some d"
    using sid_sub_auths_safe [OF assms, of 0 "unat b"] unat_u8_less [of b] by auto
  ultimately show ?thesis
    by (simp add: decode_sid_def)
qed

text \<open>C22. A security descriptor with an optional owner, group and DACL of basic and object ACEs is
  encoded into any buffer of at least its computed size, and decoding what was encoded gives the same
  descriptor back.\<close>

theorem sd_roundtrip:
  assumes "wf_sd sd" and "unat (smb2_get_security_descriptor_size sd) \<le> length buffer" and "length buffer < 2 ^ 32"
  shows "\<exists>b. smb2EncodeSecurityDescriptor sd (Some buffer) (Some (of_nat (length buffer)))
       = Some (Encoded b (smb2_get_security_descriptor_size sd)) \<and>
     smb2DecodeSecurityDescriptor b (smb2_get_security_descriptor_size sd) = Some (Inr sd)"
proof -
  have wf: "pred_option wf_sid (sd_owner sd)" "pred_option wf_sid (sd_group sd)" "pred_option wf_acl (sd_dacl sd)"
    using assms(1) by (simp_all add: wf_sd_def)
  have "length (sd_bytes sd) < 2 ^ 32"
    using opt_len(1) [OF wf(1)] opt_len(1) [OF wf(2)] opt_len(2) [OF wf(3)] by (simp add: sd_bytes_def Let_def)
  then have "length (sd_bytes sd) \<le> length buffer"
    using assms(2) by (simp only: sd_size_of_nat [OF assms(1)] unat_of_nat_u32)
  from encode_sd_at [OF assms(1) this assms(3)] decode_sd_at [OF assms(1)] show ?thesis
    unfolding sd_size_of_nat [OF assms(1)] by blast
qed

theorem sd_roundtrip_witness:
  "\<exists>b. smb2EncodeSecurityDescriptor ex_sd (Some (replicate 100 9)) (Some (of_nat (length (replicate 100 (9 :: u8)))))
       = Some (Encoded b (smb2_get_security_descriptor_size ex_sd)) \<and>
     smb2DecodeSecurityDescriptor b (smb2_get_security_descriptor_size ex_sd) = Some (Inr ex_sd)"
proof (rule sd_roundtrip)
  have "wf_sid ex_sid" "wf_acl \<lparr>acl_revision = 2, acl_size = 32, acl_ace_count = 1, acl_aces = [ex_ace]\<rparr>"
    by code_simp+
  then show "wf_sd ex_sd"
    by (simp add: wf_sd_def ex_sd_def)
  show "unat (smb2_get_security_descriptor_size ex_sd) \<le> length (replicate 100 (9 :: u8))" by code_simp
qed simp

text \<open>The decoder requires a DACL to end before the last byte of the blob: a descriptor with an
  empty DACL, which denies everything, comes back without a DACL, which grants everything.\<close>

lemma empty_dacl_dropped:
  "\<exists>b. smb2EncodeSecurityDescriptor deny_all_sd (Some (replicate 28 0)) (Some 28) = Some (Encoded b 28) \<and>
     smb2DecodeSecurityDescriptor b 28 = Some (Inr (deny_all_sd\<lparr>sd_dacl := None\<rparr>))"
proof -
  let ?b = "sd_header 0 20 @ [2, 0, 8, 0, 0, 0, 0, 0]"
  have "smb2EncodeSecurityDescriptor deny_all_sd (Some (replicate 28 0)) (Some 28) = Some (Encoded ?b 28)"
    by code_simp
  moreover have "smb2DecodeSecurityDescriptor ?b 28 = Some (Inr (deny_all_sd\<lparr>sd_dacl := None\<rparr>))"
    by code_simp
  ultimately show ?thesis by blast
qed

text \<open>An ACL that announces fewer than its eight header bytes makes the remaining length wrap
  around, and the decoder reads outside the reply.\<close>

lemma acl_size_underflow:
  "smb2DecodeSecurityDescriptor (sd_header 0 20 @ [2, 0] @ htole16 0 @ htole16 2 @ htole16 0 @ [0, 0] @ htole16 4) 32 = None"
  by code_simp

text \<open>The offset of a part is checked by a 32-bit addition: the owner offset \<open>2 ^ 32 - 1\<close> passes
  and the decoder reads outside the reply.\<close>

lemma sd_offset_wraps: "smb2DecodeSecurityDescriptor (sd_header 0xffffffff 0) 20 = None"
proof -
  let ?v = "\<lparr>iov_buf = sd_header 0xffffffff 0, iov_len = 20, iov_free = False\<rparr>"
  have sub: "iov_sub ?v 0 20 = Some ?v"
    by (simp add: iov_sub_def mem_ptr_def)
  have "(0xffffffff + 8 :: u32) = 7"
    by simp
  then have "ucast (0xffffffff + 8 :: u32) < iov_len ?v"
    by (simp only: smb2_iovec.simps) simp
  moreover have "iov_sub ?v (unat (0xffffffff :: u32)) (20 - ucast (0xffffffff :: u32)) = None"
    by (simp add: iov_sub_def mem_ptr_def sd_header_def)
  ultimately have "decode_sd_part decode_sid f ?v 0xffffffff = None" for f
    unfolding decode_sd_part_def by simp
  then show ?thesis
    by (simp add: smb2DecodeSecurityDescriptor_def smb2DecodeSecDescInternal_def sub)
       (simp add: mem_simps wf_iovec_def sd_header_def)
qed

text \<open>The decoder keeps the whole rest of the ACL as the data of an ACE of unknown type: encoding
  the decoded descriptor into a buffer of its computed size writes outside the buffer.\<close>

lemma raw_ace_overflows_encoder:
  "\<exists>sd. smb2DecodeSecurityDescriptor (sd_header 0 20 @ slack_acl) 52 = Some (Inr sd) \<and>
     smb2_get_security_descriptor_size sd = 32 \<and>
     smb2EncodeSecurityDescriptor sd (Some (replicate 32 0)) (Some 32) = None"
proof -
  let ?sd = "\<lparr>sd_revision = 1, sd_control = 0x8004, sd_owner = None, sd_group = None,
     sd_dacl = Some \<lparr>acl_revision = 2, acl_size = 32, acl_ace_count = 1,
        acl_aces = [new_smb2_ace\<lparr>ace_type := 3, ace_size := 4, ace_raw_len := 20, ace_raw_data := Some (replicate 20 7)\<rparr>]\<rparr>\<rparr>"
  have "smb2DecodeSecurityDescriptor (sd_header 0 20 @ slack_acl) 52 = Some (Inr ?sd)"
    by code_simp
  moreover have "smb2_get_security_descriptor_size ?sd = 32"
    by code_simp
  moreover have "smb2EncodeSecurityDescriptor ?sd (Some (replicate 32 0)) (Some 32) = None"
    by code_simp
  ultimately show ?thesis by blast
qed

end
