(* ===== verification/Std_Map.thy ===== *)
theory Std_Map
  imports Main
begin

text \<open>
  \<^verbatim>\<open>std::map\<close> as the sources use it: a list of pairs in increasing key order. The operations
  are the ones called on the two PDU queues: \<^verbatim>\<open>find\<close>, \<^verbatim>\<open>erase\<close>, assignment through
  \<^verbatim>\<open>operator[]\<close>, \<^verbatim>\<open>begin\<close> and \<^verbatim>\<open>empty\<close>. The locale \<open>ordered_map\<close> is the contract the
  queues rely on; it is interpreted on the list implementation below.
\<close>

fun map_put :: "'k::linorder \<Rightarrow> 'v \<Rightarrow> ('k \<times> 'v) list \<Rightarrow> ('k \<times> 'v) list" where
  "map_put k v [] = [(k, v)]"
| "map_put k v ((a, b) # m) =
     (if k < a then (k, v) # (a, b) # m
      else if k = a then (k, v) # m
      else (a, b) # map_put k v m)"

definition map_find :: "'k \<Rightarrow> ('k \<times> 'v) list \<Rightarrow> 'v option" where
  "map_find k m = map_of m k"

definition map_erase :: "'k \<Rightarrow> ('k \<times> 'v) list \<Rightarrow> ('k \<times> 'v) list" where
  "map_erase k m = filter (\<lambda>(a, _). a \<noteq> k) m"

definition map_sorted :: "('k::linorder \<times> 'v) list \<Rightarrow> bool" where
  "map_sorted m \<longleftrightarrow> sorted_wrt (<) (map fst m)"

locale ordered_map =
  fixes invar :: "'m \<Rightarrow> bool"
    and find :: "'k \<Rightarrow> 'm \<Rightarrow> 'v option"
    and put :: "'k \<Rightarrow> 'v \<Rightarrow> 'm \<Rightarrow> 'm"
    and erase :: "'k \<Rightarrow> 'm \<Rightarrow> 'm"
    and nothing :: 'm
  assumes invar_nothing: "invar nothing"
    and find_nothing: "find k nothing = None"
    and invar_put: "invar m \<Longrightarrow> invar (put k v m)"
    and invar_erase: "invar m \<Longrightarrow> invar (erase k m)"
    and find_put: "invar m \<Longrightarrow> find k' (put k v m) = (if k' = k then Some v else find k' m)"
    and find_erase: "invar m \<Longrightarrow> find k' (erase k m) = (if k' = k then None else find k' m)"
begin

lemma find_put_same [simp]: "invar m \<Longrightarrow> find k (put k v m) = Some v"
  by (simp add: find_put)

lemma erase_put_same: "invar m \<Longrightarrow> find k' (erase k (put k v m)) = find k' (erase k m)"
  by (simp add: find_put find_erase invar_put)

definition put_all :: "('k \<times> 'v) list \<Rightarrow> 'm \<Rightarrow> 'm" where
  "put_all xs m = fold (\<lambda>(k, v). put k v) xs m"

lemma invar_put_all: "invar m \<Longrightarrow> invar (put_all xs m)"
  by (induction xs arbitrary: m) (auto simp: put_all_def invar_put split: prod.splits)

lemma find_put_all:
  assumes "invar m" and "distinct (map fst xs)"
  shows "find k (put_all xs m) = (case map_of xs k of None \<Rightarrow> find k m | Some v \<Rightarrow> Some v)"
  using assms
proof (induction xs arbitrary: m)
  case Nil
  then show ?case by (simp add: put_all_def)
next
  case (Cons x xs)
  obtain a v where x: "x = (a, v)" by (cases x)
  have "find k (put_all xs (put a v m)) = (case map_of xs k of None \<Rightarrow> find k (put a v m) | Some v \<Rightarrow> Some v)"
    using Cons by (simp add: x invar_put)
  moreover have "k = a \<Longrightarrow> map_of xs k = None"
    using Cons.prems(2) by (simp add: x map_of_eq_None_iff)
  ultimately show ?case
    using Cons.prems(1) by (auto simp: x put_all_def find_put split: option.splits)
qed

end

lemma set_map_put: "set (map fst (map_put k v m)) = insert k (set (map fst m))"
  by (induction k v m rule: map_put.induct) auto

lemma sorted_map_put: "map_sorted m \<Longrightarrow> map_sorted (map_put k v m)"
proof (induction k v m rule: map_put.induct)
  case (1 k v)
  then show ?case by (simp add: map_sorted_def)
next
  case (2 k v a b m)
  then show ?case
    using set_map_put [of k v m] by (auto simp: map_sorted_def)
qed

lemma find_map_put: "map_of (map_put k v m) k' = (if k' = k then Some v else map_of m k')"
  by (induction k v m rule: map_put.induct) auto

lemma find_map_erase: "map_of (map_erase k m) k' = (if k' = k then None else map_of m k')"
  by (induction m) (auto simp: map_erase_def)

lemma sorted_map_erase: "map_sorted m \<Longrightarrow> map_sorted (map_erase k m)"
  by (induction m) (auto simp: map_sorted_def map_erase_def)

interpretation std_map: ordered_map map_sorted map_find map_put map_erase "[]"
  by unfold_locales
    (auto simp: map_find_def find_map_put find_map_erase sorted_map_put sorted_map_erase map_sorted_def [of "[]"])

end
