(* ===== verification/Smb2_State.thy ===== *)
theory Smb2_State
  imports Smb2_Security Std_Map
begin

text \<open>
  The state of a client: the objects the API hands to the requests (file handles,
  directories, result buffers, \<^verbatim>\<open>AppData\<close>), the PDUs, and \<^verbatim>\<open>Smb2Context\<close> with its socket.

  Objects that several owners refer to live in one heap of typed cells, addressed by
  \<open>ptr\<close>; 0 is the null pointer. Reading a cell that was deleted or holds another type is
  undefined behaviour (\<open>None\<close>). PDUs are values: each is owned by exactly one queue, and a
  compound chain is the list of its members. The payload of a PDU is tagged with the
  struct it was allocated as; casting it to another struct is undefined behaviour.

  The concrete subclass of a PDU is identified by \<^verbatim>\<open>header.command\<close>: every subclass passes
  its own constant to the constructor and nothing assigns the field later.
\<close>

type_synonym ptr = nat

section \<open>Objects of the API\<close>

record smb2fh =
  fh_file_id :: smb2_file_id
  fh_offset :: int
  fh_byte_count :: u32
  fh_bytes_remaining :: u32
  fh_oplock_level :: u8
  fh_create_action :: u32
  fh_creation_time :: u64
  fh_lastAccess_time :: u64
  fh_lastWrite_time :: u64
  fh_change_time :: u64
  fh_allocation_size :: u64
  fh_end_of_file :: u64
  fh_file_attributes :: u32

definition new_smb2fh :: "int \<Rightarrow> smb2fh" where
  \<comment> \<open>the constructor leaves \<open>offset\<close> as it was in memory\<close>
  "new_smb2fh junk = \<lparr>fh_file_id = \<lparr>persistent_id = 0, volatile_id = 0\<rparr>, fh_offset = junk,
     fh_byte_count = 0, fh_bytes_remaining = 0, fh_oplock_level = 0, fh_create_action = 0,
     fh_creation_time = 0, fh_lastAccess_time = 0, fh_lastWrite_time = 0, fh_change_time = 0,
     fh_allocation_size = 0, fh_end_of_file = 0, fh_file_attributes = 0\<rparr>"

record smb2_stat_64 =
  st_type :: u32
  st_nlink :: u32
  st_ino :: u64
  st_size :: u64
  st_atime :: u64
  st_mtime :: u64
  st_ctime :: u64
  st_crtime :: u64

record smb2dirent =
  de_name :: bytes
  de_allocation_size :: u64
  de_attributes :: u32
  de_ea_size :: u32
  de_st :: smb2_stat_64

record smb2dir =
  dir_file_id :: smb2_file_id
  dir_entries :: "smb2dirent list"

text \<open>The union \<^verbatim>\<open>smb2_file_info_U\<close>, tagged with the member last written.\<close>

datatype file_info_u =
    UNone
  | UBasic smb2_file_basic_info
  | UStandard smb2_file_standard_info
  | UExtended "smb2_file_extended_info list"
  | UStream "smb2_file_stream_info list"
  | UAll smb2_file_all_info
  | USecurity smb2_security_descriptor
  | UFsSize smb2_file_fs_size_info
  | UFsDevice smb2_file_fs_device_info
  | UFsControl smb2_file_fs_control_info
  | UFsFullSize smb2_file_fs_full_size_info
  | UFsSectorSize smb2_file_fs_sector_size_info
  | UEndOfFile u64
  | URename u8 bytes
  | USecBuf bytes u32
  | UFullEa bytes u32

record smb2_file_info =
  fi_info_type :: u8
  fi_file_info_class :: u8
  fi_u_info :: file_info_u

datatype app_kind =
  AppPlain | CreateData | ReadData | WriteData | CloseData | QueryInfoData | QueryDirData | IoctlData

record app_data =
  ad_kind :: app_kind
  ad_ntStatus :: u32
  ad_bDelete :: bool
  ad_errMsg :: err_msg
  ad_fh :: ptr
  ad_bCloseFh :: bool
  ad_readBuf :: ptr
  ad_info :: ptr
  ad_pattern :: bytes
  ad_dir :: ptr
  ad_output_buffer :: ptr
  ad_output_count :: ptr

definition new_app_data :: "app_kind \<Rightarrow> app_data" where
  "new_app_data k = \<lparr>ad_kind = k, ad_ntStatus = 0, ad_bDelete = False, ad_errMsg = Msg [] [], ad_fh = 0,
     ad_bCloseFh = False, ad_readBuf = 0, ad_info = 0, ad_pattern = [], ad_dir = 0,
     ad_output_buffer = 0, ad_output_count = 0\<rparr>"

definition getFH :: "app_data \<Rightarrow> ptr" where
  "getFH a = (if ad_kind a \<in> {CreateData, ReadData, WriteData, CloseData, QueryDirData} then ad_fh a else 0)"

definition getReadBuf :: "app_data \<Rightarrow> ptr" where
  "getReadBuf a = (if ad_kind a = ReadData then ad_readBuf a else 0)"

definition getQInfo :: "app_data \<Rightarrow> ptr" where
  "getQInfo a = (if ad_kind a = QueryInfoData then ad_info a else 0)"

definition getSearchPattern :: "app_data \<Rightarrow> bytes" where
  "getSearchPattern a = (if ad_kind a = QueryDirData then ad_pattern a else [])"

definition getDir :: "app_data \<Rightarrow> ptr" where
  "getDir a = (if ad_kind a = QueryDirData then ad_dir a else 0)"

definition getOutBuf :: "app_data \<Rightarrow> ptr" where
  "getOutBuf a = (if ad_kind a = IoctlData then ad_output_buffer a else 0)"

definition getOutBufLen :: "app_data \<Rightarrow> ptr" where
  "getOutBufLen a = (if ad_kind a = IoctlData then ad_output_count a else 0)"

datatype cell =
  CApp app_data | CFh smb2fh | CDir smb2dir | CInfo smb2_file_info | CBuf bytes | CU32 u32

section \<open>PDUs\<close>

record smb2_query_info_reply =
  qir_output_buffer_offset :: u16
  qir_output_buffer_length :: u32
  qir_output_buffer :: file_info_u

datatype payload =
    PError smb2_error_reply
  | PNegotiate smb2_negotiate_reply
  | PSessionSetup smb2_session_setup_reply
  | PTreeConnect smb2_tree_connect_reply
  | PCreate smb2_create_reply
  | PClose smb2_close_reply
  | PQueryDir smb2_query_directory_reply
  | PRead smb2_read_reply
  | PWrite smb2_write_reply
  | PIoctl smb2_ioctl_reply
  | PQueryInfo smb2_query_info_reply

record smb2_pdu =
  p_header :: smb2_header
  p_out :: smb2_io_vectors
  p_respNBLength :: u32
  p_header_resp :: smb2_header
  p_payload :: "payload option"
  p_in :: smb2_io_vectors
  p_appData :: ptr
  p_bIsLastInCompound :: bool
  p_requestedInfoType :: u8
  p_requestedInfoClass :: u8

section \<open>Authentication\<close>

text \<open>
  The buffer of the NTLM message under construction is the bytes written to it, with the size
  of its allocation beside it. A GSS or Kerberos object is a handle, 0 being none; the members of
  a token are its bytes.
\<close>

record ntlm_auth_data =
  na_buf :: bytes
  na_len :: u64
  na_allocated :: u64
  na_ntlm_buf :: "bytes option"
  na_user :: bytes
  na_password :: bytes
  na_domain :: bytes
  na_workstation :: bytes
  na_client_challenge :: bytes
  na_exported_session_key :: bytes

record private_auth_data =
  pa_context :: nat
  pa_cred :: nat
  pa_user_name :: nat
  pa_target_name :: nat
  pa_mech_type :: bytes
  pa_req_flags :: u32
  pa_output_token :: bytes
  pa_g_server :: bytes

text \<open>
  An object of a subclass of \<^verbatim>\<open>Smb2AuthProvider\<close>. The constructor of the NTLM provider leaves its
  pointer \<^verbatim>\<open>ntlmAuthData\<close> uninitialised (\<open>ANtlm None\<close>); that of the Kerberos provider is the null
  pointer (\<open>AKrb5 None\<close>).
\<close>

datatype authenticator = ANtlm "ntlm_auth_data option" | AKrb5 "private_auth_data option"

section \<open>The context\<close>

text \<open>
  \<open>c_fresh\<close> is the script of the allocator: the addresses the coming objects get. It is not a member
  of the class; like the scripts of the socket it stands for what the environment will do.
\<close>

record smb2_context =
  c_heap :: "ptr \<Rightarrow> cell option"
  c_fresh :: "ptr list"
  c_fd :: int
  c_bConnected :: bool
  c_sec :: smb2_sec
  c_authenticator :: "authenticator option"
  c_security_mode :: u16
  c_use_cached_creds :: bool
  c_version :: smb2_negotiate_version
  c_server :: bytes
  c_share :: bytes
  c_user :: bytes
  c_password :: bytes
  c_domain :: bytes
  c_workstation :: bytes
  c_client_challenge :: bytes
  c_credits :: u32
  c_tree_id :: u32
  c_message_id :: u64
  c_session_id :: u64
  c_session_key :: "bytes option"
  c_session_key_size :: u8
  c_signing_required :: u8
  c_signing_key :: bytes
  c_hashAlgorithm :: u16
  c_CipherId :: u16
  c_clientSupportEncryption :: bool
  c_serverSupportEncryption :: u8
  c_PreauthIntegrityHash :: "bytes option"
  c_preauthIntegrityHashLength :: u32
  c_outqueue :: "(u64 \<times> smb2_pdu list) list"
  c_waitqueue :: "(u64 \<times> smb2_pdu) list"
  c_supports_multi_credit :: bool
  c_max_transact_size :: u32
  c_max_read_size :: u32
  c_max_write_size :: u32
  c_dialect :: u16
  c_isComplete :: bool
  c_userInBackUpOperatorsGrp :: bool

text \<open>
  The members the constructor assigns, before it takes over the user name and the challenge.
  It does not assign \<open>dialect\<close>, which keeps what the memory held.
\<close>

definition new_context :: "u16 \<Rightarrow> smb2_context" where
  "new_context junk = \<lparr>c_heap = (\<lambda>_. None), c_fresh = [], c_fd = -1, c_bConnected = False, c_sec = SMB2_SEC_UNDEFINED,
     c_authenticator = None, c_security_mode = 0, c_use_cached_creds = False, c_version = SMB2_VERSION_ANY,
     c_server = [], c_share = [], c_user = [], c_password = [], c_domain = [], c_workstation = [],
     c_client_challenge = replicate 8 0, c_credits = 0, c_tree_id = 0,
     c_message_id = 0, c_session_id = 0, c_session_key = None, c_session_key_size = 0,
     c_signing_required = 0, c_signing_key = replicate 16 0, c_hashAlgorithm = 0, c_CipherId = 0,
     c_clientSupportEncryption = False, c_serverSupportEncryption = 0, c_PreauthIntegrityHash = None,
     c_preauthIntegrityHashLength = 0, c_outqueue = [], c_waitqueue = [], c_supports_multi_credit = False,
     c_max_transact_size = 0, c_max_read_size = 0, c_max_write_size = 0, c_dialect = junk,
     c_isComplete = False, c_userInBackUpOperatorsGrp = False\<rparr>"

text \<open>
  What the library takes from OpenSSL: the AES-128 block function under a key, HMAC with SHA-256
  and with MD5, SHA-512 and MD4.
\<close>

record crypto =
  aes128 :: "bytes \<Rightarrow> bytes \<Rightarrow> bytes"
  hmac_sha256 :: "bytes \<Rightarrow> bytes \<Rightarrow> bytes"
  sha512 :: "bytes \<Rightarrow> bytes"
  md4 :: "bytes \<Rightarrow> bytes"
  hmac_md5 :: "bytes \<Rightarrow> bytes \<Rightarrow> bytes"

text \<open>
  What the library takes from GSS-API and Kerberos. A GSS call gives its major and minor status
  and its result; a Kerberos call its error code and its result.
\<close>

record gss =
  gss_import_name :: "bytes \<Rightarrow> bool \<Rightarrow> u32 \<times> u32 \<times> nat"
  gss_acquire_cred :: "nat \<Rightarrow> bytes \<Rightarrow> u32 \<times> u32 \<times> nat"
  gss_krb5_import_cred :: "nat \<Rightarrow> nat \<Rightarrow> u32 \<times> u32 \<times> nat"
  gss_init_sec_context :: "nat \<Rightarrow> nat \<Rightarrow> nat \<Rightarrow> bytes \<Rightarrow> u32 \<Rightarrow> bytes option \<Rightarrow> u32 \<times> u32 \<times> nat \<times> bytes"
  gss_session_key :: "nat \<Rightarrow> u32 \<times> u32 \<times> bytes list"
  krb5_init_context :: "int \<times> nat"
  krb5_set_default_realm :: "nat \<Rightarrow> bytes \<Rightarrow> int"
  krb5_parse_name :: "nat \<Rightarrow> bytes \<Rightarrow> int \<times> nat"
  krb5_cc_new_unique :: "nat \<Rightarrow> int \<times> nat"
  krb5_get_init_creds_password :: "nat \<Rightarrow> nat \<Rightarrow> bytes \<Rightarrow> nat \<Rightarrow> int"

text \<open>
  What the handlers take from outside the program state: the libraries, the clock, the number of
  turns a decoding loop is followed (a loop that needs more has the value \<open>None\<close>, like undefined
  behaviour), the process id and the 32 bytes \<^verbatim>\<open>random()\<close> gives, and what uninitialised or dead
  memory holds.
\<close>

record env =
  e_crypto :: crypto
  e_gss :: gss
  e_time :: u64
  e_fuel :: nat
  e_byte :: u8
  e_ea :: smb2_file_full_ea_info
  e_basic :: smb2_file_basic_info
  e_standard :: smb2_file_standard_info
  e_all :: smb2_file_all_info
  e_stale :: "bytes \<Rightarrow> bytes"
  e_pid :: nat
  e_salt :: bytes
  e_offset :: int
  e_fs_full :: smb2_file_fs_full_size_info

section \<open>Heap access\<close>

definition app_at :: "smb2_context \<Rightarrow> ptr \<Rightarrow> app_data option" where
  "app_at c p = (case c_heap c p of Some (CApp a) \<Rightarrow> Some a | _ \<Rightarrow> None)"

definition fh_at :: "smb2_context \<Rightarrow> ptr \<Rightarrow> smb2fh option" where
  "fh_at c p = (case c_heap c p of Some (CFh a) \<Rightarrow> Some a | _ \<Rightarrow> None)"

definition dir_at :: "smb2_context \<Rightarrow> ptr \<Rightarrow> smb2dir option" where
  "dir_at c p = (case c_heap c p of Some (CDir a) \<Rightarrow> Some a | _ \<Rightarrow> None)"

definition info_at :: "smb2_context \<Rightarrow> ptr \<Rightarrow> smb2_file_info option" where
  "info_at c p = (case c_heap c p of Some (CInfo a) \<Rightarrow> Some a | _ \<Rightarrow> None)"

definition buf_at :: "smb2_context \<Rightarrow> ptr \<Rightarrow> bytes option" where
  "buf_at c p = (case c_heap c p of Some (CBuf a) \<Rightarrow> Some a | _ \<Rightarrow> None)"

definition u32_at :: "smb2_context \<Rightarrow> ptr \<Rightarrow> u32 option" where
  "u32_at c p = (case c_heap c p of Some (CU32 a) \<Rightarrow> Some a | _ \<Rightarrow> None)"

definition put_cell :: "smb2_context \<Rightarrow> ptr \<Rightarrow> cell \<Rightarrow> smb2_context" where
  "put_cell c p x = c\<lparr>c_heap := (c_heap c)(p := Some x)\<rparr>"

definition delete_cell :: "smb2_context \<Rightarrow> ptr \<Rightarrow> smb2_context option" where
  \<comment> \<open>\<^verbatim>\<open>delete p\<close>: nothing for the null pointer, undefined for a dead object\<close>
  "delete_cell c p =
     (if p = 0 then Some c
      else if c_heap c p = None then None
      else Some (c\<lparr>c_heap := (c_heap c)(p := None)\<rparr>))"

text \<open>
  \<^verbatim>\<open>new T()\<close>, and the entry of a local object into its scope. When memory is exhausted \<^verbatim>\<open>new\<close> throws,
  which nothing in the library catches: the value is \<open>None\<close>, and the tests for a null pointer that
  follow some calls of \<^verbatim>\<open>new\<close> never succeed. A script that would hand out the null pointer or a live
  object is no behaviour of an allocator.
\<close>

definition new_cell :: "smb2_context \<Rightarrow> cell \<Rightarrow> (ptr \<times> smb2_context) option" where
  "new_cell c x =
     (case c_fresh c of [] \<Rightarrow> None
      | p # ps \<Rightarrow> if p = 0 \<or> c_heap c p \<noteq> None then None else Some (p, put_cell (c\<lparr>c_fresh := ps\<rparr>) p x))"

definition heap_ok :: "smb2_context \<Rightarrow> bool" where
  "heap_ok c \<longleftrightarrow> c_heap c 0 = None"

text \<open>\<^verbatim>\<open>appData->setErrorMsg(..)\<close> and \<^verbatim>\<open>appData->setNtStatus(..)\<close>.\<close>

definition setErrorMsg :: "smb2_context \<Rightarrow> ptr \<Rightarrow> err_msg \<Rightarrow> smb2_context option" where
  "setErrorMsg c p e = do { a \<leftarrow> app_at c p; Some (put_cell c p (CApp (a\<lparr>ad_errMsg := e\<rparr>))) }"

definition setNtStatus :: "smb2_context \<Rightarrow> ptr \<Rightarrow> u32 \<Rightarrow> smb2_context option" where
  "setNtStatus c p s = do { a \<leftarrow> app_at c p; Some (put_cell c p (CApp (a\<lparr>ad_ntStatus := s\<rparr>))) }"

text \<open>The virtual setters of \<^verbatim>\<open>AppData\<close>: the base class ignores what a subclass does not override.\<close>

definition upd_app :: "smb2_context \<Rightarrow> ptr \<Rightarrow> (app_data \<Rightarrow> app_data) \<Rightarrow> smb2_context option" where
  "upd_app c p f = do { a \<leftarrow> app_at c p; Some (put_cell c p (CApp (f a))) }"

definition setFH :: "ptr \<Rightarrow> app_data \<Rightarrow> app_data" where
  "setFH fh a = (if ad_kind a \<in> {CreateData, ReadData, WriteData, CloseData, QueryDirData} then a\<lparr>ad_fh := fh\<rparr> else a)"

definition setReadBuf :: "ptr \<Rightarrow> app_data \<Rightarrow> app_data" where
  "setReadBuf buf a = (if ad_kind a = ReadData then a\<lparr>ad_readBuf := buf\<rparr> else a)"

definition setQInfo :: "ptr \<Rightarrow> app_data \<Rightarrow> app_data" where
  "setQInfo info a = (if ad_kind a = QueryInfoData then a\<lparr>ad_info := info\<rparr> else a)"

definition setSearchPattern :: "bytes \<Rightarrow> app_data \<Rightarrow> app_data" where
  "setSearchPattern pattern a = (if ad_kind a = QueryDirData then a\<lparr>ad_pattern := pattern\<rparr> else a)"

definition setDir :: "ptr \<Rightarrow> app_data \<Rightarrow> app_data" where
  "setDir dir a = (if ad_kind a = QueryDirData then a\<lparr>ad_dir := dir\<rparr> else a)"

definition setOutBuf :: "ptr \<Rightarrow> ptr \<Rightarrow> app_data \<Rightarrow> app_data" where
  "setOutBuf buf bufLen a =
     (if ad_kind a = IoctlData then a\<lparr>ad_output_buffer := buf, ad_output_count := bufLen\<rparr> else a)"

definition setDelete :: "bool \<Rightarrow> app_data \<Rightarrow> app_data" where
  "setDelete del a = a\<lparr>ad_bDelete := del\<rparr>"

lemma app_at_put [simp]: "app_at (put_cell c p (CApp a)) q = (if q = p then Some a else app_at c q)"
  by (simp add: app_at_def put_cell_def)

lemma setErrorMsg_app: "app_at c p = Some a \<Longrightarrow> setErrorMsg c p e = Some (put_cell c p (CApp (a\<lparr>ad_errMsg := e\<rparr>)))"
  by (simp add: setErrorMsg_def)

lemma setNtStatus_app: "app_at c p = Some a \<Longrightarrow> setNtStatus c p s = Some (put_cell c p (CApp (a\<lparr>ad_ntStatus := s\<rparr>)))"
  by (simp add: setNtStatus_def)

lemmas app_simps = setErrorMsg_app setNtStatus_app

end
