(* ===== verification/Smb2_Pdu.thy ===== *)
theory Smb2_Pdu
  imports Smb2_State
begin

text \<open>
  \<^verbatim>\<open>Smb2Pdu.cpp\<close>: construction of a request PDU, compound chains, the codec of the SMB2
  header, the sizes of the fixed reply parts and the error reply every command shares.
  A chain linked by \<^verbatim>\<open>next_compound\<close> is the list of its PDUs, the head first.
\<close>

section \<open>Construction and chains\<close>

definition Smb2Pdu :: "smb2_context \<Rightarrow> u16 \<Rightarrow> ptr \<Rightarrow> smb2_pdu" where
  "Smb2Pdu smb2 command appData =
     (let credit_charge = (if c_dialect smb2 = version_value SMB2_VERSION_0202 then 0
                           else if command = SMB2_NEGOTIATE then 0 else 1);
          tree_id = (if command \<in> {SMB2_NEGOTIATE, SMB2_SESSION_SETUP, SMB2_LOGOFF, SMB2_ECHO} then 0
                     else c_tree_id smb2);
          session_id = (if command = SMB2_NEGOTIATE then 0 else c_session_id smb2)
      in \<lparr>p_header = zero_header\<lparr>hdr_protocol_id := [0xfe, 0x53, 0x4d, 0x42],
            hdr_struct_size := 64, hdr_command := command, hdr_flags := 0,
            hdr_credit_charge := credit_charge,
            hdr_credit_request_response := ucast (MAX_CREDITS - c_credits smb2),
            hdr_async_id := mk_sync 0xfeff tree_id, hdr_session_id := session_id\<rparr>,
          p_out = smb2_add_iovector_buf smb2_io_vectors_empty (replicate 64 0) 64 False,
          p_respNBLength = 0, p_header_resp = zero_header, p_payload = None,
          p_in = smb2_io_vectors_empty, p_appData = appData, p_bIsLastInCompound = True,
          p_requestedInfoType = 0, p_requestedInfoClass = 0\<rparr>)"

definition getReqNBLength :: "smb2_pdu list \<Rightarrow> u32" where
  "getReqNBLength chain = foldl (\<lambda>n p. n + ucast (total_size (p_out p))) 0 chain"

definition getReqCreditCharge :: "smb2_pdu list \<Rightarrow> u32" where
  "getReqCreditCharge chain = foldl (\<lambda>n p. n + ucast (hdr_credit_charge (p_header p))) 0 chain"

definition getAllComOutVecs :: "smb2_pdu list \<Rightarrow> smb2_io_vectors" where
  "getAllComOutVecs chain = foldl (\<lambda>vs p. smb2_append_iovectors vs (p_out p)) smb2_io_vectors_empty chain"

definition setResponseHeader :: "smb2_pdu \<Rightarrow> smb2_header \<Rightarrow> smb2_pdu" where
  "setResponseHeader p rhdr =
     (let h = (p_header_resp p)\<lparr>hdr_protocol_id := hdr_protocol_id rhdr, hdr_struct_size := hdr_struct_size rhdr,
                hdr_credit_charge := hdr_credit_charge rhdr, hdr_status := hdr_status rhdr,
                hdr_command := hdr_command rhdr,
                hdr_credit_request_response := hdr_credit_request_response rhdr,
                hdr_flags := hdr_flags rhdr, hdr_next_command := hdr_next_command rhdr,
                hdr_message_id := hdr_message_id rhdr\<rparr>;
          h = (if hdr_flags rhdr AND SMB2_FLAGS_ASYNC_COMMAND \<noteq> 0
               then h\<lparr>hdr_async_id := hdr_async_id rhdr\<rparr>
               else h\<lparr>hdr_async_id := mk_sync (sync_process_id rhdr) (sync_tree_id rhdr)\<rparr>)
      in p\<lparr>p_header_resp := h\<lparr>hdr_session_id := hdr_session_id rhdr, hdr_signature := hdr_signature rhdr\<rparr>\<rparr>)"

definition smb2AddCompoundPdu :: "smb2_pdu list \<Rightarrow> smb2_pdu list \<Rightarrow> smb2_pdu list option" where
  "smb2AddCompoundPdu chain next_pdu =
     (if chain = [] \<or> next_pdu = [] then None
      else let pdu = last chain; n = hd next_pdu in
        Some (butlast chain @
              [pdu\<lparr>p_header := (p_header pdu)\<lparr>hdr_next_command := ucast (total_size (p_out pdu))\<rparr>\<rparr>] @
              (n\<lparr>p_header := (p_header n)\<lparr>hdr_flags := hdr_flags (p_header n) OR SMB2_FLAGS_RELATED_OPERATIONS\<rparr>\<rparr>)
              # tl next_pdu))"

section \<open>The header\<close>

definition write_header :: "smb2_iovec \<Rightarrow> smb2_header \<Rightarrow> smb2_iovec option" where
  "write_header iov hdr =
     do { b \<leftarrow> mem_write (iov_buf iov) 0 (take 4 (hdr_protocol_id hdr));
          iov \<leftarrow> set16 (iov\<lparr>iov_buf := b\<rparr>) 4 (hdr_struct_size hdr);
          iov \<leftarrow> set16 iov 6 (hdr_credit_charge hdr);
          iov \<leftarrow> set32 iov 8 (hdr_status hdr);
          iov \<leftarrow> set16 iov 12 (hdr_command hdr);
          iov \<leftarrow> set16 iov 14 (hdr_credit_request_response hdr);
          iov \<leftarrow> set32 iov 16 (hdr_flags hdr);
          iov \<leftarrow> set32 iov 20 (hdr_next_command hdr);
          iov \<leftarrow> set64 iov 24 (hdr_message_id hdr);
          iov \<leftarrow> (if hdr_flags hdr AND SMB2_FLAGS_ASYNC_COMMAND \<noteq> 0
                 then set64 iov 32 (hdr_async_id hdr)
                 else do { iov \<leftarrow> set32 iov 32 (sync_process_id hdr); set32 iov 36 (sync_tree_id hdr) });
          iov \<leftarrow> set64 iov 40 (hdr_session_id hdr);
          b \<leftarrow> mem_write (iov_buf iov) 48 (take 16 (hdr_signature hdr));
          Some (iov\<lparr>iov_buf := b\<rparr>) }"

definition encodeHeader :: "smb2_context \<Rightarrow> smb2_pdu \<Rightarrow> (smb2_context \<times> smb2_pdu) option" where
  "encodeHeader smb2 p =
     (case iovs (p_out p) of [] \<Rightarrow> None
      | iov # rest \<Rightarrow>
          let hdr = (p_header p)\<lparr>hdr_message_id := c_message_id smb2\<rparr>;
              next_id = c_message_id smb2 + 1;
              next_id = (if hdr_credit_charge hdr > 1 then next_id + (ucast (hdr_credit_charge hdr) - 1) else next_id)
          in do { iov' \<leftarrow> write_header iov hdr;
                  Some (smb2\<lparr>c_message_id := next_id\<rparr>,
                        p\<lparr>p_header := hdr, p_out := (p_out p)\<lparr>iovs := iov' # rest\<rparr>\<rparr>) })"

definition decodeHeader :: "smb2_iovec \<Rightarrow> smb2_header \<Rightarrow> (err_msg + smb2_header) option" where
  "decodeHeader iov hdr =
     (if iov_len iov \<noteq> 64
      then Some (Inl (Msg ''decodeHeader: IO vector for header is of wrong size'' []))
      else do {
        pid \<leftarrow> mem_read (iov_buf iov) 0 4;
        ss \<leftarrow> get16 iov 4 (hdr_struct_size hdr);
        cc \<leftarrow> get16 iov 6 (hdr_credit_charge hdr);
        st \<leftarrow> get32 iov 8 (hdr_status hdr);
        cmd \<leftarrow> get16 iov 12 (hdr_command hdr);
        cr \<leftarrow> get16 iov 14 (hdr_credit_request_response hdr);
        fl \<leftarrow> get32 iov 16 (hdr_flags hdr);
        nx \<leftarrow> get32 iov 20 (hdr_next_command hdr);
        mid \<leftarrow> get64 iov 24 (hdr_message_id hdr);
        aid \<leftarrow> (if fl AND SMB2_FLAGS_ASYNC_COMMAND \<noteq> 0
               then get64 iov 32 (hdr_async_id hdr)
               else do { a \<leftarrow> get32 iov 32 (sync_process_id hdr);
                         b \<leftarrow> get32 iov 36 (sync_tree_id hdr);
                         Some (mk_sync a b) });
        sid \<leftarrow> get64 iov 40 (hdr_session_id hdr);
        sg \<leftarrow> mem_read (iov_buf iov) 48 16;
        Some (Inr \<lparr>hdr_protocol_id = pid, hdr_struct_size = ss, hdr_credit_charge = cc, hdr_status = st,
                   hdr_command = cmd, hdr_credit_request_response = cr, hdr_flags = fl,
                   hdr_next_command = nx, hdr_message_id = mid, hdr_async_id = aid,
                   hdr_session_id = sid, hdr_signature = sg\<rparr>) })"

section \<open>Replies\<close>

definition smb2ReplyIsError :: "smb2_pdu \<Rightarrow> bool" where
  "smb2ReplyIsError p =
     (let s = hdr_status (p_header_resp p) in
      s AND SMB2_STATUS_SEVERITY_MASK = SMB2_STATUS_SEVERITY_ERROR \<and> s \<noteq> SMB2_STATUS_MORE_PROCESSING_REQUIRED)"

definition even_size :: "u16 \<Rightarrow> int" where
  "even_size n = uint (n AND 0xfffe)"

definition smb2ReplyGetFixedSize :: "smb2_pdu \<Rightarrow> int" where
  "smb2ReplyGetFixedSize p =
     (let cmd = hdr_command (p_header p) in
      if smb2ReplyIsError p then even_size 9
      else if cmd = SMB2_NEGOTIATE then even_size 65
      else if cmd = SMB2_SESSION_SETUP then even_size 9
      else if cmd = SMB2_LOGOFF then even_size 4
      else if cmd = SMB2_TREE_CONNECT then even_size 16
      else if cmd = SMB2_TREE_DISCONNECT then even_size 4
      else if cmd = SMB2_CREATE then even_size 89
      else if cmd = SMB2_CLOSE then even_size 60
      else if cmd = SMB2_FLUSH then even_size 4
      else if cmd = SMB2_READ then even_size 17
      else if cmd = SMB2_WRITE then even_size 17
      else if cmd = SMB2_IOCTL then even_size 49
      else if cmd = SMB2_ECHO then even_size 4
      else if cmd = SMB2_QUERY_DIRECTORY then even_size 9
      else if cmd = SMB2_QUERY_INFO then even_size 9
      else if cmd = SMB2_SET_INFO then even_size 2
      else -1)"

definition in_back :: "smb2_pdu \<Rightarrow> smb2_iovec option" where
  "in_back p = (if iovs (p_in p) = [] then None else Some (last (iovs (p_in p))))"

definition iov_bytes :: "smb2_iovec \<Rightarrow> bytes option" where
  "iov_bytes v = mem_read (iov_buf v) 0 (unat (iov_len v))"

fun all_iov_bytes :: "smb2_iovec list \<Rightarrow> bytes option" where
  "all_iov_bytes [] = Some []"
| "all_iov_bytes (v # vs) = do { b \<leftarrow> iov_bytes v; bs \<leftarrow> all_iov_bytes vs; Some (b @ bs) }"

definition smb2UpdatePreauthIntegrityHash ::
  "crypto \<Rightarrow> smb2_context \<Rightarrow> smb2_io_vectors \<Rightarrow> (int \<times> smb2_context) option" where
  "smb2UpdatePreauthIntegrityHash cr smb2 vs =
     (case c_PreauthIntegrityHash smb2 of None \<Rightarrow> None
      | Some h \<Rightarrow>
          do { old \<leftarrow> mem_read h 0 (unat (c_preauthIntegrityHashLength smb2));
               msg \<leftarrow> all_iov_bytes (iovs vs);
               h' \<leftarrow> mem_write h 0 (sha512 cr (old @ msg));
               Some (0, smb2\<lparr>c_PreauthIntegrityHash := Some h'\<rparr>) })"

text \<open>
  The result of a reply handler: the C return value, the context and the PDU afterwards.
  A struct obtained from \<^verbatim>\<open>malloc\<close> starts with zero fields here; wherever a handler goes on
  after its size check every field it later reads has been read from the reply.
\<close>

type_synonym handler_result = "(int \<times> smb2_context \<times> smb2_pdu) option"

definition fail_with :: "smb2_context \<Rightarrow> smb2_pdu \<Rightarrow> err_msg \<Rightarrow> handler_result" where
  \<comment> \<open>\<^verbatim>\<open>appData->setErrorMsg(e); return -1;\<close>\<close>
  "fail_with smb2 p e = do { smb2' \<leftarrow> setErrorMsg smb2 (p_appData p) e; Some (-1, smb2', p) }"

definition smb2ProcessErrorReplyFixed :: "smb2_context \<Rightarrow> smb2_pdu \<Rightarrow> handler_result" where
  "smb2ProcessErrorReplyFixed smb2 p =
     do { iov \<leftarrow> in_back p;
          let p0 = p\<lparr>p_payload := Some (PError \<lparr>err_context_count = 0, err_byte_count = 0, err_data = None\<rparr>)\<rparr>;
          struct_size \<leftarrow> local16 iov 0;
          if struct_size \<noteq> 9 \<or> ucast (struct_size AND 0xfffe) \<noteq> iov_len iov
          then fail_with smb2 p0 (Msg ''Unexpected size of Error reply. Expected %d, got %d'' [9, iov_len iov])
          else do { ecc \<leftarrow> get8 iov 2 0;
                    bc \<leftarrow> get32 iov 4 0;
                    Some (sint bc, smb2,
                          p\<lparr>p_payload := Some (PError \<lparr>err_context_count = ecc, err_byte_count = bc, err_data = None\<rparr>)\<rparr>) } }"

definition smb2ProcessErrorReplyVariable :: "smb2_context \<Rightarrow> smb2_pdu \<Rightarrow> handler_result" where
  "smb2ProcessErrorReplyVariable smb2 p =
     (case p_payload p of
        Some (PError rep) \<Rightarrow>
          do { iov \<leftarrow> in_back p;
               Some (0, smb2, p\<lparr>p_payload := Some (PError (rep\<lparr>err_data := Some (iov_buf iov)\<rparr>))\<rparr>) }
      | _ \<Rightarrow> None)"

section \<open>The header codec\<close>

definition wf_header :: "smb2_header \<Rightarrow> bool" where
  "wf_header h \<longleftrightarrow> length (hdr_protocol_id h) = 4 \<and> length (hdr_signature h) = 16"

definition header_bytes :: "smb2_header \<Rightarrow> bytes" where
  "header_bytes h = hdr_protocol_id h @ htole16 (hdr_struct_size h) @ htole16 (hdr_credit_charge h) @
     htole32 (hdr_status h) @ htole16 (hdr_command h) @ htole16 (hdr_credit_request_response h) @
     htole32 (hdr_flags h) @ htole32 (hdr_next_command h) @ htole64 (hdr_message_id h) @
     htole64 (hdr_async_id h) @ htole64 (hdr_session_id h) @ hdr_signature h"

lemma mk_sync_halves [simp]: "mk_sync (sync_process_id h) (sync_tree_id h) = hdr_async_id h"
  unfolding mk_sync_def sync_process_id_def sync_tree_id_def
  by (rule bit_word_eqI) (auto simp: bit_simps)

lemma sync_mk_sync:
  "hdr_async_id h = mk_sync a b \<Longrightarrow> sync_process_id h = a" "hdr_async_id h = mk_sync a b \<Longrightarrow> sync_tree_id h = b"
  unfolding mk_sync_def sync_process_id_def sync_tree_id_def
  using bit_imp_le_length [of a] by (fastforce simp: bit_simps intro!: bit_word_eqI)+

lemma le_bytes_cong_bits:
  fixes a :: "'a::len word" and b :: "'b::len word"
  assumes "\<And>i. i < 8 * n \<Longrightarrow> bit a i = bit b i"
  shows "le_bytes n a = le_bytes n b"
  using assms
proof (induction n arbitrary: a b)
  case 0
  then show ?case by simp
next
  case (Suc n)
  have "(ucast a :: u8) = ucast b"
    using Suc.prems by (intro bit_word_eqI) (simp add: bit_simps)
  moreover have "le_bytes n (drop_bit 8 a) = le_bytes n (drop_bit 8 b)"
    using Suc.prems by (intro Suc.IH) (simp add: bit_simps)
  ultimately show ?case by simp
qed

lemma le_bytes_add: "le_bytes (m + n) w = le_bytes m w @ le_bytes n (drop_bit (8 * m) w)"
  by (induction m arbitrary: w) (simp_all add: algebra_simps)

lemma htole64_halves: "htole64 (hdr_async_id h) = htole32 (sync_process_id h) @ htole32 (sync_tree_id h)"
proof -
  have "le_bytes 4 (hdr_async_id h) = le_bytes 4 (sync_process_id h)"
    by (rule le_bytes_cong_bits) (simp add: sync_process_id_def bit_simps)
  moreover have "le_bytes 4 (drop_bit 32 (hdr_async_id h)) = le_bytes 4 (sync_tree_id h)"
    by (rule le_bytes_cong_bits) (simp add: sync_tree_id_def bit_simps)
  ultimately show ?thesis
    using le_bytes_add [of 4 4 "hdr_async_id h"] by (simp add: htole64_def htole32_def)
qed

lemma write_header_bytes:
  assumes "wf_header h" and "length b = 64" and "iov_len v = 64" and "iov_buf v = b"
  shows "write_header v h = Some (v\<lparr>iov_buf := header_bytes h\<rparr>)"
  using assms
  by (simp add: write_header_def mem_simps wf_iovec_def wf_header_def)
     (simp add: put_bytes_def header_bytes_def htole64_halves)

lemma length_header_bytes [simp]: "wf_header h \<Longrightarrow> length (header_bytes h) = 64"
  by (simp add: header_bytes_def wf_header_def)

lemma sub_bytes_whole: "n = length b \<Longrightarrow> sub_bytes b 0 n = b"
  by (simp add: sub_bytes_def)

lemma decode_header_bytes:
  assumes "wf_header h" and "iov_len v = 64" and "iov_buf v = header_bytes h"
  shows "decodeHeader v h0 = Some (Inr h)"
proof -
  have wf: "wf_iovec v"
    using assms by (simp add: wf_iovec_def)
  have len: "length (hdr_protocol_id h) = 4" "length (hdr_signature h) = 16"
    using assms(1) by (simp_all add: wf_header_def)
  note b = assms(3) [unfolded header_bytes_def]
  have g: "get16 v 4 ss = Some (hdr_struct_size h)" "get16 v 6 ss = Some (hdr_credit_charge h)"
      "get32 v 8 st = Some (hdr_status h)" "get16 v 12 ss = Some (hdr_command h)"
      "get16 v 14 ss = Some (hdr_credit_request_response h)" "get32 v 16 st = Some (hdr_flags h)"
      "get32 v 20 st = Some (hdr_next_command h)" "get64 v 24 m = Some (hdr_message_id h)"
      "get64 v 32 m = Some (hdr_async_id h)" "get64 v 40 m = Some (hdr_session_id h)" for ss st m
    using wf assms(2) len by (simp_all add: mem_simps b)
  have s: "get32 v 32 st = Some (sync_process_id h)" "get32 v 36 st = Some (sync_tree_id h)" for st
    using wf assms(2) len by (simp_all add: mem_simps b htole64_halves)
  have r: "mem_read (iov_buf v) 0 4 = Some (hdr_protocol_id h)" "mem_read (iov_buf v) 48 16 = Some (hdr_signature h)"
    using len by (simp_all add: mem_read_def b sub_bytes_whole)
  show ?thesis
    by (simp add: decodeHeader_def assms(2) g s r)
qed

lemma encodeHeader_parts:
  assumes "encodeHeader c p = Some (c', p')"
  shows "p_header p' = (p_header p)\<lparr>hdr_message_id := c_message_id c\<rparr>"
    and "c' = c\<lparr>c_message_id := c_message_id c + (if hdr_credit_charge (p_header p) > 1
           then ucast (hdr_credit_charge (p_header p)) else 1)\<rparr>"
    and "total_size (p_out p') = total_size (p_out p)"
    and "tl (iovs (p_out p')) = tl (iovs (p_out p))"
    and "p_appData p' = p_appData p"
  using assms by (auto simp: encodeHeader_def Let_def split: list.splits if_splits bind_splits)

lemma encodeHeader_bytes:
  assumes "iovs (p_out p) = v # vs" and "wf_header (p_header p)" and "iov_len v = 64" and "length (iov_buf v) = 64"
  shows "\<exists>c' p'. encodeHeader c p = Some (c', p') \<and>
     iovs (p_out p') = v\<lparr>iov_buf := header_bytes (p_header p')\<rparr> # vs"
  using assms write_header_bytes [of "(p_header p)\<lparr>hdr_message_id := c_message_id c\<rparr>" "iov_buf v" v]
  by (auto simp: encodeHeader_def wf_header_def Let_def)

section \<open>Properties\<close>

text \<open>C35. Whatever the header of a request holds, the 64 bytes \<^verbatim>\<open>encodeHeader\<close> writes are decoded by
  \<^verbatim>\<open>decodeHeader\<close> to that same header, with the message id the context gave it, for the
  synchronous and the asynchronous form.\<close>

theorem header_roundtrip:
  assumes "iovs (p_out p) = v # vs" and "wf_header (p_header p)" and "iov_len v = 64" and "length (iov_buf v) = 64"
  shows "\<exists>c' p' v'. encodeHeader c p = Some (c', p') \<and> iovs (p_out p') = v' # vs \<and>
     p_header p' = (p_header p)\<lparr>hdr_message_id := c_message_id c\<rparr> \<and>
     decodeHeader v' old = Some (Inr (p_header p'))"
proof -
  obtain c' p' where e: "encodeHeader c p = Some (c', p')"
    and v': "iovs (p_out p') = v\<lparr>iov_buf := header_bytes (p_header p')\<rparr> # vs"
    using encodeHeader_bytes [OF assms] by blast
  moreover have "wf_header (p_header p')"
    using assms(2) encodeHeader_parts(1) [OF e] by (simp add: wf_header_def)
  ultimately show ?thesis
    using encodeHeader_parts(1) [OF e] assms(3) decode_header_bytes [of "p_header p'"] by fastforce
qed

theorem header_roundtrip_witness:
  "\<exists>c' p' v'. encodeHeader (new_context 0x311) (Smb2Pdu (new_context 0x311) SMB2_ECHO 1) = Some (c', p') \<and>
     iovs (p_out p') = v' # [] \<and>
     p_header p' = (p_header (Smb2Pdu (new_context 0x311) SMB2_ECHO 1))\<lparr>hdr_message_id := c_message_id (new_context 0x311)\<rparr> \<and>
     decodeHeader v' zero_header = Some (Inr (p_header p'))"
proof (rule header_roundtrip)
  show "iovs (p_out (Smb2Pdu (new_context 0x311) SMB2_ECHO 1)) = smb2_iovec_make (replicate 64 0) 64 False # []"
    by (simp add: Smb2Pdu_def Let_def smb2_add_iovector_buf_def smb2_io_vectors_empty_def smb2_iovec_make_def)
  show "wf_header (p_header (Smb2Pdu (new_context 0x311) SMB2_ECHO 1))"
    by (simp add: wf_header_def Smb2Pdu_def Let_def zero_header_def)
qed (simp_all add: smb2_iovec_make_def)

end
