(* ===== verification/Smb2_Signing.thy ===== *)
theory Smb2_Signing
  imports Smb2_Pdu
begin

text \<open>
  \<^verbatim>\<open>Smb2Signing.cpp\<close>: AES-CMAC over the AES-128 block function of OpenSSL, and the signature
  of a request PDU. The block function, like HMAC, is a parameter; the lemmas compare the
  code with the CMAC construction of RFC 4493 over the same block function.
\<close>

section \<open>AES-CMAC\<close>

fun aes_cmac_shift_left :: "bytes \<Rightarrow> bytes \<times> u8" where
  \<comment> \<open>from the last byte to the first; the second component is \<open>cout\<close>\<close>
  "aes_cmac_shift_left [] = ([], 0)"
| "aes_cmac_shift_left (d # ds) =
     (let (ds', cin) = aes_cmac_shift_left ds
      in ((push_bit 1 d OR cin) # ds', drop_bit 7 (d AND 0x80)))"

definition aes_cmac_xor :: "bytes \<Rightarrow> bytes \<Rightarrow> bytes" where
  "aes_cmac_xor data val = map2 (XOR) data val"

definition cmac_rb :: bytes where
  "cmac_rb = replicate 15 0 @ [0x87]"

definition cmac_double :: "bytes \<Rightarrow> bytes" where
  "cmac_double k = (let (k', cout) = aes_cmac_shift_left k in if cout \<noteq> 0 then aes_cmac_xor k' cmac_rb else k')"

definition aes_cmac_sub_keys :: "(bytes \<Rightarrow> bytes) \<Rightarrow> bytes \<times> bytes" where
  "aes_cmac_sub_keys aes =
     (let sub_key1 = cmac_double (aes (replicate 16 0)); sub_key2 = cmac_double sub_key1
      in (sub_key1, sub_key2))"

fun cmac_blocks :: "(bytes \<Rightarrow> bytes) \<Rightarrow> bytes \<Rightarrow> nat \<Rightarrow> nat \<Rightarrow> bytes \<Rightarrow> bytes option" where
  \<comment> \<open>the loop over all blocks but the last\<close>
  "cmac_blocks aes msg i 0 mac = Some mac"
| "cmac_blocks aes msg i (Suc n) mac =
     do { b \<leftarrow> mem_read msg (int (i * 16)) 16;
          cmac_blocks aes msg (Suc i) n (aes (aes_cmac_xor mac b)) }"

definition smb3_aes_cmac_128 :: "crypto \<Rightarrow> bytes \<Rightarrow> bytes \<Rightarrow> nat \<Rightarrow> bytes option" where
  "smb3_aes_cmac_128 cr key msg msg_len =
     (let aes = aes128 cr key;
          n0 = (msg_len + 16 - 1) div 16;
          rem = msg_len mod 16;
          is_last_block_complete = (n0 \<noteq> 0 \<and> rem = 0);
          n = (if n0 = 0 then 1 else n0);
          (sub_key1, sub_key2) = aes_cmac_sub_keys aes
      in do { mac \<leftarrow> cmac_blocks aes msg 0 (n - 1) (replicate 16 0);
              scratch \<leftarrow> (if is_last_block_complete
                         then do { b \<leftarrow> mem_read msg (int ((n - 1) * 16)) 16; Some (aes_cmac_xor b sub_key1) }
                         else do { b \<leftarrow> mem_read msg (int ((n - 1) * 16)) rem;
                                   Some (aes_cmac_xor (b @ [0x80] @ replicate (16 - (rem + 1)) 0) sub_key2) });
              Some (aes (aes_cmac_xor mac scratch)) })"

section \<open>Signing a PDU\<close>

definition smb2_pdu_add_signature ::
  "crypto \<Rightarrow> smb2_context \<Rightarrow> smb2_pdu \<Rightarrow> (err_msg option + smb2_pdu) option" where
  \<comment> \<open>\<open>Inl\<close>: the result \<^verbatim>\<open>false\<close>, with the error string where one is set\<close>
  "smb2_pdu_add_signature cr smb2 p =
     (if hdr_command (p_header p) = SMB2_SESSION_SETUP then Some (Inr p)
      else (case iovs (p_out p) of
        iov # v1 # vs \<Rightarrow>
          if iov_len iov \<noteq> 64
          then Some (Inl (Some (Msg ''smb2_pdu_add_signature: First vector is not same size as smb2 header'' [])))
          else if c_session_id smb2 = 0 then Some (Inr p)
          else if c_session_key_size smb2 = 0 then Some (Inl None)
          else do {
            let hdr = (p_header p)\<lparr>hdr_flags := hdr_flags (p_header p) OR SMB2_FLAGS_SIGNED\<rparr>;
            iov \<leftarrow> set32 iov 16 (hdr_flags hdr);
            msg \<leftarrow> all_iov_bytes (iov # v1 # vs);
            sg \<leftarrow> (if c_dialect smb2 > version_value SMB2_VERSION_0210
                  then smb3_aes_cmac_128 cr (c_signing_key smb2) msg (length msg)
                  else Some (hmac_sha256 cr (c_signing_key smb2) msg));
            sg \<leftarrow> mem_read sg 0 16;
            let hdr = hdr\<lparr>hdr_signature := sg\<rparr>;
            b \<leftarrow> mem_write (iov_buf iov) 48 sg;
            Some (Inr (p\<lparr>p_header := hdr, p_out := (p_out p)\<lparr>iovs := iov\<lparr>iov_buf := b\<rparr> # v1 # vs\<rparr>\<rparr>)) }
      | _ \<Rightarrow> Some (Inl (Some (Msg ''smb2_pdu_add_signature: Too few vectors to sign'' [])))))"

definition smb2_pdu_check_signature :: "smb2_context \<Rightarrow> smb2_pdu \<Rightarrow> bool" where
  "smb2_pdu_check_signature smb2 p = False"

section \<open>RFC 4493\<close>

text \<open>
  The specification: doubling in \<open>GF(2 ^ 128)\<close> on the 128-bit number the block denotes, blocks of
  16 bytes, the last one masked with the first subkey when it is full and padded and masked
  with the second one otherwise.
\<close>

definition rfc_double :: "128 word \<Rightarrow> 128 word" where
  "rfc_double w = (if bit w 127 then push_bit 1 w XOR 0x87 else push_bit 1 w)"

definition rfc_block :: "128 word \<Rightarrow> bytes" where
  "rfc_block w = be_bytes 16 w"

fun rfc_chain :: "(bytes \<Rightarrow> bytes) \<Rightarrow> bytes \<Rightarrow> bytes \<Rightarrow> bytes \<times> bytes" where
  \<comment> \<open>chains all full blocks in front of the last block, which may be empty only for the empty message\<close>
  "rfc_chain aes x m = (if length m \<le> 16 then (x, m)
     else rfc_chain aes (aes (map2 (XOR) x (take 16 m))) (drop 16 m))"

declare rfc_chain.simps [simp del]

definition rfc_cmac :: "(bytes \<Rightarrow> bytes) \<Rightarrow> bytes \<Rightarrow> bytes" where
  "rfc_cmac aes m =
     (let k1 = rfc_double (be_word (aes (replicate 16 0))); k2 = rfc_double k1;
          (x, l) = rfc_chain aes (replicate 16 0) m;
          l' = (if length l = 16 then map2 (XOR) l (rfc_block k1)
                else map2 (XOR) (l @ [0x80] @ replicate (15 - length l) 0) (rfc_block k2))
      in aes (map2 (XOR) x l'))"

section \<open>The code computes RFC 4493\<close>

lemma length_shift_left [simp]: "length (fst (aes_cmac_shift_left d)) = length d"
  by (induction d) (auto split: prod.splits)

lemma be_word_Cons: "be_word (d # ds) = (be_word ds OR push_bit (8 * length ds) (ucast d) :: 'a::len word)"
proof -
  have "le_word (xs @ [d]) = (le_word xs OR push_bit (8 * length xs) (ucast d) :: 'a word)" for xs
    by (induction xs) (auto simp: push_bit_or or.assoc ac_simps)
  then show ?thesis
    by (simp add: be_word_def)
qed


lemma bit_be_word_Cons:
  "bit (be_word (d # ds) :: 'a::len word) i \<longleftrightarrow>
     bit (be_word ds :: 'a word) i \<or> 8 * length ds \<le> i \<and> i < LENGTH('a) \<and> bit d (i - 8 * length ds)"
  by (auto simp: be_word_Cons bit_simps)

lemma bit_be_word_less: "bit (be_word ds :: 'a::len word) i \<Longrightarrow> i < 8 * length ds"
proof (induction ds)
  case Nil
  then show ?case by (simp add: be_word_def)
next
  case (Cons d ds)
  then show ?case
    using bit_imp_le_length [of d "i - 8 * length ds"] by (auto simp: bit_be_word_Cons)
qed

lemma cout_bit: "bit (drop_bit 7 d AND 1 :: u8) i \<longleftrightarrow> i = 0 \<and> bit d 7"
  by (auto simp: bit_and_iff bit_drop_bit_eq bit_1_iff)

lemma snd_shift_left: "bit (snd (aes_cmac_shift_left d)) i \<longleftrightarrow> i = 0 \<and> d \<noteq> [] \<and> bit (hd d) 7"
  by (cases d) (auto simp: cout_bit split: prod.splits)

lemma bit_shift_left:
  assumes "8 * length d \<le> LENGTH('a)"
  shows "bit (be_word (fst (aes_cmac_shift_left d)) :: 'a::len word) i \<longleftrightarrow>
     i < 8 * length d \<and> 0 < i \<and> bit (be_word d :: 'a word) (i - 1)"
  using assms
proof (induction d arbitrary: i)
  case Nil
  then show ?case by (simp add: be_word_def)
next
  case (Cons x d)
  obtain d' cin where s: "aes_cmac_shift_left d = (d', cin)" by fastforce
  have cin: "bit cin j \<longleftrightarrow> j = 0 \<and> d \<noteq> [] \<and> bit (hd d) 7" for j
    using snd_shift_left [of d j] by (simp add: s)
  have len: "length d' = length d"
    using length_shift_left [of d] by (simp add: s)
  have top: "d \<noteq> [] \<Longrightarrow> bit (be_word d :: 'a word) (8 * length d - 1) = bit (hd d) 7"
    using Cons.prems bit_be_word_less [of "tl d" "8 * length d - 1"]
    by (cases d) (auto simp: bit_be_word_Cons)
  have IH: "bit (be_word d' :: 'a word) i \<longleftrightarrow> i < 8 * length d \<and> 0 < i \<and> bit (be_word d :: 'a word) (i - 1)" for i
    using Cons by (simp add: s)
  consider "i < 8 * length d" | "i = 8 * length d" | "8 * length d < i" by linarith
  then show ?case
  proof cases
    case 1
    then show ?thesis
      by (auto simp: s bit_be_word_Cons len IH)
  next
    case 2
    show ?thesis
    proof (cases "d = []")
      case True
      then show ?thesis
        using 2 bit_be_word_less [of "[] :: bytes" 0, where 'a = 'a]
        by (auto simp: s bit_be_word_Cons len IH cin bit_or_iff bit_double_u8)
    next
      case False
      then have "\<not> 8 * length d \<le> 8 * length d - Suc 0"
        by (cases d) simp_all
      then show ?thesis
        using 2 top [OF False] False Cons.prems bit_be_word_less [of d "8 * length d"]
        by (auto simp: s bit_be_word_Cons len IH cin bit_or_iff bit_double_u8)
    qed
  next
    case 3
    then have "\<not> bit (be_word d :: 'a word) (i - 1)"
      by (auto dest: bit_be_word_less)
    moreover have "\<not> cin = cin \<or> i - 8 * length d \<noteq> 0"
      using 3 by simp
    ultimately show ?thesis
      using 3 Cons.prems bit_imp_le_length [of x "i - 1 - 8 * length d"]
      by (auto simp: s bit_be_word_Cons len IH cin bit_or_iff bit_double_u8)
  qed
qed

lemma be_word_shift_left:
  assumes "length d = 16"
  shows "(be_word (fst (aes_cmac_shift_left d)) :: 128 word) = push_bit 1 (be_word d)"
proof (rule bit_word_eqI)
  fix n assume "n < LENGTH(128)"
  then show "bit (be_word (fst (aes_cmac_shift_left d)) :: 128 word) n = bit (push_bit 1 (be_word d) :: 128 word) n"
    unfolding bit_push_bit_iff using assms by (auto simp: bit_shift_left)
qed

lemma be_word_xor:
  "length a = length b \<Longrightarrow> be_word (map2 (XOR) a b) = (be_word a XOR be_word b :: 'a::len word)"
proof (induction a b rule: list_induct2)
  case Nil
  then show ?case by (simp add: be_word_def)
next
  case (Cons x xs y ys)
  have "(ucast (x XOR y) :: 'a word) = ucast x XOR ucast y"
    by (rule bit_word_eqI) (simp add: bit_simps)
  moreover have "\<not> bit (be_word xs :: 'a word) n" "\<not> bit (be_word ys :: 'a word) n" if "8 * length ys \<le> n" for n
    using that Cons.hyps bit_be_word_less [of xs n] bit_be_word_less [of ys n] by fastforce+
  ultimately show ?case
    using Cons by (intro bit_word_eqI) (auto simp: be_word_Cons bit_simps)
qed

lemma be_block_inv: "length k = 16 \<Longrightarrow> rfc_block (be_word k) = k"
  using be_bytes_be_word [of k, where 'a = 128] by (simp add: rfc_block_def)

lemma length_cmac_double: "length k = 16 \<Longrightarrow> length (cmac_double k) = 16"
  using length_shift_left [of k]
  by (cases "aes_cmac_shift_left k") (simp add: cmac_double_def aes_cmac_xor_def cmac_rb_def)

lemma length_rb: "length cmac_rb = 16"
  by (simp add: cmac_rb_def)

lemma be_word_cmac_rb: "(be_word cmac_rb :: 128 word) = 0x87"
  by code_simp

lemma cmac_double_rfc:
  assumes "length k = 16"
  shows "cmac_double k = rfc_block (rfc_double (be_word k))"
proof -
  obtain k' cout where s: "aes_cmac_shift_left k = (k', cout)" by fastforce
  have len: "length k' = 16"
    using length_shift_left [of k] assms by (simp add: s)
  obtain x xs where k: "k = x # xs" and xs: "length xs = 15"
    using assms by (cases k) auto
  have "bit (be_word k :: 128 word) 127 = bit x 7"
    using bit_be_word_less [of xs 127] by (auto simp: k bit_be_word_Cons xs)
  moreover have "cout \<noteq> 0 \<longleftrightarrow> bit x 7"
  proof -
    have "bit cout i \<longleftrightarrow> i = 0 \<and> bit x 7" for i
      using snd_shift_left [of k i] unfolding s snd_conv by (simp add: k)
    then show ?thesis
      by (metis bit_0_eq bit_eq_iff bot_apply bot_bool_def)
  qed
  moreover have w: "(be_word k' :: 128 word) = push_bit 1 (be_word k)"
    using be_word_shift_left [OF assms] by (simp add: s)
  ultimately have "(be_word (cmac_double k) :: 128 word) = rfc_double (be_word k)"
    using be_word_xor [of k' cmac_rb, where 'a = 128] len
    by (auto simp: cmac_double_def s aes_cmac_xor_def rfc_double_def be_word_cmac_rb length_rb)
  then show ?thesis
    using be_block_inv [OF length_cmac_double [OF assms]] by metis
qed

lemma cmac_blocks_chain:
  assumes "16 * (i + n) \<le> length msg" and "n = 0 \<or> 16 * (i + n) < length msg"
    and "length msg \<le> 16 * (i + n + 1)"
  shows "\<exists>mac'. cmac_blocks aes msg i n mac = Some mac' \<and>
     rfc_chain aes mac (drop (16 * i) msg) = (mac', drop (16 * (i + n)) msg)"
  using assms
proof (induction n arbitrary: i mac)
  case 0
  then show ?case by (simp add: rfc_chain.simps le_diff_conv)
next
  case (Suc n)
  let ?b = "take 16 (drop (16 * i) msg)" and ?mac = "aes (aes_cmac_xor mac (take 16 (drop (16 * i) msg)))"
  have "\<exists>mac'. cmac_blocks aes msg (Suc i) n ?mac = Some mac' \<and>
     rfc_chain aes ?mac (drop (16 * Suc i) msg) = (mac', drop (16 * (Suc i + n)) msg)"
    using Suc.prems by (intro Suc.IH) auto
  moreover have "mem_read msg (int (i * 16)) 16 = Some ?b"
    using Suc.prems by (simp add: mem_read_def sub_bytes_def nat_mult_distrib mult.commute)
  moreover have "rfc_chain aes mac (drop (16 * i) msg) = rfc_chain aes ?mac (drop (16 * Suc i) msg)"
    using Suc.prems(2) by (subst rfc_chain.simps) (simp add: aes_cmac_xor_def add.commute le_diff_conv)
  ultimately show ?case
    by auto
qed

lemma sub_keys_rfc:
  assumes "length (aes (replicate 16 0)) = 16"
  shows "aes_cmac_sub_keys aes = (rfc_block (rfc_double (be_word (aes (replicate 16 0)))),
      rfc_block (rfc_double (rfc_double (be_word (aes (replicate 16 0))))))"
proof -
  let ?l = "aes (replicate 16 0)"
  have "(be_word (rfc_block (rfc_double (be_word ?l))) :: 128 word) = rfc_double (be_word ?l)"
    by (simp add: rfc_block_def be_word_be_bytes take_bit_word_eq_self)
  then show ?thesis
    using cmac_double_rfc [OF assms] cmac_double_rfc [OF length_cmac_double [OF assms]]
    by (simp add: aes_cmac_sub_keys_def Let_def)
qed

lemma cmac_rfc:
  assumes "\<And>b. length b = 16 \<Longrightarrow> length (aes128 cr key b) = 16"
  shows "smb3_aes_cmac_128 cr key msg (length msg) = Some (rfc_cmac (aes128 cr key) msg)"
proof -
  let ?aes = "aes128 cr key" and ?l = "length msg"
  define n where "n = (if (?l + 16 - 1) div 16 = 0 then 1 else (?l + 16 - 1) div 16)"
  have n: "16 * (n - 1) \<le> ?l" "n - 1 = 0 \<or> 16 * (n - 1) < ?l" "?l \<le> 16 * (n - 1 + 1)"
    unfolding n_def by (auto split: if_splits)
  obtain mac where mac: "cmac_blocks ?aes msg 0 (n - 1) (replicate 16 0) = Some mac"
    and chain: "rfc_chain ?aes (replicate 16 0) msg = (mac, drop (16 * (n - 1)) msg)"
    using cmac_blocks_chain [of 0 "n - 1" msg ?aes "replicate 16 0"] n by auto
  have len: "length (drop (16 * (n - 1)) msg) = ?l - 16 * (n - 1)"
    by simp
  have full: "((?l + 16 - 1) div 16 \<noteq> 0 \<and> ?l mod 16 = 0) \<longleftrightarrow> ?l - 16 * (n - 1) = 16"
  proof
    assume "?l - 16 * (n - 1) = 16"
    then have l: "?l = 16 * (n - 1) + 16"
      using n(1) by linarith
    show "(?l + 16 - 1) div 16 \<noteq> 0 \<and> ?l mod 16 = 0"
      unfolding l by simp
  qed (auto simp: n_def)
  have part: "?l - 16 * (n - 1) \<noteq> 16 \<Longrightarrow> ?l mod 16 = ?l - 16 * (n - 1)"
  proof -
    assume "?l - 16 * (n - 1) \<noteq> 16"
    then have "?l - 16 * (n - 1) < 16" "?l = 16 * (n - 1) + (?l - 16 * (n - 1))"
      using n(1,3) by (simp_all add: le_diff_conv less_diff_conv2)
    then show "?l mod 16 = ?l - 16 * (n - 1)"
      by (metis mod_less mod_mult_self4)
  qed
  have keys: "aes_cmac_sub_keys ?aes = (rfc_block (rfc_double (be_word (?aes (replicate 16 0)))),
      rfc_block (rfc_double (rfc_double (be_word (?aes (replicate 16 0))))))"
    using assms by (intro sub_keys_rfc) simp
  show ?thesis
  proof (cases "?l - 16 * (n - 1) = 16")
    case True
    then have "mem_read msg (int ((n - 1) * 16)) 16 = Some (drop (16 * (n - 1)) msg)"
      using n(1) by (simp add: mem_read_def sub_bytes_def nat_mult_distrib mult.commute)
    then show ?thesis
      unfolding smb3_aes_cmac_128_def rfc_cmac_def Let_def n_def [symmetric] full
      using True mac by (simp add: chain keys aes_cmac_xor_def)
  next
    case False
    then have "mem_read msg (int ((n - 1) * 16)) (?l mod 16) = Some (drop (16 * (n - 1)) msg)"
      using n(1) part by (simp add: mem_read_def sub_bytes_def nat_mult_distrib mult.commute)
    then show ?thesis
      unfolding smb3_aes_cmac_128_def rfc_cmac_def Let_def n_def [symmetric] full
      using False part mac by (simp add: chain keys aes_cmac_xor_def)
  qed
qed

section \<open>The signature of a PDU\<close>

lemma all_iov_bytes_wf: "list_all wf_iovec vs \<Longrightarrow> all_iov_bytes vs = Some (concat (map iov_data vs))"
  by (induction vs) (auto simp: iov_bytes_def iov_data_def mem_read_def sub_bytes_def wf_iovec_def)

lemma length_rfc_chain:
  assumes "\<And>b. length b = 16 \<Longrightarrow> length (aes b) = 16" and "length x = 16" and "rfc_chain aes x m = (y, l)"
  shows "length y = 16 \<and> length l \<le> 16"
  using assms
proof (induction aes x m rule: rfc_chain.induct)
  case (1 aes x m)
  show ?case
  proof (cases "length m \<le> 16")
    case True
    then show ?thesis
      using "1.prems" by (auto simp: rfc_chain.simps [of aes x m])
  next
    case False
    then have "rfc_chain aes (aes (map2 (XOR) x (take 16 m))) (drop 16 m) = (y, l)"
      using "1.prems"(3) by (simp add: rfc_chain.simps [of aes x m])
    moreover have "length (aes (map2 (XOR) x (take 16 m))) = 16"
      using "1.prems"(1,2) False by simp
    ultimately show ?thesis
      using "1.IH" [OF False "1.prems"(1)] by blast
  qed
qed

lemma length_rfc_cmac:
  assumes "\<And>b. length b = 16 \<Longrightarrow> length (aes b) = 16"
  shows "length (rfc_cmac aes m) = 16"
proof -
  obtain x l where c: "rfc_chain aes (replicate 16 0) m = (x, l)" by fastforce
  then have "length x = 16" "length l \<le> 16"
    using length_rfc_chain [OF assms _ c] by simp_all
  then show ?thesis
    using assms by (simp add: rfc_cmac_def c Let_def rfc_block_def)
qed

lemma put_flags: "wf_header h \<Longrightarrow> put_bytes (header_bytes h) 16 (htole32 f) = header_bytes (h\<lparr>hdr_flags := f\<rparr>)"
  by (simp add: put_bytes_def header_bytes_def wf_header_def)

lemma put_signature:
  "wf_header h \<Longrightarrow> length s = 16 \<Longrightarrow> put_bytes (header_bytes h) 48 s = header_bytes (h\<lparr>hdr_signature := s\<rparr>)"
  by (simp add: put_bytes_def header_bytes_def wf_header_def)

text \<open>What the protocol signs, the whole message with the signed flag set and the signature field zero, and the code it
  uses: AES-CMAC with the SMB 3 dialects, the first half of HMAC-SHA256 before.\<close>

definition signed_message :: "smb2_header \<Rightarrow> smb2_iovec list \<Rightarrow> bytes" where
  "signed_message h vs = header_bytes (h\<lparr>hdr_flags := hdr_flags h OR SMB2_FLAGS_SIGNED, hdr_signature := replicate 16 0\<rparr>) @ concat (map iov_data vs)"

definition ms_mac :: "crypto \<Rightarrow> u16 \<Rightarrow> bytes \<Rightarrow> bytes \<Rightarrow> bytes" where
  "ms_mac cr dialect key m = (if dialect \<in> {0x0300, 0x0302, 0x0311} then rfc_cmac (aes128 cr key) m else take 16 (hmac_sha256 cr key m))"

definition ex_crypto :: crypto where
  "ex_crypto = \<lparr>aes128 = (\<lambda>key b. map2 (+) (rev b) (key @ replicate 16 1)), hmac_sha256 = (\<lambda>key m. replicate 32 7),
     sha512 = (\<lambda>m. replicate 64 9), md4 = (\<lambda>m. replicate 16 5), hmac_md5 = (\<lambda>key m. replicate 16 3)\<rparr>"

definition ex_gss :: gss where
  "ex_gss = \<lparr>gss_import_name = (\<lambda>_ _. (0, 0, 1)), gss_acquire_cred = (\<lambda>_ _. (0, 0, 2)),
     gss_krb5_import_cred = (\<lambda>_ _. (0, 0, 2)), gss_init_sec_context = (\<lambda>_ _ _ _ _ _. (0, 0, 3, [1, 2])),
     gss_session_key = (\<lambda>_. (0, 0, [replicate 16 4])), krb5_init_context = (0, 4),
     krb5_set_default_realm = (\<lambda>_ _. 0), krb5_parse_name = (\<lambda>_ _. (0, 5)), krb5_cc_new_unique = (\<lambda>_. (0, 6)),
     krb5_get_init_creds_password = (\<lambda>_ _ _ _. 0)\<rparr>"

definition ex_signing_context :: smb2_context where
  "ex_signing_context = (new_context 0x0302)\<lparr>c_session_id := 5, c_session_key_size := 16\<rparr>"

definition ex_signing_pdu :: smb2_pdu where
  "ex_signing_pdu = (Smb2Pdu ex_signing_context SMB2_ECHO 1)\<lparr>p_header := zero_header\<lparr>hdr_command := SMB2_ECHO\<rparr>,
     p_out := \<lparr>total_size = 68, iovs = [mk_vec (header_bytes (zero_header\<lparr>hdr_command := SMB2_ECHO\<rparr>)), mk_vec [4, 0, 0, 0]]\<rparr>\<rparr>"

section \<open>Properties\<close>

text \<open>C18. Over any block function that maps blocks to blocks, the CMAC the client signs with is the
  one of RFC 4493, for messages of every length; the code reads nothing outside the message.\<close>

theorem aes_cmac_is_rfc4493:
  assumes "\<And>b. length b = 16 \<Longrightarrow> length (aes128 cr key b) = 16"
  shows "smb3_aes_cmac_128 cr key msg (length msg) = Some (rfc_cmac (aes128 cr key) msg)"
  by (rule cmac_rfc) (rule assms)

theorem aes_cmac_is_rfc4493_witness:
  "smb3_aes_cmac_128 ex_crypto [] [1, 2, 3] (length [1 :: u8, 2, 3]) = Some (rfc_cmac (aes128 ex_crypto []) [1, 2, 3])"
  by (rule aes_cmac_is_rfc4493) (simp add: ex_crypto_def)

text \<open>C32. With an established session, signing a request whose signature field is zero, as the constructor leaves it, sets the signed flag and
  stores, in the header and in the bytes to be sent, the message authentication code of the protocol under the signing key, for the
  dialects 2.0.2 to 3.1.1: that of the whole message with the flag set and the signature field zero. Nothing else changes.\<close>

theorem add_signature_covers_message:
  assumes "\<And>b. length b = 16 \<Longrightarrow> length (aes128 cr (c_signing_key c) b) = 16" and "\<And>m. length (hmac_sha256 cr (c_signing_key c) m) = 32"
    and "hdr_command (p_header p) \<noteq> SMB2_SESSION_SETUP" and "iovs (p_out p) = v # v1 # vs"
    and "iov_len v = 64" and "iov_buf v = header_bytes (p_header p)" and "wf_header (p_header p)" and "hdr_signature (p_header p) = replicate 16 0"
    and "list_all wf_iovec (v1 # vs)"
    and "c_session_id c \<noteq> 0" and "c_session_key_size c \<noteq> 0" and "c_dialect c \<in> {0x0202, 0x0210, 0x0300, 0x0302, 0x0311}"
  shows "\<exists>p'. smb2_pdu_add_signature cr c p = Some (Inr p') \<and>
     p_header p' = (p_header p)\<lparr>hdr_flags := hdr_flags (p_header p) OR SMB2_FLAGS_SIGNED,
       hdr_signature := ms_mac cr (c_dialect c) (c_signing_key c) (signed_message (p_header p) (v1 # vs))\<rparr> \<and>
     iovs (p_out p') = v\<lparr>iov_buf := header_bytes (p_header p')\<rparr> # v1 # vs"
proof -
  let ?h = "(p_header p)\<lparr>hdr_flags := hdr_flags (p_header p) OR SMB2_FLAGS_SIGNED\<rparr>"
  let ?m = "signed_message (p_header p) (v1 # vs)" and ?aes = "aes128 cr (c_signing_key c)"
  let ?v = "v\<lparr>iov_buf := header_bytes ?h\<rparr>" and ?mac = "ms_mac cr (c_dialect c) (c_signing_key c) (signed_message (p_header p) (v1 # vs))"
  have wf: "wf_header ?h"
    using assms(7) by (simp add: wf_header_def)
  have "?h\<lparr>hdr_signature := replicate 16 0\<rparr> = ?h"
    using assms(8) by simp
  then have m: "?m = header_bytes ?h @ concat (map iov_data (v1 # vs))"
    by (simp add: signed_message_def)
  have "set32 v 16 (hdr_flags ?h) = Some ?v"
    using assms(5-7) by (simp add: mem_simps wf_iovec_def put_flags)
  moreover have "all_iov_bytes (?v # v1 # vs) = Some ?m"
    using assms(5,9) wf m by (subst all_iov_bytes_wf) (simp_all add: wf_iovec_def iov_data_def)
  moreover obtain sg where "(if c_dialect c > version_value SMB2_VERSION_0210 then smb3_aes_cmac_128 cr (c_signing_key c) ?m (length ?m)
      else Some (hmac_sha256 cr (c_signing_key c) ?m)) = Some sg" "mem_read sg 0 16 = Some ?mac" and l: "length ?mac = 16"
  proof (cases "c_dialect c > version_value SMB2_VERSION_0210")
    case True
    then have "?mac = rfc_cmac ?aes ?m"
      using assms(12) by (auto simp: ms_mac_def)
    moreover have "length (rfc_cmac ?aes ?m) = 16"
      by (rule length_rfc_cmac) (rule assms(1))
    ultimately show ?thesis
      using that [of ?mac] True cmac_rfc [of cr "c_signing_key c" ?m, OF assms(1)] by (simp add: mem_read_def sub_bytes_def)
  next
    case False
    then have "?mac = take 16 (hmac_sha256 cr (c_signing_key c) ?m)"
      using assms(12) by (auto simp: ms_mac_def)
    then show ?thesis
      using that [of "hmac_sha256 cr (c_signing_key c) ?m"] False assms(2) [of ?m] by (simp add: mem_read_def sub_bytes_def)
  qed
  moreover have "mem_write (header_bytes ?h) 48 ?mac = Some (header_bytes (?h\<lparr>hdr_signature := ?mac\<rparr>))"
    using wf l put_signature [OF wf l] by (simp add: mem_write_def)
  ultimately show ?thesis
    using assms(3-5,10,11) by (simp add: smb2_pdu_add_signature_def Let_def del: all_iov_bytes.simps)
qed

theorem add_signature_covers_message_witness:
  "\<exists>p'. smb2_pdu_add_signature ex_crypto ex_signing_context ex_signing_pdu = Some (Inr p') \<and>
     hdr_signature (p_header p') = rfc_cmac (aes128 ex_crypto (replicate 16 0))
       (signed_message (p_header ex_signing_pdu) [mk_vec [4, 0, 0, 0]])"
proof -
  have "\<exists>p'. smb2_pdu_add_signature ex_crypto ex_signing_context ex_signing_pdu = Some (Inr p') \<and>
     p_header p' = (p_header ex_signing_pdu)\<lparr>hdr_flags := hdr_flags (p_header ex_signing_pdu) OR SMB2_FLAGS_SIGNED,
       hdr_signature := ms_mac ex_crypto (c_dialect ex_signing_context) (c_signing_key ex_signing_context)
         (signed_message (p_header ex_signing_pdu) [mk_vec [4, 0, 0, 0]])\<rparr> \<and>
     iovs (p_out p') = (mk_vec (header_bytes (zero_header\<lparr>hdr_command := SMB2_ECHO\<rparr>)))\<lparr>iov_buf := header_bytes (p_header p')\<rparr> # [mk_vec [4, 0, 0, 0]]"
    by (rule add_signature_covers_message)
      (simp_all add: ex_crypto_def ex_signing_context_def new_context_def ex_signing_pdu_def wf_header_def
        zero_header_def mk_vec_def wf_iovec_def header_bytes_def)
  then show ?thesis
    by (auto simp: ex_signing_context_def new_context_def ms_mac_def)
qed

end
