(* ===== verification/Smb2_Context.thy ===== *)
theory Smb2_Context
  imports Smb2_Signing "HOL-Library.Multiset"
begin

text \<open>
  \<^verbatim>\<open>Smb2Context.cpp\<close>: the queues of PDUs to be sent and of PDUs waiting for their reply, the
  numbering of requests, \<^verbatim>\<open>close\<close> and the setters. The invariant \<open>queues_ok\<close> says that every
  request in flight is filed under its own message id, that no two share one, and that the
  counter is past all of them; \<open>qstep\<close> are the ways the queues change.
\<close>

section \<open>Operations\<close>

fun encode_chain ::
  "crypto \<Rightarrow> smb2_context \<Rightarrow> smb2_pdu list \<Rightarrow> ((err_msg option \<times> smb2_context) + smb2_context \<times> smb2_pdu list) option"
  where
  "encode_chain cr smb2 [] = Some (Inr (smb2, []))"
| "encode_chain cr smb2 (p # ps) =
     do { (smb2, p) \<leftarrow> encodeHeader smb2 p;
          r \<leftarrow> (if c_signing_required smb2 \<noteq> 0 then smb2_pdu_add_signature cr smb2 p else Some (Inr p));
          case r of Inl e \<Rightarrow> Some (Inl (e, smb2))
          | Inr p \<Rightarrow>
              do { r \<leftarrow> encode_chain cr smb2 ps;
                   case r of Inl e \<Rightarrow> Some (Inl e) | Inr (smb2, ps) \<Rightarrow> Some (Inr (smb2, p # ps)) } }"

definition smb2_queue_pdu ::
  "crypto \<Rightarrow> smb2_context \<Rightarrow> smb2_pdu list \<Rightarrow> (bool \<times> err_msg option \<times> smb2_context) option" where
  "smb2_queue_pdu cr smb2 pdu =
     do { r \<leftarrow> encode_chain cr smb2 pdu;
          case r of Inl (e, smb2) \<Rightarrow> Some (False, e, smb2)
          | Inr (smb2, pdu) \<Rightarrow>
              if pdu = [] then None
              else Some (True, None,
                smb2\<lparr>c_outqueue := map_put (hdr_message_id (p_header (hd pdu))) pdu (c_outqueue smb2)\<rparr>) }"

definition smb2_remove_pdu :: "smb2_context \<Rightarrow> u64 \<Rightarrow> smb2_context" where
  "smb2_remove_pdu smb2 messageId =
     (if map_find messageId (c_outqueue smb2) \<noteq> None
      then smb2\<lparr>c_outqueue := map_erase messageId (c_outqueue smb2)\<rparr> else smb2)"

definition smb2_find_pdu :: "smb2_context \<Rightarrow> u64 \<Rightarrow> smb2_pdu option \<times> smb2_context" where
  "smb2_find_pdu smb2 messageId =
     (case map_find messageId (c_waitqueue smb2) of
        None \<Rightarrow> (None, smb2)
      | Some p \<Rightarrow> (Some p, smb2\<lparr>c_waitqueue := map_erase messageId (c_waitqueue smb2)\<rparr>))"

fun smb2_pdu_add_to_waitqueue :: "smb2_context \<Rightarrow> smb2_pdu list \<Rightarrow> smb2_context" where
  "smb2_pdu_add_to_waitqueue smb2 [] = smb2"
| "smb2_pdu_add_to_waitqueue smb2 (p # ps) =
     smb2_pdu_add_to_waitqueue
       (smb2\<lparr>c_credits := c_credits smb2 - ucast (hdr_credit_charge (p_header p)),
             c_waitqueue := map_put (hdr_message_id (p_header p)) p (c_waitqueue smb2)\<rparr>) ps"

definition Smb2Socket_close :: "smb2_context \<Rightarrow> smb2_context" where
  "Smb2Socket_close smb2 = smb2\<lparr>c_fd := -1, c_bConnected := False\<rparr>"

text \<open>
  \<^verbatim>\<open>delete authenticator\<close>. The destructor of the NTLM provider reads its pointer, which the
  constructor has left uninitialised; that it then passes an object made by \<^verbatim>\<open>new\<close> to \<^verbatim>\<open>free\<close> is taken
  to release it. What the Kerberos destructor gives back to the library is not observed again.
\<close>

definition delete_authenticator :: "smb2_context \<Rightarrow> smb2_context option" where
  "delete_authenticator smb2 =
     (case c_authenticator smb2 of Some (ANtlm None) \<Rightarrow> None | _ \<Rightarrow> Some (smb2\<lparr>c_authenticator := None\<rparr>))"

definition Smb2Context_close :: "smb2_context \<Rightarrow> smb2_context option" where
  "Smb2Context_close smb2 =
     do { smb2 \<leftarrow> delete_authenticator smb2;
          Some ((Smb2Socket_close smb2)
            \<lparr>c_message_id := 0, c_session_id := 0, c_tree_id := 0, c_signing_key := replicate 16 0,
             c_session_key := None, c_session_key_size := 0\<rparr>) }"

definition endSendReceive :: "smb2_context \<Rightarrow> smb2_context" where
  "endSendReceive smb2 = smb2\<lparr>c_isComplete := True\<rparr>"

definition isConnected :: "smb2_context \<Rightarrow> bool" where
  "isConnected smb2 = c_bConnected smb2"

definition smb2SetSecurityMode :: "smb2_context \<Rightarrow> u16 \<Rightarrow> smb2_context" where
  "smb2SetSecurityMode smb2 m = smb2\<lparr>c_security_mode := m\<rparr>"

definition smb2SetAuthMode :: "smb2_context \<Rightarrow> smb2_sec \<Rightarrow> smb2_context" where
  "smb2SetAuthMode smb2 m = smb2\<lparr>c_sec := m\<rparr>"

definition smb2EnableEncryption :: "smb2_context \<Rightarrow> bool \<Rightarrow> smb2_context" where
  "smb2EnableEncryption smb2 b = smb2\<lparr>c_clientSupportEncryption := b\<rparr>"

definition smb2SetPassword :: "smb2_context \<Rightarrow> bytes \<Rightarrow> smb2_context" where
  "smb2SetPassword smb2 password = smb2\<lparr>c_password := password\<rparr>"

definition smb2SetDomain :: "smb2_context \<Rightarrow> bytes \<Rightarrow> smb2_context" where
  "smb2SetDomain smb2 domain = smb2\<lparr>c_domain := domain\<rparr>"

definition smb2SetWorkstation :: "smb2_context \<Rightarrow> bytes \<Rightarrow> smb2_context" where
  "smb2SetWorkstation smb2 workstation = smb2\<lparr>c_workstation := workstation\<rparr>"

definition smb2SetUsrInBackUpOpsGrp :: "smb2_context \<Rightarrow> bool \<Rightarrow> smb2_context" where
  "smb2SetUsrInBackUpOpsGrp smb2 val = smb2\<lparr>c_userInBackUpOperatorsGrp := val\<rparr>"

text \<open>
  The password file, lines of \<^verbatim>\<open>domain:user:password\<close>. \<open>fgets n\<close> takes at most \<open>n\<close> bytes, up to and
  with a newline. The file is \<open>None\<close> when \<^verbatim>\<open>NTLM_USER_FILE\<close> is not set and \<open>Some None\<close> when it
  cannot be opened: then \<^verbatim>\<open>feof\<close> gets a null pointer.
\<close>

fun fgets :: "nat \<Rightarrow> bytes \<Rightarrow> bytes \<times> bytes" where
  "fgets 0 f = ([], f)"
| "fgets (Suc n) [] = ([], [])"
| "fgets (Suc n) (c # f) = (if c = 0x0a then ([c], f) else (let (l, r) = fgets n f in (c # l, r)))"

lemma fgets_rest: "fgets n f = (l, r) \<Longrightarrow> f = l @ r"
  by (induction n f arbitrary: l r rule: fgets.induct) (auto split: if_splits prod.splits)

function password_lines :: "bytes \<Rightarrow> bytes \<Rightarrow> bytes \<Rightarrow> bytes option" where
  "password_lines user file pw =
     (let (line, rest) = fgets 255 file; s = c_string line in
      if line = [] then Some pw
      else if s = [] then None
      else let s = (if last s = 0x0a then butlast s else s) in
        if s = [] then Some pw
        else password_lines user rest
          (case strchr 0x3a s of None \<Rightarrow> pw
           | Some (domain, r) \<Rightarrow>
               (case strchr 0x3a r of None \<Rightarrow> pw
                | Some (u, password) \<Rightarrow> if user \<noteq> u then pw else password)))"
  by auto
termination
  by (relation "measure (\<lambda>(_, f, _). length f)") (auto dest!: fgets_rest [OF sym])

declare password_lines.simps [simp del]

definition set_password_from_file :: "bytes option option \<Rightarrow> smb2_context \<Rightarrow> smb2_context option" where
  "set_password_from_file user_file smb2 =
     (case user_file of None \<Rightarrow> Some smb2
      | Some None \<Rightarrow> None
      | Some (Some file) \<Rightarrow>
          do { pw \<leftarrow> password_lines (c_user smb2) file (c_password smb2); Some (smb2SetPassword smb2 pw) })"

definition smb2SetUser :: "bytes option option \<Rightarrow> smb2_context \<Rightarrow> bytes \<Rightarrow> smb2_context option" where
  "smb2SetUser user_file smb2 user = set_password_from_file user_file (smb2\<lparr>c_user := user\<rparr>)"

definition Smb2Context :: "u16 \<Rightarrow> bytes option option \<Rightarrow> bytes \<Rightarrow> bytes \<Rightarrow> smb2_context option" where
  "Smb2Context junk user_file sysuser challenge =
     do { smb2 \<leftarrow> smb2SetUser user_file (new_context junk) sysuser;
          Some (smb2\<lparr>c_password := [], c_domain := [], c_workstation := [], c_client_challenge := challenge\<rparr>) }"

section \<open>The invariant\<close>

abbreviation "pdu_id p \<equiv> hdr_message_id (p_header p)"

definition charge_of :: "smb2_pdu \<Rightarrow> nat" where
  "charge_of p = (if hdr_credit_charge (p_header p) > 1 then unat (hdr_credit_charge (p_header p)) else 1)"

definition queued_ids :: "smb2_context \<Rightarrow> u64 list" where
  "queued_ids c = concat (map (map pdu_id \<circ> snd) (c_outqueue c)) @ map (pdu_id \<circ> snd) (c_waitqueue c)"

definition queues_ok :: "smb2_context \<Rightarrow> bool" where
  "queues_ok c \<longleftrightarrow>
     map_sorted (c_outqueue c) \<and> map_sorted (c_waitqueue c) \<and>
     (\<forall>(k, ch) \<in> set (c_outqueue c). ch \<noteq> [] \<and> k = pdu_id (hd ch)) \<and>
     (\<forall>(k, p) \<in> set (c_waitqueue c). k = pdu_id p) \<and>
     distinct (queued_ids c) \<and> (\<forall>i \<in> set (queued_ids c). i < c_message_id c)"

text \<open>Sending a chain takes it from the out queue and files its members for their replies.\<close>

definition send_chain :: "smb2_context \<Rightarrow> u64 \<Rightarrow> smb2_pdu list \<Rightarrow> smb2_context" where
  "send_chain c k ch = smb2_pdu_add_to_waitqueue (c\<lparr>c_outqueue := map_erase k (c_outqueue c)\<rparr>) ch"

inductive qstep :: "crypto \<Rightarrow> smb2_context \<Rightarrow> smb2_context \<Rightarrow> bool" for cr where
  queue: "smb2_queue_pdu cr c ch = Some (b, e, c') \<Longrightarrow>
     unat (c_message_id c) + sum_list (map charge_of ch) < 2 ^ 64 \<Longrightarrow> qstep cr c c'"
| send: "map_find k (c_outqueue c) = Some ch \<Longrightarrow> qstep cr c (send_chain c k ch)"
| remove: "qstep cr c (smb2_remove_pdu c k)"
| reply: "smb2_find_pdu c k = (r, c') \<Longrightarrow> qstep cr c c'"

inductive_cases qstepE: "qstep cr c c'"

text \<open>All ways the queues or the counter change: within a connection, and when the context is closed, which restarts the counter and
  keeps both queues. An orderly close is one that finds both queues empty.\<close>

inductive context_step :: "crypto \<Rightarrow> bool \<Rightarrow> smb2_context \<Rightarrow> smb2_context \<Rightarrow> bool" for cr orderly where
  connected: "qstep cr c c' \<Longrightarrow> context_step cr orderly c c'"
| close: "Smb2Context_close c = Some c' \<Longrightarrow> (orderly \<Longrightarrow> c_outqueue c = [] \<and> c_waitqueue c = []) \<Longrightarrow> context_step cr orderly c c'"

definition filed_ok :: "smb2_context \<Rightarrow> bool" where
  "filed_ok c \<longleftrightarrow>
     map_sorted (c_outqueue c) \<and> map_sorted (c_waitqueue c) \<and>
     (\<forall>(k, ch) \<in> set (c_outqueue c). ch \<noteq> [] \<and> k = pdu_id (hd ch)) \<and>
     (\<forall>(k, p) \<in> set (c_waitqueue c). k = pdu_id p)"

section \<open>Numbering\<close>

fun ids_from :: "u64 \<Rightarrow> smb2_pdu list \<Rightarrow> u64 list" where
  "ids_from i [] = []"
| "ids_from i (p # ps) = i # ids_from (i + of_nat (charge_of p)) ps"

lemma of_nat_charge: "(if hdr_credit_charge (p_header p) > 1 then ucast (hdr_credit_charge (p_header p)) else 1)
    = (of_nat (charge_of p) :: u64)"
  by (simp add: charge_of_def)

lemma signature_keeps:
  assumes "smb2_pdu_add_signature cr c p = Some (Inr p')"
  shows "pdu_id p' = pdu_id p" "hdr_credit_charge (p_header p') = hdr_credit_charge (p_header p)"
  using assms
  by (auto simp: smb2_pdu_add_signature_def Let_def split: list.splits if_splits bind_splits)

lemma encode_chain_ids:
  assumes "encode_chain cr c ps = Some (Inr (c', ps'))"
  shows "map pdu_id ps' = ids_from (c_message_id c) ps \<and> map charge_of ps' = map charge_of ps \<and>
     c' = c\<lparr>c_message_id := c_message_id c + of_nat (sum_list (map charge_of ps))\<rparr>"
  using assms
proof (induction ps arbitrary: c c' ps')
  case Nil
  then show ?case by simp
next
  case (Cons p ps)
  obtain c1 p1 p2 ps2 where e: "encodeHeader c p = Some (c1, p1)"
    and s: "(if c_signing_required c1 \<noteq> 0 then smb2_pdu_add_signature cr c1 p1 else Some (Inr p1)) = Some (Inr p2)"
    and r: "encode_chain cr c1 ps = Some (Inr (c', ps2))" and ps': "ps' = p2 # ps2"
    using Cons.prems by (auto split: bind_splits sum.splits prod.splits)
  have c1: "c1 = c\<lparr>c_message_id := c_message_id c + of_nat (charge_of p)\<rparr>"
    using encodeHeader_parts(2) [OF e] by (simp only: of_nat_charge)
  have p1: "pdu_id p1 = c_message_id c" "charge_of p1 = charge_of p"
    using encodeHeader_parts(1) [OF e] by (simp_all add: charge_of_def)
  have p2: "pdu_id p2 = pdu_id p1" "charge_of p2 = charge_of p1"
    using s signature_keeps [of cr c1 p1 p2] by (auto simp: charge_of_def split: if_splits)
  show ?case
    using Cons.IH [OF r] p1 p2 by (simp add: ps' c1 add.assoc)
qed


lemma encode_chain_failure:
  assumes "encode_chain cr c ps = Some (Inl (e, c'))"
  shows "\<exists>k \<le> sum_list (map charge_of ps). c' = c\<lparr>c_message_id := c_message_id c + of_nat k\<rparr>"
  using assms
proof (induction ps arbitrary: c)
  case Nil
  then show ?case by simp
next
  case (Cons p ps)
  obtain c1 p1 where e1: "encodeHeader c p = Some (c1, p1)"
    using Cons.prems by (auto split: bind_splits)
  have c1: "c1 = c\<lparr>c_message_id := c_message_id c + of_nat (charge_of p)\<rparr>"
    using encodeHeader_parts(2) [OF e1] by (simp only: of_nat_charge)
  consider "c' = c1" | "encode_chain cr c1 ps = Some (Inl (e, c'))"
    using Cons.prems by (auto simp: e1 split: bind_splits sum.splits prod.splits)
  then show ?case
  proof cases
    case 1
    then show ?thesis
      using c1 by (intro exI [of _ "charge_of p"]) simp
  next
    case 2
    then obtain k where "k \<le> sum_list (map charge_of ps)"
      "c' = c1\<lparr>c_message_id := c_message_id c1 + of_nat k\<rparr>"
      using Cons.IH by blast
    then show ?thesis
      using c1 by (intro exI [of _ "charge_of p + k"]) (simp add: add.assoc)
  qed
qed

lemma charge_pos: "1 \<le> charge_of p"
proof -
  have "1 < unat (hdr_credit_charge (p_header p))" if "hdr_credit_charge (p_header p) > 1"
    using that by (simp add: word_less_nat_alt)
  then show ?thesis
    by (auto simp: charge_of_def)
qed

lemma ids_from_range:
  assumes "unat i + sum_list (map charge_of ps) < 2 ^ 64"
  shows "sorted_wrt (<) (ids_from i ps) \<and>
     (\<forall>x \<in> set (ids_from i ps). i \<le> x \<and> unat x < unat i + sum_list (map charge_of ps))"
  using assms
proof (induction ps arbitrary: i)
  case Nil
  then show ?case by simp
next
  case (Cons p ps)
  let ?j = "i + of_nat (charge_of p)"
  have "unat (of_nat (charge_of p) :: u64) = charge_of p"
    using Cons.prems by (intro unat_of_nat_u64) simp
  then have j: "unat ?j = unat i + charge_of p"
    using Cons.prems by (simp add: unat_word_ariths)
  have ih: "sorted_wrt (<) (ids_from ?j ps) \<and>
     (\<forall>x \<in> set (ids_from ?j ps). ?j \<le> x \<and> unat x < unat ?j + sum_list (map charge_of ps))"
    using Cons.prems j by (intro Cons.IH) simp
  have "i < x \<and> unat x < unat i + charge_of p + sum_list (map charge_of ps)" if "x \<in> set (ids_from ?j ps)" for x
    using bspec [OF conjunct2 [OF ih] that] j charge_pos [of p]
    by (simp add: word_le_nat_alt word_less_nat_alt)
  then show ?case
    using ih charge_pos [of p] by (auto simp: less_imp_le add.assoc)
qed

section \<open>The queues keep every request\<close>

lemma mset_map_put: "k \<notin> fst ` set m \<Longrightarrow> mset (map_put k v m) = add_mset (k, v) (mset m)"
  by (induction k v m rule: map_put.induct) auto

lemma mset_map_erase:
  "map_sorted m \<Longrightarrow> map_of m k = Some v \<Longrightarrow> mset m = add_mset (k, v) (mset (map_erase k m))"
proof (induction m)
  case Nil
  then show ?case by simp
next
  case (Cons x m)
  obtain a b where x: "x = (a, b)" by (cases x)
  have s: "map_sorted m" and gt: "\<forall>y \<in> set m. a < fst y"
    using Cons.prems(1) by (auto simp: map_sorted_def x)
  show ?case
  proof (cases "a = k")
    case True
    then have "filter (\<lambda>(a, _). a \<noteq> k) m = m"
      using gt by (intro filter_True) auto
    then show ?thesis
      using True Cons.prems(2) by (simp add: x map_erase_def)
  next
    case False
    then show ?thesis
      using Cons.IH [OF s] Cons.prems(2) by (simp add: x map_erase_def)
  qed
qed

lemma queued_ids_mset:
  "mset (queued_ids c) = \<Sum>\<^sub># (image_mset (\<lambda>(_, ch). mset (map pdu_id ch)) (mset (c_outqueue c))) +
     image_mset (\<lambda>(_, p). pdu_id p) (mset (c_waitqueue c))"
proof -
  have "mset (concat (map (map pdu_id \<circ> snd) m)) = \<Sum>\<^sub># (image_mset (\<lambda>(_, ch). mset (map pdu_id ch)) (mset m))"
    for m :: "(u64 \<times> smb2_pdu list) list"
    by (induction m) auto
  then show ?thesis
    by (simp add: queued_ids_def case_prod_beta' comp_def)
qed

lemma queued_ids_id [simp]: "queued_ids (c\<lparr>c_message_id := i\<rparr>) = queued_ids c"
  by (simp add: queued_ids_def)

lemma queued_out: "(k, ch) \<in> set (c_outqueue c) \<Longrightarrow> p \<in> set ch \<Longrightarrow> pdu_id p \<in> set (queued_ids c)"
  by (force simp: queued_ids_def)

lemma queued_wait: "(k, p) \<in> set (c_waitqueue c) \<Longrightarrow> pdu_id p \<in> set (queued_ids c)"
  by (force simp: queued_ids_def)

lemma queues_okD:
  assumes "queues_ok c"
  shows "map_sorted (c_outqueue c)" "map_sorted (c_waitqueue c)"
    "(k, ch) \<in> set (c_outqueue c) \<Longrightarrow> ch \<noteq> [] \<and> k = pdu_id (hd ch)"
    "(k, p) \<in> set (c_waitqueue c) \<Longrightarrow> k = pdu_id p"
    "distinct (queued_ids c)" "i \<in> set (queued_ids c) \<Longrightarrow> i < c_message_id c"
  using assms by (auto simp: queues_ok_def)

lemma queues_okI:
  assumes "map_sorted (c_outqueue c)" "map_sorted (c_waitqueue c)"
    "\<And>k ch. (k, ch) \<in> set (c_outqueue c) \<Longrightarrow> ch \<noteq> [] \<and> k = pdu_id (hd ch)"
    "\<And>k p. (k, p) \<in> set (c_waitqueue c) \<Longrightarrow> k = pdu_id p"
    "distinct (queued_ids c)" "\<And>i. i \<in> set (queued_ids c) \<Longrightarrow> i < c_message_id c"
  shows "queues_ok c"
  unfolding queues_ok_def using assms by blast

lemma queues_ok_cong:
  "c_outqueue c = c_outqueue d \<Longrightarrow> c_waitqueue c = c_waitqueue d \<Longrightarrow> c_message_id c = c_message_id d \<Longrightarrow>
   queues_ok c = queues_ok d"
  by (simp add: queues_ok_def queued_ids_def)

lemma queues_ok_fresh:
  assumes "queues_ok c" and "k \<notin> set (queued_ids c)"
  shows "k \<notin> fst ` set (c_outqueue c)" and "k \<notin> fst ` set (c_waitqueue c)"
proof -
  have "k = pdu_id (hd ch) \<and> hd ch \<in> set ch" if "(k, ch) \<in> set (c_outqueue c)" for ch
    using queues_okD(3) [OF assms(1) that] by simp
  then show "k \<notin> fst ` set (c_outqueue c)"
    using queued_out assms(2) by fastforce
  show "k \<notin> fst ` set (c_waitqueue c)"
    using queues_okD(4) [OF assms(1)] queued_wait assms(2) by fastforce
qed

lemma set_map_putD: "(a, b) \<in> set (map_put k v m) \<Longrightarrow> a = k \<and> b = v \<or> (a, b) \<in> set m"
  by (induction k v m rule: map_put.induct) (auto split: if_splits)

lemma queues_ok_raise:
  assumes "queues_ok c" and "c_message_id c \<le> i"
  shows "queues_ok (c\<lparr>c_message_id := i\<rparr>)"
  using queues_okD [OF assms(1)] less_le_trans [OF _ assms(2)] by (intro queues_okI) auto

lemma queue_put_ok:
  assumes "queues_ok c" and "ch \<noteq> []" and "distinct (map pdu_id ch)"
    and range: "\<And>x. x \<in> set (map pdu_id ch) \<Longrightarrow> c_message_id c \<le> x \<and> x < j"
  shows "queues_ok (c\<lparr>c_message_id := j, c_outqueue := map_put (pdu_id (hd ch)) ch (c_outqueue c)\<rparr>)"
    (is "queues_ok ?c")
proof -
  let ?k = "pdu_id (hd ch)"
  have k: "?k \<in> set (map pdu_id ch)"
    using assms(2) by simp
  have disj: "set (queued_ids c) \<inter> set (map pdu_id ch) = {}"
    using queues_okD(6) [OF assms(1)] range by fastforce
  then have "?k \<notin> fst ` set (c_outqueue c)"
    using queues_ok_fresh(1) [OF assms(1)] k by blast
  from mset_map_put [OF this] have m: "mset (queued_ids ?c) = mset (queued_ids c @ map pdu_id ch)"
    by (simp add: queued_ids_mset)
  have d: "distinct (queued_ids ?c)"
    unfolding mset_eq_imp_distinct_iff [OF m] using queues_okD(5) [OF assms(1)] assms(3) disj by simp
  have s: "set (queued_ids ?c) = set (queued_ids c) \<union> set (map pdu_id ch)"
    using mset_eq_setD [OF m] by simp
  have j: "i < j" if "i \<in> set (queued_ids ?c)" for i
    using that queues_okD(6) [OF assms(1), of i] range [of ?k] range [of i] k unfolding s by fastforce
  show ?thesis
    using queues_okD [OF assms(1)] assms(2) d j sorted_map_put
    by (intro queues_okI) (auto dest!: set_map_putD)
qed

lemma wait_put_ok:
  assumes "queues_ok c" and "pdu_id p \<notin> set (queued_ids c)" and "pdu_id p < c_message_id c"
  shows "queues_ok (c\<lparr>c_credits := x, c_waitqueue := map_put (pdu_id p) p (c_waitqueue c)\<rparr>)" (is "queues_ok ?c")
    and "set (queued_ids (c\<lparr>c_credits := x, c_waitqueue := map_put (pdu_id p) p (c_waitqueue c)\<rparr>))
      = insert (pdu_id p) (set (queued_ids c))"
proof -
  from mset_map_put [OF queues_ok_fresh(2) [OF assms(1,2)]]
  have m: "mset (queued_ids ?c) = mset (pdu_id p # queued_ids c)"
    by (simp add: queued_ids_mset)
  have d: "distinct (queued_ids ?c)"
    unfolding mset_eq_imp_distinct_iff [OF m] using queues_okD(5) [OF assms(1)] assms(2) by simp
  show s: "set (queued_ids ?c) = insert (pdu_id p) (set (queued_ids c))"
    using mset_eq_setD [OF m] by simp
  have j: "i < c_message_id c" if "i \<in> set (queued_ids ?c)" for i
    using that queues_okD(6) [OF assms(1), of i] assms(3) unfolding s by auto
  show "queues_ok ?c"
    using queues_okD [OF assms(1)] d j sorted_map_put
    by (intro queues_okI) (auto dest!: set_map_putD)
qed

lemma add_to_waitqueue_ok:
  assumes "queues_ok c" and "distinct (map pdu_id ps)"
    and "\<And>x. x \<in> set (map pdu_id ps) \<Longrightarrow> x \<notin> set (queued_ids c) \<and> x < c_message_id c"
  shows "queues_ok (smb2_pdu_add_to_waitqueue c ps)"
  using assms
proof (induction ps arbitrary: c)
  case Nil
  then show ?case by simp
next
  case (Cons p ps)
  let ?c = "c\<lparr>c_credits := c_credits c - ucast (hdr_credit_charge (p_header p)),
      c_waitqueue := map_put (pdu_id p) p (c_waitqueue c)\<rparr>"
  have "queues_ok ?c" and s: "set (queued_ids ?c) = insert (pdu_id p) (set (queued_ids c))"
    using wait_put_ok [OF Cons.prems(1)] Cons.prems(3) by auto
  then have "queues_ok (smb2_pdu_add_to_waitqueue ?c ps)"
    using Cons.prems by (intro Cons.IH) (auto simp: s image_iff)
  then show ?case
    by simp
qed

lemma out_erase_ok:
  assumes "queues_ok c" and "map_find k (c_outqueue c) = Some ch"
  shows "queues_ok (c\<lparr>c_outqueue := map_erase k (c_outqueue c)\<rparr>)" (is "queues_ok ?c")
    and "mset (queued_ids c) = mset (map pdu_id ch @ queued_ids (c\<lparr>c_outqueue := map_erase k (c_outqueue c)\<rparr>))"
proof -
  show m: "mset (queued_ids c) = mset (map pdu_id ch @ queued_ids ?c)"
    using mset_map_erase [OF queues_okD(1) [OF assms(1)]] assms(2) by (simp add: queued_ids_mset map_find_def)
  have "distinct (map pdu_id ch @ queued_ids ?c)"
    using mset_eq_imp_distinct_iff [OF m] queues_okD(5) [OF assms(1)] by simp
  moreover have "set (queued_ids ?c) \<subseteq> set (queued_ids c)"
    using mset_eq_setD [OF m] by simp
  moreover have "set (map_erase k (c_outqueue c)) \<subseteq> set (c_outqueue c)"
    by (auto simp: map_erase_def)
  ultimately show "queues_ok ?c"
    using queues_okD [OF assms(1)] sorted_map_erase by (intro queues_okI) auto
qed

lemma send_chain_ok:
  assumes "queues_ok c" and "map_find k (c_outqueue c) = Some ch"
  shows "queues_ok (send_chain c k ch)"
proof -
  let ?c = "c\<lparr>c_outqueue := map_erase k (c_outqueue c)\<rparr>"
  note m = out_erase_ok(2) [OF assms]
  have "distinct (map pdu_id ch @ queued_ids ?c)"
    using mset_eq_imp_distinct_iff [OF m] queues_okD(5) [OF assms(1)] by simp
  moreover have "set (map pdu_id ch) \<subseteq> set (queued_ids c)"
    using mset_eq_setD [OF m] by simp
  ultimately show ?thesis
    unfolding send_chain_def using queues_okD(6) [OF assms(1)]
    by (intro add_to_waitqueue_ok out_erase_ok(1) [OF assms]) auto
qed

lemma wait_erase_ok:
  assumes "queues_ok c" and "map_find k (c_waitqueue c) = Some p"
  shows "queues_ok (c\<lparr>c_waitqueue := map_erase k (c_waitqueue c)\<rparr>)" (is "queues_ok ?c")
proof -
  have m: "mset (queued_ids c) = mset (pdu_id p # queued_ids ?c)"
    using mset_map_erase [OF queues_okD(2) [OF assms(1)]] assms(2) by (simp add: queued_ids_mset map_find_def)
  have "distinct (pdu_id p # queued_ids ?c)"
    using mset_eq_imp_distinct_iff [OF m] queues_okD(5) [OF assms(1)] by simp
  moreover have "set (queued_ids ?c) \<subseteq> set (queued_ids c)"
    using mset_eq_setD [OF m] by auto
  moreover have "set (map_erase k (c_waitqueue c)) \<subseteq> set (c_waitqueue c)"
    by (auto simp: map_erase_def)
  ultimately show ?thesis
    using queues_okD [OF assms(1)] sorted_map_erase by (intro queues_okI) auto
qed

lemma find_pdu_ok: "queues_ok c \<Longrightarrow> smb2_find_pdu c k = (r, c') \<Longrightarrow> queues_ok c'"
  using wait_erase_ok [of c k] by (cases "map_find k (c_waitqueue c)") (simp_all add: smb2_find_pdu_def, blast)

lemma remove_pdu_ok: "queues_ok c \<Longrightarrow> queues_ok (smb2_remove_pdu c k)"
  using out_erase_ok(1) by (auto simp: smb2_remove_pdu_def)

lemma queue_pdu_ok:
  assumes "queues_ok c" and "smb2_queue_pdu cr c ch = Some (b, e, c')"
    and bound: "unat (c_message_id c) + sum_list (map charge_of ch) < 2 ^ 64"
  shows "queues_ok c'"
proof (cases "\<exists>c1 ch'. encode_chain cr c ch = Some (Inr (c1, ch'))")
  case True
  then obtain c1 ch' where enc: "encode_chain cr c ch = Some (Inr (c1, ch'))" by blast
  let ?j = "c_message_id c + of_nat (sum_list (map charge_of ch))"
  have ids: "map pdu_id ch' = ids_from (c_message_id c) ch" and c1: "c1 = c\<lparr>c_message_id := ?j\<rparr>"
    using encode_chain_ids [OF enc] by auto
  have ne: "ch' \<noteq> []" and c': "c' = c1\<lparr>c_outqueue := map_put (pdu_id (hd ch')) ch' (c_outqueue c1)\<rparr>"
    using assms(2) by (auto simp: smb2_queue_pdu_def enc split: if_splits)
  have "unat (of_nat (sum_list (map charge_of ch)) :: u64) = sum_list (map charge_of ch)"
    using bound by (intro unat_of_nat_u64) linarith
  then have j: "unat ?j = unat (c_message_id c) + sum_list (map charge_of ch)"
    using bound by (simp add: unat_word_ariths)
  have "queues_ok (c\<lparr>c_message_id := ?j, c_outqueue := map_put (pdu_id (hd ch')) ch' (c_outqueue c)\<rparr>)"
    using ids_from_range [OF bound] j unfolding ids [symmetric]
    by (intro queue_put_ok [OF assms(1) ne]) (auto simp: word_less_nat_alt strict_sorted_iff)
  then show ?thesis
    by (simp add: c' c1)
next
  case False
  then obtain e1 where "encode_chain cr c ch = Some (Inl (e1, c'))"
    using assms(2) by (auto simp: smb2_queue_pdu_def split: bind_splits sum.splits prod.splits)
  then obtain k where k: "k \<le> sum_list (map charge_of ch)" "c' = c\<lparr>c_message_id := c_message_id c + of_nat k\<rparr>"
    using encode_chain_failure by blast
  have "unat (of_nat k :: u64) = k"
    using bound k(1) by (intro unat_of_nat_u64) linarith
  then have "c_message_id c \<le> c_message_id c + of_nat k"
    using bound k(1) by (simp add: word_le_nat_alt unat_word_ariths)
  then show ?thesis
    using queues_ok_raise [OF assms(1)] k(2) by simp
qed

lemma qstep_ok: "qstep cr c c' \<Longrightarrow> queues_ok c \<Longrightarrow> queues_ok c'"
  by (erule qstepE) (auto intro: queue_pdu_ok send_chain_ok remove_pdu_ok find_pdu_ok)

lemma waitqueue_put_all:
  "c_waitqueue (smb2_pdu_add_to_waitqueue c ps) = std_map.put_all (map (\<lambda>p. (pdu_id p, p)) ps) (c_waitqueue c)"
  by (induction ps arbitrary: c) (simp_all add: std_map.put_all_def)

lemma foldl_plus: "foldl (\<lambda>n x. n + f x) k xs = k + sum_list (map f xs)" for k :: "'a::monoid_add"
  by (induction xs arbitrary: k) (simp_all add: add.assoc)

lemma credits_after_send:
  "c_credits (smb2_pdu_add_to_waitqueue c ps) = c_credits c - getReqCreditCharge ps"
  by (induction ps arbitrary: c) (simp_all add: getReqCreditCharge_def foldl_plus diff_diff_eq)

section \<open>Properties\<close>

lemma filed_add:
  "filed_ok c \<Longrightarrow> filed_ok (smb2_pdu_add_to_waitqueue c ps)"
proof (induction ps arbitrary: c)
  case (Cons p ps)
  have "filed_ok (c\<lparr>c_credits := x, c_waitqueue := map_put (pdu_id p) p (c_waitqueue c)\<rparr>)" for x
    using Cons.prems sorted_map_put by (auto simp: filed_ok_def dest!: set_map_putD)
  then show ?case using Cons.IH by simp
qed simp

lemma filed_erase:
  assumes "filed_ok c"
  shows "filed_ok (c\<lparr>c_outqueue := map_erase k (c_outqueue c)\<rparr>)" "filed_ok (c\<lparr>c_waitqueue := map_erase k (c_waitqueue c)\<rparr>)"
  using assms sorted_map_erase by (auto simp: filed_ok_def map_erase_def)

lemma filed_queue:
  assumes "filed_ok c" and "smb2_queue_pdu cr c ch = Some (b, e, c')"
  shows "filed_ok c'"
proof -
  consider c1 ch' where "encode_chain cr c ch = Some (Inr (c1, ch'))" "ch' \<noteq> []" "c' = c1\<lparr>c_outqueue := map_put (pdu_id (hd ch')) ch' (c_outqueue c1)\<rparr>"
    | e1 where "encode_chain cr c ch = Some (Inl (e1, c'))"
    using assms(2) by (auto simp: smb2_queue_pdu_def split: bind_splits sum.splits prod.splits if_splits)
  then show ?thesis
  proof cases
    case 1
    then show ?thesis
      using assms(1) encode_chain_ids [OF 1(1)] sorted_map_put by (auto simp: filed_ok_def dest!: set_map_putD)
  next
    case 2
    then show ?thesis
      using assms(1) encode_chain_failure [OF 2] by (auto simp: filed_ok_def)
  qed
qed

lemma close_queues:
  "Smb2Context_close c = Some d \<Longrightarrow> c_outqueue d = c_outqueue c \<and> c_waitqueue d = c_waitqueue c"
  by (auto simp: Smb2Context_close_def delete_authenticator_def Smb2Socket_close_def split: option.splits authenticator.splits bind_splits)

lemma filed_step: "context_step cr orderly c c' \<Longrightarrow> filed_ok c \<Longrightarrow> filed_ok c'"
proof (induction rule: context_step.induct)
  case (connected c c')
  then show ?case
    using filed_queue filed_add filed_erase
    by (auto elim!: qstepE simp: send_chain_def smb2_remove_pdu_def smb2_find_pdu_def split: option.splits)
next
  case (close c c')
  then show ?case
    using close_queues by (simp add: filed_ok_def)
qed

lemma orderly_step: "context_step cr True c c' \<Longrightarrow> queues_ok c \<Longrightarrow> queues_ok c'"
proof (induction rule: context_step.induct)
  case (close c c')
  then show ?case
    using close_queues [OF close(1)] by (simp add: queues_ok_def queued_ids_def)
qed (rule qstep_ok)

text \<open>C10. Every way the queues change keeps the invariant, as long as the 64-bit counter does not wrap around. In a context that is
  closed only when no request is pending, requests are filed under their own
  message id, no two requests in flight share an id, and the counter is past all of them. If it is also closed while
  requests are pending, which restarts the counter, the requests are still filed under their own ids in order, but new ids may
  meet old ones.\<close>

theorem queues_invariant:
  assumes "queues_ok c"
  shows "((context_step cr True)\<^sup>*\<^sup>* c c' \<longrightarrow> queues_ok c') \<and> ((context_step cr False)\<^sup>*\<^sup>* c c' \<longrightarrow> filed_ok c')"
proof (intro conjI impI)
  assume "(context_step cr True)\<^sup>*\<^sup>* c c'"
  then show "queues_ok c'"
    using assms by (induction rule: rtranclp_induct) (auto intro: orderly_step)
next
  have f: "filed_ok c"
    using assms by (simp add: queues_ok_def filed_ok_def)
  assume "(context_step cr False)\<^sup>*\<^sup>* c c'"
  then show "filed_ok c'"
    using f by (induction rule: rtranclp_induct) (auto intro: filed_step)
qed

text \<open>C34. The members of a queued chain get increasing message ids, the first one the value of the
  counter and each next one as far behind its predecessor as the credits that one is charged; the
  counter ends behind the last, and the chain is found in the out queue under the id of its head.\<close>

theorem queue_pdu_numbers_chain:
  assumes "smb2_queue_pdu cr c ch = Some (True, e, c')" and "queues_ok c"
    and "unat (c_message_id c) + sum_list (map charge_of ch) < 2 ^ 64"
  shows "\<exists>ch'. map_find (c_message_id c) (c_outqueue c') = Some ch' \<and> map pdu_id ch' = ids_from (c_message_id c) ch \<and>
     sorted_wrt (<) (map pdu_id ch') \<and>
     unat (c_message_id c') = unat (c_message_id c) + sum_list (map charge_of ch)"
proof -
  obtain c1 ch' where enc: "encode_chain cr c ch = Some (Inr (c1, ch'))" and ne: "ch' \<noteq> []"
    and c': "c' = c1\<lparr>c_outqueue := map_put (pdu_id (hd ch')) ch' (c_outqueue c1)\<rparr>"
    using assms(1) by (auto simp: smb2_queue_pdu_def split: bind_splits sum.splits prod.splits if_splits)
  let ?n = "sum_list (map charge_of ch)"
  have ids: "map pdu_id ch' = ids_from (c_message_id c) ch"
    and c1: "c1 = c\<lparr>c_message_id := c_message_id c + of_nat ?n\<rparr>"
    using encode_chain_ids [OF enc] by auto
  have "pdu_id (hd ch') = c_message_id c"
    using ne ids by (cases ch; cases ch') auto
  then have "map_find (c_message_id c) (c_outqueue c') = Some ch'"
    by (simp add: c' c1 std_map.find_put_same queues_okD(1) [OF assms(2)])
  moreover have "unat (c_message_id c') = unat (c_message_id c) + ?n"
  proof -
    have "unat (of_nat ?n :: u64) = ?n"
      using assms(3) by (intro unat_of_nat_u64) linarith
    then show ?thesis
      using assms(3) by (simp add: c' c1 unat_word_ariths)
  qed
  ultimately show ?thesis
    using ids ids_from_range [OF assms(3)] by metis
qed

text \<open>C33. Once a chain is sent, the reply to each of its members finds exactly that member in the wait
  queue, the members are no longer queued for sending, and the credits are reduced by the charge of
  the chain.\<close>

theorem reply_finds_its_request:
  assumes "queues_ok c" and "map_find k (c_outqueue c) = Some ch" and "p \<in> set ch"
  shows "fst (smb2_find_pdu (send_chain c k ch) (pdu_id p)) = Some p \<and>
     map_find k (c_outqueue (send_chain c k ch)) = None \<and>
     c_credits (send_chain c k ch) = c_credits c - getReqCreditCharge ch"
proof -
  let ?c = "c\<lparr>c_outqueue := map_erase k (c_outqueue c)\<rparr>"
  let ?xs = "map (\<lambda>p. (pdu_id p, p)) ch"
  have d: "distinct (map pdu_id ch)"
    using mset_eq_imp_distinct_iff [OF out_erase_ok(2) [OF assms(1,2)]] queues_okD(5) [OF assms(1)] by simp
  then have "map_of ?xs (pdu_id p) = Some p"
    using assms(3) by (intro map_of_is_SomeI) (auto simp: comp_def)
  then have "map_find (pdu_id p) (c_waitqueue (send_chain c k ch)) = Some p"
    using d queues_okD(2) [OF assms(1)]
    by (simp add: send_chain_def waitqueue_put_all std_map.find_put_all comp_def)
  moreover have "c_outqueue (smb2_pdu_add_to_waitqueue c' ps) = c_outqueue c'" for c' ps
    by (induction ps arbitrary: c') auto
  ultimately show ?thesis
    using queues_okD(1) [OF assms(1)]
    by (simp add: smb2_find_pdu_def send_chain_def std_map.find_erase credits_after_send)
qed

definition auth_ok :: "smb2_context \<Rightarrow> bool" where
  "auth_ok c \<longleftrightarrow> c_authenticator c \<noteq> Some (ANtlm None)"

definition closed_context :: "smb2_context \<Rightarrow> smb2_context" where
  "closed_context c = c\<lparr>c_authenticator := None, c_fd := -1, c_bConnected := False, c_message_id := 0, c_session_id := 0,
     c_tree_id := 0, c_signing_key := replicate 16 0, c_session_key := None, c_session_key_size := 0\<rparr>"

lemma close_auth_ok: "Smb2Context_close c = Some d \<Longrightarrow> auth_ok c"
  by (auto simp: Smb2Context_close_def delete_authenticator_def auth_ok_def split: option.splits)

lemma close_some: "auth_ok c \<Longrightarrow> Smb2Context_close c = Some (closed_context c)"
  by (auto simp: Smb2Context_close_def delete_authenticator_def auth_ok_def closed_context_def Smb2Socket_close_def
      split: option.splits authenticator.splits)

text \<open>\<^verbatim>\<open>close\<close> restarts the message ids at zero but leaves both queues as they are: with a
  request still waiting the invariant is broken, and when the waiting request has id 0 the first
  request after reconnecting gets the same id and replaces it in the wait queue.\<close>

lemma close_keeps_stale_requests:
  assumes "queues_ok c" and "map_find 0 (c_waitqueue c) = Some p"
    and "Smb2Context_close c = Some d" and "encodeHeader d q = Some (c', q')"
  shows "\<not> queues_ok d \<and> pdu_id q' = 0 \<and> map_find 0 (c_waitqueue c') = Some p \<and>
     map_find 0 (c_waitqueue (smb2_pdu_add_to_waitqueue c' [q'])) = Some q'"
proof -
  have d: "c_waitqueue d = c_waitqueue c" "c_message_id d = 0"
    using close_some [OF close_auth_ok [OF assms(3)]] assms(3) by (auto simp: closed_context_def)
  have q: "pdu_id q' = 0" "c_waitqueue c' = c_waitqueue c"
    using encodeHeader_parts(1,2) [OF assms(4)] d by simp_all
  have "(0, p) \<in> set (c_waitqueue d)"
    using assms(2) d by (simp add: map_find_def map_of_SomeD)
  then have "\<not> queues_ok d"
    using queued_wait queues_okD(6) [of d] d(2) by fastforce
  then show ?thesis
    using q assms(2) queues_okD(2) [OF assms(1)] by (simp add: std_map.find_put_same)
qed

text \<open>A context with one echo request queued, and the same after sending it.\<close>

definition ex_echo :: smb2_pdu where
  "ex_echo = Smb2Pdu (new_context 0x311) SMB2_ECHO 1"

definition ex_queued :: smb2_context where
  "ex_queued = (new_context 0x311)\<lparr>c_message_id := 1, c_outqueue := [(0, [ex_echo])]\<rparr>"

lemma ex_queued_ok: "queues_ok ex_queued"
  by (simp add: queues_ok_def ex_queued_def ex_echo_def queued_ids_def new_context_def Smb2Pdu_def Let_def
      zero_header_def map_sorted_def)

theorem queues_invariant_witness: "queues_ok (send_chain ex_queued 0 [ex_echo]) \<and> filed_ok (closed_context ex_queued)"
proof
  have "context_step ex_crypto True ex_queued (send_chain ex_queued 0 [ex_echo])"
    by (intro context_step.connected qstep.send) (simp add: ex_queued_def map_find_def)
  then show "queues_ok (send_chain ex_queued 0 [ex_echo])"
    using queues_invariant [OF ex_queued_ok] by blast
  have "auth_ok ex_queued"
    by (simp add: ex_queued_def new_context_def auth_ok_def)
  then have "context_step ex_crypto False ex_queued (closed_context ex_queued)"
    by (intro context_step.close close_some) simp_all
  then show "filed_ok (closed_context ex_queued)"
    using queues_invariant [OF ex_queued_ok] by blast
qed

lemma ex_encode_chain:
  "\<exists>c' p'. encode_chain cr (new_context 0x311) [ex_echo] = Some (Inr (c', [p']))"
proof -
  have "iovs (p_out ex_echo) = smb2_iovec_make (replicate 64 0) 64 False # []"
    by (simp add: ex_echo_def Smb2Pdu_def Let_def smb2_add_iovector_buf_def smb2_io_vectors_empty_def
        smb2_iovec_make_def)
  moreover have "wf_header (p_header ex_echo)"
    by (simp add: wf_header_def ex_echo_def Smb2Pdu_def Let_def zero_header_def)
  ultimately obtain c' p' where e: "encodeHeader (new_context 0x311) ex_echo = Some (c', p')"
    using encodeHeader_bytes [of ex_echo _ _ "new_context 0x311"] by (fastforce simp: smb2_iovec_make_def)
  moreover have "c_signing_required c' = 0"
    using encodeHeader_parts(2) [OF e] by (simp add: new_context_def)
  ultimately show ?thesis
    by simp
qed

theorem queue_pdu_numbers_chain_witness:
  "\<exists>c'. smb2_queue_pdu ex_crypto (new_context 0x311) [ex_echo] = Some (True, None, c') \<and>
     unat (c_message_id c') = 1"
proof -
  let ?c = "new_context 0x311"
  obtain c' where q: "smb2_queue_pdu ex_crypto ?c [ex_echo] = Some (True, None, c')"
    using ex_encode_chain [of ex_crypto] by (auto simp: smb2_queue_pdu_def simp del: encode_chain.simps)
  have ok: "queues_ok ?c"
    by (simp add: queues_ok_def queued_ids_def new_context_def map_sorted_def)
  have ch: "charge_of ex_echo = 1" "c_message_id ?c = 0"
    by (simp_all add: charge_of_def ex_echo_def Smb2Pdu_def Let_def zero_header_def new_context_def)
  then have "unat (c_message_id ?c) + sum_list (map charge_of [ex_echo]) < 2 ^ 64"
    by simp
  from queue_pdu_numbers_chain [OF q ok this] q ch show ?thesis
    by auto
qed

theorem reply_finds_its_request_witness:
  "fst (smb2_find_pdu (send_chain ex_queued 0 [ex_echo]) (pdu_id ex_echo)) = Some ex_echo"
  using reply_finds_its_request [OF ex_queued_ok, of 0 "[ex_echo]" ex_echo]
  by (simp add: ex_queued_def map_find_def)

end
