(* ===== verification/Smb2_Util.thy ===== *)
theory Smb2_Util
  imports Smb2_Context
begin

text \<open>
  \<^verbatim>\<open>util.cpp\<close> and \<^verbatim>\<open>NtError.cpp\<close>: the URL of a share with its options, the conversion between the
  Windows and the Unix epoch, and the names and error numbers of status codes. The Unicode part of
  \<^verbatim>\<open>util.cpp\<close> is in \<open>Smb2_Unicode\<close>.
\<close>

section \<open>URLs\<close>

record smb2_url =
  url_domain :: bytes
  url_user :: bytes
  url_server :: bytes
  url_share :: bytes
  url_path :: bytes

abbreviation ascii :: "string \<Rightarrow> bytes" where
  "ascii s \<equiv> map of_char s"

definition sec_arg :: "smb2_context \<Rightarrow> bytes \<Rightarrow> smb2_context option" where
  "sec_arg smb2 v =
     (if v = ascii ''krb5'' then Some (smb2\<lparr>c_sec := SMB2_SEC_KRB5\<rparr>)
      else if v = ascii ''krb5cc'' then Some (smb2\<lparr>c_sec := SMB2_SEC_KRB5, c_use_cached_creds := True\<rparr>)
      else if v = ascii ''ntlmssp'' then Some (smb2\<lparr>c_sec := SMB2_SEC_NTLMSSP\<rparr>)
      else None)"

definition vers_arg :: "smb2_context \<Rightarrow> bytes \<Rightarrow> smb2_context option" where
  "vers_arg smb2 v =
     (if v = ascii ''2'' then Some (smb2\<lparr>c_version := SMB2_VERSION_ANY2\<rparr>)
      else if v = ascii ''3'' then Some (smb2\<lparr>c_version := SMB2_VERSION_ANY3\<rparr>)
      else if v = ascii ''2.02'' then Some (smb2\<lparr>c_version := SMB2_VERSION_0202\<rparr>)
      else if v = ascii ''2.10'' then Some (smb2\<lparr>c_version := SMB2_VERSION_0210\<rparr>)
      else if v = ascii ''3.0'' \<or> v = ascii ''3.00'' then Some (smb2\<lparr>c_version := SMB2_VERSION_0300\<rparr>)
      else if v = ascii ''3.02'' then Some (smb2\<lparr>c_version := SMB2_VERSION_0302\<rparr>)
      else if v = ascii ''3.11'' then Some (smb2\<lparr>c_version := SMB2_VERSION_0311\<rparr>)
      else None)"

text \<open>
  The argument string up to its NUL. An option \<^verbatim>\<open>sec\<close> or \<^verbatim>\<open>vers\<close> without \<^verbatim>\<open>=\<close> passes a null pointer
  to \<^verbatim>\<open>strcmp\<close>. What was set before an unknown option stays set.
\<close>

function smb2_parse_args :: "smb2_context \<Rightarrow> bytes \<Rightarrow> (err_msg option \<times> smb2_context) option" where
  "smb2_parse_args smb2 args =
     (if args = [] then Some (None, smb2)
      else let (arg, nxt) = (case strchr 0x26 args of None \<Rightarrow> (args, []) | Some (a, n) \<Rightarrow> (a, n));
               (key, v) = (case strchr 0x3d arg of None \<Rightarrow> (arg, None) | Some (k, v) \<Rightarrow> (k, Some v)) in
        if key = ascii ''sec'' then
          (case v of None \<Rightarrow> None
           | Some v \<Rightarrow> (case sec_arg smb2 v of None \<Rightarrow> Some (Some (Msg ''Unknown sec= argument: %s'' []), smb2)
                       | Some smb2 \<Rightarrow> smb2_parse_args smb2 nxt))
        else if key = ascii ''vers'' then
          (case v of None \<Rightarrow> None
           | Some v \<Rightarrow> (case vers_arg smb2 v of None \<Rightarrow> Some (Some (Msg ''Unknown vers= argument: %s'' []), smb2)
                       | Some smb2 \<Rightarrow> smb2_parse_args smb2 nxt))
        else Some (Some (Msg ''Unknown argument: %s'' []), smb2))"
  by auto
termination
  by (relation "measure (\<lambda>(_, a). length a)") (auto split: option.splits dest!: strchr_SomeD)

declare smb2_parse_args.simps [simp del]

text \<open>The part of the URL behind \<^verbatim>\<open>smb://\<close> and in front of \<^verbatim>\<open>?\<close>.\<close>

definition url_parts :: "bytes \<Rightarrow> smb2_url" where
  "url_parts str =
     (let (dom, ptr) = (case strchr 0x3b str of None \<Rightarrow> ([], str) | Some (d, r) \<Rightarrow> (d, r));
          (user, ptr) = (case strchr 0x40 ptr of None \<Rightarrow> ([], ptr) | Some (u, r) \<Rightarrow> (u, r));
          (server, ptr) = (case strchr 0x2f ptr of None \<Rightarrow> ([], ptr) | Some (s, r) \<Rightarrow> (s, r));
          (share, path) = (case strchr 0x2f ptr of None \<Rightarrow> (ptr, []) | Some (s, r) \<Rightarrow> (s, r))
      in \<lparr>url_domain = dom, url_user = user, url_server = server, url_share = share, url_path = path\<rparr>)"

definition smb2_parse_url :: "smb2_context \<Rightarrow> bytes \<Rightarrow> ((err_msg + smb2_url) \<times> smb2_context) option" where
  \<comment> \<open>\<open>url\<close> is the string without its NUL\<close>
  "smb2_parse_url smb2 url =
     (if take 6 url \<noteq> ascii ''smb://'' then Some (Inl (Msg ''URL does not start with smb://'' []), smb2)
      else if length (drop 6 url) \<ge> 256 then Some (Inl (Msg ''URL is too long'' []), smb2)
      else case strchr 0x3f (drop 6 url) of
        None \<Rightarrow> Some (Inr (url_parts (drop 6 url)), smb2)
      | Some (str, args) \<Rightarrow>
          do { (e, smb2) \<leftarrow> smb2_parse_args smb2 args;
               Some (case e of None \<Rightarrow> Inr (url_parts str) | Some e \<Rightarrow> Inl e, smb2) })"

section \<open>Time\<close>

record smb2_timeval =
  tv_sec :: u32
  tv_usec :: u32

abbreviation win_epoch :: u64 where
  "win_epoch \<equiv> 116444736000000000"

definition timevalToWinEpoch :: "smb2_timeval \<Rightarrow> u64" where
  "timevalToWinEpoch tv = (ucast (tv_sec tv) * 10000000) + win_epoch + ucast (tv_usec tv * 10)"

definition winEpochToTimeval :: "u64 \<Rightarrow> smb2_timeval" where
  "winEpochToTimeval smb2_time =
     \<lparr>tv_sec = ucast ((smb2_time - win_epoch) div 10000000), tv_usec = ucast ((smb2_time div 10) mod 1000000)\<rparr>"

text \<open>\<^verbatim>\<open>time_t\<close> is a signed 64-bit integer; the signed arithmetic of the second function may overflow.\<close>

definition SMBTimeToUTime :: "u64 \<Rightarrow> int" where
  "SMBTimeToUTime smb_time = sint ((smb_time - win_epoch) div 10000000)"

definition UTimeToSMBTime :: "int \<Rightarrow> u64 option" where
  "UTimeToSMBTime utime =
     (let a = utime * 10000000; b = a + 116444736000000000 in
      if \<bar>a\<bar> < 2 ^ 63 \<and> b < 2 ^ 63 then Some (word_of_int b) else None)"

section \<open>Status codes\<close>

definition nterror_to_str :: "u32 \<Rightarrow> string" where
  "nterror_to_str status =
     (if status = SMB2_STATUS_SUCCESS then ''STATUS_SUCCESS''
      else if status = SMB2_STATUS_PENDING then ''STATUS_PENDING''
      else if status = SMB2_STATUS_NO_MORE_FILES then ''STATUS_NO_MORE_FILES''
      else if status = SMB2_STATUS_NO_MORE_EAS then ''STATUS_NO_MORE_EAS''
      else if status = SMB2_STATUS_INVALID_PARAMETER then ''STATUS_INVALID_PARAMETER''
      else if status = SMB2_STATUS_NO_SUCH_FILE then ''STATUS_NO_SUCH_FILE''
      else if status = SMB2_STATUS_END_OF_FILE then ''STATUS_END_OF_FILE''
      else if status = SMB2_STATUS_MORE_PROCESSING_REQUIRED then ''STATUS_MORE_PROCESSING_REQUIRED''
      else if status = SMB2_STATUS_ACCESS_DENIED then ''STATUS_ACCESS_DENIED''
      else if status = SMB2_STATUS_OBJECT_NAME_NOT_FOUND then ''STATUS_OBJECT_NAME_NOT_FOUND''
      else if status = SMB2_STATUS_OBJECT_NAME_COLLISION then ''STATUS_OBJECT_NAME_COLLISION''
      else if status = SMB2_STATUS_OBJECT_PATH_NOT_FOUND then ''STATUS_OBJECT_PATH_NOT_FOUND''
      else if status = SMB2_STATUS_SHARING_VIOLATION then ''STATUS_SHARING_VIOLATION''
      else if status = SMB2_STATUS_QUOTA_EXCEEDED then ''STATUS_QUOTA_EXCEEDED''
      else if status = SMB2_STATUS_NO_EAS_ON_FILE then ''STATUS_NO_EAS_ON_FILE''
      else if status = SMB2_STATUS_LOGON_FAILURE then ''STATUS_LOGON_FAILURE''
      else if status = SMB2_STATUS_ALLOTTED_SPACE_EXCEEDED then ''STATUS_ALLOTTED_SPACE_EXCEEDED''
      else if status = SMB2_STATUS_INSUFFICIENT_RESOURCES then ''STATUS_INSUFFICIENT_RESOURCES''
      else if status = SMB2_STATUS_BAD_NETWORK_NAME then ''STATUS_BAD_NETWORK_NAME''
      else if status = SMB2_STATUS_NOT_A_DIRECTORY then ''STATUS_NOT_A_DIRECTORY''
      else if status = SMB2_STATUS_FILE_CLOSED then ''STATUS_FILE_CLOSED''
      else if status = SMB2_STATUS_NO_MEMORY then ''STATUS_NO_MEMORY''
      else if status = SMB2_STATUS_INVALID_CONNECTION then ''STATUS_INVALID_CONNECTION''
      else if status = SMB2_STATUS_CONNECTION_DISCONNECTED then ''STATUS_CONNECTION_DISCONNECTED''
      else if status = SMB2_STATUS_NO_USER_SESSION_KEY then ''STATUS_NO_USER_SESSION_KEY''
      else if status = SMB2_STATUS_NOT_SUPPORTED then ''STATUS_NOT_SUPPORTED''
      else ''Unknown'')"

datatype errno = E_OK | ENOENT | EBADF | EAGAIN | EACCES | ENODATA | ECONNREFUSED | ENOTDIR | EINVAL | EIO

definition nterror_to_errno :: "u32 \<Rightarrow> errno" where
  "nterror_to_errno status =
     (if status = SMB2_STATUS_SUCCESS \<or> status = SMB2_STATUS_END_OF_FILE then E_OK
      else if status = SMB2_STATUS_BAD_NETWORK_NAME \<or> status = SMB2_STATUS_OBJECT_NAME_NOT_FOUND then ENOENT
      else if status = SMB2_STATUS_FILE_CLOSED then EBADF
      else if status = SMB2_STATUS_MORE_PROCESSING_REQUIRED then EAGAIN
      else if status = SMB2_STATUS_ACCESS_DENIED then EACCES
      else if status = SMB2_STATUS_PENDING then EAGAIN
      else if status = SMB2_STATUS_NO_MORE_FILES then ENODATA
      else if status = SMB2_STATUS_LOGON_FAILURE then ECONNREFUSED
      else if status = SMB2_STATUS_NOT_A_DIRECTORY then ENOTDIR
      else if status = SMB2_STATUS_INVALID_PARAMETER then EINVAL
      else EIO)"

section \<open>URLs in canonical form\<close>

definition print_url :: "smb2_url \<Rightarrow> bytes" where
  "print_url u = ascii ''smb://'' @ url_domain u @ [0x3b] @ url_user u @ [0x40] @ url_server u @ [0x2f] @
     url_share u @ [0x2f] @ url_path u"

definition url_clean :: "smb2_url \<Rightarrow> bool" where
  \<comment> \<open>no part contains the character that ends it, and none contains \<^verbatim>\<open>?\<close>\<close>
  "url_clean u \<longleftrightarrow> 0x3b \<notin> set (url_domain u) \<and> 0x40 \<notin> set (url_user u) \<and> 0x2f \<notin> set (url_server u) \<and>
     0x2f \<notin> set (url_share u) \<and> (\<forall>s \<in> {url_domain u, url_user u, url_server u, url_share u, url_path u}. 0x3f \<notin> set s) \<and>
     length (print_url u) < 262"

text \<open>A URL written as \<^verbatim>\<open>smb://domain;user@server/share/path\<close> is parsed into exactly its five
  parts, whatever the parts are as long as none contains a delimiter that ends it, and the options of
  the context stay as they are.\<close>

lemma url_roundtrip:
  assumes "url_clean u"
  shows "smb2_parse_url c (print_url u) = Some (Inr u, c)"
proof -
  have "strchr 0x3f (drop 6 (print_url u)) = None"
    using assms by (simp add: strchr_None print_url_def url_clean_def)
  moreover have "url_parts (drop 6 (print_url u)) = u"
    using assms by (simp add: url_parts_def print_url_def url_clean_def strchr_append)
  ultimately show ?thesis
    using assms by (simp add: smb2_parse_url_def url_clean_def) (simp add: print_url_def)
qed

definition ex_url :: smb2_url where
  "ex_url = \<lparr>url_domain = ascii ''d'', url_user = ascii ''u'', url_server = ascii ''s'', url_share = ascii ''x'',
     url_path = ascii ''a/b''\<rparr>"

text \<open>An option without a value passes a null pointer to \<^verbatim>\<open>strcmp\<close>.\<close>

lemma url_option_without_value: "smb2_parse_url c (ascii ''smb://s/x?sec'') = None"
  by (simp add: smb2_parse_url_def smb2_parse_args.simps)

text \<open>A \<^verbatim>\<open>@\<close> in the path is taken for the end of the user name, so the server is lost.\<close>

lemma url_at_sign_in_path:
  "smb2_parse_url c (ascii ''smb://s/x/a@b'') =
     Some (Inr \<lparr>url_domain = [], url_user = ascii ''s/x/a'', url_server = [], url_share = ascii ''b'', url_path = []\<rparr>, c)"
  by (simp add: smb2_parse_url_def url_parts_def)

section \<open>Time conversions are inverse\<close>

lemma win_epoch_div: "(116444736000000000 + n :: nat) div 10 mod 1000000 = n div 10 mod 1000000"
proof -
  have "116444736000000000 + n = n + 11644473600 * 1000000 * 10"
    by simp
  then have "(116444736000000000 + n) div 10 = n div 10 + 11644473600 * 1000000"
    by (simp only: div_mult_self1)
  then show ?thesis
    by (simp only: mod_mult_self1)
qed

text \<open>A Windows time in whole microseconds between 1970 and 2106 survives the conversion to a
  Unix time and back.\<close>

lemma win_epoch_roundtrip:
  assumes "116444736000000000 \<le> unat t" and "unat t < 116444736000000000 + 2 ^ 32 * 10000000" and "10 dvd unat t"
  shows "timevalToWinEpoch (winEpochToTimeval t) = t"
proof -
  define n where "n = unat t - 116444736000000000"
  have t: "unat t = 116444736000000000 + n"
    using assms(1) by (simp add: n_def)
  have n: "n < 2 ^ 32 * 10000000" "10 dvd n"
    using assms(2,3) dvd_add_right_iff [of 10 116444736000000000 n] by (simp_all add: t)
  have d: "unat (t - win_epoch) = n"
    using assms(1) by (subst unat_sub) (simp_all add: word_le_nat_alt t)
  have s: "unat ((t - win_epoch) div 10000000) = n div 10000000"
    by (simp add: unat_div_distrib d)
  have s': "unat (ucast ((t - win_epoch) div 10000000) :: u32) = n div 10000000"
    unfolding unsigned_ucast_eq s using n(1) by (intro take_bit_nat_eq_self) (simp add: less_mult_imp_div_less)
  have u: "unat (t div 10 mod 1000000) = n div 10 mod 1000000"
    by (simp add: unat_div_distrib unat_mod_distrib t win_epoch_div)
  have u': "unat (ucast (t div 10 mod 1000000) :: u32) = n div 10 mod 1000000"
    unfolding unsigned_ucast_eq u by (intro take_bit_nat_eq_self) (simp add: less_trans [OF mod_less_divisor])
  have sum: "n div 10000000 * 10000000 + n div 10 mod 1000000 * 10 = n"
  proof -
    obtain m where m: "n = 10 * m"
      using n(2) by blast
    have e: "n div 10000000 = m div 1000000" "n div 10 = m"
      using div_mult2_eq [of n 10 1000000] by (simp_all add: m)
    have "a * 10000000 + b * 10 = (a * 1000000 + b) * 10" for a b :: nat
      by simp
    from this [of "m div 1000000" "m mod 1000000"] show ?thesis
      unfolding e div_mult_mod_eq by (simp only: m mult.commute [of m])
  qed
  have "unat (timevalToWinEpoch (winEpochToTimeval t)) =
      (n div 10000000 * 10000000 + 116444736000000000 + n div 10 mod 1000000 * 10) mod 2 ^ 64"
    using mod_less_divisor [of 1000000 "n div 10"]
    by (simp add: timevalToWinEpoch_def winEpochToTimeval_def unat_word_ariths s' u' mod_simps)
  also have "\<dots> = unat t"
    using sum unat_u64_less [of t] t by (simp add: ac_simps)
  finally show ?thesis
    by (simp add: word_unat_eq_iff)
qed

lemma utime_roundtrip:
  assumes "0 \<le> u" and "u < 800000000000"
  shows "map_option SMBTimeToUTime (UTimeToSMBTime u) = Some u"
proof -
  define n where "n = nat u"
  have u: "u = int n" "n < 800000000000"
    using assms by (auto simp: n_def)
  have x: "(word_of_int (u * 10000000 + 116444736000000000) - win_epoch :: u64) = of_nat (n * 10000000)"
    by (simp add: u)
  have "unat (of_nat (n * 10000000) :: u64) = n * 10000000"
    using u(2) by (intro unat_of_nat_u64) simp
  then have "unat (of_nat (n * 10000000) div 10000000 :: u64) = n"
    by (simp add: unat_div_distrib del: of_nat_mult)
  then have "(of_nat (n * 10000000) div 10000000 :: u64) = of_nat n"
    using u(2) unat_of_nat_u64 [of n] by (simp add: word_unat_eq_iff del: of_nat_mult)
  moreover have "sint (of_nat n :: u64) = int n"
    using u(2) by (simp add: sint_uint signed_take_bit_eq_if_positive uint_nat unat_of_nat_u64 take_bit_int_eq_self bit_iff_odd)
  ultimately show ?thesis
    using assms x u(2) by (simp add: UTimeToSMBTime_def SMBTimeToUTime_def Let_def) (simp add: u)
qed

text \<open>A file from before 1970 gets a date in the far future: the subtraction wraps around.\<close>

lemma pre_1970_time_wraps: "SMBTimeToUTime 116444735990000000 = 1844674407369"
  by (simp add: SMBTimeToUTime_def)

end
