(* ===== verification/Smb2_Command.thy ===== *)
theory Smb2_Command
  imports Smb2_Context
begin

text \<open>
  What the command classes share: the destructor of a PDU, the end of every \<^verbatim>\<open>createPdu\<close>, the
  fixed part of a request, and the two contracts the rest of the client relies on.
  \<open>request_command\<close> says that a command's \<^verbatim>\<open>createPdu\<close> yields a PDU whose vectors are an
  unwritten header, the body and the padding; from it follows what a queued request puts on
  the wire. \<open>reply_command\<close> says how its three reply handlers treat an error reply.
\<close>

section \<open>Shared operations\<close>

fun delete_pdu :: "smb2_context \<Rightarrow> smb2_pdu list \<Rightarrow> smb2_context option" where
  "delete_pdu smb2 [] = Some smb2"
| "delete_pdu smb2 (p # next_compound) =
     do { smb2 \<leftarrow> delete_pdu smb2 next_compound;
          if p_appData p = 0 then Some smb2
          else do { a \<leftarrow> app_at smb2 (p_appData p);
                    if ad_bDelete a then delete_cell smb2 (p_appData p) else Some smb2 } }"

definition new_iov :: "nat \<Rightarrow> smb2_iovec" where
  \<comment> \<open>\<^verbatim>\<open>buf = malloc(len); memset(buf, 0, len); smb2_iovec iov(buf, len, free)\<close>\<close>
  "new_iov len = smb2_iovec_make (replicate len 0) (of_nat len) True"

definition push_iov :: "smb2_pdu \<Rightarrow> smb2_iovec \<Rightarrow> smb2_pdu" where
  "push_iov p v = p\<lparr>p_out := smb2_add_iovector (p_out p) v\<rparr>"

type_synonym create_result = "(smb2_pdu option \<times> smb2_context) option"

definition finish_pdu :: "handler_result \<Rightarrow> create_result" where
  \<comment> \<open>\<^verbatim>\<open>if (pdu->encodeRequest(..)) { delete pdu; return NULL; } pdu->out.smb2_pad_to_64bit();\<close>\<close>
  "finish_pdu r =
     do { (rc, smb2, p) \<leftarrow> r;
          if rc \<noteq> 0 then do { smb2 \<leftarrow> delete_pdu smb2 [p]; Some (None, smb2) }
          else Some (Some (p\<lparr>p_out := smb2_pad_to_64bit (p_out p)\<rparr>), smb2) }"

definition status_msg :: "smb2_context \<Rightarrow> ptr \<Rightarrow> string \<Rightarrow> u32 \<Rightarrow> smb2_context option" where
  \<comment> \<open>the message names the status and \<^verbatim>\<open>nterror_to_str(status)\<close>, a function of it\<close>
  "status_msg smb2 app fmt status = setErrorMsg smb2 app (Msg fmt [ucast status])"

definition size_mismatch :: "smb2_iovec \<Rightarrow> u16 \<Rightarrow> u16 \<Rightarrow> bool" where
  \<comment> \<open>\<^verbatim>\<open>struct_size != SIZE || (struct_size & 0xfffe) != iov.len\<close>\<close>
  "size_mismatch iov struct_size expected \<longleftrightarrow>
     struct_size \<noteq> expected \<or> ucast (struct_size AND 0xfffe) \<noteq> iov_len iov"

section \<open>The contract of a request\<close>

abbreviation pad8 :: "nat \<Rightarrow> nat" where
  "pad8 n \<equiv> (8 - n mod 8) mod 8"

lemma pad8_dvd: "8 dvd n + pad8 n"
proof (cases "n mod 8 = 0")
  case False
  then have "pad8 n = 8 - n mod 8" by simp
  moreover have "n + (8 - n mod 8) = 8 * (n div 8 + 1)"
    by presburger
  ultimately show ?thesis by simp
qed (simp add: dvd_eq_mod_eq_0)

lemma pad8_add: "pad8 (64 + n) = pad8 n"
  by (simp add: mod_add_left_eq [symmetric])

definition request_pdu :: "smb2_context \<Rightarrow> u16 \<Rightarrow> ptr \<Rightarrow> bytes \<Rightarrow> smb2_pdu \<Rightarrow> bool" where
  "request_pdu c cmd app body p \<longleftrightarrow>
     (\<exists>charge. p_header p = (p_header (Smb2Pdu c cmd app))\<lparr>hdr_credit_charge := charge\<rparr>) \<and>
     p_appData p = app \<and> p_payload p = None \<and> p_in p = smb2_io_vectors_empty \<and> wf_vectors (p_out p) \<and>
     (\<exists>v vs. iovs (p_out p) = v # vs \<and> iov_len v = 64 \<and> length (iov_buf v) = 64 \<and>
        concat (map iov_data vs) = body @ replicate (pad8 (length body)) 0)"

definition request_wire :: "smb2_pdu \<Rightarrow> bytes \<Rightarrow> bytes" where
  "request_wire p body = header_bytes (p_header p) @ body @ replicate (pad8 (length body)) 0"

locale request_command =
  fixes command :: u16
    and create :: "smb2_context \<Rightarrow> 'req \<Rightarrow> ptr \<Rightarrow> create_result"
    and body :: "smb2_context \<Rightarrow> 'req \<Rightarrow> bytes"
    and valid :: "smb2_context \<Rightarrow> 'req \<Rightarrow> bool"
  assumes create_ok: "valid c r \<Longrightarrow> \<exists>p. create c r app = Some (Some p, c) \<and> request_pdu c command app (body c r) p"
begin

lemma queued_unsigned:
  assumes "valid c r" and "c_signing_required c = 0 \<or> command = SMB2_SESSION_SETUP" and "queues_ok c"
  shows "\<exists>p p' c'. create c r app = Some (Some p, c) \<and> smb2_queue_pdu cr c [p] = Some (True, None, c') \<and>
     map_find (c_message_id c) (c_outqueue c') = Some [p'] \<and>
     p_header p' = (p_header p)\<lparr>hdr_message_id := c_message_id c\<rparr> \<and> hdr_command (p_header p') = command \<and>
     vectors_data (p_out p') = request_wire p' (body c r) \<and> wf_vectors (p_out p') \<and>
     8 dvd length (vectors_data (p_out p')) \<and> p_appData p' = app \<and>
     map iov_len (iovs (p_out p')) = map iov_len (iovs (p_out p)) \<and>
     (\<exists>i. c' = c\<lparr>c_message_id := i, c_outqueue := map_put (c_message_id c) [p'] (c_outqueue c)\<rparr>)"
proof -
  obtain p where p: "create c r app = Some (Some p, c)" and rp: "request_pdu c command app (body c r) p"
    using create_ok [OF assms(1)] by blast
  from rp obtain charge v vs where h: "p_header p = (p_header (Smb2Pdu c command app))\<lparr>hdr_credit_charge := charge\<rparr>"
    and v: "iovs (p_out p) = v # vs" "iov_len v = 64" "length (iov_buf v) = 64"
    and vs: "concat (map iov_data vs) = body c r @ replicate (pad8 (length (body c r))) 0"
    and wf: "wf_vectors (p_out p)"
    unfolding request_pdu_def by blast
  have wfh: "wf_header (p_header p)" and cmd: "hdr_command (p_header p) = command"
    by (simp_all add: h wf_header_def Smb2Pdu_def Let_def zero_header_def)
  obtain c1 p' where e: "encodeHeader c p = Some (c1, p')"
    and v': "iovs (p_out p') = v\<lparr>iov_buf := header_bytes (p_header p')\<rparr> # vs"
    using encodeHeader_bytes [OF v(1) wfh v(2,3)] by blast
  note parts = encodeHeader_parts [OF e]
  let ?c' = "c1\<lparr>c_outqueue := map_put (pdu_id p') [p'] (c_outqueue c1)\<rparr>"
  have q: "smb2_queue_pdu cr c [p] = Some (True, None, ?c')"
    using assms(2) cmd by (auto simp: smb2_queue_pdu_def e parts(1,2) smb2_pdu_add_signature_def)
  have wfh': "wf_header (p_header p')"
    using wfh by (simp add: parts(1) wf_header_def)
  have f: "map_find (c_message_id c) (c_outqueue ?c') = Some [p']"
    using queues_okD(1) [OF assms(3)] by (simp add: parts(1,2) std_map.find_put_same)
  have d: "vectors_data (p_out p') = request_wire p' (body c r)"
    using wfh' by (simp add: vectors_data_def v' vs request_wire_def iov_data_def v(2))
  have w: "wf_vectors (p_out p')"
    using wf wfh' v by (simp add: wf_vectors_def v' parts(3) wf_iovec_def)
  have "8 dvd length (request_wire p' (body c r))"
    using wfh' dvd_add [OF _ pad8_dvd [of "length (body c r)"], of 64] by (simp add: request_wire_def)
  moreover have "p_appData p' = app"
    using rp by (simp add: parts(5) request_pdu_def)
  moreover have "\<exists>i. ?c' = c\<lparr>c_message_id := i, c_outqueue := map_put (c_message_id c) [p'] (c_outqueue c)\<rparr>"
    unfolding parts(1,2) by (cases c) auto
  moreover have "map iov_len (iovs (p_out p')) = map iov_len (iovs (p_out p))"
    by (simp add: v' v(1))
  ultimately show ?thesis
    using p q f parts(1) cmd d w by auto
qed

lemma on_wire_unsigned:
  assumes "valid c r" and "c_signing_required c = 0 \<or> command = SMB2_SESSION_SETUP" and "queues_ok c"
  shows "\<exists>p p' c'. create c r app = Some (Some p, c) \<and> smb2_queue_pdu cr c [p] = Some (True, None, c') \<and>
     map_find (c_message_id c) (c_outqueue c') = Some [p'] \<and>
     p_header p' = (p_header p)\<lparr>hdr_message_id := c_message_id c\<rparr> \<and> hdr_command (p_header p') = command \<and>
     vectors_data (p_out p') = request_wire p' (body c r) \<and> wf_vectors (p_out p') \<and>
     8 dvd length (vectors_data (p_out p')) \<and> p_appData p' = app \<and>
     (\<exists>i q. c' = c\<lparr>c_message_id := i, c_outqueue := q\<rparr>)"
  using queued_unsigned [OF assms, of app cr] by blast

lemmas on_wire = on_wire_unsigned [OF _ disjI1]

end

lemma new_iov_simps [simp]:
  "iov_buf (new_iov n) = replicate n 0" "iov_len (new_iov n) = of_nat n" "wf_iovec (new_iov n)"
  by (simp_all add: new_iov_def smb2_iovec_make_def wf_iovec_def unat_of_nat)

lemma iov_data_full: "iov_len v = of_nat (length (iov_buf v)) \<Longrightarrow> length (iov_buf v) < 2 ^ 64 \<Longrightarrow> iov_data v = iov_buf v"
  by (simp add: iov_data_def unat_of_nat_u64 del: of_nat_numeral)

text \<open>How the vectors of a request grow from the constructor to the padding.\<close>

definition fresh_pdu :: "smb2_context \<Rightarrow> u16 \<Rightarrow> ptr \<Rightarrow> bytes \<Rightarrow> smb2_pdu \<Rightarrow> bool" where
  "fresh_pdu c cmd app body p \<longleftrightarrow>
     (\<exists>charge. p_header p = (p_header (Smb2Pdu c cmd app))\<lparr>hdr_credit_charge := charge\<rparr>) \<and>
     p_appData p = app \<and> p_payload p = None \<and> p_in p = smb2_io_vectors_empty \<and> wf_vectors (p_out p) \<and>
     (\<exists>v vs. iovs (p_out p) = v # vs \<and> iov_len v = 64 \<and> length (iov_buf v) = 64 \<and> concat (map iov_data vs) = body)"

lemma fresh_ctor: "fresh_pdu c cmd app [] (Smb2Pdu c cmd app)"
proof -
  have "\<exists>charge. p_header (Smb2Pdu c cmd app) = (p_header (Smb2Pdu c cmd app))\<lparr>hdr_credit_charge := charge\<rparr>"
    by (rule exI [of _ "hdr_credit_charge (p_header (Smb2Pdu c cmd app))"]) simp
  then show ?thesis
    unfolding fresh_pdu_def
    by (simp add: Smb2Pdu_def Let_def smb2_add_iovector_buf_def smb2_io_vectors_empty_def wf_vectors_def wf_iovec_def)
qed

lemma fresh_push:
  assumes "fresh_pdu c cmd app b p" and "wf_iovec v"
  shows "fresh_pdu c cmd app (b @ iov_data v) (push_iov p v)"
  using assms by (auto simp: fresh_pdu_def push_iov_def smb2_add_iovector_def wf_vectors_def)

lemma fresh_charge: "fresh_pdu c cmd app b p \<Longrightarrow> fresh_pdu c cmd app b (p\<lparr>p_header := (p_header p)\<lparr>hdr_credit_charge := x\<rparr>\<rparr>)"
  by (auto simp: fresh_pdu_def)

lemma request_charge:
  "request_pdu c cmd app b p \<Longrightarrow> request_pdu c cmd app b (p\<lparr>p_header := (p_header p)\<lparr>hdr_credit_charge := x\<rparr>\<rparr>)"
  by (auto simp: request_pdu_def)

lemma pad_shape: "smb2_pad_to_64bit vs = vs \<or> (\<exists>v. iovs (smb2_pad_to_64bit vs) = iovs vs @ [v])"
  by (auto simp: smb2_pad_to_64bit_def Let_def smb2_add_iovector_buf_def)

lemma fresh_pad:
  assumes "fresh_pdu c cmd app b p"
  shows "request_pdu c cmd app b (p\<lparr>p_out := smb2_pad_to_64bit (p_out p)\<rparr>)"
proof -
  from assms obtain v vs where v: "iovs (p_out p) = v # vs" "iov_len v = 64" "length (iov_buf v) = 64"
    and vs: "concat (map iov_data vs) = b" and wf: "wf_vectors (p_out p)"
    unfolding fresh_pdu_def by blast
  have d: "vectors_data (p_out p) = iov_data v @ b"
    by (simp add: vectors_data_def v vs)
  have len: "length (iov_data v) = 64"
    by (simp add: iov_data_def v)
  note pad = pad_to_64bit_data [OF wf]
  obtain ws where ws: "iovs (smb2_pad_to_64bit (p_out p)) = v # ws"
    using pad_shape [of "p_out p"] v(1) by auto
  have "iov_data v @ concat (map iov_data ws) = iov_data v @ b @ replicate (pad8 (length b)) 0"
    using pad(1) by (simp only: vectors_data_def [of "smb2_pad_to_64bit _"] ws d length_append len pad8_add
        list.map concat.simps append_assoc)
  then show ?thesis
    using assms pad(2) v ws by (auto simp: request_pdu_def fresh_pdu_def)
qed

lemma finish_fresh:
  assumes "fresh_pdu c cmd app b p"
  shows "\<exists>q. finish_pdu (Some (0, c', p)) = Some (Some q, c') \<and> request_pdu c cmd app b q"
  using fresh_pad [OF assms] by (simp add: finish_pdu_def)

section \<open>The contract of a reply\<close>

lemma error_reply_fixed:
  assumes "in_back p = Some iov" and "wf_iovec iov" and "iov_len iov = 8"
    and "le16toh (sub_bytes (iov_buf iov) 0 2) = 9"
  shows "\<exists>rep. smb2ProcessErrorReplyFixed c p =
      Some (sint (err_byte_count rep), c, p\<lparr>p_payload := Some (PError rep)\<rparr>) \<and>
    err_byte_count rep = le32toh (sub_bytes (iov_buf iov) 4 4)"
  using assms by (force simp: smb2ProcessErrorReplyFixed_def mem_simps)

locale reply_command =
  fixes fixed :: "smb2_context \<Rightarrow> smb2_pdu \<Rightarrow> handler_result"
    and variable :: "smb2_context \<Rightarrow> smb2_pdu \<Rightarrow> handler_result"
    and process :: "smb2_context \<Rightarrow> smb2_pdu \<Rightarrow> handler_result"
    and reportable :: "smb2_context \<Rightarrow> smb2_pdu \<Rightarrow> bool"
  assumes fixed_error: "smb2ReplyIsError p \<Longrightarrow> reportable c p \<Longrightarrow> fixed c p = smb2ProcessErrorReplyFixed c p"
    and variable_error: "smb2ReplyIsError p \<Longrightarrow> reportable c p \<Longrightarrow> variable c p = smb2ProcessErrorReplyVariable c p"
    and reportable_payload: "reportable c (p\<lparr>p_payload := x\<rparr>) = reportable c p"
    and process_error: "smb2ReplyIsError p \<Longrightarrow> reportable c p \<Longrightarrow>
      \<exists>c' a b. process c p = Some (0, c', p) \<and> c_isComplete c' \<and> app_at c' (p_appData p) = Some a \<and>
        ad_ntStatus a = hdr_status (p_header_resp p) \<and> app_at c (p_appData p) = Some b \<and> ad_bDelete a = ad_bDelete b"
begin

lemma error_reported:
  assumes "smb2ReplyIsError p" and "reportable c p" and "in_back p = Some iov" and "wf_iovec iov"
    and "iov_len iov = 8" and "le16toh (sub_bytes (iov_buf iov) 0 2) = 9"
  shows "\<exists>rep p' c' a b. fixed c p = Some (sint (err_byte_count rep), c, p') \<and>
    p' = p\<lparr>p_payload := Some (PError rep)\<rparr> \<and> err_byte_count rep = le32toh (sub_bytes (iov_buf iov) 4 4) \<and>
    process c p' = Some (0, c', p') \<and> c_isComplete c' \<and> app_at c' (p_appData p) = Some a \<and>
    ad_ntStatus a = hdr_status (p_header_resp p) \<and> app_at c (p_appData p) = Some b \<and> ad_bDelete a = ad_bDelete b"
proof -
  from error_reply_fixed [OF assms(3-6)] fixed_error [OF assms(1,2)] obtain rep
    where f: "fixed c p = Some (sint (err_byte_count rep), c, p\<lparr>p_payload := Some (PError rep)\<rparr>)"
      "err_byte_count rep = le32toh (sub_bytes (iov_buf iov) 4 4)"
    by metis
  let ?p = "p\<lparr>p_payload := Some (PError rep)\<rparr>"
  have "smb2ReplyIsError ?p" "reportable c ?p"
    using assms(1,2) reportable_payload by (simp_all add: smb2ReplyIsError_def)
  from process_error [OF this] f show ?thesis
    by (intro exI [of _ rep]) auto
qed

end

end
