(* ===== verification/Smb2_SimpleCmds.thy ===== *)
theory Smb2_SimpleCmds
  imports Smb2_Command
begin

text \<open>
  The commands with small bodies: echo, logoff, flush, tree disconnect, close and tree connect
  (\<^verbatim>\<open>Smb2Echo.cpp\<close>, \<^verbatim>\<open>Smb2Logoff.cpp\<close>, \<^verbatim>\<open>Smb2Flush.cpp\<close>, \<^verbatim>\<open>Smb2TreeDisconnect.cpp\<close>, \<^verbatim>\<open>Smb2Close.cpp\<close>,
  \<^verbatim>\<open>Smb2TreeConnect.cpp\<close>). Each is interpreted as a \<open>request_command\<close>, and those that report
  the status of an error reply as a \<open>reply_command\<close>.
\<close>

section \<open>Reply handlers without a body\<close>

text \<open>Echo, logoff, flush, tree disconnect and set info share the text of their first two handlers.\<close>

definition plain_ProcessFixed :: "smb2_context \<Rightarrow> smb2_pdu \<Rightarrow> handler_result" where
  "plain_ProcessFixed smb2 p =
     (if smb2ReplyIsError p then smb2ProcessErrorReplyFixed smb2 p else Some (0, smb2, p))"

definition plain_ProcessVariable :: "smb2_context \<Rightarrow> smb2_pdu \<Rightarrow> handler_result" where
  "plain_ProcessVariable smb2 p =
     (if smb2ReplyIsError p then smb2ProcessErrorReplyVariable smb2 p else Some (0, smb2, p))"

section \<open>Echo\<close>

definition Smb2Echo_encodeRequest :: "smb2_context \<Rightarrow> smb2_pdu \<Rightarrow> handler_result" where
  "Smb2Echo_encodeRequest smb2 p =
     do { iov \<leftarrow> set16 (new_iov 4) 0 4; Some (0, smb2, push_iov p iov) }"

definition Smb2Echo_createPdu :: "smb2_context \<Rightarrow> unit \<Rightarrow> ptr \<Rightarrow> create_result" where
  "Smb2Echo_createPdu smb2 _ echoData =
     finish_pdu (Smb2Echo_encodeRequest smb2 (Smb2Pdu smb2 SMB2_ECHO echoData))"

definition Smb2Echo_ProcessReplyAndAppData :: "smb2_context \<Rightarrow> smb2_pdu \<Rightarrow> handler_result" where
  "Smb2Echo_ProcessReplyAndAppData smb2 p =
     do { smb2 \<leftarrow> setNtStatus smb2 (p_appData p) (hdr_status (p_header_resp p));
          Some (0, endSendReceive smb2, p) }"

section \<open>Logoff\<close>

definition Smb2Logoff_encodeRequest :: "smb2_context \<Rightarrow> smb2_pdu \<Rightarrow> handler_result" where
  "Smb2Logoff_encodeRequest smb2 p =
     do { iov \<leftarrow> set16 (new_iov 4) 0 4; Some (0, smb2, push_iov p iov) }"

definition Smb2Logoff_createPdu :: "smb2_context \<Rightarrow> unit \<Rightarrow> ptr \<Rightarrow> create_result" where
  "Smb2Logoff_createPdu smb2 _ logOffData =
     finish_pdu (Smb2Logoff_encodeRequest smb2 (Smb2Pdu smb2 SMB2_LOGOFF logOffData))"

definition Smb2Logoff_ProcessReplyAndAppData :: "smb2_context \<Rightarrow> smb2_pdu \<Rightarrow> handler_result" where
  "Smb2Logoff_ProcessReplyAndAppData smb2 p =
     do { smb2 \<leftarrow> setNtStatus smb2 (p_appData p) (hdr_status (p_header_resp p));
          smb2 \<leftarrow> Smb2Context_close (endSendReceive smb2);
          Some (0, smb2, p) }"

section \<open>Flush\<close>

record smb2_flush_request =
  flr_file_id :: smb2_file_id

definition Smb2Flush_encodeRequest :: "smb2_context \<Rightarrow> smb2_flush_request \<Rightarrow> smb2_pdu \<Rightarrow> handler_result" where
  "Smb2Flush_encodeRequest smb2 req p =
     do { iov \<leftarrow> set16 (new_iov 24) 0 24;
          iov \<leftarrow> set64 iov 8 (persistent_id (flr_file_id req));
          iov \<leftarrow> set64 iov 16 (volatile_id (flr_file_id req));
          Some (0, smb2, push_iov p iov) }"

definition Smb2Flush_createPdu :: "smb2_context \<Rightarrow> smb2_flush_request \<Rightarrow> ptr \<Rightarrow> create_result" where
  "Smb2Flush_createPdu smb2 req flushData =
     finish_pdu (Smb2Flush_encodeRequest smb2 req (Smb2Pdu smb2 SMB2_FLUSH flushData))"

definition Smb2Flush_ProcessReplyAndAppData :: "smb2_context \<Rightarrow> smb2_pdu \<Rightarrow> handler_result" where
  "Smb2Flush_ProcessReplyAndAppData smb2 p =
     (let status = hdr_status (p_header_resp p) in
      do { smb2 \<leftarrow> setNtStatus smb2 (p_appData p) status;
           if status \<noteq> SMB2_STATUS_SUCCESS
           then do { smb2 \<leftarrow> status_msg smb2 (p_appData p) ''Flush failed with (0x%08x) %s'' status;
                     Some (0, endSendReceive smb2, p) }
           else Some (0, endSendReceive smb2, p) })"

section \<open>Tree disconnect\<close>

definition Smb2TreeDisconnect_encodeRequest :: "smb2_context \<Rightarrow> smb2_pdu \<Rightarrow> handler_result" where
  "Smb2TreeDisconnect_encodeRequest smb2 p =
     do { iov \<leftarrow> set16 (new_iov 4) 0 4; Some (0, smb2, push_iov p iov) }"

definition Smb2TreeDisconnect_createPdu :: "smb2_context \<Rightarrow> unit \<Rightarrow> ptr \<Rightarrow> create_result" where
  "Smb2TreeDisconnect_createPdu smb2 _ treeDisConData =
     finish_pdu (Smb2TreeDisconnect_encodeRequest smb2 (Smb2Pdu smb2 SMB2_TREE_DISCONNECT treeDisConData))"

definition Smb2TreeDisconnect_ProcessReplyAndAppData :: "crypto \<Rightarrow> smb2_context \<Rightarrow> smb2_pdu \<Rightarrow> handler_result" where
  \<comment> \<open>the result of \<^verbatim>\<open>smb2_queue_pdu\<close> is not looked at\<close>
  "Smb2TreeDisconnect_ProcessReplyAndAppData cr smb2 p =
     do { smb2 \<leftarrow> setNtStatus smb2 (p_appData p) (hdr_status (p_header_resp p));
          (pdu, smb2) \<leftarrow> Smb2Logoff_createPdu smb2 () (p_appData p);
          case pdu of None \<Rightarrow> Some (0, endSendReceive smb2, p)
          | Some pdu \<Rightarrow> do { (_, _, smb2) \<leftarrow> smb2_queue_pdu cr smb2 [pdu]; Some (0, smb2, p) } }"

section \<open>Close\<close>

record smb2_close_request =
  cl_flags :: u16
  cl_file_id :: smb2_file_id

definition Smb2Close_encodeRequest :: "smb2_context \<Rightarrow> smb2_close_request \<Rightarrow> smb2_pdu \<Rightarrow> handler_result" where
  "Smb2Close_encodeRequest smb2 req p =
     do { iov \<leftarrow> set16 (new_iov 24) 0 24;
          iov \<leftarrow> set16 iov 2 (cl_flags req);
          iov \<leftarrow> set64 iov 8 (persistent_id (cl_file_id req));
          iov \<leftarrow> set64 iov 16 (volatile_id (cl_file_id req));
          Some (0, smb2, push_iov p iov) }"

definition Smb2Close_createPdu :: "smb2_context \<Rightarrow> smb2_close_request \<Rightarrow> ptr \<Rightarrow> create_result" where
  "Smb2Close_createPdu smb2 req closeData =
     finish_pdu (Smb2Close_encodeRequest smb2 req (Smb2Pdu smb2 SMB2_CLOSE closeData))"

definition Smb2Close_ProcessFixed :: "smb2_context \<Rightarrow> smb2_pdu \<Rightarrow> handler_result" where
  "Smb2Close_ProcessFixed smb2 p =
     (if smb2ReplyIsError p then smb2ProcessErrorReplyFixed smb2 p
      else do {
        iov \<leftarrow> in_back p;
        let rep = \<lparr>clr_flags = 0, clr_creation_time = 0, clr_last_access_time = 0, clr_last_write_time = 0,
                   clr_change_time = 0, clr_allocation_size = 0, clr_end_of_file = 0, clr_file_attributes = 0\<rparr>;
        struct_size \<leftarrow> local16 iov 0;
        if size_mismatch iov struct_size 60
        then fail_with smb2 (p\<lparr>p_payload := Some (PClose rep)\<rparr>)
               (Msg ''Unexpected size of Close reply. Expected %d, got %d'' [60, iov_len iov])
        else do {
          fl \<leftarrow> get16 iov 2 (clr_flags rep);
          ct \<leftarrow> get64 iov 8 (clr_creation_time rep);
          la \<leftarrow> get64 iov 16 (clr_last_access_time rep);
          lw \<leftarrow> get64 iov 24 (clr_last_write_time rep);
          ch \<leftarrow> get64 iov 32 (clr_change_time rep);
          al \<leftarrow> get64 iov 40 (clr_allocation_size rep);
          ef \<leftarrow> get64 iov 48 (clr_end_of_file rep);
          fa \<leftarrow> get32 iov 56 (clr_file_attributes rep);
          Some (0, smb2, p\<lparr>p_payload := Some (PClose \<lparr>clr_flags = fl, clr_creation_time = ct,
            clr_last_access_time = la, clr_last_write_time = lw, clr_change_time = ch, clr_allocation_size = al,
            clr_end_of_file = ef, clr_file_attributes = fa\<rparr>)\<rparr>) } })"

definition Smb2Close_ProcessReplyAndAppData :: "smb2_context \<Rightarrow> smb2_pdu \<Rightarrow> handler_result" where
  "Smb2Close_ProcessReplyAndAppData smb2 p =
     (let status = hdr_status (p_header_resp p) in
      do { a \<leftarrow> app_at smb2 (p_appData p);
           let fh = getFH a;
           if status \<noteq> SMB2_STATUS_SUCCESS \<and> status \<noteq> SMB2_STATUS_FILE_CLOSED
           then do { smb2 \<leftarrow> status_msg smb2 (p_appData p) ''Close failed with (0x%08x) %s'' status;
                     smb2 \<leftarrow> setNtStatus smb2 (p_appData p) status;
                     smb2 \<leftarrow> delete_cell (endSendReceive smb2) fh;
                     Some (0, smb2, p) }
           else do { smb2 \<leftarrow> setNtStatus smb2 (p_appData p) SMB2_STATUS_SUCCESS;
                     smb2 \<leftarrow> delete_cell (endSendReceive smb2) fh;
                     Some (0, smb2, p) } })"

section \<open>Tree connect\<close>

record smb2_tree_connect_request =
  tc_flags :: u16
  tc_path_length :: u16
  tc_path :: bytes

definition Smb2TreeConnect_encodeRequest ::
  "smb2_context \<Rightarrow> smb2_tree_connect_request \<Rightarrow> smb2_pdu \<Rightarrow> handler_result" where
  "Smb2TreeConnect_encodeRequest smb2 req p =
     do { iov \<leftarrow> set16 (new_iov 8) 0 9;
          iov \<leftarrow> set16 iov 2 (tc_flags req);
          iov \<leftarrow> set16 iov 4 (64 + 8);
          iov \<leftarrow> set16 iov 6 (tc_path_length req);
          buf \<leftarrow> mem_read (tc_path req) 0 (unat (tc_path_length req));
          let p = push_iov p iov;
          Some (0, smb2, p\<lparr>p_out := smb2_add_iovector_buf (p_out p) buf (ucast (tc_path_length req)) True\<rparr>) }"

definition Smb2TreeConnect_createPdu ::
  "smb2_context \<Rightarrow> smb2_tree_connect_request \<Rightarrow> ptr \<Rightarrow> create_result" where
  "Smb2TreeConnect_createPdu smb2 req treeConData =
     finish_pdu (Smb2TreeConnect_encodeRequest smb2 req (Smb2Pdu smb2 SMB2_TREE_CONNECT treeConData))"

definition Smb2TreeConnect_ProcessFixed :: "smb2_context \<Rightarrow> smb2_pdu \<Rightarrow> handler_result" where
  "Smb2TreeConnect_ProcessFixed smb2 p =
     (if smb2ReplyIsError p then smb2ProcessErrorReplyFixed smb2 p
      else do {
        iov \<leftarrow> in_back p;
        let rep = \<lparr>tcr_share_type = 0, tcr_share_flags = 0, tcr_capabilities = 0, tcr_maximal_access = 0\<rparr>;
        struct_size \<leftarrow> local16 iov 0;
        if size_mismatch iov struct_size 16
        then fail_with smb2 (p\<lparr>p_payload := Some (PTreeConnect rep)\<rparr>)
               (Msg ''Unexpected size of Negotiate reply. Expected %d, got %d'' [16, iov_len iov])
        else do {
          ty \<leftarrow> get8 iov 2 (tcr_share_type rep);
          fl \<leftarrow> get32 iov 4 (tcr_share_flags rep);
          ca \<leftarrow> get32 iov 8 (tcr_capabilities rep);
          ma \<leftarrow> get32 iov 12 (tcr_maximal_access rep);
          Some (0, smb2\<lparr>c_tree_id := sync_tree_id (p_header_resp p)\<rparr>,
                p\<lparr>p_payload := Some (PTreeConnect \<lparr>tcr_share_type = ty, tcr_share_flags = fl,
                  tcr_capabilities = ca, tcr_maximal_access = ma\<rparr>)\<rparr>) } })"

definition Smb2TreeConnect_ProcessReplyAndAppData :: "smb2_context \<Rightarrow> smb2_pdu \<Rightarrow> handler_result" where
  "Smb2TreeConnect_ProcessReplyAndAppData smb2 p =
     (let status = hdr_status (p_header_resp p) in
      do { smb2 \<leftarrow> setNtStatus smb2 (p_appData p) status;
           smb2 \<leftarrow> (if status \<noteq> SMB2_STATUS_SUCCESS
                   then do { smb2 \<leftarrow> Smb2Context_close smb2;
                             status_msg smb2 (p_appData p) ''TreeConnect failed with (0x%08x) %s'' status }
                   else Some smb2);
           Some (0, endSendReceive smb2, p) })"

section \<open>Requests\<close>

lemma new_iov_0 [simp]: "fresh_pdu c cmd app [] (Smb2Pdu c cmd app)"
  by (rule fresh_ctor)

lemma set_replicate:
  "put_bytes (replicate n 0) 0 bs = bs @ replicate (n - length bs) 0"
  by (simp add: put_bytes_def)

definition plain_body :: "smb2_context \<Rightarrow> unit \<Rightarrow> bytes" where
  "plain_body _ _ = htole16 4 @ replicate 2 0"

definition flush_body :: "smb2_context \<Rightarrow> smb2_flush_request \<Rightarrow> bytes" where
  "flush_body _ r = htole16 24 @ replicate 6 0 @ htole64 (persistent_id (flr_file_id r)) @
     htole64 (volatile_id (flr_file_id r))"

definition close_body :: "smb2_context \<Rightarrow> smb2_close_request \<Rightarrow> bytes" where
  "close_body _ r = htole16 24 @ htole16 (cl_flags r) @ replicate 4 0 @
     htole64 (persistent_id (cl_file_id r)) @ htole64 (volatile_id (cl_file_id r))"

definition tree_connect_body :: "smb2_context \<Rightarrow> smb2_tree_connect_request \<Rightarrow> bytes" where
  "tree_connect_body _ r = htole16 9 @ htole16 (tc_flags r) @ htole16 72 @ htole16 (tc_path_length r) @ tc_path r"

text \<open>One vector of known bytes pushed on a fresh PDU.\<close>

lemma finish_push:
  assumes "enc = Some (0, c, push_iov (Smb2Pdu c cmd app) v)" and "wf_iovec v" and "iov_data v = b"
  shows "\<exists>p. finish_pdu enc = Some (Some p, c) \<and> request_pdu c cmd app b p"
  using finish_fresh [OF fresh_push [OF fresh_ctor assms(2)], of c] assms by simp

lemmas body_simps = mem_simps iov_data_def wf_iovec_def put_bytes_def

lemma plain_request:
  "\<exists>p. finish_pdu (do { iov \<leftarrow> set16 (new_iov 4) 0 4; Some (0, c, push_iov (Smb2Pdu c cmd app) iov) }) = Some (Some p, c) \<and>
     request_pdu c cmd app (plain_body c u) p"
  by (rule finish_push [where v = "(new_iov 4)\<lparr>iov_buf := htole16 4 @ replicate 2 0\<rparr>"])
     (simp_all add: body_simps plain_body_def)

interpretation echo: request_command SMB2_ECHO Smb2Echo_createPdu plain_body "\<lambda>_ _. True"
  by unfold_locales (simp only: Smb2Echo_createPdu_def Smb2Echo_encodeRequest_def plain_request)

interpretation logoff: request_command SMB2_LOGOFF Smb2Logoff_createPdu plain_body "\<lambda>_ _. True"
  by unfold_locales (simp only: Smb2Logoff_createPdu_def Smb2Logoff_encodeRequest_def plain_request)

interpretation tree_disconnect:
  request_command SMB2_TREE_DISCONNECT Smb2TreeDisconnect_createPdu plain_body "\<lambda>_ _. True"
  by unfold_locales (simp only: Smb2TreeDisconnect_createPdu_def Smb2TreeDisconnect_encodeRequest_def plain_request)

interpretation flush: request_command SMB2_FLUSH Smb2Flush_createPdu flush_body "\<lambda>_ _. True"
proof
  fix c r app
  show "\<exists>p. Smb2Flush_createPdu c r app = Some (Some p, c) \<and> request_pdu c SMB2_FLUSH app (flush_body c r) p"
    unfolding Smb2Flush_createPdu_def
    by (rule finish_push [where v = "(new_iov 24)\<lparr>iov_buf := flush_body c r\<rparr>"])
       (simp_all add: body_simps flush_body_def Smb2Flush_encodeRequest_def)
qed

interpretation close: request_command SMB2_CLOSE Smb2Close_createPdu close_body "\<lambda>_ _. True"
proof
  fix c r app
  show "\<exists>p. Smb2Close_createPdu c r app = Some (Some p, c) \<and> request_pdu c SMB2_CLOSE app (close_body c r) p"
    unfolding Smb2Close_createPdu_def
    by (rule finish_push [where v = "(new_iov 24)\<lparr>iov_buf := close_body c r\<rparr>"])
       (simp_all add: body_simps close_body_def Smb2Close_encodeRequest_def)
qed

lemma finish_push2:
  assumes "enc = Some (0, c, push_iov (push_iov (Smb2Pdu c cmd app) v) w)" and "wf_iovec v" and "wf_iovec w"
    and "iov_data v @ iov_data w = b"
  shows "\<exists>p. finish_pdu enc = Some (Some p, c) \<and> request_pdu c cmd app b p"
  using finish_fresh [OF fresh_push [OF fresh_push [OF fresh_ctor assms(2)] assms(3)], of c] assms by simp

lemma scast_small:
  assumes "unat (w :: u32) < 2 ^ 31"
  shows "(scast w :: u64) = ucast w"
proof -
  have *: "w = take_bit 31 w"
    using assms by (simp add: word_unat_eq_iff unsigned_take_bit_eq take_bit_nat_eq_self)
  have h: "bit w i \<Longrightarrow> i < 31" for i
    by (subst (asm) *) (simp add: bit_simps)
  show ?thesis
    using h [of 31] by (intro bit_word_eqI) (auto simp: bit_simps min_def not_le not_less dest: h)
qed

lemma ucast_ucast_u16 [simp]: "(ucast (ucast (w :: u16) :: u32) :: u64) = ucast w"
  by (rule bit_word_eqI) (auto simp: bit_simps dest: bit_imp_le_length)

interpretation tree_connect: request_command SMB2_TREE_CONNECT Smb2TreeConnect_createPdu tree_connect_body
  "\<lambda>_ r. length (tc_path r) = unat (tc_path_length r)"
proof
  fix c app and r :: smb2_tree_connect_request assume len: "length (tc_path r) = unat (tc_path_length r)"
  have "unat (tc_path_length r) < 2 ^ 16" by (rule unat_u16_less)
  then have sc: "(scast (ucast (tc_path_length r) :: u32) :: u64) = ucast (tc_path_length r)"
    by (subst scast_small) simp_all
  have "Smb2TreeConnect_encodeRequest c r (Smb2Pdu c SMB2_TREE_CONNECT app) = Some (0, c,
      push_iov (push_iov (Smb2Pdu c SMB2_TREE_CONNECT app) ((new_iov 8)\<lparr>iov_buf := take 8 (tree_connect_body c r)\<rparr>))
        (smb2_iovec_make (tc_path r) (ucast (tc_path_length r)) True))"
    using len
    by (simp add: Smb2TreeConnect_encodeRequest_def body_simps tree_connect_body_def sub_bytes_def sc
        smb2_add_iovector_buf_def push_iov_def smb2_add_iovector_def smb2_iovec_make_def)
  then show "\<exists>p. Smb2TreeConnect_createPdu c r app = Some (Some p, c) \<and>
      request_pdu c SMB2_TREE_CONNECT app (tree_connect_body c r) p"
    unfolding Smb2TreeConnect_createPdu_def
    by (rule finish_push2) (use len in \<open>simp_all add: body_simps tree_connect_body_def smb2_iovec_make_def\<close>)
qed

section \<open>Replies\<close>

definition has_app :: "smb2_context \<Rightarrow> smb2_pdu \<Rightarrow> bool" where
  "has_app c p \<longleftrightarrow> app_at c (p_appData p) \<noteq> None"

lemma error_nonzero: "smb2ReplyIsError p \<Longrightarrow> hdr_status (p_header_resp p) \<noteq> 0"
  by (auto simp: smb2ReplyIsError_def Let_def)

lemma app_at_frame [simp]:
  "app_at (endSendReceive c) q = app_at c q" "app_at (closed_context c) q = app_at c q"
  by (simp_all add: app_at_def endSendReceive_def closed_context_def)

lemma complete_frame [simp]:
  "c_isComplete (endSendReceive c)" "c_isComplete (closed_context c) = c_isComplete c"
  by (simp_all add: endSendReceive_def closed_context_def)

text \<open>A handler that closes the connection also needs an authenticator it can delete.\<close>

definition can_close :: "smb2_context \<Rightarrow> smb2_pdu \<Rightarrow> bool" where
  "can_close c p \<longleftrightarrow> has_app c p \<and> auth_ok c"

lemma auth_ok_frame [simp]: "auth_ok (endSendReceive c) = auth_ok c" "auth_ok (put_cell c q x) = auth_ok c"
  by (simp_all add: auth_ok_def endSendReceive_def put_cell_def)

interpretation echo_reply: reply_command plain_ProcessFixed plain_ProcessVariable Smb2Echo_ProcessReplyAndAppData has_app
  by unfold_locales
     (auto simp: plain_ProcessFixed_def plain_ProcessVariable_def has_app_def Smb2Echo_ProcessReplyAndAppData_def app_simps)

interpretation logoff_reply: reply_command plain_ProcessFixed plain_ProcessVariable Smb2Logoff_ProcessReplyAndAppData can_close
  by unfold_locales
     (auto simp: plain_ProcessFixed_def plain_ProcessVariable_def has_app_def can_close_def
        Smb2Logoff_ProcessReplyAndAppData_def app_simps close_some)

interpretation flush_reply: reply_command plain_ProcessFixed plain_ProcessVariable Smb2Flush_ProcessReplyAndAppData has_app
  by unfold_locales
     (auto simp: plain_ProcessFixed_def plain_ProcessVariable_def has_app_def Smb2Flush_ProcessReplyAndAppData_def
        app_simps status_msg_def Let_def)

interpretation tree_connect_reply: reply_command Smb2TreeConnect_ProcessFixed plain_ProcessVariable
  Smb2TreeConnect_ProcessReplyAndAppData can_close
  by unfold_locales
     (auto simp: Smb2TreeConnect_ProcessFixed_def plain_ProcessVariable_def has_app_def can_close_def close_some
        Smb2TreeConnect_ProcessReplyAndAppData_def app_simps status_msg_def Let_def dest: error_nonzero)

text \<open>Close reports every error but \<^verbatim>\<open>STATUS_FILE_CLOSED\<close>, and its file handle must be alive or null.\<close>

definition close_reportable :: "smb2_context \<Rightarrow> smb2_pdu \<Rightarrow> bool" where
  "close_reportable c p \<longleftrightarrow> hdr_status (p_header_resp p) \<noteq> SMB2_STATUS_FILE_CLOSED \<and>
     (\<exists>a. app_at c (p_appData p) = Some a \<and> (getFH a = 0 \<or> fh_at c (getFH a) \<noteq> None))"

lemma fh_not_app: "fh_at c q \<noteq> None \<Longrightarrow> app_at c r \<noteq> None \<Longrightarrow> q \<noteq> r"
  by (auto simp: fh_at_def app_at_def split: option.splits cell.splits)

lemma c_heap_fh: "fh_at c q \<noteq> None \<Longrightarrow> c_heap c q \<noteq> None"
  by (auto simp: fh_at_def split: option.splits)

lemma delete_keeps:
  assumes "q = 0 \<or> fh_at c q \<noteq> None" and "app_at c r \<noteq> None"
  shows "\<exists>c'. delete_cell c q = Some c' \<and> app_at c' r = app_at c r \<and> c_isComplete c' = c_isComplete c"
  using assms fh_not_app c_heap_fh [of c q] by (fastforce simp: delete_cell_def app_at_def)

lemma fh_at_put_app: "app_at c q \<noteq> None \<Longrightarrow> fh_at (put_cell c q (CApp a)) r = fh_at c r"
  by (auto simp: fh_at_def put_cell_def app_at_def split: option.splits cell.splits)

lemma fh_at_frame [simp]: "fh_at (endSendReceive c) q = fh_at c q"
  by (simp add: fh_at_def endSendReceive_def)

interpretation close_reply: reply_command Smb2Close_ProcessFixed plain_ProcessVariable
  Smb2Close_ProcessReplyAndAppData close_reportable
proof
  fix c p assume e: "smb2ReplyIsError p" and r: "close_reportable c p"
  then obtain a where a: "app_at c (p_appData p) = Some a" and fh: "getFH a = 0 \<or> fh_at c (getFH a) \<noteq> None"
    and s: "hdr_status (p_header_resp p) \<noteq> SMB2_STATUS_FILE_CLOSED"
    by (auto simp: close_reportable_def)
  let ?s = "hdr_status (p_header_resp p)"
  let ?a = "a\<lparr>ad_errMsg := Msg ''Close failed with (0x%08x) %s'' [ucast ?s]\<rparr>"
  let ?c = "endSendReceive (put_cell (put_cell c (p_appData p) (CApp ?a)) (p_appData p) (CApp (?a\<lparr>ad_ntStatus := ?s\<rparr>)))"
  obtain c' where "delete_cell ?c (getFH a) = Some c'" "app_at c' (p_appData p) = Some (?a\<lparr>ad_ntStatus := ?s\<rparr>)"
    "c_isComplete c'"
    using delete_keeps [of "getFH a" ?c "p_appData p"] fh a by (auto simp: fh_at_put_app)
  then show "\<exists>c' a b. Smb2Close_ProcessReplyAndAppData c p = Some (0, c', p) \<and> c_isComplete c' \<and>
      app_at c' (p_appData p) = Some a \<and> ad_ntStatus a = ?s \<and> app_at c (p_appData p) = Some b \<and>
      ad_bDelete a = ad_bDelete b"
    using s error_nonzero [OF e]
    by (auto simp: Smb2Close_ProcessReplyAndAppData_def Let_def a status_msg_def app_simps)
qed (auto simp: Smb2Close_ProcessFixed_def plain_ProcessVariable_def close_reportable_def)

end
