(* ===== verification/Smb2_FileCmds.thy ===== *)
theory Smb2_FileCmds
  imports Smb2_SimpleCmds
begin

text \<open>
  Create, read, write and ioctl (\<^verbatim>\<open>Smb2Create.cpp\<close>, \<^verbatim>\<open>Smb2Read.cpp\<close>, \<^verbatim>\<open>Smb2Write.cpp\<close>, \<^verbatim>\<open>Smb2Ioctl.cpp\<close>).
  A struct the code passes by pointer and adjusts (\<^verbatim>\<open>req->length\<close> of a read or write) is returned
  in its adjusted form by the model of \<^verbatim>\<open>encodeRequest\<close>.
\<close>

definition credit_charge_of :: "u32 \<Rightarrow> u16" where
  \<comment> \<open>\<^verbatim>\<open>(length - 1) / 65536 + 1\<close>, assigned to a 16-bit field\<close>
  "credit_charge_of len = ucast ((len - 1) div 65536 + 1)"

definition adjust_credits :: "smb2_context \<Rightarrow> u32 \<Rightarrow> smb2_pdu \<Rightarrow> smb2_pdu" where
  "adjust_credits smb2 len p =
     (if c_supports_multi_credit smb2
      then p\<lparr>p_header := (p_header p)\<lparr>hdr_credit_charge := credit_charge_of len\<rparr>\<rparr> else p)"

definition memcpy_in :: "bytes \<Rightarrow> bytes option \<Rightarrow> nat \<Rightarrow> bytes option" where
  \<comment> \<open>\<^verbatim>\<open>memcpy(dst, src, n)\<close> of zero bytes touches neither pointer\<close>
  "memcpy_in dst src n =
     (if n = 0 then Some dst
      else do { s \<leftarrow> src; bs \<leftarrow> mem_read s 0 n; mem_write dst 0 bs })"

definition ucs2_bytes :: "u16 list \<Rightarrow> bytes" where
  \<comment> \<open>the memory of \<^verbatim>\<open>ucs2->val\<close>\<close>
  "ucs2_bytes val = concat (map htole16 val)"

definition add_offset :: "int \<Rightarrow> u32 \<Rightarrow> int option" where
  \<comment> \<open>\<^verbatim>\<open>int64_t += uint32_t\<close>\<close>
  "add_offset off n = (if off + uint n < 2 ^ 63 then Some (off + uint n) else None)"

section \<open>Create\<close>

record smb2_create_request =
  cr_security_flags :: u8
  cr_requested_oplock_level :: u8
  cr_impersonation_level :: u32
  cr_smb_create_flags :: u64
  cr_desired_access :: u32
  cr_file_attributes :: u32
  cr_share_access :: u32
  cr_create_disposition :: u32
  cr_create_options :: u32
  cr_name :: "bytes option"
  cr_create_context_length :: u32
  cr_create_context :: "bytes option"

text \<open>\<^verbatim>\<open>req->name && req->name[0]\<close>\<close>

definition has_name :: "bytes option \<Rightarrow> bool option" where
  "has_name name = (case name of None \<Rightarrow> Some False | Some [] \<Rightarrow> None | Some (b # _) \<Rightarrow> Some (b \<noteq> 0))"

text \<open>The loop that turns \<open>'/'\<close> into \<open>'\'\<close>; \<open>ch\<close> keeps its value when the accessor refuses.\<close>

fun convert_slashes :: "nat list \<Rightarrow> u16 \<Rightarrow> smb2_iovec \<Rightarrow> smb2_iovec option" where
  "convert_slashes [] ch iov = Some iov"
| "convert_slashes (i # is) ch iov =
     do { ch \<leftarrow> get16 iov (int i * 2) ch;
          iov \<leftarrow> (if ch = 0x2f then set16 iov (int i * 2) 0x5c else Some iov);
          convert_slashes is ch iov }"

definition Smb2Create_encodeRequest :: "smb2_context \<Rightarrow> smb2_create_request \<Rightarrow> smb2_pdu \<Rightarrow> handler_result" where
  "Smb2Create_encodeRequest smb2 req p =
     do { named \<leftarrow> has_name (cr_name req);
          nm \<leftarrow> (if named then do { u \<leftarrow> cr_name req; utf8_to_ucs2 u } else Some None);
          if named \<and> nm = None
          then fail_with smb2 (push_iov p (new_iov 56)) (Msg ''Smb2Create::encodeRequest:Could not convert name into UCS2'' [])
          else do {
            iov \<leftarrow> (case nm of Some val \<Rightarrow> set16 (new_iov 56) 46 (of_nat (2 * length val)) | None \<Rightarrow> Some (new_iov 56));
            iov \<leftarrow> set16 iov 0 57;
            iov \<leftarrow> set8 iov 2 (cr_security_flags req);
            iov \<leftarrow> set8 iov 3 (cr_requested_oplock_level req);
            iov \<leftarrow> set32 iov 4 (cr_impersonation_level req);
            iov \<leftarrow> set64 iov 8 (cr_smb_create_flags req);
            iov \<leftarrow> set32 iov 24 (cr_desired_access req);
            iov \<leftarrow> set32 iov 28 (cr_file_attributes req);
            iov \<leftarrow> set32 iov 32 (cr_share_access req);
            iov \<leftarrow> set32 iov 36 (cr_create_disposition req);
            iov \<leftarrow> set32 iov 40 (cr_create_options req);
            iov \<leftarrow> set16 iov 44 (64 + 56);
            iov \<leftarrow> set32 iov 52 (cr_create_context_length req);
            let p = push_iov p iov;
            p \<leftarrow> (case nm of None \<Rightarrow> Some p
                 | Some val \<Rightarrow>
                     do { let v = smb2_iovec_make (ucs2_bytes val) (of_nat (2 * length val)) True;
                          v \<leftarrow> convert_slashes [0..<length val] 0 v;
                          Some (push_iov p v) });
            if cr_create_context_length req \<noteq> 0
            then fail_with smb2 p (Msg ''Smb2Create::encodeRequest:Create context not implemented, yet'' [])
            else Some (0, smb2, if nm = None then push_iov p (smb2_iovec_make [0] 1 False) else p) } }"

definition Smb2Create_createPdu :: "smb2_context \<Rightarrow> smb2_create_request \<Rightarrow> ptr \<Rightarrow> create_result" where
  "Smb2Create_createPdu smb2 req createData =
     finish_pdu (Smb2Create_encodeRequest smb2 req (Smb2Pdu smb2 SMB2_CREATE createData))"

definition zero_create_reply :: smb2_create_reply where
  "zero_create_reply = \<lparr>crr_oplock_level = 0, crr_flags = 0, crr_create_action = 0, crr_creation_time = 0,
     crr_last_access_time = 0, crr_last_write_time = 0, crr_change_time = 0, crr_allocation_size = 0,
     crr_end_of_file = 0, crr_file_attributes = 0, crr_file_id = \<lparr>persistent_id = 0, volatile_id = 0\<rparr>,
     crr_create_context_length = 0, crr_create_context_offset = 0\<rparr>"

definition Smb2Create_ProcessFixed :: "smb2_context \<Rightarrow> smb2_pdu \<Rightarrow> handler_result" where
  "Smb2Create_ProcessFixed smb2 p =
     (if smb2ReplyIsError p then smb2ProcessErrorReplyFixed smb2 p
      else do {
        iov \<leftarrow> in_back p;
        struct_size \<leftarrow> local16 iov 0;
        if size_mismatch iov struct_size 89
        then fail_with smb2 (p\<lparr>p_payload := Some (PCreate zero_create_reply)\<rparr>)
               (Msg ''Unexpected size of Create. Expected %d, got %d'' [89, iov_len iov])
        else do {
          ol \<leftarrow> get8 iov 2 0;
          fl \<leftarrow> get8 iov 3 0;
          ca \<leftarrow> get32 iov 4 0;
          ct \<leftarrow> get64 iov 8 0;
          la \<leftarrow> get64 iov 16 0;
          lw \<leftarrow> get64 iov 24 0;
          ch \<leftarrow> get64 iov 32 0;
          al \<leftarrow> get64 iov 40 0;
          ef \<leftarrow> get64 iov 48 0;
          fa \<leftarrow> get32 iov 56 0;
          pid \<leftarrow> get64 iov 64 0;
          vid \<leftarrow> get64 iov 72 0;
          off \<leftarrow> get32 iov 80 0;
          len \<leftarrow> get32 iov 84 0;
          let p = p\<lparr>p_payload := Some (PCreate \<lparr>crr_oplock_level = ol, crr_flags = fl, crr_create_action = ca,
            crr_creation_time = ct, crr_last_access_time = la, crr_last_write_time = lw, crr_change_time = ch,
            crr_allocation_size = al, crr_end_of_file = ef, crr_file_attributes = fa,
            crr_file_id = \<lparr>persistent_id = pid, volatile_id = vid\<rparr>,
            crr_create_context_length = len, crr_create_context_offset = off\<rparr>)\<rparr>;
          if len = 0 then Some (0, smb2, p)
          else if off < 64 + 88
          then fail_with smb2 p (Msg ''Create context overlaps with reply header'' [])
          else Some (sint (off - 64 - 88 + len), smb2, p) } })"

definition Smb2Create_ProcessVariable :: "smb2_context \<Rightarrow> smb2_pdu \<Rightarrow> handler_result" where
  "Smb2Create_ProcessVariable smb2 p =
     (if smb2ReplyIsError p then smb2ProcessErrorReplyVariable smb2 p
      else case p_payload p of
        Some (PCreate rep) \<Rightarrow>
          if crr_create_context_length rep \<noteq> 0
          then fail_with smb2 p (Msg ''Create context not implemented, yet'' [])
          else Some (0, smb2, p)
      | _ \<Rightarrow> None)"

definition Smb2Create_ProcessReplyAndAppData :: "smb2_context \<Rightarrow> smb2_pdu \<Rightarrow> handler_result" where
  "Smb2Create_ProcessReplyAndAppData smb2 p =
     (let status = hdr_status (p_header_resp p) in
      do { a \<leftarrow> app_at smb2 (p_appData p);
           let fh = getFH a;
           smb2 \<leftarrow> setNtStatus smb2 (p_appData p) status;
           if status \<noteq> SMB2_STATUS_SUCCESS
           then do { smb2 \<leftarrow> status_msg smb2 (p_appData p) ''SMB2_CREATE failed - %x, %s'' status;
                     smb2 \<leftarrow> delete_cell (endSendReceive smb2) fh;
                     Some (0, smb2, p) }
           else if fh = 0 then Some (0, smb2, p)
           else case p_payload p of
             Some (PCreate rep) \<Rightarrow>
               do { f \<leftarrow> fh_at smb2 fh;
                    let f = f\<lparr>fh_file_id := crr_file_id rep, fh_oplock_level := crr_oplock_level rep,
                      fh_create_action := crr_create_action rep, fh_creation_time := crr_creation_time rep,
                      fh_lastAccess_time := crr_last_access_time rep, fh_lastWrite_time := crr_last_write_time rep,
                      fh_change_time := crr_change_time rep, fh_allocation_size := crr_allocation_size rep,
                      fh_end_of_file := crr_end_of_file rep, fh_file_attributes := crr_file_attributes rep\<rparr>;
                    Some (0, endSendReceive (put_cell smb2 fh (CFh f)), p) }
           | _ \<Rightarrow> None })"

section \<open>Read\<close>

record smb2_read_request =
  rd_flags :: u8
  rd_length :: u32
  rd_offset :: u64
  rd_file_id :: smb2_file_id
  rd_minimum_count :: u32
  rd_channel :: u32
  rd_remaining_bytes :: u32
  rd_read_channel_info_length :: u16
  rd_read_channel_info :: "bytes option"

definition read_clamp :: "smb2_context \<Rightarrow> smb2_read_request \<Rightarrow> smb2_read_request" where
  "read_clamp smb2 req =
     (if \<not> c_supports_multi_credit smb2 \<and> rd_length req > 60 * 1024
      then req\<lparr>rd_length := 60 * 1024, rd_minimum_count := 0\<rparr> else req)"

definition Smb2Read_encodeRequest :: "smb2_context \<Rightarrow> smb2_read_request \<Rightarrow> smb2_pdu \<Rightarrow> handler_result" where
  "Smb2Read_encodeRequest smb2 req0 p =
     (let req = read_clamp smb2 req0 in
      do { iov \<leftarrow> set16 (new_iov 48) 0 49;
           iov \<leftarrow> set8 iov 3 (rd_flags req);
           iov \<leftarrow> set32 iov 4 (rd_length req);
           iov \<leftarrow> set64 iov 8 (rd_offset req);
           iov \<leftarrow> set64 iov 16 (persistent_id (rd_file_id req));
           iov \<leftarrow> set64 iov 24 (volatile_id (rd_file_id req));
           iov \<leftarrow> set32 iov 32 (rd_minimum_count req);
           iov \<leftarrow> set32 iov 36 (rd_channel req);
           iov \<leftarrow> set32 iov 40 (rd_remaining_bytes req);
           iov \<leftarrow> set16 iov 46 (rd_read_channel_info_length req);
           let p = push_iov p iov;
           if rd_read_channel_info_length req > 0 \<or> rd_read_channel_info req \<noteq> None
           then fail_with smb2 p (Msg ''Smb2Read::encodeRequest:ChannelInfo not yet implemented'' [])
           else Some (0, smb2, push_iov p (smb2_iovec_make [0] 1 False)) })"

definition Smb2Read_createPdu :: "smb2_context \<Rightarrow> smb2_read_request \<Rightarrow> ptr \<Rightarrow> create_result" where
  "Smb2Read_createPdu smb2 req readData =
     do { (pdu, smb2) \<leftarrow> finish_pdu (Smb2Read_encodeRequest smb2 req (Smb2Pdu smb2 SMB2_READ readData));
          Some (map_option (adjust_credits smb2 (rd_length (read_clamp smb2 req))) pdu, smb2) }"

definition Smb2Read_ProcessFixed :: "smb2_context \<Rightarrow> smb2_pdu \<Rightarrow> handler_result" where
  "Smb2Read_ProcessFixed smb2 p =
     (if smb2ReplyIsError p then smb2ProcessErrorReplyFixed smb2 p
      else do {
        iov \<leftarrow> in_back p;
        let rep = \<lparr>rdr_data_offset = 0, rdr_data_length = 0, rdr_data_remaining = 0, rdr_readData = None\<rparr>;
        struct_size \<leftarrow> local16 iov 0;
        if struct_size > 17
        then fail_with smb2 (p\<lparr>p_payload := Some (PRead rep)\<rparr>)
               (Msg ''Unexpected size of Read reply. Expected %d, got %d'' [17, iov_len iov])
        else do {
          off \<leftarrow> get8 iov 2 0;
          len \<leftarrow> get32 iov 4 0;
          rem \<leftarrow> get32 iov 8 0;
          let p = p\<lparr>p_payload := Some (PRead \<lparr>rdr_data_offset = off, rdr_data_length = len,
                    rdr_data_remaining = rem, rdr_readData = None\<rparr>)\<rparr>;
          if len = 0 then Some (0, smb2, p)
          else if off \<noteq> 64 + 16
          then fail_with smb2 p (Msg ''Unexpected data offset in Read reply. Expected %d, got %d'' [16, ucast off])
          else Some (sint len, smb2, p) } })"

definition Smb2Read_ProcessVariable :: "smb2_context \<Rightarrow> smb2_pdu \<Rightarrow> handler_result" where
  "Smb2Read_ProcessVariable smb2 p =
     (if smb2ReplyIsError p then smb2ProcessErrorReplyVariable smb2 p
      else case p_payload p of
        Some (PRead rep) \<Rightarrow>
          do { iov \<leftarrow> in_back p;
               Some (0, smb2, p\<lparr>p_payload := Some (PRead (rep\<lparr>rdr_readData := Some (iov_buf iov)\<rparr>))\<rparr>) }
      | _ \<Rightarrow> None)"

definition Smb2Read_ProcessReplyAndAppData :: "smb2_context \<Rightarrow> smb2_pdu \<Rightarrow> handler_result" where
  "Smb2Read_ProcessReplyAndAppData smb2 p =
     (let status = hdr_status (p_header_resp p) in
      do { a \<leftarrow> app_at smb2 (p_appData p);
           let fh = getFH a;
           let readBuf = getReadBuf a;
           smb2 \<leftarrow> setNtStatus smb2 (p_appData p) status;
           if status \<noteq> 0 \<and> status \<noteq> SMB2_STATUS_END_OF_FILE
           then do { smb2 \<leftarrow> status_msg smb2 (p_appData p) ''Read/Write failed with (0x%08x) %s'' status;
                     Some (0, endSendReceive smb2, p) }
           else case p_payload p of
             Some (PRead rep) \<Rightarrow>
               do { f \<leftarrow> fh_at smb2 fh;
                    off \<leftarrow> add_offset (fh_offset f) (rdr_data_length rep);
                    let smb2 = put_cell smb2 fh (CFh (f\<lparr>fh_offset := off, fh_byte_count := rdr_data_length rep,
                                 fh_bytes_remaining := rdr_data_remaining rep\<rparr>));
                    smb2 \<leftarrow> (if rdr_data_length rep = 0 then Some smb2
                            else do { dst \<leftarrow> buf_at smb2 readBuf;
                                      dst \<leftarrow> memcpy_in dst (rdr_readData rep) (unat (rdr_data_length rep));
                                      Some (put_cell smb2 readBuf (CBuf dst)) });
                    Some (0, endSendReceive smb2, p) }
           | _ \<Rightarrow> None })"

section \<open>Write\<close>

record smb2_write_request =
  wr_length :: u32
  wr_offset :: u64
  wr_buf :: bytes
  wr_file_id :: smb2_file_id
  wr_channel :: u32
  wr_remaining_bytes :: u32
  wr_write_channel_info_length :: u16
  wr_write_channel_info :: "bytes option"
  wr_flags :: u32

definition write_clamp :: "smb2_context \<Rightarrow> smb2_write_request \<Rightarrow> smb2_write_request" where
  "write_clamp smb2 req =
     (if \<not> c_supports_multi_credit smb2 \<and> wr_length req > 60 * 1024 then req\<lparr>wr_length := 60 * 1024\<rparr> else req)"

definition Smb2Write_encodeRequest :: "smb2_context \<Rightarrow> smb2_write_request \<Rightarrow> smb2_pdu \<Rightarrow> handler_result" where
  "Smb2Write_encodeRequest smb2 req0 p =
     (let req = write_clamp smb2 req0 in
      do { iov \<leftarrow> set16 (new_iov 48) 0 49;
           iov \<leftarrow> set16 iov 2 (64 + 48);
           iov \<leftarrow> set32 iov 4 (wr_length req);
           iov \<leftarrow> set64 iov 8 (wr_offset req);
           iov \<leftarrow> set64 iov 16 (persistent_id (wr_file_id req));
           iov \<leftarrow> set64 iov 24 (volatile_id (wr_file_id req));
           iov \<leftarrow> set32 iov 32 (wr_channel req);
           iov \<leftarrow> set32 iov 36 (wr_remaining_bytes req);
           iov \<leftarrow> set16 iov 42 (wr_write_channel_info_length req);
           iov \<leftarrow> set32 iov 44 (wr_flags req);
           let p = push_iov p iov;
           if wr_write_channel_info_length req > 0 \<or> wr_write_channel_info req \<noteq> None
           then fail_with smb2 p (Msg ''Smb2Write::encodeRequest:ChannelInfo not yet implemented'' [])
           else Some (0, smb2, p) })"

definition Smb2Write_createPdu :: "smb2_context \<Rightarrow> smb2_write_request \<Rightarrow> ptr \<Rightarrow> create_result" where
  "Smb2Write_createPdu smb2 req0 writeData =
     do { (rc, smb2, p) \<leftarrow> Smb2Write_encodeRequest smb2 req0 (Smb2Pdu smb2 SMB2_WRITE writeData);
          if rc \<noteq> 0 then do { smb2 \<leftarrow> delete_pdu smb2 [p]; Some (None, smb2) }
          else do { let req = write_clamp smb2 req0;
                    let out = smb2_pad_to_64bit (smb2_add_iovector_buf (p_out p) (wr_buf req) (wr_length req) False);
                    Some (Some (adjust_credits smb2 (wr_length req) (p\<lparr>p_out := out\<rparr>)), smb2) } }"

definition Smb2Write_ProcessFixed :: "smb2_context \<Rightarrow> smb2_pdu \<Rightarrow> handler_result" where
  "Smb2Write_ProcessFixed smb2 p =
     (if smb2ReplyIsError p then smb2ProcessErrorReplyFixed smb2 p
      else do {
        iov \<leftarrow> in_back p;
        let rep = \<lparr>wrr_count = 0, wrr_remaining = 0\<rparr>;
        struct_size \<leftarrow> local16 iov 0;
        if size_mismatch iov struct_size 17
        then fail_with smb2 (p\<lparr>p_payload := Some (PWrite rep)\<rparr>)
               (Msg ''Unexpected size of Write reply. Expected %d, got %d'' [17, iov_len iov])
        else do {
          n \<leftarrow> get32 iov 4 0;
          r \<leftarrow> get32 iov 8 0;
          Some (0, smb2, p\<lparr>p_payload := Some (PWrite \<lparr>wrr_count = n, wrr_remaining = r\<rparr>)\<rparr>) } })"

definition Smb2Write_ProcessReplyAndAppData :: "smb2_context \<Rightarrow> smb2_pdu \<Rightarrow> handler_result" where
  "Smb2Write_ProcessReplyAndAppData smb2 p =
     (let status = hdr_status (p_header_resp p) in
      do { a \<leftarrow> app_at smb2 (p_appData p);
           let fh = getFH a;
           smb2 \<leftarrow> setNtStatus smb2 (p_appData p) status;
           if status \<noteq> 0 \<and> status \<noteq> SMB2_STATUS_END_OF_FILE
           then do { smb2 \<leftarrow> status_msg smb2 (p_appData p) ''Read/Write failed with (0x%08x) %s'' status;
                     Some (0, endSendReceive smb2, p) }
           else case p_payload p of
             Some (PWrite rep) \<Rightarrow>
               do { f \<leftarrow> fh_at smb2 fh;
                    off \<leftarrow> add_offset (fh_offset f) (wrr_count rep);
                    Some (0, endSendReceive (put_cell smb2 fh (CFh (f\<lparr>fh_offset := off,
                      fh_byte_count := wrr_count rep, fh_bytes_remaining := wrr_remaining rep\<rparr>))), p) }
           | _ \<Rightarrow> None })"

section \<open>Ioctl\<close>

record smb2_ioctl_request =
  io_reserved :: u16
  io_ctl_code :: u32
  io_file_id :: smb2_file_id
  io_input_offset :: u32
  io_input_count :: u32
  io_max_input_response :: u32
  io_output_offset :: u32
  io_output_count :: u32
  io_max_output_response :: u32
  io_flags :: u32
  io_reserved2 :: u32
  io_input_buffer :: bytes

definition Smb2Ioctl_encodeRequest :: "smb2_context \<Rightarrow> smb2_ioctl_request \<Rightarrow> smb2_pdu \<Rightarrow> handler_result" where
  \<comment> \<open>\<open>InputOffset\<close> is the header and the struct without its pointer: 64 + 64 - 8\<close>
  "Smb2Ioctl_encodeRequest smb2 req p =
     do { let InputOffset = (64 + 64 - 8 :: u32);
          iov \<leftarrow> set16 (new_iov 56) 0 57;
          iov \<leftarrow> set16 iov 2 (io_reserved req);
          iov \<leftarrow> set32 iov 4 (io_ctl_code req);
          iov \<leftarrow> set64 iov 8 (persistent_id (io_file_id req));
          iov \<leftarrow> set64 iov 16 (volatile_id (io_file_id req));
          iov \<leftarrow> set32 iov 24 InputOffset;
          iov \<leftarrow> set32 iov 28 (io_input_count req);
          iov \<leftarrow> set32 iov 32 (io_max_input_response req);
          iov \<leftarrow> set32 iov 36 InputOffset;
          iov \<leftarrow> set32 iov 40 (io_output_count req);
          iov \<leftarrow> set32 iov 44 (io_max_output_response req);
          iov \<leftarrow> set32 iov 48 (io_flags req);
          iov \<leftarrow> set32 iov 52 (io_reserved2 req);
          buf \<leftarrow> mem_read (io_input_buffer req) 0 (unat (io_input_count req));
          Some (0, smb2, push_iov (push_iov p iov) (smb2_iovec_make buf (ucast (io_input_count req)) True)) }"

definition Smb2Ioctl_createPdu :: "smb2_context \<Rightarrow> smb2_ioctl_request \<Rightarrow> ptr \<Rightarrow> create_result" where
  "Smb2Ioctl_createPdu smb2 req ioctlData =
     do { (pdu, smb2) \<leftarrow> finish_pdu (Smb2Ioctl_encodeRequest smb2 req (Smb2Pdu smb2 SMB2_IOCTL ioctlData));
          let actual_payload = max (io_input_count req + io_output_count req)
                                   (io_max_input_response req + io_max_output_response req);
          Some (map_option (adjust_credits smb2 actual_payload) pdu, smb2) }"

definition Smb2Ioctl_ProcessFixed :: "smb2_context \<Rightarrow> smb2_pdu \<Rightarrow> handler_result" where
  "Smb2Ioctl_ProcessFixed smb2 p =
     (if smb2ReplyIsError p then smb2ProcessErrorReplyFixed smb2 p
      else do {
        iov \<leftarrow> in_back p;
        let rep = \<lparr>ior_reserved = 0, ior_ctl_code = 0, ior_file_id = \<lparr>persistent_id = 0, volatile_id = 0\<rparr>,
                   ior_input_offset = 0, ior_input_count = 0, ior_output_offset = 0, ior_output_count = 0,
                   ior_flags = 0, ior_reserved2 = 0, ior_output_buffer = None\<rparr>;
        struct_size \<leftarrow> local16 iov 0;
        if size_mismatch iov struct_size 49
        then fail_with smb2 (p\<lparr>p_payload := Some (PIoctl rep)\<rparr>)
               (Msg ''Unexpected size of IOCTL reply. Expected %d, got %d'' [49, iov_len iov])
        else do {
          re \<leftarrow> get16 iov 2 0;
          cc \<leftarrow> get32 iov 4 0;
          pid \<leftarrow> get64 iov 8 0;
          vid \<leftarrow> get64 iov 16 0;
          io \<leftarrow> get32 iov 24 0;
          ic \<leftarrow> get32 iov 28 0;
          oo \<leftarrow> get32 iov 32 0;
          oc \<leftarrow> get32 iov 36 0;
          fl \<leftarrow> get32 iov 40 0;
          r2 \<leftarrow> get32 iov 44 0;
          let p = p\<lparr>p_payload := Some (PIoctl \<lparr>ior_reserved = re, ior_ctl_code = cc,
                    ior_file_id = \<lparr>persistent_id = pid, volatile_id = vid\<rparr>, ior_input_offset = io,
                    ior_input_count = ic, ior_output_offset = oo, ior_output_count = oc, ior_flags = fl,
                    ior_reserved2 = r2, ior_output_buffer = None\<rparr>)\<rparr>;
          if oc = 0 then fail_with smb2 p (Msg ''No output buffer in Ioctl response'' [])
          else if oo < 64 + 48 then fail_with smb2 p (Msg ''Output buffer overlaps with Ioctl reply header'' [])
          else Some (sint (oo - 64 - 48 + oc), smb2, p) } })"

definition Smb2Ioctl_ProcessVariable :: "smb2_context \<Rightarrow> smb2_pdu \<Rightarrow> handler_result" where
  "Smb2Ioctl_ProcessVariable smb2 p =
     (if smb2ReplyIsError p then smb2ProcessErrorReplyVariable smb2 p
      else case p_payload p of
        Some (PIoctl rep) \<Rightarrow>
          do { iov \<leftarrow> in_back p;
               ob \<leftarrow> mem_ptr (iov_buf iov) (uint (ior_output_offset rep - 64 - 48));
               Some (0, smb2, p\<lparr>p_payload := Some (PIoctl (rep\<lparr>ior_output_buffer := Some ob\<rparr>))\<rparr>) }
      | _ \<Rightarrow> None)"

definition Smb2Ioctl_ProcessReplyAndAppData :: "smb2_context \<Rightarrow> smb2_pdu \<Rightarrow> handler_result" where
  "Smb2Ioctl_ProcessReplyAndAppData smb2 p =
     (let status = hdr_status (p_header_resp p) in
      do { smb2 \<leftarrow> setNtStatus smb2 (p_appData p) status;
           if status \<noteq> SMB2_STATUS_SUCCESS
           then do { smb2 \<leftarrow> status_msg smb2 (p_appData p) ''IOCTL failed with (0x%08x) %s'' status;
                     Some (0, endSendReceive smb2, p) }
           else do {
             a \<leftarrow> app_at smb2 (p_appData p);
             case p_payload p of
               Some (PIoctl rep) \<Rightarrow>
                 do { dst \<leftarrow> buf_at smb2 (getOutBuf a);
                      dst \<leftarrow> memcpy_in dst (ior_output_buffer rep) (unat (ior_output_count rep));
                      let smb2 = put_cell smb2 (getOutBuf a) (CBuf dst);
                      if u32_at smb2 (getOutBufLen a) = None then None
                      else Some (0, endSendReceive (put_cell smb2 (getOutBufLen a) (CU32 (ior_output_count rep))), p) }
             | _ \<Rightarrow> None } })"

section \<open>UCS-2 in memory\<close>

definition backslash :: "u16 \<Rightarrow> u16" where
  "backslash c = (if c = 0x2f then 0x5c else c)"

lemma length_ucs2_bytes [simp]: "length (ucs2_bytes val) = 2 * length val"
  by (induction val) (simp_all add: ucs2_bytes_def)

lemma sub_ucs2: "i < length val \<Longrightarrow> sub_bytes (ucs2_bytes val) (2 * i) 2 = htole16 (val ! i)"
proof (induction val arbitrary: i)
  case Nil
  then show ?case by simp
next
  case (Cons a val)
  then show ?case by (cases i) (simp_all add: ucs2_bytes_def)
qed

lemma put_ucs2: "i < length val \<Longrightarrow> put_bytes (ucs2_bytes val) (2 * i) (htole16 y) = ucs2_bytes (val[i := y])"
proof (induction val arbitrary: i)
  case Nil
  then show ?case by simp
next
  case (Cons a val)
  then show ?case by (cases i) (simp_all add: put_bytes_def ucs2_bytes_def)
qed

lemma convert_slashes_from:
  assumes "wf_iovec v" and "unat (iov_len v) = 2 * length val" and "n = length val"
    and "iov_buf v = ucs2_bytes val" and "k \<le> n"
  shows "convert_slashes [k..<n] ch v = Some (v\<lparr>iov_buf := ucs2_bytes (take k val @ map backslash (drop k val))\<rparr>)"
  using assms
proof (induction "n - k" arbitrary: k ch v val)
  case 0
  then show ?case by simp
next
  case (Suc d)
  then have k: "k < n" and up: "[k..<n] = k # [Suc k..<n]" by (simp_all add: upt_conv_Cons)
  let ?val = "val[k := backslash (val ! k)]"
  let ?v = "v\<lparr>iov_buf := ucs2_bytes ?val\<rparr>"
  have nat2: "nat (int k * 2) = 2 * k" by simp
  have g: "get16 v (int k * 2) ch = Some (val ! k)"
    using Suc.prems k by (simp add: mem_simps nat2 sub_ucs2)
  have s: "set16 v (int k * 2) 0x5c = Some (v\<lparr>iov_buf := ucs2_bytes (val[k := 0x5c])\<rparr>)"
    using Suc.prems k by (simp add: mem_simps nat2 put_ucs2)
  have "convert_slashes [Suc k..<n] (val ! k) ?v =
      Some (?v\<lparr>iov_buf := ucs2_bytes (take (Suc k) ?val @ map backslash (drop (Suc k) ?val))\<rparr>)"
    using Suc by (intro Suc.hyps(1)) (simp_all add: wf_iovec_def)
  moreover have "take (Suc k) ?val @ map backslash (drop (Suc k) ?val) = take k val @ map backslash (drop k val)"
    using k Suc.prems by (simp add: take_Suc_conv_app_nth Cons_nth_drop_Suc [symmetric])
  moreover have "val ! k \<noteq> 0x2f \<Longrightarrow> ?v = v"
    using Suc.prems by (simp add: backslash_def)
  ultimately show ?case
    unfolding up convert_slashes.simps g bind.bind_lunit
    by (cases "val ! k = 0x2f") (simp_all add: s backslash_def)
qed

section \<open>Requests\<close>

definition create_name :: "smb2_create_request \<Rightarrow> u16 list option option" where
  "create_name r =
     (case has_name (cr_name r) of None \<Rightarrow> None
      | Some False \<Rightarrow> Some None
      | Some True \<Rightarrow> (case utf8_to_ucs2 (the (cr_name r)) of Some (Some val) \<Rightarrow> Some (Some val) | _ \<Rightarrow> None))"

definition create_valid :: "smb2_context \<Rightarrow> smb2_create_request \<Rightarrow> bool" where
  "create_valid _ r \<longleftrightarrow> cr_create_context_length r = 0 \<and>
     (case create_name r of None \<Rightarrow> False | Some None \<Rightarrow> True | Some (Some val) \<Rightarrow> length val < 2 ^ 30)"

definition create_fixed :: "smb2_create_request \<Rightarrow> u16 \<Rightarrow> bytes" where
  "create_fixed r n =
     htole16 57 @ [cr_security_flags r, cr_requested_oplock_level r] @ htole32 (cr_impersonation_level r) @
     htole64 (cr_smb_create_flags r) @ replicate 8 0 @ htole32 (cr_desired_access r) @
     htole32 (cr_file_attributes r) @ htole32 (cr_share_access r) @ htole32 (cr_create_disposition r) @
     htole32 (cr_create_options r) @ htole16 120 @ htole16 n @ replicate 4 0 @ htole32 (cr_create_context_length r)"

definition create_body :: "smb2_context \<Rightarrow> smb2_create_request \<Rightarrow> bytes" where
  "create_body _ r =
     (case create_name r of
        Some (Some val) \<Rightarrow> create_fixed r (of_nat (2 * length val)) @ ucs2_bytes (map backslash val)
      | _ \<Rightarrow> create_fixed r 0 @ [0])"

lemma zero_name_field: "htole16 0 @ replicate 4 0 @ t = replicate 6 0 @ t"
  by (simp add: htole16_def eval_nat_numeral)

lemma create_encode:
  assumes "create_valid c r"
  shows "\<exists>v w. Smb2Create_encodeRequest c r p = Some (0, c, push_iov (push_iov p v) w) \<and> wf_iovec v \<and> wf_iovec w \<and>
     iov_data v @ iov_data w = create_body c r"
proof (cases "create_name r")
  case None
  then show ?thesis
    using assms by (simp add: create_valid_def)
next
  case (Some nm)
  have cl: "cr_create_context_length r = 0"
    using assms by (simp add: create_valid_def)
  show ?thesis
  proof (cases nm)
    case None
    then have h: "has_name (cr_name r) = Some False"
      using Some by (auto simp: create_name_def split: option.splits bool.splits)
    have "Smb2Create_encodeRequest c r p = Some (0, c, push_iov (push_iov p
        ((new_iov 56)\<lparr>iov_buf := create_fixed r 0\<rparr>)) (smb2_iovec_make [0] 1 False))"
      by (simp add: Smb2Create_encodeRequest_def h cl body_simps create_fixed_def zero_name_field)
    then show ?thesis
      by (intro exI conjI) (auto simp: create_body_def Some None body_simps smb2_iovec_make_def create_fixed_def)
  next
    case (Some val)
    then obtain u where u: "cr_name r = Some u" "has_name (cr_name r) = Some True" "utf8_to_ucs2 u = Some (Some val)"
      using \<open>create_name r = Some nm\<close>
      by (auto simp: create_name_def has_name_def split: option.splits bool.splits list.splits)
    have len: "length val < 2 ^ 30"
      using assms \<open>create_name r = Some nm\<close> Some by (simp add: create_valid_def)
    let ?w = "smb2_iovec_make (ucs2_bytes val) (of_nat (2 * length val)) True"
    have un: "unat (of_nat (2 * length val) :: u64) = 2 * length val"
      using len by (intro unat_of_nat_u64) simp
    have conv: "convert_slashes [0..<length val] 0 ?w = Some (?w\<lparr>iov_buf := ucs2_bytes (map backslash val)\<rparr>)"
      using convert_slashes_from [of ?w val "length val" 0 0] un by (simp add: smb2_iovec_make_def wf_iovec_def del: of_nat_mult)
    have "Smb2Create_encodeRequest c r p = Some (0, c, push_iov (push_iov p
        ((new_iov 56)\<lparr>iov_buf := create_fixed r (of_nat (2 * length val))\<rparr>)) (?w\<lparr>iov_buf := ucs2_bytes (map backslash val)\<rparr>))"
      by (simp add: Smb2Create_encodeRequest_def u u(2) [unfolded u(1)] cl body_simps create_fixed_def conv del: of_nat_mult)
    then show ?thesis
      using un by (intro exI conjI) (auto simp: create_body_def Some \<open>create_name r = Some nm\<close> body_simps
          smb2_iovec_make_def create_fixed_def simp del: of_nat_mult)
  qed
qed

interpretation create: request_command SMB2_CREATE Smb2Create_createPdu create_body create_valid
proof
  fix c r app assume v: "create_valid c r"
  show "\<exists>p. Smb2Create_createPdu c r app = Some (Some p, c) \<and> request_pdu c SMB2_CREATE app (create_body c r) p"
    unfolding Smb2Create_createPdu_def
    using create_encode [OF v, of "Smb2Pdu c SMB2_CREATE app"] finish_push2 by blast
qed

definition read_valid :: "smb2_context \<Rightarrow> smb2_read_request \<Rightarrow> bool" where
  "read_valid _ r \<longleftrightarrow> rd_read_channel_info_length r = 0 \<and> rd_read_channel_info r = None"

definition read_body :: "smb2_context \<Rightarrow> smb2_read_request \<Rightarrow> bytes" where
  "read_body c r0 =
     (let r = read_clamp c r0 in
      htole16 49 @ [0, rd_flags r] @ htole32 (rd_length r) @ htole64 (rd_offset r) @
      htole64 (persistent_id (rd_file_id r)) @ htole64 (volatile_id (rd_file_id r)) @ htole32 (rd_minimum_count r) @
      htole32 (rd_channel r) @ htole32 (rd_remaining_bytes r) @ replicate 2 0 @ htole16 0 @ [0])"

lemma read_clamp_channel [simp]:
  "rd_read_channel_info_length (read_clamp c r) = rd_read_channel_info_length r"
  "rd_read_channel_info (read_clamp c r) = rd_read_channel_info r"
  by (simp_all add: read_clamp_def)

lemma adjusted: "request_pdu c cmd app b p \<Longrightarrow> request_pdu c cmd app b (adjust_credits c' n p)"
  using request_charge by (simp add: adjust_credits_def)

interpretation read: request_command SMB2_READ Smb2Read_createPdu read_body read_valid
proof
  fix c app and r :: smb2_read_request assume "read_valid c r"
  then have v: "rd_read_channel_info_length r = 0" "rd_read_channel_info r = None"
    by (simp_all add: read_valid_def)
  have "Smb2Read_encodeRequest c r (Smb2Pdu c SMB2_READ app) = Some (0, c,
      push_iov (push_iov (Smb2Pdu c SMB2_READ app) ((new_iov 48)\<lparr>iov_buf := take 48 (read_body c r)\<rparr>))
        (smb2_iovec_make [0] 1 False))"
    using v by (simp add: Smb2Read_encodeRequest_def Let_def body_simps read_body_def numeral_2_eq_2 [symmetric])
  then have "\<exists>p. finish_pdu (Smb2Read_encodeRequest c r (Smb2Pdu c SMB2_READ app)) = Some (Some p, c) \<and>
      request_pdu c SMB2_READ app (read_body c r) p"
    by (rule finish_push2) (simp_all add: body_simps read_body_def Let_def smb2_iovec_make_def)
  then show "\<exists>p. Smb2Read_createPdu c r app = Some (Some p, c) \<and> request_pdu c SMB2_READ app (read_body c r) p"
    by (auto simp: Smb2Read_createPdu_def intro: adjusted)
qed

definition write_valid :: "smb2_context \<Rightarrow> smb2_write_request \<Rightarrow> bool" where
  "write_valid c r \<longleftrightarrow> wr_write_channel_info_length r = 0 \<and> wr_write_channel_info r = None \<and>
     unat (wr_length (write_clamp c r)) < 2 ^ 31 \<and> unat (wr_length (write_clamp c r)) \<le> length (wr_buf r)"

definition write_body :: "smb2_context \<Rightarrow> smb2_write_request \<Rightarrow> bytes" where
  "write_body c r0 =
     (let r = write_clamp c r0 in
      htole16 49 @ htole16 112 @ htole32 (wr_length r) @ htole64 (wr_offset r) @
      htole64 (persistent_id (wr_file_id r)) @ htole64 (volatile_id (wr_file_id r)) @ htole32 (wr_channel r) @
      htole32 (wr_remaining_bytes r) @ replicate 2 0 @ htole16 0 @ htole32 (wr_flags r) @
      take (unat (wr_length r)) (wr_buf r))"

lemma write_clamp_other [simp]:
  "wr_write_channel_info_length (write_clamp c r) = wr_write_channel_info_length r"
  "wr_write_channel_info (write_clamp c r) = wr_write_channel_info r" "wr_buf (write_clamp c r) = wr_buf r"
  by (simp_all add: write_clamp_def)

lemma add_buf_push:
  "unat len < 2 ^ 31 \<Longrightarrow> smb2_add_iovector_buf vs b len f = smb2_add_iovector vs (smb2_iovec_make b (ucast len) f)"
  by (cases vs) (simp add: smb2_add_iovector_buf_def smb2_add_iovector_def smb2_iovec_make_def scast_small)

interpretation write_cmd: request_command SMB2_WRITE Smb2Write_createPdu write_body write_valid
proof
  fix c app and r :: smb2_write_request assume "write_valid c r"
  then have v: "wr_write_channel_info_length r = 0" "wr_write_channel_info r = None"
    and len: "unat (wr_length (write_clamp c r)) < 2 ^ 31" "unat (wr_length (write_clamp c r)) \<le> length (wr_buf r)"
    by (simp_all add: write_valid_def)
  let ?v = "(new_iov 48)\<lparr>iov_buf := take 48 (write_body c r)\<rparr>"
  let ?w = "smb2_iovec_make (wr_buf r) (ucast (wr_length (write_clamp c r))) False"
  let ?p = "push_iov (push_iov (Smb2Pdu c SMB2_WRITE app) ?v) ?w"
  have e: "Smb2Write_encodeRequest c r (Smb2Pdu c SMB2_WRITE app) = Some (0, c, push_iov (Smb2Pdu c SMB2_WRITE app) ?v)"
    using v by (simp add: Smb2Write_encodeRequest_def Let_def body_simps write_body_def)
  have "\<exists>q. finish_pdu (Some (0, c, ?p)) = Some (Some q, c) \<and> request_pdu c SMB2_WRITE app (write_body c r) q"
    by (rule finish_push2 [OF refl]) (use len in \<open>simp_all add: body_simps write_body_def Let_def smb2_iovec_make_def\<close>)
  then have "request_pdu c SMB2_WRITE app (write_body c r) (?p\<lparr>p_out := smb2_pad_to_64bit (p_out ?p)\<rparr>)"
    by (simp add: finish_pdu_def)
  then show "\<exists>p. Smb2Write_createPdu c r app = Some (Some p, c) \<and> request_pdu c SMB2_WRITE app (write_body c r) p"
    using len(1) by (auto simp: Smb2Write_createPdu_def Let_def e push_iov_def add_buf_push intro!: adjusted)
qed

definition ioctl_valid :: "smb2_context \<Rightarrow> smb2_ioctl_request \<Rightarrow> bool" where
  "ioctl_valid _ r \<longleftrightarrow> unat (io_input_count r) \<le> length (io_input_buffer r)"

definition ioctl_body :: "smb2_context \<Rightarrow> smb2_ioctl_request \<Rightarrow> bytes" where
  "ioctl_body _ r =
     htole16 57 @ htole16 (io_reserved r) @ htole32 (io_ctl_code r) @ htole64 (persistent_id (io_file_id r)) @
     htole64 (volatile_id (io_file_id r)) @ htole32 120 @ htole32 (io_input_count r) @
     htole32 (io_max_input_response r) @ htole32 120 @ htole32 (io_output_count r) @
     htole32 (io_max_output_response r) @ htole32 (io_flags r) @ htole32 (io_reserved2 r) @
     take (unat (io_input_count r)) (io_input_buffer r)"

interpretation ioctl: request_command SMB2_IOCTL Smb2Ioctl_createPdu ioctl_body ioctl_valid
proof
  fix c app and r :: smb2_ioctl_request assume "ioctl_valid c r"
  then have len: "unat (io_input_count r) \<le> length (io_input_buffer r)"
    by (simp add: ioctl_valid_def)
  have "Smb2Ioctl_encodeRequest c r (Smb2Pdu c SMB2_IOCTL app) = Some (0, c,
      push_iov (push_iov (Smb2Pdu c SMB2_IOCTL app) ((new_iov 56)\<lparr>iov_buf := take 56 (ioctl_body c r)\<rparr>))
        (smb2_iovec_make (take (unat (io_input_count r)) (io_input_buffer r)) (ucast (io_input_count r)) True))"
    using len by (simp add: Smb2Ioctl_encodeRequest_def Let_def body_simps ioctl_body_def sub_bytes_def)
  then have "\<exists>p. finish_pdu (Smb2Ioctl_encodeRequest c r (Smb2Pdu c SMB2_IOCTL app)) = Some (Some p, c) \<and>
      request_pdu c SMB2_IOCTL app (ioctl_body c r) p"
    by (rule finish_push2) (use len in \<open>simp_all add: body_simps ioctl_body_def smb2_iovec_make_def\<close>)
  then show "\<exists>p. Smb2Ioctl_createPdu c r app = Some (Some p, c) \<and> request_pdu c SMB2_IOCTL app (ioctl_body c r) p"
    by (auto simp: Smb2Ioctl_createPdu_def Let_def intro: adjusted)
qed

section \<open>Replies\<close>

definition create_reportable :: "smb2_context \<Rightarrow> smb2_pdu \<Rightarrow> bool" where
  "create_reportable c p \<longleftrightarrow>
     (\<exists>a. app_at c (p_appData p) = Some a \<and> (getFH a = 0 \<or> fh_at c (getFH a) \<noteq> None))"

interpretation create_reply: reply_command Smb2Create_ProcessFixed Smb2Create_ProcessVariable
  Smb2Create_ProcessReplyAndAppData create_reportable
proof
  fix c p assume e: "smb2ReplyIsError p" and r: "create_reportable c p"
  then obtain a where a: "app_at c (p_appData p) = Some a" and fh: "getFH a = 0 \<or> fh_at c (getFH a) \<noteq> None"
    by (auto simp: create_reportable_def)
  let ?s = "hdr_status (p_header_resp p)"
  let ?a = "a\<lparr>ad_ntStatus := ?s\<rparr>"
  let ?b = "?a\<lparr>ad_errMsg := Msg ''SMB2_CREATE failed - %x, %s'' [ucast ?s]\<rparr>"
  let ?c = "endSendReceive (put_cell (put_cell c (p_appData p) (CApp ?a)) (p_appData p) (CApp ?b))"
  obtain c' where "delete_cell ?c (getFH a) = Some c'" "app_at c' (p_appData p) = Some ?b" "c_isComplete c'"
    using delete_keeps [of "getFH a" ?c "p_appData p"] fh a by (auto simp: fh_at_put_app)
  then show "\<exists>c' a b. Smb2Create_ProcessReplyAndAppData c p = Some (0, c', p) \<and> c_isComplete c' \<and>
      app_at c' (p_appData p) = Some a \<and> ad_ntStatus a = ?s \<and> app_at c (p_appData p) = Some b \<and>
      ad_bDelete a = ad_bDelete b"
    using error_nonzero [OF e]
    by (auto simp: Smb2Create_ProcessReplyAndAppData_def Let_def a status_msg_def app_simps)
qed (auto simp: Smb2Create_ProcessFixed_def Smb2Create_ProcessVariable_def create_reportable_def)

definition rw_reportable :: "smb2_context \<Rightarrow> smb2_pdu \<Rightarrow> bool" where
  "rw_reportable c p \<longleftrightarrow> has_app c p \<and> hdr_status (p_header_resp p) \<noteq> SMB2_STATUS_END_OF_FILE"

interpretation read_reply: reply_command Smb2Read_ProcessFixed Smb2Read_ProcessVariable
  Smb2Read_ProcessReplyAndAppData rw_reportable
  by unfold_locales
     (auto simp: Smb2Read_ProcessFixed_def Smb2Read_ProcessVariable_def rw_reportable_def has_app_def
        Smb2Read_ProcessReplyAndAppData_def app_simps status_msg_def Let_def dest: error_nonzero)

interpretation write_reply: reply_command Smb2Write_ProcessFixed plain_ProcessVariable
  Smb2Write_ProcessReplyAndAppData rw_reportable
  by unfold_locales
     (auto simp: Smb2Write_ProcessFixed_def plain_ProcessVariable_def rw_reportable_def has_app_def
        Smb2Write_ProcessReplyAndAppData_def app_simps status_msg_def Let_def dest: error_nonzero)

interpretation ioctl_reply: reply_command Smb2Ioctl_ProcessFixed Smb2Ioctl_ProcessVariable
  Smb2Ioctl_ProcessReplyAndAppData has_app
  by unfold_locales
     (auto simp: Smb2Ioctl_ProcessFixed_def Smb2Ioctl_ProcessVariable_def has_app_def
        Smb2Ioctl_ProcessReplyAndAppData_def app_simps status_msg_def Let_def dest: error_nonzero)

section \<open>Properties\<close>

text \<open>C36. A create request with a valid name and no create context is sent as the encoded header, the
  56 bytes of the fixed part in the layout of the protocol, the name in UCS-2 with every slash
  turned into a backslash (or one zero byte for an empty name), and zero padding to a multiple of
  eight bytes; it is found in the out queue under the next message id.\<close>

theorem create_request_on_wire:
  assumes "create_valid c r" and "c_signing_required c = 0" and "queues_ok c"
  shows "\<exists>p p' c'. Smb2Create_createPdu c r app = Some (Some p, c) \<and>
     smb2_queue_pdu cr c [p] = Some (True, None, c') \<and> map_find (c_message_id c) (c_outqueue c') = Some [p'] \<and>
     hdr_command (p_header p') = SMB2_CREATE \<and>
     vectors_data (p_out p') = header_bytes (p_header p') @ create_body c r @ replicate (pad8 (length (create_body c r))) 0 \<and>
     8 dvd length (vectors_data (p_out p'))"
  using create.on_wire [OF assms] unfolding request_wire_def by blast

text \<open>A write request is sent as the encoded header, the 48 bytes of its fixed part, exactly the
  bytes of the caller's buffer that its length field announces (at most 61440 without multi-credit
  support), and the padding.\<close>

lemma write_request_on_wire:
  assumes "write_valid c r" and "c_signing_required c = 0" and "queues_ok c"
  shows "\<exists>p p' c'. Smb2Write_createPdu c r app = Some (Some p, c) \<and>
     smb2_queue_pdu cr c [p] = Some (True, None, c') \<and> map_find (c_message_id c) (c_outqueue c') = Some [p'] \<and>
     vectors_data (p_out p') = header_bytes (p_header p') @ write_body c r @ replicate (pad8 (length (write_body c r))) 0 \<and>
     sub_bytes (vectors_data (p_out p')) 68 4 = htole32 (wr_length (write_clamp c r)) \<and>
     sub_bytes (vectors_data (p_out p')) 112 (unat (wr_length (write_clamp c r))) =
       take (unat (wr_length (write_clamp c r))) (wr_buf r)"
proof -
  from write_cmd.on_wire [OF assms] obtain p p' c' where w: "Smb2Write_createPdu c r app = Some (Some p, c)"
      "smb2_queue_pdu cr c [p] = Some (True, None, c')" "map_find (c_message_id c) (c_outqueue c') = Some [p']"
      "p_header p' = (p_header p)\<lparr>hdr_message_id := c_message_id c\<rparr>"
      "vectors_data (p_out p') = header_bytes (p_header p') @ write_body c r @ replicate (pad8 (length (write_body c r))) 0"
      "wf_vectors (p_out p')"
    unfolding request_wire_def by blast
  obtain q where "Smb2Write_createPdu c r app = Some (Some q, c)" "request_pdu c SMB2_WRITE app (write_body c r) q"
    using write_cmd.create_ok [OF assms(1)] by blast
  then have "wf_header (p_header p')"
    using w(1,4) by (auto simp: request_pdu_def wf_header_def Smb2Pdu_def Let_def zero_header_def)
  then have "length (header_bytes (p_header p')) = 64"
    by simp
  then have "sub_bytes (vectors_data (p_out p')) 68 4 = htole32 (wr_length (write_clamp c r))"
    "sub_bytes (vectors_data (p_out p')) 112 (unat (wr_length (write_clamp c r))) =
       take (unat (wr_length (write_clamp c r))) (wr_buf r)"
    using assms(1) unfolding w(5) by (simp_all add: write_body_def Let_def write_valid_def)
  then show ?thesis
    using w by blast
qed

text \<open>With multi-credit support a read of n bytes is charged the least number of credits that
  covers it at 64 KiB each, for every n from 1 to 65535 * 65536.\<close>

lemma read_credit_charge:
  assumes "c_supports_multi_credit c" and "0 < rd_length r" and "rd_length r \<le> 65535 * 65536"
    and "Smb2Read_createPdu c r app = Some (Some p, c')"
  shows "unat (rd_length r) \<le> unat (hdr_credit_charge (p_header p)) * 65536 \<and>
     (unat (hdr_credit_charge (p_header p)) - 1) * 65536 < unat (rd_length r)"
proof -
  have "hdr_credit_charge (p_header p) = credit_charge_of (rd_length r)"
    using assms by (auto simp: Smb2Read_createPdu_def adjust_credits_def read_clamp_def Let_def finish_pdu_def
        Smb2Read_encodeRequest_def fail_with_def split: bind_splits if_splits)
  moreover have "unat (credit_charge_of n) = (unat n - 1) div 65536 + 1" if "0 < n" "n \<le> 65535 * 65536" for n :: u32
  proof -
    have n: "unat (n - 1) = unat n - 1" "0 < unat n" "unat n \<le> 65535 * 65536"
      using that by (simp_all add: unat_sub word_le_nat_alt word_less_nat_alt unat_minus_one)
    then have "(unat n - 1) div 65536 + 1 \<le> 65535"
      by linarith
    then show ?thesis
      using n by (simp add: credit_charge_of_def unsigned_ucast_eq unat_word_ariths unat_div take_bit_nat_def)
  qed
  ultimately show ?thesis
    using assms(2,3) by (simp add: word_le_nat_alt word_less_nat_alt) linarith
qed

lemma buf_at_frame:
  "buf_at (put_cell c q (CFh f)) r = (if r = q then None else buf_at c r)"
  "buf_at (endSendReceive c) r = buf_at c r" "buf_at (put_cell c q (CBuf b)) r = (if r = q then Some b else buf_at c r)"
  "buf_at (put_cell c q (CApp a)) r = (if r = q then None else buf_at c r)"
  by (simp_all add: buf_at_def put_cell_def endSendReceive_def)

lemma fh_at_frames:
  "fh_at (put_cell c q (CFh f)) r = (if r = q then Some f else fh_at c r)"
  "fh_at (put_cell c q (CBuf b)) r = (if r = q then None else fh_at c r)"
  by (simp_all add: fh_at_def put_cell_def)

lemma app_at_frames:
  "app_at (put_cell c q (CFh f)) r = (if r = q then None else app_at c r)"
  "app_at (put_cell c q (CBuf b)) r = (if r = q then None else app_at c r)"
  by (simp_all add: app_at_def put_cell_def)

lemma cell_kinds_differ:
  "app_at c q = Some a \<Longrightarrow> fh_at c r = Some f \<Longrightarrow> q \<noteq> r" "app_at c q = Some a \<Longrightarrow> buf_at c r = Some b \<Longrightarrow> q \<noteq> r"
  "fh_at c q = Some f \<Longrightarrow> buf_at c r = Some b \<Longrightarrow> q \<noteq> r"
  by (auto simp: fh_at_def app_at_def buf_at_def split: option.splits cell.splits)

definition read_reply_fixed :: "u32 \<Rightarrow> u32 \<Rightarrow> bytes" where
  "read_reply_fixed n rem = htole16 17 @ [80, 0] @ htole32 n @ htole32 rem @ replicate 4 0"

lemma sint_small:
  assumes "unat (n :: u32) < 2 ^ 31"
  shows "sint n = int (unat n)"
proof -
  have "uint n < 2 ^ 31"
    using assms by (metis of_nat_less_iff of_nat_numeral of_nat_power uint_nat)
  then have "signed_take_bit 31 (uint n) = uint n"
    by (intro signed_take_bit_int_eq_self) (simp_all add: order_trans [OF _ unsigned_greater_eq])
  then show ?thesis
    by (simp add: sint_uint)
qed

lemma read_process:
  assumes "hdr_status (p_header_resp p) = 0" and "p_payload p = Some (PRead rep)" and "rdr_data_length rep = n" and "0 < n"
    and "rdr_readData rep = Some data" and "length data = unat n"
    and "app_at c (p_appData p) = Some a" and "ad_kind a = ReadData" and "fh_at c (ad_fh a) = Some f"
    and "buf_at c (ad_readBuf a) = Some dst" and "unat n \<le> length dst" and "fh_offset f + uint n < 2 ^ 63"
  shows "\<exists>c'. Smb2Read_ProcessReplyAndAppData c p = Some (0, c', p) \<and> c_isComplete c' \<and>
     buf_at c' (ad_readBuf a) = Some (data @ drop (unat n) dst) \<and>
     fh_at c' (ad_fh a) = Some (f\<lparr>fh_offset := fh_offset f + uint n, fh_byte_count := n,
       fh_bytes_remaining := rdr_data_remaining rep\<rparr>) \<and>
     app_at c' (p_appData p) = Some (a\<lparr>ad_ntStatus := 0\<rparr>)"
proof -
  note ne = cell_kinds_differ(1) [OF assms(7,9)] cell_kinds_differ(2) [OF assms(7,10)] cell_kinds_differ(3) [OF assms(9,10)]
  have "memcpy_in dst (Some data) (unat n) = Some (data @ drop (unat n) dst)"
    using assms(4,6,11) by (simp add: memcpy_in_def mem_simps sub_bytes_def put_bytes_def word_greater_zero_iff unat_eq_zero)
  moreover have "n \<noteq> 0"
    using assms(4) by auto
  ultimately show ?thesis
    using assms ne
    by (simp add: Smb2Read_ProcessReplyAndAppData_def Let_def app_simps getFH_def getReadBuf_def add_offset_def
        fh_at_put_app buf_at_frame fh_at_frames app_at_frames)
qed

text \<open>At the end of a file the server answers a read with the error \<^verbatim>\<open>STATUS_END_OF_FILE\<close>. The handler
  stores the error body as the payload, then treats it as a read reply: no such run is defined.\<close>

lemma read_end_of_file_undefined:
  assumes "hdr_status (p_header_resp p) = SMB2_STATUS_END_OF_FILE"
    and "Smb2Read_ProcessFixed c p = Some (n, c', p')" and "0 \<le> n"
  shows "Smb2Read_ProcessReplyAndAppData c'' p' = None"
proof -
  have "smb2ReplyIsError p"
    using assms(1) by (simp add: smb2ReplyIsError_def)
  then have "smb2ProcessErrorReplyFixed c p = Some (n, c', p')"
    using assms(2) by (simp add: Smb2Read_ProcessFixed_def)
  then obtain rep where "p' = p\<lparr>p_payload := Some (PError rep)\<rparr>"
    using assms(3) by (auto simp: smb2ProcessErrorReplyFixed_def fail_with_def Let_def split: bind_splits if_splits)
  then show ?thesis
    using assms(1) by (auto simp: Smb2Read_ProcessReplyAndAppData_def Let_def split: bind_splits)
qed

section \<open>Examples\<close>

definition ex_create :: smb2_create_request where
  \<comment> \<open>the name is \<open>a/b\<close>\<close>
  "ex_create = \<lparr>cr_security_flags = 0, cr_requested_oplock_level = 0, cr_impersonation_level = 2,
     cr_smb_create_flags = 0, cr_desired_access = 0x80, cr_file_attributes = 0, cr_share_access = 7,
     cr_create_disposition = 1, cr_create_options = 0, cr_name = Some [0x61, 0x2f, 0x62, 0],
     cr_create_context_length = 0, cr_create_context = None\<rparr>"

definition ex_context :: smb2_context where
  "ex_context = new_context 0x311"

lemma ex_context_ok: "queues_ok ex_context" "c_signing_required ex_context = 0"
  by (simp_all add: queues_ok_def queued_ids_def ex_context_def new_context_def map_sorted_def)

lemma ex_create_name: "create_name ex_create = Some (Some [0x61, 0x2f, 0x62])"
  by code_simp

theorem create_request_on_wire_witness:
  "\<exists>p p' c'. Smb2Create_createPdu ex_context ex_create 1 = Some (Some p, ex_context) \<and>
     smb2_queue_pdu ex_crypto ex_context [p] = Some (True, None, c') \<and>
     map_find (c_message_id ex_context) (c_outqueue c') = Some [p'] \<and>
     vectors_data (p_out p') = header_bytes (p_header p') @ (create_fixed ex_create 6 @
       [0x61, 0, 0x5c, 0, 0x62, 0]) @ replicate 2 0"
proof -
  have v: "create_valid ex_context ex_create"
    by (simp add: create_valid_def ex_create_name Suc_less_eq) (simp add: ex_create_def)
  have b: "create_body ex_context ex_create = create_fixed ex_create 6 @ [0x61, 0, 0x5c, 0, 0x62, 0]"
    by code_simp
  have len: "pad8 (length (create_fixed ex_create 6 @ [0x61, 0, 0x5c, 0, 0x62, 0])) = 2"
    by (simp add: create_fixed_def)
  show ?thesis
    using create_request_on_wire [OF v ex_context_ok(2,1), of 1 ex_crypto] unfolding b len by blast
qed

definition ex_write :: smb2_write_request where
  "ex_write = \<lparr>wr_length = 3, wr_offset = 0, wr_buf = [7, 8, 9, 10], wr_file_id = \<lparr>persistent_id = 1, volatile_id = 2\<rparr>,
     wr_channel = 0, wr_remaining_bytes = 0, wr_write_channel_info_length = 0, wr_write_channel_info = None,
     wr_flags = 0\<rparr>"

text \<open>A read in flight: the application data, file handle and buffer at the addresses 1, 2 and 3.\<close>

definition ex_read_context :: smb2_context where
  "ex_read_context = ex_context\<lparr>c_heap := [1 \<mapsto> CApp ((new_app_data ReadData)\<lparr>ad_fh := 2, ad_readBuf := 3\<rparr>),
     2 \<mapsto> CFh (new_smb2fh 0), 3 \<mapsto> CBuf [0, 0, 0, 0]]\<rparr>"

definition ex_read_pdu :: "u32 \<Rightarrow> bytes \<Rightarrow> smb2_pdu" where
  "ex_read_pdu status fixed = (Smb2Pdu ex_context SMB2_READ 1)\<lparr>p_header_resp := zero_header\<lparr>hdr_status := status\<rparr>,
     p_in := smb2_add_iovector smb2_io_vectors_empty (mk_vec fixed)\<rparr>"

lemma ex_read_pdu_app [simp]: "p_appData (ex_read_pdu s f) = 1" "hdr_status (p_header_resp (ex_read_pdu s f)) = s"
    "iovs (p_in (ex_read_pdu s f)) = [mk_vec f]"
  by (simp_all add: ex_read_pdu_def Smb2Pdu_def Let_def smb2_add_iovector_def smb2_io_vectors_empty_def)

end
