(* ===== verification/Smb2_Auth.thy ===== *)
theory Smb2_Auth
  imports Smb2_Util Smb2_FileCmds
begin

text \<open>
  The authentication providers, \<^verbatim>\<open>NtlmAuthProvider.cpp\<close> and \<^verbatim>\<open>Krb5AuthProvider.cpp\<close>, and the virtual
  calls of \<^verbatim>\<open>Smb2AuthProvider.h\<close> on them. MD4 and HMAC-MD5 are those of OpenSSL, the GSS and Kerberos
  calls those of the system library; both are parameters. The lemmas compare the NTLM message with
  the layout of the AUTHENTICATE message in MS-NLMP.
\<close>

section \<open>NTLM hashes\<close>

definition NTOWFv1 :: "crypto \<Rightarrow> bytes \<Rightarrow> bytes option option" where
  \<comment> \<open>\<open>Some None\<close>: the result -1, for a password that is not UTF-8\<close>
  "NTOWFv1 cr password =
     do { u \<leftarrow> utf8_to_ucs2 (c_str password);
          Some (map_option (\<lambda>val. md4 cr (ucs2_bytes val)) u) }"

definition to_upper :: "u8 \<Rightarrow> u8" where
  \<comment> \<open>\<^verbatim>\<open>if (islower(c)) c = toupper(c);\<close> in the C locale\<close>
  "to_upper c = (if 0x61 \<le> c \<and> c \<le> 0x7a then c - 0x20 else c)"

definition NTOWFv2 :: "crypto \<Rightarrow> bytes \<Rightarrow> bytes \<Rightarrow> bytes \<Rightarrow> bytes option option" where
  "NTOWFv2 cr user password domain =
     do { h \<leftarrow> NTOWFv1 cr password;
          case h of None \<Rightarrow> Some None
          | Some ntlm_hash \<Rightarrow>
              do { let userdomain = map to_upper (c_string (c_str user)) @ c_string (c_str domain);
                   u \<leftarrow> utf8_to_ucs2 (c_str userdomain);
                   Some (map_option (\<lambda>val. hmac_md5 cr ntlm_hash (ucs2_bytes val)) u) } }"

section \<open>The message buffer\<close>

definition new_ntlm_auth_data :: ntlm_auth_data where
  "new_ntlm_auth_data = \<lparr>na_buf = [], na_len = 0, na_allocated = 0, na_ntlm_buf = None, na_user = [],
     na_password = [], na_domain = [], na_workstation = [], na_client_challenge = [],
     na_exported_session_key = replicate 16 0\<rparr>"

definition ntlmssp_init_context :: "bytes \<Rightarrow> bytes \<Rightarrow> bytes \<Rightarrow> bytes \<Rightarrow> bytes \<Rightarrow> ntlm_auth_data" where
  "ntlmssp_init_context user password domain workstation client_challenge =
     new_ntlm_auth_data\<lparr>na_user := user, na_password := password, na_domain := domain,
       na_workstation := workstation, na_client_challenge := client_challenge,
       na_exported_session_key := replicate 16 0\<rparr>"

definition encoder :: "bytes \<Rightarrow> ntlm_auth_data \<Rightarrow> ntlm_auth_data option" where
  \<comment> \<open>the copy is undefined when the new bytes do not fit the allocation\<close>
  "encoder buffer ad =
     (let size = of_nat (length buffer) :: u64;
          allocated = (if size + na_len ad > na_allocated ad
                       then 2 * ((size + na_allocated ad + 256) AND NOT 0xff) else na_allocated ad)
      in if unat (na_len ad) + length buffer > unat allocated then None
         else Some (ad\<lparr>na_buf := na_buf ad @ buffer, na_len := na_len ad + size, na_allocated := allocated\<rparr>))"

definition ntlm_flags :: u32 where
  "ntlm_flags = 0x80000000 OR 0x20000000 OR 0x00080000 OR 0x00000200 OR 0x00000004 OR 0x00000002 OR 0x00000001"

definition ntlm_negotiate_message :: "ntlm_auth_data \<Rightarrow> ntlm_auth_data option" where
  "ntlm_negotiate_message ad =
     do { ntlm \<leftarrow> mem_write (replicate 32 0) 0 (ascii ''NTLMSSP'' @ [0]);
          ntlm \<leftarrow> mem_write ntlm 8 (htole32 1);
          ntlm \<leftarrow> mem_write ntlm 12 (htole32 ntlm_flags);
          encoder ntlm ad }"

definition ntlm_challenge_message :: "ntlm_auth_data \<Rightarrow> bytes \<Rightarrow> nat \<Rightarrow> ntlm_auth_data option" where
  "ntlm_challenge_message ad buf len =
     do { b \<leftarrow> mem_read buf 0 len; Some (ad\<lparr>na_ntlm_buf := Some b\<rparr>) }"

fun encoders :: "bytes list \<Rightarrow> ntlm_auth_data \<Rightarrow> ntlm_auth_data option" where
  \<comment> \<open>calls of \<^verbatim>\<open>encoder\<close> in a row\<close>
  "encoders [] ad = Some ad"
| "encoders (b # bs) ad = do { ad \<leftarrow> encoder b ad; encoders bs ad }"

definition encode_temp :: "ntlm_auth_data \<Rightarrow> u64 \<Rightarrow> bytes \<Rightarrow> bytes \<Rightarrow> bytes \<Rightarrow> nat \<Rightarrow> ntlm_auth_data option" where
  "encode_temp ad t client_challenge server_challenge server_name server_name_len =
     do { sc \<leftarrow> mem_read server_challenge 0 8;
          cc \<leftarrow> mem_read client_challenge 0 8;
          sn \<leftarrow> mem_read server_name 0 server_name_len;
          encoders [replicate 8 0, sc, 0x01 # 0x01 # replicate 6 0, htole64 t, cc, replicate 4 0, sn, replicate 4 0] ad }"

section \<open>The authenticate message\<close>

definition len_pair :: "u32 \<Rightarrow> u32" where
  "len_pair n = push_bit 16 n OR n"

definition optional_ucs2 :: "bytes \<Rightarrow> u16 list option option" where
  \<comment> \<open>an empty name is not converted; it has no characters either way\<close>
  "optional_ucs2 name = (if name = [] then Some (Some []) else utf8_to_ucs2 (c_str name))"

definition name_fields :: "u16 list \<Rightarrow> ntlm_auth_data \<Rightarrow> ntlm_auth_data option" where
  "name_fields val ad =
     encoders [htole32 (len_pair (of_nat (length val) * 2)), htole32 0] ad"

definition append_at :: "int \<Rightarrow> bytes \<Rightarrow> ntlm_auth_data \<Rightarrow> ntlm_auth_data option" where
  \<comment> \<open>put the current length into the offset field at \<open>pos\<close>, then append the data\<close>
  "append_at pos data ad =
     do { b \<leftarrow> mem_write (na_buf ad) pos (htole32 (ucast (na_len ad)));
          encoder data (ad\<lparr>na_buf := b\<rparr>) }"

definition encode_authenticate :: "bytes \<Rightarrow> bytes \<Rightarrow> u64 \<Rightarrow> ntlm_auth_data \<Rightarrow> (int \<times> ntlm_auth_data) option" where
  \<comment> \<open>the second half of \<^verbatim>\<open>encode_ntlm_auth\<close>\<close>
  "encode_authenticate LMStr NTChallengeResponse_buf NTChallengeResponse_len ad =
     do { ad \<leftarrow> encoders [ascii ''NTLMSSP'' @ [0], htole32 3, htole32 0x00180018, htole32 0,
                 htole32 (len_pair (ucast NTChallengeResponse_len)), htole32 0] ad;
          d \<leftarrow> optional_ucs2 (na_domain ad);
          case d of None \<Rightarrow> Some (-1, ad)
          | Some ucs2_domain \<Rightarrow>
            do { ad \<leftarrow> name_fields ucs2_domain ad;
                 u \<leftarrow> utf8_to_ucs2 (c_str (na_user ad));
                 case u of None \<Rightarrow> Some (-1, ad)
                 | Some ucs2_user \<Rightarrow>
                   do { ad \<leftarrow> name_fields ucs2_user ad;
                        w \<leftarrow> optional_ucs2 (na_workstation ad);
                        case w of None \<Rightarrow> Some (-1, ad)
                        | Some ucs2_workstation \<Rightarrow>
                          do { ad \<leftarrow> name_fields ucs2_workstation ad;
                               ad \<leftarrow> encoders [htole32 0, htole32 0, htole32 ntlm_flags] ad;
                               ad \<leftarrow> append_at 32 (ucs2_bytes ucs2_domain) ad;
                               ad \<leftarrow> append_at 40 (ucs2_bytes ucs2_user) ad;
                               ad \<leftarrow> append_at 48 (ucs2_bytes ucs2_workstation) ad;
                               ad \<leftarrow> append_at 16 LMStr ad;
                               cc \<leftarrow> mem_read (na_client_challenge ad) 0 8;
                               ad \<leftarrow> encoder cc ad;
                               nt \<leftarrow> mem_read NTChallengeResponse_buf 0 (unat NTChallengeResponse_len);
                               ad \<leftarrow> append_at 24 nt ad;
                               Some (0, ad) } } } }"

definition encode_ntlm_auth :: "crypto \<Rightarrow> u64 \<Rightarrow> ntlm_auth_data \<Rightarrow> bytes \<Rightarrow> (int \<times> ntlm_auth_data) option" where
  "encode_ntlm_auth cr time ad server_challenge =
     do { let t = timevalToWinEpoch \<lparr>tv_sec = ucast time, tv_usec = 0\<rparr>;
          key \<leftarrow> NTOWFv2 cr (na_user ad) (na_password ad) (na_domain ad);
          case key of None \<Rightarrow> Some (-1, ad)
          | Some ResponseKeyNT \<Rightarrow>
            do { ntlm \<leftarrow> na_ntlm_buf ad;
                 server_neg_flags \<leftarrow> mem_read ntlm 20 4;
                 b \<leftarrow> mem_read ntlm 40 4;
                 let server_name_len = unat (drop_bit 16 (le32toh b));
                 b \<leftarrow> mem_read ntlm 44 4;
                 server_name_buf \<leftarrow> mem_ptr ntlm (uint (le32toh b));
                 ad \<leftarrow> encode_temp ad t (na_client_challenge ad) server_challenge server_name_buf server_name_len;
                 m \<leftarrow> mem_read (na_buf ad) 8 (unat (na_len ad - 8));
                 let NTProofStr = hmac_md5 cr ResponseKeyNT m;
                 NTChallengeResponse_buf \<leftarrow> mem_write (na_buf ad) 0 NTProofStr;
                 sc \<leftarrow> mem_read server_challenge 0 8;
                 cc \<leftarrow> mem_read (na_client_challenge ad) 0 8;
                 let LMStr = hmac_md5 cr ResponseKeyNT (sc @ cc);
                 encode_authenticate LMStr NTChallengeResponse_buf (na_len ad)
                   (ad\<lparr>na_buf := [], na_len := 0, na_allocated := 0,
                       na_exported_session_key := hmac_md5 cr ResponseKeyNT NTProofStr\<rparr>) } }"

definition ntlmssp_generate_blob ::
  "crypto \<Rightarrow> u64 \<Rightarrow> ntlm_auth_data \<Rightarrow> bytes option \<Rightarrow> nat \<Rightarrow> (int \<times> (bytes \<times> u16) option \<times> ntlm_auth_data) option" where
  \<comment> \<open>the second component is what is stored through \<^verbatim>\<open>output_buf\<close> and \<^verbatim>\<open>output_len\<close>\<close>
  "ntlmssp_generate_blob cr time ad input_buf input_len =
     do { let ad = ad\<lparr>na_buf := [], na_len := 0, na_allocated := 0\<rparr>;
          (rc, ad) \<leftarrow>
            (case input_buf of
               None \<Rightarrow> do { ad \<leftarrow> ntlm_negotiate_message ad; Some (0, ad) }
             | Some buf \<Rightarrow>
                 do { ad \<leftarrow> ntlm_challenge_message ad buf input_len;
                      ntlm \<leftarrow> na_ntlm_buf ad;
                      sc \<leftarrow> mem_ptr ntlm 24;
                      encode_ntlm_auth cr time ad sc });
          if rc < 0 then Some (-1, None, ad) else Some (0, Some (na_buf ad, ucast (na_len ad)), ad) }"

definition ntlmssp_get_session_key :: "ntlm_auth_data \<Rightarrow> bytes \<times> u8" where
  "ntlmssp_get_session_key ad = (take 16 (na_exported_session_key ad), 16)"

section \<open>Kerberos\<close>

definition spnego_mech_krb5 :: bytes where
  "spnego_mech_krb5 = [0x2a, 0x86, 0x48, 0x86, 0xf7, 0x12, 0x01, 0x02, 0x02]"

text \<open>
  The message of a failed GSS call names the call, the major and the minor status; their texts come
  from \<^verbatim>\<open>gss_display_status\<close>.
\<close>

definition krb5_get_gss_error :: "string \<Rightarrow> u32 \<Rightarrow> u32 \<Rightarrow> err_msg" where
  "krb5_get_gss_error f maj minor = Msg (f @ '': (%s,%s)'') [ucast maj, ucast minor]"

definition krb5_cached_cred :: "gss \<Rightarrow> bytes \<Rightarrow> bytes \<Rightarrow> bytes \<Rightarrow> err_msg + nat" where
  "krb5_cached_cred g domain user_name password =
     (let (ret, cctx) = krb5_init_context g in
      if ret \<noteq> 0 then Inl (Msg ''Failed to initialize krb5 context - %s'' [word_of_int ret])
      else let ret = krb5_set_default_realm g cctx domain in
      if ret \<noteq> 0 then Inl (Msg ''Failed to set default realm - %s'' [word_of_int ret])
      else let (ret, princ) = krb5_parse_name g cctx user_name in
      if ret \<noteq> 0 then Inl (Msg ''Failed to parse principal name - %s'' [word_of_int ret])
      else let (ret, cache) = krb5_cc_new_unique g cctx in
      if ret \<noteq> 0 then Inl (Msg ''Failed create cache - %s'' [word_of_int ret])
      else let ret = krb5_get_init_creds_password g cctx princ password cache in
      if ret \<noteq> 0
      then Inl (Msg ''krb5_get_init_creds_password: Failed to init credentials - %d, %s'' [word_of_int ret])
      else let (maj, min, cred) = gss_krb5_import_cred g cache princ in
      if maj \<noteq> 0 then Inl (krb5_get_gss_error ''gss_krb5_import_cred'' maj min) else Inr cred)"

definition krb5_negotiate_reply ::
  "gss \<Rightarrow> bytes \<Rightarrow> bytes \<Rightarrow> bytes \<Rightarrow> bytes \<Rightarrow> bool \<Rightarrow> (err_msg option \<times> private_auth_data option) option" where
  \<comment> \<open>the error message where the result is -1, and \<^verbatim>\<open>krb5AuthData\<close>, null while it is not allocated\<close>
  "krb5_negotiate_reply g server domain user_name password use_cached_creds =
     (if use_cached_creds \<and> user_name = []
      then Some (Some (Msg ''user_name must be provided while using krb5cc mode'' []), None)
      else if use_cached_creds \<and> domain = []
      then Some (Some (Msg ''domain must be set while using krb5cc mode'' []), None)
      else if use_cached_creds \<and> password = []
      then Some (Some (Msg ''password must be set while using krb5cc mode'' []), None)
      else
        let g_server = ascii ''cifs@'' @ c_string (c_str server);
            pa = \<lparr>pa_context = 0, pa_cred = 0, pa_user_name = 0, pa_target_name = 0, pa_mech_type = [],
                  pa_req_flags = 0, pa_output_token = [], pa_g_server = g_server\<rparr>;
            (maj, min, target) = gss_import_name g g_server True
        in if maj \<noteq> 0 then Some (Some (krb5_get_gss_error ''gss_import_name'' maj min), Some pa)
        else let pa = pa\<lparr>pa_target_name := target\<rparr>;
                 principal = c_string (c_str user_name) @ [0x40] @ c_string (c_str domain) in
        if use_cached_creds \<and> length principal + 1 > 2048 then None
        else let (maj, min, user) = gss_import_name g (if use_cached_creds then principal else user_name) False in
        if maj \<noteq> 0 then Some (Some (krb5_get_gss_error ''gss_import_name'' maj min), Some pa)
        else let pa = pa\<lparr>pa_user_name := user, pa_mech_type := spnego_mech_krb5, pa_cred := 0\<rparr> in
        if use_cached_creds then
          (case krb5_cached_cred g (c_string (c_str domain)) (c_string (c_str user_name)) (c_string (c_str password)) of
             Inl e \<Rightarrow> Some (Some e, Some pa)
           | Inr cred \<Rightarrow> Some (None, Some (pa\<lparr>pa_cred := cred\<rparr>)))
        else let (maj, min, cred) = gss_acquire_cred g user spnego_mech_krb5 in
          if maj \<noteq> 0 then Some (Some (krb5_get_gss_error ''gss_acquire_cred'' maj min), Some pa)
          else Some (None, Some (pa\<lparr>pa_cred := cred\<rparr>)))"

definition krb5_session_get_session_key :: "gss \<Rightarrow> private_auth_data \<Rightarrow> err_msg + bytes \<times> u8" where
  "krb5_session_get_session_key g pa =
     (let (maj, min, elements) = gss_session_key g (pa_context pa) in
      if maj \<noteq> 0 then Inl (krb5_get_gss_error ''gss_inquire_sec_context_by_oid'' maj min)
      else case elements of
        [] \<Rightarrow> Inl (Msg ''Invalid session key'' [])
      | k # _ \<Rightarrow> if k = [] then Inl (Msg ''Invalid session key'' []) else Inr (k, of_nat (length k)))"

definition krb5_session_request :: "gss \<Rightarrow> private_auth_data \<Rightarrow> bytes option \<Rightarrow> err_msg option \<times> private_auth_data" where
  \<comment> \<open>\<open>GSS_ERROR\<close> looks at the upper half of the status\<close>
  "krb5_session_request g pa token =
     (let pa = (case token of None \<Rightarrow> pa | Some _ \<Rightarrow> pa\<lparr>pa_output_token := []\<rparr>);
          pa = pa\<lparr>pa_req_flags := 8 OR 2 OR 4\<rparr>;
          (maj, min, ctx, out) =
            gss_init_sec_context g (pa_cred pa) (pa_context pa) (pa_target_name pa) (pa_mech_type pa) (pa_req_flags pa) token;
          pa = pa\<lparr>pa_context := ctx, pa_output_token := out\<rparr>
      in if maj AND 1 \<noteq> 0 then (None, pa)
         else if maj AND 0xffff0000 \<noteq> 0 then (Some (krb5_get_gss_error ''gss_init_sec_context'' maj min), pa)
         else (None, pa))"

section \<open>The virtual calls\<close>

definition new_authenticator :: "smb2_sec \<Rightarrow> authenticator" where
  "new_authenticator sec = (if sec = SMB2_SEC_KRB5 then AKrb5 None else ANtlm None)"

definition auth_negotiateReply :: "env \<Rightarrow> smb2_context \<Rightarrow> (err_msg option \<times> smb2_context) option" where
  \<comment> \<open>an error message where the result is negative\<close>
  "auth_negotiateReply env smb2 =
     (case c_authenticator smb2 of
        None \<Rightarrow> None
      | Some (ANtlm x) \<Rightarrow>
          if c_password smb2 = [] then Some (Some (Msg ''No password set, can not use NTLM'' []), smb2)
          else Some (None, smb2\<lparr>c_authenticator := Some (ANtlm (Some (ntlmssp_init_context (c_user smb2)
                 (c_password smb2) (c_domain smb2) (c_workstation smb2) (c_client_challenge smb2))))\<rparr>)
      | Some (AKrb5 x) \<Rightarrow>
          do { (e, pa) \<leftarrow> krb5_negotiate_reply (e_gss env) (c_server smb2) (c_domain smb2) (c_user smb2)
                 (c_password smb2) (c_use_cached_creds smb2);
               Some (e, smb2\<lparr>c_authenticator := Some (AKrb5 pa)\<rparr>) })"

definition auth_sessionRequest ::
  "env \<Rightarrow> smb2_context \<Rightarrow> bytes option \<Rightarrow> nat \<Rightarrow> (((err_msg + bytes \<times> u16)) \<times> smb2_context) option" where
  \<comment> \<open>the token and its length where the result is 0. NTLM sets no message; the caller's is empty\<close>
  "auth_sessionRequest env smb2 inBuf inBufLen =
     (case c_authenticator smb2 of
        Some (ANtlm (Some ad)) \<Rightarrow>
          do { (rc, out, ad) \<leftarrow> ntlmssp_generate_blob (e_crypto env) (e_time env) ad inBuf inBufLen;
               let smb2 = smb2\<lparr>c_authenticator := Some (ANtlm (Some ad))\<rparr>;
               Some (case out of None \<Rightarrow> Inl (Msg [] []) | Some o1 \<Rightarrow> Inr o1, smb2) }
      | Some (AKrb5 (Some pa)) \<Rightarrow>
          do { token \<leftarrow> (case inBuf of None \<Rightarrow> Some None
                        | Some b \<Rightarrow> do { t \<leftarrow> mem_read b 0 inBufLen; Some (Some t) });
               let (e, pa) = krb5_session_request (e_gss env) pa token;
               let smb2 = smb2\<lparr>c_authenticator := Some (AKrb5 (Some pa))\<rparr>;
               Some (case e of Some e \<Rightarrow> Inl e
                     | None \<Rightarrow> Inr (pa_output_token pa, of_nat (length (pa_output_token pa))), smb2) }
      | _ \<Rightarrow> None)"

definition auth_getSessionKey :: "env \<Rightarrow> smb2_context \<Rightarrow> (err_msg + bytes \<times> u8) option" where
  "auth_getSessionKey env smb2 =
     (case c_authenticator smb2 of
        Some (ANtlm (Some ad)) \<Rightarrow> Some (Inr (ntlmssp_get_session_key ad))
      | Some (AKrb5 (Some pa)) \<Rightarrow> Some (krb5_session_get_session_key (e_gss env) pa)
      | _ \<Rightarrow> None)"

section \<open>The message of MS-NLMP\<close>

text \<open>
  \<open>ms_field n off\<close> is the descriptor of a payload field of \<open>n\<close> bytes at offset \<open>off\<close>, \<open>ms_temp\<close> the
  structure the proof is computed over.
\<close>

definition ms_field :: "nat \<Rightarrow> nat \<Rightarrow> bytes" where
  "ms_field n off = htole16 (of_nat n) @ htole16 (of_nat n) @ htole32 (of_nat off)"

definition ms_temp :: "u64 \<Rightarrow> bytes \<Rightarrow> bytes \<Rightarrow> bytes" where
  "ms_temp t cc info = (0x01 # 0x01 # replicate 6 0) @ htole64 t @ cc @ replicate 4 0 @ info @ replicate 4 0"

definition ms_authenticate :: "bytes \<Rightarrow> bytes \<Rightarrow> bytes \<Rightarrow> bytes \<Rightarrow> bytes \<Rightarrow> bytes" where
  "ms_authenticate d u w lm nt =
     ascii ''NTLMSSP'' @ [0] @ htole32 3 @
     ms_field (length lm) (64 + length d + length u + length w) @
     ms_field (length nt) (64 + length d + length u + length w + length lm) @
     ms_field (length d) 64 @ ms_field (length u) (64 + length d) @
     ms_field (length w) (64 + length d + length u) @
     replicate 8 0 @ htole32 ntlm_flags @ d @ u @ w @ lm @ nt"

subsection \<open>The buffer grows as needed\<close>

definition built :: "ntlm_auth_data \<Rightarrow> bytes \<Rightarrow> ntlm_auth_data \<Rightarrow> bool" where
  "built base bs ad \<longleftrightarrow> (\<exists>a. ad = base\<lparr>na_buf := bs, na_len := of_nat (length bs), na_allocated := a\<rparr> \<and>
     length bs \<le> unat a \<and> unat a < 2 ^ 35)"

lemma clear_low_byte: "unat (x AND - 256 :: u64) = unat x - unat x mod 256"
proof -
  have "(- 256 :: u64) = NOT (mask 8)"
    by (simp add: mask_eq_exp_minus_1)
  moreover have "x AND NOT (mask 8) = push_bit 8 (drop_bit 8 x)"
    by (rule bit_word_eqI) (auto simp: bit_not_iff bit_and_iff bit_mask_iff bit_push_bit_iff bit_drop_bit_eq)
  ultimately have "x AND - 256 = push_bit 8 (drop_bit 8 x)"
    by (simp only:)
  moreover have "unat (push_bit 8 (drop_bit 8 x)) = unat x div 256 * 256"
    using unat_u64_less [of x] div_times_less_eq_dividend [of "unat x" 256]
    by (simp add: push_bit_eq_mult drop_bit_eq_div unat_word_ariths unat_div_distrib)
  ultimately show ?thesis
    by (simp add: minus_mod_eq_div_mult)
qed

lemma encoder_built:
  assumes "built base bs ad" and "length bs + length b < 2 ^ 32"
  shows "\<exists>ad'. encoder b ad = Some ad' \<and> built base (bs @ b) ad'"
proof -
  obtain a where ad: "ad = base\<lparr>na_buf := bs, na_len := of_nat (length bs), na_allocated := a\<rparr>"
    and a: "length bs \<le> unat a" "unat a < 2 ^ 35"
    using assms(1) by (auto simp: built_def)
  let ?s = "of_nat (length b) :: u64" and ?l = "of_nat (length bs) :: u64"
  have s: "unat ?s = length b" "unat ?l = length bs" "unat (?s + ?l) = length b + length bs"
    using assms(2) by (simp_all add: unat_word_ariths unat_of_nat_u64)
  have x: "unat (?s + a + 256) = length b + unat a + 256"
    using assms(2) a s by (simp add: unat_word_ariths)
  define n where "n = 2 * ((?s + a + 256) AND - 256)"
  have n: "unat n = 2 * (length b + unat a + 256 - (length b + unat a + 256) mod 256)"
    using assms(2) a unfolding n_def by (subst unat_word_ariths) (simp add: clear_low_byte x)
  have grow: "?s + ?l > a \<longleftrightarrow> length b + length bs > unat a"
    by (simp add: word_less_nat_alt s)
  show ?thesis
  proof (cases "length b + length bs > unat a")
    case True
    have "length bs + length b \<le> unat n" "unat n < 2 ^ 35"
      using True assms(2) a mod_less_divisor [of 256 "length b + unat a + 256"] by (simp_all add: n)
    then show ?thesis
      using True s by (auto simp: encoder_def ad grow Let_def n_def [symmetric] built_def)
  next
    case False
    then show ?thesis
      using a s by (simp add: encoder_def ad grow Let_def built_def) (rule exI [of _ a], simp)
  qed
qed

definition yields :: "'a option \<Rightarrow> ('a \<Rightarrow> bool) \<Rightarrow> bool" where
  "yields m Q \<longleftrightarrow> (\<exists>x. m = Some x \<and> Q x)"

lemma yields_bind: "yields m R \<Longrightarrow> (\<And>x. R x \<Longrightarrow> yields (f x) Q) \<Longrightarrow> yields (m \<bind> f) Q"
  by (auto simp: yields_def)

lemma yields_encoder:
  "built base bs ad \<Longrightarrow> length bs + length b < 2 ^ 32 \<Longrightarrow> yields (encoder b ad) (built base (bs @ b))"
  using encoder_built by (simp add: yields_def)

lemma yields_encoders:
  "built base bs ad \<Longrightarrow> length bs + length (concat xs) < 2 ^ 32 \<Longrightarrow>
   yields (encoders xs ad) (built base (bs @ concat xs))"
proof (induction xs arbitrary: bs ad)
  case Nil
  then show ?case by (simp add: yields_def)
next
  case (Cons x xs)
  have "yields (encoder x ad) (built base (bs @ x))"
    using Cons.prems by (intro yields_encoder) simp_all
  moreover have "yields (encoders xs ad') (built base (bs @ concat (x # xs)))" if "built base (bs @ x) ad'" for ad'
    using Cons.IH [OF that] Cons.prems(2) by (simp add: add.assoc)
  ultimately show ?case
    unfolding encoders.simps by (rule yields_bind)
qed

lemma ucast_of_nat_u32: "(ucast (of_nat k :: u64) :: u32) = of_nat k"
  by (rule bit_word_eqI) (simp add: bit_simps)

lemma ucast_of_nat_u16: "(ucast (of_nat k :: u64) :: u16) = of_nat k"
  by (rule bit_word_eqI) (simp add: bit_simps)

lemma le_word_zeros: "le_word (replicate n 0) = 0"
  by (induction n) simp_all

lemma yields_append_at:
  assumes "built base (h @ r) ad" and "pos + 4 \<le> length h" and "length (h @ r) + length data < 2 ^ 32"
  shows "yields (append_at (int pos) data ad)
    (built base (put_bytes h pos (htole32 (of_nat (length (h @ r)))) @ r @ data))"
proof -
  obtain a where ad: "ad = base\<lparr>na_buf := h @ r, na_len := of_nat (length (h @ r)), na_allocated := a\<rparr>"
    and a: "length (h @ r) \<le> unat a" "unat a < 2 ^ 35"
    using assms(1) by (auto simp: built_def)
  let ?x = "htole32 (of_nat (length (h @ r)))"
  have u: "(ucast (of_nat (length (h @ r)) :: u64) :: u32) = of_nat (length (h @ r))"
    by (rule ucast_of_nat_u32)
  have p: "put_bytes (h @ r) pos ?x = put_bytes h pos ?x @ r"
    using assms(2) by (simp add: put_bytes_def)
  have "built base (put_bytes h pos ?x @ r) (ad\<lparr>na_buf := put_bytes h pos ?x @ r\<rparr>)"
    using a assms(2) unfolding built_def ad by (intro exI [of _ a]) simp
  moreover have "append_at (int pos) data ad = encoder data (ad\<lparr>na_buf := put_bytes h pos ?x @ r\<rparr>)"
    using assms(2) by (simp add: append_at_def mem_write_def ad u p del: length_append) simp
  ultimately show ?thesis
    using yields_encoder [of base "put_bytes h pos ?x @ r" _ data] assms(2,3) by simp
qed

lemma le_bytes_2_of_nat: "le_bytes 2 (of_nat n :: u32) = htole16 (of_nat n)"
  unfolding htole16_def by (rule le_bytes_cong_bits) (simp add: bit_simps bit_of_nat_iff)

lemma htole32_len_pair:
  assumes "n < 2 ^ 16"
  shows "htole32 (len_pair (of_nat n)) = htole16 (of_nat n) @ htole16 (of_nat n)"
proof -
  let ?w = "len_pair (of_nat n)" and ?n = "of_nat n :: u32"
  have "n = take_bit 16 n"
    using assms by (simp add: take_bit_nat_eq_self)
  then have h: "bit n i \<Longrightarrow> i < 16" for i
    by (metis bit_take_bit_iff)
  have "le_bytes 2 ?w = le_bytes 2 ?n" "le_bytes 2 (drop_bit 16 ?w) = le_bytes 2 ?n"
    by (rule le_bytes_cong_bits; auto simp: len_pair_def bit_simps dest: h)+
  then show ?thesis
    using le_bytes_add [of 2 2 ?w] by (simp add: htole32_def le_bytes_2_of_nat)
qed

lemma mem_read_0 [simp]: "n \<le> length b \<Longrightarrow> mem_read b 0 n = Some (take n b)"
  by (simp add: mem_read_def sub_bytes_def)

lemma yields_encode_temp:
  assumes "built base [] ad" and "8 \<le> length sc" and "length cc = 8" and "n \<le> length info" and "n < 2 ^ 31"
  shows "yields (encode_temp ad t cc sc info n) (built base (replicate 8 0 @ take 8 sc @ ms_temp t cc (take n info)))"
proof -
  let ?xs = "[replicate 8 0, take 8 sc, 0x01 # 0x01 # replicate 6 0, htole64 t, cc, replicate 4 0, take n info, replicate 4 0]"
  have "yields (encoders ?xs ad) (built base ([] @ concat ?xs))"
    using assms by (intro yields_encoders) simp_all
  moreover have "encode_temp ad t cc sc info n = encoders ?xs ad"
    unfolding encode_temp_def using assms by (simp del: encoders.simps)
  ultimately show ?thesis
    by (simp add: ms_temp_def)
qed

lemma yields_name_fields:
  assumes "built base bs ad" and "length val < 2 ^ 15" and "length bs + 8 < 2 ^ 32"
  shows "yields (name_fields val ad) (built base (bs @ ms_field (length (ucs2_bytes val)) 0))"
proof -
  have "htole32 (len_pair (of_nat (length val) * 2)) = htole16 (of_nat (2 * length val)) @ htole16 (of_nat (2 * length val))"
    using htole32_len_pair [of "2 * length val"] assms(2) by (simp add: mult.commute)
  then show ?thesis
    using yields_encoders [OF assms(1), of "[htole32 (len_pair (of_nat (length val) * 2)), htole32 0]"] assms(3)
    by (simp add: name_fields_def ms_field_def del: encoders.simps)
qed

lemma built_fields:
  assumes "built base bs ad"
  shows "na_buf ad = bs" "na_len ad = of_nat (length bs)" "na_domain ad = na_domain base" "na_user ad = na_user base"
    "na_workstation ad = na_workstation base" "na_client_challenge ad = na_client_challenge base"
    "na_exported_session_key ad = na_exported_session_key base"
  using assms by (auto simp: built_def)

text \<open>The 64 bytes in front of the payload, before and after the offsets are filled in.\<close>

definition blank_head :: "nat \<Rightarrow> nat \<Rightarrow> nat \<Rightarrow> nat \<Rightarrow> bytes" where
  "blank_head nt d u w = ascii ''NTLMSSP'' @ [0] @ htole32 3 @ ms_field 24 0 @ ms_field nt 0 @ ms_field d 0 @
     ms_field u 0 @ ms_field w 0 @ replicate 8 0 @ htole32 ntlm_flags"

lemma length_ms_field [simp]: "length (ms_field n off) = 8"
  by (simp add: ms_field_def)

lemma length_blank_head [simp]: "length (blank_head nt d u w) = 64"
  by (simp add: blank_head_def)

lemma fill_head:
  "put_bytes (put_bytes (put_bytes (put_bytes (put_bytes (blank_head nt d u w)
     32 (htole32 (of_nat o1))) 40 (htole32 (of_nat o2))) 48 (htole32 (of_nat o3))) 16 (htole32 (of_nat o4)))
     24 (htole32 (of_nat o5)) =
   ascii ''NTLMSSP'' @ [0] @ htole32 3 @ ms_field 24 o4 @ ms_field nt o5 @ ms_field d o1 @ ms_field u o2 @ ms_field w o3 @
     replicate 8 0 @ htole32 ntlm_flags"
  by (simp add: blank_head_def ms_field_def put_bytes_def)

lemma encode_authenticate_layout:
  assumes "built base [] ad" and "optional_ucs2 (na_domain base) = Some (Some d)"
    and "utf8_to_ucs2 (c_str (na_user base)) = Some (Some u)" and "optional_ucs2 (na_workstation base) = Some (Some w)"
    and len: "length d < 2 ^ 15" "length u < 2 ^ 15" "length w < 2 ^ 15" "length nt < 2 ^ 16"
    and cc: "length (na_client_challenge base) = 8" and lm: "length lm = 16"
  shows "\<exists>ad'. encode_authenticate lm nt (of_nat (length nt)) ad = Some (0, ad') \<and>
    built base (ms_authenticate (ucs2_bytes d) (ucs2_bytes u) (ucs2_bytes w) (lm @ na_client_challenge base) nt) ad'"
proof -
  let ?d = "ucs2_bytes d" and ?u = "ucs2_bytes u" and ?w = "ucs2_bytes w" and ?cc = "na_client_challenge base"
  let ?h1 = "[ascii ''NTLMSSP'' @ [0], htole32 3, htole32 0x00180018, htole32 0,
    htole32 (len_pair (ucast (of_nat (length nt) :: u64))), htole32 0]"
  have pair: "htole32 (len_pair (ucast (of_nat (length nt) :: u64))) = htole16 (of_nat (length nt)) @ htole16 (of_nat (length nt))"
    using htole32_len_pair [OF len(4)] by (simp add: ucast_of_nat_u32)
  have lm_len: "htole32 0x00180018 = htole16 24 @ htole16 24"
    using htole32_len_pair [of 24] by (simp add: len_pair_def)
  have zero8: "replicate 8 0 = htole32 0 @ htole32 0"
    by (simp add: htole32_def numeral_eq_Suc)
  obtain ad1 where e1: "encoders ?h1 ad = Some ad1" and b1: "built base (concat ?h1) ad1"
    using yields_encoders [OF assms(1), of ?h1] by (auto simp: yields_def simp del: encoders.simps)
  obtain ad2 where e2: "name_fields d ad1 = Some ad2" and b2: "built base (concat ?h1 @ ms_field (length ?d) 0) ad2"
    using yields_name_fields [OF b1 len(1)] by (auto simp: yields_def)
  obtain ad3 where e3: "name_fields u ad2 = Some ad3"
    and b3: "built base ((concat ?h1 @ ms_field (length ?d) 0) @ ms_field (length ?u) 0) ad3"
    using yields_name_fields [OF b2 len(2)] by (auto simp: yields_def)
  obtain ad4 where e4: "name_fields w ad3 = Some ad4"
    and b4: "built base (((concat ?h1 @ ms_field (length ?d) 0) @ ms_field (length ?u) 0) @ ms_field (length ?w) 0) ad4"
    using yields_name_fields [OF b3 len(3)] by (auto simp: yields_def)
  let ?head = "blank_head (length nt) (length ?d) (length ?u) (length ?w)"
  let ?h5 = "[htole32 0, htole32 0, htole32 ntlm_flags]"
  have head: "(((concat ?h1 @ ms_field (length ?d) 0) @ ms_field (length ?u) 0) @ ms_field (length ?w) 0) @ concat ?h5 = ?head @ []"
    by (simp add: blank_head_def ms_field_def pair lm_len zero8 del: replicate.simps length_ucs2_bytes of_nat_mult)
  obtain ad5 where e5: "encoders ?h5 ad4 = Some ad5" and b5: "built base (?head @ []) ad5"
    using yields_encoders [OF b4, of ?h5] unfolding head by (auto simp: yields_def simp del: encoders.simps)
  obtain ad6 where e6: "append_at 32 ?d ad5 = Some ad6"
    and b6: "built base (put_bytes ?head 32 (htole32 (of_nat 64)) @ ?d) ad6"
    using yields_append_at [OF b5, of 32 ?d] len(1) by (auto simp: yields_def)
  let ?head6 = "put_bytes ?head 32 (htole32 (of_nat 64))"
  obtain ad7 where e7: "append_at 40 ?u ad6 = Some ad7"
    and b7: "built base (put_bytes ?head6 40 (htole32 (of_nat (64 + length ?d))) @ ?d @ ?u) ad7"
    using yields_append_at [OF b6, of 40 ?u] len(1,2) by (auto simp: yields_def)
  let ?head7 = "put_bytes ?head6 40 (htole32 (of_nat (64 + length ?d)))"
  obtain ad8 where e8: "append_at 48 ?w ad7 = Some ad8"
    and b8: "built base (put_bytes ?head7 48 (htole32 (of_nat (64 + length ?d + length ?u))) @ (?d @ ?u) @ ?w) ad8"
    using yields_append_at [OF b7, of 48 ?w] len(1-3) by (auto simp: yields_def add.assoc)
  let ?head8 = "put_bytes ?head7 48 (htole32 (of_nat (64 + length ?d + length ?u)))"
  obtain ad9 where e9: "append_at 16 lm ad8 = Some ad9"
    and b9: "built base (put_bytes ?head8 16 (htole32 (of_nat (64 + length ?d + length ?u + length ?w))) @
      ((?d @ ?u) @ ?w) @ lm) ad9"
    using yields_append_at [OF b8, of 16 lm] len(1-3) lm by (auto simp: yields_def add.assoc)
  let ?head9 = "put_bytes ?head8 16 (htole32 (of_nat (64 + length ?d + length ?u + length ?w)))"
  obtain ad10 where e10: "encoder ?cc ad9 = Some ad10" and b10: "built base (?head9 @ (?d @ ?u @ ?w @ lm @ ?cc)) ad10"
    using yields_encoder [OF b9, of ?cc] len(1-3) lm cc by (auto simp: yields_def)
  obtain ad11 where e11: "append_at 24 nt ad10 = Some ad11"
    and b11: "built base (put_bytes ?head9 24 (htole32 (of_nat (64 + length ?d + length ?u + length ?w + 24))) @
      (?d @ ?u @ ?w @ lm @ ?cc) @ nt) ad11"
    using yields_append_at [OF b10, of 24 nt] len lm cc by (auto simp: yields_def add.assoc)
  have "built base (ms_authenticate ?d ?u ?w (lm @ ?cc) nt) ad11"
    using b11 unfolding fill_head by (simp add: ms_authenticate_def lm cc del: length_ucs2_bytes)
  then show ?thesis
    using assms(2-4) e1 e2 e3 e4 e5 e6 e7 e8 e9 e10 e11 cc len(4) built_fields [OF b1] built_fields [OF b2]
      built_fields [OF b3] built_fields [OF b9]
    by (simp add: encode_authenticate_def unat_of_nat_u64 del: encoders.simps)
qed

subsection \<open>The response to a challenge\<close>

definition info_len :: "bytes \<Rightarrow> nat" where
  "info_len ch = unat (le16toh (sub_bytes ch 40 2))"

definition info_offset :: "bytes \<Rightarrow> nat" where
  "info_offset ch = unat (le32toh (sub_bytes ch 44 4))"

definition challenge_ok :: "bytes \<Rightarrow> bool" where
  \<comment> \<open>the target information lies inside the message, its two length fields agree, which the code relies on as it reads
    the second one, and the response fits its 16-bit length\<close>
  "challenge_ok ch \<longleftrightarrow> 48 \<le> length ch \<and> sub_bytes ch 42 2 = sub_bytes ch 40 2 \<and> info_offset ch + info_len ch \<le> length ch \<and> 48 + info_len ch < 2 ^ 16"

text \<open>
  What MS-NLMP prescribes as the answer: the structure the proof covers, the proof, and the
  message, for the names \<open>d\<close>, \<open>u\<close> and \<open>w\<close> in UCS-2.
\<close>

definition nt_temp :: "u64 \<Rightarrow> ntlm_auth_data \<Rightarrow> bytes \<Rightarrow> bytes" where
  "nt_temp time ad ch = ms_temp (timevalToWinEpoch \<lparr>tv_sec = ucast time, tv_usec = 0\<rparr>) (na_client_challenge ad)
     (sub_bytes ch (info_offset ch) (info_len ch))"

definition nt_proof :: "crypto \<Rightarrow> bytes \<Rightarrow> u64 \<Rightarrow> ntlm_auth_data \<Rightarrow> bytes \<Rightarrow> bytes" where
  "nt_proof cr key time ad ch = hmac_md5 cr key (sub_bytes ch 24 8 @ nt_temp time ad ch)"

definition ms_answer ::
  "crypto \<Rightarrow> bytes \<Rightarrow> u64 \<Rightarrow> ntlm_auth_data \<Rightarrow> bytes \<Rightarrow> u16 list \<Rightarrow> u16 list \<Rightarrow> u16 list \<Rightarrow> bytes" where
  "ms_answer cr key time ad ch d u w = ms_authenticate (ucs2_bytes d) (ucs2_bytes u) (ucs2_bytes w)
     (hmac_md5 cr key (sub_bytes ch 24 8 @ na_client_challenge ad) @ na_client_challenge ad)
     (nt_proof cr key time ad ch @ nt_temp time ad ch)"

lemma le_word_append: "le_word (xs @ ys) = (le_word xs OR push_bit (8 * length xs) (le_word ys) :: 'a::len word)"
  by (induction xs) (simp_all add: push_bit_or or.assoc push_bit_push_bit add.commute)

lemma bit_le_word_small: "bit (le_word xs :: 'a::len word) i \<Longrightarrow> i < 8 * length xs"
proof (induction xs arbitrary: i)
  case (Cons x xs)
  from Cons.prems show ?case
    using Cons.IH [of "i - 8"] bit_imp_le_length [of x i] by (auto simp: bit_simps)
qed simp

lemma bit_le_word_width:
  "i < LENGTH('a) \<Longrightarrow> i < LENGTH('b) \<Longrightarrow> bit (le_word xs :: 'a::len word) i = bit (le_word xs :: 'b::len word) i"
  by (induction xs arbitrary: i) (auto simp: bit_simps)

lemma max_len_field:
  assumes "48 \<le> length ch" and "sub_bytes ch 42 2 = sub_bytes ch 40 2"
  shows "unat (drop_bit 16 (le32toh (sub_bytes ch 40 4))) = info_len ch"
proof -
  have s: "sub_bytes ch 40 4 = sub_bytes ch 40 2 @ sub_bytes ch 42 2"
    using assms(1) by (simp add: sub_bytes_def take_add [of 2 2, simplified])
  have l: "length (sub_bytes ch 40 2) = 2" "length (sub_bytes ch 42 2) = 2"
    using assms(1) by simp_all
  have join: "drop_bit 16 (a OR push_bit 16 b) = ucast c"
    if "\<And>i. bit a i \<Longrightarrow> i < 16" "\<And>i. bit b i \<Longrightarrow> i < 16" "\<And>i. i < 16 \<Longrightarrow> bit c i = bit b i" for a b :: u32 and c :: u16
  proof (rule bit_word_eqI)
    fix i assume "i < LENGTH(32)"
    then show "bit (drop_bit 16 (a OR push_bit 16 b)) i = bit (ucast c :: u32) i"
      using that(1) [of "16 + i"] that(2) [of i] that(3) [of i] bit_imp_le_length [of c i] by (auto simp: bit_simps)
  qed
  have e: "(le_word (sub_bytes ch 40 4) :: u32) = le_word (sub_bytes ch 40 2) OR push_bit 16 (le_word (sub_bytes ch 42 2))"
    unfolding s le_word_append l by simp
  have "drop_bit 16 (le_word (sub_bytes ch 40 4) :: u32) = ucast (le_word (sub_bytes ch 42 2) :: u16)"
    unfolding e
  proof (rule join)
    show "i < 16" if "bit (le_word (sub_bytes ch 40 2) :: u32) i" for i
      using bit_le_word_small [OF that] l by simp
    show "i < 16" if "bit (le_word (sub_bytes ch 42 2) :: u32) i" for i
      using bit_le_word_small [OF that] l by simp
  qed (rule bit_le_word_width, simp_all)
  then show ?thesis
    by (simp add: info_len_def le32toh_def le16toh_def assms(2))
qed

lemma answer_layout:
  assumes key: "NTOWFv2 cr (na_user ad) (na_password ad) (na_domain ad) = Some (Some key)"
    and names: "optional_ucs2 (na_domain ad) = Some (Some d)" "utf8_to_ucs2 (c_str (na_user ad)) = Some (Some u)"
    "optional_ucs2 (na_workstation ad) = Some (Some w)"
    and short: "length d < 2 ^ 15" "length u < 2 ^ 15" "length w < 2 ^ 15"
    and cc: "length (na_client_challenge ad) = 8" and ch: "challenge_ok ch"
    and hmac: "\<forall>k m. length (hmac_md5 cr k m) = 16"
  shows "\<exists>ad'. ntlmssp_generate_blob cr time ad (Some ch) (length ch) =
       Some (0, Some (ms_answer cr key time ad ch d u w, of_nat (length (ms_answer cr key time ad ch d u w))), ad') \<and>
     ntlmssp_get_session_key ad' = (hmac_md5 cr key (nt_proof cr key time ad ch), 16)"
proof -
  let ?ad = "ad\<lparr>na_buf := [], na_len := 0, na_allocated := 0, na_ntlm_buf := Some ch\<rparr>"
  let ?t = "timevalToWinEpoch \<lparr>tv_sec = ucast time, tv_usec = 0\<rparr>" and ?info = "drop (info_offset ch) ch"
  let ?sc = "sub_bytes ch 24 8" and ?temp = "nt_temp time ad ch" and ?proof = "nt_proof cr key time ad ch"
  have len: "48 \<le> length ch" "info_offset ch + info_len ch \<le> length ch" "48 + info_len ch < 2 ^ 16" "sub_bytes ch 42 2 = sub_bytes ch 40 2"
    using ch by (auto simp: challenge_ok_def)
  have b0: "built ?ad [] ?ad"
    unfolding built_def by (rule exI [of _ 0]) simp
  have "yields (encode_temp ?ad ?t (na_client_challenge ad) (drop 24 ch) ?info (info_len ch))
      (built ?ad (replicate 8 0 @ take 8 (drop 24 ch) @ ms_temp ?t (na_client_challenge ad) (take (info_len ch) ?info)))"
    using len cc by (intro yields_encode_temp [OF b0]) simp_all
  then obtain ad1 where e1: "encode_temp ?ad ?t (na_client_challenge ad) (drop 24 ch) ?info (info_len ch) = Some ad1"
    and b1: "built ?ad (replicate 8 0 @ ?sc @ ?temp) ad1"
    by (auto simp: yields_def nt_temp_def sub_bytes_def)
  note f1 = built_fields [OF b1]
  have tl: "length ?temp = 32 + info_len ch" "length ?sc = 8" "length ?proof = 16"
    using len cc hmac by (simp_all add: nt_temp_def ms_temp_def nt_proof_def)
  have n1: "na_len ad1 = of_nat (16 + length ?temp)" "na_len ad1 - 8 = of_nat (8 + length ?temp)"
    by (simp_all add: f1 tl)
  have l1: "unat (na_len ad1) = length (?proof @ ?temp)" "unat (na_len ad1 - 8) = 8 + length ?temp"
    using unat_of_nat_u64 [of "16 + length ?temp"] unat_of_nat_u64 [of "8 + length ?temp"] tl len unfolding n1 by simp_all
  have m: "mem_read (na_buf ad1) 8 (8 + length ?temp) = Some (?sc @ ?temp)"
    "mem_write (na_buf ad1) 0 ?proof = Some (?proof @ ?temp)"
    using tl by (simp_all add: f1 mem_read_def mem_write_def sub_bytes_def put_bytes_def)
  have ptr: "mem_ptr ch (uint (le32toh (sub_bytes ch 44 4))) = Some ?info"
    using len by (simp add: mem_ptr_def info_offset_def nat_uint_eq)
  have n3: "na_len ad1 = of_nat (length (?proof @ ?temp))"
    by (simp add: f1 tl)
  let ?base = "?ad\<lparr>na_exported_session_key := hmac_md5 cr key ?proof\<rparr>"
  let ?ad2 = "ad1\<lparr>na_buf := [], na_len := 0, na_allocated := 0, na_exported_session_key := hmac_md5 cr key ?proof\<rparr>"
  have b2: "built ?base [] ?ad2"
    using b1 unfolding built_def by (intro exI [of _ 0]) auto
  obtain ad' where e2: "encode_authenticate (hmac_md5 cr key (?sc @ na_client_challenge ad)) (?proof @ ?temp)
       (na_len ad1) ?ad2 = Some (0, ad')"
    and b3: "built ?base (ms_answer cr key time ad ch d u w) ad'"
    using encode_authenticate_layout [OF b2, of d u w "?proof @ ?temp" "hmac_md5 cr key (?sc @ na_client_challenge ad)"]
      names short cc hmac tl len unfolding n3 by (auto simp: ms_answer_def)
  have e3: "encode_ntlm_auth cr time ?ad (drop 24 ch) = Some (0, ad')"
    using key e1 e2 m l1(2) len cc max_len_field [OF len(1,4)] ptr f1(6) sub_bytes_all [of "na_client_challenge ad"]
    by (simp add: encode_ntlm_auth_def mem_simps nt_proof_def [symmetric] Let_def del: length_append)
  show ?thesis
    using built_fields [OF b3] e3 len hmac
    by (simp add: ntlmssp_generate_blob_def ntlm_challenge_message_def ntlmssp_get_session_key_def mem_simps
        sub_bytes_all ucast_of_nat_u16)
qed

subsection \<open>The key\<close>

text \<open>The response key of MS-NLMP, for the names and the password as UTF-16 strings; the account holds them as UTF-8.\<close>

definition ms_upper :: "u16 \<Rightarrow> u16" where
  "ms_upper c = (if 0x61 \<le> c \<and> c \<le> 0x7a then c - 0x20 else c)"

definition ms_key :: "crypto \<Rightarrow> u16 list \<Rightarrow> u16 list \<Rightarrow> u16 list \<Rightarrow> bytes" where
  "ms_key cr user password domain = hmac_md5 cr (md4 cr (ucs2_bytes password)) (ucs2_bytes (map ms_upper user @ domain))"

definition utf8 :: "u16 list \<Rightarrow> bytes" where
  "utf8 cs = concat (map ucs2_cp_bytes cs)"

lemma utf8_back: "0 \<notin> set cs \<Longrightarrow> utf8_to_ucs2 (c_str (utf8 cs)) = Some (Some cs)"
  using validate_concat(1) [of cs 0 0] validate_concat(2) [of cs]
  by (simp add: utf8_to_ucs2_def validate_utf8_str_def c_str_def utf8_def)

lemma optional_utf8:
  assumes "0 \<notin> set cs"
  shows "optional_ucs2 (utf8 cs) = Some (Some cs)"
proof (cases cs)
  case (Cons c r)
  then have "ucs2_cp_bytes c \<noteq> []"
    by (auto simp: ucs2_cp_bytes_def Let_def split: if_splits)
  then show ?thesis
    using Cons utf8_back [OF assms] by (simp add: optional_ucs2_def utf8_def)
qed (simp add: optional_ucs2_def utf8_def)

lemma utf8_nul_free: "0 \<notin> set cs \<Longrightarrow> 0 \<notin> set (utf8 cs)"
proof -
  have high: "ucast (0x80 OR x :: u16) \<noteq> (0 :: u8)" for x
  proof -
    have "bit (ucast (0x80 OR x) :: u8) 7"
      by (simp add: bit_simps)
    then show ?thesis by (metis bit_0_eq bot_apply bot_bool_def)
  qed
  have "0 \<notin> set (ucs2_cp_bytes c)" if "c \<noteq> 0" for c
    using hd_ucs2_cp_bytes [OF that] high [of "drop_bit 6 c AND 0xbf"] high [of "c AND 0xbf"]
    by (auto simp: ucs2_cp_bytes_def Let_def split: if_splits)
  moreover assume "0 \<notin> set cs"
  ultimately show ?thesis
    unfolding utf8_def set_concat set_map by (metis (no_types, lifting) UN_E image_iff)
qed

lemma c_string_utf8: "0 \<notin> set cs \<Longrightarrow> c_string (c_str (utf8 cs)) = utf8 cs"
  using utf8_nul_free [of cs] by (auto simp: c_string_def c_str_def takeWhile_eq_all_conv takeWhile_append)

lemma upper_ascii:
  assumes "\<forall>c \<in> set u. c < 0x80"
  shows "map to_upper (utf8 u) = utf8 (map ms_upper u)"
proof -
  have "map to_upper (ucs2_cp_bytes c) = ucs2_cp_bytes (ms_upper c)" if "c < 0x80" for c
  proof -
    have n: "unat c < 128"
      using that by (simp add: word_less_nat_alt)
    then have c: "unat (ucast c :: u8) = unat c"
      by (simp add: unsigned_ucast_eq take_bit_nat_eq_self)
    have u: "unat (ms_upper c) = (if 97 \<le> unat c \<and> unat c \<le> 122 then unat c - 32 else unat c)"
      by (auto simp: ms_upper_def word_le_nat_alt unat_sub)
    then have c2: "ms_upper c < 0x80"
      using n by (cases "97 \<le> unat c \<and> unat c \<le> 122") (auto simp: word_less_nat_alt)
    have "unat (ucast (ms_upper c) :: u8) = unat (ms_upper c)"
      using c2 by (simp add: unsigned_ucast_eq take_bit_nat_eq_self word_less_nat_alt)
    moreover have "unat (to_upper (ucast c)) = unat (ms_upper c)"
      using u c by (auto simp: to_upper_def word_le_nat_alt unat_sub)
    ultimately have "to_upper (ucast c) = (ucast (ms_upper c) :: u8)"
      by (metis word_unat_eq_iff)
    then show ?thesis
      using that c2 by (auto simp: ucs2_cp_bytes_def ucs2_cp_size_def word_less_nat_alt)
  qed
  then show ?thesis
    using assms by (induction u) (auto simp: utf8_def)
qed

lemma response_key:
  assumes "\<forall>c \<in> set u. c < 0x80" and "0 \<notin> set u \<union> set pw \<union> set d"
  shows "NTOWFv2 cr (utf8 u) (utf8 pw) (utf8 d) = Some (Some (ms_key cr u pw d))"
proof -
  have "ms_upper x \<noteq> 0" if "x \<noteq> 0" for x
    using that by (auto simp: ms_upper_def word_le_nat_alt)
  then have "0 \<notin> set (map ms_upper u)"
    using assms(2) unfolding set_map by (metis UnI1 imageE)
  then have n: "0 \<notin> set (map ms_upper u @ d)"
    using assms(2) by auto
  have e: "map to_upper (utf8 u) @ utf8 d = utf8 (map ms_upper u @ d)"
    using upper_ascii [OF assms(1)] by (simp add: utf8_def)
  show ?thesis
    using assms(2) utf8_back [of pw] utf8_back [OF n] c_string_utf8 [of u] c_string_utf8 [of d]
    by (simp add: NTOWFv2_def NTOWFv1_def e ms_key_def)
qed

text \<open>C19. Answering the server's challenge with NTLMv2. For every challenge whose two target information lengths agree and every
  account, given by UTF-16 strings of which the client holds the UTF-8 form, with an ASCII user name, the provider returns the AUTHENTICATE
  message of MS-NLMP with the NTLMv2 responses. The response key is the HMAC-MD5, under the MD4 of the password, of the
  user name in upper case followed by the domain. Each
  descriptor in the message points at its field, the NT response is the proof followed by the structure it was
  computed over, the LM response is computed from both challenges, and the session key is derived
  from the proof.\<close>

theorem ntlm_answers_challenge:
  assumes account: "na_user ad = utf8 u" "na_password ad = utf8 pw" "na_domain ad = utf8 d" "na_workstation ad = utf8 w"
    and nul: "0 \<notin> set u \<union> set pw \<union> set d \<union> set w" and ascii: "\<forall>c \<in> set u. c < 0x80"
    and short: "length d < 2 ^ 15" "length u < 2 ^ 15" "length w < 2 ^ 15"
    and cc: "length (na_client_challenge ad) = 8" and ch: "challenge_ok ch"
    and hmac: "\<forall>k m. length (hmac_md5 cr k m) = 16"
  defines "key \<equiv> ms_key cr u pw d"
  shows "\<exists>ad'. ntlmssp_generate_blob cr time ad (Some ch) (length ch) =
       Some (0, Some (ms_answer cr key time ad ch d u w, of_nat (length (ms_answer cr key time ad ch d u w))), ad') \<and>
     ntlmssp_get_session_key ad' = (hmac_md5 cr key (nt_proof cr key time ad ch), 16)"
  using nul unfolding key_def
  by (intro answer_layout short cc ch hmac) (simp_all add: account response_key [OF ascii] optional_utf8 utf8_back)

definition ex_ntlm :: ntlm_auth_data where
  "ex_ntlm = ntlmssp_init_context (ascii ''u'') (ascii ''p'') [] [] (replicate 8 9)"

lemma ex_ntlm_fields:
  "na_user ex_ntlm = [0x75]" "na_password ex_ntlm = [0x70]" "na_domain ex_ntlm = []" "na_workstation ex_ntlm = []"
  "na_client_challenge ex_ntlm = replicate 8 9"
  by (simp_all add: ex_ntlm_def ntlmssp_init_context_def)

theorem ntlm_answers_challenge_witness:
  "\<exists>msg ad'. ntlmssp_generate_blob ex_crypto 5 ex_ntlm (Some (replicate 48 0)) 48 = Some (0, Some (msg, of_nat (length msg)), ad') \<and>
     ntlmssp_get_session_key ad' = (replicate 16 3, 16)"
proof -
  have h: "hmac_md5 ex_crypto k m = replicate 16 3" for k m
    by (simp add: ex_crypto_def)
  have ch: "challenge_ok (replicate 48 0)"
    by (simp add: challenge_ok_def info_len_def info_offset_def sub_bytes_def le16toh_def le32toh_def le_word_zeros)
  have "\<exists>ad'. ntlmssp_generate_blob ex_crypto 5 ex_ntlm (Some (replicate 48 0)) (length (replicate 48 (0 :: u8))) =
       Some (0, Some (ms_answer ex_crypto (ms_key ex_crypto [0x75] [0x70] []) 5 ex_ntlm (replicate 48 0) [] [0x75] [],
         of_nat (length (ms_answer ex_crypto (ms_key ex_crypto [0x75] [0x70] []) 5 ex_ntlm (replicate 48 0) [] [0x75] []))), ad') \<and>
     ntlmssp_get_session_key ad' = (hmac_md5 ex_crypto (ms_key ex_crypto [0x75] [0x70] []) (nt_proof ex_crypto (ms_key ex_crypto [0x75] [0x70] []) 5 ex_ntlm (replicate 48 0)), 16)"
    by (rule ntlm_answers_challenge [OF _ _ _ _ _ _ _ _ _ _ ch])
       (simp_all add: ex_ntlm_fields utf8_def ucs2_cp_bytes_def ucs2_cp_size_def h)
  then show ?thesis
    by (auto simp: h)
qed

text \<open>A challenge shorter than 48 bytes makes the provider read behind its buffer.\<close>

lemma short_challenge_undefined:
  assumes "NTOWFv2 cr (na_user ad) (na_password ad) (na_domain ad) = Some (Some key)" and "length ch < 48"
  shows "ntlmssp_generate_blob cr time ad (Some ch) (length ch) = None"
  using assms
  by (auto simp: ntlmssp_generate_blob_def ntlm_challenge_message_def encode_ntlm_auth_def mem_read_def mem_ptr_def
      sub_bytes_all Let_def)

end
