(* ===== verification/Smb2_InfoCmds.thy ===== *)
theory Smb2_InfoCmds
  imports Smb2_FileCmds
begin

text \<open>
  Set info, query directory and query info (\<^verbatim>\<open>Smb2SetInfo.cpp\<close>, \<^verbatim>\<open>Smb2QueryDir.cpp\<close>,
  \<^verbatim>\<open>Smb2QueryInfo.cpp\<close>).
\<close>

section \<open>Set info\<close>

record smb2_set_info_request =
  si_info_type :: u8
  si_file_info_class :: u8
  si_input_data :: file_info_u
  si_additional_information :: u32
  si_file_id :: smb2_file_id

definition set_info_fixed :: "smb2_set_info_request \<Rightarrow> smb2_iovec option" where
  "set_info_fixed req =
     do { iov \<leftarrow> set16 (new_iov 32) 0 33;
          iov \<leftarrow> set8 iov 2 (si_info_type req);
          iov \<leftarrow> set8 iov 3 (si_file_info_class req);
          iov \<leftarrow> set16 iov 8 (64 + 32);
          iov \<leftarrow> set32 iov 12 (si_additional_information req);
          iov \<leftarrow> set64 iov 16 (persistent_id (si_file_id req));
          set64 iov 24 (volatile_id (si_file_id req)) }"

definition set_info_blob :: "smb2_context \<Rightarrow> smb2_pdu \<Rightarrow> smb2_iovec \<Rightarrow> bytes \<Rightarrow> u32 \<Rightarrow> handler_result" where
  \<comment> \<open>the data of the EA and security cases: a copy of the caller's block\<close>
  "set_info_blob smb2 p iov buf len =
     do { iov \<leftarrow> set32 iov 4 len;
          b \<leftarrow> mem_read buf 0 (unat len);
          Some (0, smb2, push_iov (push_iov p iov) (smb2_iovec_make b (ucast len) True)) }"

definition set_time :: "smb2_iovec \<Rightarrow> int \<Rightarrow> u64 \<Rightarrow> smb2_iovec option" where
  "set_time iov off t = (if t \<noteq> 0 then set64 iov off t else Some iov)"

definition Smb2SetInfo_encodeRequest :: "smb2_context \<Rightarrow> smb2_set_info_request \<Rightarrow> smb2_pdu \<Rightarrow> handler_result" where
  "Smb2SetInfo_encodeRequest smb2 req p =
     do { iov \<leftarrow> set_info_fixed req;
          if si_info_type req = 1 then
            (if si_file_info_class req = 0x14 then
               (case si_input_data req of
                  UEndOfFile eof \<Rightarrow>
                    do { iov \<leftarrow> set32 iov 4 8;
                         v \<leftarrow> set64 (new_iov 8) 0 eof;
                         Some (0, smb2, push_iov (push_iov p iov) v) }
                | _ \<Rightarrow> None)
             else if si_file_info_class req = 0x0a then
               (case si_input_data req of
                  URename replace_if_exist file_name \<Rightarrow>
                    do { r \<leftarrow> utf8_to_ucs2 file_name;
                         case r of
                           None \<Rightarrow> fail_with smb2 (push_iov p iov)
                                     (Msg ''Smb2SetInfo::encodeRequest:Could not convert name into UCS2'' [])
                         | Some name \<Rightarrow>
                             do { iov \<leftarrow> convert_slashes [0..<length name] 0 iov;
                                  let len = 20 + length name * 2;
                                  iov \<leftarrow> set32 iov 4 (of_nat len);
                                  v \<leftarrow> set8 (new_iov len) 0 replace_if_exist;
                                  v \<leftarrow> set64 v 8 0;
                                  v \<leftarrow> set32 v 16 (of_nat (length name * 2));
                                  b \<leftarrow> mem_write (iov_buf v) 20 (ucs2_bytes name);
                                  Some (0, smb2, push_iov (push_iov p iov) (v\<lparr>iov_buf := b\<rparr>)) } }
                | _ \<Rightarrow> None)
             else if si_file_info_class req = 0x04 then
               (case si_input_data req of
                  UBasic basic_info \<Rightarrow>
                    do { iov \<leftarrow> set32 iov 4 (40 + 4);
                         v \<leftarrow> set_time (new_iov 44) 0 (bas_creation_time basic_info);
                         v \<leftarrow> set_time v 8 (bas_last_access_time basic_info);
                         v \<leftarrow> set_time v 16 (bas_last_write_time basic_info);
                         v \<leftarrow> set_time v 24 (bas_change_time basic_info);
                         v \<leftarrow> set32 v 32 (bas_file_attributes basic_info);
                         Some (0, smb2, push_iov (push_iov p iov) v) }
                | _ \<Rightarrow> None)
             else if si_file_info_class req = 0x0f then
               (case si_input_data req of UFullEa eabuf eabuf_len \<Rightarrow> set_info_blob smb2 p iov eabuf eabuf_len | _ \<Rightarrow> None)
             else fail_with smb2 (push_iov p iov)
                    (Msg ''Smb2SetInfo::encodeRequest:Can not encode info_type/info_class %d/%d yet''
                       [ucast (si_info_type req), ucast (si_file_info_class req)]))
          else if si_info_type req = 3 then
            (case si_input_data req of USecBuf secbuf secbuf_len \<Rightarrow> set_info_blob smb2 p iov secbuf secbuf_len | _ \<Rightarrow> None)
          else fail_with smb2 (push_iov p iov)
                 (Msg ''Smb2SetInfo::encodeRequest:Can not encode file info_type %d yet'' [ucast (si_info_type req)]) }"

definition Smb2SetInfo_createPdu :: "smb2_context \<Rightarrow> smb2_set_info_request \<Rightarrow> ptr \<Rightarrow> create_result" where
  "Smb2SetInfo_createPdu smb2 req setInfoData =
     finish_pdu (Smb2SetInfo_encodeRequest smb2 req (Smb2Pdu smb2 SMB2_SET_INFO setInfoData))"

definition Smb2SetInfo_ProcessReplyAndAppData :: "smb2_context \<Rightarrow> smb2_pdu \<Rightarrow> handler_result" where
  "Smb2SetInfo_ProcessReplyAndAppData smb2 p =
     (let status = hdr_status (p_header_resp p) in
      do { smb2 \<leftarrow> setNtStatus smb2 (p_appData p) status;
           smb2 \<leftarrow> (if status \<noteq> SMB2_STATUS_SUCCESS
                   then status_msg smb2 (p_appData p) ''SetInfo failed with (0x%08x) %s.'' status
                   else Some smb2);
           Some (0, endSendReceive smb2, p) })"

section \<open>Query directory\<close>

record smb2_fileidfulldirectoryinformation =
  fdi_next_entry_offset :: u32
  fdi_file_index :: u32
  fdi_creation_time :: u64
  fdi_last_access_time :: u64
  fdi_last_write_time :: u64
  fdi_change_time :: u64
  fdi_end_of_file :: u64
  fdi_allocation_size :: u64
  fdi_file_attributes :: u32
  fdi_ea_size :: u32
  fdi_file_id :: u64
  fdi_name :: bytes

record smb2_query_directory_request =
  qd_file_information_class :: u8
  qd_flags :: u8
  qd_file_index :: u32
  qd_file_id :: smb2_file_id
  qd_name :: "bytes option"
  qd_output_buffer_length :: u32

definition raw_ucs2 :: "bytes \<Rightarrow> u16 list" where
  "raw_ucs2 raw = map (\<lambda>i. le16toh (sub_bytes raw (2 * i) 2)) [0..<length raw div 2]"

definition smb2_decode_fileidfulldirectoryinformation ::
  "u8 \<Rightarrow> smb2_fileidfulldirectoryinformation \<Rightarrow> smb2_iovec \<Rightarrow> (err_msg + smb2_fileidfulldirectoryinformation) option" where
  "smb2_decode_fileidfulldirectoryinformation junk fs vec =
     do { name_len \<leftarrow> local32 vec 60;
          if ucast (80 + name_len) > iov_len vec
          then Some (Inl (Msg ''smb2_decode_fileidfulldirectoryinformation:Malformed name in query.'' []))
          else do {
            nx \<leftarrow> get32 vec 0 (fdi_next_entry_offset fs);
            fi \<leftarrow> get32 vec 4 (fdi_file_index fs);
            ef \<leftarrow> get64 vec 40 (fdi_end_of_file fs);
            al \<leftarrow> get64 vec 48 (fdi_allocation_size fs);
            fa \<leftarrow> get32 vec 56 (fdi_file_attributes fs);
            ea \<leftarrow> get32 vec 64 (fdi_ea_size fs);
            fd \<leftarrow> get64 vec 72 (fdi_file_id fs);
            raw \<leftarrow> mem_read (iov_buf vec) 80 (2 * (unat name_len div 2));
            nm \<leftarrow> ucs2_to_utf8 junk (raw_ucs2 raw) (int (unat name_len div 2));
            ct \<leftarrow> get64 vec 8 (fdi_creation_time fs);
            la \<leftarrow> get64 vec 16 (fdi_last_access_time fs);
            lw \<leftarrow> get64 vec 24 (fdi_last_write_time fs);
            ch \<leftarrow> get64 vec 32 (fdi_change_time fs);
            Some (Inr \<lparr>fdi_next_entry_offset = nx, fdi_file_index = fi, fdi_creation_time = ct,
              fdi_last_access_time = la, fdi_last_write_time = lw, fdi_change_time = ch, fdi_end_of_file = ef,
              fdi_allocation_size = al, fdi_file_attributes = fa, fdi_ea_size = ea, fdi_file_id = fd, fdi_name = nm\<rparr>) } }"

definition Smb2QueryDir_encodeRequest :: "smb2_context \<Rightarrow> smb2_query_directory_request \<Rightarrow> smb2_pdu \<Rightarrow> handler_result" where
  "Smb2QueryDir_encodeRequest smb2 req p =
     do { named \<leftarrow> has_name (qd_name req);
          nm \<leftarrow> (if named then do { u \<leftarrow> qd_name req; utf8_to_ucs2 u } else Some None);
          if named \<and> nm = None
          then fail_with smb2 (push_iov p (new_iov 32)) (Msg ''Smb2QueryDir::encodeRequest:Could not convert name into UCS2'' [])
          else do {
            iov \<leftarrow> (case nm of Some val \<Rightarrow> set16 (new_iov 32) 26 (of_nat (2 * length val)) | None \<Rightarrow> Some (new_iov 32));
            iov \<leftarrow> set16 iov 0 33;
            iov \<leftarrow> set8 iov 2 (qd_file_information_class req);
            iov \<leftarrow> set8 iov 3 (qd_flags req);
            iov \<leftarrow> set32 iov 4 (qd_file_index req);
            iov \<leftarrow> set64 iov 8 (persistent_id (qd_file_id req));
            iov \<leftarrow> set64 iov 16 (volatile_id (qd_file_id req));
            iov \<leftarrow> set16 iov 24 (64 + 32);
            iov \<leftarrow> set32 iov 28 (qd_output_buffer_length req);
            let p = push_iov p iov;
            Some (0, smb2, case nm of None \<Rightarrow> p
              | Some val \<Rightarrow> push_iov p (smb2_iovec_make (ucs2_bytes val) (of_nat (2 * length val)) True)) } }"

definition Smb2QueryDir_createPdu :: "smb2_context \<Rightarrow> smb2_query_directory_request \<Rightarrow> ptr \<Rightarrow> create_result" where
  "Smb2QueryDir_createPdu smb2 req qDirData =
     do { (pdu, smb2) \<leftarrow> finish_pdu (Smb2QueryDir_encodeRequest smb2 req (Smb2Pdu smb2 SMB2_QUERY_DIRECTORY qDirData));
          Some (map_option (adjust_credits smb2 (qd_output_buffer_length req)) pdu, smb2) }"

definition Smb2QueryDir_ProcessFixed :: "smb2_context \<Rightarrow> smb2_pdu \<Rightarrow> handler_result" where
  "Smb2QueryDir_ProcessFixed smb2 p =
     (if smb2ReplyIsError p then smb2ProcessErrorReplyFixed smb2 p
      else do {
        iov \<leftarrow> in_back p;
        let rep = \<lparr>qdr_output_buffer_offset = 0, qdr_output_buffer_length = 0, qdr_output_buffer = None\<rparr>;
        struct_size \<leftarrow> local16 iov 0;
        if size_mismatch iov struct_size 9
        then fail_with smb2 (p\<lparr>p_payload := Some (PQueryDir rep)\<rparr>)
               (Msg ''Unexpected size of QueryDir reply. Expected %d, got %d'' [9, iov_len iov])
        else do {
          off \<leftarrow> get16 iov 2 0;
          len \<leftarrow> get32 iov 4 0;
          let p = p\<lparr>p_payload := Some (PQueryDir \<lparr>qdr_output_buffer_offset = off, qdr_output_buffer_length = len,
                    qdr_output_buffer = None\<rparr>)\<rparr>;
          if len = 0 then Some (0, smb2, p)
          else if off < 64 + 8 then fail_with smb2 p (Msg ''Output buffer overlaps with Query Dir reply header'' [])
          else Some (sint (ucast off - 64 - 8 + len), smb2, p) } })"

definition Smb2QueryDir_ProcessVariable :: "smb2_context \<Rightarrow> smb2_pdu \<Rightarrow> handler_result" where
  "Smb2QueryDir_ProcessVariable smb2 p =
     (if smb2ReplyIsError p then smb2ProcessErrorReplyVariable smb2 p
      else case p_payload p of
        Some (PQueryDir rep) \<Rightarrow>
          do { iov \<leftarrow> in_back p;
               ob \<leftarrow> mem_ptr (iov_buf iov) (uint (qdr_output_buffer_offset rep) - 64 - 8);
               Some (0, smb2, p\<lparr>p_payload := Some (PQueryDir (rep\<lparr>qdr_output_buffer := Some ob\<rparr>))\<rparr>) }
      | _ \<Rightarrow> None)"

definition dirent_of :: "smb2_fileidfulldirectoryinformation \<Rightarrow> smb2dirent option" where
  "dirent_of fs = Some \<lparr>de_name = takeWhile (\<lambda>b. b \<noteq> 0) (fdi_name fs), de_allocation_size = fdi_allocation_size fs,
     de_attributes = fdi_file_attributes fs, de_ea_size = fdi_ea_size fs,
     de_st = \<lparr>st_type = (if fdi_file_attributes fs AND 0x10 \<noteq> 0 then 1 else 0), st_nlink = 0,
       st_ino = fdi_file_id fs, st_size = fdi_end_of_file fs, st_atime = fdi_last_access_time fs,
       st_mtime = fdi_last_write_time fs, st_ctime = fdi_change_time fs, st_crtime = fdi_creation_time fs\<rparr>\<rparr>"

definition zero_fdi :: smb2_fileidfulldirectoryinformation where
  \<comment> \<open>the uninitialised local: every field is assigned before it is read\<close>
  "zero_fdi = \<lparr>fdi_next_entry_offset = 0, fdi_file_index = 0, fdi_creation_time = 0, fdi_last_access_time = 0,
     fdi_last_write_time = 0, fdi_change_time = 0, fdi_end_of_file = 0, fdi_allocation_size = 0,
     fdi_file_attributes = 0, fdi_ea_size = 0, fdi_file_id = 0, fdi_name = []\<rparr>"

definition decode_dirents :: "env \<Rightarrow> smb2_context \<Rightarrow> ptr \<Rightarrow> ptr \<Rightarrow> smb2_iovec \<Rightarrow> (int \<times> smb2_context) option" where
  "decode_dirents env smb2 app dir vec =
     do { r \<leftarrow> decode_chain (smb2_decode_fileidfulldirectoryinformation (e_byte env)) fdi_next_entry_offset dirent_of
                (Msg ''Malformed query directory reply.'' []) (e_fuel env) vec 0 zero_fdi [];
          case r of
            ChainFuel \<Rightarrow> None
          | ChainDone ents \<Rightarrow>
              do { d \<leftarrow> dir_at smb2 dir;
                   Some (0, put_cell smb2 dir (CDir (d\<lparr>dir_entries := dir_entries d @ ents\<rparr>))) }
          | ChainError e ents \<Rightarrow>
              do { smb2 \<leftarrow> (if ents = [] then Some smb2
                           else do { d \<leftarrow> dir_at smb2 dir;
                                     Some (put_cell smb2 dir (CDir (d\<lparr>dir_entries := dir_entries d @ ents\<rparr>))) });
                   smb2 \<leftarrow> setErrorMsg smb2 app e;
                   Some (-1, smb2) } }"

definition Smb2QueryDir_ProcessReplyAndAppData :: "env \<Rightarrow> smb2_context \<Rightarrow> smb2_pdu \<Rightarrow> handler_result" where
  \<comment> \<open>\<^verbatim>\<open>req.name = appData->getSearchPattern().c_str()\<close> points into a string that no longer exists
      when \<^verbatim>\<open>createPdu\<close> reads it; \<open>e_stale\<close> is what is found there\<close>
  "Smb2QueryDir_ProcessReplyAndAppData env smb2 p =
     (let status = hdr_status (p_header_resp p); app = p_appData p in
      do { a \<leftarrow> app_at smb2 app;
           let dir = getDir a;
           smb2 \<leftarrow> setNtStatus smb2 app status;
           if status = SMB2_STATUS_SUCCESS
           then case p_payload p of
             Some (PQueryDir rep) \<Rightarrow>
               do { buf \<leftarrow> (if qdr_output_buffer_length rep = 0 then Some [] else qdr_output_buffer rep);
                    (rc, smb2) \<leftarrow> decode_dirents env smb2 app dir (smb2_iovec_make buf (ucast (qdr_output_buffer_length rep)) False);
                    if rc < 0
                    then do { a \<leftarrow> app_at smb2 app;
                              smb2 \<leftarrow> setErrorMsg smb2 app (Pre ''Smb2QueryDir::smb2ProcessReplyAndAppData:Failed to decode directory entries - '' [] (ad_errMsg a));
                              smb2 \<leftarrow> delete_cell (endSendReceive smb2) dir;
                              Some (-1, smb2, p) }
                    else do {
                      d \<leftarrow> dir_at smb2 dir;
                      let req = \<lparr>qd_file_information_class = 0x26, qd_flags = 0, qd_file_index = 0,
                                 qd_file_id = dir_file_id d, qd_name = Some (e_stale env (getSearchPattern a)),
                                 qd_output_buffer_length = 0xffff\<rparr>;
                      (pdu, smb2) \<leftarrow> Smb2QueryDir_createPdu smb2 req app;
                      case pdu of
                        None \<Rightarrow> do { smb2 \<leftarrow> delete_cell (endSendReceive smb2) dir; Some (-1, smb2, p) }
                      | Some pdu \<Rightarrow> do { (_, _, smb2) \<leftarrow> smb2_queue_pdu (e_crypto env) smb2 [pdu]; Some (0, smb2, p) } } }
           | _ \<Rightarrow> None
           else if status = SMB2_STATUS_NO_MORE_FILES
           then do { smb2 \<leftarrow> setNtStatus smb2 app SMB2_STATUS_SUCCESS; Some (0, endSendReceive smb2, p) }
           else do { smb2 \<leftarrow> status_msg smb2 app ''Query directory failed with (0x%08x) %s.'' status;
                     smb2 \<leftarrow> delete_cell (endSendReceive smb2) dir;
                     Some (0, smb2, p) } })"

section \<open>Query info\<close>

record smb2_query_info_request =
  qi_info_type :: u8
  qi_file_info_class :: u8
  qi_output_buffer_length :: u32
  qi_input_buffer_length :: u32
  qi_input_buffer :: "bytes option"
  qi_additional_information :: u32
  qi_flags :: u32
  qi_file_id :: smb2_file_id

definition Smb2QueryInfo_encodeRequest :: "smb2_context \<Rightarrow> smb2_query_info_request \<Rightarrow> smb2_pdu \<Rightarrow> handler_result" where
  "Smb2QueryInfo_encodeRequest smb2 req p =
     (if qi_input_buffer_length req > 0
      then fail_with smb2 p (Msg ''Smb2QueryInfo::encodeRequest:No support for input buffers, yet'' [])
      else do {
        iov \<leftarrow> set16 (new_iov 40) 0 41;
        iov \<leftarrow> set8 iov 2 (qi_info_type req);
        iov \<leftarrow> set8 iov 3 (qi_file_info_class req);
        iov \<leftarrow> set32 iov 4 (qi_output_buffer_length req);
        iov \<leftarrow> set32 iov 12 (qi_input_buffer_length req);
        iov \<leftarrow> set32 iov 16 (qi_additional_information req);
        iov \<leftarrow> set32 iov 20 (qi_flags req);
        iov \<leftarrow> set64 iov 24 (persistent_id (qi_file_id req));
        iov \<leftarrow> set64 iov 32 (volatile_id (qi_file_id req));
        Some (0, smb2, (push_iov p iov)\<lparr>p_requestedInfoType := qi_info_type req,
                p_requestedInfoClass := qi_file_info_class req\<rparr>) })"

definition Smb2QueryInfo_createPdu :: "smb2_context \<Rightarrow> smb2_query_info_request \<Rightarrow> ptr \<Rightarrow> create_result" where
  "Smb2QueryInfo_createPdu smb2 req qInfoData =
     finish_pdu (Smb2QueryInfo_encodeRequest smb2 req (Smb2Pdu smb2 SMB2_QUERY_INFO qInfoData))"

definition Smb2QueryInfo_ProcessFixed :: "smb2_context \<Rightarrow> smb2_pdu \<Rightarrow> handler_result" where
  "Smb2QueryInfo_ProcessFixed smb2 p =
     (if smb2ReplyIsError p then smb2ProcessErrorReplyFixed smb2 p
      else do {
        iov \<leftarrow> in_back p;
        let rep = \<lparr>qir_output_buffer_offset = 0, qir_output_buffer_length = 0, qir_output_buffer = UNone\<rparr>;
        struct_size \<leftarrow> local16 iov 0;
        if size_mismatch iov struct_size 9
        then fail_with smb2 (p\<lparr>p_payload := Some (PQueryInfo rep)\<rparr>)
               (Msg ''Unexpected size of Query Info reply. Expected %d, got %d'' [9, iov_len iov])
        else do {
          off \<leftarrow> get16 iov 2 0;
          len \<leftarrow> get32 iov 4 0;
          let p = p\<lparr>p_payload := Some (PQueryInfo \<lparr>qir_output_buffer_offset = off, qir_output_buffer_length = len,
                    qir_output_buffer = UNone\<rparr>)\<rparr>;
          if len = 0 then fail_with smb2 p (Msg ''No output buffer in Query Info response'' [])
          else if off < 64 + 8 then fail_with smb2 p (Msg ''Output buffer overlaps with Query Info reply header'' [])
          else Some (sint (ucast off - 64 - 8 + len), smb2, p) } })"

text \<open>
  The two switches over what was asked for: \<open>Inl\<close> is an error message, \<open>Inr\<close> the decoded
  struct. The branch on \<^verbatim>\<open>STATUS_NO_EAS_ON_FILE\<close> is never reached, since that is an error status.
\<close>

definition decoded :: "string \<Rightarrow> ('a \<Rightarrow> file_info_u) \<Rightarrow> (int \<times> 'a) option \<Rightarrow> (err_msg + file_info_u) option" where
  "decoded failed con r =
     do { (rc, x) \<leftarrow> r; Some (if rc \<noteq> 0 then Inl (Msg failed []) else Inr (con x)) }"

definition chained :: "(err_msg \<Rightarrow> err_msg) \<Rightarrow> ('a list \<Rightarrow> file_info_u) \<Rightarrow> 'a chain_result option \<Rightarrow> (err_msg + file_info_u) option" where
  "chained wrap con r =
     do { r \<leftarrow> r;
          case r of ChainFuel \<Rightarrow> None | ChainError e _ \<Rightarrow> Some (Inl (wrap e)) | ChainDone xs \<Rightarrow> Some (Inr (con xs)) }"

definition decode_info :: "env \<Rightarrow> u8 \<Rightarrow> u8 \<Rightarrow> smb2_iovec \<Rightarrow> (err_msg + file_info_u) option" where
  "decode_info env infoType infoClass vec =
     (let cannot = Some (Inl (Msg ''Can not decode InfoType/InfoClass %d/%d yet'' [ucast infoType, ucast infoClass])) in
      if infoType = 1 then
        (if infoClass = 0x04 then decoded ''could not decode file basic info'' UBasic (smb2_decode_file_basic_info (e_basic env) vec)
         else if infoClass = 0x05 then
           decoded ''could not decode file standard info'' UStandard (smb2_decode_file_standard_info (e_standard env) vec)
         else if infoClass = 0x0f then
           chained (Pre ''could not decode file EA info - '' []) UExtended (smb2_decode_file_extended_info (e_fuel env) (e_ea env) vec)
         else if infoClass = 0x16 then
           chained (\<lambda>e. e) UStream (smb2_decode_file_stream_info (e_fuel env) (e_byte env) vec)
         else if infoClass = 0x12 then decoded ''could not decode file all info'' UAll (smb2_decode_file_all_info (e_all env) vec)
         else cannot)
      else if infoType = 3 then
        do { r \<leftarrow> smb2DecodeSecDescInternal new_smb2_security_descriptor vec;
             Some (case r of Inl e \<Rightarrow> Inl (Pre ''could not decode security descriptor -'' [] e) | Inr sd \<Rightarrow> Inr (USecurity sd)) }
      else if infoType = 2 then
        (if infoClass = 3 then decoded ''could not decode file fs size info'' UFsSize
           (smb2_decode_file_fs_size_info \<lparr>fsz_total_allocation_units = 0, fsz_available_allocation_units = 0,
              fsz_sectors_per_allocation_unit = 0, fsz_bytes_per_sector = 0\<rparr> vec)
         else if infoClass = 4 then decoded ''could not decode file fs device info'' UFsDevice
           (smb2_decode_file_fs_device_info \<lparr>fsd_device_type = 0, fsd_characteristics = 0\<rparr> vec)
         else if infoClass = 6 then decoded ''could not decode file fs control info'' UFsControl
           (smb2_decode_file_fs_control_info \<lparr>fsc_free_space_start_filtering = 0, fsc_free_space_threshold = 0,
              fsc_free_space_stop_filtering = 0, fsc_default_quota_threshold = 0, fsc_default_quota_limit = 0,
              fsc_file_system_control_flags = 0\<rparr> vec)
         else if infoClass = 7 then decoded ''could not decode file fs full size info'' UFsFullSize
           (smb2_decode_file_fs_full_size_info \<lparr>fsf_total_allocation_units = 0, fsf_caller_available_allocation_units = 0,
              fsf_actual_available_allocation_units = 0, fsf_sectors_per_allocation_unit = 0, fsf_bytes_per_sector = 0\<rparr> vec)
         else if infoClass = 11 then decoded ''could not decode file fs sector size info'' UFsSectorSize
           (smb2_decode_file_fs_sector_size_info \<lparr>fss_logical_bytes_per_sector = 0,
              fss_physical_bytes_per_sector_for_atomicity = 0, fss_physical_bytes_per_sector_for_performance = 0,
              fss_effective_physical_bytes_per_sector_for_atomicity = 0, fss_flags = 0,
              fss_byte_offset_for_sector_alignment = 0, fss_byte_offset_for_partition_alignment = 0\<rparr> vec)
         else cannot)
      else Some (Inl (Msg ''Can not decode file InfoType %d yet'' [ucast infoType])))"

definition Smb2QueryInfo_ProcessVariable :: "env \<Rightarrow> smb2_context \<Rightarrow> smb2_pdu \<Rightarrow> handler_result" where
  "Smb2QueryInfo_ProcessVariable env smb2 p =
     (if smb2ReplyIsError p then smb2ProcessErrorReplyVariable smb2 p
      else case p_payload p of
        Some (PQueryInfo rep) \<Rightarrow>
          do { iov \<leftarrow> in_back p;
               let iov_offset = uint (qir_output_buffer_offset rep) - 64 - 8;
               b \<leftarrow> mem_ptr (iov_buf iov) iov_offset;
               r \<leftarrow> decode_info env (p_requestedInfoType p) (p_requestedInfoClass p)
                      (smb2_iovec_make b (iov_len iov - word_of_int iov_offset) False);
               case r of
                 Inl e \<Rightarrow> fail_with smb2 p e
               | Inr u \<Rightarrow> Some (0, smb2, p\<lparr>p_payload := Some (PQueryInfo (rep\<lparr>qir_output_buffer := u\<rparr>))\<rparr>) }
      | _ \<Rightarrow> None)"

text \<open>What the caller's union becomes; \<open>None\<close> where the block is read as another struct.\<close>

definition info_result :: "smb2_file_info \<Rightarrow> file_info_u \<Rightarrow> file_info_u option" where
  "info_result info u =
     (if fi_info_type info = 1 then
        (if fi_file_info_class info = 0x04 then (case u of UBasic _ \<Rightarrow> Some u | _ \<Rightarrow> None)
         else if fi_file_info_class info = 0x05 then (case u of UStandard _ \<Rightarrow> Some u | _ \<Rightarrow> None)
         else if fi_file_info_class info = 0x0f then (case u of UExtended _ \<Rightarrow> Some u | _ \<Rightarrow> None)
         else if fi_file_info_class info = 0x16 then (case u of UStream _ \<Rightarrow> Some u | _ \<Rightarrow> None)
         else if fi_file_info_class info = 0x12 then (case u of UAll _ \<Rightarrow> Some u | _ \<Rightarrow> None)
         else Some (fi_u_info info))
      else if fi_info_type info = 2 then
        (if fi_file_info_class info = 3 then (case u of UFsSize _ \<Rightarrow> Some u | _ \<Rightarrow> None)
         else if fi_file_info_class info = 4 then (case u of UFsDevice _ \<Rightarrow> Some u | _ \<Rightarrow> None)
         else if fi_file_info_class info = 6 then (case u of UFsControl _ \<Rightarrow> Some u | _ \<Rightarrow> None)
         else if fi_file_info_class info = 11 then (case u of UFsSectorSize _ \<Rightarrow> Some u | _ \<Rightarrow> None)
         else if fi_file_info_class info = 7 then (case u of UFsFullSize _ \<Rightarrow> Some u | _ \<Rightarrow> None)
         else Some (fi_u_info info))
      else if fi_info_type info = 3 then (case u of USecurity _ \<Rightarrow> Some u | _ \<Rightarrow> None)
      else Some (fi_u_info info))"

definition Smb2QueryInfo_ProcessReplyAndAppData :: "smb2_context \<Rightarrow> smb2_pdu \<Rightarrow> handler_result" where
  "Smb2QueryInfo_ProcessReplyAndAppData smb2 p =
     (let status = hdr_status (p_header_resp p); app = p_appData p in
      do { a \<leftarrow> app_at smb2 app;
           smb2 \<leftarrow> setNtStatus smb2 app status;
           if status \<noteq> SMB2_STATUS_SUCCESS
           then do { smb2 \<leftarrow> status_msg smb2 app ''QueryFileInfo failed with (0x%08x) %s.'' status;
                     Some (0, endSendReceive smb2, p) }
           else do {
             info \<leftarrow> info_at smb2 (getQInfo a);
             if fi_info_type info \<notin> {1, 2, 3, 4}
             then do { smb2 \<leftarrow> setNtStatus smb2 app SMB2_STATUS_INVALID_PARAMETER;
                       smb2 \<leftarrow> setErrorMsg smb2 app (Msg ''Invalid INFO TYPE'' []);
                       Some (0, endSendReceive smb2, p) }
             else case p_payload p of
               Some (PQueryInfo rep) \<Rightarrow>
                 if qir_output_buffer rep = UNone then None
                 else do { u \<leftarrow> info_result info (qir_output_buffer rep);
                           let smb2 = put_cell smb2 (getQInfo a) (CInfo (info\<lparr>fi_u_info := u\<rparr>));
                           Some (0, endSendReceive smb2, p\<lparr>p_payload := Some (PQueryInfo (rep\<lparr>qir_output_buffer := UNone\<rparr>))\<rparr>) }
             | _ \<Rightarrow> None } })"

section \<open>Requests\<close>

definition set_info_prefix :: "smb2_set_info_request \<Rightarrow> u32 \<Rightarrow> bytes" where
  "set_info_prefix r len =
     htole16 33 @ [si_info_type r, si_file_info_class r] @ htole32 len @ htole16 96 @ replicate 2 0 @
     htole32 (si_additional_information r) @ htole64 (persistent_id (si_file_id r)) @
     htole64 (volatile_id (si_file_id r))"

text \<open>The data of the requests without a name.\<close>

definition set_info_data :: "smb2_set_info_request \<Rightarrow> bytes option" where
  "set_info_data r =
     (if si_info_type r = 1 \<and> si_file_info_class r = 0x14 then
        (case si_input_data r of UEndOfFile eof \<Rightarrow> Some (htole64 eof) | _ \<Rightarrow> None)
      else if si_info_type r = 1 \<and> si_file_info_class r = 0x04 then
        (case si_input_data r of
           UBasic b \<Rightarrow> Some (htole64 (bas_creation_time b) @ htole64 (bas_last_access_time b) @
             htole64 (bas_last_write_time b) @ htole64 (bas_change_time b) @ htole32 (bas_file_attributes b) @ replicate 8 0)
         | _ \<Rightarrow> None)
      else if si_info_type r = 1 \<and> si_file_info_class r = 0x0f then
        (case si_input_data r of UFullEa b n \<Rightarrow> if unat n \<le> length b then Some (take (unat n) b) else None | _ \<Rightarrow> None)
      else if si_info_type r = 3 then
        (case si_input_data r of USecBuf b n \<Rightarrow> if unat n \<le> length b then Some (take (unat n) b) else None | _ \<Rightarrow> None)
      else None)"

definition set_info_valid :: "smb2_context \<Rightarrow> smb2_set_info_request \<Rightarrow> bool" where
  "set_info_valid _ r \<longleftrightarrow> set_info_data r \<noteq> None"

definition set_info_body :: "smb2_context \<Rightarrow> smb2_set_info_request \<Rightarrow> bytes" where
  "set_info_body _ r = (case set_info_data r of Some d \<Rightarrow> set_info_prefix r (of_nat (length d)) @ d | None \<Rightarrow> [])"

lemma set_info_fixed_bytes:
  "set_info_fixed r = Some ((new_iov 32)\<lparr>iov_buf := set_info_prefix r 0\<rparr>)"
proof -
  have z: "htole32 0 @ t = replicate 4 0 @ t" for t
    by (simp add: htole32_def eval_nat_numeral)
  show ?thesis
    by (simp add: set_info_fixed_def body_simps set_info_prefix_def z)
qed

lemma set_info_length:
  "set32 ((new_iov 32)\<lparr>iov_buf := set_info_prefix r 0\<rparr>) 4 n = Some ((new_iov 32)\<lparr>iov_buf := set_info_prefix r n\<rparr>)"
  by (simp add: body_simps set_info_prefix_def)

lemma set_time_at:
  assumes "wf_iovec v" and "unat (iov_len v) = length (iov_buf v)" and "iov_buf v = b @ replicate (n + 8) 0"
    and "int (length b) = off"
  shows "set_time v off t = Some (v\<lparr>iov_buf := (b @ htole64 t) @ replicate n 0\<rparr>)"
proof (cases "t = 0")
  case True
  have "htole64 0 = replicate 8 0"
    by (simp add: htole64_def eval_nat_numeral)
  then show ?thesis
    using assms True by (simp add: set_time_def replicate_add [symmetric] add.commute)
next
  case False
  then show ?thesis
    using assms by (auto simp: set_time_def mem_simps put_bytes_def)
qed

lemma set_basic_data:
  "do { v \<leftarrow> set_time (new_iov 44) 0 t1; v \<leftarrow> set_time v 8 t2; v \<leftarrow> set_time v 16 t3; v \<leftarrow> set_time v 24 t4;
        v \<leftarrow> set32 v 32 a; f v } =
   f ((new_iov 44)\<lparr>iov_buf := htole64 t1 @ htole64 t2 @ htole64 t3 @ htole64 t4 @ htole32 a @ replicate 8 0\<rparr>)"
proof -
  have "set_time (new_iov 44) 0 t1 = Some ((new_iov 44)\<lparr>iov_buf := htole64 t1 @ replicate 36 0\<rparr>)"
    using set_time_at [of "new_iov 44" "[]" 36 0 t1] by simp
  moreover have "set_time ((new_iov 44)\<lparr>iov_buf := htole64 t1 @ replicate 36 0\<rparr>) 8 t2 =
      Some ((new_iov 44)\<lparr>iov_buf := htole64 t1 @ htole64 t2 @ replicate 28 0\<rparr>)"
    using set_time_at [of "(new_iov 44)\<lparr>iov_buf := htole64 t1 @ replicate 36 0\<rparr>" "htole64 t1" 28 8 t2]
    by (simp add: wf_iovec_def)
  moreover have "set_time ((new_iov 44)\<lparr>iov_buf := htole64 t1 @ htole64 t2 @ replicate 28 0\<rparr>) 16 t3 =
      Some ((new_iov 44)\<lparr>iov_buf := htole64 t1 @ htole64 t2 @ htole64 t3 @ replicate 20 0\<rparr>)"
    using set_time_at [of "(new_iov 44)\<lparr>iov_buf := htole64 t1 @ htole64 t2 @ replicate 28 0\<rparr>" "htole64 t1 @ htole64 t2" 20 16 t3]
    by (simp add: wf_iovec_def)
  moreover have "set_time ((new_iov 44)\<lparr>iov_buf := htole64 t1 @ htole64 t2 @ htole64 t3 @ replicate 20 0\<rparr>) 24 t4 =
      Some ((new_iov 44)\<lparr>iov_buf := htole64 t1 @ htole64 t2 @ htole64 t3 @ htole64 t4 @ replicate 12 0\<rparr>)"
    using set_time_at [of "(new_iov 44)\<lparr>iov_buf := htole64 t1 @ htole64 t2 @ htole64 t3 @ replicate 20 0\<rparr>"
        "htole64 t1 @ htole64 t2 @ htole64 t3" 12 24 t4]
    by (simp add: wf_iovec_def)
  ultimately show ?thesis
    by (simp add: body_simps)
qed

lemma set_info_encode:
  assumes "set_info_valid c r"
  shows "\<exists>v w. Smb2SetInfo_encodeRequest c r p = Some (0, c, push_iov (push_iov p v) w) \<and> wf_iovec v \<and> wf_iovec w \<and>
     iov_data v @ iov_data w = set_info_body c r"
proof -
  obtain d where d: "set_info_data r = Some d"
    using assms by (auto simp: set_info_valid_def)
  let ?v = "\<lambda>n. (new_iov 32)\<lparr>iov_buf := set_info_prefix r n\<rparr>"
  have pre: "wf_iovec (?v n)" "iov_data (?v n) = set_info_prefix r n" for n
    by (simp_all add: wf_iovec_def iov_data_def set_info_prefix_def)
  have "\<exists>w n. Smb2SetInfo_encodeRequest c r p = Some (0, c, push_iov (push_iov p (?v n)) w) \<and> wf_iovec w \<and>
      iov_data w = d \<and> n = of_nat (length d)"
    using d
    by (auto simp: Smb2SetInfo_encodeRequest_def set_info_fixed_bytes set_info_length set_info_data_def set_basic_data
          set_info_blob_def mem_simps sub_bytes_def put_bytes_def smb2_iovec_make_def wf_iovec_def iov_data_def
        split: if_splits file_info_u.splits)
  then show ?thesis
    using pre by (force simp: set_info_body_def d)
qed

interpretation set_info: request_command SMB2_SET_INFO Smb2SetInfo_createPdu set_info_body set_info_valid
proof
  fix c r app assume v: "set_info_valid c r"
  show "\<exists>p. Smb2SetInfo_createPdu c r app = Some (Some p, c) \<and> request_pdu c SMB2_SET_INFO app (set_info_body c r) p"
    unfolding Smb2SetInfo_createPdu_def
    using set_info_encode [OF v, of "Smb2Pdu c SMB2_SET_INFO app"] finish_push2 by blast
qed

definition query_info_body :: "smb2_context \<Rightarrow> smb2_query_info_request \<Rightarrow> bytes" where
  "query_info_body _ r =
     htole16 41 @ [qi_info_type r, qi_file_info_class r] @ htole32 (qi_output_buffer_length r) @ replicate 4 0 @
     htole32 0 @ htole32 (qi_additional_information r) @ htole32 (qi_flags r) @
     htole64 (persistent_id (qi_file_id r)) @ htole64 (volatile_id (qi_file_id r))"

lemma fresh_requested:
  "fresh_pdu c cmd app b p \<Longrightarrow> fresh_pdu c cmd app b (p\<lparr>p_requestedInfoType := x, p_requestedInfoClass := y\<rparr>)"
  by (simp add: fresh_pdu_def)

interpretation query_info: request_command SMB2_QUERY_INFO Smb2QueryInfo_createPdu query_info_body
  "\<lambda>_ r. qi_input_buffer_length r = 0"
proof
  fix c app and r :: smb2_query_info_request assume z: "qi_input_buffer_length r = 0"
  let ?v = "(new_iov 40)\<lparr>iov_buf := query_info_body c r\<rparr>"
  let ?p = "(push_iov (Smb2Pdu c SMB2_QUERY_INFO app) ?v)\<lparr>p_requestedInfoType := qi_info_type r,
      p_requestedInfoClass := qi_file_info_class r\<rparr>"
  have "Smb2QueryInfo_encodeRequest c r (Smb2Pdu c SMB2_QUERY_INFO app) = Some (0, c, ?p)"
    by (simp add: Smb2QueryInfo_encodeRequest_def z body_simps query_info_body_def)
  moreover have "wf_iovec ?v" "iov_data ?v = query_info_body c r"
    by (simp_all add: body_simps query_info_body_def)
  ultimately show "\<exists>p. Smb2QueryInfo_createPdu c r app = Some (Some p, c) \<and>
      request_pdu c SMB2_QUERY_INFO app (query_info_body c r) p"
    using finish_fresh [OF fresh_requested [OF fresh_push [OF fresh_ctor [of c SMB2_QUERY_INFO app]]]]
    by (metis Smb2QueryInfo_createPdu_def append_Nil)
qed

definition query_dir_valid :: "smb2_context \<Rightarrow> smb2_query_directory_request \<Rightarrow> bool" where
  "query_dir_valid _ r \<longleftrightarrow>
     (\<exists>u val. qd_name r = Some u \<and> has_name (Some u) = Some True \<and> utf8_to_ucs2 u = Some (Some val) \<and> length val < 2 ^ 30)"

definition query_dir_body :: "smb2_context \<Rightarrow> smb2_query_directory_request \<Rightarrow> bytes" where
  "query_dir_body _ r =
     (case utf8_to_ucs2 (the (qd_name r)) of
        Some (Some val) \<Rightarrow>
          htole16 33 @ [qd_file_information_class r, qd_flags r] @ htole32 (qd_file_index r) @
          htole64 (persistent_id (qd_file_id r)) @ htole64 (volatile_id (qd_file_id r)) @ htole16 96 @
          htole16 (of_nat (2 * length val)) @ htole32 (qd_output_buffer_length r) @ ucs2_bytes val
      | _ \<Rightarrow> [])"

interpretation query_dir: request_command SMB2_QUERY_DIRECTORY Smb2QueryDir_createPdu query_dir_body query_dir_valid
proof
  fix c app and r :: smb2_query_directory_request assume "query_dir_valid c r"
  then obtain u val where r: "qd_name r = Some u" "has_name (Some u) = Some True" "utf8_to_ucs2 u = Some (Some val)"
    and len: "length val < 2 ^ 30"
    by (auto simp: query_dir_valid_def)
  have un: "unat (of_nat (2 * length val) :: u64) = 2 * length val"
    using len by (intro unat_of_nat_u64) simp
  have "Smb2QueryDir_encodeRequest c r (Smb2Pdu c SMB2_QUERY_DIRECTORY app) = Some (0, c,
      push_iov (push_iov (Smb2Pdu c SMB2_QUERY_DIRECTORY app) ((new_iov 32)\<lparr>iov_buf := take 32 (query_dir_body c r)\<rparr>))
        (smb2_iovec_make (ucs2_bytes val) (of_nat (2 * length val)) True))"
    by (simp add: Smb2QueryDir_encodeRequest_def r body_simps query_dir_body_def del: of_nat_mult)
  then have "\<exists>p. finish_pdu (Smb2QueryDir_encodeRequest c r (Smb2Pdu c SMB2_QUERY_DIRECTORY app)) = Some (Some p, c) \<and>
      request_pdu c SMB2_QUERY_DIRECTORY app (query_dir_body c r) p"
    by (rule finish_push2) (use un in \<open>simp_all add: body_simps query_dir_body_def r smb2_iovec_make_def del: of_nat_mult\<close>)
  then show "\<exists>p. Smb2QueryDir_createPdu c r app = Some (Some p, c) \<and>
      request_pdu c SMB2_QUERY_DIRECTORY app (query_dir_body c r) p"
    by (auto simp: Smb2QueryDir_createPdu_def intro: adjusted)
qed

section \<open>Replies\<close>

interpretation set_info_reply: reply_command plain_ProcessFixed plain_ProcessVariable Smb2SetInfo_ProcessReplyAndAppData has_app
  by unfold_locales
     (auto simp: plain_ProcessFixed_def plain_ProcessVariable_def has_app_def Smb2SetInfo_ProcessReplyAndAppData_def
        app_simps status_msg_def Let_def)

interpretation query_info_reply: reply_command Smb2QueryInfo_ProcessFixed "Smb2QueryInfo_ProcessVariable env"
  Smb2QueryInfo_ProcessReplyAndAppData has_app for env
  by unfold_locales
     (auto simp: Smb2QueryInfo_ProcessFixed_def Smb2QueryInfo_ProcessVariable_def has_app_def
        Smb2QueryInfo_ProcessReplyAndAppData_def app_simps status_msg_def Let_def dest: error_nonzero)

definition query_dir_reportable :: "smb2_context \<Rightarrow> smb2_pdu \<Rightarrow> bool" where
  "query_dir_reportable c p \<longleftrightarrow>
     (\<exists>a. app_at c (p_appData p) = Some a \<and> (getDir a = 0 \<or> dir_at c (getDir a) \<noteq> None))"

lemma dir_not_app: "dir_at c q \<noteq> None \<Longrightarrow> app_at c r \<noteq> None \<Longrightarrow> q \<noteq> r"
  by (auto simp: dir_at_def app_at_def split: option.splits cell.splits)

lemma c_heap_dir: "dir_at c q \<noteq> None \<Longrightarrow> c_heap c q \<noteq> None"
  by (auto simp: dir_at_def split: option.splits)

lemma delete_dir_keeps:
  assumes "q = 0 \<or> dir_at c q \<noteq> None" and "app_at c r \<noteq> None"
  shows "\<exists>c'. delete_cell c q = Some c' \<and> app_at c' r = app_at c r \<and> c_isComplete c' = c_isComplete c"
  using assms dir_not_app c_heap_dir [of c q] by (fastforce simp: delete_cell_def app_at_def)

lemma dir_at_put_app: "app_at c q \<noteq> None \<Longrightarrow> dir_at (put_cell c q (CApp a)) r = dir_at c r"
  by (auto simp: dir_at_def put_cell_def app_at_def split: option.splits cell.splits)

lemma dir_at_frame [simp]: "dir_at (endSendReceive c) q = dir_at c q"
  by (simp add: dir_at_def endSendReceive_def)

lemma error_not_more_files: "smb2ReplyIsError p \<Longrightarrow> hdr_status (p_header_resp p) \<noteq> SMB2_STATUS_NO_MORE_FILES"
  by (auto simp: smb2ReplyIsError_def Let_def)

interpretation query_dir_reply: reply_command Smb2QueryDir_ProcessFixed Smb2QueryDir_ProcessVariable
  "Smb2QueryDir_ProcessReplyAndAppData env" query_dir_reportable for env
proof
  fix c p assume e: "smb2ReplyIsError p" and "query_dir_reportable c p"
  then obtain a where a: "app_at c (p_appData p) = Some a" and d: "getDir a = 0 \<or> dir_at c (getDir a) \<noteq> None"
    by (auto simp: query_dir_reportable_def)
  let ?s = "hdr_status (p_header_resp p)"
  let ?a = "a\<lparr>ad_ntStatus := ?s\<rparr>"
  let ?b = "?a\<lparr>ad_errMsg := Msg ''Query directory failed with (0x%08x) %s.'' [ucast ?s]\<rparr>"
  let ?c = "endSendReceive (put_cell (put_cell c (p_appData p) (CApp ?a)) (p_appData p) (CApp ?b))"
  obtain c' where "delete_cell ?c (getDir a) = Some c'" "app_at c' (p_appData p) = Some ?b" "c_isComplete c'"
    using delete_dir_keeps [of "getDir a" ?c "p_appData p"] d a by (auto simp: dir_at_put_app)
  then show "\<exists>c' a b. Smb2QueryDir_ProcessReplyAndAppData env c p = Some (0, c', p) \<and> c_isComplete c' \<and>
      app_at c' (p_appData p) = Some a \<and> ad_ntStatus a = ?s \<and> app_at c (p_appData p) = Some b \<and>
      ad_bDelete a = ad_bDelete b"
    using error_nonzero [OF e] error_not_more_files [OF e]
    by (auto simp: Smb2QueryDir_ProcessReplyAndAppData_def Let_def a status_msg_def app_simps)
qed (auto simp: Smb2QueryDir_ProcessFixed_def Smb2QueryDir_ProcessVariable_def query_dir_reportable_def)

section \<open>Directory listings\<close>

text \<open>One entry of a reply: the 80 bytes before the name, and the name in UCS-2.\<close>

definition fdi_bytes :: "smb2_fileidfulldirectoryinformation \<Rightarrow> u32 \<Rightarrow> u16 list \<Rightarrow> bytes" where
  "fdi_bytes e nx nm =
     htole32 nx @ htole32 (fdi_file_index e) @ htole64 (fdi_creation_time e) @ htole64 (fdi_last_access_time e) @
     htole64 (fdi_last_write_time e) @ htole64 (fdi_change_time e) @ htole64 (fdi_end_of_file e) @
     htole64 (fdi_allocation_size e) @ htole32 (fdi_file_attributes e) @ htole32 (of_nat (2 * length nm)) @
     htole32 (fdi_ea_size e) @ replicate 4 0 @ htole64 (fdi_file_id e) @ ucs2_bytes nm"

fun dir_layout :: "(smb2_fileidfulldirectoryinformation \<times> u16 list \<times> bytes) list \<Rightarrow> bytes list" where
  "dir_layout [] = []"
| "dir_layout ((e, nm, pad) # xs) =
     (fdi_bytes e (if xs = [] then 0 else of_nat (80 + 2 * length nm + length pad)) nm @ pad) # dir_layout xs"

definition listed :: "smb2_fileidfulldirectoryinformation \<times> u16 list \<times> bytes \<Rightarrow> smb2dirent" where
  "listed = (\<lambda>(e, nm, _). the (dirent_of (e\<lparr>fdi_name := concat (map ucs2_cp_bytes nm)\<rparr>)))"

definition listable :: "smb2_fileidfulldirectoryinformation \<times> u16 list \<times> bytes \<Rightarrow> bool" where
  "listable = (\<lambda>(_, nm, pad). 0 \<notin> set nm \<and> length nm < 2 ^ 20 \<and> length pad < 2 ^ 20)"

lemma raw_ucs2_bytes: "raw_ucs2 (ucs2_bytes nm) = nm"
  by (rule nth_equalityI) (simp_all add: raw_ucs2_def sub_ucs2)

lemma ucs2_to_utf8_all: "ucs2_to_utf8 junk cs (int (length cs)) = Some (concat (map ucs2_cp_bytes cs) @ [0])"
  by (simp add: ucs2_to_utf8_def foldl_cp_size mem_write_def put_bytes_def Let_def)

lemma length_fdi_bytes [simp]: "length (fdi_bytes e nx nm) = 80 + 2 * length nm"
  by (simp add: fdi_bytes_def)

lemma decode_fdi_at:
  assumes "length nm < 2 ^ 20" and "length rest < 2 ^ 30"
  shows "smb2_decode_fileidfulldirectoryinformation junk fs (mk_vec (fdi_bytes e nx nm @ rest)) =
     Some (Inr (e\<lparr>fdi_next_entry_offset := nx, fdi_name := concat (map ucs2_cp_bytes nm) @ [0]\<rparr>))"
proof -
  let ?v = "mk_vec (fdi_bytes e nx nm @ rest)"
  have len: "unat (iov_len ?v) = 80 + 2 * length nm + length rest"
    using assms by simp
  have n: "unat (of_nat (2 * length nm) :: u32) = 2 * length nm"
    using assms by (intro unat_of_nat_u32) simp
  have n80: "unat (ucast (80 + of_nat (2 * length nm) :: u32) :: u64) = 80 + 2 * length nm"
    using assms n by (simp add: unat_word_ariths del: of_nat_mult)
  have le: "\<not> iov_len ?v < ucast (80 + of_nat (2 * length nm) :: u32)"
    by (simp only: word_less_nat_alt len n80)
  have g: "local32 ?v 60 = Some (of_nat (2 * length nm))"
    "get32 ?v 0 x0 = Some nx" "get32 ?v 4 x1 = Some (fdi_file_index e)" "get64 ?v 40 x2 = Some (fdi_end_of_file e)"
    "get64 ?v 48 x3 = Some (fdi_allocation_size e)" "get32 ?v 56 x4 = Some (fdi_file_attributes e)"
    "get32 ?v 64 x5 = Some (fdi_ea_size e)" "get64 ?v 72 x6 = Some (fdi_file_id e)"
    "get64 ?v 8 x7 = Some (fdi_creation_time e)" "get64 ?v 16 x8 = Some (fdi_last_access_time e)"
    "get64 ?v 24 x9 = Some (fdi_last_write_time e)" "get64 ?v 32 x10 = Some (fdi_change_time e)"
    for x0 x1 x2 x3 x4 x5 x6 x7 x8 x9 x10
    using len by (simp_all add: mem_simps fdi_bytes_def del: mk_vec_len of_nat_mult)
  have m: "mem_read (iov_buf ?v) 80 (2 * length nm) = Some (ucs2_bytes nm)"
    by (simp add: mem_read_def fdi_bytes_def)
  show ?thesis
    by (simp add: smb2_decode_fileidfulldirectoryinformation_def g le n m raw_ucs2_bytes ucs2_to_utf8_all
        del: of_nat_mult mk_vec_buf)
qed

lemma continuation_nonzero: "(ucast (0x80 OR x :: u16) :: u8) \<noteq> 0"
proof
  assume "(ucast (0x80 OR x :: u16) :: u8) = 0"
  then have "bit (ucast (0x80 OR x :: u16) :: u8) 7 = bit (0 :: u8) 7" by simp
  then show False by (simp add: bit_simps)
qed

lemma cp_bytes_no_nul: "c \<noteq> 0 \<Longrightarrow> 0 \<notin> set (ucs2_cp_bytes c)"
  using hd_ucs2_cp_bytes [of c] continuation_nonzero [symmetric]
  by (auto simp: ucs2_cp_bytes_def Let_def split: if_splits)

lemma utf8_no_nul: "0 \<notin> set nm \<Longrightarrow> 0 \<notin> set (concat (map ucs2_cp_bytes nm))"
  by (induction nm) (auto simp: cp_bytes_no_nul)

lemma takeWhile_no_nul: "(0 :: u8) \<notin> set b \<Longrightarrow> takeWhile (\<lambda>x. x \<noteq> 0) b = b" "(0 :: u8) \<notin> set b \<Longrightarrow> takeWhile (\<lambda>x. x \<noteq> 0) (b @ [0]) = b"
  by (auto simp: takeWhile_eq_all_conv takeWhile_append)

lemma dir_layout_Nil [simp]: "dir_layout xs = [] \<longleftrightarrow> xs = []"
  by (cases xs) auto

lemma dir_layout_chain_ok:
  assumes "xs \<noteq> []" and "\<forall>x \<in> set xs. listable x" and "length (concat (dir_layout xs)) < 2 ^ 30"
  shows "chain_ok (smb2_decode_fileidfulldirectoryinformation junk) fdi_next_entry_offset dirent_of fs (dir_layout xs) (map listed xs)"
  using assms
proof (induction xs arbitrary: fs)
  case Nil
  then show ?case by simp
next
  case (Cons x xs)
  obtain e nm pad where x: "x = (e, nm, pad)" by (cases x)
  have fit: "0 \<notin> set nm" "length nm < 2 ^ 20" "length pad < 2 ^ 20" and rest: "length (pad @ concat (dir_layout xs)) < 2 ^ 30"
    using Cons.prems by (simp_all add: x listable_def)
  let ?n = "80 + 2 * length nm + length pad"
  have n: "unat (of_nat ?n :: u32) = ?n"
    using fit by (intro unat_of_nat_u32) simp
  then have n0: "(of_nat ?n :: u32) \<noteq> 0"
    by (metis add_is_0 unat_0 zero_neq_numeral)
  have d: "dirent_of (e\<lparr>fdi_next_entry_offset := nx, fdi_name := concat (map ucs2_cp_bytes nm) @ [0]\<rparr>) = Some (listed x)" for nx
  proof -
    let ?u = "concat (map ucs2_cp_bytes nm)"
    have t: "takeWhile (\<lambda>x. x \<noteq> 0) ?u = ?u" "takeWhile (\<lambda>x. x \<noteq> 0) (?u @ [0]) = ?u"
      using takeWhile_no_nul [OF utf8_no_nul [OF fit(1)]] by blast+
    show ?thesis
      unfolding dirent_of_def listed_def x by (simp add: t)
  qed
  show ?case
    using Cons n n0 fit rest decode_fdi_at [OF fit(2) rest] d
    by (cases "xs = []") (simp_all add: x add.assoc del: of_nat_add)
qed

section \<open>Properties\<close>

lemma decode_dirents_layout:
  assumes "xs \<noteq> []" and "\<forall>x \<in> set xs. listable x" and "length (concat (dir_layout xs)) < 2 ^ 30"
    and "length xs \<le> e_fuel env" and "dir_at c dir = Some d"
  shows "decode_dirents env c app dir (mk_vec (concat (dir_layout xs))) =
     Some (0, put_cell c dir (CDir (d\<lparr>dir_entries := dir_entries d @ map listed xs\<rparr>)))"
proof -
  have "length (dir_layout xs) = length xs"
    by (induction xs rule: dir_layout.induct) auto
  then show ?thesis
    using decode_chain_complete [OF dir_layout_chain_ok [OF assms(1-3)], where pre = "[]" and acc = "[]"] assms(3-5)
    by (simp add: decode_dirents_def)
qed

lemma dir_at_put: "dir_at (put_cell c q (CDir d)) r = (if r = q then Some d else dir_at c r)"
  by (simp add: dir_at_def put_cell_def)

lemma put_cell_fields [simp]:
  "c_signing_required (put_cell c q x) = c_signing_required c" "queues_ok (put_cell c q x) = queues_ok c"
  "c_message_id (put_cell c q x) = c_message_id c" "c_isComplete (put_cell c q x) = c_isComplete c"
  "c_outqueue (put_cell c q x) = c_outqueue c"
  by (simp_all add: put_cell_def queues_ok_def queued_ids_def)

definition next_query :: "env \<Rightarrow> app_data \<Rightarrow> smb2dir \<Rightarrow> smb2_query_directory_request" where
  "next_query env a d = \<lparr>qd_file_information_class = 0x26, qd_flags = 0, qd_file_index = 0,
     qd_file_id = dir_file_id d, qd_name = Some (e_stale env (ad_pattern a)), qd_output_buffer_length = 0xffff\<rparr>"

text \<open>When a directory reply holds a list of entries in the layout of the protocol (any padding
  between them), the handler appends exactly these entries in order, with their names in UTF-8, to the
  listing, leaves the request incomplete and queues the next query for the same directory under
  the next message id, provided the memory of the search pattern still holds a valid pattern.\<close>

lemma query_dir_collects:
  assumes "hdr_status (p_header_resp p) = 0"
    and "p_payload p = Some (PQueryDir \<lparr>qdr_output_buffer_offset = off,
       qdr_output_buffer_length = of_nat (length (concat (dir_layout xs))),
       qdr_output_buffer = Some (concat (dir_layout xs))\<rparr>)"
    and "xs \<noteq> []" and "\<forall>x \<in> set xs. listable x" and "length (concat (dir_layout xs)) < 2 ^ 30"
    and "length xs \<le> e_fuel env"
    and "app_at c (p_appData p) = Some a" and "ad_kind a = QueryDirData" and "dir_at c (ad_dir a) = Some d"
    and "query_dir_valid c (next_query env a d)" and "c_signing_required c = 0" and "queues_ok c"
  shows "\<exists>c' p'. Smb2QueryDir_ProcessReplyAndAppData env c p = Some (0, c', p) \<and>
     dir_at c' (ad_dir a) = Some (d\<lparr>dir_entries := dir_entries d @ map listed xs\<rparr>) \<and>
     c_isComplete c' = c_isComplete c \<and>
     map_find (c_message_id c) (c_outqueue c') = Some [p'] \<and> p_appData p' = p_appData p \<and>
     vectors_data (p_out p') = request_wire p' (query_dir_body c (next_query env a d))"
proof -
  let ?b = "concat (dir_layout xs)"
  let ?a = "a\<lparr>ad_ntStatus := 0\<rparr>"
  let ?c1 = "put_cell c (p_appData p) (CApp ?a)"
  let ?c2 = "put_cell ?c1 (ad_dir a) (CDir (d\<lparr>dir_entries := dir_entries d @ map listed xs\<rparr>))"
  have b: "unat (of_nat (length ?b) :: u32) = length ?b"
    using assms(5) by (intro unat_of_nat_u32) simp
  have "0 < length ?b"
    using assms(3) by (cases xs rule: dir_layout.cases) simp_all
  then have ne: "(of_nat (length ?b) :: u32) \<noteq> 0"
    using b by (metis unat_0 less_irrefl)
  have mk: "smb2_iovec_make ?b (ucast (of_nat (length ?b) :: u32)) False = mk_vec ?b"
  proof -
    have "unat (of_nat (length ?b) :: u64) = length ?b"
      using assms(5) by (intro unat_of_nat_u64) simp
    then have "(ucast (of_nat (length ?b) :: u32) :: u64) = of_nat (length ?b)"
      using b by (simp only: word_unat_eq_iff unat_ucast_u32_u64)
    then show ?thesis
      by (simp only: smb2_iovec_make_def mk_vec_def)
  qed
  have dirs: "dir_at ?c1 (ad_dir a) = Some d"
    using assms(7,9) by (simp add: dir_at_put_app)
  have dec: "decode_dirents env ?c1 (p_appData p) (ad_dir a) (mk_vec ?b) = Some (0, ?c2)"
    using decode_dirents_layout [OF assms(3-6) dirs] by simp
  have v: "query_dir_valid ?c2 (next_query env a d)"
    using assms(10) by (simp add: query_dir_valid_def)
  have s: "c_signing_required ?c2 = 0" "queues_ok ?c2"
    using assms(11,12) by simp_all
  obtain q p' c' where q: "Smb2QueryDir_createPdu ?c2 (next_query env a d) (p_appData p) = Some (Some q, ?c2)"
    "smb2_queue_pdu (e_crypto env) ?c2 [q] = Some (True, None, c')"
    "map_find (c_message_id ?c2) (c_outqueue c') = Some [p']"
    "vectors_data (p_out p') = request_wire p' (query_dir_body ?c2 (next_query env a d))"
    "p_appData p' = p_appData p" and fr: "\<exists>i q. c' = ?c2\<lparr>c_message_id := i, c_outqueue := q\<rparr>"
    using query_dir.on_wire [OF v s, of "p_appData p" "e_crypto env"] by blast
  have "Smb2QueryDir_ProcessReplyAndAppData env c p = Some (0, c', p)"
    using assms(1,2,7,8) ne mk dec q(1,2)
    by (simp add: Smb2QueryDir_ProcessReplyAndAppData_def Let_def app_simps getDir_def getSearchPattern_def
        dir_at_put next_query_def)
  moreover have "dir_at c' (ad_dir a) = Some (d\<lparr>dir_entries := dir_entries d @ map listed xs\<rparr>)" "c_isComplete c' = c_isComplete c"
    using fr by (auto simp: dir_at_def put_cell_def)
  ultimately show ?thesis
    using q(3-5) by (auto simp: query_dir_body_def)
qed

definition ex_env :: env where
  "ex_env = \<lparr>e_crypto = ex_crypto, e_gss = ex_gss, e_time = 0, e_fuel = 10, e_byte = 7, e_ea = junk_ea,
     e_basic = \<lparr>bas_creation_time = 0, bas_last_access_time = 0, bas_last_write_time = 0, bas_change_time = 0,
       bas_file_attributes = 0\<rparr>,
     e_standard = \<lparr>std_allocation_size = 0, std_end_of_file = 0, std_number_of_links = 0, std_delete_pending = 0,
       std_directory = 0\<rparr>,
     e_all = \<lparr>all_basic = \<lparr>bas_creation_time = 0, bas_last_access_time = 0, bas_last_write_time = 0,
       bas_change_time = 0, bas_file_attributes = 0\<rparr>,
       all_standard = \<lparr>std_allocation_size = 0, std_end_of_file = 0, std_number_of_links = 0,
         std_delete_pending = 0, std_directory = 0\<rparr>, all_index_number = 0, all_ea_size = 0, all_access_flags = 0,
       all_current_byte_offset = 0, all_mode = 0, all_alignment_requirement = 0\<rparr>,
     e_stale = (\<lambda>b. b @ [0]), e_pid = 1, e_salt = replicate 32 0, e_offset = 0,
     e_fs_full = \<lparr>fsf_total_allocation_units = 0, fsf_caller_available_allocation_units = 0,
       fsf_actual_available_allocation_units = 0, fsf_sectors_per_allocation_unit = 0, fsf_bytes_per_sector = 0\<rparr>\<rparr>"

definition ex_dir_app :: app_data where
  "ex_dir_app = (new_app_data QueryDirData)\<lparr>ad_dir := 2, ad_pattern := [0x2a]\<rparr>"

definition ex_dir :: smb2dir where
  "ex_dir = \<lparr>dir_file_id = \<lparr>persistent_id = 1, volatile_id = 2\<rparr>, dir_entries = []\<rparr>"

definition ex_dir_context :: smb2_context where
  "ex_dir_context = ex_context\<lparr>c_heap := [1 \<mapsto> CApp ex_dir_app, 2 \<mapsto> CDir ex_dir]\<rparr>"

definition ex_listing :: "(smb2_fileidfulldirectoryinformation \<times> u16 list \<times> bytes) list" where
  "ex_listing = [(zero_fdi, [0x61], [0, 0, 0, 0, 0, 0]), (zero_fdi, [0x62, 0x20ac], [])]"

text \<open>A rename converts slashes in the wrong vector: the name keeps them, and a 16-bit word
  of the fixed part that equals a slash is changed, so a request for the file id 0x2f goes
  to the file id 0x5c.\<close>

lemma rename_corrupts_file_id:
  "map_option (\<lambda>(rc, _, p). (rc, map iov_data (tl (iovs (p_out p)))))
     (Smb2SetInfo_encodeRequest ex_context \<lparr>si_info_type = 1, si_file_info_class = 0x0a,
        si_input_data = URename 0 [0x61, 0x2f, 0x62, 0x63, 0x64, 0x65, 0x66, 0x67, 0x68, 0],
        si_additional_information = 0, si_file_id = \<lparr>persistent_id = 0x2f, volatile_id = 2\<rparr>\<rparr>
        (Smb2Pdu ex_context SMB2_SET_INFO 1)) =
   Some (0, [htole16 33 @ [1, 0x0a] @ htole32 38 @ htole16 96 @ replicate 6 0 @ htole64 0x5c @ htole64 2,
     [0, 0, 0, 0, 0, 0, 0, 0] @ htole64 0 @ htole32 18 @
       ucs2_bytes [0x61, 0x2f, 0x62, 0x63, 0x64, 0x65, 0x66, 0x67, 0x68]])"
  by code_simp

end
