(* ===== verification/Smb2_Session.thy ===== *)
theory Smb2_Session
  imports Smb2_Auth Smb2_InfoCmds
begin

text \<open>
  Setting up a session: \<^verbatim>\<open>Smb2Negotiate.cpp\<close> and \<^verbatim>\<open>Smb2SessionSetup.cpp\<close>. The handler of each reply
  queues the request of the next phase, from negotiate over one or more session setups to the tree
  connect; on the way the dialect and the server's limits enter the context, the hash over all
  messages grows, and the signing key is derived.
\<close>

section \<open>Session setup requests\<close>

record smb2_session_setup_request =
  ss_flags :: u8
  ss_security_mode :: u8
  ss_capabilities :: u32
  ss_channel :: u32
  ss_previous_session_id :: u64
  ss_security_buffer_length :: u16
  ss_security_buffer :: bytes

definition Smb2SessionSetup_encodeRequest ::
  "smb2_context \<Rightarrow> smb2_session_setup_request \<Rightarrow> smb2_pdu \<Rightarrow> handler_result" where
  "Smb2SessionSetup_encodeRequest smb2 req p =
     do { iov \<leftarrow> set16 (new_iov 24) 0 25;
          iov \<leftarrow> set8 iov 2 (ss_flags req);
          iov \<leftarrow> set8 iov 3 (ss_security_mode req);
          iov \<leftarrow> set32 iov 4 (ss_capabilities req);
          iov \<leftarrow> set32 iov 8 (ss_channel req);
          iov \<leftarrow> set16 iov 12 (64 + 24);
          iov \<leftarrow> set16 iov 14 (ss_security_buffer_length req);
          iov \<leftarrow> set64 iov 16 (ss_previous_session_id req);
          buf \<leftarrow> mem_read (ss_security_buffer req) 0 (unat (ss_security_buffer_length req));
          Some (0, smb2, push_iov (push_iov p iov) (smb2_iovec_make buf (ucast (ss_security_buffer_length req)) True)) }"

definition Smb2SessionSetup_createPdu ::
  "smb2_context \<Rightarrow> smb2_session_setup_request \<Rightarrow> ptr \<Rightarrow> create_result" where
  "Smb2SessionSetup_createPdu smb2 req sessionData =
     finish_pdu (Smb2SessionSetup_encodeRequest smb2 req (Smb2Pdu smb2 SMB2_SESSION_SETUP sessionData))"

section \<open>Negotiate requests\<close>

record smb2_preauth_integ_context =
  pic_ContextType :: u16
  pic_DataLength :: u16
  pic_Reserved :: u32
  pic_HashAlgorithmCount :: u16
  pic_SaltLength :: u16
  pic_HashAlgorithms :: u16
  pic_Salt :: bytes

record smb2_enc_cap_context =
  ecc_ContextType :: u16
  ecc_DataLength :: u16
  ecc_Reserved :: u32
  ecc_CipherCount :: u16
  ecc_Ciphers :: "u16 \<times> u16"

record smb2_negotiate_request =
  nr_dialect_count :: u16
  nr_security_mode :: u16
  nr_capabilities :: u32
  nr_client_guid :: bytes
  nr_client_start_time :: u64
  nr_dialects :: "u16 list"
  nr_max_dialect :: u16
  nr_neg_ctx_flags :: u8
  nr_preauth_ctx :: smb2_preauth_integ_context
  nr_enc_ctx :: smb2_enc_cap_context

definition round8 :: "nat \<Rightarrow> nat" where
  \<comment> \<open>\<^verbatim>\<open>if (len & 7) len += 8 - (len & 7)\<close>\<close>
  "round8 n = n + pad8 n"

definition preauth_vector :: "smb2_preauth_integ_context \<Rightarrow> smb2_iovec option" where
  "preauth_vector x =
     do { iov \<leftarrow> set16 (new_iov (round8 46)) 0 (pic_ContextType x);
          iov \<leftarrow> set16 iov 2 (pic_DataLength x);
          iov \<leftarrow> set32 iov 4 (pic_Reserved x);
          iov \<leftarrow> set16 iov 8 (pic_HashAlgorithmCount x);
          iov \<leftarrow> set16 iov 10 (pic_SaltLength x);
          iov \<leftarrow> set16 iov 12 (pic_HashAlgorithms x);
          b \<leftarrow> mem_write (iov_buf iov) 14 (take 32 (pic_Salt x));
          Some (iov\<lparr>iov_buf := b\<rparr>) }"

definition enc_cap_vector :: "smb2_enc_cap_context \<Rightarrow> smb2_iovec option" where
  "enc_cap_vector x =
     do { iov \<leftarrow> set16 (new_iov (round8 14)) 0 (ecc_ContextType x);
          iov \<leftarrow> set16 iov 2 (ecc_DataLength x);
          iov \<leftarrow> set32 iov 4 (ecc_Reserved x);
          iov \<leftarrow> set16 iov 8 (ecc_CipherCount x);
          iov \<leftarrow> set16 iov 10 (fst (ecc_Ciphers x));
          set16 iov 12 (snd (ecc_Ciphers x)) }"

definition encodeNegotiateContexts :: "smb2_negotiate_request \<Rightarrow> smb2_iovec list option" where
  \<comment> \<open>the vectors added to \<open>out\<close>; \<^verbatim>\<open>*num_ctx\<close> is their number\<close>
  "encodeNegotiateContexts req =
     do { a \<leftarrow> (if nr_neg_ctx_flags req AND 0x01 \<noteq> 0
               then do { v \<leftarrow> preauth_vector (nr_preauth_ctx req); Some [v] } else Some []);
          b \<leftarrow> (if nr_neg_ctx_flags req AND 0x10 \<noteq> 0
               then do { v \<leftarrow> enc_cap_vector (nr_enc_ctx req); Some [v] } else Some []);
          Some (a @ b) }"

fun set_dialects :: "smb2_iovec \<Rightarrow> nat \<Rightarrow> nat \<Rightarrow> u16 list \<Rightarrow> smb2_iovec option" where
  \<comment> \<open>the array \<^verbatim>\<open>dialects\<close> ends where the list ends\<close>
  "set_dialects iov i 0 ds = Some iov"
| "set_dialects iov i (Suc n) [] = None"
| "set_dialects iov i (Suc n) (d # ds) = do { iov \<leftarrow> set16 iov (36 + int i * 2) d; set_dialects iov (Suc i) n ds }"

definition encode_negotiate_head :: "smb2_negotiate_request \<Rightarrow> smb2_iovec \<Rightarrow> smb2_iovec option" where
  \<comment> \<open>lines 129 to 136\<close>
  "encode_negotiate_head req iov =
     do { iov \<leftarrow> set16 iov 0 36;
          iov \<leftarrow> set16 iov 2 (nr_dialect_count req);
          iov \<leftarrow> set16 iov 4 (nr_security_mode req);
          iov \<leftarrow> set32 iov 8 (nr_capabilities req);
          b \<leftarrow> mem_write (iov_buf iov) 12 (take 16 (nr_client_guid req));
          set_dialects (iov\<lparr>iov_buf := b\<rparr>) 0 (unat (nr_dialect_count req)) (nr_dialects req) }"

definition Smb2Negotiate_encodeRequest ::
  "smb2_context \<Rightarrow> smb2_negotiate_request \<Rightarrow> smb2_pdu \<Rightarrow> handler_result" where
  \<comment> \<open>the vector joins the PDU before the contexts; its last fields are written through the shared pointer\<close>
  "Smb2Negotiate_encodeRequest smb2 req p =
     do { let len = round8 (36 + unat (nr_dialect_count req) * 2);
          iov \<leftarrow> encode_negotiate_head req (new_iov len);
          ctxs \<leftarrow> encodeNegotiateContexts req;
          iov \<leftarrow> (if nr_max_dialect req < version_value SMB2_VERSION_0311
                 then set64 iov 28 (nr_client_start_time req)
                 else do { iov \<leftarrow> set32 iov 28 (of_nat (64 + len));
                           iov \<leftarrow> set16 iov 32 (of_nat (length ctxs));
                           set16 iov 34 0 });
          Some (0, smb2, foldl push_iov (push_iov p iov) ctxs) }"

definition Smb2Negotiate_createPdu ::
  "smb2_context \<Rightarrow> smb2_negotiate_request \<Rightarrow> ptr \<Rightarrow> create_result" where
  "Smb2Negotiate_createPdu smb2 req negotiateData =
     finish_pdu (Smb2Negotiate_encodeRequest smb2 req (Smb2Pdu smb2 SMB2_NEGOTIATE negotiateData))"

section \<open>Negotiate replies\<close>

definition Smb2Negotiate_ProcessFixed :: "smb2_context \<Rightarrow> smb2_pdu \<Rightarrow> handler_result" where
  \<comment> \<open>the value returned last is a \<open>size_t\<close> converted to \<open>int\<close>\<close>
  "Smb2Negotiate_ProcessFixed smb2 p =
     (if smb2ReplyIsError p then smb2ProcessErrorReplyFixed smb2 p
      else do {
        iov \<leftarrow> in_back p;
        let rep = \<lparr>neg_security_mode = 0, neg_dialect_revision = 0, neg_context_count = 0,
                   neg_server_guid = replicate 16 0, neg_capabilities = 0, neg_max_transact_size = 0,
                   neg_max_read_size = 0, neg_max_write_size = 0, neg_system_time = 0, neg_server_start_time = 0,
                   neg_security_buffer_length = 0, neg_security_buffer_offset = 0, neg_context_offset = 0,
                   neg_security_buffer = None\<rparr>;
        struct_size \<leftarrow> local16 iov 0;
        if size_mismatch iov struct_size 65
        then fail_with smb2 (p\<lparr>p_payload := Some (PNegotiate rep)\<rparr>)
               (Msg ''Unexpected size of Negotiate reply. Expected %d, got %d'' [65, iov_len iov])
        else do {
          sm \<leftarrow> get16 iov 2 0;
          dr \<leftarrow> get16 iov 4 0;
          cc \<leftarrow> get16 iov 6 0;
          gu \<leftarrow> mem_read (iov_buf iov) 8 16;
          ca \<leftarrow> get32 iov 24 0;
          mt \<leftarrow> get32 iov 28 0;
          mr \<leftarrow> get32 iov 32 0;
          mw \<leftarrow> get32 iov 36 0;
          st \<leftarrow> get64 iov 40 0;
          ss \<leftarrow> get64 iov 48 0;
          so \<leftarrow> get16 iov 56 0;
          sl \<leftarrow> get16 iov 58 0;
          co \<leftarrow> get32 iov 60 0;
          let rep = \<lparr>neg_security_mode = sm, neg_dialect_revision = dr, neg_context_count = cc,
                     neg_server_guid = gu, neg_capabilities = ca, neg_max_transact_size = mt,
                     neg_max_read_size = mr, neg_max_write_size = mw, neg_system_time = st, neg_server_start_time = ss,
                     neg_security_buffer_length = sl, neg_security_buffer_offset = so, neg_context_offset = co,
                     neg_security_buffer = None\<rparr>;
          let p = p\<lparr>p_payload := Some (PNegotiate rep)\<rparr>;
          if sl = 0 \<and> cc = 0 then Some (0, smb2, p)
          else if sl \<noteq> 0 \<and> so < 128
          then fail_with smb2 p (Msg ''Securty buffer overlaps with negotiate reply header'' [])
          else Some (sint (ucast (ucast (p_respNBLength p) - total_size (p_in p) :: u64) :: u32), smb2, p) } })"

fun read_u16s :: "smb2_iovec \<Rightarrow> int \<Rightarrow> nat \<Rightarrow> unit option" where
  \<comment> \<open>reads into the elements of an array, of which only the first is looked at\<close>
  "read_u16s iov off 0 = Some ()"
| "read_u16s iov off (Suc n) = do { _ \<leftarrow> get16 iov off 0; read_u16s iov (off + 2) n }"

definition decodePreauthIntegContext :: "smb2_context \<Rightarrow> smb2_iovec \<Rightarrow> (u32 \<times> smb2_context) option" where
  \<comment> \<open>the first element of an empty or unread array is not initialised\<close>
  "decodePreauthIntegContext smb2 iov =
     do { HashAlgorithmCount \<leftarrow> local16 iov 8;
          serverSaltSize \<leftarrow> local16 iov 10;
          _ \<leftarrow> read_u16s iov 12 (unat HashAlgorithmCount);
          h \<leftarrow> (if HashAlgorithmCount = 0 then None else local16 iov 12);
          Some (12 + 2 * ucast HashAlgorithmCount + ucast serverSaltSize, smb2\<lparr>c_hashAlgorithm := h\<rparr>) }"

definition decodeEncryptionContext :: "smb2_context \<Rightarrow> smb2_iovec \<Rightarrow> (u32 \<times> smb2_context) option" where
  "decodeEncryptionContext smb2 iov =
     do { CipherCount \<leftarrow> local16 iov 8;
          _ \<leftarrow> read_u16s iov 10 (unat CipherCount);
          c \<leftarrow> (if CipherCount = 0 then None else local16 iov 10);
          Some (10 + 2 * ucast CipherCount, smb2\<lparr>c_CipherId := c\<rparr>) }"

definition pad_u32 :: "u32 \<Rightarrow> u32" where
  "pad_u32 len = (if len AND 7 \<noteq> 0 then len + (8 - (len AND 7)) else len)"

text \<open>
  The loop over the contexts. \<open>len\<close> is set to the length of the context just read and not advanced
  by it; that it could be negative is tested on an unsigned variable and never true.
\<close>

fun decodeNegotiateContexts :: "nat \<Rightarrow> smb2_iovec \<Rightarrow> smb2_context \<Rightarrow> u32 \<Rightarrow> u16 \<Rightarrow> smb2_context option" where
  "decodeNegotiateContexts 0 iov smb2 len ctx_type = Some smb2"
| "decodeNegotiateContexts (Suc n) iov smb2 len ctx_type =
     do { b \<leftarrow> mem_ptr (iov_buf iov) (uint len);
          let tmpiov = smb2_iovec_make b (iov_len iov - ucast len) False;
          ctx_type \<leftarrow> get16 tmpiov 0 ctx_type;
          (len, smb2) \<leftarrow>
            (if ctx_type = 0x0001 then decodePreauthIntegContext smb2 tmpiov
             else if ctx_type = 0x0002 then decodeEncryptionContext smb2 tmpiov
             else Some (len, smb2));
          decodeNegotiateContexts n iov smb2 (pad_u32 len) ctx_type }"

definition Smb2Negotiate_ProcessVariable :: "smb2_context \<Rightarrow> smb2_pdu \<Rightarrow> handler_result" where
  "Smb2Negotiate_ProcessVariable smb2 p =
     (if smb2ReplyIsError p then smb2ProcessErrorReplyVariable smb2 p
      else case p_payload p of
        Some (PNegotiate rep) \<Rightarrow>
          do { iov \<leftarrow> in_back p;
               let off = uint (neg_security_buffer_offset rep) - 128;
               sb \<leftarrow> mem_ptr (iov_buf iov) off;
               let len = pad_u32 (word_of_int off + ucast (neg_security_buffer_length rep));
               b \<leftarrow> mem_ptr (iov_buf iov) (uint len);
               smb2 \<leftarrow> decodeNegotiateContexts (unat (neg_context_count rep))
                  (smb2_iovec_make b (iov_len iov - ucast len) False) smb2 0 0;
               Some (0, smb2, p\<lparr>p_payload := Some (PNegotiate (rep\<lparr>neg_security_buffer := Some sb\<rparr>))\<rparr>) }
      | _ \<Rightarrow> None)"

definition setStatusMsg :: "smb2_context \<Rightarrow> ptr \<Rightarrow> u32 \<Rightarrow> err_msg \<Rightarrow> smb2_context option" where
  "setStatusMsg smb2 app sts msg = do { smb2 \<leftarrow> setNtStatus smb2 app sts; setErrorMsg smb2 app msg }"

definition negotiated :: "smb2_context \<Rightarrow> smb2_negotiate_reply \<Rightarrow> smb2_context" where
  \<comment> \<open>the server's answer enters the context, lines 431 to 463\<close>
  "negotiated smb2 rep =
     (let smb2 = (if neg_dialect_revision rep \<ge> version_value SMB2_VERSION_0311 \<and> c_CipherId smb2 \<noteq> 0 \<and>
                     neg_capabilities rep AND 0x40 \<noteq> 0
                  then smb2\<lparr>c_serverSupportEncryption := 1\<rparr> else smb2);
          smb2 = (if neg_dialect_revision rep > version_value SMB2_VERSION_0202 \<and> neg_capabilities rep AND 0x04 \<noteq> 0
                  then smb2\<lparr>c_supports_multi_credit := True\<rparr> else smb2);
          smb2 = smb2\<lparr>c_max_transact_size := neg_max_transact_size rep, c_max_read_size := neg_max_read_size rep,
                      c_max_write_size := neg_max_write_size rep, c_dialect := neg_dialect_revision rep\<rparr>
      in if neg_security_mode rep AND 0x0002 \<noteq> 0 \<or> neg_dialect_revision rep \<ge> version_value SMB2_VERSION_0311
         then smb2\<lparr>c_signing_required := 1\<rparr> else smb2)"

definition start_preauth :: "crypto \<Rightarrow> smb2_context \<Rightarrow> smb2_pdu \<Rightarrow> smb2_context option" where
  \<comment> \<open>the hash restarts at zero and takes in request and response, lines 465 to 503\<close>
  "start_preauth cr smb2 p =
     do { let smb2 = smb2\<lparr>c_PreauthIntegrityHash := Some (replicate 64 0), c_preauthIntegrityHashLength := 64\<rparr>;
          (_, smb2) \<leftarrow> smb2UpdatePreauthIntegrityHash cr smb2 (p_out p);
          (_, smb2) \<leftarrow> smb2UpdatePreauthIntegrityHash cr smb2 (p_in p);
          Some smb2 }"

definition session_request :: "smb2_context \<Rightarrow> bytes \<times> u16 \<Rightarrow> smb2_session_setup_request" where
  "session_request smb2 tok =
     \<lparr>ss_flags = 0, ss_security_mode = ucast (c_security_mode smb2), ss_capabilities = 0, ss_channel = 0,
      ss_previous_session_id = 0, ss_security_buffer_length = snd tok, ss_security_buffer = fst tok\<rparr>"

definition Smb2Negotiate_ProcessReplyAndAppData :: "env \<Rightarrow> smb2_context \<Rightarrow> smb2_pdu \<Rightarrow> handler_result" where
  "Smb2Negotiate_ProcessReplyAndAppData env smb2 p =
     (let status = hdr_status (p_header_resp p); app = p_appData p in
      do { smb2 \<leftarrow> setNtStatus smb2 app status;
           if status \<noteq> SMB2_STATUS_SUCCESS
           then do { smb2 \<leftarrow> Smb2Context_close smb2;
                     smb2 \<leftarrow> status_msg smb2 app ''Negotiate failed with (0x%08x) %s'' status;
                     Some (0, endSendReceive smb2, p) }
           else (case p_payload p of
             Some (PNegotiate rep) \<Rightarrow>
               if neg_dialect_revision rep \<ge> version_value SMB2_VERSION_0311 \<and> neg_context_count rep = 0
               then do { smb2 \<leftarrow> setStatusMsg smb2 app SMB2_STATUS_INVALID_PARAMETER
                           (Msg ''Server negotiated SMB 3.11 without negotiate context'' []);
                         Some (0, endSendReceive smb2, p) }
               else do {
                 let smb2 = negotiated smb2 rep;
                 smb2 \<leftarrow> (if neg_dialect_revision rep \<ge> version_value SMB2_VERSION_0311
                         then start_preauth (e_crypto env) smb2 p else Some smb2);
                 smb2 \<leftarrow> delete_authenticator smb2;
                 let smb2 = smb2\<lparr>c_authenticator := Some (new_authenticator (c_sec smb2))\<rparr>;
                 (e, smb2) \<leftarrow> auth_negotiateReply env smb2;
                 case e of
                   Some e \<Rightarrow> do { smb2 \<leftarrow> Smb2Context_close smb2;
                                 smb2 \<leftarrow> setStatusMsg smb2 app SMB2_STATUS_LOGON_FAILURE e;
                                 Some (0, endSendReceive smb2, p) }
                 | None \<Rightarrow> do {
                     (r, smb2) \<leftarrow> auth_sessionRequest env smb2 None 0;
                     case r of
                       Inl e \<Rightarrow> do { smb2 \<leftarrow> setStatusMsg smb2 app SMB2_STATUS_INTERNAL_ERROR
                                       (Pre ''Auth sessionRequest Failed :'' [] e);
                                    smb2 \<leftarrow> Smb2Context_close smb2;
                                    Some (0, endSendReceive smb2, p) }
                     | Inr tok \<Rightarrow> do {
                         (pdu, smb2) \<leftarrow> Smb2SessionSetup_createPdu smb2 (session_request smb2 tok) app;
                         case pdu of
                           None \<Rightarrow> do { smb2 \<leftarrow> setNtStatus smb2 app SMB2_STATUS_NO_MEMORY;
                                       smb2 \<leftarrow> Smb2Context_close (endSendReceive smb2);
                                       Some (0, smb2, p) }
                         | Some pdu \<Rightarrow> do {
                             (ok, e, smb2) \<leftarrow> smb2_queue_pdu (e_crypto env) smb2 [pdu];
                             if ok then Some (0, smb2, p)
                             else do { smb2 \<leftarrow> setStatusMsg smb2 app SMB2_STATUS_INTERNAL_ERROR
                                         (Pre ''Failed to send PDU:'' [] (case e of None \<Rightarrow> Msg [] [] | Some e \<Rightarrow> e));
                                       smb2 \<leftarrow> Smb2Context_close (endSendReceive smb2);
                                       Some (0, smb2, p) } } } } }
           | _ \<Rightarrow> None) })"

section \<open>Session setup replies\<close>

definition Smb2SessionSetup_ProcessFixed :: "smb2_context \<Rightarrow> smb2_pdu \<Rightarrow> handler_result" where
  \<comment> \<open>the struct is not cleared: \<open>security_buffer\<close> stays uninitialised until the variable part is read\<close>
  "Smb2SessionSetup_ProcessFixed smb2 p =
     (if smb2ReplyIsError p then smb2ProcessErrorReplyFixed smb2 p
      else do {
        iov \<leftarrow> in_back p;
        let rep = \<lparr>ssr_session_flags = 0, ssr_security_buffer_length = 0, ssr_security_buffer_offset = 0,
                   ssr_security_buffer = None\<rparr>;
        struct_size \<leftarrow> local16 iov 0;
        if size_mismatch iov struct_size 9
        then fail_with smb2 (p\<lparr>p_payload := Some (PSessionSetup rep)\<rparr>)
               (Msg ''Unexpected size of Session Setup reply. Expected %d, got %d'' [9, iov_len iov])
        else do {
          fl \<leftarrow> get16 iov 2 0;
          so \<leftarrow> get16 iov 4 0;
          sl \<leftarrow> get16 iov 6 0;
          let p = p\<lparr>p_payload := Some (PSessionSetup \<lparr>ssr_session_flags = fl, ssr_security_buffer_length = sl,
                    ssr_security_buffer_offset = so, ssr_security_buffer = None\<rparr>)\<rparr>;
          let smb2 = smb2\<lparr>c_session_id := hdr_session_id (p_header_resp p)\<rparr>;
          if sl = 0 then Some (0, smb2, p)
          else if so < 72
          then fail_with smb2 p (Msg ''Securty buffer overlaps with Session Setup reply header'' [])
          else Some (uint so - 72 + uint sl, smb2, p) } })"

definition Smb2SessionSetup_ProcessVariable :: "smb2_context \<Rightarrow> smb2_pdu \<Rightarrow> handler_result" where
  "Smb2SessionSetup_ProcessVariable smb2 p =
     (if smb2ReplyIsError p then smb2ProcessErrorReplyVariable smb2 p
      else case p_payload p of
        Some (PSessionSetup rep) \<Rightarrow>
          do { iov \<leftarrow> in_back p;
               sb \<leftarrow> mem_ptr (iov_buf iov) (uint (ssr_security_buffer_offset rep) - 72);
               Some (0, smb2, p\<lparr>p_payload := Some (PSessionSetup (rep\<lparr>ssr_security_buffer := Some sb\<rparr>))\<rparr>) }
      | _ \<Rightarrow> None)"

definition smb2_derive_key :: "crypto \<Rightarrow> bytes \<Rightarrow> nat \<Rightarrow> bytes \<Rightarrow> bytes \<Rightarrow> bytes option" where
  "smb2_derive_key cr derivation_key derivation_key_len label context =
     do { k \<leftarrow> mem_read derivation_key 0 (min 16 derivation_key_len);
          input_key \<leftarrow> mem_write (replicate 16 0) 0 k;
          mem_read (hmac_sha256 cr input_key (htobe32 1 @ label @ [0] @ context @ htobe32 (16 * 8))) 0 16 }"

definition derive_signing_key :: "crypto \<Rightarrow> smb2_context \<Rightarrow> bytes \<Rightarrow> smb2_context option" where
  \<comment> \<open>lines 304 to 344\<close>
  "derive_signing_key cr smb2 session_key =
     (if c_dialect smb2 = version_value SMB2_VERSION_0202 \<or> c_dialect smb2 = version_value SMB2_VERSION_0210
      then do { k \<leftarrow> mem_read session_key 0 (min (unat (c_session_key_size smb2)) 16);
                key \<leftarrow> mem_write (c_signing_key smb2) 0 k;
                Some (smb2\<lparr>c_signing_key := key\<rparr>) }
      else if c_dialect smb2 \<le> version_value SMB2_VERSION_0302
      then do { key \<leftarrow> smb2_derive_key cr session_key (unat (c_session_key_size smb2))
                         (c_str (ascii ''SMB2AESCMAC'')) (c_str (ascii ''SmbSign''));
                Some (smb2\<lparr>c_signing_key := key\<rparr>) }
      else do { hash \<leftarrow> c_PreauthIntegrityHash smb2;
                context \<leftarrow> mem_read hash 0 (unat (c_preauthIntegrityHashLength smb2));
                key \<leftarrow> smb2_derive_key cr session_key (unat (c_session_key_size smb2))
                         (c_str (ascii ''SMBSigningKey'')) context;
                Some (smb2\<lparr>c_signing_key := key\<rparr>) })"

definition setup_signing :: "env \<Rightarrow> smb2_context \<Rightarrow> (bool \<times> smb2_context) option" where
  \<comment> \<open>lines 277 to 345; \<open>False\<close> when there is no usable session key\<close>
  "setup_signing env smb2 =
     (if c_signing_required smb2 = 0 then Some (True, smb2)
      else do {
        r \<leftarrow> auth_getSessionKey env smb2;
        let (valid, smb2) = (case r of Inl _ \<Rightarrow> (False, smb2)
              | Inr (k, n) \<Rightarrow> (True, smb2\<lparr>c_session_key := Some k, c_session_key_size := n\<rparr>));
        case c_session_key smb2 of
          None \<Rightarrow> Some (False, smb2)
        | Some key \<Rightarrow>
            do { k \<leftarrow> mem_read key 0 16;
                 if k = replicate 16 0 \<or> \<not> valid then Some (False, smb2)
                 else do { smb2 \<leftarrow> derive_signing_key (e_crypto env) smb2 key; Some (True, smb2) } } })"

definition tree_connect_to_share :: "env \<Rightarrow> smb2_context \<Rightarrow> smb2_pdu \<Rightarrow> handler_result" where
  \<comment> \<open>lines 347 to 383; the result of \<^verbatim>\<open>smb2_queue_pdu\<close> is not looked at\<close>
  "tree_connect_to_share env smb2 p =
     do { smb2 \<leftarrow> delete_authenticator smb2;
          let uncPath = [0x5c, 0x5c] @ c_server smb2 @ [0x5c] @ c_share smb2;
          u \<leftarrow> utf8_to_ucs2 (c_str uncPath);
          case u of
            None \<Rightarrow> do { smb2 \<leftarrow> Smb2Context_close smb2;
                        smb2 \<leftarrow> setStatusMsg smb2 (p_appData p) SMB2_STATUS_NO_MEMORY (Msg ''Count not convert UNC:[%s] into UCS2'' []);
                        Some (-1, endSendReceive smb2, p) }
          | Some val \<Rightarrow>
              do { (pdu, smb2) \<leftarrow> Smb2TreeConnect_createPdu smb2
                     \<lparr>tc_flags = 0, tc_path_length = 2 * of_nat (length val), tc_path = ucs2_bytes val\<rparr> (p_appData p);
                   case pdu of
                     None \<Rightarrow> do { smb2 \<leftarrow> setNtStatus smb2 (p_appData p) SMB2_STATUS_NO_MEMORY;
                                 smb2 \<leftarrow> Smb2Context_close smb2;
                                 Some (-1, endSendReceive smb2, p) }
                   | Some pdu \<Rightarrow> do { (_, _, smb2) \<leftarrow> smb2_queue_pdu (e_crypto env) smb2 [pdu]; Some (0, smb2, p) } } }"

definition update_preauth :: "crypto \<Rightarrow> smb2_context \<Rightarrow> smb2_pdu \<Rightarrow> smb2_context option" where
  \<comment> \<open>lines 189 to 220: the request, and the response unless it is the last one\<close>
  "update_preauth cr smb2 p =
     (if c_dialect smb2 < version_value SMB2_VERSION_0311 then Some smb2
      else do { (_, smb2) \<leftarrow> smb2UpdatePreauthIntegrityHash cr smb2 (p_out p);
                if hdr_status (p_header_resp p) = SMB2_STATUS_SUCCESS then Some smb2
                else do { (_, smb2) \<leftarrow> smb2UpdatePreauthIntegrityHash cr smb2 (p_in p); Some smb2 } })"

definition Smb2SessionSetup_ProcessReplyAndAppData :: "env \<Rightarrow> smb2_context \<Rightarrow> smb2_pdu \<Rightarrow> handler_result" where
  "Smb2SessionSetup_ProcessReplyAndAppData env smb2 p =
     (let status = hdr_status (p_header_resp p); app = p_appData p in
      do { smb2 \<leftarrow> setNtStatus smb2 app status;
           if status \<noteq> SMB2_STATUS_SUCCESS \<and> status \<noteq> SMB2_STATUS_MORE_PROCESSING_REQUIRED
           then do { smb2 \<leftarrow> Smb2Context_close smb2;
                     smb2 \<leftarrow> setStatusMsg smb2 app status (Msg ''Session setup failed with (0x%08x) %s'' [ucast status]);
                     Some (0, endSendReceive smb2, p) }
           else do {
             smb2 \<leftarrow> update_preauth (e_crypto env) smb2 p;
             if status = SMB2_STATUS_MORE_PROCESSING_REQUIRED then
               (case p_payload p of
                  Some (PSessionSetup rep) \<Rightarrow>
                    do { sb \<leftarrow> ssr_security_buffer rep;
                         (r, smb2) \<leftarrow> auth_sessionRequest env smb2 (Some sb) (unat (ssr_security_buffer_length rep));
                         case r of
                           Inl e \<Rightarrow> do { smb2 \<leftarrow> Smb2Context_close smb2;
                                        smb2 \<leftarrow> setStatusMsg smb2 app SMB2_STATUS_INTERNAL_ERROR e;
                                        Some (0, endSendReceive smb2, p) }
                         | Inr tok \<Rightarrow> do {
                             (pdu, smb2) \<leftarrow> Smb2SessionSetup_createPdu smb2 (session_request smb2 tok) app;
                             case pdu of
                               None \<Rightarrow> do { smb2 \<leftarrow> setNtStatus smb2 app SMB2_STATUS_NO_MEMORY;
                                           smb2 \<leftarrow> Smb2Context_close smb2;
                                           Some (0, endSendReceive smb2, p) }
                             | Some pdu \<Rightarrow> do { (_, _, smb2) \<leftarrow> smb2_queue_pdu (e_crypto env) smb2 [pdu];
                                               Some (0, smb2, p) } } }
                | _ \<Rightarrow> None)
             else do {
               (e, smb2) \<leftarrow>
                 (if c_sec smb2 \<noteq> SMB2_SEC_KRB5 then Some (None, smb2)
                  else (case p_payload p of
                    Some (PSessionSetup rep) \<Rightarrow>
                      do { sb \<leftarrow> ssr_security_buffer rep;
                           (r, smb2) \<leftarrow> auth_sessionRequest env smb2 (Some sb) (unat (ssr_security_buffer_length rep));
                           case r of Inl e \<Rightarrow> Some (Some e, smb2)
                           | Inr _ \<Rightarrow> (case c_authenticator smb2 of Some (ANtlm _) \<Rightarrow> None | _ \<Rightarrow> Some (None, smb2)) }
                  | _ \<Rightarrow> None));
               case e of
                 Some e \<Rightarrow> do { smb2 \<leftarrow> setStatusMsg smb2 app SMB2_STATUS_INTERNAL_ERROR e;
                               Some (0, endSendReceive smb2, p) }
               | None \<Rightarrow> do {
                   (ok, smb2) \<leftarrow> setup_signing env smb2;
                   if \<not> ok
                   then do { smb2 \<leftarrow> Smb2Context_close smb2;
                             smb2 \<leftarrow> setStatusMsg smb2 app SMB2_STATUS_NO_USER_SESSION_KEY
                               (Msg ''Signing required by server. Session Key is not available'' []);
                             Some (0, endSendReceive smb2, p) }
                   else tree_connect_to_share env smb2 p } } } })"

section \<open>Requests on the wire\<close>

definition session_setup_body :: "smb2_context \<Rightarrow> smb2_session_setup_request \<Rightarrow> bytes" where
  "session_setup_body _ r = htole16 25 @ [ss_flags r] @ [ss_security_mode r] @ htole32 (ss_capabilities r) @
     htole32 (ss_channel r) @ htole16 88 @ htole16 (ss_security_buffer_length r) @ htole64 (ss_previous_session_id r) @
     take (unat (ss_security_buffer_length r)) (ss_security_buffer r)"

interpretation session_setup: request_command SMB2_SESSION_SETUP Smb2SessionSetup_createPdu session_setup_body
  "\<lambda>_ r. unat (ss_security_buffer_length r) \<le> length (ss_security_buffer r)"
proof
  fix c app and r :: smb2_session_setup_request
  assume len: "unat (ss_security_buffer_length r) \<le> length (ss_security_buffer r)"
  have "Smb2SessionSetup_encodeRequest c r (Smb2Pdu c SMB2_SESSION_SETUP app) = Some (0, c,
      push_iov (push_iov (Smb2Pdu c SMB2_SESSION_SETUP app) ((new_iov 24)\<lparr>iov_buf := take 24 (session_setup_body c r)\<rparr>))
        (smb2_iovec_make (take (unat (ss_security_buffer_length r)) (ss_security_buffer r)) (ucast (ss_security_buffer_length r)) True))"
    using len by (simp add: Smb2SessionSetup_encodeRequest_def body_simps session_setup_body_def sub_bytes_def)
  then show "\<exists>p. Smb2SessionSetup_createPdu c r app = Some (Some p, c) \<and>
      request_pdu c SMB2_SESSION_SETUP app (session_setup_body c r) p"
    unfolding Smb2SessionSetup_createPdu_def
    by (rule finish_push2) (use len in \<open>simp_all add: body_simps session_setup_body_def smb2_iovec_make_def\<close>)
qed

text \<open>The negotiate request: the fixed part, the dialects, padding and the contexts.\<close>

definition preauth_body :: "smb2_preauth_integ_context \<Rightarrow> bytes" where
  "preauth_body x = htole16 (pic_ContextType x) @ htole16 (pic_DataLength x) @ htole32 (pic_Reserved x) @
     htole16 (pic_HashAlgorithmCount x) @ htole16 (pic_SaltLength x) @ htole16 (pic_HashAlgorithms x) @ pic_Salt x @ replicate 2 0"

definition enc_cap_body :: "smb2_enc_cap_context \<Rightarrow> bytes" where
  "enc_cap_body x = htole16 (ecc_ContextType x) @ htole16 (ecc_DataLength x) @ htole32 (ecc_Reserved x) @
     htole16 (ecc_CipherCount x) @ htole16 (fst (ecc_Ciphers x)) @ htole16 (snd (ecc_Ciphers x)) @ replicate 2 0"

definition context_bodies :: "smb2_negotiate_request \<Rightarrow> bytes list" where
  "context_bodies r = (if nr_neg_ctx_flags r AND 0x01 \<noteq> 0 then [preauth_body (nr_preauth_ctx r)] else []) @
     (if nr_neg_ctx_flags r AND 0x10 \<noteq> 0 then [enc_cap_body (nr_enc_ctx r)] else [])"

definition negotiate_fixed :: "smb2_negotiate_request \<Rightarrow> bytes" where
  "negotiate_fixed r = htole16 36 @ htole16 (nr_dialect_count r) @ htole16 (nr_security_mode r) @ replicate 2 0 @
     htole32 (nr_capabilities r) @ nr_client_guid r @
     (if nr_max_dialect r < version_value SMB2_VERSION_0311 then htole64 (nr_client_start_time r)
      else htole32 (of_nat (64 + round8 (36 + 2 * length (nr_dialects r)))) @ htole16 (of_nat (length (context_bodies r))) @ htole16 0)"

definition negotiate_body :: "smb2_context \<Rightarrow> smb2_negotiate_request \<Rightarrow> bytes" where
  "negotiate_body _ r = negotiate_fixed r @ concat (map htole16 (nr_dialects r)) @
     replicate (pad8 (36 + 2 * length (nr_dialects r))) 0 @ concat (context_bodies r)"

definition negotiate_valid :: "smb2_negotiate_request \<Rightarrow> bool" where
  "negotiate_valid r \<longleftrightarrow> length (nr_client_guid r) = 16 \<and> length (nr_dialects r) = unat (nr_dialect_count r) \<and>
     length (pic_Salt (nr_preauth_ctx r)) = 32"

lemma length_dialects [simp]: "length (concat (map htole16 ds)) = 2 * length ds"
  by (induction ds) simp_all

lemma set_dialects_put:
  assumes "wf_iovec v" and "36 + 2 * (i + length ds) \<le> unat (iov_len v)"
  shows "set_dialects v i (length ds) ds = Some (v\<lparr>iov_buf := put_bytes (iov_buf v) (36 + 2 * i) (concat (map htole16 ds))\<rparr>)"
  using assms
proof (induction ds arbitrary: v i)
  case Nil
  then show ?case by (simp add: put_bytes_def)
next
  case (Cons d ds)
  let ?v = "v\<lparr>iov_buf := put_bytes (iov_buf v) (36 + 2 * i) (htole16 d)\<rparr>"
  have n: "nat (36 + int i * 2) = 36 + 2 * i" "0 \<le> 36 + int i * 2"
    by simp_all
  have l: "unat (iov_len v) \<le> length (iov_buf v)"
    using Cons.prems(1) by (simp add: wf_iovec_def)
  have "set16 v (36 + int i * 2) d = Some ?v"
    using Cons.prems by (subst set_in(2)) (simp_all only: n, simp_all)
  moreover have "put_bytes (put_bytes (iov_buf v) (36 + 2 * i) (htole16 d)) (36 + 2 * Suc i) (concat (map htole16 ds)) =
      put_bytes (iov_buf v) (36 + 2 * i) (concat (map htole16 (d # ds)))"
    using Cons.prems l by (simp add: put_bytes_def algebra_simps)
  moreover have "wf_iovec ?v"
    using Cons.prems l by (simp add: wf_iovec_def)
  ultimately show ?case
    using Cons.IH [of ?v "Suc i"] Cons.prems(2) by simp
qed

lemma preauth_vector_body:
  "length (pic_Salt x) = 32 \<Longrightarrow> preauth_vector x = Some ((new_iov 48)\<lparr>iov_buf := preauth_body x\<rparr>)"
  by (simp add: preauth_vector_def round8_def body_simps preauth_body_def)

lemma enc_cap_vector_body: "enc_cap_vector x = Some ((new_iov 16)\<lparr>iov_buf := enc_cap_body x\<rparr>)"
  by (simp add: enc_cap_vector_def round8_def body_simps enc_cap_body_def)

lemma contexts_body:
  assumes "negotiate_valid r"
  shows "\<exists>vs. encodeNegotiateContexts r = Some vs \<and> map iov_data vs = context_bodies r \<and> list_all wf_iovec vs"
  using assms
  by (simp add: encodeNegotiateContexts_def preauth_vector_body enc_cap_vector_body negotiate_valid_def context_bodies_def
      body_simps) (simp add: preauth_body_def enc_cap_body_def)

lemma fresh_push_all:
  "fresh_pdu c cmd app b p \<Longrightarrow> list_all wf_iovec vs \<Longrightarrow> fresh_pdu c cmd app (b @ concat (map iov_data vs)) (foldl push_iov p vs)"
proof (induction vs arbitrary: b p)
  case (Cons v vs)
  then show ?case
    using fresh_push [of c cmd app b p v] Cons.IH [of "b @ iov_data v" "push_iov p v"] by simp
qed simp

lemma negotiate_vector:
  assumes v: "iov_buf v = replicate 36 0 @ z" "unat (iov_len v) = 36 + length z" and g: "length (nr_client_guid r) = 16"
    and len: "2 * length (nr_dialects r) \<le> length z" "unat (nr_dialect_count r) = length (nr_dialects r)"
  shows "encode_negotiate_head r v = Some (v\<lparr>iov_buf := htole16 36 @ htole16 (nr_dialect_count r) @
       htole16 (nr_security_mode r) @ replicate 2 0 @ htole32 (nr_capabilities r) @ nr_client_guid r @ replicate 8 0 @
       concat (map htole16 (nr_dialects r)) @ drop (2 * length (nr_dialects r)) z\<rparr>)"
  using v g len set_dialects_put [where ds = "nr_dialects r" and i = 0]
  by (simp add: encode_negotiate_head_def body_simps add.commute)

interpretation negotiate: request_command SMB2_NEGOTIATE Smb2Negotiate_createPdu negotiate_body "\<lambda>_. negotiate_valid"
proof
  fix c app r assume valid: "negotiate_valid r"
  let ?n = "36 + 2 * length (nr_dialects r)" and ?p = "Smb2Pdu c SMB2_NEGOTIATE app"
  have n: "unat (nr_dialect_count r) = length (nr_dialects r)" and g: "length (nr_client_guid r) = 16"
    using valid by (simp_all add: negotiate_valid_def)
  have small: "round8 ?n < 2 ^ 20"
    using unat_u16_less [of "nr_dialect_count r"] by (simp add: round8_def n [symmetric])
  obtain vs where vs: "encodeNegotiateContexts r = Some vs" "map iov_data vs = context_bodies r" "list_all wf_iovec vs"
    using contexts_body [OF valid] by blast
  have vlen: "length vs = length (context_bodies r)"
    using arg_cong [OF vs(2), of length] by simp
  let ?z = "replicate (2 * length (nr_dialects r) + pad8 ?n) 0"
  have z: "replicate (round8 ?n) 0 = replicate 36 0 @ ?z"
    by (simp add: round8_def replicate_add)
  have u: "unat (of_nat (round8 ?n) :: u64) = round8 ?n"
    using small by (intro unat_of_nat_u64) simp
  let ?v = "(new_iov (round8 ?n))\<lparr>iov_buf := negotiate_fixed r @ concat (map htole16 (nr_dialects r)) @ replicate (pad8 ?n) 0\<rparr>"
  have head: "encode_negotiate_head r (new_iov (round8 ?n)) = Some ((new_iov (round8 ?n))\<lparr>iov_buf := htole16 36 @
      htole16 (nr_dialect_count r) @ htole16 (nr_security_mode r) @ replicate 2 0 @ htole32 (nr_capabilities r) @
      nr_client_guid r @ replicate 8 0 @ concat (map htole16 (nr_dialects r)) @ drop (2 * length (nr_dialects r)) ?z\<rparr>)"
    using n g u by (intro negotiate_vector) (simp_all add: z, simp add: round8_def)
  have len: "length (negotiate_fixed r) = 36"
    using g by (simp add: negotiate_fixed_def)
  have "Smb2Negotiate_encodeRequest c r ?p = Some (0, c, foldl push_iov (push_iov ?p ?v) vs)"
    using head vs(1) vlen u g n
    by (simp add: Smb2Negotiate_encodeRequest_def Let_def mult.commute body_simps negotiate_fixed_def round8_def)
  moreover have "wf_iovec ?v" "iov_data ?v = negotiate_fixed r @ concat (map htole16 (nr_dialects r)) @ replicate (pad8 ?n) 0"
    using u len by (simp_all add: wf_iovec_def iov_data_def) (simp_all add: round8_def)
  then have "fresh_pdu c SMB2_NEGOTIATE app (negotiate_body c r) (foldl push_iov (push_iov ?p ?v) vs)"
    using fresh_push_all [OF fresh_push [OF fresh_ctor, of ?v c SMB2_NEGOTIATE app] vs(3)] by (simp add: negotiate_body_def vs(2))
  ultimately show "\<exists>p. Smb2Negotiate_createPdu c r app = Some (Some p, c) \<and>
      request_pdu c SMB2_NEGOTIATE app (negotiate_body c r) p"
    using finish_fresh by (simp add: Smb2Negotiate_createPdu_def)
qed

section \<open>Error replies\<close>

lemma closed_put [simp]: "closed_context (put_cell c q x) = put_cell (closed_context c) q x"
  by (simp add: closed_context_def put_cell_def)

interpretation negotiate_reply: reply_command Smb2Negotiate_ProcessFixed Smb2Negotiate_ProcessVariable
  "Smb2Negotiate_ProcessReplyAndAppData env" can_close for env
  by unfold_locales
     (auto simp: Smb2Negotiate_ProcessFixed_def Smb2Negotiate_ProcessVariable_def has_app_def can_close_def close_some
        Smb2Negotiate_ProcessReplyAndAppData_def app_simps status_msg_def Let_def dest: error_nonzero)

lemma error_not_more: "smb2ReplyIsError p \<Longrightarrow> hdr_status (p_header_resp p) \<noteq> SMB2_STATUS_MORE_PROCESSING_REQUIRED"
  by (auto simp: smb2ReplyIsError_def Let_def)

interpretation session_setup_reply: reply_command Smb2SessionSetup_ProcessFixed Smb2SessionSetup_ProcessVariable
  "Smb2SessionSetup_ProcessReplyAndAppData env" can_close for env
  by unfold_locales
     (auto simp: Smb2SessionSetup_ProcessFixed_def Smb2SessionSetup_ProcessVariable_def has_app_def can_close_def close_some
        Smb2SessionSetup_ProcessReplyAndAppData_def app_simps setStatusMsg_def Let_def dest: error_nonzero error_not_more)

section \<open>Properties\<close>

text \<open>The first NTLM message.\<close>

definition ntlm_hello :: bytes where
  "ntlm_hello = ascii ''NTLMSSP'' @ [0] @ htole32 1 @ htole32 ntlm_flags @ replicate 16 0"

lemma ntlm_hello_blob:
  "\<exists>ad'. ntlmssp_generate_blob cr t ad None 0 = Some (0, Some (ntlm_hello, 32), ad')"
proof -
  let ?ad = "ad\<lparr>na_buf := [], na_len := 0, na_allocated := 0\<rparr>"
  have b0: "built ?ad [] ?ad"
    unfolding built_def by (rule exI [of _ 0]) simp
  have len: "length ntlm_hello = 32"
    by (simp add: ntlm_hello_def)
  have "ntlm_negotiate_message ?ad = encoder ntlm_hello ?ad"
    by (simp add: ntlm_negotiate_message_def mem_write_def put_bytes_def ntlm_hello_def)
  moreover obtain ad' where "encoder ntlm_hello ?ad = Some ad'" "built ?ad ntlm_hello ad'"
    using encoder_built [OF b0, of ntlm_hello] len by auto
  ultimately show ?thesis
    using built_fields [of ?ad ntlm_hello ad'] len by (simp add: ntlmssp_generate_blob_def)
qed

text \<open>The preauthentication hash takes in the bytes of a message.\<close>

lemma update_hash:
  assumes "c_PreauthIntegrityHash c = Some h" and "length h = 64" and "c_preauthIntegrityHashLength c = 64"
    and "list_all wf_iovec (iovs vs)" and "\<forall>m. length (sha512 cr m) = 64"
  shows "smb2UpdatePreauthIntegrityHash cr c vs = Some (0, c\<lparr>c_PreauthIntegrityHash := Some (sha512 cr (h @ vectors_data vs))\<rparr>)"
  using assms all_iov_bytes_wf [OF assms(4)]
  by (simp add: smb2UpdatePreauthIntegrityHash_def mem_write_def put_bytes_def vectors_data_def)

definition preauth_start :: "crypto \<Rightarrow> smb2_pdu \<Rightarrow> bytes" where
  "preauth_start cr p = sha512 cr (sha512 cr (replicate 64 0 @ vectors_data (p_out p)) @ vectors_data (p_in p))"

lemma start_preauth_hash:
  assumes "list_all wf_iovec (iovs (p_out p))" and "list_all wf_iovec (iovs (p_in p))" and "\<forall>m. length (sha512 cr m) = 64"
  shows "start_preauth cr c p =
    Some (c\<lparr>c_preauthIntegrityHashLength := 64, c_PreauthIntegrityHash := Some (preauth_start cr p)\<rparr>)"
  using assms by (simp add: start_preauth_def update_hash preauth_start_def)

lemma negotiated_frame [simp]:
  "c_outqueue (negotiated c rep) = c_outqueue c" "c_waitqueue (negotiated c rep) = c_waitqueue c"
  "c_message_id (negotiated c rep) = c_message_id c" "c_authenticator (negotiated c rep) = c_authenticator c"
  "c_sec (negotiated c rep) = c_sec c" "c_password (negotiated c rep) = c_password c"
  "c_security_mode (negotiated c rep) = c_security_mode c" "c_dialect (negotiated c rep) = neg_dialect_revision rep"
  "c_heap (negotiated c rep) = c_heap c"
  "c_max_read_size (negotiated c rep) = neg_max_read_size rep" "c_max_write_size (negotiated c rep) = neg_max_write_size rep"
  by (simp_all add: negotiated_def Let_def)

lemma put_cell_frame [simp]:
  "c_outqueue (put_cell c q x) = c_outqueue c" "c_waitqueue (put_cell c q x) = c_waitqueue c"
  "c_message_id (put_cell c q x) = c_message_id c" "c_authenticator (put_cell c q x) = c_authenticator c"
  "c_sec (put_cell c q x) = c_sec c" "c_password (put_cell c q x) = c_password c"
  "c_security_mode (put_cell c q x) = c_security_mode c" "c_dialect (put_cell c q x) = c_dialect c"
  by (simp_all add: put_cell_def)

text \<open>The context from which the first session setup is sent.\<close>

definition negotiated_ntlm :: "crypto \<Rightarrow> smb2_context \<Rightarrow> smb2_pdu \<Rightarrow> smb2_negotiate_reply \<Rightarrow> smb2_context" where
  "negotiated_ntlm cr c p rep =
     (let c = negotiated c rep in
      if neg_dialect_revision rep \<ge> 0x0311
      then c\<lparr>c_preauthIntegrityHashLength := 64, c_PreauthIntegrityHash := Some (preauth_start cr p)\<rparr> else c)"

lemma negotiated_ntlm_frame [simp]:
  "c_outqueue (negotiated_ntlm cr c p rep) = c_outqueue c" "c_waitqueue (negotiated_ntlm cr c p rep) = c_waitqueue c"
  "c_message_id (negotiated_ntlm cr c p rep) = c_message_id c" "c_authenticator (negotiated_ntlm cr c p rep) = c_authenticator c"
  "c_sec (negotiated_ntlm cr c p rep) = c_sec c" "c_password (negotiated_ntlm cr c p rep) = c_password c"
  "c_security_mode (negotiated_ntlm cr c p rep) = c_security_mode c"
  "c_dialect (negotiated_ntlm cr c p rep) = neg_dialect_revision rep"
  "c_max_read_size (negotiated_ntlm cr c p rep) = neg_max_read_size rep"
  "c_max_write_size (negotiated_ntlm cr c p rep) = neg_max_write_size rep"
  by (simp_all add: negotiated_ntlm_def Let_def)

text \<open>What the client adopts of the answer of the server.\<close>

definition adopted :: "smb2_context \<Rightarrow> smb2_negotiate_reply \<Rightarrow> smb2_context \<Rightarrow> bool" where
  "adopted c rep c' \<longleftrightarrow>
     c_dialect c' = neg_dialect_revision rep \<and> c_max_transact_size c' = neg_max_transact_size rep \<and>
     c_max_read_size c' = neg_max_read_size rep \<and> c_max_write_size c' = neg_max_write_size rep \<and>
     c_supports_multi_credit c' = (c_supports_multi_credit c \<or> neg_dialect_revision rep > 0x0202 \<and> neg_capabilities rep AND 0x04 \<noteq> 0) \<and>
     c_signing_required c' = (if neg_security_mode rep AND 0x0002 \<noteq> 0 \<or> neg_dialect_revision rep \<ge> 0x0311 then 1 else c_signing_required c) \<and>
     c_serverSupportEncryption c' = (if neg_dialect_revision rep \<ge> 0x0311 \<and> c_CipherId c \<noteq> 0 \<and> neg_capabilities rep AND 0x40 \<noteq> 0
       then 1 else c_serverSupportEncryption c)"

lemma adopted_negotiated: "adopted c rep (negotiated_ntlm cr (put_cell c q x) p rep)"
  by (auto simp: adopted_def negotiated_ntlm_def negotiated_def put_cell_def Let_def)

lemma adopted_cong: "adopted c rep (c'\<lparr>c_authenticator := a, c_message_id := i, c_outqueue := q\<rparr>) = adopted c rep c'"
  by (simp add: adopted_def)

lemma negotiated_hash:
  "c_PreauthIntegrityHash (negotiated_ntlm cr (put_cell c q x) p rep) =
     (if neg_dialect_revision rep \<ge> 0x0311 then Some (preauth_start cr p) else c_PreauthIntegrityHash c)"
  by (simp add: negotiated_ntlm_def negotiated_def put_cell_def Let_def)

text \<open>C21. A negotiate reply with the status success moves an NTLM client with a non-empty password on to authentication; an answer that
  chooses SMB 3.1.1 has to carry negotiate contexts. The dialect, the three size limits, the support of multiple
  credits and of encryption and the need of signing enter the context as the server says, and a session setup request with
  exactly the NTLM negotiate message is queued under the next message id. With SMB 3.1.1 signing is
  on and the preauthentication hash is the SHA-512 chain over request and response; before, it stays.\<close>

theorem negotiate_starts_session:
  assumes s: "hdr_status (p_header_resp p) = SMB2_STATUS_SUCCESS" and rep: "p_payload p = Some (PNegotiate rep)"
    and ctx: "neg_dialect_revision rep < 0x0311 \<or> neg_context_count rep \<noteq> 0"
    and ntlm: "c_sec c \<noteq> SMB2_SEC_KRB5" "c_password c \<noteq> []" and app: "app_at c (p_appData p) \<noteq> None"
    and ok: "auth_ok c" "queues_ok c" and wf: "list_all wf_iovec (iovs (p_out p))" "list_all wf_iovec (iovs (p_in p))"
    and sha: "\<forall>m. length (sha512 (e_crypto env) m) = 64"
  shows "\<exists>c' p'. Smb2Negotiate_ProcessReplyAndAppData env c p = Some (0, c', p) \<and>
     adopted c rep c' \<and>
     c_PreauthIntegrityHash c' =
       (if neg_dialect_revision rep \<ge> 0x0311 then Some (preauth_start (e_crypto env) p) else c_PreauthIntegrityHash c) \<and>
     map_find (c_message_id c) (c_outqueue c') = Some [p'] \<and> p_appData p' = p_appData p \<and>
     vectors_data (p_out p') = request_wire p' (session_setup_body c' (session_request c (ntlm_hello, 32)))"
proof -
  obtain a where a: "app_at c (p_appData p) = Some a"
    using app by blast
  let ?cr = "e_crypto env" and ?c1 = "put_cell c (p_appData p) (CApp (a\<lparr>ad_ntStatus := 0\<rparr>))"
  let ?c2 = "negotiated_ntlm ?cr ?c1 p rep"
  let ?ad = "ntlmssp_init_context (c_user ?c2) (c_password ?c2) (c_domain ?c2) (c_workstation ?c2) (c_client_challenge ?c2)"
  obtain ad' where ad': "ntlmssp_generate_blob ?cr (e_time env) ?ad None 0 = Some (0, Some (ntlm_hello, 32), ad')"
    using ntlm_hello_blob by blast
  let ?c3 = "?c2\<lparr>c_authenticator := Some (ANtlm (Some ad'))\<rparr>"
  have valid: "unat (ss_security_buffer_length (session_request ?c3 (ntlm_hello, 32)))
      \<le> length (ss_security_buffer (session_request ?c3 (ntlm_hello, 32)))"
    by (simp add: session_request_def ntlm_hello_def)
  have q3: "queues_ok ?c3"
    using ok(2) queues_ok_cong [of ?c3 c] by simp
  obtain q p' c' where q: "Smb2SessionSetup_createPdu ?c3 (session_request ?c3 (ntlm_hello, 32)) (p_appData p) = Some (Some q, ?c3)"
    "smb2_queue_pdu ?cr ?c3 [q] = Some (True, None, c')" "map_find (c_message_id ?c3) (c_outqueue c') = Some [p']"
    "vectors_data (p_out p') = request_wire p' (session_setup_body ?c3 (session_request ?c3 (ntlm_hello, 32)))"
    "p_appData p' = p_appData p" "\<exists>i q. c' = ?c3\<lparr>c_message_id := i, c_outqueue := q\<rparr>"
    using session_setup.on_wire_unsigned [OF valid _ q3, of "p_appData p" ?cr] by blast
  have pre: "(if neg_dialect_revision rep \<ge> 0x0311 then start_preauth ?cr (negotiated ?c1 rep) p
      else Some (negotiated ?c1 rep)) = Some ?c2"
    by (simp add: start_preauth_hash [OF wf sha] negotiated_ntlm_def Let_def)
  have del: "delete_authenticator ?c2 = Some (?c2\<lparr>c_authenticator := None\<rparr>)"
    using ok(1) by (auto simp: delete_authenticator_def auth_ok_def split: option.splits authenticator.splits)
  have "Smb2Negotiate_ProcessReplyAndAppData env c p = Some (0, c', p)"
    using s rep ctx ntlm pre del ad' q(1,2)
    by (auto simp: Smb2Negotiate_ProcessReplyAndAppData_def setNtStatus_app [OF a] auth_negotiateReply_def
        auth_sessionRequest_def new_authenticator_def Let_def)
  moreover have "adopted c rep c' \<and> c_PreauthIntegrityHash c' =
      (if neg_dialect_revision rep \<ge> 0x0311 then Some (preauth_start ?cr p) else c_PreauthIntegrityHash c)"
    using q(6) adopted_negotiated by (auto simp: adopted_cong negotiated_hash)
  ultimately show ?thesis
    using q(3-6) by (auto simp: session_setup_body_def session_request_def)
qed

definition ex_negotiate_reply :: smb2_negotiate_reply where
  "ex_negotiate_reply = \<lparr>neg_security_mode = 0, neg_dialect_revision = 0x0311, neg_context_count = 1,
     neg_server_guid = replicate 16 0, neg_capabilities = 0, neg_max_transact_size = 65536, neg_max_read_size = 65536,
     neg_max_write_size = 65536, neg_system_time = 0, neg_server_start_time = 0, neg_security_buffer_length = 0,
     neg_security_buffer_offset = 128, neg_context_offset = 0, neg_security_buffer = None\<rparr>"

definition ex_login_context :: smb2_context where
  "ex_login_context = (new_context 0)\<lparr>c_heap := (\<lambda>_. None)(1 := Some (CApp (new_app_data AppPlain))), c_password := [0x70]\<rparr>"

definition ex_login_pdu :: smb2_pdu where
  "ex_login_pdu = (Smb2Pdu ex_login_context SMB2_NEGOTIATE 1)\<lparr>p_payload := Some (PNegotiate ex_negotiate_reply)\<rparr>"

theorem negotiate_starts_session_witness:
  "\<exists>c' p'. Smb2Negotiate_ProcessReplyAndAppData ex_env ex_login_context ex_login_pdu = Some (0, c', ex_login_pdu) \<and>
     c_signing_required c' = 1 \<and> c_max_transact_size c' = 65536 \<and> map_find 0 (c_outqueue c') = Some [p']"
proof -
  have "\<exists>c' p'. Smb2Negotiate_ProcessReplyAndAppData ex_env ex_login_context ex_login_pdu = Some (0, c', ex_login_pdu) \<and>
     adopted ex_login_context ex_negotiate_reply c' \<and>
     c_PreauthIntegrityHash c' = (if neg_dialect_revision ex_negotiate_reply \<ge> 0x0311
       then Some (preauth_start (e_crypto ex_env) ex_login_pdu) else c_PreauthIntegrityHash ex_login_context) \<and>
     map_find (c_message_id ex_login_context) (c_outqueue c') = Some [p'] \<and> p_appData p' = p_appData ex_login_pdu \<and>
     vectors_data (p_out p') = request_wire p' (session_setup_body c' (session_request ex_login_context (ntlm_hello, 32)))"
    by (rule negotiate_starts_session)
       (simp_all add: ex_login_pdu_def ex_login_context_def Smb2Pdu_def Let_def zero_header_def ex_negotiate_reply_def
         new_context_def app_at_def auth_ok_def queues_ok_def queued_ids_def map_sorted_def smb2_add_iovector_buf_def
         smb2_io_vectors_empty_def wf_iovec_def ex_env_def ex_crypto_def)
  moreover have "c_message_id ex_login_context = 0"
    by (simp add: ex_login_context_def new_context_def)
  ultimately show ?thesis
    by (auto simp: ex_negotiate_reply_def adopted_def)
qed

text \<open>Without a password the destructor of the NTLM provider runs on a pointer nobody has set.\<close>

lemma empty_password_undefined:
  assumes "hdr_status (p_header_resp p) = SMB2_STATUS_SUCCESS" and "p_payload p = Some (PNegotiate rep)"
    and "neg_dialect_revision rep < 0x0311" and "c_sec c \<noteq> SMB2_SEC_KRB5" and "c_password c = []"
  shows "Smb2Negotiate_ProcessReplyAndAppData env c p = None"
proof (cases "app_at c (p_appData p)")
  case None
  then show ?thesis
    by (simp add: Smb2Negotiate_ProcessReplyAndAppData_def setNtStatus_def Let_def)
next
  case (Some a)
  let ?d = "negotiated (put_cell c (p_appData p) (CApp (a\<lparr>ad_ntStatus := 0\<rparr>))) rep"
  have "Smb2Context_close (?d\<lparr>c_authenticator := Some (ANtlm None)\<rparr>) = None"
    by (simp add: Smb2Context_close_def delete_authenticator_def)
  moreover have "delete_authenticator ?d = None \<or> delete_authenticator ?d = Some (?d\<lparr>c_authenticator := None\<rparr>)"
    by (auto simp: delete_authenticator_def split: option.splits authenticator.splits)
  ultimately show ?thesis
    using assms
    by (auto simp: Smb2Negotiate_ProcessReplyAndAppData_def setNtStatus_app [OF Some] auth_negotiateReply_def
        new_authenticator_def Let_def)
qed

text \<open>C20. When the server accepts an NTLM login under SMB 3.1.1, the signing key is derived from the
  session key with the preauthentication hash as its context; the hash takes in the last request
  and not the last response. The session key is the one the authentication exported, and the next
  step is the tree connect.\<close>

theorem session_setup_derives_key:
  assumes s: "hdr_status (p_header_resp p) = SMB2_STATUS_SUCCESS" and ntlm: "c_sec c \<noteq> SMB2_SEC_KRB5"
    and app: "app_at c (p_appData p) \<noteq> None"
    and auth: "c_authenticator c = Some (ANtlm (Some ad))" and key: "na_exported_session_key ad = k" "length k = 16"
      "k \<noteq> replicate 16 0"
    and sign: "c_signing_required c \<noteq> 0" and dialect: "c_dialect c = 0x0311"
    and hash: "c_PreauthIntegrityHash c = Some h" "length h = 64" "c_preauthIntegrityHashLength c = 64"
    and wf: "list_all wf_iovec (iovs (p_out p))"
    and len: "\<forall>m. length (sha512 (e_crypto env) m) = 64" "\<forall>k m. length (hmac_sha256 (e_crypto env) k m) = 32"
  shows "\<exists>d. Smb2SessionSetup_ProcessReplyAndAppData env c p = tree_connect_to_share env d p \<and>
     c_session_key d = Some k \<and> c_session_key_size d = 16 \<and>
     c_PreauthIntegrityHash d = Some (sha512 (e_crypto env) (h @ vectors_data (p_out p))) \<and>
     c_signing_key d = take 16 (hmac_sha256 (e_crypto env) k (htobe32 1 @ c_str (ascii ''SMBSigningKey'') @ [0] @
       sha512 (e_crypto env) (h @ vectors_data (p_out p)) @ htobe32 128))"
proof -
  obtain a where a: "app_at c (p_appData p) = Some a"
    using app by blast
  let ?cr = "e_crypto env" and ?c1 = "put_cell c (p_appData p) (CApp (a\<lparr>ad_ntStatus := 0\<rparr>))"
  let ?h = "sha512 ?cr (h @ vectors_data (p_out p))"
  let ?c2 = "?c1\<lparr>c_PreauthIntegrityHash := Some ?h\<rparr>"
  let ?c3 = "?c2\<lparr>c_session_key := Some k, c_session_key_size := 16\<rparr>"
  let ?k = "take 16 (hmac_sha256 ?cr k (htobe32 1 @ c_str (ascii ''SMBSigningKey'') @ [0] @ ?h @ htobe32 128))"
  have f: "c_PreauthIntegrityHash ?c1 = Some h" "c_preauthIntegrityHashLength ?c1 = 64" "c_dialect ?c1 = 0x0311"
    "c_sec ?c1 = c_sec c" "c_signing_required ?c1 = c_signing_required c" "c_authenticator ?c1 = c_authenticator c"
    using hash dialect by (simp_all add: put_cell_def)
  have pre: "update_preauth ?cr ?c1 p = Some ?c2"
    using update_hash [OF f(1) hash(2) f(2) wf len(1)] s f by (simp add: update_preauth_def)
  have der: "derive_signing_key ?cr ?c3 k = Some (?c3\<lparr>c_signing_key := ?k\<rparr>)"
    using f key(2) len by (simp add: derive_signing_key_def smb2_derive_key_def mem_write_def put_bytes_def)
  have "setup_signing env ?c2 = Some (True, ?c3\<lparr>c_signing_key := ?k\<rparr>)"
    using f sign auth key der by (simp add: setup_signing_def auth_getSessionKey_def ntlmssp_get_session_key_def)
  then have "Smb2SessionSetup_ProcessReplyAndAppData env c p = tree_connect_to_share env (?c3\<lparr>c_signing_key := ?k\<rparr>) p"
    using s ntlm pre f by (simp add: Smb2SessionSetup_ProcessReplyAndAppData_def setNtStatus_app [OF a] Let_def)
  then show ?thesis
    by (intro exI [of _ "?c3\<lparr>c_signing_key := ?k\<rparr>"]) simp
qed

theorem session_setup_derives_key_witness:
  "\<exists>d. Smb2SessionSetup_ProcessReplyAndAppData ex_env
       (ex_login_context\<lparr>c_authenticator := Some (ANtlm (Some (ex_ntlm\<lparr>na_exported_session_key := replicate 16 4\<rparr>))),
         c_signing_required := 1, c_dialect := 0x0311, c_PreauthIntegrityHash := Some (replicate 64 0),
         c_preauthIntegrityHashLength := 64\<rparr>) ex_login_pdu = tree_connect_to_share ex_env d ex_login_pdu \<and>
     c_signing_key d = replicate 16 7"
proof -
  let ?c = "ex_login_context\<lparr>c_authenticator := Some (ANtlm (Some (ex_ntlm\<lparr>na_exported_session_key := replicate 16 4\<rparr>))),
         c_signing_required := 1, c_dialect := 0x0311, c_PreauthIntegrityHash := Some (replicate 64 0),
         c_preauthIntegrityHashLength := 64\<rparr>"
  have k: "replicate 16 (4 :: u8) \<noteq> replicate 16 0"
    by (simp add: replicate_eq_replicate)
  have "\<exists>d. Smb2SessionSetup_ProcessReplyAndAppData ex_env ?c ex_login_pdu = tree_connect_to_share ex_env d ex_login_pdu \<and>
     c_session_key d = Some (replicate 16 4) \<and> c_session_key_size d = 16 \<and>
     c_PreauthIntegrityHash d = Some (sha512 (e_crypto ex_env) (replicate 64 0 @ vectors_data (p_out ex_login_pdu))) \<and>
     c_signing_key d = take 16 (hmac_sha256 (e_crypto ex_env) (replicate 16 4) (htobe32 1 @ c_str (ascii ''SMBSigningKey'') @ [0] @
       sha512 (e_crypto ex_env) (replicate 64 0 @ vectors_data (p_out ex_login_pdu)) @ htobe32 128))"
    by (rule session_setup_derives_key [where ad = "ex_ntlm\<lparr>na_exported_session_key := replicate 16 4\<rparr>"])
       (simp_all add: k ex_login_pdu_def ex_login_context_def Smb2Pdu_def Let_def zero_header_def
         new_context_def app_at_def smb2_add_iovector_buf_def smb2_io_vectors_empty_def wf_iovec_def ex_env_def ex_crypto_def)
  moreover have "hmac_sha256 (e_crypto ex_env) k m = replicate 32 7" for k m
    by (simp add: ex_env_def ex_crypto_def)
  ultimately show ?thesis
    by auto
qed

end
