(* ===== verification/Smb2_Dispatch.thy ===== *)
theory Smb2_Dispatch
  imports Smb2_Session
begin

text \<open>
  The virtual functions of \<^verbatim>\<open>Smb2Pdu.h\<close>. A PDU is an object of the subclass whose constant is in
  \<^verbatim>\<open>header.command\<close>, so a virtual call is a case distinction on it. The contract \<open>reply_command\<close>,
  interpreted on every subclass but tree disconnect, carries over to the calls.
\<close>

section \<open>Virtual calls\<close>

definition smb2ReplyProcessFixed :: "smb2_context \<Rightarrow> smb2_pdu \<Rightarrow> handler_result" where
  "smb2ReplyProcessFixed smb2 p =
     (let cmd = hdr_command (p_header p) in
      if cmd = SMB2_NEGOTIATE then Smb2Negotiate_ProcessFixed smb2 p
      else if cmd = SMB2_SESSION_SETUP then Smb2SessionSetup_ProcessFixed smb2 p
      else if cmd = SMB2_TREE_CONNECT then Smb2TreeConnect_ProcessFixed smb2 p
      else if cmd = SMB2_CREATE then Smb2Create_ProcessFixed smb2 p
      else if cmd = SMB2_CLOSE then Smb2Close_ProcessFixed smb2 p
      else if cmd = SMB2_READ then Smb2Read_ProcessFixed smb2 p
      else if cmd = SMB2_WRITE then Smb2Write_ProcessFixed smb2 p
      else if cmd = SMB2_IOCTL then Smb2Ioctl_ProcessFixed smb2 p
      else if cmd = SMB2_QUERY_DIRECTORY then Smb2QueryDir_ProcessFixed smb2 p
      else if cmd = SMB2_QUERY_INFO then Smb2QueryInfo_ProcessFixed smb2 p
      else if cmd \<in> {SMB2_LOGOFF, SMB2_TREE_DISCONNECT, SMB2_FLUSH, SMB2_ECHO, SMB2_SET_INFO}
      then plain_ProcessFixed smb2 p
      else None)"

definition smb2ReplyProcessVariable :: "env \<Rightarrow> smb2_context \<Rightarrow> smb2_pdu \<Rightarrow> handler_result" where
  "smb2ReplyProcessVariable env smb2 p =
     (let cmd = hdr_command (p_header p) in
      if cmd = SMB2_NEGOTIATE then Smb2Negotiate_ProcessVariable smb2 p
      else if cmd = SMB2_SESSION_SETUP then Smb2SessionSetup_ProcessVariable smb2 p
      else if cmd = SMB2_CREATE then Smb2Create_ProcessVariable smb2 p
      else if cmd = SMB2_READ then Smb2Read_ProcessVariable smb2 p
      else if cmd = SMB2_IOCTL then Smb2Ioctl_ProcessVariable smb2 p
      else if cmd = SMB2_QUERY_DIRECTORY then Smb2QueryDir_ProcessVariable smb2 p
      else if cmd = SMB2_QUERY_INFO then Smb2QueryInfo_ProcessVariable env smb2 p
      else if cmd \<in> {SMB2_TREE_CONNECT, SMB2_CLOSE, SMB2_WRITE, SMB2_LOGOFF, SMB2_TREE_DISCONNECT, SMB2_FLUSH,
                      SMB2_ECHO, SMB2_SET_INFO}
      then plain_ProcessVariable smb2 p
      else None)"

definition smb2ProcessReplyAndAppData :: "env \<Rightarrow> smb2_context \<Rightarrow> smb2_pdu \<Rightarrow> handler_result" where
  "smb2ProcessReplyAndAppData env smb2 p =
     (let cmd = hdr_command (p_header p) in
      if cmd = SMB2_NEGOTIATE then Smb2Negotiate_ProcessReplyAndAppData env smb2 p
      else if cmd = SMB2_SESSION_SETUP then Smb2SessionSetup_ProcessReplyAndAppData env smb2 p
      else if cmd = SMB2_LOGOFF then Smb2Logoff_ProcessReplyAndAppData smb2 p
      else if cmd = SMB2_TREE_CONNECT then Smb2TreeConnect_ProcessReplyAndAppData smb2 p
      else if cmd = SMB2_TREE_DISCONNECT then Smb2TreeDisconnect_ProcessReplyAndAppData (e_crypto env) smb2 p
      else if cmd = SMB2_CREATE then Smb2Create_ProcessReplyAndAppData smb2 p
      else if cmd = SMB2_CLOSE then Smb2Close_ProcessReplyAndAppData smb2 p
      else if cmd = SMB2_FLUSH then Smb2Flush_ProcessReplyAndAppData smb2 p
      else if cmd = SMB2_READ then Smb2Read_ProcessReplyAndAppData smb2 p
      else if cmd = SMB2_WRITE then Smb2Write_ProcessReplyAndAppData smb2 p
      else if cmd = SMB2_IOCTL then Smb2Ioctl_ProcessReplyAndAppData smb2 p
      else if cmd = SMB2_ECHO then Smb2Echo_ProcessReplyAndAppData smb2 p
      else if cmd = SMB2_QUERY_DIRECTORY then Smb2QueryDir_ProcessReplyAndAppData env smb2 p
      else if cmd = SMB2_QUERY_INFO then Smb2QueryInfo_ProcessReplyAndAppData smb2 p
      else if cmd = SMB2_SET_INFO then Smb2SetInfo_ProcessReplyAndAppData smb2 p
      else None)"

section \<open>Error replies of every command\<close>

text \<open>What each subclass needs to report an error: its application data, and what it deletes.\<close>

definition reportable :: "smb2_context \<Rightarrow> smb2_pdu \<Rightarrow> bool" where
  "reportable c p =
     (let cmd = hdr_command (p_header p) in
      if cmd \<in> {SMB2_NEGOTIATE, SMB2_SESSION_SETUP, SMB2_LOGOFF, SMB2_TREE_CONNECT} then can_close c p
      else if cmd = SMB2_CREATE then create_reportable c p
      else if cmd = SMB2_CLOSE then close_reportable c p
      else if cmd = SMB2_READ \<or> cmd = SMB2_WRITE then rw_reportable c p
      else if cmd = SMB2_QUERY_DIRECTORY then query_dir_reportable c p
      else cmd \<in> {SMB2_FLUSH, SMB2_IOCTL, SMB2_ECHO, SMB2_QUERY_INFO, SMB2_SET_INFO} \<and> has_app c p)"

lemmas virtual_defs = smb2ReplyProcessFixed_def smb2ReplyProcessVariable_def smb2ProcessReplyAndAppData_def reportable_def Let_def

lemma reportable_cases:
  assumes "reportable c p"
  obtains (negotiate_case) "hdr_command (p_header p) = SMB2_NEGOTIATE" "can_close c p"
    | (session_setup_case) "hdr_command (p_header p) = SMB2_SESSION_SETUP" "can_close c p"
    | (logoff_case) "hdr_command (p_header p) = SMB2_LOGOFF" "can_close c p"
    | (tree_connect_case) "hdr_command (p_header p) = SMB2_TREE_CONNECT" "can_close c p"
    | (create_case) "hdr_command (p_header p) = SMB2_CREATE" "create_reportable c p"
    | (close_case) "hdr_command (p_header p) = SMB2_CLOSE" "close_reportable c p"
    | (flush_case) "hdr_command (p_header p) = SMB2_FLUSH" "has_app c p"
    | (read_case) "hdr_command (p_header p) = SMB2_READ" "rw_reportable c p"
    | (write_case) "hdr_command (p_header p) = SMB2_WRITE" "rw_reportable c p"
    | (ioctl_case) "hdr_command (p_header p) = SMB2_IOCTL" "has_app c p"
    | (echo_case) "hdr_command (p_header p) = SMB2_ECHO" "has_app c p"
    | (query_directory_case) "hdr_command (p_header p) = SMB2_QUERY_DIRECTORY" "query_dir_reportable c p"
    | (query_info_case) "hdr_command (p_header p) = SMB2_QUERY_INFO" "has_app c p"
    | (set_info_case) "hdr_command (p_header p) = SMB2_SET_INFO" "has_app c p"
  using assms by (auto simp: reportable_def Let_def split: if_splits)

text \<open>The same law of every subclass, collected for the virtual call.\<close>

lemmas each_fixed_error =
  negotiate_reply.fixed_error session_setup_reply.fixed_error logoff_reply.fixed_error
  tree_connect_reply.fixed_error create_reply.fixed_error close_reply.fixed_error flush_reply.fixed_error
  read_reply.fixed_error write_reply.fixed_error ioctl_reply.fixed_error echo_reply.fixed_error
  query_dir_reply.fixed_error query_info_reply.fixed_error set_info_reply.fixed_error

lemmas each_variable_error =
  negotiate_reply.variable_error session_setup_reply.variable_error logoff_reply.variable_error
  tree_connect_reply.variable_error create_reply.variable_error close_reply.variable_error
  flush_reply.variable_error read_reply.variable_error write_reply.variable_error ioctl_reply.variable_error
  echo_reply.variable_error query_dir_reply.variable_error query_info_reply.variable_error
  set_info_reply.variable_error

lemmas each_reportable_payload =
  negotiate_reply.reportable_payload session_setup_reply.reportable_payload logoff_reply.reportable_payload
  tree_connect_reply.reportable_payload create_reply.reportable_payload close_reply.reportable_payload
  flush_reply.reportable_payload read_reply.reportable_payload write_reply.reportable_payload
  ioctl_reply.reportable_payload echo_reply.reportable_payload query_dir_reply.reportable_payload
  query_info_reply.reportable_payload set_info_reply.reportable_payload

lemmas each_process_error =
  negotiate_reply.process_error session_setup_reply.process_error logoff_reply.process_error
  tree_connect_reply.process_error create_reply.process_error close_reply.process_error
  flush_reply.process_error read_reply.process_error write_reply.process_error ioctl_reply.process_error
  echo_reply.process_error query_dir_reply.process_error query_info_reply.process_error
  set_info_reply.process_error

interpretation virtual: reply_command smb2ReplyProcessFixed "smb2ReplyProcessVariable env" "smb2ProcessReplyAndAppData env"
  reportable for env
proof
  fix c p assume e: "smb2ReplyIsError p" and r: "reportable c p"
  show "smb2ReplyProcessFixed c p = smb2ProcessErrorReplyFixed c p"
    using r by (cases rule: reportable_cases) (simp_all add: virtual_defs e each_fixed_error)
  show "smb2ReplyProcessVariable env c p = smb2ProcessErrorReplyVariable c p"
    using r by (cases rule: reportable_cases) (simp_all add: virtual_defs e each_variable_error)
  show "\<exists>c' a b. smb2ProcessReplyAndAppData env c p = Some (0, c', p) \<and> c_isComplete c' \<and> app_at c' (p_appData p) = Some a \<and>
      ad_ntStatus a = hdr_status (p_header_resp p) \<and> app_at c (p_appData p) = Some b \<and> ad_bDelete a = ad_bDelete b"
    using r by (cases rule: reportable_cases) (use e each_process_error in \<open>simp_all add: virtual_defs\<close>)
next
  fix c p x
  show "reportable c (p\<lparr>p_payload := x\<rparr>) = reportable c p"
    by (simp add: reportable_def each_reportable_payload Let_def)
qed

end
