(* ===== verification/Smb2_Socket.thy ===== *)
theory Smb2_Socket
  imports Smb2_Dispatch
begin

text \<open>
  \<^verbatim>\<open>Smb2Socket.cpp\<close> and \<^verbatim>\<open>Smb2Context::sendAndReceive\<close>: how queued requests reach the wire and
  how replies are cut out of the byte stream.

  The operating system is a script. Each call of \<^verbatim>\<open>writev\<close>, \<^verbatim>\<open>readv\<close> or \<^verbatim>\<open>poll\<close> takes the next event of
  its kind; \<open>RData bs\<close> is data that has arrived, of which \<^verbatim>\<open>readv\<close> takes what fits and leaves the rest,
  \<open>RData []\<close> is the end of the stream. A function that still waits when its script is empty has
  the value \<open>None\<close>, as undefined behaviour has. An \<^verbatim>\<open>error\<close> argument is passed in and returned,
  because some paths leave it as it was.

  The loop of \<^verbatim>\<open>receivePdus\<close> needs no fuel: every turn consumes part of the script or moves on
  within the PDU.
\<close>

section \<open>The network\<close>

datatype write_event = Wrote nat | WAgain | WError u64
datatype read_event = RData bytes | RError
datatype poll_event = PollFailed | Polled u16 "u64 option"
  \<comment> \<open>the returned events, and the error \<^verbatim>\<open>SO_ERROR\<close> gives if it is asked for\<close>

record net =
  n_sent :: bytes
  n_writes :: "write_event list"
  n_reads :: "read_event list"
  n_polls :: "poll_event list"

abbreviation "POLLIN \<equiv> (0x1 :: u16)"
abbreviation "POLLOUT \<equiv> (0x4 :: u16)"
abbreviation "POLLERR \<equiv> (0x8 :: u16)"
abbreviation "POLLHUP \<equiv> (0x10 :: u16)"

section \<open>Sending\<close>

fun write_loop :: "smb2_iovec \<Rightarrow> u64 \<Rightarrow> write_event list \<Rightarrow> bytes \<Rightarrow> (err_msg option \<times> u64 \<times> write_event list \<times> bytes) option" where
  "write_loop v tot [] sent = (if tot < iov_len v then None else Some (None, tot, [], sent))"
| "write_loop v tot (e # evs) sent =
     (if \<not> tot < iov_len v then Some (None, tot, e # evs, sent)
      else case e of
        WAgain \<Rightarrow> write_loop v tot evs sent
      | WError errno \<Rightarrow>
          Some (Some (Msg ''writeIovec: Error when writing to socket. errno:%d'' [errno]), tot, evs, sent)
      | Wrote k \<Rightarrow>
          do { bs \<leftarrow> mem_read (iov_buf v) (uint tot) (min k (unat (iov_len v - tot)));
               write_loop v (tot + of_nat (length bs)) evs (sent @ bs) })"

definition writeIovec :: "smb2_context \<Rightarrow> smb2_iovec \<Rightarrow> err_msg \<Rightarrow> net \<Rightarrow> (int \<times> err_msg \<times> net) option" where
  "writeIovec smb2 v err net =
     (if c_fd smb2 = -1 then Some (-1, Msg ''writeIovec: trying to write but not connected'' [], net)
      else do {
        (e, tot, evs, sent) \<leftarrow> write_loop v 0 (n_writes net) (n_sent net);
        let net = net\<lparr>n_writes := evs, n_sent := sent\<rparr>;
        case e of Some m \<Rightarrow> Some (-1, m, net) | None \<Rightarrow> Some (sint (ucast tot :: u32), err, net) })"

text \<open>\<^verbatim>\<open>bytesWritten\<close> is a \<^verbatim>\<open>size_t\<close>: the result -1 becomes \<open>2\<^sup>6\<^sup>4 - 1\<close>, and only 0 ends the loop early.\<close>

fun send_vectors :: "smb2_context \<Rightarrow> smb2_iovec list \<Rightarrow> u64 \<Rightarrow> err_msg \<Rightarrow> net \<Rightarrow> (u64 option \<times> err_msg \<times> net) option" where
  "send_vectors smb2 [] tot err net = Some (Some tot, err, net)"
| "send_vectors smb2 (v # vs) tot err net =
     do { (rc, err, net) \<leftarrow> writeIovec smb2 v err net;
          let bytesWritten = (of_int rc :: u64);
          if bytesWritten = 0 then Some (None, err, net)
          else send_vectors smb2 vs (tot + bytesWritten) err net }"

definition sendPdu :: "smb2_context \<Rightarrow> smb2_pdu list \<Rightarrow> err_msg \<Rightarrow> net \<Rightarrow> (int \<times> err_msg \<times> net) option" where
  "sendPdu smb2 pdu err net =
     (let netbiosLen = getReqNBLength pdu; creditCharge = getReqCreditCharge pdu in
      if c_dialect smb2 > 0x0202 \<and> creditCharge > c_credits smb2
      then Some (-1, Msg ''sendPdu: Insufficient credits to send request'' [], net)
      else do {
        (rc, err, net) \<leftarrow> writeIovec smb2 (smb2_iovec_make (htobe32 netbiosLen) 4 False) err net;
        (r, err, net) \<leftarrow> send_vectors smb2 (iovs (getAllComOutVecs pdu)) (of_int rc) err net;
        case r of
          None \<Rightarrow> Some (0, err, net)
        | Some tot \<Rightarrow>
            if tot \<noteq> ucast (4 + netbiosLen)
            then Some (-1, Msg ''sendPdu: Couldn't send the entire pdu'' [], net)
            else Some (0, err, net) })"

fun send_queue ::
  "smb2_context \<Rightarrow> (u64 \<times> smb2_pdu list) list \<Rightarrow> err_msg \<Rightarrow> net \<Rightarrow> (int \<times> smb2_context \<times> err_msg \<times> net) option" where
  "send_queue smb2 [] err net = Some (0, smb2, err, net)"
| "send_queue smb2 ((k, pdu) # rest) err net =
     (let smb2 = smb2\<lparr>c_outqueue := rest\<rparr> in
      do { (rc, err, net) \<leftarrow> sendPdu smb2 pdu err net;
           if rc < 0 then
             (if pdu = [] then None
              else Some (-1, smb2\<lparr>c_outqueue := map_put (hdr_message_id (p_header (hd pdu))) pdu rest\<rparr>, err, net))
           else send_queue (smb2_pdu_add_to_waitqueue smb2 pdu) rest err net })"

definition sendPdus :: "smb2_context \<Rightarrow> err_msg \<Rightarrow> net \<Rightarrow> (int \<times> smb2_context \<times> err_msg \<times> net) option" where
  "sendPdus smb2 err net = send_queue smb2 (c_outqueue smb2) err net"

section \<open>Receiving\<close>

text \<open>
  \<^verbatim>\<open>bytesRead\<close> is a \<^verbatim>\<open>size_t\<close> as well, so a failed \<^verbatim>\<open>readv\<close> adds \<open>2\<^sup>6\<^sup>4 - 1\<close>: it moves the position back by
  one byte, and before the first byte it makes the total larger than any length.
\<close>

fun read_loop :: "smb2_iovec \<Rightarrow> u64 \<Rightarrow> read_event list \<Rightarrow> (err_msg option \<times> u64 \<times> smb2_iovec \<times> read_event list) option" where
  "read_loop v tot [] = (if tot < iov_len v then None else Some (None, tot, v, []))"
| "read_loop v tot (e # evs) =
     (if \<not> tot < iov_len v then Some (None, tot, v, e # evs)
      else case e of
        RError \<Rightarrow> read_loop v (tot - 1) evs
      | RData bs \<Rightarrow>
          if bs = [] then Some (Some (Msg ''readIovec: Remote side has closed the socket'' []), tot, v, evs)
          else do {
            let n = unat (iov_len v - tot);
            buf \<leftarrow> mem_write (iov_buf v) (uint tot) (take n bs);
            let v = v\<lparr>iov_buf := buf\<rparr>;
            if n < length bs then Some (None, iov_len v, v, RData (drop n bs) # evs)
            else read_loop v (tot + of_nat (length bs)) evs })"

text \<open>\<^verbatim>\<open>readv\<close> on a closed socket, or for more than \<^verbatim>\<open>SSIZE_MAX\<close> bytes, fails without looking at the stream.\<close>

definition readIovec :: "smb2_context \<Rightarrow> smb2_iovec \<Rightarrow> err_msg \<Rightarrow> net \<Rightarrow> (int \<times> err_msg \<times> smb2_iovec \<times> net) option" where
  "readIovec smb2 v err net =
     (if iov_len v \<noteq> 0 \<and> (c_fd smb2 = -1 \<or> iov_len v \<ge> 2 ^ 63) then Some (-1, err, v, net)
      else do {
        (e, tot, v, evs) \<leftarrow> read_loop v 0 (n_reads net);
        let net = net\<lparr>n_reads := evs\<rparr>;
        case e of Some m \<Rightarrow> Some (-1, m, v, net) | None \<Rightarrow> Some (sint (ucast tot :: u32), err, v, net) })"

datatype smb2_recv_state = SMB2_RECV_SPL | SMB2_RECV_HEADER | SMB2_RECV_FIXED | SMB2_RECV_VARIABLE | SMB2_RECV_PAD

text \<open>The locals of \<^verbatim>\<open>receivePdus\<close>; \<open>rx_pdu\<close> is meaningful once a header was matched.\<close>

record rx =
  rx_state :: smb2_recv_state
  rx_spl :: u32
  rx_hdr :: smb2_header
  rx_payload_offset :: u64
  rx_pdu :: smb2_pdu
  rx_total :: u64
  rx_vec :: smb2_iovec

type_synonym rx_result = "((rx + int) \<times> smb2_context \<times> err_msg) option"

definition fresh_vec :: "env \<Rightarrow> int \<Rightarrow> smb2_iovec" where
  \<comment> \<open>\<^verbatim>\<open>smb2_iovec((uint8_t*)malloc(n), n, free)\<close>; nothing is read into a negative size\<close>
  "fresh_vec env n = smb2_iovec_make (replicate (nat n) (e_byte env)) (of_int n) True"

definition read_next :: "rx \<Rightarrow> smb2_recv_state \<Rightarrow> smb2_iovec \<Rightarrow> smb2_context \<Rightarrow> err_msg \<Rightarrow> rx_result" where
  "read_next rx s v smb2 err = Some (Inl (rx\<lparr>rx_state := s, rx_vec := v\<rparr>), smb2, err)"

definition rx_fail :: "smb2_context \<Rightarrow> err_msg \<Rightarrow> rx_result" where
  "rx_fail smb2 err = Some (Inr (-1), smb2, err)"

definition add_in :: "smb2_pdu \<Rightarrow> smb2_iovec \<Rightarrow> smb2_pdu" where
  "add_in p v = p\<lparr>p_in := smb2_add_iovector (p_in p) v\<rparr>"

definition padBytes :: "rx \<Rightarrow> int" where
  "padBytes rx =
     sint (if hdr_next_command (rx_hdr rx) \<noteq> 0
           then ucast (hdr_next_command (rx_hdr rx)) - (64 + rx_total rx - rx_payload_offset rx)
           else ucast (rx_spl rx + 4) - rx_total rx)"

text \<open>The end of the function, behind the \<^verbatim>\<open>switch\<close>.\<close>

definition recv_complete :: "env \<Rightarrow> smb2_context \<Rightarrow> err_msg \<Rightarrow> rx \<Rightarrow> rx_result" where
  "recv_complete env smb2 err rx =
     (if hdr_status (rx_hdr rx) = SMB2_STATUS_PENDING then Some (Inr 0, smb2, err)
      else do {
        let is_chained = (hdr_next_command (rx_hdr rx) \<noteq> 0);
        let pdu = (if is_chained then (rx_pdu rx)\<lparr>p_bIsLastInCompound := False\<rparr> else rx_pdu rx);
        (_, smb2, pdu) \<leftarrow> smb2ProcessReplyAndAppData env smb2 pdu;
        smb2 \<leftarrow> delete_pdu smb2 [pdu];
        if is_chained then read_next rx SMB2_RECV_HEADER (fresh_vec env 64) smb2 err
        else Some (Inr 0, smb2, err) })"

definition recv_padding :: "env \<Rightarrow> string \<Rightarrow> smb2_context \<Rightarrow> err_msg \<Rightarrow> rx \<Rightarrow> rx_result" where
  "recv_padding env part smb2 err rx =
     (if padBytes rx < 0
      then rx_fail smb2 (Msg (''receivePdus: Negative number of PAD bytes received during PDU decode for '' @ part) [])
      else if padBytes rx > 0 then read_next rx SMB2_RECV_PAD (fresh_vec env (padBytes rx)) smb2 err
      else recv_complete env smb2 err rx)"

definition recv_header :: "env \<Rightarrow> smb2_context \<Rightarrow> err_msg \<Rightarrow> rx \<Rightarrow> rx_result" where
  "recv_header env smb2 err rx =
     do { let rx = rx\<lparr>rx_payload_offset := rx_total rx\<rparr>;
          d \<leftarrow> decodeHeader (rx_vec rx) (rx_hdr rx);
          case d of
            Inl e \<Rightarrow> rx_fail smb2 (Pre ''receivePdus: '' [] e)
          | Inr hdr \<Rightarrow>
              let rx = rx\<lparr>rx_hdr := hdr\<rparr> in
              if hdr_protocol_id hdr \<noteq> [0xfe, 0x53, 0x4d, 0x42]
              then rx_fail smb2 (Msg ''receivePdus: Received non-SMB2 blob'' [])
              else if hdr_flags hdr AND SMB2_FLAGS_SERVER_TO_REDIR = 0
              then rx_fail smb2 (Msg ''receivePdus: Received non-reply'' [])
              else case smb2_find_pdu smb2 (hdr_message_id hdr) of
                (None, smb2) \<Rightarrow> rx_fail smb2 (Msg ''receivePdus: No matching PDU found'' [])
              | (Some pdu, smb2) \<Rightarrow>
                  let pdu = add_in (setResponseHeader (pdu\<lparr>p_respNBLength := rx_spl rx\<rparr>) hdr) (rx_vec rx);
                      smb2 = smb2\<lparr>c_credits := c_credits smb2 + ucast (hdr_credit_request_response hdr)\<rparr>;
                      rx = rx\<lparr>rx_pdu := pdu\<rparr>
                  in if hdr_status hdr = SMB2_STATUS_PENDING
                     then read_next rx SMB2_RECV_PAD (fresh_vec env (sint (ucast (rx_spl rx + 4) - rx_total rx))) smb2 err
                     else if smb2ReplyGetFixedSize pdu < 0
                     then rx_fail smb2 (Msg ''receivePdus: can not determine parameter size'' [])
                     else read_next rx SMB2_RECV_FIXED (fresh_vec env (smb2ReplyGetFixedSize pdu)) smb2 err }"

definition recv_fixed :: "env \<Rightarrow> smb2_context \<Rightarrow> err_msg \<Rightarrow> rx \<Rightarrow> rx_result" where
  "recv_fixed env smb2 err rx =
     do { (varSize, smb2, pdu) \<leftarrow> smb2ReplyProcessFixed smb2 (add_in (rx_pdu rx) (rx_vec rx));
          let rx = rx\<lparr>rx_pdu := pdu\<rparr>;
          if varSize < 0
          then do { a \<leftarrow> app_at smb2 (p_appData pdu);
                    rx_fail smb2 (Pre ''receivePdus: Failed to parse fixed part of response - '' [] (ad_errMsg a)) }
          else if varSize > 0 then read_next rx SMB2_RECV_VARIABLE (fresh_vec env varSize) smb2 err
          else recv_padding env ''fixed part'' smb2 err rx }"

definition recv_variable :: "env \<Rightarrow> smb2_context \<Rightarrow> err_msg \<Rightarrow> rx \<Rightarrow> rx_result" where
  "recv_variable env smb2 err rx =
     do { (rc, smb2, pdu) \<leftarrow> smb2ReplyProcessVariable env smb2 (add_in (rx_pdu rx) (rx_vec rx));
          let rx = rx\<lparr>rx_pdu := pdu\<rparr>;
          if rc < 0
          then do { a \<leftarrow> app_at smb2 (p_appData pdu);
                    rx_fail smb2 (Pre ''receivePdus: Failed to parse variable part of response - '' [] (ad_errMsg a)) }
          else recv_padding env ''variable part'' smb2 err rx }"

text \<open>One pass through the \<^verbatim>\<open>switch\<close>, after the vector has been read.\<close>

definition recv_step :: "env \<Rightarrow> smb2_context \<Rightarrow> err_msg \<Rightarrow> rx \<Rightarrow> rx_result" where
  "recv_step env smb2 err rx =
     (case rx_state rx of
        SMB2_RECV_SPL \<Rightarrow>
          do { b \<leftarrow> mem_read (iov_buf (rx_vec rx)) 0 4;
               read_next (rx\<lparr>rx_spl := be32toh b\<rparr>) SMB2_RECV_HEADER (fresh_vec env 64) smb2 err }
      | SMB2_RECV_HEADER \<Rightarrow> recv_header env smb2 err rx
      | SMB2_RECV_FIXED \<Rightarrow> recv_fixed env smb2 err rx
      | SMB2_RECV_VARIABLE \<Rightarrow> recv_variable env smb2 err rx
      | SMB2_RECV_PAD \<Rightarrow> recv_complete env smb2 err (rx\<lparr>rx_pdu := add_in (rx_pdu rx) (rx_vec rx)\<rparr>))"

text \<open>A turn that does not read a whole header moves on in the order fixed, variable, padding, next header.\<close>

fun recv_rank :: "smb2_recv_state \<Rightarrow> nat" where
  "recv_rank SMB2_RECV_SPL = 4"
| "recv_rank SMB2_RECV_FIXED = 3"
| "recv_rank SMB2_RECV_VARIABLE = 2"
| "recv_rank SMB2_RECV_PAD = 1"
| "recv_rank SMB2_RECV_HEADER = 0"

fun event_size :: "read_event \<Rightarrow> nat" where
  "event_size (RData bs) = Suc (length bs)"
| "event_size RError = 1"

abbreviation script_size :: "read_event list \<Rightarrow> nat" where
  "script_size evs \<equiv> sum_list (map event_size evs)"

lemma read_loop_size: "read_loop v tot evs = Some (e, tot', v', evs') \<Longrightarrow>
    script_size evs' \<le> script_size evs \<and> (tot < iov_len v \<longrightarrow> script_size evs' < script_size evs) \<and> iov_len v' = iov_len v"
proof (induction evs arbitrary: v tot)
  case (Cons e0 evs)
  show ?case
  proof (cases "tot < iov_len v")
    case True
    show ?thesis
    proof (cases e0)
      case (RData bs)
      have "0 < unat (iov_len v - tot)"
        using True by (auto simp: unat_gt_0)
      with RData show ?thesis
        using Cons.prems True
        by (auto simp: Let_def less_Suc_eq_le split: if_splits bind_splits dest!: Cons.IH)
    next
      case RError
      then show ?thesis
        using Cons.prems True by (auto dest!: Cons.IH)
    qed
  qed (use Cons.prems in auto)
qed (auto split: if_splits)

lemma readIovec_size:
  assumes "readIovec smb2 v err net = Some (rc, err', v', net')" and "0 \<le> rc"
  shows "script_size (n_reads net') \<le> script_size (n_reads net)"
    and "iov_len v \<noteq> 0 \<Longrightarrow> script_size (n_reads net') < script_size (n_reads net)" and "iov_len v' = iov_len v"
  using assms read_loop_size [of v 0 "n_reads net"]
  by (auto simp: readIovec_def Let_def word_gt_0 split: if_splits bind_splits option.splits)

lemma recv_complete_rank: "recv_complete env c err rx = Some (Inl rx', c', err') \<Longrightarrow> rx_state rx' = SMB2_RECV_HEADER"
  by (auto simp: recv_complete_def read_next_def Let_def split: if_splits bind_splits)

lemma recv_padding_rank:
  "recv_padding env part c err rx = Some (Inl rx', c', err') \<Longrightarrow> rx_state rx' \<in> {SMB2_RECV_HEADER, SMB2_RECV_PAD}"
  by (auto simp: recv_padding_def read_next_def rx_fail_def split: if_splits dest: recv_complete_rank)

lemma recv_step_rank:
  assumes "recv_step env c err rx = Some (Inl rx', c', err')"
  shows "iov_len (rx_vec rx) = 64 \<or> recv_rank (rx_state rx') < recv_rank (rx_state rx)"
proof (cases "rx_state rx")
  case SMB2_RECV_HEADER
  then show ?thesis
    using assms by (auto simp: recv_step_def recv_header_def decodeHeader_def rx_fail_def Let_def split: if_splits)
qed (use assms in \<open>auto simp: recv_step_def recv_fixed_def recv_variable_def read_next_def rx_fail_def Let_def
      split: if_splits bind_splits dest!: recv_padding_rank recv_complete_rank\<close>)

function receive_loop :: "env \<Rightarrow> smb2_context \<Rightarrow> err_msg \<Rightarrow> rx \<Rightarrow> net \<Rightarrow> (int \<times> smb2_context \<times> err_msg \<times> net) option" where
  "receive_loop env smb2 err rx net =
     do { (rc, err, vec, net) \<leftarrow> readIovec smb2 (rx_vec rx) err net;
          if rc < 0 then Some (rc, smb2, err, net)
          else do {
            (r, smb2, err) \<leftarrow> recv_step env smb2 err (rx\<lparr>rx_vec := vec, rx_total := rx_total rx + of_int rc\<rparr>);
            case r of Inr rc \<Rightarrow> Some (rc, smb2, err, net) | Inl rx \<Rightarrow> receive_loop env smb2 err rx net } }"
  by pat_completeness auto
termination
proof (relation "measures [\<lambda>(env, c, err, rx, net). script_size (n_reads net), \<lambda>(env, c, err, rx, net). recv_rank (rx_state rx)]")
  fix env c err rx net a rc x err1 y vec net1 z r w c1 err2 rx1
  assume r: "readIovec c (rx_vec rx) err net = Some a" "(rc, x) = a" "(err1, y) = x" "(vec, net1) = y" "\<not> rc < 0"
    and s: "recv_step env c err1 (rx\<lparr>rx_vec := vec, rx_total := rx_total rx + of_int rc\<rparr>) = Some z"
      "(r, w) = z" "(c1, err2) = w" "r = Inl rx1"
  have "readIovec c (rx_vec rx) err net = Some (rc, err1, vec, net1)"
    using r by auto
  note size = readIovec_size [OF this]
  have "recv_step env c err1 (rx\<lparr>rx_vec := vec, rx_total := rx_total rx + of_int rc\<rparr>) = Some (Inl rx1, c1, err2)"
    using s by auto
  from recv_step_rank [OF this] size r(5)
  show "((env, c1, err2, rx1, net1), env, c, err, rx, net) \<in> measures
      [\<lambda>(env, c, err, rx, net). script_size (n_reads net), \<lambda>(env, c, err, rx, net). recv_rank (rx_state rx)]"
    by (auto simp: less_le)
qed auto

declare receive_loop.simps [simp del]

definition rx_start :: "env \<Rightarrow> rx" where
  "rx_start env = \<lparr>rx_state = SMB2_RECV_SPL, rx_spl = 0, rx_hdr = zero_header, rx_payload_offset = 0,
     rx_pdu = Smb2Pdu (new_context 0) 0 0, rx_total = 0, rx_vec = fresh_vec env 4\<rparr>"

definition receivePdus :: "env \<Rightarrow> smb2_context \<Rightarrow> err_msg \<Rightarrow> net \<Rightarrow> (int \<times> smb2_context \<times> err_msg \<times> net) option" where
  "receivePdus env smb2 err net = receive_loop env smb2 err (rx_start env) net"

section \<open>The event loop\<close>

definition smb2_which_events :: "smb2_context \<Rightarrow> u16" where
  "smb2_which_events smb2 =
     (let events = (if c_bConnected smb2 then POLLIN else POLLOUT) in
      if c_outqueue smb2 \<noteq> [] then events OR POLLOUT else events)"

definition smb2_service ::
  "env \<Rightarrow> smb2_context \<Rightarrow> u16 \<Rightarrow> u64 option \<Rightarrow> err_msg \<Rightarrow> net \<Rightarrow> (int \<times> smb2_context \<times> err_msg \<times> net) option" where
  "smb2_service env smb2 revents so_error err net =
     (if c_fd smb2 < 0 then Some (0, smb2, err, net)
      else if revents AND POLLERR \<noteq> 0
      then Some (-1, smb2, (case so_error of Some e \<Rightarrow> Msg ''smb2_service: socket error %s(%d)'' [e, e]
                            | None \<Rightarrow> Msg ''smb2_service: POLLERR, Unknown socket error'' []), net)
      else if revents AND POLLHUP \<noteq> 0
      then Some (-1, smb2, Msg ''smb2_service: POLLHUP, socket error'' [], net)
      else if \<not> c_bConnected smb2 \<and> revents AND POLLOUT \<noteq> 0
      then (case so_error of
              Some e \<Rightarrow> Some (-1, smb2, Msg ''smb2_service: socket error %s(%d) while connecting'' [e, e], net)
            | None \<Rightarrow> Some (0, smb2\<lparr>c_bConnected := True\<rparr>, err, net))
      else do {
        (rc, smb2, err, net) \<leftarrow>
          (if revents AND POLLIN \<noteq> 0 then receivePdus env smb2 err net else Some (0, smb2, err, net));
        if rc \<noteq> 0 then Some (-1, smb2, err, net)
        else do {
          (rc, smb2, err, net) \<leftarrow>
            (if revents AND POLLOUT \<noteq> 0 \<and> c_outqueue smb2 \<noteq> [] then sendPdus smb2 err net
             else Some (0, smb2, err, net));
          Some (if rc \<noteq> 0 then -1 else 0, smb2, err, net) } })"

text \<open>\<^verbatim>\<open>poll\<close> reports the events that were asked for, and errors, hang-ups and invalid descriptors unasked.\<close>

definition poll_result :: "smb2_context \<Rightarrow> u16 \<Rightarrow> u16" where
  "poll_result smb2 ready = ready AND (smb2_which_events smb2 OR POLLERR OR POLLHUP OR 0x20)"

fun poll_loop :: "env \<Rightarrow> poll_event list \<Rightarrow> smb2_context \<Rightarrow> err_msg \<Rightarrow> net \<Rightarrow> (int \<times> smb2_context \<times> err_msg \<times> net) option" where
  "poll_loop env [] smb2 err net =
     (if c_isComplete smb2 then Some (0, smb2, err, net\<lparr>n_polls := []\<rparr>)
      else if c_fd smb2 = -1 then Some (-1, smb2, Msg ''sendAndReceive: Socket Not Connected'' [], net\<lparr>n_polls := []\<rparr>)
      else None)"
| "poll_loop env (ev # evs) smb2 err net =
     (if c_isComplete smb2 then Some (0, smb2, err, net\<lparr>n_polls := ev # evs\<rparr>)
      else if c_fd smb2 = -1 then Some (-1, smb2, Msg ''sendAndReceive: Socket Not Connected'' [], net\<lparr>n_polls := ev # evs\<rparr>)
      else case ev of
        PollFailed \<Rightarrow> Some (-1, smb2, Msg ''sendAndReceive: Poll failed'' [], net\<lparr>n_polls := evs\<rparr>)
      | Polled ready so_error \<Rightarrow>
          let revents = poll_result smb2 ready in
          if revents = 0 then poll_loop env evs smb2 err net
          else do {
            (rc, smb2, err, net) \<leftarrow> smb2_service env smb2 revents so_error err net;
            if rc < 0 then Some (-1, smb2, err, net\<lparr>n_polls := evs\<rparr>) else poll_loop env evs smb2 err net })"

definition sendAndReceive :: "env \<Rightarrow> smb2_context \<Rightarrow> err_msg \<Rightarrow> net \<Rightarrow> (int \<times> smb2_context \<times> err_msg \<times> net) option" where
  "sendAndReceive env smb2 err net = poll_loop env (n_polls net) (smb2\<lparr>c_isComplete := False\<rparr>) err net"

section \<open>Connecting\<close>

datatype ai_family = AF_INET | AF_INET6 | AF_OTHER u64

record os =
  os_getaddrinfo :: "bytes \<Rightarrow> (ai_family \<times> bytes) option"
  os_socket :: "ai_family \<Rightarrow> u64 + nat"
  os_connect :: "nat \<Rightarrow> bytes \<Rightarrow> u16 \<Rightarrow> u64 option"
  \<comment> \<open>the first address of a host; the descriptor of a new socket, or the error; the error of a connection\<close>

abbreviation "EINPROGRESS \<equiv> (115 :: u64)"
abbreviation "CIFS_PORT \<equiv> (445 :: u16)"

definition Smb2Socket_connect :: "os \<Rightarrow> smb2_context \<Rightarrow> bytes \<Rightarrow> err_msg \<Rightarrow> int \<times> smb2_context \<times> err_msg" where
  "Smb2Socket_connect os smb2 server err =
     (if c_fd smb2 \<noteq> -1 then (-1, smb2, Msg ''connect: Trying to connect but already connected'' [])
      else case (case strchr 0x5b server of
                   None \<Rightarrow> Some server
                 | Some (_, tmp) \<Rightarrow> (case strchr 0x5d tmp of None \<Rightarrow> None | Some (host, _) \<Rightarrow> Some host)) of
        None \<Rightarrow> (-1, smb2, Msg ''connect: Invalid address:%s Missing ']' in IPv6 address'' [])
      | Some host \<Rightarrow>
          (case os_getaddrinfo os (c_string host) of
             None \<Rightarrow> (-1, smb2, Msg ''connect: Invalid address:%s Can not resolv into IPv4/v6.'' [])
           | Some (AF_OTHER n, _) \<Rightarrow>
               (-1, smb2, Msg ''connect: Unknown address family :%d. Only IPv4/IPv6 supported so far.'' [n])
           | Some (family, addr) \<Rightarrow>
               (case os_socket os family of
                  Inl errno \<Rightarrow> (-1, smb2, Msg ''connect: Failed to open smb2 socket. Errno:%s(%d).'' [errno, errno])
                | Inr fd \<Rightarrow>
                    let smb2 = smb2\<lparr>c_fd := int fd\<rparr> in
                    (case os_connect os fd addr CIFS_PORT of
                       Some errno \<Rightarrow>
                         if errno \<noteq> EINPROGRESS
                         then (-1, Smb2Socket_close smb2, Msg ''connect: Connect failed with errno : %s(%d)'' [errno, errno])
                         else (0, smb2\<lparr>c_bConnected := True\<rparr>, err)
                     | None \<Rightarrow> (0, smb2\<lparr>c_bConnected := True\<rparr>, err)))))"

end
