(* ===== verification/Smb2_Transport.thy ===== *)
theory Smb2_Transport
  imports Smb2_Socket
begin

text \<open>
  What the transport guarantees. Sending: whatever portions \<^verbatim>\<open>writev\<close> accepts, a request is on the
  wire as its length followed by all its vectors, and \<^verbatim>\<open>sendPdus\<close> is a sequence of steps of the
  queue machine. Receiving: however the stream is cut into portions, \<^verbatim>\<open>receivePdus\<close> gives the
  same result, and a reply that is accepted ends exactly where its length field says.
\<close>

section \<open>Sending\<close>

definition no_write_error :: "write_event list \<Rightarrow> bool" where
  "no_write_error evs \<longleftrightarrow> list_all (\<lambda>e. case e of WError _ \<Rightarrow> False | _ \<Rightarrow> True) evs"

definition write_turns :: "write_event list \<Rightarrow> nat" where
  \<comment> \<open>how often the socket accepts at least one byte\<close>
  "write_turns evs = length (filter (\<lambda>e. case e of Wrote k \<Rightarrow> 0 < k | _ \<Rightarrow> False) evs)"

lemma write_script_simps [simp]:
  "no_write_error []" "no_write_error (WAgain # evs) = no_write_error evs"
  "no_write_error (Wrote k # evs) = no_write_error evs" "\<not> no_write_error (WError n # evs)"
  "write_turns [] = 0" "write_turns (WAgain # evs) = write_turns evs"
  "write_turns (Wrote k # evs) = (if 0 < k then Suc (write_turns evs) else write_turns evs)"
  by (simp_all add: no_write_error_def write_turns_def)

lemma unat_sub_below: "(a :: u64) \<le> b \<Longrightarrow> unat (b - a) = unat b - unat a"
  by (simp add: unat_sub)

lemma unat_add_below:
  assumes "(a :: u64) \<le> b" and "n \<le> unat (b - a)"
  shows "unat (a + of_nat n) = unat a + n"
proof -
  have "unat a + n < 2 ^ 64"
    using assms unat_u64_less [of b] by (simp add: unat_sub_below word_le_nat_alt)
  then show ?thesis
    using unat_of_nat_u64 [of "unat a + n"] by simp
qed

lemma write_loop_sends:
  assumes "wf_iovec v" and "tot \<le> iov_len v" and "no_write_error evs"
    and "unat (iov_len v) \<le> unat tot + write_turns evs"
  shows "\<exists>evs'. write_loop v tot evs sent = Some (None, iov_len v, evs', sent @ drop (unat tot) (iov_data v)) \<and>
    no_write_error evs' \<and> write_turns evs + unat tot \<le> write_turns evs' + unat (iov_len v)"
  using assms(2-)
proof (induction evs arbitrary: tot sent)
  case Nil
  then have "iov_len v = tot"
    by (simp add: word_le_nat_alt word_unat_eq_iff)
  then show ?case
    using assms(1) by simp
next
  case (Cons e evs)
  show ?case
  proof (cases "tot < iov_len v")
    case False
    then have "iov_len v = tot"
      using Cons.prems(1) by simp
    then show ?thesis
      using assms(1) Cons.prems(2) by simp
  next
    case True
    show ?thesis
    proof (cases e)
      case (Wrote k)
      define n where "n = min k (unat (iov_len v - tot))"
      have n: "n \<le> unat (iov_len v - tot)" "unat tot + n \<le> length (iov_buf v)" "unat (tot + of_nat n) = unat tot + n"
        "unat tot + n \<le> unat (iov_len v)"
        using unat_sub_below [OF less_imp_le [OF True]] unat_add_below [OF less_imp_le [OF True]] assms(1) True
        by (simp_all add: n_def wf_iovec_def word_less_nat_alt)
      have "drop (unat tot) (iov_data v) = sub_bytes (iov_buf v) (unat tot) n @ drop (unat tot + n) (iov_data v)"
        using n(4) take_add [of n "unat (iov_len v) - (unat tot + n)" "drop (unat tot) (iov_buf v)"]
        by (simp add: iov_data_def sub_bytes_def drop_take add.commute)
      moreover have "0 < k \<Longrightarrow> 0 < n"
        using True by (auto simp: n_def unat_gt_0)
      ultimately show ?thesis
        using Cons.IH [of "tot + of_nat n" "sent @ sub_bytes (iov_buf v) (unat tot) n"] Cons.prems True Wrote n
        by (auto simp: mem_simps n_def [symmetric] word_le_nat_alt split: if_splits)
    qed (use Cons True in auto)
  qed
qed

lemma writeIovec_sends:
  assumes "c_fd c \<noteq> -1" and "wf_iovec v" and "unat (iov_len v) < 2 ^ 31"
    and "no_write_error (n_writes net)" and "unat (iov_len v) \<le> write_turns (n_writes net)"
  shows "\<exists>evs. writeIovec c v err net = Some (int (unat (iov_len v)), err, net\<lparr>n_writes := evs, n_sent := n_sent net @ iov_data v\<rparr>) \<and>
    no_write_error evs \<and> write_turns (n_writes net) \<le> write_turns evs + unat (iov_len v)"
proof -
  have "unat (ucast (iov_len v) :: u32) = unat (iov_len v)"
    using assms(3) by (simp add: unsigned_ucast_eq take_bit_nat_eq_self)
  then have "sint (ucast (iov_len v) :: u32) = int (unat (iov_len v))"
    using sint_small assms(3) by metis
  then show ?thesis
    using write_loop_sends [OF assms(2) _ assms(4), of 0 "n_sent net"] assms(1,5) by (auto simp: writeIovec_def)
qed

lemma send_vectors_sends:
  assumes "c_fd c \<noteq> -1" and "list_all (\<lambda>v. wf_iovec v \<and> 0 < iov_len v) vs"
    and "sum_list (map (unat \<circ> iov_len) vs) < 2 ^ 31" and "no_write_error (n_writes net)"
    and "sum_list (map (unat \<circ> iov_len) vs) \<le> write_turns (n_writes net)"
  shows "\<exists>evs. send_vectors c vs tot err net = Some (Some (tot + sum_list (map iov_len vs)), err,
      net\<lparr>n_writes := evs, n_sent := n_sent net @ concat (map iov_data vs)\<rparr>) \<and>
    no_write_error evs \<and> write_turns (n_writes net) \<le> write_turns evs + sum_list (map (unat \<circ> iov_len) vs)"
  using assms(2-)
proof (induction vs arbitrary: tot net)
  case (Cons v vs)
  from writeIovec_sends [OF assms(1), of v net err] Cons.prems
  obtain evs where w: "writeIovec c v err net = Some (int (unat (iov_len v)), err, net\<lparr>n_writes := evs, n_sent := n_sent net @ iov_data v\<rparr>)"
    "no_write_error evs" "write_turns (n_writes net) \<le> write_turns evs + unat (iov_len v)"
    by auto
  from Cons.IH [of "net\<lparr>n_writes := evs, n_sent := n_sent net @ iov_data v\<rparr>" "tot + iov_len v"] Cons.prems w
  show ?case
    by (auto simp: Let_def algebra_simps word_gt_0)
qed (auto intro!: exI [of _ "n_writes _"])

text \<open>What a chain of requests is on the wire.\<close>

definition chain_data :: "smb2_pdu list \<Rightarrow> bytes" where
  "chain_data ch = concat (map (vectors_data \<circ> p_out) ch)"

definition chain_wire :: "smb2_pdu list \<Rightarrow> bytes" where
  "chain_wire ch = htobe32 (of_nat (length (chain_data ch))) @ chain_data ch"

definition sendable :: "smb2_pdu list \<Rightarrow> bool" where
  "sendable ch \<longleftrightarrow> (\<forall>p \<in> set ch. wf_vectors (p_out p) \<and> (\<forall>v \<in> set (iovs (p_out p)). 0 < iov_len v)) \<and>
     length (chain_data ch) < 2 ^ 31 - 4"

lemma all_out_vecs: "iovs (getAllComOutVecs ch) = concat (map (iovs \<circ> p_out) ch)"
proof -
  have "iovs (foldl (\<lambda>vs p. smb2_append_iovectors vs (p_out p)) s ch) = iovs s @ concat (map (iovs \<circ> p_out) ch)" for s
    by (induction ch arbitrary: s) (simp_all add: smb2_append_iovectors_def iovs_foldl_add)
  then show ?thesis
    by (simp add: getAllComOutVecs_def smb2_io_vectors_empty_def)
qed

lemma sum_lens: "sum_list (map iov_len vs) = of_nat (sum_list (map (unat \<circ> iov_len) vs))"
  by (induction vs) simp_all

lemma total_size_data: "wf_vectors vs \<Longrightarrow> total_size vs = of_nat (length (vectors_data vs))"
  by (simp add: wf_vectors_def length_vectors_data sum_lens comp_def)

lemma netbios_length:
  assumes "\<forall>p \<in> set ch. wf_vectors (p_out p)"
  shows "getReqNBLength ch = of_nat (length (chain_data ch))"
proof -
  have "foldl (\<lambda>n p. n + ucast (total_size (p_out p))) n ch = n + of_nat (length (chain_data ch))" for n :: u32
    using assms by (induction ch arbitrary: n) (simp_all add: chain_data_def total_size_data ucast_of_nat_u32)
  then show ?thesis
    by (simp add: getReqNBLength_def)
qed

lemma chain_vectors:
  assumes "sendable ch"
  defines "vs \<equiv> concat (map (iovs \<circ> p_out) ch)"
  shows "list_all (\<lambda>v. wf_iovec v \<and> 0 < iov_len v) vs" and "concat (map iov_data vs) = chain_data ch"
    and "sum_list (map (unat \<circ> iov_len) vs) = length (chain_data ch)"
proof -
  show l: "list_all (\<lambda>v. wf_iovec v \<and> 0 < iov_len v) vs"
    using assms by (auto simp: sendable_def wf_vectors_def list_all_iff)
  show c: "concat (map iov_data vs) = chain_data ch"
    unfolding vs_def by (induction ch) (simp_all add: chain_data_def vectors_data_def)
  show "sum_list (map (unat \<circ> iov_len) vs) = length (chain_data ch)"
    using l by (auto simp: c [symmetric] length_concat list_all_iff intro!: arg_cong [where f = sum_list])
qed

lemma sendPdu_sends:
  assumes "c_fd c \<noteq> -1" and "sendable ch" and "c_dialect c \<le> 0x0202 \<or> getReqCreditCharge ch \<le> c_credits c"
    and "no_write_error (n_writes net)" and "length (chain_wire ch) \<le> write_turns (n_writes net)"
  shows "\<exists>evs. sendPdu c ch err net = Some (0, err, net\<lparr>n_writes := evs, n_sent := n_sent net @ chain_wire ch\<rparr>) \<and>
    no_write_error evs \<and> write_turns (n_writes net) \<le> write_turns evs + length (chain_wire ch)"
proof -
  let ?n = "length (chain_data ch)"
  let ?spl = "smb2_iovec_make (htobe32 (of_nat ?n)) 4 False"
  have nb: "getReqNBLength ch = of_nat ?n" and n: "?n < 2 ^ 31 - 4"
    using assms(2) by (auto simp: sendable_def intro: netbios_length)
  have spl: "wf_iovec ?spl" "iov_data ?spl = htobe32 (of_nat ?n)" "iov_len ?spl = 4"
    by (simp_all add: wf_iovec_def iov_data_def smb2_iovec_make_def)
  obtain evs where w: "writeIovec c ?spl err net = Some (4, err, net\<lparr>n_writes := evs, n_sent := n_sent net @ htobe32 (of_nat ?n)\<rparr>)"
      "no_write_error evs" "write_turns (n_writes net) \<le> write_turns evs + 4"
    using writeIovec_sends [OF assms(1) spl(1) _ assms(4), of err] assms(5) by (auto simp: spl chain_wire_def)
  obtain evs' where v: "send_vectors c (concat (map (iovs \<circ> p_out) ch)) 4 err (net\<lparr>n_writes := evs, n_sent := n_sent net @ htobe32 (of_nat ?n)\<rparr>) =
      Some (Some (4 + of_nat ?n), err, net\<lparr>n_writes := evs', n_sent := n_sent net @ chain_wire ch\<rparr>)"
      "no_write_error evs'" "write_turns evs \<le> write_turns evs' + ?n"
    using send_vectors_sends [OF assms(1) chain_vectors(1) [OF assms(2)], of "net\<lparr>n_writes := evs, n_sent := n_sent net @ htobe32 (of_nat ?n)\<rparr>" 4 err]
      w(2,3) assms(5) n by (auto simp: chain_vectors [OF assms(2)] sum_lens chain_wire_def)
  have "(ucast (4 + of_nat ?n :: u32) :: u64) = 4 + of_nat ?n"
    using n unat_of_nat_u32 [of "4 + ?n"] unat_of_nat_u64 [of "4 + ?n"] by (simp add: word_unat_eq_iff)
  then show ?thesis
    using w v assms(3) by (auto simp: sendPdu_def nb all_out_vecs Let_def chain_wire_def)
qed

lemma add_to_waitqueue_frame [simp]:
  "c_outqueue (smb2_pdu_add_to_waitqueue c ch) = c_outqueue c" "c_fd (smb2_pdu_add_to_waitqueue c ch) = c_fd c"
  "c_dialect (smb2_pdu_add_to_waitqueue c ch) = c_dialect c"
  by (induction ch arbitrary: c) simp_all

lemma sorted_head:
  assumes "map_sorted ((k, x) # m)"
  shows "map_erase k ((k, x) # m) = m" and "map_put k y m = (k, y) # m" and "map_find k ((k, x) # m) = Some x"
proof -
  have "k < a" if "(a, b) \<in> set m" for a b
    using assms that by (force simp: map_sorted_def)
  then show "map_erase k ((k, x) # m) = m"
    by (force simp: map_erase_def filter_id_conv)
  show "map_put k y m = (k, y) # m"
    using assms by (cases m) (auto simp: map_sorted_def)
qed (simp add: map_find_def)

lemma send_queue_steps:
  assumes "queues_ok c" and "send_queue c (c_outqueue c) err net = Some (rc, c', err', net')"
  shows "(qstep cr)\<^sup>*\<^sup>* c c' \<and> (0 \<le> rc \<longrightarrow> c_outqueue c' = [])"
  using assms
proof (induction "c_outqueue c" arbitrary: c err net)
  case Nil
  then show ?case by simp
next
  case (Cons x rest)
  obtain k ch where x: "x = (k, ch)" by (cases x)
  have q: "c_outqueue c = (k, ch) # rest"
    using Cons.hyps(2) x by simp
  note head = sorted_head [of k ch rest]
  have s: "map_sorted ((k, ch) # rest)" and k: "ch \<noteq> []" "k = pdu_id (hd ch)"
    using queues_okD(1,3) [OF Cons.prems(1)] q by auto
  have send: "smb2_pdu_add_to_waitqueue (c\<lparr>c_outqueue := rest\<rparr>) ch = send_chain c k ch"
    by (simp add: send_chain_def q head(1) [OF s])
  have f: "map_find k (c_outqueue c) = Some ch"
    by (simp add: q head(3) [OF s])
  from Cons.prems(2) obtain rc1 err1 net1 where
    p: "sendPdu (c\<lparr>c_outqueue := rest\<rparr>) ch err net = Some (rc1, err1, net1)"
    by (auto simp: q Let_def split: bind_splits)
  show ?case
  proof (cases "rc1 < 0")
    case True
    then have "rc < 0" "c' = c\<lparr>c_outqueue := (k, ch) # rest\<rparr>"
      using Cons.prems(2) k(1) head(2) [OF s] by (auto simp: q p Let_def k(2) [symmetric])
    moreover have "c\<lparr>c_outqueue := (k, ch) # rest\<rparr> = c"
      by (simp add: q [symmetric])
    ultimately show ?thesis by simp
  next
    case False
    then have r: "send_queue (send_chain c k ch) (c_outqueue (send_chain c k ch)) err1 net1 = Some (rc, c', err', net')"
      using Cons.prems(2) by (simp add: q p send Let_def) (simp add: send [symmetric])
    have o: "rest = c_outqueue (send_chain c k ch)"
      by (simp add: send [symmetric])
    have step: "qstep cr c (send_chain c k ch)"
      using f by (rule qstep.send)
    from Cons.hyps(1) [OF o send_chain_ok [OF Cons.prems(1) f] r] step show ?thesis
      by (auto intro: converse_rtranclp_into_rtranclp)
  qed
qed

text \<open>The context after a whole queue has been sent.\<close>

definition send_all :: "(u64 \<times> smb2_pdu list) list \<Rightarrow> smb2_context \<Rightarrow> smb2_context" where
  "send_all q c = fold (\<lambda>(k, ch) c. send_chain c k ch) q c"

definition queue_wire :: "(u64 \<times> smb2_pdu list) list \<Rightarrow> bytes" where
  "queue_wire q = concat (map (chain_wire \<circ> snd) q)"

definition queue_charge :: "(u64 \<times> smb2_pdu list) list \<Rightarrow> nat" where
  "queue_charge q = sum_list (map (\<lambda>(k, ch). unat (getReqCreditCharge ch)) q)"

lemma send_queue_sends:
  assumes "c_fd c \<noteq> -1" and "map_sorted (c_outqueue c)" and "\<forall>(k, ch) \<in> set (c_outqueue c). sendable ch"
    and "c_dialect c \<le> 0x0202 \<or> queue_charge (c_outqueue c) \<le> unat (c_credits c)"
    and "no_write_error (n_writes net)" and "length (queue_wire (c_outqueue c)) \<le> write_turns (n_writes net)"
  shows "\<exists>evs. send_queue c (c_outqueue c) err net = Some (0, send_all (c_outqueue c) c, err,
      net\<lparr>n_writes := evs, n_sent := n_sent net @ queue_wire (c_outqueue c)\<rparr>)"
  using assms
proof (induction "c_outqueue c" arbitrary: c net)
  case Nil
  then show ?case
    by (auto simp: send_all_def queue_wire_def intro!: exI [of _ "n_writes net"])
next
  case (Cons x rest)
  obtain k ch where x: "x = (k, ch)" by (cases x)
  have q: "c_outqueue c = (k, ch) # rest"
    using Cons.hyps(2) x by simp
  have s: "map_sorted ((k, ch) # rest)"
    using Cons.prems(2) q by simp
  let ?c = "c\<lparr>c_outqueue := rest\<rparr>"
  have send: "smb2_pdu_add_to_waitqueue ?c ch = send_chain c k ch"
    by (simp add: send_chain_def q sorted_head(1) [OF s])
  have o: "c_outqueue (send_chain c k ch) = rest" "c_fd (send_chain c k ch) = c_fd c" "c_dialect (send_chain c k ch) = c_dialect c"
      "c_credits (send_chain c k ch) = c_credits c - getReqCreditCharge ch"
    by (simp_all add: send [symmetric] credits_after_send)
  have cr: "c_dialect c \<le> 0x0202 \<or> getReqCreditCharge ch \<le> c_credits c \<and> queue_charge rest \<le> unat (c_credits c - getReqCreditCharge ch)"
    using Cons.prems(4) by (auto simp: q queue_charge_def word_le_nat_alt unat_sub)
  obtain evs where p: "sendPdu ?c ch err net = Some (0, err, net\<lparr>n_writes := evs, n_sent := n_sent net @ chain_wire ch\<rparr>)"
      "no_write_error evs" "write_turns (n_writes net) \<le> write_turns evs + length (chain_wire ch)"
    using sendPdu_sends [of ?c ch net err] Cons.prems cr by (auto simp: q queue_wire_def)
  obtain evs' where "send_queue (send_chain c k ch) rest err (net\<lparr>n_writes := evs, n_sent := n_sent net @ chain_wire ch\<rparr>) =
      Some (0, send_all rest (send_chain c k ch), err, net\<lparr>n_writes := evs', n_sent := (n_sent net @ chain_wire ch) @ queue_wire rest\<rparr>)"
    using Cons.hyps(1) [of "send_chain c k ch" "net\<lparr>n_writes := evs, n_sent := n_sent net @ chain_wire ch\<rparr>"] Cons.prems cr p s
    by (auto simp: o q queue_wire_def map_sorted_def)
  then show ?case
    using p by (auto simp: q send Let_def send_all_def queue_wire_def)
qed

lemma waitqueue_send_all:
  "c_waitqueue (send_all q c) = std_map.put_all (map (\<lambda>p. (pdu_id p, p)) (concat (map snd q))) (c_waitqueue c)"
proof (induction q arbitrary: c)
  case (Cons x q)
  then show ?case
    by (cases x) (simp add: send_all_def send_chain_def waitqueue_put_all std_map.put_all_def)
qed (simp add: send_all_def std_map.put_all_def)

lemma send_all_finds:
  assumes "queues_ok c" and "(k, ch) \<in> set (c_outqueue c)" and "p \<in> set ch"
  shows "map_find (pdu_id p) (c_waitqueue (send_all (c_outqueue c) c)) = Some p"
proof -
  let ?ps = "concat (map snd (c_outqueue c))"
  have "distinct (map pdu_id ?ps)"
    using queues_okD(5) [OF assms(1)] by (simp add: queued_ids_def map_concat comp_def)
  moreover have "p \<in> set ?ps"
    using assms(2,3) by force
  ultimately have "map_of (map (\<lambda>p. (pdu_id p, p)) ?ps) (pdu_id p) = Some p"
    and "distinct (map fst (map (\<lambda>p. (pdu_id p, p)) ?ps))"
    by (auto simp: comp_def intro!: map_of_is_SomeI)
  then show ?thesis
    using std_map.find_put_all [OF queues_okD(2) [OF assms(1)]] by (simp add: waitqueue_send_all)
qed

section \<open>Properties of sending\<close>

text \<open>C8. \<^verbatim>\<open>sendPdus\<close> writes every queued chain, in the order of the message ids, as the length of the chain
  in network order followed by all its vectors, however few bytes the socket accepts at a time. It
  returns 0, no chain is left to send, and the reply to every request will find it. Each vector has
  to be non-empty, a chain shorter than 2 GiB, the credits sufficient and the socket free of errors.\<close>

theorem send_queue_on_wire:
  assumes "queues_ok c" and "c_fd c \<noteq> -1" and "\<forall>(k, ch) \<in> set (c_outqueue c). sendable ch"
    and "c_dialect c \<le> 0x0202 \<or> queue_charge (c_outqueue c) \<le> unat (c_credits c)"
    and "no_write_error (n_writes net)" and "length (queue_wire (c_outqueue c)) \<le> write_turns (n_writes net)"
  shows "\<exists>c' net'. sendPdus c err net = Some (0, c', err, net') \<and>
    n_sent net' = n_sent net @ queue_wire (c_outqueue c) \<and> c_outqueue c' = [] \<and>
    (\<forall>(k, ch) \<in> set (c_outqueue c). \<forall>p \<in> set ch. map_find (pdu_id p) (c_waitqueue c') = Some p)"
proof -
  obtain evs where s: "sendPdus c err net = Some (0, send_all (c_outqueue c) c, err,
      net\<lparr>n_writes := evs, n_sent := n_sent net @ queue_wire (c_outqueue c)\<rparr>)"
    using send_queue_sends [OF assms(2) queues_okD(1) [OF assms(1)] assms(3-6)] by (auto simp: sendPdus_def)
  then have "c_outqueue (send_all (c_outqueue c) c) = []"
    using send_queue_steps [OF assms(1)] by (auto simp: sendPdus_def)
  with s show ?thesis
    using send_all_finds [OF assms(1)] by auto
qed


section \<open>Receiving\<close>

text \<open>A script of data only, the stream it stands for, and what one read takes from a stream.\<close>

definition clean :: "read_event list \<Rightarrow> bool" where
  "clean evs \<longleftrightarrow> list_all (\<lambda>e. case e of RData bs \<Rightarrow> bs \<noteq> [] | RError \<Rightarrow> False) evs"

definition stream :: "read_event list \<Rightarrow> bytes" where
  "stream evs = concat (map (\<lambda>e. case e of RData bs \<Rightarrow> bs | RError \<Rightarrow> []) evs)"

lemma clean_simps [simp]:
  "clean []" "clean (RData bs # evs) = (bs \<noteq> [] \<and> clean evs)" "\<not> clean (RError # evs)"
  "stream [] = []" "stream (RData bs # evs) = bs @ stream evs"
  by (simp_all add: clean_def stream_def)

definition vec_ok :: "smb2_iovec \<Rightarrow> bool" where
  \<comment> \<open>a buffer as large as its length says, or a length no read accepts\<close>
  "vec_ok v \<longleftrightarrow> wf_iovec v \<or> 2 ^ 63 \<le> iov_len v"

definition read_spec :: "smb2_context \<Rightarrow> smb2_iovec \<Rightarrow> bytes \<Rightarrow> (int \<times> smb2_iovec \<times> bytes) option" where
  "read_spec c v s =
     (let n = unat (iov_len v) in
      if n \<noteq> 0 \<and> (c_fd c = -1 \<or> 2 ^ 63 \<le> n) then Some (-1, v, s)
      else if length s < n then None
      else Some (sint (ucast (iov_len v) :: u32), v\<lparr>iov_buf := put_bytes (iov_buf v) 0 (take n s)\<rparr>, drop n s))"

lemma put_bytes_seq:
  "off + length xs + length ys \<le> length b \<Longrightarrow>
   put_bytes (put_bytes b off xs) (off + length xs) ys = put_bytes b off (xs @ ys)"
  by (simp add: put_bytes_def ac_simps)

lemma read_loop_stream:
  assumes "wf_iovec v" and "tot \<le> iov_len v" and "clean evs"
  defines "n \<equiv> unat (iov_len v) - unat tot"
  shows "if length (stream evs) < n then read_loop v tot evs = None
    else \<exists>evs'. read_loop v tot evs = Some (None, iov_len v, v\<lparr>iov_buf := put_bytes (iov_buf v) (unat tot) (take n (stream evs))\<rparr>, evs') \<and>
      clean evs' \<and> stream evs' = drop n (stream evs)"
  using assms(1-3) unfolding n_def
proof (induction evs arbitrary: v tot)
  case Nil
  then show ?case
    by (auto simp: word_less_nat_alt word_le_nat_alt put_bytes_def word_unat_eq_iff)
next
  case (Cons e evs)
  show ?case
  proof (cases "tot < iov_len v")
    case False
    then show ?thesis
      using Cons.prems by (auto simp: put_bytes_def)
  next
    case True
    obtain bs where e: "e = RData bs" "bs \<noteq> []"
      using Cons.prems(3) by (cases e) auto
    let ?n = "unat (iov_len v) - unat tot"
    have n: "unat (iov_len v - tot) = ?n" "unat tot + ?n \<le> length (iov_buf v)"
      using True Cons.prems(1) unat_sub_below [OF less_imp_le [OF True]] by (auto simp: wf_iovec_def word_less_nat_alt)
    show ?thesis
    proof (cases "?n < length bs")
      case True
      then show ?thesis
        using \<open>tot < iov_len v\<close> n Cons.prems(3) by (auto simp: e Let_def mem_simps)
    next
      case False
      let ?v = "v\<lparr>iov_buf := put_bytes (iov_buf v) (unat tot) bs\<rparr>"
      have t: "unat (tot + of_nat (length bs)) = unat tot + length bs"
        using unat_add_below [of tot "iov_len v" "length bs"] True False n(1) by simp
      have w: "wf_iovec ?v" "tot + of_nat (length bs) \<le> iov_len ?v"
        using Cons.prems(1) n False True by (simp_all add: wf_iovec_def word_le_nat_alt word_less_nat_alt t)
      show ?thesis
        using Cons.IH [OF w] Cons.prems(3) True False n
        by (auto simp: e Let_def mem_simps t put_bytes_seq take_append drop_append split: if_splits)
    qed
  qed
qed

lemma readIovec_stream:
  assumes "vec_ok v" and "clean (n_reads net)"
  shows "case read_spec c v (stream (n_reads net)) of None \<Rightarrow> readIovec c v err net = None
    | Some (rc, v', s) \<Rightarrow> \<exists>evs. readIovec c v err net = Some (rc, err, v', net\<lparr>n_reads := evs\<rparr>) \<and> clean evs \<and> stream evs = s"
proof (cases "iov_len v \<noteq> 0 \<and> (c_fd c = -1 \<or> 2 ^ 63 \<le> iov_len v)")
  case True
  then show ?thesis
    using assms(2)
    by (auto simp: read_spec_def readIovec_def Let_def unat_gt_0 word_le_nat_alt intro!: exI [of _ "n_reads net"])
next
  case False
  then have "wf_iovec v"
    using assms(1) by (auto simp: vec_ok_def)
  with False read_loop_stream [OF this _ assms(2), of 0] show ?thesis
    by (auto simp: read_spec_def readIovec_def Let_def unat_gt_0 word_le_nat_alt split: if_splits)
qed

text \<open>Every vector the loop asks for can be read into, or is refused at once.\<close>

lemma fresh_vec_ok: "- (2 ^ 63) \<le> n \<Longrightarrow> vec_ok (fresh_vec env n)"
proof (cases "0 \<le> n")
  case True
  then have "nat (n mod 2 ^ 64) \<le> nat n"
    by (simp add: nat_mono zmod_le_nonneg_dividend)
  with True show ?thesis
    by (simp add: vec_ok_def wf_iovec_def fresh_vec_def smb2_iovec_make_def unsigned_of_int take_bit_int_def)
next
  case False
  assume "- (2 ^ 63) \<le> n"
  with False have "2 ^ 63 \<le> n mod 2 ^ 64"
    by (subst mod_add_self2 [symmetric], subst mod_pos_pos_trivial) auto
  then show ?thesis
    by (simp add: vec_ok_def fresh_vec_def smb2_iovec_make_def word_le_def uint_word_of_int)
qed

lemma sint_u64_ge: "- 9223372036854775808 \<le> sint (w :: u64)"
  using sint_ge [of w] by simp

lemma recv_vec_ok:
  assumes "recv_step env c err rx = Some (Inl rx', c', err')"
  shows "vec_ok (rx_vec rx')"
  using assms
  by (cases "rx_state rx")
     (auto simp: recv_step_def recv_header_def recv_fixed_def recv_variable_def recv_padding_def recv_complete_def
       read_next_def rx_fail_def Let_def sint_u64_ge intro!: fresh_vec_ok
       split: if_splits bind_splits option.splits sum.splits prod.splits)

definition same_reception ::
  "int \<times> smb2_context \<times> err_msg \<times> net \<Rightarrow> int \<times> smb2_context \<times> err_msg \<times> net \<Rightarrow> bool" where
  "same_reception r r' \<longleftrightarrow>
     (case (r, r') of ((rc, c, err, net), (rc', c', err', net')) \<Rightarrow>
        rc = rc' \<and> c = c' \<and> err = err' \<and> stream (n_reads net) = stream (n_reads net'))"

lemma receive_loop_portions:
  assumes "vec_ok (rx_vec rx)" and "clean (n_reads net)" and "clean (n_reads net')"
    and "stream (n_reads net) = stream (n_reads net')"
  shows "rel_option same_reception (receive_loop env c err rx net) (receive_loop env c err rx net')"
  using assms
proof (induction env c err rx net arbitrary: net' rule: receive_loop.induct)
  case (1 env c err rx net)
  note r = readIovec_stream [OF "1.prems"(1,2), of c err]
  note r' = readIovec_stream [OF "1.prems"(1,3), of c err, folded "1.prems"(4)]
  show ?case
  proof (cases "read_spec c (rx_vec rx) (stream (n_reads net))")
    case None
    then show ?thesis
      using r r' by (simp add: receive_loop.simps [of env c err rx])
  next
    case (Some a)
    then obtain rc v s where "read_spec c (rx_vec rx) (stream (n_reads net)) = Some (rc, v, s)"
      by (cases a) auto
    with r r' obtain evs evs' where
      e: "readIovec c (rx_vec rx) err net = Some (rc, err, v, net\<lparr>n_reads := evs\<rparr>)" "clean evs" "stream evs = s"
      and e': "readIovec c (rx_vec rx) err net' = Some (rc, err, v, net'\<lparr>n_reads := evs'\<rparr>)" "clean evs'" "stream evs' = s"
      by auto
    let ?rx = "rx\<lparr>rx_vec := v, rx_total := rx_total rx + of_int rc\<rparr>"
    show ?thesis
    proof (cases "rc < 0 \<or> recv_step env c err ?rx = None")
      case True
      then show ?thesis
        by (auto simp: receive_loop.simps [of env c err rx] e e' same_reception_def)
    next
      case False
      then obtain x c1 err1 where st: "recv_step env c err ?rx = Some (x, c1, err1)"
        by auto
      show ?thesis
      proof (cases x)
        case (Inl rx1)
        show ?thesis
          using "1.IH" [OF e(1) _ _ _ _ st [unfolded Inl], of _ _ _ _ _ _ _ rx1 "net'\<lparr>n_reads := evs'\<rparr>"] False recv_vec_ok [OF st [unfolded Inl]]
          by (simp add: receive_loop.simps [of env c err rx] e e' st Inl)
      next
        case (Inr rc1)
        then show ?thesis
          using False by (simp add: receive_loop.simps [of env c err rx] e e' st same_reception_def)
      qed
    qed
  qed
qed

text \<open>
  The framing invariant. Only padding that ends the message is constrained: together with what
  was read it fills the length field. The counters are compared modulo \<open>2\<^sup>3\<^sup>2\<close>, because the result
  of a read is an \<^verbatim>\<open>int\<close>.
\<close>

definition last_part :: "rx \<Rightarrow> bool" where
  "last_part rx \<longleftrightarrow> hdr_status (rx_hdr rx) = SMB2_STATUS_PENDING \<or> hdr_next_command (rx_hdr rx) = 0"

definition framed :: "rx \<Rightarrow> u64 \<Rightarrow> bool" where
  "framed rx len \<longleftrightarrow>
     (rx_state rx \<in> {SMB2_RECV_FIXED, SMB2_RECV_VARIABLE} \<longrightarrow> hdr_status (rx_hdr rx) \<noteq> SMB2_STATUS_PENDING) \<and>
     (rx_state rx = SMB2_RECV_PAD \<and> last_part rx \<longrightarrow> ucast (rx_total rx + len) = rx_spl rx + 4)"

lemma ucast_add_u32: "(ucast (a + b :: u64) :: u32) = ucast a + ucast b"
  using ucast_of_nat_u32 [of "unat a + unat b"] ucast_of_nat_u32 [of "unat a"] ucast_of_nat_u32 [of "unat b"] by simp

lemma ucast_u32_u64_u32 [simp]: "(ucast (ucast (s :: u32) :: u64) :: u32) = s"
  by (rule bit_word_eqI) (simp add: bit_simps)

lemma ucast_scast_u32 [simp]: "(ucast (scast (s :: u32) :: u64) :: u32) = s"
  by (rule bit_word_eqI) (simp add: bit_simps)

lemma sint_zero: "sint (ucast (s :: u32) - tot :: u64) = 0 \<Longrightarrow> ucast tot = s"
proof -
  assume "sint (ucast s - tot :: u64) = 0"
  then have "of_int (sint (ucast s - tot :: u64)) = (0 :: u64)"
    by (simp only: of_int_0)
  then have "tot = ucast s" by simp
  then show ?thesis by simp
qed

definition next_framed :: "rx \<Rightarrow> rx + int \<Rightarrow> bool" where
  "next_framed rx r \<longleftrightarrow>
     (case r of
        Inl rx' \<Rightarrow> framed rx' (iov_len (rx_vec rx')) \<and> rx_total rx' = rx_total rx \<and> rx_spl rx' = rx_spl rx \<and>
          rx_state rx' \<noteq> SMB2_RECV_SPL
      | Inr rc \<Rightarrow> rc = 0 \<longrightarrow> ucast (rx_total rx) = rx_spl rx + 4)"

lemma recv_complete_framed:
  assumes "recv_complete env c err rx = Some (r, c', err')" and "last_part rx \<Longrightarrow> ucast (rx_total rx) = rx_spl rx + 4"
  shows "next_framed rx r"
  using assms by (auto simp: recv_complete_def read_next_def next_framed_def framed_def last_part_def Let_def split: if_splits bind_splits)

lemma recv_padding_framed:
  assumes "recv_padding env part c err rx = Some (r, c', err')" and "hdr_status (rx_hdr rx) \<noteq> SMB2_STATUS_PENDING"
  shows "next_framed rx r"
proof (cases "padBytes rx = 0")
  case True
  then have "last_part rx \<Longrightarrow> ucast (rx_total rx) = rx_spl rx + 4"
    using assms(2) by (auto simp: padBytes_def last_part_def sint_zero)
  then show ?thesis
    using assms True recv_complete_framed [of env c err rx r c' err'] by (simp add: recv_padding_def)
next
  case False
  then show ?thesis
    using assms by (auto simp: recv_padding_def rx_fail_def read_next_def next_framed_def framed_def last_part_def fresh_vec_def
        smb2_iovec_make_def padBytes_def split: if_splits)
qed

lemma next_framed_pdu [simp]: "next_framed (rx\<lparr>rx_pdu := p\<rparr>) r = next_framed rx r"
  by (simp add: next_framed_def split: sum.split)

lemma recv_step_framed:
  assumes "recv_step env c err rx = Some (r, c', err')" and "framed rx 0" and "rx_state rx \<noteq> SMB2_RECV_SPL"
  shows "next_framed rx r"
proof (cases "rx_state rx")
  case SMB2_RECV_HEADER
  then show ?thesis
    using assms by (auto simp: recv_step_def recv_header_def rx_fail_def read_next_def next_framed_def framed_def fresh_vec_def
        smb2_iovec_make_def Let_def split: if_splits bind_splits sum.splits prod.splits option.splits)
next
  case SMB2_RECV_FIXED
  then have ok: "hdr_status (rx_hdr (rx\<lparr>rx_pdu := p\<rparr>)) \<noteq> SMB2_STATUS_PENDING" for p
    using assms(2) by (simp add: framed_def)
  show ?thesis
    using assms(1) SMB2_RECV_FIXED ok
    by (auto simp: recv_step_def recv_fixed_def rx_fail_def read_next_def Let_def split: if_splits bind_splits
        dest!: recv_padding_framed [OF _ ok]) (auto simp: next_framed_def framed_def)
next
  case SMB2_RECV_VARIABLE
  then have ok: "hdr_status (rx_hdr (rx\<lparr>rx_pdu := p\<rparr>)) \<noteq> SMB2_STATUS_PENDING" for p
    using assms(2) by (simp add: framed_def)
  show ?thesis
    using assms(1) SMB2_RECV_VARIABLE
    by (auto simp: recv_step_def recv_variable_def rx_fail_def read_next_def Let_def split: if_splits bind_splits
        dest!: recv_padding_framed [OF _ ok]) (auto simp: next_framed_def framed_def)
next
  case SMB2_RECV_PAD
  then have "recv_complete env c err (rx\<lparr>rx_pdu := add_in (rx_pdu rx) (rx_vec rx)\<rparr>) = Some (r, c', err')"
    using assms(1) by (simp add: recv_step_def)
  from recv_complete_framed [OF this] SMB2_RECV_PAD assms(2) show ?thesis
    by (auto simp: framed_def last_part_def)
qed (use assms in simp)

lemma receive_loop_framed:
  assumes "receive_loop env c err rx net = Some (0, c', err', net')" and "clean (n_reads net)"
    and "vec_ok (rx_vec rx)" and "framed rx (iov_len (rx_vec rx))" and "rx_state rx \<noteq> SMB2_RECV_SPL"
    and "ucast (rx_total rx) = (of_nat k :: u32)" and "k + length (stream (n_reads net)) < 2 ^ 32"
  shows "\<exists>n. k + n = unat (rx_spl rx + 4) \<and> n \<le> length (stream (n_reads net)) \<and>
    stream (n_reads net') = drop n (stream (n_reads net)) \<and> clean (n_reads net')"
  using assms
proof (induction env c err rx net arbitrary: k rule: receive_loop.induct)
  case (1 env c err rx net)
  let ?s = "stream (n_reads net)" and ?v = "rx_vec rx"
  note prems = "1.prems"
  note r = readIovec_stream [OF prems(3,2), of c err]
  have len: "\<not> (unat (iov_len ?v) \<noteq> 0 \<and> (c_fd c = -1 \<or> 2 ^ 63 \<le> unat (iov_len ?v))) \<and> unat (iov_len ?v) \<le> length ?s"
    using prems(1) r by (auto simp: receive_loop.simps [of env c err rx] read_spec_def Let_def split: if_splits)
  then obtain rc v evs where e: "readIovec c ?v err net = Some (rc, err, v, net\<lparr>n_reads := evs\<rparr>)"
      "clean evs" "stream evs = drop (unat (iov_len ?v)) ?s" and rc: "rc = sint (ucast (iov_len ?v) :: u32)"
    using r by (auto simp: read_spec_def Let_def split: if_splits)
  let ?rx = "rx\<lparr>rx_vec := v, rx_total := rx_total rx + of_int rc\<rparr>"
  let ?k = "k + unat (iov_len ?v)"
  have pos: "\<not> rc < 0"
    using prems(1) by (auto simp: receive_loop.simps [of env c err rx] e(1))
  from prems(1) pos obtain x c1 err1 where st: "recv_step env c err ?rx = Some (x, c1, err1)"
    by (auto simp: receive_loop.simps [of env c err rx] e(1) split: bind_splits)
  have tot: "(ucast (rx_total ?rx) :: u32) = of_nat ?k"
    using prems(6) ucast_of_nat_u32 [of "unat (iov_len ?v)"] by (simp add: ucast_add_u32 rc)
  have "framed ?rx 0"
    using prems(4) by (auto simp: framed_def last_part_def ucast_add_u32 rc)
  note step = recv_step_framed [OF st this]
  show ?case
  proof (cases x)
    case (Inl rx1)
    have loop: "receive_loop env c1 err1 rx1 (net\<lparr>n_reads := evs\<rparr>) = Some (0, c', err', net')"
      using prems(1) pos by (simp add: receive_loop.simps [of env c err rx] e(1) st Inl)
    have "\<exists>n. ?k + n = unat (rx_spl rx1 + 4) \<and> n \<le> length (stream evs) \<and> stream (n_reads net') = drop n (stream evs) \<and>
        clean (n_reads net')" and spl: "rx_spl rx1 = rx_spl rx"
      using "1.IH" [OF e(1) _ _ _ _ st [unfolded Inl], of _ _ _ _ _ _ _ rx1 ?k] pos recv_vec_ok [OF st [unfolded Inl]]
        step prems(5,7) tot len e(2,3) loop by (simp_all add: Inl next_framed_def)
    then obtain n where "?k + n = unat (rx_spl rx + 4)" "n \<le> length (stream evs)" "stream (n_reads net') = drop n (stream evs)"
        "clean (n_reads net')"
      by auto
    then show ?thesis
      using len by (intro exI [of _ "unat (iov_len ?v) + n"]) (auto simp: e(3) add.commute)
  next
    case (Inr rc1)
    then show ?thesis
      using prems(1,5,7) pos step tot len e unat_of_nat_u32 [of ?k]
      by (auto simp: receive_loop.simps [of env c err rx] st next_framed_def)
  qed
qed

section \<open>Properties of receiving\<close>

lemma rx_start_simps [simp]:
  "rx_vec (rx_start env) = fresh_vec env 4" "rx_total (rx_start env) = 0" "rx_state (rx_start env) = SMB2_RECV_SPL"
  by (simp_all add: rx_start_def)

lemma start_vec_ok: "vec_ok (rx_vec (rx_start env))"
  by (simp add: fresh_vec_ok)

lemma read_fresh:
  assumes "clean (n_reads net)" and "0 < n" and "n < 2 ^ 31"
  shows "if c_fd c = -1 then readIovec c (fresh_vec env (int n)) err net = Some (-1, err, fresh_vec env (int n), net)
    else if length (stream (n_reads net)) < n then readIovec c (fresh_vec env (int n)) err net = None
    else \<exists>evs. readIovec c (fresh_vec env (int n)) err net = Some (int n, err,
        (fresh_vec env (int n))\<lparr>iov_buf := take n (stream (n_reads net))\<rparr>, net\<lparr>n_reads := evs\<rparr>) \<and>
      clean evs \<and> stream evs = drop n (stream (n_reads net))"
proof -
  have v: "unat (iov_len (fresh_vec env (int n))) = n" "length (iov_buf (fresh_vec env (int n))) = n"
      "sint (ucast (iov_len (fresh_vec env (int n))) :: u32) = int n"
    using assms(3) sint_small [of "of_nat n"] unat_of_nat_u32 [of n]
    by (simp_all add: fresh_vec_def smb2_iovec_make_def unat_of_nat_u64 ucast_of_nat_u32)
  show ?thesis
  proof (cases "c_fd c = -1")
    case True
    then show ?thesis
      using v(1) assms(2) by (auto simp: readIovec_def)
  next
    case False
    then show ?thesis
      using readIovec_stream [OF fresh_vec_ok assms(1), of "int n" c env err] assms(2,3)
      by (auto simp: read_spec_def v put_bytes_def Let_def split: if_splits)
  qed
qed

definition rx_first :: "env \<Rightarrow> u32 \<Rightarrow> rx" where
  "rx_first env spl = (rx_start env)\<lparr>rx_total := 4, rx_spl := spl, rx_state := SMB2_RECV_HEADER, rx_vec := fresh_vec env 64\<rparr>"

lemma receivePdus_first:
  assumes "clean (n_reads net)" and "receivePdus env c err net \<noteq> None" and "c_fd c \<noteq> -1"
  shows "4 \<le> length (stream (n_reads net)) \<and> (\<exists>evs. clean evs \<and> stream evs = drop 4 (stream (n_reads net)) \<and>
    receivePdus env c err net = receive_loop env c err (rx_first env (be32toh (take 4 (stream (n_reads net))))) (net\<lparr>n_reads := evs\<rparr>))"
  using read_fresh [OF assms(1), of 4 c env err] assms(2,3)
  by (auto simp: receivePdus_def receive_loop.simps [of env c err "rx_start env"] rx_first_def
      recv_step_def read_next_def mem_simps sub_bytes_def split: if_splits)

text \<open>C6. As long as every read of the socket delivers data, the result of \<^verbatim>\<open>receivePdus\<close> does not depend on how
  many bytes each of them delivers: two scripts of reads that carry the same bytes, each read at least one, give
  the same return value, context and error message and leave the same bytes unread, or both
  still wait for more. The premise excludes a read that would block, is interrupted or fails, and the end of the
  stream: for those the result does depend on where the stream is cut, as \<open>read_error_shifts_data\<close> and
  \<open>first_read_error_fatal\<close> below show.\<close>

theorem receive_any_portions:
  assumes "clean (n_reads net)" and "clean (n_reads net')" and "stream (n_reads net) = stream (n_reads net')"
  shows "rel_option same_reception (receivePdus env c err net) (receivePdus env c err net')"
  unfolding receivePdus_def by (rule receive_loop_portions [OF start_vec_ok assms])

text \<open>C7. Framing, as long as every read of the socket delivers data: when \<^verbatim>\<open>receivePdus\<close> returns 0 it has
  consumed exactly the four bytes of the length field and the number of bytes it announces, so the next call starts at
  the next message. This holds for single replies, compound chains, padding and interim replies alike, as long as less
  than 4 GiB are waiting. A read that would block inside a message is excluded: it makes the loop take one byte more
  than announced (\<open>read_error_shifts_data\<close> below).\<close>

theorem receive_consumes_message:
  assumes "receivePdus env c err net = Some (0, c', err', net')" and "clean (n_reads net)"
    and "length (stream (n_reads net)) < 2 ^ 32"
  defines "n \<equiv> unat (be32toh (take 4 (stream (n_reads net))) + 4)"
  shows "n \<le> length (stream (n_reads net)) \<and> stream (n_reads net') = drop n (stream (n_reads net))"
proof -
  let ?s = "stream (n_reads net)"
  have fd: "c_fd c \<noteq> -1"
    using read_fresh [OF assms(2), of 4 c env err] assms(1)
    by (auto simp: receivePdus_def receive_loop.simps [of env c err "rx_start env"])
  from receivePdus_first [OF assms(2) _ fd, of env err] assms(1)
  obtain evs where four: "4 \<le> length ?s" and e: "clean evs" "stream evs = drop 4 ?s"
      "receive_loop env c err (rx_first env (be32toh (take 4 ?s))) (net\<lparr>n_reads := evs\<rparr>) = Some (0, c', err', net')"
    by auto
  from receive_loop_framed [OF e(3), of 4] e(1,2) four assms(3)
  obtain m where "4 + m = n" "m \<le> length ?s - 4" "stream (n_reads net') = drop m (drop 4 ?s)"
    by (auto simp: fresh_vec_ok framed_def n_def rx_first_def)
  then show ?thesis
    using four by (auto simp: add.commute)
qed

section \<open>Single turns\<close>

definition filled :: "bytes \<Rightarrow> smb2_iovec" where
  "filled bs = smb2_iovec_make bs (of_nat (length bs)) True"

definition after_step :: "env \<Rightarrow> net \<Rightarrow> rx_result \<Rightarrow> (int \<times> smb2_context \<times> err_msg \<times> net) option" where
  "after_step env net x =
     do { (r, c, err) \<leftarrow> x;
          case r of Inr rc \<Rightarrow> Some (rc, c, err, net) | Inl rx \<Rightarrow> receive_loop env c err rx net }"

lemma after_step_simps [simp]:
  "after_step env net (Some (Inr rc, c, err)) = Some (rc, c, err, net)"
  "after_step env net (Some (Inl rx, c, err)) = receive_loop env c err rx net"
  by (simp_all add: after_step_def)

lemma receive_turn:
  assumes "clean (n_reads net)" and "c_fd c \<noteq> -1" and "stream (n_reads net) = bs @ rest"
    and "rx_vec rx = fresh_vec env (int (length bs))" and "0 < length bs" and "length bs < 2 ^ 31"
  shows "\<exists>evs. clean evs \<and> stream evs = rest \<and> receive_loop env c err rx net =
    after_step env (net\<lparr>n_reads := evs\<rparr>)
      (recv_step env c err (rx\<lparr>rx_vec := filled bs, rx_total := rx_total rx + of_nat (length bs)\<rparr>))"
proof -
  have "(fresh_vec env (int (length bs)))\<lparr>iov_buf := bs\<rparr> = filled bs"
    by (simp add: fresh_vec_def filled_def smb2_iovec_make_def)
  then obtain evs where "readIovec c (rx_vec rx) err net = Some (int (length bs), err, filled bs, net\<lparr>n_reads := evs\<rparr>)"
      "clean evs" "stream evs = rest"
    using read_fresh [OF assms(1,5,6), of c env err] assms(2-4) by auto
  then show ?thesis
    by (intro exI [of _ evs]) (simp add: receive_loop.simps [of env c err rx] after_step_def)
qed

lemma wf_filled [simp]: "length bs < 2 ^ 64 \<Longrightarrow> wf_iovec (filled bs)" "iov_buf (filled bs) = bs"
    "iov_len (filled bs) = of_nat (length bs)"
  by (simp_all add: filled_def smb2_iovec_make_def wf_iovec_def unat_of_nat_u64)

text \<open>A header that answers a waiting request, the context that has taken the request, and the request.\<close>

definition reply_header :: "smb2_header \<Rightarrow> bool" where
  "reply_header h \<longleftrightarrow> wf_header h \<and> hdr_protocol_id h = [0xfe, 0x53, 0x4d, 0x42] \<and>
     hdr_flags h AND SMB2_FLAGS_SERVER_TO_REDIR \<noteq> 0"

definition take_reply :: "smb2_context \<Rightarrow> smb2_header \<Rightarrow> smb2_context" where
  "take_reply c h = c\<lparr>c_waitqueue := map_erase (hdr_message_id h) (c_waitqueue c),
     c_credits := c_credits c + ucast (hdr_credit_request_response h)\<rparr>"

definition matched :: "smb2_pdu \<Rightarrow> u32 \<Rightarrow> smb2_header \<Rightarrow> smb2_pdu" where
  "matched p spl h = add_in (setResponseHeader (p\<lparr>p_respNBLength := spl\<rparr>) h) (filled (header_bytes h))"

definition rx_matched :: "rx \<Rightarrow> smb2_header \<Rightarrow> smb2_pdu \<Rightarrow> rx" where
  "rx_matched rx h p = rx\<lparr>rx_total := rx_total rx + 64, rx_payload_offset := rx_total rx + 64, rx_hdr := h,
     rx_pdu := matched p (rx_spl rx) h\<rparr>"

lemma receive_header:
  assumes "clean (n_reads net)" and "c_fd c \<noteq> -1" and "stream (n_reads net) = header_bytes h @ rest"
    and "rx_state rx = SMB2_RECV_HEADER" and "rx_vec rx = fresh_vec env 64" and "reply_header h"
    and "map_find (hdr_message_id h) (c_waitqueue c) = Some p"
  defines "rx' \<equiv> rx_matched rx h p" and "n \<equiv> smb2ReplyGetFixedSize (matched p (rx_spl rx) h)"
  shows "\<exists>evs. clean evs \<and> stream evs = rest \<and> receive_loop env c err rx net =
    (if hdr_status h = SMB2_STATUS_PENDING
     then receive_loop env (take_reply c h) err
        (rx'\<lparr>rx_state := SMB2_RECV_PAD, rx_vec := fresh_vec env (sint (ucast (rx_spl rx + 4) - (rx_total rx + 64)))\<rparr>) (net\<lparr>n_reads := evs\<rparr>)
     else if n < 0
     then Some (-1, take_reply c h, Msg ''receivePdus: can not determine parameter size'' [], net\<lparr>n_reads := evs\<rparr>)
     else receive_loop env (take_reply c h) err (rx'\<lparr>rx_state := SMB2_RECV_FIXED, rx_vec := fresh_vec env n\<rparr>) (net\<lparr>n_reads := evs\<rparr>))"
proof -
  have l: "length (header_bytes h) = 64" and d: "decodeHeader (filled (header_bytes h)) h0 = Some (Inr h)" for h0
    using assms(6) decode_header_bytes [of h "filled (header_bytes h)" h0] by (simp_all add: reply_header_def)
  obtain evs where e: "clean evs" "stream evs = rest" "receive_loop env c err rx net = after_step env (net\<lparr>n_reads := evs\<rparr>)
      (recv_step env c err (rx\<lparr>rx_vec := filled (header_bytes h), rx_total := rx_total rx + 64\<rparr>))"
    using receive_turn [OF assms(1-3), of rx env err] assms(5) l by auto
  show ?thesis
    using e(1,2) assms(4,6,7) unfolding e(3) n_def rx'_def
    by (intro exI [of _ evs]) (simp add: recv_step_def recv_header_def d reply_header_def smb2_find_pdu_def Let_def
        read_next_def rx_fail_def take_reply_def rx_matched_def matched_def)
qed

lemma bytes_left:
  assumes "a + n < 2 ^ 32"
  shows "sint (ucast (of_nat a + of_nat n :: u32) - of_nat a :: u64) = int n"
proof -
  have "(ucast (of_nat a + of_nat n :: u32) :: u64) = of_nat (a + n)"
    using assms unat_of_nat_u32 [of "a + n"] unat_of_nat_u64 [of "a + n"] by (simp add: word_unat_eq_iff)
  moreover have "sint (of_nat n :: u64) = int n"
    using assms by (simp add: sint_uint uint_nat unat_of_nat_u64 signed_take_bit_int_eq_self)
  ultimately show ?thesis
    by simp
qed

lemma receive_spl:
  assumes "clean (n_reads net)" and "c_fd c \<noteq> -1" and "stream (n_reads net) = htobe32 spl @ rest"
  shows "\<exists>evs. clean evs \<and> stream evs = rest \<and>
    receivePdus env c err net = receive_loop env c err (rx_first env spl) (net\<lparr>n_reads := evs\<rparr>)"
  using receive_turn [OF assms(1-3), of "rx_start env" env err]
  by (auto simp: receivePdus_def recv_step_def read_next_def mem_simps sub_bytes_def rx_first_def be32toh_htobe32)

lemma receive_pad:
  assumes "clean (n_reads net)" and "c_fd c \<noteq> -1" and "stream (n_reads net) = pad @ rest"
    and "rx_state rx = SMB2_RECV_PAD" and "rx_vec rx = fresh_vec env (int (length pad))" and "0 < length pad" and "length pad < 2 ^ 31"
    and "recv_complete env c err (rx\<lparr>rx_vec := filled pad, rx_total := rx_total rx + of_nat (length pad),
      rx_pdu := add_in (rx_pdu rx) (filled pad)\<rparr>) = Some (Inr rc, c', err')"
  shows "\<exists>evs. clean evs \<and> stream evs = rest \<and> receive_loop env c err rx net = Some (rc, c', err', net\<lparr>n_reads := evs\<rparr>)"
  using receive_turn [OF assms(1-3,5-7), of err] assms(4,8) by (auto simp: recv_step_def)

lemma receive_unmatched:
  assumes "clean (n_reads net)" and "c_fd c \<noteq> -1" and "stream (n_reads net) = header_bytes h @ rest"
    and "rx_state rx = SMB2_RECV_HEADER" and "rx_vec rx = fresh_vec env 64" and "reply_header h"
    and "map_find (hdr_message_id h) (c_waitqueue c) = None"
  shows "\<exists>evs. clean evs \<and> stream evs = rest \<and>
    receive_loop env c err rx net = Some (-1, c, Msg ''receivePdus: No matching PDU found'' [], net\<lparr>n_reads := evs\<rparr>)"
proof -
  have "length (header_bytes h) = 64" and d: "decodeHeader (filled (header_bytes h)) h0 = Some (Inr h)" for h0
    using assms(6) decode_header_bytes [of h "filled (header_bytes h)" h0] by (simp_all add: reply_header_def)
  then show ?thesis
    using receive_turn [OF assms(1-3), of rx env err] assms(4-7)
    by (auto simp: recv_step_def recv_header_def d reply_header_def smb2_find_pdu_def Let_def rx_fail_def)
qed

text \<open>An interim reply ends the request. When the server announces with \<^verbatim>\<open>STATUS_PENDING\<close> that the
  answer will follow, \<^verbatim>\<open>receivePdus\<close> skips the rest of the message and returns 0, but the request has
  left the wait queue: the answer, when it comes, matches nothing and is reported as an error.\<close>

lemma pending_reply_drops_request:
  assumes "map_sorted (c_waitqueue c)" and "clean (n_reads net)" and "c_fd c \<noteq> -1"
    and "stream (n_reads net) = htobe32 (64 + of_nat (length body)) @ header_bytes h @ body @ htobe32 spl @ header_bytes h' @ rest"
    and "0 < length body" and "length body < 2 ^ 31 - 68" and "reply_header h" and "reply_header h'"
    and "hdr_status h = SMB2_STATUS_PENDING" and "hdr_message_id h' = hdr_message_id h"
    and "map_find (hdr_message_id h) (c_waitqueue c) = Some p"
  shows "\<exists>c1 net1 net2. receivePdus env c err net = Some (0, c1, err, net1) \<and>
    receivePdus env c1 err net1 = Some (-1, c1, Msg ''receivePdus: No matching PDU found'' [], net2)"
proof -
  let ?spl = "64 + of_nat (length body) :: u32" and ?c = "take_reply c h"
  let ?rx = "rx_matched (rx_first env ?spl) h p"
  obtain e1 where e1: "clean e1" "stream e1 = header_bytes h @ body @ htobe32 spl @ header_bytes h' @ rest"
      "receivePdus env c err net = receive_loop env c err (rx_first env ?spl) (net\<lparr>n_reads := e1\<rparr>)"
    using receive_spl [OF assms(2,3,4), of env err] by auto
  obtain e2 where e2: "clean e2" "stream e2 = body @ htobe32 spl @ header_bytes h' @ rest"
      "receivePdus env c err net = receive_loop env ?c err
        (?rx\<lparr>rx_state := SMB2_RECV_PAD, rx_vec := fresh_vec env (int (length body))\<rparr>) (net\<lparr>n_reads := e2\<rparr>)"
    using receive_header [of "net\<lparr>n_reads := e1\<rparr>" c h _ "rx_first env ?spl" env p err] e1 assms(3,6,7,9,11)
    by (auto simp: rx_first_def bytes_left [of 68 "length body", simplified])
  obtain e3 where e3: "clean e3" "stream e3 = htobe32 spl @ header_bytes h' @ rest"
      "receivePdus env c err net = Some (0, ?c, err, net\<lparr>n_reads := e3\<rparr>)"
    using receive_pad [of "net\<lparr>n_reads := e2\<rparr>" ?c body _ "?rx\<lparr>rx_state := SMB2_RECV_PAD, rx_vec := fresh_vec env (int (length body))\<rparr>" env err 0 ?c err]
      e2 assms(3,5,6,9) by (auto simp: take_reply_def recv_complete_def rx_matched_def)
  have none: "map_find (hdr_message_id h') (c_waitqueue ?c) = None"
    using std_map.find_erase [OF assms(1)] assms(10) by (simp add: take_reply_def)
  obtain e4 where e4: "clean e4" "stream e4 = header_bytes h' @ rest"
      "receivePdus env ?c err (net\<lparr>n_reads := e3\<rparr>) = receive_loop env ?c err (rx_first env spl) (net\<lparr>n_reads := e4\<rparr>)"
    using receive_spl [of "net\<lparr>n_reads := e3\<rparr>" ?c spl _ env err] e3 assms(3) by (auto simp: take_reply_def)
  show ?thesis
    using receive_unmatched [of "net\<lparr>n_reads := e4\<rparr>" ?c h' rest "rx_first env spl" env err] e3 e4 assms(3,8) none
    by (auto simp: take_reply_def rx_first_def)
qed

section \<open>Error replies\<close>

lemma reportable_frame [simp]:
  "reportable (take_reply c h) p = reportable c p" "reportable c (add_in p v) = reportable c p"
  "reportable c (matched p spl h) = reportable c (setResponseHeader p h)"
  by (simp_all add: reportable_def take_reply_def add_in_def matched_def setResponseHeader_def Let_def can_close_def
      create_reportable_def close_reportable_def rw_reportable_def query_dir_reportable_def has_app_def auth_ok_def
      app_at_def fh_at_def dir_at_def)

lemma response_status [simp]: "hdr_status (p_header_resp (setResponseHeader p h)) = hdr_status h"
  by (simp add: setResponseHeader_def Let_def)

lemma matched_simps [simp]:
  "p_appData (matched p spl h) = p_appData p" "hdr_status (p_header_resp (matched p spl h)) = hdr_status h"
  "p_appData (add_in p v) = p_appData p" "p_header_resp (add_in p v) = p_header_resp p"
  "app_at (take_reply c h) q = app_at c q" "c_fd (take_reply c h) = c_fd c"
  "smb2ReplyIsError (add_in p v) = smb2ReplyIsError p"
  "smb2ReplyIsError (matched p spl h) = smb2ReplyIsError (setResponseHeader p h)"
  by (simp_all add: matched_def add_in_def setResponseHeader_def Let_def take_reply_def app_at_def smb2ReplyIsError_def)

lemma in_back_add_in [simp]: "in_back (add_in p v) = Some v"
  by (simp add: in_back_def add_in_def smb2_add_iovector_def)

text \<open>An error reply whose error data is empty, with whatever padding.\<close>

definition error_message :: "smb2_header \<Rightarrow> bytes \<Rightarrow> bytes" where
  "error_message h pad = htobe32 (72 + of_nat (length pad)) @ header_bytes h @ (htole16 9 @ [0, 0] @ htole32 0) @ pad"

lemma complete_error:
  assumes "smb2ReplyIsError (rx_pdu rx)" and "reportable c (rx_pdu rx)" and "hdr_status (rx_hdr rx) \<noteq> SMB2_STATUS_PENDING"
    and "hdr_next_command (rx_hdr rx) = 0" and "app_at c (p_appData (rx_pdu rx)) = Some a" and "\<not> ad_bDelete a"
  shows "\<exists>c' a'. recv_complete env c err rx = Some (Inr 0, c', err) \<and> c_isComplete c' \<and>
    app_at c' (p_appData (rx_pdu rx)) = Some a' \<and> ad_ntStatus a' = hdr_status (p_header_resp (rx_pdu rx))"
  using virtual.process_error [OF assms(1,2), of env] assms(3-6)
  by (auto simp: recv_complete_def)

lemma error_reply_received:
  assumes "clean (n_reads net)" and "c_fd c \<noteq> -1" and "stream (n_reads net) = error_message h pad @ rest"
    and "length pad < 2 ^ 31 - 76" and "reply_header h" and "hdr_next_command h = 0"
    and "map_find (hdr_message_id h) (c_waitqueue c) = Some p" and "smb2ReplyIsError (setResponseHeader p h)"
    and "reportable c (setResponseHeader p h)" and "app_at c (p_appData p) = Some a" and "\<not> ad_bDelete a"
  shows "\<exists>c' a' evs. receivePdus env c err net = Some (0, c', err, net\<lparr>n_reads := evs\<rparr>) \<and> clean evs \<and> stream evs = rest \<and>
    c_isComplete c' \<and> app_at c' (p_appData p) = Some a' \<and> ad_ntStatus a' = hdr_status h"
proof -
  let ?spl = "72 + of_nat (length pad) :: u32" and ?c = "take_reply c h"
  let ?fx = "htole16 9 @ [0, 0] @ htole32 0" and ?rx = "rx_matched (rx_first env ?spl) h p" and ?p = "matched p ?spl h"
  have st: "hdr_status h \<noteq> SMB2_STATUS_PENDING"
    using assms(8) by (auto simp: smb2ReplyIsError_def Let_def)
  obtain e1 where e1: "clean e1" "stream e1 = header_bytes h @ ?fx @ pad @ rest"
      "receivePdus env c err net = receive_loop env c err (rx_first env ?spl) (net\<lparr>n_reads := e1\<rparr>)"
    using receive_spl [OF assms(1,2), of ?spl _ env err] assms(3) by (auto simp: error_message_def)
  have "smb2ReplyGetFixedSize ?p = 8"
    using assms(8) by (simp add: smb2ReplyGetFixedSize_def even_size_def)
  then obtain e2 where e2: "clean e2" "stream e2 = ?fx @ pad @ rest"
      "receivePdus env c err net = receive_loop env ?c err (?rx\<lparr>rx_state := SMB2_RECV_FIXED, rx_vec := fresh_vec env 8\<rparr>) (net\<lparr>n_reads := e2\<rparr>)"
    using receive_header [of "net\<lparr>n_reads := e1\<rparr>" c h _ "rx_first env ?spl" env p err] e1 assms(2,5,7) st
    by (auto simp: rx_first_def)
  obtain rep where f: "smb2ReplyProcessFixed ?c (add_in ?p (filled ?fx)) =
      Some (0, ?c, (add_in ?p (filled ?fx))\<lparr>p_payload := Some (PError rep)\<rparr>)"
    using error_reply_fixed [of "add_in ?p (filled ?fx)" "filled ?fx" ?c] virtual.fixed_error [of "add_in ?p (filled ?fx)" ?c] assms(8,9)
    by (auto simp: sub_bytes_def)
  let ?p2 = "(add_in ?p (filled ?fx))\<lparr>p_payload := Some (PError rep)\<rparr>"
  let ?rx2 = "?rx\<lparr>rx_state := SMB2_RECV_FIXED, rx_vec := filled ?fx, rx_total := 76, rx_pdu := ?p2\<rparr>"
  obtain e3 where e3: "clean e3" "stream e3 = pad @ rest" "receivePdus env c err net =
      after_step env (net\<lparr>n_reads := e3\<rparr>) (recv_padding env ''fixed part'' ?c err ?rx2)"
    using receive_turn [of "net\<lparr>n_reads := e2\<rparr>" ?c ?fx _ "?rx\<lparr>rx_state := SMB2_RECV_FIXED, rx_vec := fresh_vec env 8\<rparr>" env err] e2 assms(2) f
    by (auto simp: recv_step_def recv_fixed_def rx_matched_def rx_first_def)
  have pad: "padBytes ?rx2 = int (length pad)"
    using bytes_left [of 76 "length pad"] assms(4,6) by (simp add: padBytes_def rx_matched_def rx_first_def)
  have err: "smb2ReplyIsError ?p2" "reportable ?c ?p2" "p_appData ?p2 = p_appData p" "hdr_status (p_header_resp ?p2) = hdr_status h"
    using assms(8,9) virtual.reportable_payload by (simp_all add: smb2ReplyIsError_def)
  show ?thesis
  proof (cases "pad = []")
    case True
    then have "receivePdus env c err net = after_step env (net\<lparr>n_reads := e3\<rparr>) (recv_complete env ?c err ?rx2)"
      using e3(3) pad by (simp add: recv_padding_def)
    then show ?thesis
      using complete_error [of ?rx2 ?c a env err] True e3(1,2) err assms(6,10,11) st by (auto simp: rx_matched_def)
  next
    case False
    let ?rx3 = "?rx2\<lparr>rx_state := SMB2_RECV_PAD, rx_vec := fresh_vec env (int (length pad))\<rparr>"
    have "receivePdus env c err net = receive_loop env ?c err ?rx3 (net\<lparr>n_reads := e3\<rparr>)"
      using e3(3) pad False by (simp add: recv_padding_def read_next_def)
    moreover obtain c' a' where "recv_complete env ?c err (?rx3\<lparr>rx_vec := filled pad, rx_total := rx_total ?rx3 + of_nat (length pad),
        rx_pdu := add_in (rx_pdu ?rx3) (filled pad)\<rparr>) = Some (Inr 0, c', err)" "c_isComplete c'"
        "app_at c' (p_appData p) = Some a'" "ad_ntStatus a' = hdr_status h"
      using complete_error [of "?rx3\<lparr>rx_vec := filled pad, rx_total := rx_total ?rx3 + of_nat (length pad),
          rx_pdu := add_in (rx_pdu ?rx3) (filled pad)\<rparr>" ?c a env err] err assms(6,10,11) st
      by (auto simp: rx_matched_def)
    ultimately show ?thesis
      using receive_pad [of "net\<lparr>n_reads := e3\<rparr>" ?c pad rest ?rx3 env err 0 c' err] e3(1,2) False assms(2,4) by auto
  qed
qed

section \<open>Where the guarantees end\<close>

text \<open>A read that fails after part of the data, for want of more, makes the loop overwrite the last byte it got.\<close>

lemma read_error_shifts_data:
  "read_loop (filled [0, 0, 0, 0]) 0 [RData [1, 2], RError, RData [3, 4, 5]] = Some (None, 4, filled [1, 3, 4, 5], [])"
  by (simp add: filled_def smb2_iovec_make_def mem_simps put_bytes_def)

text \<open>Before the first byte it ends the connection, without a message.\<close>

lemma first_read_error_fatal:
  assumes "0 < iov_len v" and "iov_len v < 2 ^ 63" and "c_fd c \<noteq> -1" and "n_reads net = RError # evs"
  shows "readIovec c v err net = Some (-1, err, v, net\<lparr>n_reads := evs\<rparr>)"
proof -
  have "read_loop v (-1) evs = Some (None, -1, v, evs)"
    using word_n1_ge [of "iov_len v"] by (cases evs) (simp_all add: not_less)
  moreover have "sint (ucast (-1 :: u64) :: u32) = -1"
    by code_simp
  ultimately show ?thesis
    using assms by (auto simp: readIovec_def not_le [symmetric])
qed

text \<open>An empty vector ends the sending of a chain with the result success.\<close>

lemma empty_vector_stops_send:
  assumes "c_fd c \<noteq> -1" and "iov_len v = 0"
  shows "send_vectors c (v # vs) tot err net = Some (None, err, net)"
proof -
  have "write_loop v 0 evs sent = Some (None, 0, evs, sent)" for evs sent
    using assms(2) by (cases evs) simp_all
  then show ?thesis
    using assms by (simp add: writeIovec_def)
qed

section \<open>Witnesses\<close>

definition ex_online :: smb2_context where
  "ex_online = ex_queued\<lparr>c_fd := 3, c_bConnected := True, c_credits := 8,
     c_heap := (\<lambda>_. None)(1 := Some (CApp (new_app_data AppPlain)))\<rparr>"

definition ex_waiting :: smb2_context where
  "ex_waiting = ex_online\<lparr>c_outqueue := [], c_waitqueue := [(0, ex_echo)]\<rparr>"

definition ex_net :: "bytes \<Rightarrow> net" where
  \<comment> \<open>a socket that takes and delivers single bytes\<close>
  "ex_net s = \<lparr>n_sent = [], n_writes = replicate 68 (Wrote 1), n_reads = map (\<lambda>b. RData [b]) s,
     n_polls = [Polled POLLOUT None, Polled POLLIN None]\<rparr>"

definition ex_reply :: "u32 \<Rightarrow> smb2_header" where
  "ex_reply status = zero_header\<lparr>hdr_protocol_id := [0xfe, 0x53, 0x4d, 0x42], hdr_flags := 1, hdr_status := status,
     hdr_signature := replicate 16 0\<rparr>"

lemma single_bytes [simp]: "stream (map (\<lambda>b. RData [b]) s) = s" "clean (map (\<lambda>b. RData [b]) s)"
  by (induction s) simp_all

lemma ex_net_simps [simp]: "stream (n_reads (ex_net s)) = s" "clean (n_reads (ex_net s))" "n_sent (ex_net s) = []"
    "n_writes (ex_net s) = replicate 68 (Wrote 1)" "n_polls (ex_net s) = [Polled POLLOUT None, Polled POLLIN None]"
  by (simp_all add: ex_net_def)

lemma ex_reply_header [simp]:
  "reply_header (ex_reply status)" "hdr_message_id (ex_reply status) = 0" "hdr_next_command (ex_reply status) = 0"
  "hdr_status (ex_reply status) = status"
  by (simp_all add: reply_header_def wf_header_def ex_reply_def zero_header_def)

lemma ex_online_ok: "queues_ok ex_online" "c_outqueue ex_online = [(0, [ex_echo])]" "c_fd ex_online = 3" "c_credits ex_online = 8"
  using ex_queued_ok queues_ok_cong [of ex_online ex_queued] by (simp_all add: ex_online_def ex_queued_def)

lemma ex_echo_sendable: "sendable [ex_echo]" "getReqCreditCharge [ex_echo] = 1" "length (chain_wire [ex_echo]) = 68" "pdu_id ex_echo = 0"
  by (simp_all add: sendable_def getReqCreditCharge_def chain_data_def chain_wire_def ex_echo_def Smb2Pdu_def Let_def zero_header_def
      smb2_add_iovector_buf_def smb2_io_vectors_empty_def wf_vectors_def wf_iovec_def vectors_data_def iov_data_def new_context_def)

lemma ex_script: "no_write_error (replicate n (Wrote 1))" "write_turns (replicate n (Wrote 1)) = n"
  by (induction n) simp_all

abbreviation "ex_err \<equiv> Msg [] []"
abbreviation "ex_error_message \<equiv> error_message (ex_reply 0xc0000022) []"

lemma ex_waiting_simps: "c_fd ex_waiting = 3" "c_waitqueue ex_waiting = [(0, ex_echo)]" "p_appData ex_echo = 1"
    "app_at ex_waiting 1 = Some (new_app_data AppPlain)" "hdr_command (p_header ex_echo) = SMB2_ECHO"
  by (simp_all add: ex_waiting_def ex_online_def ex_echo_def Smb2Pdu_def Let_def app_at_def)

lemma ex_reportable: "reportable ex_waiting (setResponseHeader ex_echo h)"
  using ex_waiting_simps by (simp add: reportable_def Let_def setResponseHeader_def has_app_def)

lemma ex_error_received:
  assumes "clean (n_reads net)" and "stream (n_reads net) = ex_error_message @ rest"
  shows "\<exists>c' evs. receivePdus ex_env ex_waiting ex_err net = Some (0, c', ex_err, net\<lparr>n_reads := evs\<rparr>)"
  using error_reply_received [OF assms(1) _ assms(2), where c = ex_waiting and p = ex_echo and env = ex_env and err = ex_err]
    ex_waiting_simps ex_reportable
  by (auto simp: map_find_def smb2ReplyIsError_def new_app_data_def)

theorem send_queue_on_wire_witness:
  "\<exists>c' net'. sendPdus ex_online ex_err (ex_net []) = Some (0, c', ex_err, net') \<and> n_sent net' = chain_wire [ex_echo] \<and>
     map_find 0 (c_waitqueue c') = Some ex_echo"
  using send_queue_on_wire [of ex_online "ex_net []" ex_err] ex_online_ok ex_echo_sendable ex_script
  by (auto simp: queue_wire_def queue_charge_def)


theorem receive_any_portions_witness:
  "\<exists>r r'. receivePdus ex_env ex_waiting ex_err (ex_net ex_error_message) = Some r \<and>
     receivePdus ex_env ex_waiting ex_err ((ex_net [])\<lparr>n_reads := [RData ex_error_message]\<rparr>) = Some r' \<and> same_reception r r'"
proof -
  have ne: "ex_error_message \<noteq> []"
    by (simp add: error_message_def)
  then have "\<exists>r. receivePdus ex_env ex_waiting ex_err (ex_net ex_error_message) = Some r"
    using ex_error_received [of "ex_net ex_error_message" "[]"] by auto
  with ne receive_any_portions [of "ex_net ex_error_message" "(ex_net [])\<lparr>n_reads := [RData ex_error_message]\<rparr>" ex_env ex_waiting ex_err]
  show ?thesis
    by (auto simp: option_rel_Some1)
qed

theorem receive_consumes_message_witness:
  "\<exists>c' net'. receivePdus ex_env ex_waiting ex_err (ex_net (ex_error_message @ [7])) = Some (0, c', ex_err, net') \<and>
     stream (n_reads net') = [7]"
proof -
  let ?s = "ex_error_message @ [7]"
  have len: "length ex_error_message = 76" "take 4 ?s = htobe32 72"
    by (simp_all add: error_message_def ex_reply_def wf_header_def)
  obtain c' net' where r: "receivePdus ex_env ex_waiting ex_err (ex_net ?s) = Some (0, c', ex_err, net')"
    using ex_error_received [of "ex_net ?s" "[7]"] by auto
  have "stream (n_reads net') = drop 76 ?s"
    using receive_consumes_message [OF r] len by (simp add: be32toh_htobe32)
  with r len show ?thesis
    by auto
qed

end
