(* ===== verification/Smb2_Exchange.thy ===== *)
theory Smb2_Exchange
  imports Smb2_Transport
begin

text \<open>
  Whole exchanges through \<^verbatim>\<open>Smb2Context::sendAndReceive\<close>: a request waits in the out queue, the
  socket becomes writable, the reply arrives, the caller finds the outcome in its application data.
\<close>

section \<open>One request, one reply\<close>

definition exchange_ready :: "smb2_context \<Rightarrow> net \<Rightarrow> smb2_pdu \<Rightarrow> bool" where
  "exchange_ready c net p \<longleftrightarrow>
     queues_ok c \<and> 0 \<le> c_fd c \<and> c_bConnected c \<and> c_outqueue c = [(pdu_id p, [p])] \<and> sendable [p] \<and>
     (c_dialect c \<le> 0x0202 \<or> getReqCreditCharge [p] \<le> c_credits c) \<and>
     no_write_error (n_writes net) \<and> length (chain_wire [p]) \<le> write_turns (n_writes net) \<and> clean (n_reads net) \<and>
     (\<exists>evs. n_polls net = Polled POLLOUT None # Polled POLLIN None # evs)"

definition sent_context :: "smb2_context \<Rightarrow> smb2_pdu \<Rightarrow> smb2_context" where
  "sent_context c p = smb2_pdu_add_to_waitqueue (c\<lparr>c_isComplete := False, c_outqueue := []\<rparr>) [p]"

lemma sent_context_frame [simp]:
  "c_fd (sent_context c p) = c_fd c" "c_bConnected (sent_context c p) = c_bConnected c"
  "\<not> c_isComplete (sent_context c p)" "c_outqueue (sent_context c p) = []" "c_heap (sent_context c p) = c_heap c"
  "c_authenticator (sent_context c p) = c_authenticator c"
  by (simp_all add: sent_context_def)

lemma poll_loop_complete [simp]:
  "c_isComplete c \<Longrightarrow> poll_loop env evs c err net = Some (0, c, err, net\<lparr>n_polls := evs\<rparr>)"
  by (cases evs) simp_all

lemma exchange:
  assumes "exchange_ready c net p"
  obtains w evs where "\<And>c' e. receivePdus env (sent_context c p) err (net\<lparr>n_writes := w, n_sent := n_sent net @ chain_wire [p]\<rparr>) =
      Some (0, c', err, net\<lparr>n_writes := w, n_sent := n_sent net @ chain_wire [p], n_reads := e\<rparr>) \<Longrightarrow> c_isComplete c' \<Longrightarrow>
    sendAndReceive env c err net =
      Some (0, c', err, net\<lparr>n_writes := w, n_sent := n_sent net @ chain_wire [p], n_reads := e, n_polls := evs\<rparr>)"
proof -
  let ?c = "c\<lparr>c_isComplete := False\<rparr>"
  note ready = assms [unfolded exchange_ready_def]
  obtain evs where polls: "n_polls net = Polled POLLOUT None # Polled POLLIN None # evs"
    using ready by blast
  obtain w where s: "sendPdus ?c err net = Some (0, sent_context c p, err, net\<lparr>n_writes := w, n_sent := n_sent net @ chain_wire [p]\<rparr>)"
    using sendPdu_sends [of "?c\<lparr>c_outqueue := []\<rparr>" "[p]" net err] ready
    by (auto simp: sendPdus_def sent_context_def Let_def)
  have "poll_result ?c POLLOUT = POLLOUT" "poll_result (sent_context c p) POLLIN = POLLIN"
    using ready by (simp_all add: poll_result_def smb2_which_events_def)
  with that [of w evs] show thesis
    using ready s by (auto simp: sendAndReceive_def polls smb2_service_def Let_def)
qed

lemma sent_waits: "queues_ok c \<Longrightarrow> map_find (pdu_id p) (c_waitqueue (sent_context c p)) = Some p"
  using queues_okD(2) [of c] by (simp add: sent_context_def std_map.find_put_same)

lemma reportable_sent: "reportable (sent_context c p) q = reportable c q"
  by (simp add: reportable_def Let_def can_close_def create_reportable_def close_reportable_def rw_reportable_def
      query_dir_reportable_def has_app_def auth_ok_def app_at_def fh_at_def dir_at_def)

lemma error_exchange:
  assumes "exchange_ready c net p" and "stream (n_reads net) = error_message h pad @ rest"
    and "length pad < 2 ^ 31 - 76" and "reply_header h" and "hdr_next_command h = 0" and "hdr_message_id h = pdu_id p"
    and "smb2ReplyIsError (setResponseHeader p h)" and "reportable c (setResponseHeader p h)"
    and "app_at c (p_appData p) = Some a" and "\<not> ad_bDelete a"
  shows "\<exists>c' net' a'. sendAndReceive env c err net = Some (0, c', err, net') \<and>
    n_sent net' = n_sent net @ chain_wire [p] \<and> stream (n_reads net') = rest \<and>
    app_at c' (p_appData p) = Some a' \<and> ad_ntStatus a' = hdr_status h"
proof -
  have ok: "queues_ok c" "clean (n_reads net)" "c_fd (sent_context c p) \<noteq> -1"
    using assms(1) by (auto simp: exchange_ready_def)
  have app: "app_at (sent_context c p) (p_appData p) = Some a"
    using assms(9) by (simp add: app_at_def)
  obtain w evs where x: "\<And>c' e. receivePdus env (sent_context c p) err (net\<lparr>n_writes := w, n_sent := n_sent net @ chain_wire [p]\<rparr>) =
      Some (0, c', err, net\<lparr>n_writes := w, n_sent := n_sent net @ chain_wire [p], n_reads := e\<rparr>) \<Longrightarrow> c_isComplete c' \<Longrightarrow>
    sendAndReceive env c err net =
      Some (0, c', err, net\<lparr>n_writes := w, n_sent := n_sent net @ chain_wire [p], n_reads := e, n_polls := evs\<rparr>)"
    using exchange [OF assms(1), of env err] by blast
  from error_reply_received [of "net\<lparr>n_writes := w, n_sent := n_sent net @ chain_wire [p]\<rparr>" "sent_context c p" h pad rest p a env err]
    ok sent_waits [OF ok(1), of p] assms(2-8,10) app reportable_sent
  obtain c' a' e where "receivePdus env (sent_context c p) err (net\<lparr>n_writes := w, n_sent := n_sent net @ chain_wire [p]\<rparr>) =
      Some (0, c', err, net\<lparr>n_writes := w, n_sent := n_sent net @ chain_wire [p], n_reads := e\<rparr>)" "c_isComplete c'"
      "stream e = rest" "app_at c' (p_appData p) = Some a'" "ad_ntStatus a' = hdr_status h"
    by auto
  with x show ?thesis
    by auto
qed

text \<open>C3. An error status reaches the caller. For a request of any command but tree disconnect, whose application data and the
  handle in it are alive: if the server answers it with an error reply, in whatever portions the bytes arrive, then
  \<^verbatim>\<open>sendAndReceive\<close> has sent the request, returns 0, and the application data of the request holds exactly the
  status of the reply. The next message of the stream is untouched. Excepted are the status values that two
  handlers treat on their own, file closed as the answer to a close and end of file as the answer to a read or a write; the socket
  reports no error.\<close>

theorem error_reaches_caller:
  assumes "exchange_ready c net p" and "stream (n_reads net) = error_message h pad @ rest"
    and "length pad < 2 ^ 31 - 76" and "reply_header h" and "hdr_next_command h = 0" and "hdr_message_id h = pdu_id p"
    and "smb2ReplyIsError (setResponseHeader p h)" and "reportable c (setResponseHeader p h)"
    and "app_at c (p_appData p) = Some a" and "\<not> ad_bDelete a"
  shows "\<exists>c' net' a'. sendAndReceive env c err net = Some (0, c', err, net') \<and>
    n_sent net' = n_sent net @ chain_wire [p] \<and> stream (n_reads net') = rest \<and>
    app_at c' (p_appData p) = Some a' \<and> ad_ntStatus a' = hdr_status h"
  by (rule error_exchange [OF assms])

section \<open>A successful read\<close>

definition read_message :: "smb2_header \<Rightarrow> bytes \<Rightarrow> u32 \<Rightarrow> bytes" where
  "read_message h data rem = htobe32 (80 + of_nat (length data)) @ header_bytes h @
     read_reply_fixed (of_nat (length data)) rem @ data"

lemma read_fixed_filled:
  assumes "hdr_status (p_header_resp p) = 0" and "0 < length data" and "length data < 2 ^ 31"
  shows "Smb2Read_ProcessFixed c (add_in p (filled (read_reply_fixed (of_nat (length data)) rem))) =
    Some (int (length data), c, (add_in p (filled (read_reply_fixed (of_nat (length data)) rem)))\<lparr>p_payload := Some (PRead
      \<lparr>rdr_data_offset = 80, rdr_data_length = of_nat (length data), rdr_data_remaining = rem, rdr_readData = None\<rparr>)\<rparr>)"
proof -
  have n: "unat (of_nat (length data) :: u32) = length data"
    using assms(3) by (simp add: unat_of_nat_u32)
  then have "(of_nat (length data) :: u32) \<noteq> 0"
    using assms(2) by (metis unat_0 less_irrefl)
  then show ?thesis
    using assms sint_small [of "of_nat (length data)"] n
    by (simp add: Smb2Read_ProcessFixed_def Let_def smb2ReplyIsError_def mem_simps read_reply_fixed_def)
qed

lemma read_frame [simp]:
  "p_header (add_in p v) = p_header p" "p_payload (add_in p v) = p_payload p"
  "fh_at (take_reply c h) q = fh_at c q" "buf_at (take_reply c h) q = buf_at c q"
  by (simp_all add: add_in_def take_reply_def fh_at_def buf_at_def)

lemma read_reply_received:
  assumes "clean (n_reads net)" and "c_fd c \<noteq> -1" and "stream (n_reads net) = read_message h data rem @ rest"
    and "0 < length data" and "length data < 2 ^ 31 - 84" and "reply_header h" and "hdr_next_command h = 0"
    and "hdr_status h = 0" and "map_find (hdr_message_id h) (c_waitqueue c) = Some p" and "hdr_command (p_header p) = SMB2_READ"
    and "app_at c (p_appData p) = Some a" and "ad_kind a = ReadData" and "\<not> ad_bDelete a" and "fh_at c (ad_fh a) = Some f"
    and "buf_at c (ad_readBuf a) = Some dst" and "length data \<le> length dst" and "fh_offset f + int (length data) < 2 ^ 63"
  shows "\<exists>c' evs. receivePdus env c err net = Some (0, c', err, net\<lparr>n_reads := evs\<rparr>) \<and> clean evs \<and> stream evs = rest \<and>
    c_isComplete c' \<and> buf_at c' (ad_readBuf a) = Some (data @ drop (length data) dst) \<and>
    fh_at c' (ad_fh a) = Some (f\<lparr>fh_offset := fh_offset f + int (length data), fh_byte_count := of_nat (length data),
      fh_bytes_remaining := rem\<rparr>) \<and> app_at c' (p_appData p) = Some (a\<lparr>ad_ntStatus := 0\<rparr>)"
proof -
  let ?spl = "80 + of_nat (length data) :: u32" and ?c = "take_reply c h" and ?fx = "read_reply_fixed (of_nat (length data)) rem"
  let ?rx = "rx_matched (rx_first env ?spl) h p" and ?p = "matched p ?spl h"
  let ?r = "\<lparr>rdr_data_offset = 80, rdr_data_length = of_nat (length data), rdr_data_remaining = rem, rdr_readData = None\<rparr>"
  let ?p2 = "(add_in ?p (filled ?fx))\<lparr>p_payload := Some (PRead ?r)\<rparr>"
  let ?p3 = "(add_in ?p2 (filled data))\<lparr>p_payload := Some (PRead (?r\<lparr>rdr_readData := Some data\<rparr>))\<rparr>"
  have n: "unat (of_nat (length data) :: u32) = length data"
    using assms(5) by (simp add: unat_of_nat_u32)
  then have pos: "0 < (of_nat (length data) :: u32)"
    using assms(4) by (simp add: word_less_nat_alt)
  have cmd: "hdr_command (p_header ?p) = SMB2_READ"
    using assms(10) by (simp add: matched_def add_in_def setResponseHeader_def Let_def)
  obtain e1 where e1: "clean e1" "stream e1 = header_bytes h @ ?fx @ data @ rest"
      "receivePdus env c err net = receive_loop env c err (rx_first env ?spl) (net\<lparr>n_reads := e1\<rparr>)"
    using receive_spl [OF assms(1,2), of ?spl _ env err] assms(3) by (auto simp: read_message_def)
  have "smb2ReplyGetFixedSize ?p = 16"
    using assms(8) cmd by (simp add: smb2ReplyGetFixedSize_def even_size_def smb2ReplyIsError_def)
  then obtain e2 where e2: "clean e2" "stream e2 = ?fx @ data @ rest"
      "receivePdus env c err net = receive_loop env ?c err (?rx\<lparr>rx_state := SMB2_RECV_FIXED, rx_vec := fresh_vec env 16\<rparr>) (net\<lparr>n_reads := e2\<rparr>)"
    using receive_header [of "net\<lparr>n_reads := e1\<rparr>" c h _ "rx_first env ?spl" env p err] e1 assms(2,6,8,9)
    by (auto simp: rx_first_def)
  have f: "smb2ReplyProcessFixed ?c (add_in ?p (filled ?fx)) = Some (int (length data), ?c, ?p2)"
    using read_fixed_filled [of ?p data ?c rem] assms(4,5,8) cmd by (simp add: smb2ReplyProcessFixed_def Let_def)
  let ?rx2 = "?rx\<lparr>rx_total := 84, rx_pdu := ?p2, rx_state := SMB2_RECV_VARIABLE, rx_vec := fresh_vec env (int (length data))\<rparr>"
  obtain e3 where e3: "clean e3" "stream e3 = data @ rest" "receivePdus env c err net = receive_loop env ?c err ?rx2 (net\<lparr>n_reads := e3\<rparr>)"
    using receive_turn [of "net\<lparr>n_reads := e2\<rparr>" ?c ?fx _ "?rx\<lparr>rx_state := SMB2_RECV_FIXED, rx_vec := fresh_vec env 16\<rparr>" env err] e2 assms(2,4) f
    by (auto simp: recv_step_def recv_fixed_def rx_matched_def rx_first_def read_next_def read_reply_fixed_def)
  have v: "smb2ReplyProcessVariable env ?c (add_in ?p2 (filled data)) = Some (0, ?c, ?p3)"
    using cmd assms(8)
    by (simp add: smb2ReplyProcessVariable_def Let_def Smb2Read_ProcessVariable_def smb2ReplyIsError_def)
  let ?rx3 = "?rx2\<lparr>rx_vec := filled data, rx_total := 84 + of_nat (length data), rx_pdu := ?p3\<rparr>"
  obtain e4 where e4: "clean e4" "stream e4 = rest" "receivePdus env c err net =
      after_step env (net\<lparr>n_reads := e4\<rparr>) (recv_padding env ''variable part'' ?c err ?rx3)"
    using receive_turn [of "net\<lparr>n_reads := e3\<rparr>" ?c data rest ?rx2 env err] e3 assms(2,4,5) v
    by (auto simp: recv_step_def recv_variable_def rx_matched_def)
  have "padBytes ?rx3 = 0"
    using bytes_left [of "84 + length data" 0] assms(5,7) by (simp add: padBytes_def rx_matched_def rx_first_def)
  then have "receivePdus env c err net = after_step env (net\<lparr>n_reads := e4\<rparr>) (recv_complete env ?c err ?rx3)"
    by (simp add: e4(3) recv_padding_def)
  moreover obtain c' where c': "Smb2Read_ProcessReplyAndAppData ?c ?p3 = Some (0, c', ?p3)" "c_isComplete c'"
     "buf_at c' (ad_readBuf a) = Some (data @ drop (length data) dst)"
     "fh_at c' (ad_fh a) = Some (f\<lparr>fh_offset := fh_offset f + int (length data), fh_byte_count := of_nat (length data), fh_bytes_remaining := rem\<rparr>)"
     "app_at c' (p_appData p) = Some (a\<lparr>ad_ntStatus := 0\<rparr>)"
    using read_process [of ?p3 "?r\<lparr>rdr_readData := Some data\<rparr>" "of_nat (length data)" data ?c a f dst] assms(4,8,11-17) n pos
    by (auto simp: uint_nat)
  ultimately show ?thesis
    using e4(1,2) cmd assms(7,8,13)
    by (auto simp: recv_complete_def rx_matched_def smb2ProcessReplyAndAppData_def Let_def)
qed

lemma read_exchange:
  assumes "exchange_ready c net p" and "stream (n_reads net) = read_message h data rem @ rest"
    and "0 < length data" and "length data < 2 ^ 31 - 84" and "reply_header h" and "hdr_next_command h = 0"
    and "hdr_status h = 0" and "hdr_message_id h = pdu_id p" and "hdr_command (p_header p) = SMB2_READ"
    and "app_at c (p_appData p) = Some a" and "ad_kind a = ReadData" and "\<not> ad_bDelete a" and "fh_at c (ad_fh a) = Some f"
    and "buf_at c (ad_readBuf a) = Some dst" and "length data \<le> length dst" and "fh_offset f + int (length data) < 2 ^ 63"
  shows "\<exists>c' net'. sendAndReceive env c err net = Some (0, c', err, net') \<and>
    n_sent net' = n_sent net @ chain_wire [p] \<and> stream (n_reads net') = rest \<and>
    buf_at c' (ad_readBuf a) = Some (data @ drop (length data) dst) \<and>
    fh_at c' (ad_fh a) = Some (f\<lparr>fh_offset := fh_offset f + int (length data), fh_byte_count := of_nat (length data),
      fh_bytes_remaining := rem\<rparr>) \<and>
    app_at c' (p_appData p) = Some (a\<lparr>ad_ntStatus := 0\<rparr>)"
proof -
  have ok: "queues_ok c" "clean (n_reads net)" "c_fd (sent_context c p) \<noteq> -1"
    using assms(1) by (auto simp: exchange_ready_def)
  have heap: "app_at (sent_context c p) q = app_at c q" "fh_at (sent_context c p) q = fh_at c q" "buf_at (sent_context c p) q = buf_at c q" for q
    by (simp_all add: app_at_def fh_at_def buf_at_def)
  obtain w evs where x: "\<And>c' e. receivePdus env (sent_context c p) err (net\<lparr>n_writes := w, n_sent := n_sent net @ chain_wire [p]\<rparr>) =
      Some (0, c', err, net\<lparr>n_writes := w, n_sent := n_sent net @ chain_wire [p], n_reads := e\<rparr>) \<Longrightarrow> c_isComplete c' \<Longrightarrow>
    sendAndReceive env c err net =
      Some (0, c', err, net\<lparr>n_writes := w, n_sent := n_sent net @ chain_wire [p], n_reads := e, n_polls := evs\<rparr>)"
    using exchange [OF assms(1), of env err] by blast
  from read_reply_received [of "net\<lparr>n_writes := w, n_sent := n_sent net @ chain_wire [p]\<rparr>" "sent_context c p" h data rem rest p a f dst env err]
    ok sent_waits [OF ok(1), of p] assms(2-16) heap x
  show ?thesis
    by auto
qed

section \<open>Witnesses\<close>

lemma ex_online_ready: "exchange_ready ex_online (ex_net s) ex_echo"
  using ex_online_ok ex_echo_sendable ex_script [of 68]
  by (simp add: exchange_ready_def) (simp add: ex_online_def)

theorem error_reaches_caller_witness:
  "\<exists>c' net' a. sendAndReceive ex_env ex_online ex_err (ex_net ex_error_message) = Some (0, c', ex_err, net') \<and>
     n_sent net' = chain_wire [ex_echo] \<and> app_at c' 1 = Some a \<and> ad_ntStatus a = 0xc0000022"
proof -
  have "app_at ex_online 1 = Some (new_app_data AppPlain)" "reportable ex_online (setResponseHeader ex_echo h)" for h
    using ex_waiting_simps by (simp_all add: ex_online_def app_at_def reportable_def Let_def setResponseHeader_def has_app_def)
  then show ?thesis
    using error_reaches_caller [OF ex_online_ready, of ex_error_message "ex_reply 0xc0000022" "[]" "[]" "new_app_data AppPlain" ex_env ex_err]
      ex_waiting_simps(3) ex_echo_sendable(4)
    by (auto simp: smb2ReplyIsError_def new_app_data_def)
qed

end
