(* ===== verification/Smb2_Request.thy ===== *)
theory Smb2_Request
  imports Smb2_Exchange
begin

text \<open>
  \<^verbatim>\<open>Smb2RequestBuilder.cpp\<close>: the functions that fill in the request structs, let the command classes
  make PDUs of them and put those into the out queue. They take the address of the application
  data and return the \<^verbatim>\<open>int\<close> of the source with the new context; \<open>None\<close> is undefined behaviour, in
  particular the use of an object that has been deleted.

  The contract \<open>request_builder\<close> says what a builder of a single request leaves behind; the client
  interface is proved on top of it.
\<close>

section \<open>Constants\<close>

abbreviation (input) "MINUS_ENOMEM \<equiv> (-12 :: int)"
abbreviation (input) "MINUS_EIO \<equiv> (-5 :: int)"

abbreviation (input) "SMB2_IMPERSONATION_IDENTIFICATION \<equiv> (0x00000001 :: u32)"
abbreviation (input) "SMB2_IMPERSONATION_IMPERSONATION \<equiv> (0x00000002 :: u32)"

abbreviation (input) "SMB2_FILE_READ_DATA \<equiv> (0x00000001 :: u32)"
abbreviation (input) "SMB2_FILE_LIST_DIRECTORY \<equiv> (0x00000001 :: u32)"
abbreviation (input) "SMB2_FILE_WRITE_DATA \<equiv> (0x00000002 :: u32)"
abbreviation (input) "SMB2_FILE_READ_EA \<equiv> (0x00000008 :: u32)"
abbreviation (input) "SMB2_FILE_WRITE_EA \<equiv> (0x00000010 :: u32)"
abbreviation (input) "SMB2_FILE_READ_ATTRIBUTES \<equiv> (0x00000080 :: u32)"
abbreviation (input) "SMB2_FILE_WRITE_ATTRIBUTES \<equiv> (0x00000100 :: u32)"
abbreviation (input) "SMB2_DELETE \<equiv> (0x00010000 :: u32)"
abbreviation (input) "SMB2_READ_CONTROL \<equiv> (0x00020000 :: u32)"
abbreviation (input) "SMB2_WRITE_DACL \<equiv> (0x00040000 :: u32)"
abbreviation (input) "SMB2_WRITE_OWNER \<equiv> (0x00080000 :: u32)"
abbreviation (input) "SMB2_SYNCHRONIZE \<equiv> (0x00100000 :: u32)"
abbreviation (input) "SMB2_GENERIC_WRITE \<equiv> (0x40000000 :: u32)"
abbreviation (input) "SMB2_GENERIC_READ \<equiv> (0x80000000 :: u32)"

abbreviation (input) "SMB2_FILE_ATTRIBUTE_DIRECTORY \<equiv> (0x00000010 :: u32)"
abbreviation (input) "SMB2_FILE_ATTRIBUTE_NORMAL \<equiv> (0x00000080 :: u32)"

abbreviation (input) "SMB2_FILE_SHARE_READ \<equiv> (0x00000001 :: u32)"
abbreviation (input) "SMB2_FILE_SHARE_WRITE \<equiv> (0x00000002 :: u32)"
abbreviation (input) "SMB2_FILE_SHARE_DELETE \<equiv> (0x00000004 :: u32)"

abbreviation (input) "SMB2_FILE_OPEN \<equiv> (0x00000001 :: u32)"
abbreviation (input) "SMB2_FILE_CREATE \<equiv> (0x00000002 :: u32)"
abbreviation (input) "SMB2_FILE_OPEN_IF \<equiv> (0x00000003 :: u32)"
abbreviation (input) "SMB2_FILE_OVERWRITE_IF \<equiv> (0x00000005 :: u32)"

abbreviation (input) "SMB2_FILE_DIRECTORY_FILE \<equiv> (0x00000001 :: u32)"
abbreviation (input) "SMB2_FILE_NO_INTERMEDIATE_BUFFERING \<equiv> (0x00000008 :: u32)"
abbreviation (input) "SMB2_FILE_NON_DIRECTORY_FILE \<equiv> (0x00000040 :: u32)"
abbreviation (input) "SMB2_FILE_DELETE_ON_CLOSE \<equiv> (0x00001000 :: u32)"
abbreviation (input) "SMB2_FILE_OPEN_FOR_BACKUP_INTENT \<equiv> (0x00004000 :: u32)"
abbreviation (input) "SMB2_FILE_OPEN_NO_RECALL \<equiv> (0x00400000 :: u32)"

abbreviation (input) "SMB2_CLOSE_FLAG_POSTQUERY_ATTRIB \<equiv> (0x0001 :: u16)"
abbreviation (input) "SMB2_FILE_ID_FULL_DIRECTORY_INFORMATION \<equiv> (0x26 :: u8)"

abbreviation (input) "SMB2_0_INFO_FILE \<equiv> (0x01 :: u8)"
abbreviation (input) "SMB2_0_INFO_FILESYSTEM \<equiv> (0x02 :: u8)"
abbreviation (input) "SMB2_0_INFO_SECURITY \<equiv> (0x03 :: u8)"
abbreviation (input) "SMB2_FILE_BASIC_INFORMATION \<equiv> (0x04 :: u8)"
abbreviation (input) "SMB2_FILE_STANDARD_INFORMATION \<equiv> (0x05 :: u8)"
abbreviation (input) "SMB2_FILE_RENAME_INFORMATION \<equiv> (0x0a :: u8)"
abbreviation (input) "SMB2_FILE_FULL_EA_INFORMATION \<equiv> (0x0f :: u8)"
abbreviation (input) "SMB2_FILE_ALL_INFORMATION \<equiv> (0x12 :: u8)"
abbreviation (input) "SMB2_FILE_END_OF_FILE_INFORMATION \<equiv> (0x14 :: u8)"
abbreviation (input) "SMB2_FILE_STREAM_INFORMATION \<equiv> (0x16 :: u8)"
abbreviation (input) "SMB2_FILE_FS_FULL_SIZE_INFORMATION \<equiv> (7 :: u8)"
abbreviation (input) "SECURITY_INFORMATION_ALL \<equiv> (0x00000007 :: u32)"
  \<comment> \<open>\<^verbatim>\<open>SMB2_OWNER_SECURITY_INFORMATION | SMB2_GROUP_SECURITY_INFORMATION | SMB2_DACL_SECURITY_INFORMATION\<close>\<close>

definition compound_file_id :: smb2_file_id where
  "compound_file_id = \<lparr>persistent_id = 0xffffffffffffffff, volatile_id = 0xffffffffffffffff\<rparr>"

section \<open>What every builder does at its end\<close>

type_synonym build_result = "(int \<times> smb2_context) option"

definition prefix_error :: "smb2_context \<Rightarrow> string \<Rightarrow> ptr \<Rightarrow> smb2_context option" where
  \<comment> \<open>\<^verbatim>\<open>error = FUNC + data->getErrorMsg(); data->setErrorMsg(error);\<close>\<close>
  "prefix_error smb2 func app = do { a \<leftarrow> app_at smb2 app; setErrorMsg smb2 app (Pre func [] (ad_errMsg a)) }"

definition queue_request :: "crypto \<Rightarrow> bool \<Rightarrow> smb2_context \<Rightarrow> smb2_pdu list \<Rightarrow> ptr \<Rightarrow> build_result" where
  \<comment> \<open>\<^verbatim>\<open>if (!smb2_queue_pdu(pdu, error)) { data->setErrorMsg(error); [delete pdu;] return -1; } return 0;\<close>\<close>
  "queue_request cr del smb2 pdu app =
     do { (ok, e, smb2) \<leftarrow> smb2_queue_pdu cr smb2 pdu;
          if ok then Some (0, smb2)
          else do { smb2 \<leftarrow> setErrorMsg smb2 app (case e of None \<Rightarrow> Msg [] [] | Some e \<Rightarrow> e);
                    smb2 \<leftarrow> (if del then delete_pdu smb2 pdu else Some smb2);
                    Some (-1, smb2) } }"

definition queue_created :: "crypto \<Rightarrow> bool \<Rightarrow> string \<Rightarrow> int \<Rightarrow> create_result \<Rightarrow> ptr \<Rightarrow> build_result" where
  \<comment> \<open>\<open>rc\<close> is what is returned when \<^verbatim>\<open>createPdu\<close> fails\<close>
  "queue_created cr del func rc created app =
     do { (pdu, smb2) \<leftarrow> created;
          case pdu of
            None \<Rightarrow> do { smb2 \<leftarrow> prefix_error smb2 func app; Some (rc, smb2) }
          | Some pdu \<Rightarrow> queue_request cr del smb2 [pdu] app }"

section \<open>Negotiate\<close>

definition zero_negotiate_request :: smb2_negotiate_request where
  "zero_negotiate_request = \<lparr>nr_dialect_count = 0, nr_security_mode = 0, nr_capabilities = 0,
     nr_client_guid = replicate 16 0, nr_client_start_time = 0, nr_dialects = [], nr_max_dialect = 0,
     nr_neg_ctx_flags = 0,
     nr_preauth_ctx = \<lparr>pic_ContextType = 0, pic_DataLength = 0, pic_Reserved = 0, pic_HashAlgorithmCount = 0,
       pic_SaltLength = 0, pic_HashAlgorithms = 0, pic_Salt = replicate 32 0\<rparr>,
     nr_enc_ctx = \<lparr>ecc_ContextType = 0, ecc_DataLength = 0, ecc_Reserved = 0, ecc_CipherCount = 0,
       ecc_Ciphers = (0, 0)\<rparr>\<rparr>"

definition Smb2AddPreAuthIntegContext :: "env \<Rightarrow> smb2_negotiate_request \<Rightarrow> smb2_negotiate_request" where
  "Smb2AddPreAuthIntegContext env req = req\<lparr>nr_neg_ctx_flags := nr_neg_ctx_flags req OR 0x01,
     nr_preauth_ctx := \<lparr>pic_ContextType = 1, pic_DataLength = 46 - 8, pic_Reserved = 0, pic_HashAlgorithmCount = 1,
       pic_SaltLength = 32, pic_HashAlgorithms = 1, pic_Salt = e_salt env\<rparr>\<rparr>"

definition Smb2AddEncryptionContext :: "smb2_negotiate_request \<Rightarrow> smb2_negotiate_request" where
  "Smb2AddEncryptionContext req = req\<lparr>nr_neg_ctx_flags := nr_neg_ctx_flags req OR 0x10,
     nr_enc_ctx := \<lparr>ecc_ContextType = 2, ecc_DataLength = 14 - 8, ecc_Reserved = 0, ecc_CipherCount = 2,
       ecc_Ciphers = (2, 1)\<rparr>\<rparr>"

definition Smb2AddNegotiateContexts :: "env \<Rightarrow> smb2_context \<Rightarrow> smb2_negotiate_request \<Rightarrow> smb2_negotiate_request" where
  "Smb2AddNegotiateContexts env smb2 req =
     (if nr_max_dialect req \<noteq> version_value SMB2_VERSION_0311 then req
      else let req = Smb2AddPreAuthIntegContext env req in
        if c_clientSupportEncryption smb2 then Smb2AddEncryptionContext req else req)"

text \<open>The \<^verbatim>\<open>switch\<close> over the version; the greatest dialect is the last one in every case.\<close>

fun offered_dialects :: "smb2_negotiate_version \<Rightarrow> u16 list" where
  "offered_dialects SMB2_VERSION_ANY = [0x0202, 0x0210, 0x0300, 0x0302, 0x0311]"
| "offered_dialects SMB2_VERSION_MAX_311 = [0x0202, 0x0210, 0x0300, 0x0302, 0x0311]"
| "offered_dialects SMB2_VERSION_ANY2 = [0x0202, 0x0210]"
| "offered_dialects SMB2_VERSION_MAX_210 = [0x0202, 0x0210]"
| "offered_dialects SMB2_VERSION_ANY3 = [0x0300, 0x0302, 0x0311]"
| "offered_dialects SMB2_VERSION_MAX_300 = [0x0202, 0x0210, 0x0300]"
| "offered_dialects SMB2_VERSION_MAX_302 = [0x0202, 0x0210, 0x0300, 0x0302]"
| "offered_dialects v = [version_value v]"

fun decimal :: "nat \<Rightarrow> bytes" where
  \<comment> \<open>\<^verbatim>\<open>%d\<close> of a number that is not negative\<close>
  "decimal n = (if n < 10 then [of_nat (48 + n)] else decimal (n div 10) @ [of_nat (48 + n mod 10)])"

declare decimal.simps [simp del]

definition client_guid :: "env \<Rightarrow> bytes" where
  \<comment> \<open>\<^verbatim>\<open>snprintf(client_guid, 16, "OpenSmbC-%d", getpid())\<close> into an uninitialised array\<close>
  "client_guid env = take 16 (take 15 (ascii ''OpenSmbC-'' @ decimal (e_pid env)) @ [0] @ replicate 16 (e_byte env))"

definition negotiate_request :: "env \<Rightarrow> smb2_context \<Rightarrow> smb2_negotiate_request" where
  "negotiate_request env smb2 =
     (let ds = offered_dialects (c_version smb2);
          req = zero_negotiate_request\<lparr>nr_dialect_count := of_nat (length ds), nr_dialects := ds, nr_max_dialect := last ds,
                  nr_client_guid := client_guid env, nr_security_mode := c_security_mode smb2\<rparr>;
          req = (if nr_max_dialect req \<ge> version_value SMB2_VERSION_0210
                 then req\<lparr>nr_capabilities := nr_capabilities req OR 0x00000004\<rparr> else req);
          req = (if nr_max_dialect req \<ge> version_value SMB2_VERSION_0311
                 then req\<lparr>nr_capabilities := nr_capabilities req OR 0x00000040\<rparr> else req)
      in Smb2AddNegotiateContexts env smb2 req)"

definition Smb2BuildConnectRequest :: "env \<Rightarrow> smb2_context \<Rightarrow> ptr \<Rightarrow> build_result" where
  "Smb2BuildConnectRequest env smb2 connData =
     (let smb2 = (if c_sec smb2 = SMB2_SEC_KRB5 then smb2\<lparr>c_use_cached_creds := True\<rparr> else smb2);
          smb2 = smb2\<lparr>c_version := SMB2_VERSION_ANY\<rparr>
      in queue_created (e_crypto env) False ''Smb2BuildConnectRequest: '' (-1)
           (Smb2Negotiate_createPdu smb2 (negotiate_request env smb2) connData) connData)"

section \<open>Directories\<close>

definition Smb2BuildQueryDirectoryRequest :: "env \<Rightarrow> smb2_context \<Rightarrow> ptr \<Rightarrow> bytes \<Rightarrow> ptr \<Rightarrow> build_result" where
  "Smb2BuildQueryDirectoryRequest env smb2 fh pattern qDirData =
     do { f \<leftarrow> fh_at smb2 fh;
          (dir, smb2) \<leftarrow> new_cell smb2 (CDir \<lparr>dir_file_id = fh_file_id f, dir_entries = []\<rparr>);
          smb2 \<leftarrow> upd_app smb2 qDirData (setSearchPattern pattern \<circ> setDir dir);
          let req = \<lparr>qd_file_information_class = SMB2_FILE_ID_FULL_DIRECTORY_INFORMATION, qd_flags = 0, qd_file_index = 0,
                     qd_file_id = fh_file_id f, qd_name = Some (c_str pattern), qd_output_buffer_length = 0xffff\<rparr>;
          (pdu, smb2) \<leftarrow> Smb2QueryDir_createPdu smb2 req qDirData;
          case pdu of
            None \<Rightarrow>
              do { smb2 \<leftarrow> prefix_error smb2 ''Smb2BuildQueryDirectoryRequest: '' qDirData;
                   smb2 \<leftarrow> delete_cell smb2 dir;
                   smb2 \<leftarrow> delete_cell smb2 qDirData;
                   Some (-1, smb2) }
          | Some pdu \<Rightarrow> queue_request (e_crypto env) False smb2 [pdu] qDirData }"

section \<open>Create, close and flush\<close>

definition create_options_of :: "smb2_context \<Rightarrow> u32 \<Rightarrow> u32" where
  "create_options_of smb2 opts =
     (if c_userInBackUpOperatorsGrp smb2 then opts OR SMB2_FILE_OPEN_FOR_BACKUP_INTENT else opts)"

definition Smb2BuildCreateRequest ::
  "env \<Rightarrow> smb2_context \<Rightarrow> bytes \<Rightarrow> u8 \<Rightarrow> u32 \<Rightarrow> u64 \<Rightarrow> u32 \<Rightarrow> u32 \<Rightarrow> u32 \<Rightarrow> u32 \<Rightarrow> u32 \<Rightarrow> ptr \<Rightarrow> build_result" where
  "Smb2BuildCreateRequest env smb2 path security_flags impersonation_level smb_create_flags desired_access
     file_attributes share_access create_disposition create_options createData =
     do { (fh, smb2) \<leftarrow> new_cell smb2 (CFh (new_smb2fh (e_offset env)));
          smb2 \<leftarrow> upd_app smb2 createData (setFH fh);
          let req = \<lparr>cr_security_flags = security_flags, cr_requested_oplock_level = 0,
                     cr_impersonation_level = impersonation_level, cr_smb_create_flags = smb_create_flags,
                     cr_desired_access = desired_access, cr_file_attributes = file_attributes,
                     cr_share_access = share_access, cr_create_disposition = create_disposition,
                     cr_create_options = create_options_of smb2 create_options, cr_name = Some (c_str path),
                     cr_create_context_length = 0, cr_create_context = None\<rparr>;
          (pdu, smb2) \<leftarrow> Smb2Create_createPdu smb2 req createData;
          case pdu of
            None \<Rightarrow>
              do { smb2 \<leftarrow> prefix_error smb2 ''Smb2BuildCreateRequest: '' createData;
                   smb2 \<leftarrow> delete_cell smb2 createData;
                   Some (MINUS_ENOMEM, smb2) }
          | Some pdu \<Rightarrow> queue_request (e_crypto env) False smb2 [pdu] createData }"

definition close_request :: "smb2_file_id \<Rightarrow> smb2_close_request" where
  "close_request fid = \<lparr>cl_flags = SMB2_CLOSE_FLAG_POSTQUERY_ATTRIB, cl_file_id = fid\<rparr>"

definition Smb2BuildCloseRequest :: "env \<Rightarrow> smb2_context \<Rightarrow> ptr \<Rightarrow> ptr \<Rightarrow> build_result" where
  "Smb2BuildCloseRequest env smb2 fh closeData =
     do { smb2 \<leftarrow> upd_app smb2 closeData (setFH fh);
          f \<leftarrow> fh_at smb2 fh;
          (pdu, smb2) \<leftarrow> Smb2Close_createPdu smb2 (close_request (fh_file_id f)) closeData;
          case pdu of
            None \<Rightarrow>
              do { smb2 \<leftarrow> prefix_error smb2 ''Smb2BuildCloseRequest: '' closeData;
                   smb2 \<leftarrow> delete_cell smb2 closeData;
                   Some (MINUS_ENOMEM, smb2) }
          | Some pdu \<Rightarrow> queue_request (e_crypto env) False smb2 [pdu] closeData }"

definition Smb2BuildFlushRequest :: "env \<Rightarrow> smb2_context \<Rightarrow> ptr \<Rightarrow> ptr \<Rightarrow> build_result" where
  "Smb2BuildFlushRequest env smb2 fh flushData =
     do { f \<leftarrow> fh_at smb2 fh;
          queue_created (e_crypto env) True ''Smb2BuildFlushRequest: '' MINUS_ENOMEM
            (Smb2Flush_createPdu smb2 \<lparr>flr_file_id = fh_file_id f\<rparr> flushData) flushData }"

section \<open>Read and write\<close>

text \<open>The two functions reduce the count by the same statements; \<^verbatim>\<open>count - 1\<close> wraps for 0.\<close>

definition io_count :: "smb2_context \<Rightarrow> u32 \<Rightarrow> u32 \<Rightarrow> u32" where
  "io_count smb2 max_size cnt =
     (let needed_credits = (cnt - 1) div 65536 + 1;
          cnt = (if cnt > max_size then max_size else cnt) in
      if c_dialect smb2 > version_value SMB2_VERSION_0202
      then let cnt = (if needed_credits > MAX_CREDITS - 16 then (MAX_CREDITS - 16) * 65536 else cnt);
               needed_credits = (cnt - 1) div 65536 + 1 in
           if needed_credits > c_credits smb2 then c_credits smb2 * 65536 else cnt
      else if cnt > 65536 then 65536 else cnt)"

definition Smb2BuildReadRequest :: "env \<Rightarrow> smb2_context \<Rightarrow> ptr \<Rightarrow> ptr \<Rightarrow> u32 \<Rightarrow> u64 \<Rightarrow> ptr \<Rightarrow> build_result" where
  "Smb2BuildReadRequest env smb2 fh buf cnt offset readData =
     do { let cnt = io_count smb2 (c_max_read_size smb2) cnt;
          f \<leftarrow> fh_at smb2 fh;
          let smb2 = put_cell smb2 fh (CFh (f\<lparr>fh_offset := sint offset\<rparr>));
          smb2 \<leftarrow> upd_app smb2 readData (setReadBuf buf \<circ> setFH fh);
          let req = \<lparr>rd_flags = 0, rd_length = cnt, rd_offset = offset, rd_file_id = fh_file_id f, rd_minimum_count = 0,
                     rd_channel = 0, rd_remaining_bytes = 0, rd_read_channel_info_length = 0, rd_read_channel_info = None\<rparr>;
          queue_created (e_crypto env) False ''Smb2BuildReadRequest: '' (-1)
            (Smb2Read_createPdu smb2 req readData) readData }"

definition ptr_bytes :: "smb2_context \<Rightarrow> ptr \<Rightarrow> bytes" where
  \<comment> \<open>a pointer that is handed on without being read here\<close>
  "ptr_bytes smb2 p = (case buf_at smb2 p of None \<Rightarrow> [] | Some b \<Rightarrow> b)"

definition Smb2BuildWriteRequest :: "env \<Rightarrow> smb2_context \<Rightarrow> ptr \<Rightarrow> ptr \<Rightarrow> u32 \<Rightarrow> u64 \<Rightarrow> ptr \<Rightarrow> build_result" where
  "Smb2BuildWriteRequest env smb2 fh buf cnt offset writeData =
     do { let cnt = io_count smb2 (c_max_write_size smb2) cnt;
          f \<leftarrow> fh_at smb2 fh;
          let smb2 = put_cell smb2 fh (CFh (f\<lparr>fh_offset := sint offset\<rparr>));
          smb2 \<leftarrow> upd_app smb2 writeData (setFH fh);
          let req = \<lparr>wr_length = cnt, wr_offset = offset, wr_buf = ptr_bytes smb2 buf, wr_file_id = fh_file_id f,
                     wr_channel = 0, wr_remaining_bytes = 0, wr_write_channel_info_length = 0,
                     wr_write_channel_info = None, wr_flags = 0\<rparr>;
          queue_created (e_crypto env) False ''Smb2BuildWriteRequest: '' MINUS_ENOMEM
            (Smb2Write_createPdu smb2 req writeData) writeData }"

section \<open>Tree disconnect, echo and ioctl\<close>

definition Smb2BuildDisConnectRequest :: "env \<Rightarrow> smb2_context \<Rightarrow> ptr \<Rightarrow> build_result" where
  "Smb2BuildDisConnectRequest env smb2 disConData =
     queue_created (e_crypto env) True ''Smb2BuildDisConnectRequest: '' MINUS_ENOMEM
       (Smb2TreeDisconnect_createPdu smb2 () disConData) disConData"

definition Smb2BuildEchoRequest :: "env \<Rightarrow> smb2_context \<Rightarrow> ptr \<Rightarrow> build_result" where
  "Smb2BuildEchoRequest env smb2 echoData =
     queue_created (e_crypto env) True ''Smb2BuildEchoRequest: '' (-1) (Smb2Echo_createPdu smb2 () echoData) echoData"

definition ioctl_payload :: "smb2_context \<Rightarrow> u32 \<Rightarrow> u64" where
  \<comment> \<open>\<^verbatim>\<open>credits * (64 * 1024)\<close> and \<^verbatim>\<open>smb2GetMaxTransactSize() - 1024\<close> are computed in 32 bits\<close>
  "ioctl_payload smb2 output_count =
     (let payload = ucast (c_credits smb2 * 65536) :: u64;
          payload = (if payload > ucast (c_max_transact_size smb2) then ucast (c_max_transact_size smb2 - 1024) else payload)
      in if ucast output_count < payload then ucast output_count else payload)"

definition Smb2BuildIoctlRequest ::
  "env \<Rightarrow> smb2_context \<Rightarrow> ptr \<Rightarrow> u32 \<Rightarrow> u32 \<Rightarrow> ptr \<Rightarrow> u32 \<Rightarrow> ptr \<Rightarrow> ptr \<Rightarrow> ptr \<Rightarrow> build_result" where
  "Smb2BuildIoctlRequest env smb2 fh ioctl_ctl ioctl_flags input_buffer input_count output_buffer output_count ioctlData =
     (if input_count > c_max_transact_size smb2
      then do { smb2 \<leftarrow> setErrorMsg smb2 ioctlData
                  (Pre ''Smb2BuildIoctlRequest: '' [] (Msg ''Ioctl count %d larger than max_transact_size %d''
                     [ucast input_count, ucast (c_max_transact_size smb2)]));
                Some (MINUS_EIO, smb2) }
      else do {
        smb2 \<leftarrow> upd_app smb2 ioctlData (setOutBuf output_buffer output_count);
        f \<leftarrow> fh_at smb2 fh;
        n \<leftarrow> u32_at smb2 output_count;
        let req = \<lparr>io_reserved = 0, io_ctl_code = ioctl_ctl, io_file_id = fh_file_id f, io_input_offset = 0,
                   io_input_count = input_count, io_max_input_response = 0, io_output_offset = 0, io_output_count = 0,
                   io_max_output_response = ucast (ioctl_payload smb2 n), io_flags = ioctl_flags, io_reserved2 = 0,
                   io_input_buffer = ptr_bytes smb2 input_buffer\<rparr>;
        queue_created (e_crypto env) True ''Smb2BuildIoctlRequest: '' (-1)
          (Smb2Ioctl_createPdu smb2 req ioctlData) ioctlData })"

section \<open>Query info and set info\<close>

definition query_info_request :: "smb2_file_info \<Rightarrow> smb2_file_id \<Rightarrow> smb2_query_info_request" where
  "query_info_request info fid =
     (let sec = (fi_info_type info = SMB2_0_INFO_SECURITY) in
      \<lparr>qi_info_type = fi_info_type info, qi_file_info_class = (if sec then 0 else fi_file_info_class info),
       qi_output_buffer_length = 65535, qi_input_buffer_length = 0, qi_input_buffer = None,
       qi_additional_information = (if sec then SECURITY_INFORMATION_ALL else 0), qi_flags = 0, qi_file_id = fid\<rparr>)"

definition Smb2BuildQueryInfoRequest_fh :: "env \<Rightarrow> smb2_context \<Rightarrow> ptr \<Rightarrow> ptr \<Rightarrow> ptr \<Rightarrow> build_result" where
  "Smb2BuildQueryInfoRequest_fh env smb2 fh info qiData =
     (if fh = 0
      then do { smb2 \<leftarrow> setErrorMsg smb2 qiData (Pre ''Smb2BuildQueryInfoRequest: '' [] (Msg ''FileHandle is not provided'' []));
                Some (-1, smb2) }
      else if info = 0
      then do { smb2 \<leftarrow> setErrorMsg smb2 qiData (Pre ''Smb2BuildQueryInfoRequest: '' [] (Msg ''No info type provided for query'' []));
                Some (-1, smb2) }
      else do {
        smb2 \<leftarrow> upd_app smb2 qiData (setQInfo info);
        i \<leftarrow> info_at smb2 info;
        f \<leftarrow> fh_at smb2 fh;
        queue_created (e_crypto env) False ''Smb2BuildQueryInfoRequest: '' (-1)
          (Smb2QueryInfo_createPdu smb2 (query_info_request i (fh_file_id f)) qiData) qiData })"

text \<open>
  The two functions that take a path send create, their own command and close as one compound
  request. The application data of the outer two are made with \<^verbatim>\<open>new\<close> and marked for deletion with
  their PDU.
\<close>

definition build_compound ::
  "env \<Rightarrow> string \<Rightarrow> smb2_context \<Rightarrow> smb2_create_request \<Rightarrow> (smb2_context \<Rightarrow> create_result) \<Rightarrow> ptr \<Rightarrow> build_result" where
  "build_compound env func smb2 cr_req middle app =
     do { (createData, smb2) \<leftarrow> new_cell smb2 (CApp (setDelete True (new_app_data CreateData)));
          (pdu, smb2) \<leftarrow> Smb2Create_createPdu smb2 cr_req createData;
          case pdu of
            None \<Rightarrow>
              do { a \<leftarrow> app_at smb2 createData;
                   smb2 \<leftarrow> setErrorMsg smb2 app (Pre func [] (ad_errMsg a));
                   smb2 \<leftarrow> delete_cell smb2 createData;
                   Some (-1, smb2) }
          | Some pdu \<Rightarrow> do {
              (next_pdu, smb2) \<leftarrow> middle smb2;
              case next_pdu of
                None \<Rightarrow>
                  do { smb2 \<leftarrow> prefix_error smb2 func app;
                       smb2 \<leftarrow> delete_pdu smb2 [pdu];
                       Some (-1, smb2) }
              | Some next_pdu \<Rightarrow> do {
                  chain \<leftarrow> smb2AddCompoundPdu [pdu] [next_pdu];
                  (closeData, smb2) \<leftarrow> new_cell smb2 (CApp (setDelete True (new_app_data CloseData)));
                  (next_pdu, smb2) \<leftarrow> Smb2Close_createPdu smb2 (close_request compound_file_id) closeData;
                  case next_pdu of
                    None \<Rightarrow>
                      do { a \<leftarrow> app_at smb2 closeData;
                           smb2 \<leftarrow> setErrorMsg smb2 app (Pre func [] (ad_errMsg a));
                           smb2 \<leftarrow> delete_cell smb2 closeData;
                           smb2 \<leftarrow> delete_pdu smb2 chain;
                           Some (-1, smb2) }
                  | Some next_pdu \<Rightarrow> do {
                      chain \<leftarrow> smb2AddCompoundPdu chain [next_pdu];
                      queue_request (e_crypto env) True smb2 chain app } } } }"

definition open_request :: "smb2_context \<Rightarrow> bytes \<Rightarrow> u32 \<Rightarrow> u32 \<Rightarrow> smb2_create_request" where
  "open_request smb2 path desired_access share_access =
     \<lparr>cr_security_flags = 0, cr_requested_oplock_level = 0, cr_impersonation_level = SMB2_IMPERSONATION_IMPERSONATION,
      cr_smb_create_flags = 0, cr_desired_access = desired_access, cr_file_attributes = 0, cr_share_access = share_access,
      cr_create_disposition = SMB2_FILE_OPEN, cr_create_options = create_options_of smb2 0, cr_name = Some (c_str path),
      cr_create_context_length = 0, cr_create_context = None\<rparr>"

definition Smb2BuildQueryInfoRequest_path :: "env \<Rightarrow> smb2_context \<Rightarrow> bytes \<Rightarrow> ptr \<Rightarrow> ptr \<Rightarrow> build_result" where
  "Smb2BuildQueryInfoRequest_path env smb2 path info qiData =
     (if info = 0
      then do { smb2 \<leftarrow> setErrorMsg smb2 qiData (Pre ''Smb2BuildQueryInfoRequest: '' [] (Msg ''No info type provided for query'' []));
                Some (-1, smb2) }
      else do {
        i \<leftarrow> info_at smb2 info;
        let desired_access = (if fi_info_type i = SMB2_0_INFO_SECURITY then SMB2_READ_CONTROL
                              else SMB2_FILE_READ_ATTRIBUTES OR SMB2_FILE_READ_EA);
        build_compound env ''Smb2BuildQueryInfoRequest: '' smb2
          (open_request smb2 path desired_access (SMB2_FILE_SHARE_READ OR SMB2_FILE_SHARE_WRITE))
          (\<lambda>smb2. do { smb2 \<leftarrow> upd_app smb2 qiData (setQInfo info);
                      Smb2QueryInfo_createPdu smb2 (query_info_request i compound_file_id) qiData })
          qiData })"

definition set_info_request :: "smb2_file_info \<Rightarrow> smb2_file_id \<Rightarrow> smb2_set_info_request" where
  \<comment> \<open>\<^verbatim>\<open>input_data\<close> is the address of the union, whatever its member; it stays null for other classes\<close>
  "set_info_request info fid =
     (let sec = (fi_info_type info = SMB2_0_INFO_SECURITY) in
      \<lparr>si_info_type = fi_info_type info, si_file_info_class = fi_file_info_class info,
       si_input_data =
         (if fi_file_info_class info \<in> {SMB2_FILE_RENAME_INFORMATION, SMB2_FILE_END_OF_FILE_INFORMATION,
            SMB2_FILE_BASIC_INFORMATION, SMB2_FILE_FULL_EA_INFORMATION} \<or> sec then fi_u_info info else UNone),
       si_additional_information = (if sec then SECURITY_INFORMATION_ALL else 0), si_file_id = fid\<rparr>)"

definition checked_set_info ::
  "smb2_context \<Rightarrow> ptr \<Rightarrow> string \<Rightarrow> ptr \<Rightarrow> (smb2_context \<Rightarrow> smb2_file_info \<Rightarrow> build_result) \<Rightarrow> build_result" where
  \<comment> \<open>the checks on \<open>info\<close> that both functions make, and the class they clear for a security descriptor\<close>
  "checked_set_info smb2 info no_info setinfoData k =
     (if info = 0
      then do { smb2 \<leftarrow> setErrorMsg smb2 setinfoData (Pre ''Smb2BuildSetInforequest: '' [] (Msg no_info [])); Some (-1, smb2) }
      else do {
        i \<leftarrow> info_at smb2 info;
        if fi_info_type i \<noteq> SMB2_0_INFO_FILE \<and> fi_info_type i \<noteq> SMB2_0_INFO_SECURITY
        then do { smb2 \<leftarrow> setErrorMsg smb2 setinfoData (Pre ''Smb2BuildSetInforequest: '' [] (Msg ''Invalid INFOTYPE to set'' []));
                  Some (-1, smb2) }
        else do {
          let i = (if fi_info_type i = SMB2_0_INFO_SECURITY then i\<lparr>fi_file_info_class := 0\<rparr> else i);
          k (put_cell smb2 info (CInfo i)) i } })"

definition Smb2BuildSetInforequest_fh :: "env \<Rightarrow> smb2_context \<Rightarrow> ptr \<Rightarrow> ptr \<Rightarrow> ptr \<Rightarrow> build_result" where
  "Smb2BuildSetInforequest_fh env smb2 fh info setinfoData =
     (if fh = 0
      then do { smb2 \<leftarrow> setErrorMsg smb2 setinfoData (Pre ''Smb2BuildSetInforequest: '' [] (Msg ''no FileHandle provided'' []));
                Some (-1, smb2) }
      else checked_set_info smb2 info ''no info provided'' setinfoData (\<lambda>smb2 i. do {
        f \<leftarrow> fh_at smb2 fh;
        queue_created (e_crypto env) True ''Smb2BuildSetInforequest: '' (-1)
          (Smb2SetInfo_createPdu smb2 (set_info_request i (fh_file_id f)) setinfoData) setinfoData }))"

definition set_info_access :: "smb2_file_info \<Rightarrow> u32" where
  "set_info_access i =
     (if fi_info_type i = SMB2_0_INFO_SECURITY then SMB2_WRITE_DACL OR SMB2_WRITE_OWNER
      else if fi_file_info_class i = SMB2_FILE_END_OF_FILE_INFORMATION then SMB2_GENERIC_WRITE
      else if fi_file_info_class i = SMB2_FILE_BASIC_INFORMATION then SMB2_FILE_WRITE_ATTRIBUTES OR SMB2_FILE_WRITE_EA
      else if fi_file_info_class i = SMB2_FILE_FULL_EA_INFORMATION then SMB2_FILE_WRITE_ATTRIBUTES OR SMB2_FILE_WRITE_EA
      else if fi_file_info_class i = SMB2_FILE_RENAME_INFORMATION
      then SMB2_GENERIC_READ OR SMB2_FILE_READ_ATTRIBUTES OR SMB2_DELETE
      else 0)"

definition set_info_share :: "smb2_file_info \<Rightarrow> u32" where
  "set_info_share i =
     (if fi_file_info_class i = SMB2_FILE_RENAME_INFORMATION
      then SMB2_FILE_SHARE_READ OR SMB2_FILE_SHARE_WRITE OR SMB2_FILE_SHARE_DELETE
      else SMB2_FILE_SHARE_READ OR SMB2_FILE_SHARE_WRITE)"

definition Smb2BuildSetInforequest_path :: "env \<Rightarrow> smb2_context \<Rightarrow> bytes \<Rightarrow> ptr \<Rightarrow> ptr \<Rightarrow> build_result" where
  "Smb2BuildSetInforequest_path env smb2 path info setinfoData =
     checked_set_info smb2 info ''No info provided to set'' setinfoData (\<lambda>smb2 i.
       build_compound env ''Smb2BuildSetInforequest: '' smb2
         (open_request smb2 path (set_info_access i) (set_info_share i))
         (\<lambda>smb2. Smb2SetInfo_createPdu smb2 (set_info_request i compound_file_id) setinfoData) setinfoData)"

section \<open>The vectors and the charge of a request\<close>

definition solid :: "smb2_pdu \<Rightarrow> bool" where
  \<comment> \<open>no vector is empty: an empty one would end the sending\<close>
  "solid p \<longleftrightarrow> (\<forall>v \<in> set (iovs (p_out p)). 0 < iov_len v)"

lemma set_len:
  "set8 v off x = Some w \<Longrightarrow> iov_len w = iov_len v" "set16 v off y = Some w \<Longrightarrow> iov_len w = iov_len v"
  "set32 v off z = Some w \<Longrightarrow> iov_len w = iov_len v" "set64 v off u = Some w \<Longrightarrow> iov_len w = iov_len v"
  by (auto simp: set8_def set16_def set32_def set64_def smb2_set_uint8_def smb2_set_uint16_def smb2_set_uint32_def
      smb2_set_uint64_def iov_store_def split: if_splits bind_splits)

lemma solid_lens: "solid p \<longleftrightarrow> (\<forall>n \<in> set (map iov_len (iovs (p_out p))). 0 < n)"
  by (simp add: solid_def)

lemma solid_ctor [simp]: "solid (Smb2Pdu c cmd app)"
  by (simp add: solid_def Smb2Pdu_def Let_def smb2_add_iovector_buf_def smb2_io_vectors_empty_def)

lemma solid_push [simp]: "solid (push_iov p v) \<longleftrightarrow> solid p \<and> 0 < iov_len v"
  by (auto simp: solid_def push_iov_def smb2_add_iovector_def)

lemma pad_len: "0 < (scast (8 - (n AND 7) :: u32) :: u64)"
proof -
  have "n AND 7 \<le> (7 :: u32)"
    by (rule word_and_le1)
  then have u: "unat (n AND 7) \<le> 7"
    by (simp add: word_le_nat_alt)
  then have "unat (8 - (n AND 7)) = 8 - unat (n AND 7)"
    by (subst unat_sub) (simp_all add: word_le_nat_alt)
  then have "0 < unat (8 - (n AND 7))" "unat (8 - (n AND 7)) < 2 ^ 31"
    using u by simp_all
  then show ?thesis
    by (simp add: scast_small word_gt_0 unat_gt_0 [symmetric])
qed

lemma solid_pad [simp]: "solid (p\<lparr>p_out := smb2_pad_to_64bit vs\<rparr>) \<longleftrightarrow> solid (p\<lparr>p_out := vs\<rparr>)"
  by (auto simp: solid_def smb2_pad_to_64bit_def Let_def smb2_add_iovector_buf_def pad_len)

lemma solid_header [simp]: "solid (p\<lparr>p_header := h\<rparr>) = solid p" "solid (p\<lparr>p_out := p_out p\<rparr>) = solid p"
  "solid (p\<lparr>p_requestedInfoType := i, p_requestedInfoClass := j\<rparr>) = solid p"
  by (simp_all add: solid_def)

lemma push_header [simp]: "p_header (push_iov p v) = p_header p"
  by (simp add: push_iov_def)

lemma finish_pdu_shape:
  assumes "finish_pdu (Some (0, c, q)) = Some (Some p, c')"
  shows "p_header p = p_header q" "solid p = solid q"
  using assms by (auto simp: finish_pdu_def)

abbreviation plain_charge :: "smb2_context \<Rightarrow> u16" where
  "plain_charge c \<equiv> (if c_dialect c = 0x0202 then 0 else 1)"

lemma ctor_charge: "cmd \<noteq> SMB2_NEGOTIATE \<Longrightarrow> hdr_credit_charge (p_header (Smb2Pdu c cmd app)) = plain_charge c"
  by (simp add: Smb2Pdu_def Let_def zero_header_def)

definition shaped :: "create_result \<Rightarrow> u16 \<Rightarrow> bool" where
  "shaped r charge \<longleftrightarrow> (\<forall>p c. r = Some (Some p, c) \<longrightarrow> solid p \<and> hdr_credit_charge (p_header p) = charge)"

lemma shaped_finish:
  assumes "\<And>c' q. enc = Some (0, c', q) \<Longrightarrow> solid q \<and> hdr_credit_charge (p_header q) = n"
  shows "shaped (finish_pdu enc) n"
  using assms by (force simp: shaped_def finish_pdu_def split: bind_splits if_splits)

lemma echo_shaped: "shaped (Smb2Echo_createPdu c u d) (plain_charge c)"
  unfolding Smb2Echo_createPdu_def
  by (rule shaped_finish) (auto simp: Smb2Echo_encodeRequest_def ctor_charge split: bind_splits dest!: set_len)

lemma tree_disconnect_shaped: "shaped (Smb2TreeDisconnect_createPdu c u d) (plain_charge c)"
  unfolding Smb2TreeDisconnect_createPdu_def
  by (rule shaped_finish) (auto simp: Smb2TreeDisconnect_encodeRequest_def ctor_charge split: bind_splits dest!: set_len)

lemma flush_shaped: "shaped (Smb2Flush_createPdu c r d) (plain_charge c)"
  unfolding Smb2Flush_createPdu_def
  by (rule shaped_finish) (auto simp: Smb2Flush_encodeRequest_def ctor_charge split: bind_splits dest!: set_len)

lemma close_shaped: "shaped (Smb2Close_createPdu c r d) (plain_charge c)"
  unfolding Smb2Close_createPdu_def
  by (rule shaped_finish) (auto simp: Smb2Close_encodeRequest_def ctor_charge split: bind_splits dest!: set_len)

lemma query_info_shaped: "shaped (Smb2QueryInfo_createPdu c r d) (plain_charge c)"
  unfolding Smb2QueryInfo_createPdu_def
  by (rule shaped_finish)
     (auto simp: Smb2QueryInfo_encodeRequest_def fail_with_def ctor_charge split: bind_splits if_splits dest!: set_len)

definition io_charge :: "smb2_context \<Rightarrow> u32 \<Rightarrow> u16" where
  "io_charge c len = (if c_supports_multi_credit c then credit_charge_of len else plain_charge c)"

lemma adjust_shape [simp]:
  "solid (adjust_credits c len p) = solid p"
  "hdr_credit_charge (p_header (adjust_credits c len p)) =
     (if c_supports_multi_credit c then credit_charge_of len else hdr_credit_charge (p_header p))"
  by (simp_all add: adjust_credits_def)

lemma read_shaped: "shaped (Smb2Read_createPdu c r d) (io_charge c (rd_length (read_clamp c r)))"
proof -
  have "shaped (finish_pdu (Smb2Read_encodeRequest c r (Smb2Pdu c SMB2_READ d))) (plain_charge c)"
    by (rule shaped_finish)
       (auto simp: Smb2Read_encodeRequest_def fail_with_def smb2_iovec_make_def ctor_charge Let_def
         split: bind_splits if_splits dest!: set_len)
  moreover have "finish_pdu (Smb2Read_encodeRequest c r (Smb2Pdu c SMB2_READ d)) = Some (Some p, c') \<Longrightarrow> c' = c" for p c'
    by (auto simp: finish_pdu_def Smb2Read_encodeRequest_def fail_with_def Let_def split: bind_splits if_splits)
  ultimately show ?thesis
    by (auto simp: Smb2Read_createPdu_def shaped_def io_charge_def split: bind_splits)
qed

lemma write_shaped:
  assumes "0 < wr_length (write_clamp c r)" and "unat (wr_length (write_clamp c r)) < 2 ^ 31"
  shows "shaped (Smb2Write_createPdu c r d) (io_charge c (wr_length (write_clamp c r)))"
proof -
  have l: "0 < (scast (wr_length (write_clamp c r)) :: u64)"
    using assms by (simp add: scast_small word_less_nat_alt)
  have "solid (q\<lparr>p_out := smb2_add_iovector_buf (p_out q) b (wr_length (write_clamp c r)) False\<rparr>) = solid q" for q b
    using l by (auto simp: solid_def smb2_add_iovector_buf_def)
  then show ?thesis
    by (auto simp: shaped_def Smb2Write_createPdu_def Smb2Write_encodeRequest_def fail_with_def Let_def io_charge_def ctor_charge
        split: bind_splits if_splits dest!: set_len)
qed

section \<open>The contract of a builder\<close>

text \<open>
  A client that is connected, owes nothing to the wire and need not sign; its message numbers are
  far from their end.
\<close>

definition idle :: "smb2_context \<Rightarrow> bool" where
  "idle c \<longleftrightarrow> queues_ok c \<and> c_outqueue c = [] \<and> c_signing_required c = 0 \<and> unat (c_message_id c) < 2 ^ 63 \<and>
     0 \<le> c_fd c \<and> c_bConnected c \<and> 0 < c_credits c"

lemma idle_heap [simp]: "idle (c\<lparr>c_heap := h\<rparr>) = idle c" "idle (c\<lparr>c_fresh := m\<rparr>) = idle c" "idle (put_cell c q x) = idle c"
  by (simp_all add: idle_def queues_ok_def queued_ids_def put_cell_def)

definition queued_request :: "smb2_context \<Rightarrow> u16 \<Rightarrow> ptr \<Rightarrow> bytes \<Rightarrow> smb2_pdu \<Rightarrow> smb2_context \<Rightarrow> bool" where
  "queued_request c cmd d body p c' \<longleftrightarrow>
     (\<exists>i. c' = c\<lparr>c_message_id := i, c_outqueue := [(c_message_id c, [p])]\<rparr>) \<and> queues_ok c' \<and>
     pdu_id p = c_message_id c \<and> hdr_command (p_header p) = cmd \<and> p_appData p = d \<and>
     vectors_data (p_out p) = request_wire p body \<and> wf_vectors (p_out p) \<and> wf_header (p_header p) \<and> solid p \<and>
     (c_dialect c \<le> 0x0202 \<or> getReqCreditCharge [p] \<le> c_credits c)"

lemma map_put_Nil [simp]: "map_put k v [] = [(k, v)]"
  by simp

context request_command
begin

lemma queued_after_create:
  assumes "idle c" and "valid c r" and "shaped (create c r d) charge"
    and "c_dialect c \<le> 0x0202 \<or> ucast charge \<le> c_credits c"
  shows "\<exists>p c'. queue_created cr del func rc (create c r d) d = Some (0, c') \<and> queued_request c command d (body c r) p c'"
proof -
  have q: "c_signing_required c = 0" "queues_ok c" "c_outqueue c = []"
    using assms(1) by (simp_all add: idle_def)
  obtain p p' c' i where w: "create c r d = Some (Some p, c)" "smb2_queue_pdu cr c [p] = Some (True, None, c')"
      "p_header p' = (p_header p)\<lparr>hdr_message_id := c_message_id c\<rparr>" "hdr_command (p_header p') = command"
      "vectors_data (p_out p') = request_wire p' (body c r)" "wf_vectors (p_out p')" "p_appData p' = d"
      "map iov_len (iovs (p_out p')) = map iov_len (iovs (p_out p))"
      "c' = c\<lparr>c_message_id := i, c_outqueue := map_put (c_message_id c) [p'] (c_outqueue c)\<rparr>"
    using queued_unsigned [OF assms(2) disjI1 [OF q(1)] q(2), of d cr] by (elim exE conjE) (rule that)
  have sh: "solid p" "hdr_credit_charge (p_header p) = charge"
    using assms(3) w(1) by (auto simp: shaped_def)
  have "solid p'"
    using sh(1) unfolding solid_lens w(8) .
  moreover have "queues_ok c'"
  proof (rule queue_pdu_ok [OF _ w(2)])
    have "charge_of p < 2 ^ 16"
      using unat_u16_less [of "hdr_credit_charge (p_header p)"] by (simp add: charge_of_def)
    then show "unat (c_message_id c) + sum_list (map charge_of [p]) < 2 ^ 64"
      using assms(1) by (simp add: idle_def)
  qed (use assms(1) in \<open>simp add: idle_def\<close>)
  moreover have "wf_header (p_header p')"
    using create_ok [OF assms(2), of d] w(1,3) by (auto simp: request_pdu_def wf_header_def Smb2Pdu_def Let_def zero_header_def)
  moreover have "getReqCreditCharge [p'] = ucast charge"
    using w(3) sh(2) by (simp add: getReqCreditCharge_def)
  moreover have "pdu_id p' = c_message_id c"
    by (simp add: w(3))
  moreover have "\<exists>i. c' = c\<lparr>c_message_id := i, c_outqueue := [(c_message_id c, [p'])]\<rparr>"
    using w(9) q(3) by auto
  ultimately have "queued_request c command d (body c r) p' c'"
    using w(4-7) assms(4) by (simp add: queued_request_def)
  then show ?thesis
    using w(1,2) by (auto simp: queue_created_def queue_request_def)
qed

end


section \<open>One call, one exchange\<close>

definition wire_size :: "bytes \<Rightarrow> nat" where
  "wire_size body = 68 + length body + pad8 (length body)"

definition message_of :: "smb2_pdu \<Rightarrow> bytes \<Rightarrow> bytes" where
  "message_of p body = htobe32 (of_nat (length (request_wire p body))) @ request_wire p body"

text \<open>The socket takes the whole request, then has something to read.\<close>

definition online :: "net \<Rightarrow> nat \<Rightarrow> bool" where
  "online net n \<longleftrightarrow> no_write_error (n_writes net) \<and> n \<le> write_turns (n_writes net) \<and> n < 2 ^ 31 \<and> clean (n_reads net) \<and>
     (\<exists>evs. n_polls net = Polled POLLOUT None # Polled POLLIN None # evs)"

lemma queued_ready:
  assumes "queued_request c cmd d body p c'" and "idle c" and "online net (wire_size body)"
  shows "exchange_ready c' net p" and "chain_wire [p] = message_of p body"
proof -
  have w: "chain_wire [p] = message_of p body" "length (message_of p body) = wire_size body"
    using assms(1) by (simp_all add: queued_request_def chain_wire_def chain_data_def message_of_def wire_size_def request_wire_def)
  moreover have "length (chain_wire [p]) = 4 + length (chain_data [p])"
    by (simp add: chain_wire_def)
  ultimately have "length (chain_data [p]) < 2 ^ 31 - 4"
    using assms(3) by (simp add: online_def)
  then have "sendable [p]"
    using assms(1) by (simp add: sendable_def queued_request_def solid_def)
  with assms w show "exchange_ready c' net p"
    by (auto simp: exchange_ready_def queued_request_def online_def idle_def)
  show "chain_wire [p] = message_of p body" by (rule w)
qed

definition error_answer :: "smb2_context \<Rightarrow> smb2_header \<Rightarrow> bool" where
  "error_answer c h \<longleftrightarrow> reply_header h \<and> hdr_next_command h = 0 \<and> hdr_message_id h = c_message_id c \<and>
     hdr_status h AND SMB2_STATUS_SEVERITY_MASK = SMB2_STATUS_SEVERITY_ERROR \<and> hdr_status h \<noteq> SMB2_STATUS_MORE_PROCESSING_REQUIRED"

lemma setResponse_simps [simp]:
  "p_header (setResponseHeader p h) = p_header p" "p_appData (setResponseHeader p h) = p_appData p"
  "hdr_status (p_header_resp (setResponseHeader p h)) = hdr_status h"
  by (simp_all add: setResponseHeader_def Let_def)

lemma new_cell_some:
  "c_fresh c = d # m \<Longrightarrow> d \<noteq> 0 \<Longrightarrow> c_heap c d = None \<Longrightarrow> new_cell c x = Some (d, put_cell (c\<lparr>c_fresh := m\<rparr>) d x)"
  by (simp add: new_cell_def)

lemma delete_some: "q \<noteq> 0 \<Longrightarrow> app_at c q = Some a \<Longrightarrow> delete_cell c q = Some (c\<lparr>c_heap := (c_heap c)(q := None)\<rparr>)"
  by (auto simp: delete_cell_def app_at_def split: option.splits)

lemma objects_cong:
  assumes "c_heap c = c_heap c'" and "c_authenticator c = c_authenticator c'"
  shows "app_at c q = app_at c' q" "fh_at c q = fh_at c' q" "buf_at c q = buf_at c' q" "reportable c p = reportable c' p"
  using assms by (simp_all add: reportable_def Let_def can_close_def create_reportable_def close_reportable_def rw_reportable_def
      query_dir_reportable_def has_app_def auth_ok_def app_at_def fh_at_def dir_at_def buf_at_def)

locale request_builder =
  fixes build :: "env \<Rightarrow> smb2_context \<Rightarrow> ptr \<Rightarrow> build_result"
    and kind :: app_kind
    and command :: u16
    and pre :: "smb2_context \<Rightarrow> bool"
    and fill :: "smb2_context \<Rightarrow> ptr \<Rightarrow> smb2_context"
    and body :: "smb2_context \<Rightarrow> bytes"
    and quiet :: "u32 set"
  assumes builds: "idle c \<Longrightarrow> pre c \<Longrightarrow> app_at c d = Some (new_app_data kind) \<Longrightarrow>
      \<exists>p c'. build env c d = Some (0, c') \<and> queued_request (fill c d) command d (body c) p c'"
    and fill_heap: "\<exists>h. fill c d = c\<lparr>c_heap := h\<rparr>"
    and fill_app: "pre c \<Longrightarrow> app_at c d = Some (new_app_data kind) \<Longrightarrow> \<exists>a. app_at (fill c d) d = Some a \<and> \<not> ad_bDelete a"
    and new_frame: "pre c \<Longrightarrow> c_heap c d = None \<Longrightarrow>
      pre (put_cell (c\<lparr>c_fresh := m\<rparr>) d x) \<and> body (put_cell (c\<lparr>c_fresh := m\<rparr>) d x) = body c"
    and reports: "pre c \<Longrightarrow> app_at c d = Some (new_app_data kind) \<Longrightarrow> hdr_command (p_header p) = command \<Longrightarrow> p_appData p = d \<Longrightarrow>
      hdr_status (p_header_resp p) \<notin> quiet \<Longrightarrow> reportable (fill c d) p"
begin

lemma built:
  assumes "idle c" and "pre c" and "c_fresh c = d # m" and "d \<noteq> 0" and "c_heap c d = None" and "online net (wire_size (body c))"
  obtains c0 p c1 where "new_cell c (CApp (new_app_data kind)) = Some (d, c0)" "c0 = put_cell (c\<lparr>c_fresh := m\<rparr>) d (CApp (new_app_data kind))"
    "build env c0 d = Some (0, c1)" "exchange_ready c1 net p" "chain_wire [p] = message_of p (body c)" "c_heap c1 = c_heap (fill c0 d)"
    "c_authenticator c1 = c_authenticator (fill c0 d)"
    "hdr_command (p_header p) = command" "pdu_id p = c_message_id c" "p_appData p = d" "pre c0" "app_at c0 d = Some (new_app_data kind)"
proof -
  let ?c = "put_cell (c\<lparr>c_fresh := m\<rparr>) d (CApp (new_app_data kind))"
  have c: "idle ?c" "pre ?c" "body ?c = body c" "app_at ?c d = Some (new_app_data kind)"
    using assms(1) new_frame [OF assms(2,5)] by simp_all
  obtain p c1 where b: "build env ?c d = Some (0, c1)" "queued_request (fill ?c d) command d (body c) p c1"
    using builds [OF c(1,2,4), of env] c(3) by auto
  obtain h where h: "fill ?c d = ?c\<lparr>c_heap := h\<rparr>"
    using fill_heap by blast
  then have "idle (fill ?c d)" "c_message_id (fill ?c d) = c_message_id c"
    using c(1) by (simp_all add: put_cell_def)
  with queued_ready [OF b(2) _ assms(6)] b(2) show thesis
    by (intro that [OF new_cell_some [OF assms(3-5)] refl b(1) _ _ _ _ _ _ _ c(2,4)]) (auto simp: queued_request_def)
qed

end


section \<open>How much is asked for\<close>

lemma unat_shift16: "unat (w :: u32) < 2 ^ 16 \<Longrightarrow> unat (w * 65536) = unat w * 65536"
  by (simp add: unat_word_ariths)

lemma needed_credits:
  assumes "0 < (n :: u32)"
  shows "(n - 1) div 65536 + 1 > c \<longleftrightarrow> unat n > unat c * 65536"
proof -
  have n: "unat (n - 1) = unat n - 1" and pos: "0 < unat n"
    using assms by (simp_all add: unat_minus_one word_gt_0 unat_gt_0)
  have "(unat n - 1) div 65536 + 1 < 2 ^ 32"
    using unat_u32_less [of n] by (simp add: less_mult_imp_div_less)
  then have "unat ((n - 1) div 65536 + 1) = (unat n - 1) div 65536 + 1"
    by (simp add: unat_word_ariths unat_div n)
  moreover have "unat c < (unat n - 1) div 65536 + 1 \<longleftrightarrow> unat c * 65536 \<le> unat n - 1"
    by (simp add: less_Suc_eq_le less_eq_div_iff_mult_less_eq)
  ultimately show ?thesis
    using pos by (auto simp: word_less_nat_alt)
qed

lemma io_count_nat:
  assumes "0 < cnt" and "0 < max_size" and "0x0202 < c_dialect c"
  shows "unat (io_count c max_size cnt) =
    min (if 1008 * 65536 < unat cnt then 1008 * 65536 else min (unat cnt) (unat max_size)) (unat (c_credits c) * 65536)"
proof -
  let ?n = "if 1008 < (cnt - 1) div 65536 + 1 then 1008 * 65536 else if max_size < cnt then max_size else cnt"
  have n: "0 < ?n" "unat ?n = (if 1008 * 65536 < unat cnt then 1008 * 65536 else min (unat cnt) (unat max_size))"
    using needed_credits [OF assms(1), of 1008] assms(1,2) by (auto simp: word_less_nat_alt)
  have "unat (c_credits c * 65536) = unat (c_credits c) * 65536" if "unat (c_credits c) * 65536 < unat ?n"
  proof -
    have "unat (c_credits c) * 65536 < 2 ^ 32"
      using that unat_u32_less [of ?n] by simp
    then show ?thesis
      by (simp add: unat_word_ariths)
  qed
  moreover have "io_count c max_size cnt = (if c_credits c < (?n - 1) div 65536 + 1 then c_credits c * 65536 else ?n)"
    using assms(3) by (simp add: io_count_def Let_def)
  ultimately show ?thesis
    unfolding n(2) [symmetric] needed_credits [OF n(1)] by (simp add: min_def)
qed


lemma io_charge_le:
  assumes "0 < cnt" and "0 < max_size" and "0 < c_credits c" and "0x0202 < c_dialect c"
  shows "ucast (io_charge c (io_count c max_size cnt)) \<le> c_credits c"
proof (cases "c_supports_multi_credit c")
  case True
  let ?n = "io_count c max_size cnt" and ?k = "(io_count c max_size cnt - 1) div 65536 + 1"
  have "0 < unat ?n" "unat ?n \<le> unat (c_credits c) * 65536"
    using assms by (auto simp: io_count_nat word_less_nat_alt)
  then have "?k \<le> c_credits c"
    using needed_credits [of ?n "c_credits c"] by (simp add: word_less_nat_alt word_le_nat_alt not_less)
  moreover have "(ucast (ucast ?k :: u16) :: u32) \<le> ?k"
    by (simp add: word_le_nat_alt unsigned_ucast_eq unsigned_take_bit_eq take_bit_nat_less_eq_self)
  ultimately show ?thesis
    using True by (simp add: io_charge_def credit_charge_of_def)
next
  case False
  then show ?thesis
    using assms(3) by (simp add: io_charge_def word_le_nat_alt word_less_nat_alt)
qed

section \<open>The builders of one request\<close>

lemma fh_at_put [simp]: "fh_at (put_cell c p x) q = (if q = p then (case x of CFh f \<Rightarrow> Some f | _ \<Rightarrow> None) else fh_at c q)"
  by (simp add: fh_at_def put_cell_def split: cell.split)

lemma buf_at_put [simp]: "buf_at (put_cell c p x) q = (if q = p then (case x of CBuf f \<Rightarrow> Some f | _ \<Rightarrow> None) else buf_at c q)"
  by (simp add: buf_at_def put_cell_def split: cell.split)

lemma app_at_put_other [simp]: "app_at (put_cell c p (CFh x)) q = (if q = p then None else app_at c q)"
  by (simp add: app_at_def put_cell_def)

lemma at_fresh [simp]: "fh_at (c\<lparr>c_fresh := m\<rparr>) q = fh_at c q" "buf_at (c\<lparr>c_fresh := m\<rparr>) q = buf_at c q" "app_at (c\<lparr>c_fresh := m\<rparr>) q = app_at c q"
  by (simp_all add: fh_at_def buf_at_def app_at_def)

lemma fh_alive: "fh_at c q = Some f \<Longrightarrow> c_heap c d = None \<Longrightarrow> q \<noteq> d"
  by (auto simp: fh_at_def)

lemma put_cell_limits [simp]:
  "c_dialect (put_cell c q x) = c_dialect c" "c_credits (put_cell c q x) = c_credits c"
  "c_supports_multi_credit (put_cell c q x) = c_supports_multi_credit c" "c_max_read_size (put_cell c q x) = c_max_read_size c"
  "c_max_write_size (put_cell c q x) = c_max_write_size c"
  by (simp_all add: put_cell_def)

lemma plain_charge_le: "idle c \<Longrightarrow> c_dialect c \<le> 0x0202 \<or> ucast (plain_charge c) \<le> c_credits c"
  by (auto simp: idle_def word_le_nat_alt word_less_nat_alt)

lemma put_is_heap: "\<exists>h. put_cell c q x = c\<lparr>c_heap := h\<rparr>"
  by (auto simp: put_cell_def)

interpretation echo_builder: request_builder Smb2BuildEchoRequest AppPlain SMB2_ECHO "\<lambda>_. True" "\<lambda>c _. c" "\<lambda>c. plain_body c ()" "{}"
proof
  fix c d and env :: env assume "idle c"
  then show "\<exists>p c'. Smb2BuildEchoRequest env c d = Some (0, c') \<and> queued_request c SMB2_ECHO d (plain_body c ()) p c'"
    unfolding Smb2BuildEchoRequest_def by (intro echo.queued_after_create [OF _ _ echo_shaped] plain_charge_le) simp_all
next
  show "\<exists>h. c = c\<lparr>c_heap := h\<rparr>" for c :: smb2_context
    by (rule exI [of _ "c_heap c"]) simp
qed (simp_all add: new_app_data_def plain_body_def reportable_def has_app_def)

definition handle_of :: "smb2_context \<Rightarrow> ptr \<Rightarrow> smb2_file_id" where
  "handle_of c fh = (case fh_at c fh of Some f \<Rightarrow> fh_file_id f | None \<Rightarrow> compound_file_id)"

lemma handle_of_new [simp]: "fh_at c fh \<noteq> None \<Longrightarrow> c_heap c d = None \<Longrightarrow> handle_of (put_cell (c\<lparr>c_fresh := m\<rparr>) d x) fh = handle_of c fh"
  by (auto simp: handle_of_def dest: fh_alive)

interpretation flush_builder: request_builder "\<lambda>env c. Smb2BuildFlushRequest env c fh" AppPlain SMB2_FLUSH "\<lambda>c. fh_at c fh \<noteq> None"
  "\<lambda>c _. c" "\<lambda>c. flush_body c \<lparr>flr_file_id = handle_of c fh\<rparr>" "{}" for fh
proof
  fix c d and env :: env assume "idle c" and "fh_at c fh \<noteq> None"
  then show "\<exists>p c'. Smb2BuildFlushRequest env c fh d = Some (0, c') \<and>
      queued_request c SMB2_FLUSH d (flush_body c \<lparr>flr_file_id = handle_of c fh\<rparr>) p c'"
    using flush.queued_after_create [OF _ _ flush_shaped plain_charge_le]
    by (auto simp: Smb2BuildFlushRequest_def handle_of_def)
next
  show "\<exists>h. c = c\<lparr>c_heap := h\<rparr>" for c :: smb2_context
    by (rule exI [of _ "c_heap c"]) simp
next
  fix c d m x assume "fh_at c fh \<noteq> None" and "c_heap c d = None"
  then show "fh_at (put_cell (c\<lparr>c_fresh := m\<rparr>) d x) fh \<noteq> None \<and>
      flush_body (put_cell (c\<lparr>c_fresh := m\<rparr>) d x) \<lparr>flr_file_id = handle_of (put_cell (c\<lparr>c_fresh := m\<rparr>) d x) fh\<rparr> =
      flush_body c \<lparr>flr_file_id = handle_of c fh\<rparr>"
    by (auto simp: flush_body_def dest: fh_alive)
qed (simp_all add: new_app_data_def reportable_def has_app_def)


definition close_fill :: "ptr \<Rightarrow> smb2_context \<Rightarrow> ptr \<Rightarrow> smb2_context" where
  "close_fill fh c d = put_cell c d (CApp ((new_app_data CloseData)\<lparr>ad_fh := fh\<rparr>))"

interpretation close_builder: request_builder "\<lambda>env c. Smb2BuildCloseRequest env c fh" CloseData SMB2_CLOSE "\<lambda>c. fh_at c fh \<noteq> None"
  "close_fill fh" "\<lambda>c. close_body c (close_request (handle_of c fh))" "{SMB2_STATUS_FILE_CLOSED}" for fh
proof
  fix c d and env :: env assume c: "idle c" "fh_at c fh \<noteq> None" "app_at c d = Some (new_app_data CloseData)"
  let ?c = "close_fill fh c d"
  have u: "upd_app c d (setFH fh) = Some ?c"
    using c(3) by (simp add: upd_app_def setFH_def new_app_data_def close_fill_def)
  have f: "fh_at ?c fh = fh_at c fh"
    using fh_not_app [OF c(2), of d] c(3) by (simp add: close_fill_def)
  then obtain g where g: "fh_at ?c fh = Some g"
    using c(2) by auto
  have "idle ?c"
    using c(1) by (simp add: close_fill_def)
  then obtain p c' where q: "queue_created (e_crypto env) False [] 0 (Smb2Close_createPdu ?c (close_request (fh_file_id g)) d) d = Some (0, c')"
      "queued_request ?c SMB2_CLOSE d (close_body ?c (close_request (fh_file_id g))) p c'"
    using close.queued_after_create [OF _ _ close_shaped plain_charge_le] by blast
  obtain pdu where "Smb2Close_createPdu ?c (close_request (fh_file_id g)) d = Some (Some pdu, ?c)"
    using close.create_ok by blast
  with u g q f show "\<exists>p c'. Smb2BuildCloseRequest env c fh d = Some (0, c') \<and>
      queued_request ?c SMB2_CLOSE d (close_body c (close_request (handle_of c fh))) p c'"
    by (auto simp: Smb2BuildCloseRequest_def queue_created_def handle_of_def close_body_def)
next
  show "\<exists>h. close_fill fh c d = c\<lparr>c_heap := h\<rparr>" for c d
    unfolding close_fill_def by (rule put_is_heap)
next
  fix c d m x assume "fh_at c fh \<noteq> None" and "c_heap c d = None"
  then show "fh_at (put_cell (c\<lparr>c_fresh := m\<rparr>) d x) fh \<noteq> None \<and>
      close_body (put_cell (c\<lparr>c_fresh := m\<rparr>) d x) (close_request (handle_of (put_cell (c\<lparr>c_fresh := m\<rparr>) d x) fh)) =
      close_body c (close_request (handle_of c fh))"
    by (auto simp: close_body_def dest: fh_alive)
next
  fix c d and p :: smb2_pdu assume "fh_at c fh \<noteq> None" "app_at c d = Some (new_app_data CloseData)"
    "hdr_command (p_header p) = SMB2_CLOSE" "p_appData p = d" "hdr_status (p_header_resp p) \<notin> {SMB2_STATUS_FILE_CLOSED}"
  then show "reportable (close_fill fh c d) p"
    using fh_not_app [of c fh d] by (auto simp: reportable_def close_reportable_def close_fill_def getFH_def new_app_data_def)
qed (simp add: close_fill_def new_app_data_def)

abbreviation read_request :: "smb2_context \<Rightarrow> ptr \<Rightarrow> u32 \<Rightarrow> u64 \<Rightarrow> smb2_read_request" where
  "read_request c fh cnt offset \<equiv>
     \<lparr>rd_flags = 0, rd_length = io_count c (c_max_read_size c) cnt, rd_offset = offset, rd_file_id = handle_of c fh,
      rd_minimum_count = 0, rd_channel = 0, rd_remaining_bytes = 0, rd_read_channel_info_length = 0, rd_read_channel_info = None\<rparr>"

definition at_offset :: "smb2_context \<Rightarrow> ptr \<Rightarrow> u64 \<Rightarrow> smb2_context" where
  "at_offset c fh offset = (case fh_at c fh of Some f \<Rightarrow> put_cell c fh (CFh (f\<lparr>fh_offset := sint offset\<rparr>)) | None \<Rightarrow> c)"

definition read_fill :: "ptr \<Rightarrow> ptr \<Rightarrow> u64 \<Rightarrow> smb2_context \<Rightarrow> ptr \<Rightarrow> smb2_context" where
  "read_fill fh buf offset c d = put_cell (at_offset c fh offset) d (CApp ((new_app_data ReadData)\<lparr>ad_fh := fh, ad_readBuf := buf\<rparr>))"

lemma at_offset_some: "fh_at c fh = Some f \<Longrightarrow> at_offset c fh offset = put_cell c fh (CFh (f\<lparr>fh_offset := sint offset\<rparr>))"
  by (simp add: at_offset_def)

lemma at_offset_is_heap: "\<exists>h. put_cell (at_offset c fh offset) d x = c\<lparr>c_heap := h\<rparr>"
proof -
  have "\<exists>h. at_offset c fh offset = c\<lparr>c_heap := h\<rparr>"
    by (cases "fh_at c fh") (auto simp: at_offset_def put_cell_def intro: exI [of _ "c_heap c"])
  then show ?thesis
    by (auto simp: put_cell_def)
qed

lemma read_body_cong: "c_supports_multi_credit c' = c_supports_multi_credit c \<Longrightarrow> read_body c' r = read_body c r"
  by (simp add: read_body_def read_clamp_def)

lemma io_count_cong: "c_dialect c' = c_dialect c \<Longrightarrow> c_credits c' = c_credits c \<Longrightarrow> io_count c' n cnt = io_count c n cnt"
  by (simp add: io_count_def)

lemma count_frame [simp]:
  "read_body (put_cell c q x) r = read_body c r" "read_body (c\<lparr>c_fresh := m\<rparr>) r = read_body c r"
  "io_count (put_cell c q x) n cnt = io_count c n cnt" "io_count (c\<lparr>c_fresh := m\<rparr>) n cnt = io_count c n cnt"
  by (simp_all add: read_body_def read_clamp_def io_count_def)

lemma read_charge_le:
  assumes "idle c" and "0 < cnt" and "0 < max_size" and "rd_length r = io_count c max_size cnt"
  shows "c_dialect c \<le> 0x0202 \<or> ucast (io_charge c (rd_length (read_clamp c r))) \<le> c_credits c"
proof (cases "c_supports_multi_credit c \<and> 0x0202 < c_dialect c")
  case True
  then show ?thesis
    using io_charge_le [OF assms(2,3), of c] assms(1,4) by (simp add: idle_def read_clamp_def)
next
  case False
  then show ?thesis
    using plain_charge_le [OF assms(1)] by (auto simp: io_charge_def not_less)
qed

interpretation read_builder: request_builder "\<lambda>env c. Smb2BuildReadRequest env c fh buf cnt offset" ReadData SMB2_READ
  "\<lambda>c. fh_at c fh \<noteq> None \<and> 0 < cnt \<and> 0 < c_max_read_size c" "read_fill fh buf offset"
  "\<lambda>c. read_body c (read_request c fh cnt offset)" "{SMB2_STATUS_END_OF_FILE}" for fh buf cnt offset
proof
  fix c d and env :: env assume c: "idle c" "fh_at c fh \<noteq> None \<and> 0 < cnt \<and> 0 < c_max_read_size c" "app_at c d = Some (new_app_data ReadData)"
  let ?c = "read_fill fh buf offset c d" and ?r = "read_request c fh cnt offset"
  obtain f where f: "fh_at c fh = Some f" "fh \<noteq> d"
    using c(2,3) fh_not_app [of c fh d] by auto
  have fr: "idle ?c" "c_dialect ?c = c_dialect c" "c_credits ?c = c_credits c" "c_supports_multi_credit ?c = c_supports_multi_credit c"
    using c(1) by (simp_all add: read_fill_def at_offset_some [OF f(1)])
  have "Smb2BuildReadRequest env c fh buf cnt offset d =
      queue_created (e_crypto env) False ''Smb2BuildReadRequest: '' (-1) (Smb2Read_createPdu ?c ?r d) d"
    using c(3) f by (simp add: Smb2BuildReadRequest_def Let_def upd_app_def read_fill_def at_offset_some setFH_def setReadBuf_def
        new_app_data_def handle_of_def)
  moreover have "c_dialect ?c \<le> 0x0202 \<or> ucast (io_charge ?c (rd_length (read_clamp ?c ?r))) \<le> c_credits ?c"
    using c(2) by (intro read_charge_le [OF fr(1)]) (simp_all add: io_count_cong [OF fr(2,3)])
  ultimately show "\<exists>p c'. Smb2BuildReadRequest env c fh buf cnt offset d = Some (0, c') \<and>
      queued_request ?c SMB2_READ d (read_body c ?r) p c'"
    using read.queued_after_create [OF fr(1) _ read_shaped, where r = ?r and d = d] by (simp add: read_valid_def read_body_cong [OF fr(4)])
next
  show "\<exists>h. read_fill fh buf offset c d = c\<lparr>c_heap := h\<rparr>" for c d
    unfolding read_fill_def by (rule at_offset_is_heap)
next
  fix c d m x assume "fh_at c fh \<noteq> None \<and> 0 < cnt \<and> 0 < c_max_read_size c" and "c_heap c d = None"
  then show "(fh_at (put_cell (c\<lparr>c_fresh := m\<rparr>) d x) fh \<noteq> None \<and> 0 < cnt \<and> 0 < c_max_read_size (put_cell (c\<lparr>c_fresh := m\<rparr>) d x)) \<and>
      read_body (put_cell (c\<lparr>c_fresh := m\<rparr>) d x) (read_request (put_cell (c\<lparr>c_fresh := m\<rparr>) d x) fh cnt offset) =
      read_body c (read_request c fh cnt offset)"
    by (auto dest: fh_alive)
qed (simp_all add: read_fill_def new_app_data_def reportable_def rw_reportable_def has_app_def)

end
