(* ===== verification/Smb2_Api.thy ===== *)
theory Smb2_Api
  imports Smb2_Request
begin

text \<open>
  \<^verbatim>\<open>Smb2Api.cpp\<close>: the synchronous calls of the client. Each takes the context, its arguments, the
  caller's error string and the scripts of the environment, and yields its result with the new
  context, error string and scripts. An output parameter is passed in with its old value and
  returned with the new one. A local object lives in a cell of the heap from its declaration to the
  return; the PDUs that refer to it may outlive it.

  Every builder returns 0 or a negative number, so that the tests \<^verbatim>\<open>!= 0\<close> and \<^verbatim>\<open>< 0\<close> of the
  source agree.
\<close>

type_synonym 'r api = "('r \<times> smb2_context \<times> err_msg \<times> net) option"

section \<open>The common course of a call\<close>

definition not_connected :: "string \<Rightarrow> err_msg" where
  "not_connected func = Pre func [] (Msg ''Not Connected to Server'' [])"

definition if_connected :: "string \<Rightarrow> 'r \<Rightarrow> smb2_context \<Rightarrow> net \<Rightarrow> 'r api \<Rightarrow> 'r api" where
  "if_connected func r smb2 net k = (if isConnected smb2 then k else Some (r, smb2, not_connected func, net))"

text \<open>
  Declare the application data, build the request, send it and wait, go on with \<open>k\<close>. The data are
  destroyed on each way out.
\<close>

definition run_request ::
  "env \<Rightarrow> string \<Rightarrow> (u32 \<Rightarrow> 'r) \<Rightarrow> app_kind \<Rightarrow> (smb2_context \<Rightarrow> ptr \<Rightarrow> build_result) \<Rightarrow>
   (smb2_context \<Rightarrow> ptr \<Rightarrow> err_msg \<Rightarrow> net \<Rightarrow> 'r api) \<Rightarrow> smb2_context \<Rightarrow> err_msg \<Rightarrow> net \<Rightarrow> 'r api" where
  "run_request env func failed kind build k smb2 err net =
     do { (d, smb2) \<leftarrow> new_cell smb2 (CApp (new_app_data kind));
          (rc, smb2) \<leftarrow> build smb2 d;
          if rc \<noteq> 0
          then do { a \<leftarrow> app_at smb2 d; smb2 \<leftarrow> delete_cell smb2 d;
                    Some (failed SMB2_STATUS_PAYLOAD_FAILED, smb2, Pre func [] (ad_errMsg a), net) }
          else do {
            (rc, smb2, err, net) \<leftarrow> sendAndReceive env smb2 err net;
            if rc < 0
            then do { smb2 \<leftarrow> delete_cell smb2 d; Some (failed SMB2_STATUS_SOCKET_ERROR, smb2, Pre func [] err, net) }
            else do {
              (r, smb2, err, net) \<leftarrow> k smb2 d err net;
              smb2 \<leftarrow> delete_cell smb2 d;
              Some (r, smb2, err, net) } } }"

text \<open>The ways a call ends: with the status alone, with the message of the application data, or with it if the status is not success.\<close>

definition status_only :: "smb2_context \<Rightarrow> ptr \<Rightarrow> err_msg \<Rightarrow> net \<Rightarrow> u32 api" where
  "status_only smb2 d err net = do { a \<leftarrow> app_at smb2 d; Some (ad_ntStatus a, smb2, err, net) }"

definition status_with_error :: "string \<Rightarrow> smb2_context \<Rightarrow> ptr \<Rightarrow> err_msg \<Rightarrow> net \<Rightarrow> u32 api" where
  "status_with_error func smb2 d err net =
     do { a \<leftarrow> app_at smb2 d; Some (ad_ntStatus a, smb2, Pre func [] (ad_errMsg a), net) }"

definition error_if_failed :: "string \<Rightarrow> app_data \<Rightarrow> err_msg \<Rightarrow> err_msg" where
  "error_if_failed func a err = (if ad_ntStatus a \<noteq> SMB2_STATUS_SUCCESS then Pre func [] (ad_errMsg a) else err)"

definition status_if_failed :: "string \<Rightarrow> smb2_context \<Rightarrow> ptr \<Rightarrow> err_msg \<Rightarrow> net \<Rightarrow> u32 api" where
  "status_if_failed func smb2 d err net =
     do { a \<leftarrow> app_at smb2 d; Some (ad_ntStatus a, smb2, error_if_failed func a err, net) }"

section \<open>Connecting and disconnecting\<close>

definition smb2_connect_share ::
  "env \<Rightarrow> os \<Rightarrow> bytes option option \<Rightarrow> smb2_context \<Rightarrow> bytes \<Rightarrow> bytes \<Rightarrow> bytes \<Rightarrow> err_msg \<Rightarrow> net \<Rightarrow> u32 api" where
  "smb2_connect_share env os user_file smb2 server share user err net =
     (let func = ''smb2_connect_share: ''; (rc, smb2, err) = Smb2Socket_connect os smb2 server err in
      if rc \<noteq> 0 then Some (SMB2_STATUS_SOCKET_ERROR, smb2, Pre func [] err, net)
      else do {
        smb2 \<leftarrow> smb2SetUser user_file (smb2\<lparr>c_server := server, c_share := share\<rparr>) user;
        run_request env func id AppPlain (Smb2BuildConnectRequest env) (status_with_error func) smb2 err net })"

definition smb2_disconnect_share :: "env \<Rightarrow> smb2_context \<Rightarrow> net \<Rightarrow> (u32 \<times> smb2_context \<times> net) option" where
  "smb2_disconnect_share env smb2 net =
     (if \<not> isConnected smb2 then Some (SMB2_STATUS_SUCCESS, Smb2Socket_close smb2, net)
      else do {
        (r, smb2, _, net) \<leftarrow>
          run_request env [] id AppPlain (Smb2BuildDisConnectRequest env) status_only smb2 (Msg [] []) net;
        Some (r, smb2, net) })"

section \<open>Opening and closing\<close>

definition returned_fh :: "string \<Rightarrow> smb2_context \<Rightarrow> ptr \<Rightarrow> err_msg \<Rightarrow> net \<Rightarrow> ptr api" where
  \<comment> \<open>\<^verbatim>\<open>error = FUNC + createData.getErrorMsg(); return createData.getFH();\<close>\<close>
  "returned_fh func smb2 d err net =
     do { a \<leftarrow> app_at smb2 d; Some (getFH a, smb2, Pre func [] (ad_errMsg a), net) }"

definition smb2_open_file ::
  "env \<Rightarrow> smb2_context \<Rightarrow> bytes \<Rightarrow> u8 \<Rightarrow> u64 \<Rightarrow> u32 \<Rightarrow> u32 \<Rightarrow> u32 \<Rightarrow> u32 \<Rightarrow> u32 \<Rightarrow> err_msg \<Rightarrow> net \<Rightarrow> ptr api" where
  "smb2_open_file env smb2 path security_flags smb_create_flags desired_access file_attributes share_access
     create_disposition create_options err net =
     if_connected ''smb2_open_file: '' 0 smb2 net
       (run_request env ''smb2_open_file: '' (\<lambda>_. 0) CreateData
         (\<lambda>smb2. Smb2BuildCreateRequest env smb2 path security_flags SMB2_IMPERSONATION_IMPERSONATION smb_create_flags
            desired_access file_attributes share_access create_disposition create_options)
         (returned_fh ''smb2_open_file: '') smb2 err net)"

abbreviation (input) "O_WRONLY \<equiv> (0x1 :: u32)"
abbreviation (input) "O_RDWR \<equiv> (0x2 :: u32)"
abbreviation (input) "O_CREAT \<equiv> (0x40 :: u32)"
abbreviation (input) "O_EXCL \<equiv> (0x80 :: u32)"
abbreviation (input) "O_SYNC \<equiv> (0x101000 :: u32)"

definition open_disposition :: "u32 \<Rightarrow> u32" where
  "open_disposition flags =
     (if flags AND O_CREAT \<noteq> 0
      then (if flags AND O_EXCL \<noteq> 0 then SMB2_FILE_CREATE else SMB2_FILE_OVERWRITE_IF)
      else (if flags AND (O_WRONLY OR O_RDWR) \<noteq> 0 then SMB2_FILE_OPEN_IF else SMB2_FILE_OPEN))"

definition open_access :: "u32 \<Rightarrow> u32" where
  "open_access flags =
     (if flags AND (O_RDWR OR O_WRONLY) \<noteq> 0
      then SMB2_FILE_WRITE_DATA OR SMB2_FILE_WRITE_EA OR SMB2_FILE_WRITE_ATTRIBUTES else 0) OR
     (if flags AND O_RDWR \<noteq> 0 \<or> flags AND O_WRONLY = 0
      then SMB2_FILE_READ_DATA OR SMB2_FILE_READ_EA OR SMB2_FILE_READ_ATTRIBUTES else 0) OR
     (if flags AND O_SYNC \<noteq> 0 then SMB2_SYNCHRONIZE else 0)"

definition open_options :: "u32 \<Rightarrow> u32" where
  "open_options flags =
     SMB2_FILE_NON_DIRECTORY_FILE OR (if flags AND O_SYNC \<noteq> 0 then SMB2_FILE_NO_INTERMEDIATE_BUFFERING else 0)"

definition smb2_open :: "env \<Rightarrow> smb2_context \<Rightarrow> bytes \<Rightarrow> u32 \<Rightarrow> err_msg \<Rightarrow> net \<Rightarrow> ptr api" where
  "smb2_open env smb2 path flags err net =
     if_connected ''smb2_open: '' 0 smb2 net
       (run_request env ''smb2_open: '' (\<lambda>_. 0) CreateData
         (\<lambda>smb2. Smb2BuildCreateRequest env smb2 path 0 SMB2_IMPERSONATION_IMPERSONATION 0
            (open_access flags) 0 (SMB2_FILE_SHARE_READ OR SMB2_FILE_SHARE_WRITE) (open_disposition flags) (open_options flags))
         (returned_fh ''smb2_open: '') smb2 err net)"

definition pipe_parameters :: "bytes \<Rightarrow> u32 \<times> u32 \<times> u32 \<times> u32" where
  \<comment> \<open>\<^verbatim>\<open>impersonation_level\<close>, \<^verbatim>\<open>desired_access\<close>, \<^verbatim>\<open>share_access\<close>, \<^verbatim>\<open>create_options\<close>\<close>
  "pipe_parameters pipe =
     (let opts = SMB2_FILE_OPEN_NO_RECALL OR SMB2_FILE_NON_DIRECTORY_FILE;
          rwd = SMB2_FILE_SHARE_READ OR SMB2_FILE_SHARE_WRITE OR SMB2_FILE_SHARE_DELETE in
      if pipe = ascii ''srvsvc'' then (SMB2_IMPERSONATION_IMPERSONATION, 0x0012019f, rwd, opts)
      else if pipe = ascii ''wkssvc'' then (SMB2_IMPERSONATION_IDENTIFICATION, 0x0012019f, rwd, opts)
      else if pipe = ascii ''lsarpc''
      then (SMB2_IMPERSONATION_IMPERSONATION, 0x0002019f, SMB2_FILE_SHARE_READ OR SMB2_FILE_SHARE_WRITE, 0)
      else (0, SMB2_FILE_WRITE_DATA OR SMB2_FILE_WRITE_EA OR SMB2_FILE_WRITE_ATTRIBUTES, 0, opts))"

definition smb2_open_pipe :: "env \<Rightarrow> smb2_context \<Rightarrow> bytes \<Rightarrow> err_msg \<Rightarrow> net \<Rightarrow> ptr api" where
  "smb2_open_pipe env smb2 pipe err net =
     if_connected ''smb2_open_pipe: '' 0 smb2 net
       (if pipe = [] then Some (0, smb2, Pre ''smb2_open_pipe: '' [] (Msg ''no pipe path provided'' []), net)
        else let (impersonation_level, desired_access, share_access, create_options) = pipe_parameters pipe in
          run_request env ''smb2_open_pipe: '' (\<lambda>_. 0) CreateData
            (\<lambda>smb2. Smb2BuildCreateRequest env smb2 pipe 0 impersonation_level 0 desired_access 0 share_access
               SMB2_FILE_OPEN create_options)
            (returned_fh ''smb2_open_pipe: '') smb2 err net)"

definition smb2_close :: "env \<Rightarrow> smb2_context \<Rightarrow> ptr \<Rightarrow> err_msg \<Rightarrow> net \<Rightarrow> u32 api" where
  "smb2_close env smb2 fh err net =
     if_connected ''smb2_close: '' SMB2_STATUS_CONNECTION_DISCONNECTED smb2 net
       (run_request env ''smb2_close: '' id CloseData (\<lambda>smb2. Smb2BuildCloseRequest env smb2 fh)
         (status_with_error ''smb2_close: '') smb2 err net)"

definition smb2_fsync :: "env \<Rightarrow> smb2_context \<Rightarrow> ptr \<Rightarrow> err_msg \<Rightarrow> net \<Rightarrow> u32 api" where
  "smb2_fsync env smb2 fh err net =
     if_connected ''smb2_fsync: '' SMB2_STATUS_CONNECTION_DISCONNECTED smb2 net
       (run_request env ''smb2_fsync: '' id AppPlain (\<lambda>smb2. Smb2BuildFlushRequest env smb2 fh)
         (status_with_error ''smb2_fsync: '') smb2 err net)"

section \<open>Directories\<close>

definition smb2_fquerydir :: "env \<Rightarrow> smb2_context \<Rightarrow> ptr \<Rightarrow> bytes \<Rightarrow> err_msg \<Rightarrow> net \<Rightarrow> ptr api" where
  "smb2_fquerydir env smb2 fh pattern err net =
     if_connected ''smb2_fquerydir: '' 0 smb2 net
       (if fh = 0 then Some (0, smb2, Pre ''smb2_fquerydir: '' [] (Msg ''Directory NOT opened to query'' []), net)
        else run_request env ''smb2_fquerydir: '' (\<lambda>_. 0) QueryDirData
          (\<lambda>smb2. Smb2BuildQueryDirectoryRequest env smb2 fh pattern)
          (\<lambda>smb2 d err net. do { a \<leftarrow> app_at smb2 d;
             Some (getDir a, smb2, Pre ''smb2_fquerydir: '' [] (ad_errMsg a), net) }) smb2 err net)"

definition smb2_querydir :: "env \<Rightarrow> smb2_context \<Rightarrow> bytes \<Rightarrow> bytes \<Rightarrow> err_msg \<Rightarrow> net \<Rightarrow> ptr api" where
  "smb2_querydir env smb2 path pattern err net =
     if_connected ''smb2_querydir: '' 0 smb2 net
       (do { (fh, smb2, err, net) \<leftarrow>
               smb2_open_file env smb2 path 0 0 (SMB2_FILE_LIST_DIRECTORY OR SMB2_FILE_READ_ATTRIBUTES)
                 SMB2_FILE_ATTRIBUTE_DIRECTORY (SMB2_FILE_SHARE_READ OR SMB2_FILE_SHARE_WRITE)
                 SMB2_FILE_OPEN SMB2_FILE_DIRECTORY_FILE err net;
             if fh = 0 then Some (0, smb2, Pre ''smb2_querydir: '' [] err, net)
             else do {
               (dir, smb2, err, net) \<leftarrow> smb2_fquerydir env smb2 fh pattern err net;
               let err = (if dir = 0 then Pre ''smb2_querydir: '' [] err else err);
               (_, smb2, err, net) \<leftarrow> smb2_close env smb2 fh err net;
               Some (dir, smb2, err, net) } })"

definition smb2_closedir :: "smb2_context \<Rightarrow> ptr \<Rightarrow> smb2_context option" where
  "smb2_closedir smb2 dir = delete_cell smb2 dir"

section \<open>Reading and writing\<close>

definition clear_counts :: "smb2_context \<Rightarrow> ptr \<Rightarrow> smb2_context option" where
  "clear_counts smb2 fh =
     do { f \<leftarrow> fh_at smb2 fh; Some (put_cell smb2 fh (CFh (f\<lparr>fh_byte_count := 0, fh_bytes_remaining := 0\<rparr>))) }"

definition positioned ::
  "env \<Rightarrow> string \<Rightarrow> app_kind \<Rightarrow> (smb2_context \<Rightarrow> u64 \<Rightarrow> ptr \<Rightarrow> build_result) \<Rightarrow> (smb2fh \<Rightarrow> u64) \<Rightarrow>
   smb2_context \<Rightarrow> ptr \<Rightarrow> u32 \<Rightarrow> err_msg \<Rightarrow> net \<Rightarrow> u32 api" where
  \<comment> \<open>the text the four functions share; a count of 0 is not sent, because the server would not reply\<close>
  "positioned env func kind build offset smb2 fh cnt err net =
     do { smb2 \<leftarrow> clear_counts smb2 fh;
          if_connected func SMB2_STATUS_CONNECTION_DISCONNECTED smb2 net
            (if cnt = 0 then Some (SMB2_STATUS_SUCCESS, smb2, err, net)
             else do {
               f \<leftarrow> fh_at smb2 fh;
               run_request env func id kind (\<lambda>smb2. build smb2 (offset f)) (status_with_error func) smb2 err net }) }"

definition smb2_pread :: "env \<Rightarrow> smb2_context \<Rightarrow> ptr \<Rightarrow> ptr \<Rightarrow> u32 \<Rightarrow> u64 \<Rightarrow> err_msg \<Rightarrow> net \<Rightarrow> u32 api" where
  "smb2_pread env smb2 fh buf cnt offset err net =
     positioned env ''smb2_pread: '' ReadData (\<lambda>smb2 offset. Smb2BuildReadRequest env smb2 fh buf cnt offset)
       (\<lambda>_. offset) smb2 fh cnt err net"

definition smb2_pwrite :: "env \<Rightarrow> smb2_context \<Rightarrow> ptr \<Rightarrow> ptr \<Rightarrow> u32 \<Rightarrow> u64 \<Rightarrow> err_msg \<Rightarrow> net \<Rightarrow> u32 api" where
  "smb2_pwrite env smb2 fh buf cnt offset err net =
     positioned env ''smb2_pwrite: '' WriteData (\<lambda>smb2 offset. Smb2BuildWriteRequest env smb2 fh buf cnt offset)
       (\<lambda>_. offset) smb2 fh cnt err net"

definition smb2_read :: "env \<Rightarrow> smb2_context \<Rightarrow> ptr \<Rightarrow> ptr \<Rightarrow> u32 \<Rightarrow> err_msg \<Rightarrow> net \<Rightarrow> u32 api" where
  \<comment> \<open>\<^verbatim>\<open>fh->offset\<close> is converted from \<open>int64_t\<close> to \<open>uint64_t\<close>\<close>
  "smb2_read env smb2 fh buf cnt err net =
     positioned env ''smb2_read: '' ReadData (\<lambda>smb2 offset. Smb2BuildReadRequest env smb2 fh buf cnt offset)
       (\<lambda>f. of_int (fh_offset f)) smb2 fh cnt err net"

definition smb2_write :: "env \<Rightarrow> smb2_context \<Rightarrow> ptr \<Rightarrow> ptr \<Rightarrow> u32 \<Rightarrow> err_msg \<Rightarrow> net \<Rightarrow> u32 api" where
  "smb2_write env smb2 fh buf cnt err net =
     positioned env ''smb2_write: '' WriteData (\<lambda>smb2 offset. Smb2BuildWriteRequest env smb2 fh buf cnt offset)
       (\<lambda>f. of_int (fh_offset f)) smb2 fh cnt err net"

section \<open>Removing and making\<close>

definition create_and_close ::
  "env \<Rightarrow> string \<Rightarrow> u32 \<Rightarrow> u32 \<Rightarrow> u32 \<Rightarrow> u32 \<Rightarrow> u32 \<Rightarrow> smb2_context \<Rightarrow> bytes \<Rightarrow> err_msg \<Rightarrow> net \<Rightarrow> u32 api" where
  \<comment> \<open>the text of the three functions from the creation of \<^verbatim>\<open>createData\<close> on\<close>
  "create_and_close env func desired_access file_attributes share_access create_disposition create_options smb2 path err net =
     if_connected func SMB2_STATUS_CONNECTION_DISCONNECTED smb2 net
       (run_request env func id CreateData
         (\<lambda>smb2. Smb2BuildCreateRequest env smb2 path 0 SMB2_IMPERSONATION_IMPERSONATION 0 desired_access file_attributes
            share_access create_disposition create_options)
         (\<lambda>smb2 d err net. do {
            a \<leftarrow> app_at smb2 d;
            if getFH a = 0 then Some (ad_ntStatus a, smb2, Pre func [] (ad_errMsg a), net)
            else do {
              (_, smb2, err, net) \<leftarrow> smb2_close env smb2 (getFH a) err net;
              a \<leftarrow> app_at smb2 d;
              Some (ad_ntStatus a, smb2, err, net) } }) smb2 err net)"

definition smb2_unlink :: "env \<Rightarrow> smb2_context \<Rightarrow> bytes \<Rightarrow> err_msg \<Rightarrow> net \<Rightarrow> u32 api" where
  "smb2_unlink env smb2 path err net =
     create_and_close env ''smb2_unlink: '' SMB2_DELETE SMB2_FILE_ATTRIBUTE_NORMAL
       (SMB2_FILE_SHARE_READ OR SMB2_FILE_SHARE_WRITE OR SMB2_FILE_SHARE_DELETE) SMB2_FILE_OPEN SMB2_FILE_DELETE_ON_CLOSE
       smb2 path err net"

definition smb2_rmdir :: "env \<Rightarrow> smb2_context \<Rightarrow> bytes \<Rightarrow> err_msg \<Rightarrow> net \<Rightarrow> u32 api" where
  "smb2_rmdir env smb2 path err net =
     create_and_close env ''smb2_rmdir: '' SMB2_DELETE SMB2_FILE_ATTRIBUTE_DIRECTORY
       (SMB2_FILE_SHARE_READ OR SMB2_FILE_SHARE_WRITE OR SMB2_FILE_SHARE_DELETE) SMB2_FILE_OPEN SMB2_FILE_DELETE_ON_CLOSE
       smb2 path err net"

definition smb2_mkdir :: "env \<Rightarrow> smb2_context \<Rightarrow> bytes \<Rightarrow> err_msg \<Rightarrow> net \<Rightarrow> u32 api" where
  "smb2_mkdir env smb2 path err net =
     create_and_close env ''smb2_mkdir: '' SMB2_FILE_READ_ATTRIBUTES SMB2_FILE_ATTRIBUTE_DIRECTORY
       (SMB2_FILE_SHARE_READ OR SMB2_FILE_SHARE_WRITE) SMB2_FILE_CREATE SMB2_FILE_DIRECTORY_FILE smb2 path err net"

section \<open>Querying information\<close>

text \<open>
  The calls that declare \<^verbatim>\<open>smb2_file_info info\<close> and query into it. The union starts uninitialised
  (\<open>UNone\<close>); a member that no reply has written holds what the memory held.
\<close>

definition query_info_call ::
  "env \<Rightarrow> string \<Rightarrow> u8 \<Rightarrow> u8 \<Rightarrow> (smb2_context \<Rightarrow> ptr \<Rightarrow> ptr \<Rightarrow> build_result) \<Rightarrow> (u32 \<Rightarrow> 'r) \<Rightarrow>
   (smb2_context \<Rightarrow> app_data \<Rightarrow> file_info_u \<Rightarrow> err_msg \<Rightarrow> net \<Rightarrow> 'r api) \<Rightarrow> smb2_context \<Rightarrow> err_msg \<Rightarrow> net \<Rightarrow> 'r api" where
  "query_info_call env func info_type file_info_class build failed k smb2 err net =
     if_connected func (failed SMB2_STATUS_CONNECTION_DISCONNECTED) smb2 net
       (do { (info, smb2) \<leftarrow> new_cell smb2 (CInfo \<lparr>fi_info_type = info_type, fi_file_info_class = file_info_class, fi_u_info = UNone\<rparr>);
             (r, smb2, err, net) \<leftarrow>
               run_request env func failed QueryInfoData (\<lambda>smb2. build smb2 info)
                 (\<lambda>smb2 d err net. do { a \<leftarrow> app_at smb2 d; i \<leftarrow> info_at smb2 info; k smb2 a (fi_u_info i) err net })
                 smb2 err net;
             smb2 \<leftarrow> delete_cell smb2 info;
             Some (r, smb2, err, net) })"

definition all_info_of :: "env \<Rightarrow> file_info_u \<Rightarrow> smb2_file_all_info option" where
  "all_info_of env u = (case u of UAll x \<Rightarrow> Some x | UNone \<Rightarrow> Some (e_all env) | _ \<Rightarrow> None)"

definition basic_info_of :: "env \<Rightarrow> file_info_u \<Rightarrow> smb2_file_basic_info option" where
  "basic_info_of env u = (case u of UBasic x \<Rightarrow> Some x | UNone \<Rightarrow> Some (e_basic env) | _ \<Rightarrow> None)"

definition standard_info_of :: "env \<Rightarrow> file_info_u \<Rightarrow> smb2_file_standard_info option" where
  "standard_info_of env u = (case u of UStandard x \<Rightarrow> Some x | UNone \<Rightarrow> Some (e_standard env) | _ \<Rightarrow> None)"

definition fs_full_size_of :: "env \<Rightarrow> file_info_u \<Rightarrow> smb2_file_fs_full_size_info option" where
  "fs_full_size_of env u = (case u of UFsFullSize x \<Rightarrow> Some x | UNone \<Rightarrow> Some (e_fs_full env) | _ \<Rightarrow> None)"

definition file_type :: "u32 \<Rightarrow> u32" where
  \<comment> \<open>\<^verbatim>\<open>SMB2_TYPE_DIRECTORY\<close> or \<^verbatim>\<open>SMB2_TYPE_FILE\<close>\<close>
  "file_type attributes = (if attributes AND SMB2_FILE_ATTRIBUTE_DIRECTORY \<noteq> 0 then 1 else 0)"

definition stat_of :: "smb2_file_all_info \<Rightarrow> smb2_stat_64" where
  "stat_of x = \<lparr>st_type = file_type (bas_file_attributes (all_basic x)), st_nlink = std_number_of_links (all_standard x),
     st_ino = all_index_number x, st_size = std_end_of_file (all_standard x),
     st_atime = bas_last_access_time (all_basic x), st_mtime = bas_last_write_time (all_basic x),
     st_ctime = bas_change_time (all_basic x), st_crtime = bas_creation_time (all_basic x)\<rparr>"

definition stat_call ::
  "env \<Rightarrow> string \<Rightarrow> (smb2_context \<Rightarrow> ptr \<Rightarrow> ptr \<Rightarrow> build_result) \<Rightarrow> smb2_stat_64 \<Rightarrow> smb2_context \<Rightarrow> err_msg \<Rightarrow> net \<Rightarrow>
   (u32 \<times> smb2_stat_64) api" where
  "stat_call env func build st =
     query_info_call env func SMB2_0_INFO_FILE SMB2_FILE_ALL_INFORMATION build (\<lambda>r. (r, st))
       (\<lambda>smb2 a u err net. do { x \<leftarrow> all_info_of env u; Some ((ad_ntStatus a, stat_of x), smb2, err, net) })"

definition smb2_fstat ::
  "env \<Rightarrow> smb2_context \<Rightarrow> ptr \<Rightarrow> smb2_stat_64 \<Rightarrow> err_msg \<Rightarrow> net \<Rightarrow> (u32 \<times> smb2_stat_64) api" where
  "smb2_fstat env smb2 fh st err net =
     stat_call env ''smb2_fstat: '' (\<lambda>smb2. Smb2BuildQueryInfoRequest_fh env smb2 fh) st smb2 err net"

definition smb2_stat ::
  "env \<Rightarrow> smb2_context \<Rightarrow> bytes \<Rightarrow> smb2_stat_64 \<Rightarrow> err_msg \<Rightarrow> net \<Rightarrow> (u32 \<times> smb2_stat_64) api" where
  "smb2_stat env smb2 path st err net =
     stat_call env ''smb2_stat: '' (\<lambda>smb2. Smb2BuildQueryInfoRequest_path env smb2 path) st smb2 err net"

record struct_statvfs =
  f_bsize :: u32
  f_frsize :: u32
  f_blocks :: u64
  f_bfree :: u64
  f_bavail :: u64
  f_files :: u32
  f_ffree :: u32
  f_favail :: u32
  f_fsid :: u32
  f_flag :: u32
  f_namemax :: u32

definition statvfs_of :: "smb2_file_fs_full_size_info \<Rightarrow> struct_statvfs" where
  "statvfs_of x =
     (let bsize = fsf_bytes_per_sector x * fsf_sectors_per_allocation_unit x; free = fsf_caller_available_allocation_units x in
      \<lparr>f_bsize = bsize, f_frsize = bsize, f_blocks = fsf_total_allocation_units x, f_bfree = free, f_bavail = free,
       f_files = 0, f_ffree = 0, f_favail = 0, f_fsid = 0, f_flag = 0, f_namemax = 0\<rparr>)"

definition smb2_statvfs ::
  "env \<Rightarrow> smb2_context \<Rightarrow> bytes \<Rightarrow> struct_statvfs \<Rightarrow> err_msg \<Rightarrow> net \<Rightarrow> (u32 \<times> struct_statvfs) api" where
  "smb2_statvfs env smb2 path st err net =
     query_info_call env ''smb2_statvfs: '' SMB2_0_INFO_FILESYSTEM SMB2_FILE_FS_FULL_SIZE_INFORMATION
       (\<lambda>smb2. Smb2BuildQueryInfoRequest_path env smb2 path) (\<lambda>r. (r, st))
       (\<lambda>smb2 a u err net. do { x \<leftarrow> fs_full_size_of env u; Some ((ad_ntStatus a, statvfs_of x), smb2, err, net) })
       smb2 err net"

end
