(* ===== verification/Smb2_ApiInfo.thy ===== *)
theory Smb2_ApiInfo
  imports Smb2_Api
begin

text \<open>
  The rest of \<^verbatim>\<open>Smb2Api.cpp\<close>: the calls that get and set file information, extended attributes,
  streams and security descriptors, echo and ioctl.
\<close>

section \<open>All information\<close>

record smb2_file_info_all =
  ai_type :: u32
  ai_nlink :: u32
  ai_ino :: u64
  ai_size :: u64
  ai_atime :: u64
  ai_mtime :: u64
  ai_ctime :: u64
  ai_crtime :: u64
  ai_file_attributes :: u32
  ai_allocation_size :: u64
  ai_end_of_file :: u64
  ai_delete_pending :: u8
  ai_directory :: u8
  ai_ea_size :: u32
  ai_access_flags :: u32
  ai_mode :: u32
  \<comment> \<open>the \<^verbatim>\<open>nsec\<close> members are never assigned\<close>

definition fill_info_all :: "smb2_file_all_info \<Rightarrow> smb2_file_info_all \<Rightarrow> smb2_file_info_all" where
  \<comment> \<open>the assignments both functions make\<close>
  "fill_info_all x ai =
     (let b = all_basic x; s = all_standard x in
      ai\<lparr>ai_type := file_type (bas_file_attributes b), ai_ino := all_index_number x, ai_ea_size := all_ea_size x,
        ai_atime := bas_last_access_time b, ai_mtime := bas_last_write_time b, ai_ctime := bas_change_time b,
        ai_crtime := bas_creation_time b, ai_size := std_end_of_file s, ai_nlink := std_number_of_links s,
        ai_allocation_size := std_allocation_size s, ai_end_of_file := std_end_of_file s,
        ai_delete_pending := std_delete_pending s, ai_directory := std_directory s,
        ai_access_flags := all_access_flags x, ai_mode := all_mode x\<rparr>)"

definition getinfo_all_call ::
  "env \<Rightarrow> string \<Rightarrow> (smb2_context \<Rightarrow> ptr \<Rightarrow> ptr \<Rightarrow> build_result) \<Rightarrow>
   (smb2_file_all_info \<Rightarrow> smb2_file_info_all \<Rightarrow> smb2_file_info_all) \<Rightarrow> smb2_file_info_all \<Rightarrow>
   smb2_context \<Rightarrow> err_msg \<Rightarrow> net \<Rightarrow> (u32 \<times> smb2_file_info_all) api" where
  "getinfo_all_call env func build fill ai =
     query_info_call env func SMB2_0_INFO_FILE SMB2_FILE_ALL_INFORMATION build (\<lambda>r. (r, ai))
       (\<lambda>smb2 a u err net. do { x \<leftarrow> all_info_of env u; Some ((ad_ntStatus a, fill x ai), smb2, err, net) })"

definition smb2_getinfo_all ::
  "env \<Rightarrow> smb2_context \<Rightarrow> bytes \<Rightarrow> smb2_file_info_all \<Rightarrow> err_msg \<Rightarrow> net \<Rightarrow> (u32 \<times> smb2_file_info_all) api" where
  "smb2_getinfo_all env smb2 path ai err net =
     getinfo_all_call env ''smb2_getinfo_all: '' (\<lambda>smb2. Smb2BuildQueryInfoRequest_path env smb2 path)
       (\<lambda>x ai. (fill_info_all x ai)\<lparr>ai_file_attributes := bas_file_attributes (all_basic x)\<rparr>) ai smb2 err net"

definition smb2_fgetinfo_all ::
  "env \<Rightarrow> smb2_context \<Rightarrow> ptr \<Rightarrow> smb2_file_info_all \<Rightarrow> err_msg \<Rightarrow> net \<Rightarrow> (u32 \<times> smb2_file_info_all) api" where
  \<comment> \<open>this one does not assign \<^verbatim>\<open>file_attributes\<close>\<close>
  "smb2_fgetinfo_all env smb2 fh ai err net =
     getinfo_all_call env ''smb2_fgetinfo_all: '' (\<lambda>smb2. Smb2BuildQueryInfoRequest_fh env smb2 fh) fill_info_all ai smb2 err net"

section \<open>Setting information\<close>

definition set_info_call ::
  "env \<Rightarrow> string \<Rightarrow> smb2_file_info \<Rightarrow> (smb2_context \<Rightarrow> ptr \<Rightarrow> ptr \<Rightarrow> build_result) \<Rightarrow>
   (smb2_context \<Rightarrow> ptr \<Rightarrow> err_msg \<Rightarrow> net \<Rightarrow> u32 api) \<Rightarrow> smb2_context \<Rightarrow> err_msg \<Rightarrow> net \<Rightarrow> u32 api" where
  \<comment> \<open>the common part behind the checks: \<^verbatim>\<open>info\<close> filled in, \<^verbatim>\<open>AppData setInfoData\<close>, the exchange\<close>
  "set_info_call env func info build k smb2 err net =
     do { (i, smb2) \<leftarrow> new_cell smb2 (CInfo info);
          (r, smb2, err, net) \<leftarrow> run_request env func id AppPlain (\<lambda>smb2. build smb2 i) k smb2 err net;
          smb2 \<leftarrow> delete_cell smb2 i;
          Some (r, smb2, err, net) }"

abbreviation (input) "file_info cls u \<equiv> \<lparr>fi_info_type = SMB2_0_INFO_FILE, fi_file_info_class = cls, fi_u_info = u\<rparr>"

definition setinfo_basic_call ::
  "env \<Rightarrow> string \<Rightarrow> string \<Rightarrow> (smb2_context \<Rightarrow> ptr \<Rightarrow> ptr \<Rightarrow> build_result) \<Rightarrow> smb2_file_basic_info option \<Rightarrow>
   smb2_context \<Rightarrow> err_msg \<Rightarrow> net \<Rightarrow> u32 api" where
  "setinfo_basic_call env func no_info build basic_info smb2 err net =
     if_connected func SMB2_STATUS_CONNECTION_DISCONNECTED smb2 net
       (case basic_info of
          None \<Rightarrow> Some (SMB2_STATUS_INVALID_ARGUMENT, smb2, Pre func [] (Msg no_info []), net)
        | Some b \<Rightarrow> set_info_call env func (file_info SMB2_FILE_BASIC_INFORMATION (UBasic b)) build status_only smb2 err net)"

definition smb2_setinfo_basic ::
  "env \<Rightarrow> smb2_context \<Rightarrow> bytes \<Rightarrow> smb2_file_basic_info option \<Rightarrow> err_msg \<Rightarrow> net \<Rightarrow> u32 api" where
  "smb2_setinfo_basic env smb2 path basic_info err net =
     setinfo_basic_call env ''smb2_setinfo_basic: '' ''no info to set'' (\<lambda>smb2. Smb2BuildSetInforequest_path env smb2 path)
       basic_info smb2 err net"

definition smb2_fsetinfo_basic ::
  "env \<Rightarrow> smb2_context \<Rightarrow> ptr \<Rightarrow> smb2_file_basic_info option \<Rightarrow> err_msg \<Rightarrow> net \<Rightarrow> u32 api" where
  "smb2_fsetinfo_basic env smb2 fh basic_info err net =
     setinfo_basic_call env ''smb2_fsetinfo_basic: '' ''No info to set'' (\<lambda>smb2. Smb2BuildSetInforequest_fh env smb2 fh)
       basic_info smb2 err net"

definition smb2_rename :: "env \<Rightarrow> smb2_context \<Rightarrow> bytes \<Rightarrow> bytes \<Rightarrow> err_msg \<Rightarrow> net \<Rightarrow> u32 api" where
  "smb2_rename env smb2 oldpath newpath err net =
     if_connected ''smb2_rename: '' SMB2_STATUS_CONNECTION_DISCONNECTED smb2 net
       (set_info_call env ''smb2_rename: '' (file_info SMB2_FILE_RENAME_INFORMATION (URename 0 (c_str newpath)))
         (\<lambda>smb2. Smb2BuildSetInforequest_path env smb2 oldpath) status_only smb2 err net)"

definition smb2_truncate :: "env \<Rightarrow> smb2_context \<Rightarrow> bytes \<Rightarrow> u64 \<Rightarrow> err_msg \<Rightarrow> net \<Rightarrow> u32 api" where
  "smb2_truncate env smb2 path len err net =
     if_connected ''smb2_truncate: '' SMB2_STATUS_CONNECTION_DISCONNECTED smb2 net
       (set_info_call env ''smb2_truncate: '' (file_info SMB2_FILE_END_OF_FILE_INFORMATION (UEndOfFile len))
         (\<lambda>smb2. Smb2BuildSetInforequest_path env smb2 path) status_only smb2 err net)"

definition smb2_ftruncate :: "env \<Rightarrow> smb2_context \<Rightarrow> ptr \<Rightarrow> u64 \<Rightarrow> err_msg \<Rightarrow> net \<Rightarrow> u32 api" where
  "smb2_ftruncate env smb2 fh len err net =
     if_connected ''smb2_ftruncate: '' SMB2_STATUS_CONNECTION_DISCONNECTED smb2 net
       (set_info_call env ''smb2_ftruncate: '' (file_info SMB2_FILE_END_OF_FILE_INFORMATION (UEndOfFile len))
         (\<lambda>smb2. Smb2BuildSetInforequest_fh env smb2 fh) (status_if_failed ''smb2_ftruncate: '') smb2 err net)"

section \<open>Echo and ioctl\<close>

definition smb2_echo :: "env \<Rightarrow> smb2_context \<Rightarrow> err_msg \<Rightarrow> net \<Rightarrow> u32 api" where
  "smb2_echo env smb2 err net =
     if_connected ''smb2_echo: '' SMB2_STATUS_CONNECTION_DISCONNECTED smb2 net
       (run_request env ''smb2_echo: '' id AppPlain (Smb2BuildEchoRequest env) status_only smb2 err net)"

definition smb2_ioctl ::
  "env \<Rightarrow> smb2_context \<Rightarrow> ptr \<Rightarrow> u32 \<Rightarrow> u32 \<Rightarrow> ptr \<Rightarrow> u32 \<Rightarrow> ptr \<Rightarrow> ptr \<Rightarrow> err_msg \<Rightarrow> net \<Rightarrow> u32 api" where
  "smb2_ioctl env smb2 fh ioctl_ctl ioctl_flags input_buffer input_count output_buffer output_count err net =
     if_connected ''smb2_ioctl: '' SMB2_STATUS_CONNECTION_DISCONNECTED smb2 net
       (run_request env ''smb2_ioctl: '' id IoctlData
         (\<lambda>smb2. Smb2BuildIoctlRequest env smb2 fh ioctl_ctl ioctl_flags input_buffer input_count output_buffer output_count)
         (status_if_failed ''smb2_ioctl: '') smb2 err net)"

section \<open>Security descriptors\<close>

text \<open>
  The loop at the label \<^verbatim>\<open>retry\<close>: while the encoder finds the buffer too small, its size is doubled.
  \<open>RetryFuel\<close> says that the loop has not ended within the given number of turns; \<^verbatim>\<open>realloc\<close> with the
  size 0, the result of doubling \<open>2\<^sup>3\<^sup>1\<close>, gives the null pointer: the language leaves this to the
  library, and it is what glibc, the library of the platform, does. New memory holds \<^verbatim>\<open>e_byte\<close>.
\<close>

datatype retry_result = RetryFuel | RetryNoMemory | RetryFailed err_msg | RetryDone bytes u32

fun encode_retry :: "nat \<Rightarrow> u8 \<Rightarrow> smb2_security_descriptor \<Rightarrow> bytes \<Rightarrow> u32 \<Rightarrow> retry_result option" where
  "encode_retry 0 junk sd buf sz = Some RetryFuel"
| "encode_retry (Suc n) junk sd buf sz =
     do { r \<leftarrow> smb2EncodeSecurityDescriptor sd (Some buf) (Some sz);
          case r of
            Encoded b len \<Rightarrow> Some (RetryDone b len)
          | EncodeFailed sts e \<Rightarrow>
              if sts = -9
              then let sz = sz * 2 in
                if sz = 0 then Some RetryNoMemory
                else encode_retry n junk sd (buf @ replicate (unat sz - length buf) junk) sz
              else Some (RetryFailed e) }"

definition get_security_call ::
  "env \<Rightarrow> string \<Rightarrow> (smb2_context \<Rightarrow> ptr \<Rightarrow> ptr \<Rightarrow> build_result) \<Rightarrow> ptr \<Rightarrow> u32 \<Rightarrow>
   smb2_context \<Rightarrow> err_msg \<Rightarrow> net \<Rightarrow> (u32 \<times> ptr \<times> u32) api" where
  \<comment> \<open>\<^verbatim>\<open>*buf\<close> and \<^verbatim>\<open>*buf_len\<close> are set only at the end. The printing of the descriptor reads it and is
      left out. The loop ends within 23 turns. An encoding that succeeds at a later turn leaves the message of the
      earlier ones in \<^verbatim>\<open>error\<close>.\<close>
  "get_security_call env func build buf buf_len =
     query_info_call env func SMB2_0_INFO_SECURITY (e_byte env) build (\<lambda>r. (r, buf, buf_len))
       (\<lambda>smb2 a u err net.
          if ad_ntStatus a \<noteq> SMB2_STATUS_SUCCESS
          then Some ((ad_ntStatus a, buf, buf_len), smb2, Pre func [] (ad_errMsg a), net)
          else do {
            sd \<leftarrow> (case u of USecurity sd \<Rightarrow> Some sd | _ \<Rightarrow> None);
            if c_fresh smb2 = []
            then Some ((SMB2_STATUS_NO_MEMORY, buf, buf_len), smb2,
                   Pre func [] (Msg ''No memory to get security descriptor'' []), net)
            else do {
              (p, smb2) \<leftarrow> new_cell smb2 (CBuf (replicate 1024 0));
              r \<leftarrow> encode_retry 23 (e_byte env) sd (replicate 1024 0) 1024;
              case r of
                RetryFuel \<Rightarrow> None
              | RetryNoMemory \<Rightarrow> Some ((SMB2_STATUS_NO_MEMORY, buf, buf_len), smb2,
                  Pre func [] (Msg ''Failed to allocate memory for security descriptor'' []), net)
              | RetryFailed e \<Rightarrow> Some ((SMB2_STATUS_INTERNAL_ERROR, buf, buf_len), smb2, Pre func [] e, net)
              | RetryDone b len \<Rightarrow> Some ((ad_ntStatus a, p, len), put_cell smb2 p (CBuf b),
                  if 1024 < smb2_get_security_descriptor_size sd
                  then Msg ''smb2EncodeSecurityDescriptor: Buffer too small to encode security descriptor'' [] else err, net) } })"

definition smb2_get_security ::
  "env \<Rightarrow> smb2_context \<Rightarrow> bytes \<Rightarrow> ptr \<Rightarrow> u32 \<Rightarrow> err_msg \<Rightarrow> net \<Rightarrow> (u32 \<times> ptr \<times> u32) api" where
  "smb2_get_security env smb2 path buf buf_len err net =
     get_security_call env ''smb2_get_security: '' (\<lambda>smb2. Smb2BuildQueryInfoRequest_path env smb2 path) buf buf_len smb2 err net"

definition smb2_fget_security ::
  "env \<Rightarrow> smb2_context \<Rightarrow> ptr \<Rightarrow> ptr \<Rightarrow> u32 \<Rightarrow> err_msg \<Rightarrow> net \<Rightarrow> (u32 \<times> ptr \<times> u32) api" where
  "smb2_fget_security env smb2 fh buf buf_len err net =
     get_security_call env ''smb2_fget_security: '' (\<lambda>smb2. Smb2BuildQueryInfoRequest_fh env smb2 fh) buf buf_len smb2 err net"

definition set_security_call ::
  "env \<Rightarrow> string \<Rightarrow> (smb2_context \<Rightarrow> ptr \<Rightarrow> ptr \<Rightarrow> build_result) \<Rightarrow> ptr \<Rightarrow> u32 \<Rightarrow> smb2_context \<Rightarrow> err_msg \<Rightarrow> net \<Rightarrow> u32 api" where
  \<comment> \<open>\<^verbatim>\<open>DEBUG\<close> is defined, so the buffer must decode before it is sent\<close>
  "set_security_call env func build buf buf_len smb2 err net =
     if_connected func SMB2_STATUS_CONNECTION_DISCONNECTED smb2 net
       (do { r \<leftarrow> smb2DecodeSecDescInternal new_smb2_security_descriptor
                    \<lparr>iov_buf = ptr_bytes smb2 buf, iov_len = ucast buf_len, iov_free = False\<rparr>;
             case r of
               Inl e \<Rightarrow> Some (SMB2_STATUS_INTERNAL_ERROR, smb2, Pre func [] e, net)
             | Inr _ \<Rightarrow>
                 set_info_call env func
                   \<lparr>fi_info_type = SMB2_0_INFO_SECURITY, fi_file_info_class = 0, fi_u_info = USecBuf (ptr_bytes smb2 buf) buf_len\<rparr>
                   build (status_if_failed func) smb2 err net })"

definition smb2_set_security :: "env \<Rightarrow> smb2_context \<Rightarrow> bytes \<Rightarrow> ptr \<Rightarrow> u32 \<Rightarrow> err_msg \<Rightarrow> net \<Rightarrow> u32 api" where
  "smb2_set_security env smb2 path buf buf_len err net =
     set_security_call env ''smb2_set_security: '' (\<lambda>smb2. Smb2BuildSetInforequest_path env smb2 path) buf buf_len smb2 err net"

definition smb2_fset_security :: "env \<Rightarrow> smb2_context \<Rightarrow> ptr \<Rightarrow> ptr \<Rightarrow> u32 \<Rightarrow> err_msg \<Rightarrow> net \<Rightarrow> u32 api" where
  "smb2_fset_security env smb2 fh buf buf_len err net =
     set_security_call env ''smb2_fset_security: '' (\<lambda>smb2. Smb2BuildSetInforequest_fh env smb2 fh) buf buf_len smb2 err net"

section \<open>Basic and standard information\<close>

definition getinfo_call ::
  "env \<Rightarrow> string \<Rightarrow> u8 \<Rightarrow> (file_info_u \<Rightarrow> 'i option) \<Rightarrow> (smb2_context \<Rightarrow> ptr \<Rightarrow> ptr \<Rightarrow> build_result) \<Rightarrow> 'i \<Rightarrow>
   smb2_context \<Rightarrow> err_msg \<Rightarrow> net \<Rightarrow> (u32 \<times> 'i) api" where
  \<comment> \<open>the member is copied out whatever the status\<close>
  "getinfo_call env func file_info_class member build out =
     query_info_call env func SMB2_0_INFO_FILE file_info_class build (\<lambda>r. (r, out))
       (\<lambda>smb2 a u err net. do { x \<leftarrow> member u; Some ((ad_ntStatus a, x), smb2, error_if_failed func a err, net) })"

definition smb2_getinfo_basic ::
  "env \<Rightarrow> smb2_context \<Rightarrow> bytes \<Rightarrow> smb2_file_basic_info \<Rightarrow> err_msg \<Rightarrow> net \<Rightarrow> (u32 \<times> smb2_file_basic_info) api" where
  "smb2_getinfo_basic env smb2 path basic_info err net =
     getinfo_call env ''smb2_getinfo_basic: '' SMB2_FILE_BASIC_INFORMATION (basic_info_of env)
       (\<lambda>smb2. Smb2BuildQueryInfoRequest_path env smb2 path) basic_info smb2 err net"

definition smb2_fgetinfo_basic ::
  "env \<Rightarrow> smb2_context \<Rightarrow> ptr \<Rightarrow> smb2_file_basic_info \<Rightarrow> err_msg \<Rightarrow> net \<Rightarrow> (u32 \<times> smb2_file_basic_info) api" where
  "smb2_fgetinfo_basic env smb2 fh basic_info err net =
     getinfo_call env ''smb2_fgetinfo_basic: '' SMB2_FILE_BASIC_INFORMATION (basic_info_of env)
       (\<lambda>smb2. Smb2BuildQueryInfoRequest_fh env smb2 fh) basic_info smb2 err net"

definition smb2_getinfo_standard ::
  "env \<Rightarrow> smb2_context \<Rightarrow> bytes \<Rightarrow> smb2_file_standard_info \<Rightarrow> err_msg \<Rightarrow> net \<Rightarrow> (u32 \<times> smb2_file_standard_info) api" where
  "smb2_getinfo_standard env smb2 path standard_info err net =
     getinfo_call env ''smb2_getinfo_standard: '' SMB2_FILE_STANDARD_INFORMATION (standard_info_of env)
       (\<lambda>smb2. Smb2BuildQueryInfoRequest_path env smb2 path) standard_info smb2 err net"

definition smb2_fgetinfo_standard ::
  "env \<Rightarrow> smb2_context \<Rightarrow> ptr \<Rightarrow> smb2_file_standard_info \<Rightarrow> err_msg \<Rightarrow> net \<Rightarrow> (u32 \<times> smb2_file_standard_info) api" where
  "smb2_fgetinfo_standard env smb2 fh standard_info err net =
     getinfo_call env ''smb2_fgetinfo_standard: '' SMB2_FILE_STANDARD_INFORMATION (standard_info_of env)
       (\<lambda>smb2. Smb2BuildQueryInfoRequest_fh env smb2 fh) standard_info smb2 err net"

section \<open>Extended attributes and streams\<close>

definition getlist_call ::
  "env \<Rightarrow> string \<Rightarrow> u8 \<Rightarrow> (file_info_u \<Rightarrow> 'i list option) \<Rightarrow> (smb2_context \<Rightarrow> ptr \<Rightarrow> ptr \<Rightarrow> build_result) \<Rightarrow> 'i list \<Rightarrow>
   smb2_context \<Rightarrow> err_msg \<Rightarrow> net \<Rightarrow> (u32 \<times> 'i list) api" where
  \<comment> \<open>the member starts as the null pointer and is handed out only on success\<close>
  "getlist_call env func file_info_class member build out =
     query_info_call env func SMB2_0_INFO_FILE file_info_class build (\<lambda>r. (r, out))
       (\<lambda>smb2 a u err net. do {
          x \<leftarrow> (if ad_ntStatus a = SMB2_STATUS_SUCCESS then member u else Some out);
          Some ((ad_ntStatus a, x), smb2, error_if_failed func a err, net) })"

definition extended_info_of :: "file_info_u \<Rightarrow> smb2_file_extended_info list option" where
  "extended_info_of u = (case u of UExtended x \<Rightarrow> Some x | UNone \<Rightarrow> Some [] | _ \<Rightarrow> None)"

definition stream_info_of :: "file_info_u \<Rightarrow> smb2_file_stream_info list option" where
  "stream_info_of u = (case u of UStream x \<Rightarrow> Some x | UNone \<Rightarrow> Some [] | _ \<Rightarrow> None)"

definition smb2_getinfo_extended ::
  "env \<Rightarrow> smb2_context \<Rightarrow> bytes \<Rightarrow> smb2_file_extended_info list \<Rightarrow> err_msg \<Rightarrow> net \<Rightarrow> (u32 \<times> smb2_file_extended_info list) api" where
  "smb2_getinfo_extended env smb2 path extended_info err net =
     getlist_call env ''smb2_getinfo_extended: '' SMB2_FILE_FULL_EA_INFORMATION extended_info_of
       (\<lambda>smb2. Smb2BuildQueryInfoRequest_path env smb2 path) extended_info smb2 err net"

definition smb2_fgetinfo_extended ::
  "env \<Rightarrow> smb2_context \<Rightarrow> ptr \<Rightarrow> smb2_file_extended_info list \<Rightarrow> err_msg \<Rightarrow> net \<Rightarrow> (u32 \<times> smb2_file_extended_info list) api" where
  "smb2_fgetinfo_extended env smb2 fh extended_info err net =
     getlist_call env ''smb2_fgetinfo_extended: '' SMB2_FILE_FULL_EA_INFORMATION extended_info_of
       (\<lambda>smb2. Smb2BuildQueryInfoRequest_fh env smb2 fh) extended_info smb2 err net"

definition smb2_getinfo_stream ::
  "env \<Rightarrow> smb2_context \<Rightarrow> bytes \<Rightarrow> smb2_file_stream_info list \<Rightarrow> err_msg \<Rightarrow> net \<Rightarrow> (u32 \<times> smb2_file_stream_info list) api" where
  "smb2_getinfo_stream env smb2 path stream_info err net =
     getlist_call env ''smb2_getinfo_stream: '' SMB2_FILE_STREAM_INFORMATION stream_info_of
       (\<lambda>smb2. Smb2BuildQueryInfoRequest_path env smb2 path) stream_info smb2 err net"

definition smb2_fgetinfo_stream ::
  "env \<Rightarrow> smb2_context \<Rightarrow> ptr \<Rightarrow> smb2_file_stream_info list \<Rightarrow> err_msg \<Rightarrow> net \<Rightarrow> (u32 \<times> smb2_file_stream_info list) api" where
  "smb2_fgetinfo_stream env smb2 fh stream_info err net =
     getlist_call env ''smb2_fgetinfo_stream: '' SMB2_FILE_STREAM_INFORMATION stream_info_of
       (\<lambda>smb2. Smb2BuildQueryInfoRequest_fh env smb2 fh) stream_info smb2 err net"

fun smb2_get_file_extended_size :: "smb2_file_extended_info list \<Rightarrow> u32 \<Rightarrow> u32" where
  \<comment> \<open>\<open>sz\<close> is \<^verbatim>\<open>size\<close> so far; the eight bytes are the struct without its two pointers\<close>
  "smb2_get_file_extended_size [] sz = sz"
| "smb2_get_file_extended_size (e # es) sz =
     (let sz = sz + 8 + (ucast (ext_name_len e) + 1) + ucast (ext_value_len e);
          sz = (if sz AND 3 \<noteq> 0 then sz + (4 - (sz AND 3)) else sz)
      in smb2_get_file_extended_size es sz)"

definition extended_array :: "smb2_file_extended_info list \<Rightarrow> int \<Rightarrow> smb2_file_extended_info list option" where
  \<comment> \<open>the first \<open>count\<close> elements of the caller's array; reading past it is undefined\<close>
  "extended_array info cnt = (if int (length info) < cnt then None else Some (take (nat cnt) info))"

definition setinfo_extended_call ::
  "env \<Rightarrow> string \<Rightarrow> (smb2_context \<Rightarrow> ptr \<Rightarrow> ptr \<Rightarrow> build_result) \<Rightarrow> smb2_file_extended_info list option \<Rightarrow> int \<Rightarrow>
   smb2_context \<Rightarrow> err_msg \<Rightarrow> net \<Rightarrow> u32 api" where
  "setinfo_extended_call env func build extended_info cnt smb2 err net =
     if_connected func SMB2_STATUS_CONNECTION_DISCONNECTED smb2 net
       (case extended_info of
          None \<Rightarrow> Some (SMB2_STATUS_INVALID_ARGUMENT, smb2, Pre func [] (Msg ''no info to set'' []), net)
        | Some info \<Rightarrow> do {
            es \<leftarrow> extended_array info cnt;
            let eabuf_size = smb2_get_file_extended_size es 0;
            (_, eabuf, eabuf_len) \<leftarrow> smb2_encode_file_extended_info es (Some (replicate (unat eabuf_size) (e_byte env))) (Some 0);
            b \<leftarrow> eabuf;
            n \<leftarrow> eabuf_len;
            set_info_call env func (file_info SMB2_FILE_FULL_EA_INFORMATION (UFullEa b n)) build
              (status_if_failed func) smb2 err net })"

definition smb2_setinfo_extended ::
  "env \<Rightarrow> smb2_context \<Rightarrow> bytes \<Rightarrow> smb2_file_extended_info list option \<Rightarrow> int \<Rightarrow> err_msg \<Rightarrow> net \<Rightarrow> u32 api" where
  "smb2_setinfo_extended env smb2 path extended_info cnt err net =
     setinfo_extended_call env ''smb2_setinfo_extended: '' (\<lambda>smb2. Smb2BuildSetInforequest_path env smb2 path)
       extended_info cnt smb2 err net"

definition smb2_fsetinfo_extended ::
  "env \<Rightarrow> smb2_context \<Rightarrow> ptr \<Rightarrow> smb2_file_extended_info list option \<Rightarrow> int \<Rightarrow> err_msg \<Rightarrow> net \<Rightarrow> u32 api" where
  "smb2_fsetinfo_extended env smb2 fh extended_info cnt err net =
     setinfo_extended_call env ''smb2_fsetinfo_extended: '' (\<lambda>smb2. Smb2BuildSetInforequest_fh env smb2 fh)
       extended_info cnt smb2 err net"

end
