(* ===== verification/Smb2_Calls.thy ===== *)
theory Smb2_Calls
  imports Smb2_ApiInfo
begin

text \<open>
  What a caller of the client interface gets: the calls that make one request are run through the
  contract of their builder, the transport and the reply handlers. The second half shows where the
  calls leave the caller with an object that no longer exists.
\<close>

section \<open>An error reply\<close>

definition ends_with_status :: "(smb2_context \<Rightarrow> ptr \<Rightarrow> err_msg \<Rightarrow> net \<Rightarrow> u32 api) \<Rightarrow> ptr \<Rightarrow> bool" where
  "ends_with_status k d \<longleftrightarrow>
     (\<forall>c a err net. app_at c d = Some a \<longrightarrow> (\<exists>e. k c d err net = Some (ad_ntStatus a, c, e, net)))"

lemma status_ends [simp]:
  "ends_with_status status_only d" "ends_with_status (status_with_error func) d" "ends_with_status (status_if_failed func) d"
  by (simp_all add: ends_with_status_def status_only_def status_with_error_def status_if_failed_def)

context request_builder
begin

lemma error_call:
  assumes "idle c" and "pre c" and "c_fresh c = d # m" and "d \<noteq> 0" and "c_heap c d = None" and "online net (wire_size (body c))"
    and "error_answer c h" and "hdr_status h \<notin> quiet"
    and "stream (n_reads net) = error_message h pad @ rest" and "length pad < 2 ^ 31 - 76"
    and k: "ends_with_status k d"
  shows "\<exists>c' e net' p. run_request env func failed kind (build env) k c err net = Some (hdr_status h, c', e, net') \<and>
    c_heap c' d = None \<and> stream (n_reads net') = rest \<and> n_sent net' = n_sent net @ message_of p (body c) \<and>
    hdr_command (p_header p) = command \<and> pdu_id p = c_message_id c"
proof -
  obtain c0 p c1 where b: "new_cell c (CApp (new_app_data kind)) = Some (d, c0)"
    "build env c0 d = Some (0, c1)" "exchange_ready c1 net p" "chain_wire [p] = message_of p (body c)" "c_heap c1 = c_heap (fill c0 d)"
    "c_authenticator c1 = c_authenticator (fill c0 d)"
    "hdr_command (p_header p) = command" "pdu_id p = c_message_id c" "p_appData p = d" "pre c0" "app_at c0 d = Some (new_app_data kind)"
    using built [OF assms(1-6)] by metis
  obtain a where a: "app_at (fill c0 d) d = Some a" "\<not> ad_bDelete a"
    using fill_app [OF b(10,11)] by blast
  have "reportable (fill c0 d) (setResponseHeader p h)"
    by (rule reports [OF b(10,11)]) (simp_all add: b(7,9) assms(8))
  then have r: "reportable c1 (setResponseHeader p h)" "app_at c1 (p_appData p) = Some a"
    using objects_cong [OF b(5,6)] a(1) b(9) by simp_all
  have "reply_header h" "hdr_next_command h = 0" "hdr_message_id h = pdu_id p" "smb2ReplyIsError (setResponseHeader p h)"
    using assms(7) b(8) by (simp_all add: error_answer_def smb2ReplyIsError_def Let_def)
  from error_exchange [OF b(3) assms(9,10) this r a(2), of env err]
  obtain c2 net' a' where x: "sendAndReceive env c1 err net = Some (0, c2, err, net')" "n_sent net' = n_sent net @ message_of p (body c)"
      "stream (n_reads net') = rest" "app_at c2 d = Some a'" "ad_ntStatus a' = hdr_status h"
    using b(4,9) by auto
  obtain e where "k c2 d err net' = Some (hdr_status h, c2, e, net')"
    using k x(4,5) by (force simp: ends_with_status_def)
  then have "run_request env func failed kind (build env) k c err net =
      Some (hdr_status h, c2\<lparr>c_heap := (c_heap c2)(d := None)\<rparr>, e, net')"
    using b(1,2) x(1) delete_some [OF assms(4) x(4)] by (simp add: run_request_def)
  then show ?thesis
    using x(2,3) b(7,8) by auto
qed

end

section \<open>What the caller gets\<close>

lemma online_mono: "online net n \<Longrightarrow> k \<le> n \<Longrightarrow> online net k"
  by (auto simp: online_def)

lemma request_sizes [simp]:
  "wire_size (plain_body c u) = 76" "wire_size (flush_body c fr) = 92" "wire_size (close_body c cr) = 92" "wire_size (read_body c r) = 124"
  by (simp_all add: wire_size_def plain_body_def flush_body_def close_body_def read_body_def Let_def)

lemma clear_counts_some:
  "fh_at c fh = Some f \<Longrightarrow> clear_counts c fh = Some (put_cell c fh (CFh (f\<lparr>fh_byte_count := 0, fh_bytes_remaining := 0\<rparr>)))"
  by (simp add: clear_counts_def)

lemma connected_idle: "idle c \<Longrightarrow> isConnected c"
  by (simp add: idle_def isConnected_def)

lemma put_cell_simps [simp]:
  "c_fresh (put_cell c q x) = c_fresh c" "c_message_id (put_cell c q x) = c_message_id c"
  "c_heap (put_cell c q x) = (c_heap c)(q := Some x)"
  by (simp_all add: put_cell_def)

lemma handle_of_put: "fh_at c fh = Some f \<Longrightarrow> fh_file_id g = fh_file_id f \<Longrightarrow> handle_of (put_cell c fh (CFh g)) fh = handle_of c fh"
  by (simp add: handle_of_def)

lemma at_delete:
  "q \<noteq> d \<Longrightarrow> fh_at (c\<lparr>c_heap := (c_heap c)(d := None)\<rparr>) q = fh_at c q"
  "q \<noteq> d \<Longrightarrow> buf_at (c\<lparr>c_heap := (c_heap c)(d := None)\<rparr>) q = buf_at c q"
  by (simp_all add: fh_at_def buf_at_def)

definition returns :: "u32 api \<Rightarrow> u32 \<Rightarrow> ptr \<Rightarrow> bytes \<Rightarrow> bytes \<Rightarrow> bool" where
  \<comment> \<open>the call returns \<open>s\<close>, its local object is gone, \<open>sent\<close> is what was sent and \<open>rest\<close> what is left to read\<close>
  "returns r s d sent rest \<longleftrightarrow>
     (\<exists>c e net. r = Some (s, c, e, net) \<and> c_heap c d = None \<and> n_sent net = sent \<and> stream (n_reads net) = rest)"

lemma sint_small64:
  assumes "unat (n :: u64) < 2 ^ 63"
  shows "sint n = int (unat n)"
proof -
  have "uint n < 2 ^ 63"
    using assms by (metis of_nat_less_iff of_nat_numeral of_nat_power uint_nat)
  then have "signed_take_bit 63 (uint n) = uint n"
    by (intro signed_take_bit_int_eq_self) (simp_all add: order_trans [OF _ unsigned_greater_eq])
  then show ?thesis
    by (simp add: sint_uint)
qed

lemma read_call:
  assumes "idle c" and "fh_at c fh = Some f" and "0 < cnt"
  defines "c0 \<equiv> put_cell c fh (CFh (f\<lparr>fh_byte_count := 0, fh_bytes_remaining := 0\<rparr>))"
  shows "smb2_pread env c fh buf cnt offset err net =
      run_request env ''smb2_pread: '' id ReadData (\<lambda>c. Smb2BuildReadRequest env c fh buf cnt offset)
        (status_with_error ''smb2_pread: '') c0 err net"
    and "idle c0" and "read_body c0 (read_request c0 fh cnt offset) = read_body c (read_request c fh cnt offset)"
    and "fh_at c0 fh = Some (f\<lparr>fh_byte_count := 0, fh_bytes_remaining := 0\<rparr>)"
  using assms connected_idle [of c0] word_gt_0 [of cnt]
  by (simp_all add: smb2_pread_def positioned_def clear_counts_some if_connected_def handle_of_def)

text \<open>C2. What a synchronous call returns when its one request is answered by an error reply. Echo and
  flush return the status of the reply for every error status, close for every one but file closed, and read for every
  one but end of file; these two are treated by the reply handlers on their own. Each call puts its request, with the
  next message number and the handle of the caller, on the wire once, reads the whole reply and leaves
  the rest of the stream alone, and its local application data is destroyed. The context is idle and connected, signing is off,
  and the socket delivers the reply in any portions without an error.\<close>

theorem api_error_status:
  assumes "idle c" and "fh_at c fh \<noteq> None" and "0 < cnt" and "0 < c_max_read_size c"
    and "c_fresh c = d # m" and "d \<noteq> 0" and "c_heap c d = None" and "online net 124"
    and "error_answer c h"
    and "stream (n_reads net) = error_message h pad @ rest" and "length pad < 2 ^ 31 - 76"
  shows "(\<exists>p. returns (smb2_echo env c err net) (hdr_status h) d (n_sent net @ message_of p (plain_body c ())) rest) \<and>
    (\<exists>p. returns (smb2_fsync env c fh err net) (hdr_status h) d
       (n_sent net @ message_of p (flush_body c \<lparr>flr_file_id = handle_of c fh\<rparr>)) rest) \<and>
    (hdr_status h \<noteq> SMB2_STATUS_FILE_CLOSED \<longrightarrow> (\<exists>p. returns (smb2_close env c fh err net) (hdr_status h) d
       (n_sent net @ message_of p (close_body c (close_request (handle_of c fh)))) rest)) \<and>
    (hdr_status h \<noteq> SMB2_STATUS_END_OF_FILE \<longrightarrow> (\<exists>p. returns (smb2_pread env c fh buf cnt offset err net) (hdr_status h) d
       (n_sent net @ message_of p (read_body c (read_request c fh cnt offset))) rest))"
proof (intro conjI impI)
  note on = online_mono [OF assms(8)] and con = connected_idle [OF assms(1)]
  show "\<exists>p. returns (smb2_echo env c err net) (hdr_status h) d (n_sent net @ message_of p (plain_body c ())) rest"
    using echo_builder.error_call [OF assms(1) TrueI assms(5-7) _ assms(9) _ assms(10,11) status_ends(1), of env "''smb2_echo: ''" id err]
      on con by (force simp: smb2_echo_def if_connected_def returns_def)
  show "\<exists>p. returns (smb2_fsync env c fh err net) (hdr_status h) d
           (n_sent net @ message_of p (flush_body c \<lparr>flr_file_id = handle_of c fh\<rparr>)) rest"
    using flush_builder.error_call [OF assms(1,2,5-7) _ assms(9) _ assms(10,11) status_ends(2), of env "''smb2_fsync: ''" id "''smb2_fsync: ''" err]
      on con by (force simp: smb2_fsync_def if_connected_def returns_def)
  show "\<exists>p. returns (smb2_close env c fh err net) (hdr_status h) d
           (n_sent net @ message_of p (close_body c (close_request (handle_of c fh)))) rest" if "hdr_status h \<noteq> SMB2_STATUS_FILE_CLOSED"
    using close_builder.error_call [OF assms(1,2,5-7) _ assms(9) _ assms(10,11) status_ends(2), of env "''smb2_close: ''" id "''smb2_close: ''" err]
      on con that by (force simp: smb2_close_def if_connected_def returns_def)
  obtain f where f: "fh_at c fh = Some f"
    using assms(2) by blast
  let ?c = "put_cell c fh (CFh (f\<lparr>fh_byte_count := 0, fh_bytes_remaining := 0\<rparr>))"
  note rc = read_call [OF assms(1) f assms(3)]
  have "fh \<noteq> d"
    using fh_alive [OF f assms(7)] .
  from this show "\<exists>p. returns (smb2_pread env c fh buf cnt offset err net) (hdr_status h) d
           (n_sent net @ message_of p (read_body c (read_request c fh cnt offset))) rest" if "hdr_status h \<noteq> SMB2_STATUS_END_OF_FILE"
    using read_builder.error_call [OF rc(2), of fh cnt d m net offset h pad rest "status_with_error ''smb2_pread: ''" env "''smb2_pread: ''" id buf err]
      rc on con assms that by (force simp: returns_def error_answer_def)
qed

text \<open>C1. A positioned read of the client interface that is answered by a read reply returns success
  with the bytes of the server at the start of the caller's buffer and the rest of the buffer as
  it was; the file handle stands behind the bytes read and holds their number and what the server
  says remains; the request on the wire asks for the limited count at the given offset of the handle.\<close>

theorem pread_delivers:
  assumes "idle c" and "fh_at c fh = Some f" and "buf_at c buf = Some dst" and "0 < cnt" and "0 < c_max_read_size c"
    and "c_fresh c = d # m" and "d \<noteq> 0" and "c_heap c d = None" and "online net 124"
    and "stream (n_reads net) = read_message h data rem @ rest" and "0 < length data" and "length data < 2 ^ 31 - 84"
    and "length data \<le> unat cnt" and "unat cnt \<le> length dst" and "unat offset + length data < 2 ^ 63"
    and "reply_header h" and "hdr_next_command h = 0" and "hdr_status h = 0" and "hdr_message_id h = c_message_id c"
  shows "\<exists>c' e net' p. smb2_pread env c fh buf cnt offset err net = Some (SMB2_STATUS_SUCCESS, c', e, net') \<and>
    buf_at c' buf = Some (data @ drop (length data) dst) \<and>
    fh_at c' fh = Some (f\<lparr>fh_offset := int (unat offset + length data), fh_byte_count := of_nat (length data), fh_bytes_remaining := rem\<rparr>) \<and>
    c_heap c' d = None \<and> stream (n_reads net') = rest \<and>
    n_sent net' = n_sent net @ message_of p (read_body c (read_request c fh cnt offset)) \<and> pdu_id p = c_message_id c"
proof -
  let ?f = "f\<lparr>fh_byte_count := 0, fh_bytes_remaining := 0\<rparr>"
  let ?c = "put_cell c fh (CFh ?f)" and ?a = "(new_app_data ReadData)\<lparr>ad_fh := fh, ad_readBuf := buf\<rparr>"
  note rc = read_call [OF assms(1,2,4)]
  have ne: "fh \<noteq> d" "buf \<noteq> d" "fh \<noteq> buf"
    using assms(2,3,8) by (auto simp: fh_at_def buf_at_def split: option.splits cell.splits)
  have off: "sint offset = int (unat offset)"
    using assms(15) by (intro sint_small64) simp
  have "int (unat offset + length data) < 2 ^ 63"
    using assms(15) by (metis of_nat_less_iff of_nat_numeral of_nat_power)
  then have lim: "int (unat offset) + int (length data) < 2 ^ 63"
    by simp
  have pre: "fh_at ?c fh \<noteq> None \<and> 0 < cnt \<and> 0 < c_max_read_size ?c" "c_fresh ?c = d # m" "c_heap ?c d = None"
    "online net (wire_size (read_body ?c (read_request ?c fh cnt offset)))"
    using assms ne by simp_all
  obtain c0 p c1 where b: "new_cell ?c (CApp (new_app_data ReadData)) = Some (d, c0)" "c0 = put_cell (?c\<lparr>c_fresh := m\<rparr>) d (CApp (new_app_data ReadData))"
    "Smb2BuildReadRequest env c0 fh buf cnt offset d = Some (0, c1)" "exchange_ready c1 net p"
    "chain_wire [p] = message_of p (read_body ?c (read_request ?c fh cnt offset))" "c_heap c1 = c_heap (read_fill fh buf offset c0 d)"
    "c_authenticator c1 = c_authenticator (read_fill fh buf offset c0 d)"
    "hdr_command (p_header p) = SMB2_READ" "pdu_id p = c_message_id ?c" "p_appData p = d"
    by (rule read_builder.built [OF rc(2) pre(1,2) assms(7) pre(3,4), of env buf]) metis
  have "fh_at c0 fh = Some ?f"
    using ne by (simp add: b(2))
  then have at: "app_at c1 d = Some ?a" "fh_at c1 fh = Some (?f\<lparr>fh_offset := int (unat offset)\<rparr>)" "buf_at c1 buf = Some dst"
    using ne assms(3) unfolding objects_cong [OF b(6,7)] by (simp_all add: read_fill_def at_offset_some off b(2))
  from read_exchange [OF b(4) assms(10-12,16-18) _ b(8), of ?a "?f\<lparr>fh_offset := int (unat offset)\<rparr>" dst env err]
  obtain c2 net' where x: "sendAndReceive env c1 err net = Some (0, c2, err, net')" "n_sent net' = n_sent net @ chain_wire [p]"
      "stream (n_reads net') = rest" "buf_at c2 buf = Some (data @ drop (length data) dst)" "app_at c2 d = Some (?a\<lparr>ad_ntStatus := 0\<rparr>)"
      "fh_at c2 fh = Some (f\<lparr>fh_offset := int (unat offset + length data), fh_byte_count := of_nat (length data), fh_bytes_remaining := rem\<rparr>)"
    using at b(9,10) assms(13,14,19) lim by (auto simp: new_app_data_def)
  let ?c2 = "c2\<lparr>c_heap := (c_heap c2)(d := None)\<rparr>" and ?e = "Pre ''smb2_pread: '' [] (ad_errMsg (?a\<lparr>ad_ntStatus := 0\<rparr>))"
  have "smb2_pread env c fh buf cnt offset err net = Some (SMB2_STATUS_SUCCESS, ?c2, ?e, net')"
    using b(1,3) x(1,5) delete_some [OF assms(7) x(5)] by (simp add: rc(1) run_request_def status_with_error_def)
  moreover have "buf_at ?c2 buf = buf_at c2 buf" "fh_at ?c2 fh = fh_at c2 fh" "c_heap ?c2 d = None"
    using ne by (simp_all add: at_delete)
  ultimately show ?thesis
    unfolding x(2) b(5) rc(3) [symmetric]
    using x(2-4,6) b(5,9) by (intro exI [of _ ?c2] exI [of _ ?e] exI [of _ net'] exI [of _ p]) (simp only: put_cell_simps)
qed

section \<open>The calls on an example\<close>

definition ex_idle :: smb2_context where
  "ex_idle = (new_context 0x311)\<lparr>c_fd := 3, c_bConnected := True, c_credits := 8, c_max_read_size := 65536, c_fresh := [9],
     c_heap := (\<lambda>_. None)(2 := Some (CFh (new_smb2fh 10)), 3 := Some (CBuf [0, 0, 0, 0]))\<rparr>"

definition ex_wire :: "bytes \<Rightarrow> net" where
  "ex_wire s = (ex_net s)\<lparr>n_writes := replicate 200 (Wrote 1)\<rparr>"

lemma ex_idle_simps: "idle ex_idle" "fh_at ex_idle 2 = Some (new_smb2fh 10)" "buf_at ex_idle 3 = Some [0, 0, 0, 0]"
    "c_max_read_size ex_idle = 65536" "c_fresh ex_idle = [9]" "c_heap ex_idle 9 = None" "c_message_id ex_idle = 0"
  by (simp_all add: ex_idle_def idle_def queues_ok_def queued_ids_def map_sorted_def new_context_def fh_at_def buf_at_def)

lemma ex_wire_simps: "online (ex_wire s) 124" "n_sent (ex_wire s) = []" "stream (n_reads (ex_wire s)) = s"
  using ex_script [of 200] ex_net_simps [of s] by (simp_all add: ex_wire_def online_def)

theorem api_error_status_witness:
  "\<exists>p. returns (smb2_close ex_env ex_idle 2 ex_err (ex_wire ex_error_message)) 0xc0000022 9
     (message_of p (close_body ex_idle (close_request (handle_of ex_idle 2)))) []"
  using api_error_status [of ex_idle 2 4 9 "[]" "ex_wire ex_error_message" "ex_reply 0xc0000022" "[]" "[]" ex_env ex_err 3 0]
    ex_idle_simps ex_wire_simps by (simp add: error_answer_def)

theorem pread_delivers_witness:
  "\<exists>c' e net'. smb2_pread ex_env ex_idle 2 3 4 0 ex_err (ex_wire (read_message (ex_reply 0) [5, 6, 7] 0)) = Some (0, c', e, net') \<and>
     buf_at c' 3 = Some [5, 6, 7, 0]"
  using pread_delivers [of ex_idle 2 "new_smb2fh 10" 3 "[0, 0, 0, 0]" 4 9 "[]" "ex_wire (read_message (ex_reply 0) [5, 6, 7] 0)"
      "ex_reply 0" "[5, 6, 7]" 0 "[]" 0 ex_env ex_err] ex_idle_simps ex_wire_simps
  by auto

end
