(* ===== verification/Smb2_Compound.thy ===== *)
theory Smb2_Compound
  imports Smb2_Calls
begin

text \<open>
  Compound requests: the calls that name a file by its path send create, the command proper and
  close as one chain, in which the later members refer to the handle of the first by the reserved
  file id. The theory shows what the builder queues and where it uses an object it has lost.
\<close>

section \<open>Chains on the wire\<close>

definition member :: "bytes \<Rightarrow> smb2_pdu \<Rightarrow> bool" where
  "member body p \<longleftrightarrow> wf_header (p_header p) \<and> wf_vectors (p_out p) \<and>
     (\<exists>v vs. iovs (p_out p) = v # vs \<and> iov_len v = 64 \<and> length (iov_buf v) = 64 \<and>
        concat (map iov_data vs) = body @ replicate (pad8 (length body)) 0)"

lemma request_member: "request_pdu c cmd app body p \<Longrightarrow> member body p"
  by (auto simp: request_pdu_def member_def wf_header_def Smb2Pdu_def Let_def zero_header_def)

lemma member_header: "member body p \<Longrightarrow> wf_header h \<Longrightarrow> member body (p\<lparr>p_header := h\<rparr>)"
  by (auto simp: member_def)

lemma member_size:
  assumes "member body p"
  shows "total_size (p_out p) = of_nat (64 + length body + pad8 (length body))"
proof -
  obtain v vs where v: "iovs (p_out p) = v # vs" "iov_len v = 64" "length (iov_buf v) = 64"
    "concat (map iov_data vs) = body @ replicate (pad8 (length body)) 0" and wf: "wf_vectors (p_out p)"
    using assms by (auto simp: member_def)
  have len: "wf_iovec w \<Longrightarrow> length (iov_data w) = unat (iov_len w)" for w
    by (simp add: wf_iovec_def iov_data_def)
  have "list_all wf_iovec vs"
    using wf v(1) by (simp add: wf_vectors_def)
  then have "length (concat (map iov_data vs)) = sum_list (map (unat \<circ> iov_len) vs)"
    by (induction vs) (simp_all add: len)
  then have "sum_list (map (unat \<circ> iov_len) vs) = length body + pad8 (length body)"
    by (simp add: v(4))
  then have "sum_list (map iov_len (iovs (p_out p))) = of_nat (64 + length body + pad8 (length body))"
    unfolding sum_lens v(1) by (simp add: v(2) add.assoc)
  then show ?thesis
    using wf by (simp add: wf_vectors_def)
qed

lemma member_size32: "member body p \<Longrightarrow> (ucast (total_size (p_out p)) :: u32) = of_nat (64 + length body + pad8 (length body))"
  by (simp only: member_size ucast_of_nat_u32)

lemma encode_members:
  assumes "c_signing_required c = 0" and "list_all2 member bs ps"
  shows "\<exists>c' ps'. encode_chain cr c ps = Some (Inr (c', ps')) \<and>
    list_all2 (\<lambda>b p. vectors_data (p_out p) = request_wire p b) bs ps' \<and>
    list_all2 (\<lambda>p p'. (\<exists>i. p_header p' = (p_header p)\<lparr>hdr_message_id := i\<rparr>) \<and> p_appData p' = p_appData p) ps ps'"
  using assms(2,1)
proof (induction bs ps arbitrary: c rule: list_all2_induct)
  case (Cons b bs p ps)
  obtain v vs where v: "iovs (p_out p) = v # vs" "iov_len v = 64" "length (iov_buf v) = 64"
    "concat (map iov_data vs) = b @ replicate (pad8 (length b)) 0" and wf: "wf_header (p_header p)"
    using Cons.hyps(1) by (auto simp: member_def)
  obtain c1 p1 where e: "encodeHeader c p = Some (c1, p1)" and v1: "iovs (p_out p1) = v\<lparr>iov_buf := header_bytes (p_header p1)\<rparr> # vs"
    using encodeHeader_bytes [OF v(1) wf v(2,3)] by blast
  note parts = encodeHeader_parts [OF e]
  have s: "c_signing_required c1 = 0"
    using Cons.prems by (simp add: parts(2))
  obtain c' ps' where r: "encode_chain cr c1 ps = Some (Inr (c', ps'))"
      "list_all2 (\<lambda>b p. vectors_data (p_out p) = request_wire p b) bs ps'"
      "list_all2 (\<lambda>p p'. (\<exists>i. p_header p' = (p_header p)\<lparr>hdr_message_id := i\<rparr>) \<and> p_appData p' = p_appData p) ps ps'"
    using Cons.IH [OF s] by blast
  have "wf_header (p_header p1)"
    using wf by (simp add: parts(1) wf_header_def)
  then have "vectors_data (p_out p1) = request_wire p1 b"
    by (simp add: vectors_data_def v1 v(2,4) request_wire_def iov_data_def)
  with e r s parts(1,5) show ?case
    by auto
qed simp

section \<open>What is queued\<close>

text \<open>The three members: the sizes lead from one header to the next, the later two are related to the first.\<close>

definition compound_of :: "smb2_context \<Rightarrow> (u16 \<times> bytes \<times> ptr) list \<Rightarrow> smb2_pdu list \<Rightarrow> bool" where
  "compound_of c ms ps \<longleftrightarrow>
     list_all2 (\<lambda>(cmd, body, app) p. hdr_command (p_header p) = cmd \<and> p_appData p = app \<and>
        vectors_data (p_out p) = request_wire p body \<and> 8 dvd length (request_wire p body)) ms ps \<and>
     map (hdr_next_command \<circ> p_header) ps = map (of_nat \<circ> length \<circ> vectors_data \<circ> p_out) (butlast ps) @ [0] \<and>
     map (hdr_flags \<circ> p_header) ps = 0 # replicate (length ps - 1) SMB2_FLAGS_RELATED_OPERATIONS \<and>
     map pdu_id ps = map (\<lambda>i. c_message_id c + of_nat i) [0..<length ps]"

lemma request_header:
  assumes "request_pdu c cmd app body p"
  shows "hdr_command (p_header p) = cmd" "hdr_flags (p_header p) = 0" "hdr_next_command (p_header p) = 0" "p_appData p = app"
    "wf_header (p_header p)"
  using assms by (auto simp: request_pdu_def wf_header_def Smb2Pdu_def Let_def zero_header_def)

lemma wire_length: "wf_header (p_header p) \<Longrightarrow> length (request_wire p b) = 64 + length b + pad8 (length b)"
  by (simp add: request_wire_def)

lemma wire_aligned: "wf_header (p_header p) \<Longrightarrow> 8 dvd length (request_wire p b)"
  using dvd_add [OF _ pad8_dvd [of "length b"], of 64] by (simp add: wire_length add.assoc)


lemma queue_compound:
  assumes "idle c" and "request_pdu c1 cmd1 app1 b1 p1" and "request_pdu c2 cmd2 app2 b2 p2" and "request_pdu c3 cmd3 app3 b3 p3"
    and charge: "hdr_credit_charge (p_header p1) \<le> 1" "hdr_credit_charge (p_header p2) \<le> 1" "hdr_credit_charge (p_header p3) \<le> 1"
    and "smb2AddCompoundPdu [p1] [p2] = Some ch2" and "smb2AddCompoundPdu ch2 [p3] = Some ch3"
  shows "\<exists>ps c'. queue_request cr del c ch3 app = Some (0, c') \<and>
    c' = c\<lparr>c_message_id := c_message_id c + 3, c_outqueue := [(c_message_id c, ps)]\<rparr> \<and>
    compound_of c [(cmd1, b1, app1), (cmd2, b2, app2), (cmd3, b3, app3)] ps"
proof -
  note h1 = request_header [OF assms(2)] and h2 = request_header [OF assms(3)] and h3 = request_header [OF assms(4)]
  note m = request_member [OF assms(2)] request_member [OF assms(3)] request_member [OF assms(4)]
  let ?q1 = "p1\<lparr>p_header := (p_header p1)\<lparr>hdr_next_command := ucast (total_size (p_out p1))\<rparr>\<rparr>"
  let ?q2 = "p2\<lparr>p_header := (p_header p2)\<lparr>hdr_flags := SMB2_FLAGS_RELATED_OPERATIONS, hdr_next_command := ucast (total_size (p_out p2))\<rparr>\<rparr>"
  let ?q3 = "p3\<lparr>p_header := (p_header p3)\<lparr>hdr_flags := SMB2_FLAGS_RELATED_OPERATIONS\<rparr>\<rparr>"
  have ch: "ch3 = [?q1, ?q2, ?q3]"
    using assms(8,9) h2(2) h3(2) by (auto simp: smb2AddCompoundPdu_def Let_def)
  have mem: "list_all2 member [b1, b2, b3] ch3"
    using m h1 h2 h3 by (auto simp: ch wf_header_def intro!: member_header)
  have "c_signing_required c = 0" "c_outqueue c = []"
    using assms(1) by (simp_all add: idle_def)
  then obtain c' ps where e: "encode_chain cr c ch3 = Some (Inr (c', ps))"
    "list_all2 (\<lambda>b p. vectors_data (p_out p) = request_wire p b) [b1, b2, b3] ps"
    "list_all2 (\<lambda>p p'. (\<exists>i. p_header p' = (p_header p)\<lparr>hdr_message_id := i\<rparr>) \<and> p_appData p' = p_appData p) ch3 ps"
    using encode_members [OF _ mem] by blast
  then obtain r1 r2 r3 where ps: "ps = [r1, r2, r3]"
    by (auto simp: list_all2_Cons1)
  have one: "charge_of ?q1 = 1" "charge_of ?q2 = 1" "charge_of ?q3 = 1"
    using charge by (auto simp: charge_of_def not_less)
  have ids: "pdu_id r1 = c_message_id c" "pdu_id r2 = c_message_id c + 1" "pdu_id r3 = c_message_id c + 2"
    and c': "c' = c\<lparr>c_message_id := c_message_id c + 3\<rparr>"
    using encode_chain_ids [OF e(1)] one by (simp_all add: ps ch)
  obtain i1 i2 i3 where hd: "p_header r1 = (p_header ?q1)\<lparr>hdr_message_id := i1\<rparr>" "p_header r2 = (p_header ?q2)\<lparr>hdr_message_id := i2\<rparr>"
      "p_header r3 = (p_header ?q3)\<lparr>hdr_message_id := i3\<rparr>" "p_appData r1 = app1" "p_appData r2 = app2" "p_appData r3 = app3"
    using e(3) h1 h2 h3 by (auto simp: ps ch)
  have wf: "wf_header (p_header r1)" "wf_header (p_header r2)" "wf_header (p_header r3)"
    using h1(5) h2(5) h3(5) by (simp_all add: hd wf_header_def)
  have w: "vectors_data (p_out r1) = request_wire r1 b1" "vectors_data (p_out r2) = request_wire r2 b2" "vectors_data (p_out r3) = request_wire r3 b3"
    using e(2) by (simp_all add: ps)
  have "compound_of c [(cmd1, b1, app1), (cmd2, b2, app2), (cmd3, b3, app3)] ps"
    using wire_aligned [OF wf(1)] wire_aligned [OF wf(2)] wire_aligned [OF wf(3)] ids
      member_size32 [OF m(1), folded wire_length [OF wf(1)]] member_size32 [OF m(2), folded wire_length [OF wf(2)]]
    by (simp add: compound_of_def ps w hd h1 h2 h3 upt_conv_Cons)
  moreover have "queue_request cr del c ch3 app = Some (0, c\<lparr>c_message_id := c_message_id c + 3, c_outqueue := [(c_message_id c, ps)]\<rparr>)"
    using e(1) ids(1) \<open>c_outqueue c = []\<close> by (simp add: queue_request_def smb2_queue_pdu_def c' ps)
  ultimately show ?thesis
    by blast
qed

lemma create_charge: "Smb2Create_createPdu c r d = Some (Some p, c') \<Longrightarrow> hdr_credit_charge (p_header p) = plain_charge c"
  by (auto simp: Smb2Create_createPdu_def finish_pdu_def Smb2Create_encodeRequest_def fail_with_def ctor_charge Let_def
      split: bind_splits if_splits option.splits)

lemma set_info_charge: "Smb2SetInfo_createPdu c r d = Some (Some p, c') \<Longrightarrow> hdr_credit_charge (p_header p) = plain_charge c"
  by (auto simp: Smb2SetInfo_createPdu_def finish_pdu_def Smb2SetInfo_encodeRequest_def set_info_blob_def fail_with_def ctor_charge
      Let_def split: bind_splits if_splits option.splits file_info_u.splits)

lemma shapedD: "shaped r n \<Longrightarrow> r = Some (Some p, c) \<Longrightarrow> hdr_credit_charge (p_header p) = n"
  by (simp add: shaped_def)

lemma chained: "\<exists>ch. smb2AddCompoundPdu (p # ps) [q] = Some ch"
  by (simp add: smb2AddCompoundPdu_def Let_def)

lemma compound_built:
  assumes "idle c" and fresh: "c_fresh c = d1 # d2 # m" "d1 \<noteq> 0" "d2 \<noteq> 0" "c_heap c d1 = None" "c_heap c d2 = None" "d1 \<noteq> d2"
    and v: "create_valid c1 req" and c1: "c1 = put_cell (c\<lparr>c_fresh := d2 # m\<rparr>) d1 (CApp (setDelete True (new_app_data CreateData)))"
    and mid: "middle c1 = Some (Some p2, c1\<lparr>c_heap := h\<rparr>)" "h d2 = None" "request_pdu c1' cmd app b p2" "hdr_credit_charge (p_header p2) \<le> 1"
  shows "\<exists>ps. build_compound env func c req middle app = Some (0, c1\<lparr>c_heap := h(d2 \<mapsto> CApp (setDelete True (new_app_data CloseData))),
      c_fresh := m, c_message_id := c_message_id c + 3, c_outqueue := [(c_message_id c, ps)]\<rparr>) \<and>
    compound_of c [(SMB2_CREATE, create_body c req, d1), (cmd, b, app), (SMB2_CLOSE, close_body c (close_request compound_file_id), d2)] ps"
proof -
  let ?c2 = "put_cell (c1\<lparr>c_heap := h, c_fresh := m\<rparr>) d2 (CApp (setDelete True (new_app_data CloseData)))"
  obtain p1 where p1: "Smb2Create_createPdu c1 req d1 = Some (Some p1, c1)" "request_pdu c1 SMB2_CREATE d1 (create_body c1 req) p1"
    using create.create_ok [OF v] by blast
  obtain p3 where p3: "Smb2Close_createPdu ?c2 (close_request compound_file_id) d2 = Some (Some p3, ?c2)"
      "request_pdu ?c2 SMB2_CLOSE d2 (close_body ?c2 (close_request compound_file_id)) p3"
    using close.create_ok by blast
  have charge: "hdr_credit_charge (p_header p1) \<le> 1" "hdr_credit_charge (p_header p3) \<le> 1"
    using create_charge [OF p1(1)] shapedD [OF close_shaped p3(1)] by (simp_all add: word_le_nat_alt)
  obtain ch2 where ch2: "smb2AddCompoundPdu [p1] [p2] = Some ch2"
    using chained by blast
  then obtain q qs where "ch2 = q # qs"
    by (auto simp: smb2AddCompoundPdu_def Let_def)
  then obtain ch3 where ch3: "smb2AddCompoundPdu ch2 [p3] = Some ch3"
    using chained by blast
  have "idle ?c2"
    using assms(1) by (simp add: c1)
  from queue_compound [OF this p1(2) mid(3) p3(2) charge(1) mid(4) charge(2) ch2 ch3, of "e_crypto env" True app]
  obtain ps where q: "queue_request (e_crypto env) True ?c2 ch3 app =
        Some (0, ?c2\<lparr>c_message_id := c_message_id ?c2 + 3, c_outqueue := [(c_message_id ?c2, ps)]\<rparr>)"
      "compound_of ?c2 [(SMB2_CREATE, create_body c1 req, d1), (cmd, b, app), (SMB2_CLOSE, close_body ?c2 (close_request compound_file_id), d2)] ps"
    by blast
  have "new_cell c (CApp (setDelete True (new_app_data CreateData))) = Some (d1, c1)"
    "new_cell (c1\<lparr>c_heap := h\<rparr>) (CApp (setDelete True (new_app_data CloseData))) = Some (d2, ?c2)"
    using fresh mid(2) by (simp_all add: new_cell_def c1 put_cell_def)
  with p1(1) mid(1) p3(1) ch2 ch3 q show ?thesis
    by (intro exI [of _ ps]) (simp add: build_compound_def compound_of_def c1 put_cell_def create_body_def close_body_def)
qed

lemma at_put_info [simp]: "info_at (put_cell c q (CApp a)) r = (if r = q then None else info_at c r)"
  by (simp add: info_at_def put_cell_def)

lemma set_info_compound:
  assumes "idle c" and "info \<noteq> 0" and "info_at c info = Some i" and "fi_info_type i = SMB2_0_INFO_FILE" and "info \<noteq> d1" "info \<noteq> d2"
    and "c_fresh c = d1 # d2 # m" "d1 \<noteq> 0" "d2 \<noteq> 0" "c_heap c d1 = None" "c_heap c d2 = None" "d1 \<noteq> d2"
    and r: "r = open_request c path (set_info_access i) (set_info_share i)" "create_valid c r" "set_info_valid c (set_info_request i compound_file_id)"
  shows "\<exists>ps c'. Smb2BuildSetInforequest_path env c path info app = Some (0, c') \<and> c_outqueue c' = [(c_message_id c, ps)] \<and>
    compound_of c [(SMB2_CREATE, create_body c r, d1), (SMB2_SET_INFO, set_info_body c (set_info_request i compound_file_id), app),
      (SMB2_CLOSE, close_body c (close_request compound_file_id), d2)] ps"
proof -
  let ?c = "put_cell c info (CInfo i)"
  let ?c1 = "put_cell (?c\<lparr>c_fresh := d2 # m\<rparr>) d1 (CApp (setDelete True (new_app_data CreateData)))"
  let ?r = "set_info_request i compound_file_id"
  have req: "open_request ?c path (set_info_access i) (set_info_share i) = r"
    by (simp add: r open_request_def create_options_of_def put_cell_def)
  have v: "create_valid ?c1 r" "set_info_valid ?c1 ?r"
    using r(2,3) by (simp_all add: create_valid_def set_info_valid_def)
  obtain p where p: "Smb2SetInfo_createPdu ?c1 ?r app = Some (Some p, ?c1)" "request_pdu ?c1 SMB2_SET_INFO app (set_info_body ?c1 ?r) p"
    using set_info.create_ok [OF v(2)] by blast
  have "hdr_credit_charge (p_header p) \<le> 1"
    using set_info_charge [OF p(1)] by (simp add: word_le_nat_alt)
  moreover have "Smb2SetInfo_createPdu ?c1 ?r app = Some (Some p, ?c1\<lparr>c_heap := c_heap ?c1\<rparr>)"
    using p(1) by simp
  ultimately obtain ps where "build_compound env ''Smb2BuildSetInforequest: '' ?c r (\<lambda>c. Smb2SetInfo_createPdu c ?r app) app =
        Some (0, ?c1\<lparr>c_heap := (c_heap ?c1)(d2 \<mapsto> CApp (setDelete True (new_app_data CloseData))),
          c_fresh := m, c_message_id := c_message_id ?c + 3, c_outqueue := [(c_message_id ?c, ps)]\<rparr>)"
      "compound_of ?c [(SMB2_CREATE, create_body ?c r, d1), (SMB2_SET_INFO, set_info_body ?c1 ?r, app),
        (SMB2_CLOSE, close_body ?c (close_request compound_file_id), d2)] ps"
    using compound_built [of ?c d1 d2 m, OF _ _ assms(8,9) _ _ assms(12) v(1) refl _ _ p(2), of "\<lambda>c. Smb2SetInfo_createPdu c ?r app" "c_heap ?c1"]
      assms by fastforce
  then show ?thesis
    using assms(2-4) by (simp add: Smb2BuildSetInforequest_path_def checked_set_info_def req compound_of_def set_info_body_def
        create_body_def close_body_def)
qed

text \<open>C5. A query by path is sent as one compound of three requests: an open of the path, the query
  of the class the caller asked for on the file the open yields, and a close of it. Each header gives
  the distance to the next, a multiple of eight, the last gives zero; the second and the third
  member are marked as related; the three take consecutive message numbers and belong to the data of
  the open, of the caller and of the close, of which the first and the last are deleted with their request.\<close>

theorem path_query_is_compound:
  assumes "idle c" and "info \<noteq> 0" and "info_at c info = Some i" and "app_at c app = Some a" and "ad_kind a = QueryInfoData"
    and "c_fresh c = d1 # d2 # m" "d1 \<noteq> 0" "d2 \<noteq> 0" "c_heap c d1 = None" "c_heap c d2 = None" "d1 \<noteq> d2"
    and r: "r = open_request c path (if fi_info_type i = SMB2_0_INFO_SECURITY then SMB2_READ_CONTROL
        else SMB2_FILE_READ_ATTRIBUTES OR SMB2_FILE_READ_EA) (SMB2_FILE_SHARE_READ OR SMB2_FILE_SHARE_WRITE)" "create_valid c r"
  shows "\<exists>ps c'. Smb2BuildQueryInfoRequest_path env c path info app = Some (0, c') \<and> c_outqueue c' = [(c_message_id c, ps)] \<and>
    compound_of c [(SMB2_CREATE, create_body c r, d1), (SMB2_QUERY_INFO, query_info_body c (query_info_request i compound_file_id), app),
      (SMB2_CLOSE, close_body c (close_request compound_file_id), d2)] ps \<and>
    app_at c' d1 = Some (setDelete True (new_app_data CreateData)) \<and> app_at c' app = Some (a\<lparr>ad_info := info\<rparr>) \<and>
    app_at c' d2 = Some (setDelete True (new_app_data CloseData))"
proof -
  let ?c1 = "put_cell (c\<lparr>c_fresh := d2 # m\<rparr>) d1 (CApp (setDelete True (new_app_data CreateData)))"
  let ?c2 = "put_cell ?c1 app (CApp (a\<lparr>ad_info := info\<rparr>))" and ?r = "query_info_request i compound_file_id"
  let ?mid = "\<lambda>c. upd_app c app (setQInfo info) \<bind> (\<lambda>c. Smb2QueryInfo_createPdu c ?r app)"
  have ne: "app \<noteq> d1" "app \<noteq> d2"
    using assms(4,9,10) by (auto simp: app_at_def)
  have v: "create_valid ?c1 r" "qi_input_buffer_length ?r = 0"
    using r(2) by (simp_all add: create_valid_def query_info_request_def Let_def)
  obtain p where p: "Smb2QueryInfo_createPdu ?c2 ?r app = Some (Some p, ?c2)" "request_pdu ?c2 SMB2_QUERY_INFO app (query_info_body ?c2 ?r) p"
    using query_info.create_ok [OF v(2)] by blast
  have "hdr_credit_charge (p_header p) \<le> 1"
    using shapedD [OF query_info_shaped p(1)] by (simp add: word_le_nat_alt)
  moreover have "upd_app ?c1 app (setQInfo info) = Some ?c2"
    using assms(4,5) ne by (simp add: upd_app_def setQInfo_def)
  then have "?mid ?c1 = Some (Some p, ?c1\<lparr>c_heap := (c_heap ?c1)(app \<mapsto> CApp (a\<lparr>ad_info := info\<rparr>))\<rparr>)"
    using p(1) by (simp add: put_cell_def)
  ultimately obtain ps where "build_compound env ''Smb2BuildQueryInfoRequest: '' c r ?mid app =
        Some (0, ?c1\<lparr>c_heap := (c_heap ?c1)(app \<mapsto> CApp (a\<lparr>ad_info := info\<rparr>), d2 \<mapsto> CApp (setDelete True (new_app_data CloseData))),
          c_fresh := m, c_message_id := c_message_id c + 3, c_outqueue := [(c_message_id c, ps)]\<rparr>)"
      "compound_of c [(SMB2_CREATE, create_body c r, d1), (SMB2_QUERY_INFO, query_info_body ?c2 ?r, app),
        (SMB2_CLOSE, close_body c (close_request compound_file_id), d2)] ps"
    using compound_built [OF assms(1,6-11) v(1) refl _ _ p(2), of ?mid] assms(10,11) ne by fastforce
  moreover have "Smb2BuildQueryInfoRequest_path env c path info app = build_compound env ''Smb2BuildQueryInfoRequest: '' c r ?mid app"
    using assms(2,3) by (simp add: Smb2BuildQueryInfoRequest_path_def Let_def r(1))
  moreover have "query_info_body ?c2 ?r = query_info_body c ?r"
    by (simp add: query_info_body_def)
  ultimately show ?thesis
    using ne assms(11) by (auto simp: app_at_def put_cell_def)
qed

definition ex_query :: smb2_context where
  "ex_query = ex_idle\<lparr>c_fresh := [7, 9], c_heap := (\<lambda>_. None)
     (4 := Some (CInfo \<lparr>fi_info_type = SMB2_0_INFO_FILE, fi_file_info_class = SMB2_FILE_ALL_INFORMATION, fi_u_info = UNone\<rparr>),
      5 := Some (CApp (new_app_data QueryInfoData)))\<rparr>"

lemma ex_open_valid: "create_valid ex_query (open_request c [0x61] acc share)"
proof -
  have "has_name (Some (c_str [0x61])) = Some True" "utf8_to_ucs2 (c_str [0x61]) = Some (Some [0x61])"
    by code_simp+
  then show ?thesis
    by (simp add: create_valid_def create_name_def open_request_def)
qed

theorem path_query_is_compound_witness:
  "\<exists>ps c' i r. Smb2BuildQueryInfoRequest_path ex_env ex_query [0x61] 4 5 = Some (0, c') \<and> c_outqueue c' = [(0, ps)] \<and>
     compound_of ex_query [(SMB2_CREATE, create_body ex_query r, 7), (SMB2_QUERY_INFO, query_info_body ex_query (query_info_request i compound_file_id), 5),
      (SMB2_CLOSE, close_body ex_query (close_request compound_file_id), 9)] ps"
  using path_query_is_compound [of ex_query 4 _ 5 "new_app_data QueryInfoData" 7 9 "[]" _ "[0x61]" ex_env, OF _ _ _ _ _ _ _ _ _ _ _ refl ex_open_valid]
    ex_idle_simps(1,7) by (force simp: ex_query_def info_at_def app_at_def new_app_data_def)

end
