(* ===== verification/Smb2_Limits.thy ===== *)
theory Smb2_Limits
  imports Smb2_Compound
begin

text \<open>
  How far the client interface goes: the sizes it asks for, the buffers it makes and the loop that
  grows one of them.
\<close>

section \<open>How many bytes one read or write moves\<close>

text \<open>The number of bytes asked of the server in one read or write is, for every dialect that knows
  credits, the least of what the caller wants, what the server takes at once and what the credits pay
  for, 64 KiB each - except that a caller who wants more than 1008 credits' worth of bytes gets exactly
  that many, whatever the server takes; before those dialects it is at most 64 KiB. It is never more
  than the caller wants and is positive as long as there are credits.\<close>

lemma io_count_limits:
  assumes "0 < cnt" and "0 < max_size"
  shows "unat (io_count c max_size cnt) =
      (if c_dialect c \<le> 0x0202 then min (min (unat cnt) (unat max_size)) 65536
       else min (if 1008 * 65536 < unat cnt then 1008 * 65536 else min (unat cnt) (unat max_size)) (unat (c_credits c) * 65536)) \<and>
    io_count c max_size cnt \<le> cnt \<and> (0 < c_credits c \<longrightarrow> 0 < io_count c max_size cnt)"
proof (intro conjI impI)
  show eq: "unat (io_count c max_size cnt) =
      (if c_dialect c \<le> 0x0202 then min (min (unat cnt) (unat max_size)) 65536
       else min (if 1008 * 65536 < unat cnt then 1008 * 65536 else min (unat cnt) (unat max_size)) (unat (c_credits c) * 65536))"
  proof (cases "c_dialect c \<le> 0x0202")
    case True
    then have "\<not> 0x0202 < c_dialect c"
      by (simp only: not_less)
    then have "io_count c max_size cnt = min (min cnt max_size) 65536"
      by (auto simp: io_count_def min_def Let_def)
    then show ?thesis
      using True by (simp add: min_def word_le_nat_alt)
  next
    case False
    then show ?thesis
      using io_count_nat [OF assms, of c] by simp
  qed
  show "io_count c max_size cnt \<le> cnt"
    unfolding word_le_nat_alt eq by auto
  show "0 < io_count c max_size cnt" if "0 < c_credits c"
    using assms that unfolding word_less_nat_alt eq by auto
qed

text \<open>The exception: the server has announced 1 MiB and is asked for 63 MiB.\<close>

lemma io_count_exceeds_server:
  assumes "c_credits c = 1008" and "0x0202 < c_dialect c"
  shows "io_count c 0x100000 0x4000000 = 0x3f00000"
  using assms by (simp add: io_count_def Let_def)

section \<open>The buffer of a security descriptor\<close>

lemma retry_more_fuel:
  assumes "encode_retry n junk sd buf sz \<noteq> Some RetryFuel"
  shows "encode_retry (n + k) junk sd buf sz = encode_retry n junk sd buf sz"
  using assms by (induction n junk sd buf sz rule: encode_retry.induct)
    (auto simp: Let_def split: Option.bind_split encode_result.split)

lemma retry_ends:
  assumes "0 < n" and "n \<le> 32" and "sz = 2 ^ (32 - n)"
  shows "encode_retry n junk sd buf sz \<noteq> Some RetryFuel"
  using assms
proof (induction n arbitrary: buf sz)
  case (Suc n)
  have "32 - n = Suc (31 - n)"
    using Suc.prems by simp
  then have d: "sz * 2 = 2 ^ (32 - n)"
    using Suc.prems by (simp add: mult.commute)
  show ?case
  proof (cases "n = 0")
    case True
    then have "sz * 2 = 0"
      unfolding d by simp
    then show ?thesis
      using True by (auto simp: Let_def split: Option.bind_split encode_result.split)
  next
    case False
    then show ?thesis
      using Suc.IH [OF _ _ d] Suc.prems by (auto simp: Let_def split: Option.bind_split encode_result.split)
  qed
qed simp

text \<open>C38. The loop that encodes a security descriptor into a buffer of 1024 bytes and doubles the buffer
  while it is too small comes to an end within 22 turns: more turns change nothing, and the result is
  never that the loop is still running.\<close>

theorem encode_retry_ends:
  "encode_retry 22 junk sd buf 1024 \<noteq> Some RetryFuel \<and>
   encode_retry (22 + k) junk sd buf 1024 = encode_retry 22 junk sd buf 1024"
  using retry_ends [of 22 1024 junk sd buf] retry_more_fuel [of 22 junk sd buf 1024 k] by simp

section \<open>The buffer of extended attributes\<close>

definition ea_sized :: "smb2_file_extended_info \<Rightarrow> bool" where
  \<comment> \<open>the name has its NUL and both are as long as their lengths say\<close>
  "ea_sized e \<longleftrightarrow> unat (ext_name_len e) < length (ext_name e) \<and> unat (ext_value_len e) \<le> length (ext_value e)"

abbreviation ea_bytes :: "smb2_file_extended_info \<Rightarrow> nat" where
  "ea_bytes e \<equiv> 9 + unat (ext_name_len e) + unat (ext_value_len e)"

abbreviation ea_total :: "smb2_file_extended_info list \<Rightarrow> nat" where
  "ea_total es \<equiv> (\<Sum>e\<leftarrow>es. ea_bytes e + pad4 (ea_bytes e))"

lemma ea_size_total: "4 dvd unat sz \<Longrightarrow> smb2_get_file_extended_size es sz = sz + of_nat (ea_total es)"
proof (induction es arbitrary: sz)
  case (Cons e es)
  have w: "sz + 8 + (ucast (ext_name_len e) + 1) + ucast (ext_value_len e) = sz + of_nat (ea_bytes e)"
    by (simp add: unsigned_ucast_eq)
  have s: "(if x AND 3 \<noteq> 0 then x + (4 - (x AND 3)) else x) = x + of_nat (pad4 (unat x))" for x :: u32
    using pad4_word [of x] by (metis add_0_right)
  have "smb2_get_file_extended_size (e # es) sz =
      smb2_get_file_extended_size es (sz + of_nat (ea_bytes e + pad4 (ea_bytes e)))"
    unfolding smb2_get_file_extended_size.simps Let_def w s mod4_sum [OF Cons.prems] by (simp only: of_nat_add add.assoc)
  also have "\<dots> = sz + of_nat (ea_total (e # es))"
    unfolding Cons.IH [OF aligned_step [OF Cons.prems]] by (simp add: add.assoc)
  finally show ?case .
qed simp

lemma encode_entries_fit:
  assumes "list_all ea_sized es" and "4 dvd unat offset" and "unat offset + ea_total es \<le> length buf" and "length buf < 2 ^ 32"
  shows "\<exists>b. encode_ea_entries es buf offset = Some (b, offset + of_nat (ea_total es)) \<and> length b = length buf"
  using assms
proof (induction es arbitrary: buf offset)
  case (Cons e es)
  let ?n = "ea_bytes e + pad4 (ea_bytes e)"
  let ?nl = "unat (ext_name_len e)" and ?vl = "unat (ext_value_len e)"
  have fit: "unat offset + ?n + ea_total es \<le> length buf"
    using Cons.prems(3) by simp
  have u: "unat (offset + of_nat k) = unat offset + k" if "k \<le> ?n" for k
  proof -
    have "unat offset + k < 2 ^ 32"
      using that fit Cons.prems(4) by simp
    then show ?thesis
      by (simp add: unat_word_ariths unat_of_nat)
  qed
  have i: "uint (offset + of_nat k) = int (unat offset + k)" if "k \<le> ?n" for k
    using u [OF that] by (metis uint_nat)
  have pos: "uint (offset + 8) = int (unat offset + 8)" "uint (offset + 8 + of_nat (?nl + 1)) = int (unat offset + 9 + ?nl)"
    "uint offset = int (unat offset)"
    using i [of 8] i [of "9 + ?nl"] i [of 0] by (simp_all add: add.assoc)
  have len: "(8 + of_nat ?nl + 1 + of_nat ?vl :: u32) = of_nat (ea_bytes e)"
    by simp
  have mod: "unat (of_nat (ea_bytes e) :: u32) mod 4 = ea_bytes e mod 4"
    using mod4_sum [of 0 "ea_bytes e"] by (simp only: unat_0 dvd_0_right add_0 simp_thms)
  have step: "offset + of_nat (ea_bytes e) + (if of_nat (ea_bytes e) AND (3 :: u32) \<noteq> 0 then 4 - (of_nat (ea_bytes e) AND 3) else 0) =
      offset + of_nat ?n"
    unfolding pad4_word mod by (simp only: of_nat_add add.assoc)
  have sized: "?nl < length (ext_name e)" "?vl \<le> length (ext_value e)"
    using Cons.prems(1) by (simp_all add: ea_sized_def)
  obtain b3 where b3: "encode_ea_entries (e # es) buf offset =
      do { b4 \<leftarrow> (if es \<noteq> [] then mem_write b3 (uint offset) (htole32 (offset + of_nat ?n)) else Some b3);
           encode_ea_entries es b4 (offset + of_nat ?n) }" "length b3 = length buf"
    using fit sized unfolding encode_ea_entries.simps Let_def pos len step by (simp add: mem_simps nat_add_distrib)
  obtain b4 where b4: "(if es \<noteq> [] then mem_write b3 (uint offset) (htole32 (offset + of_nat ?n)) else Some b3) = Some b4"
      "length b4 = length buf"
    using fit b3(2) unfolding pos by (cases "es = []") (simp_all add: mem_simps)
  have "unat (offset + of_nat ?n) + ea_total es \<le> length b4"
    using fit by (simp only: u [OF order_refl] b4(2))
  with Cons.IH [OF _ aligned_step [OF Cons.prems(2), of "ea_bytes e"], of b4] Cons.prems(1,4) b3(1) b4
  show ?case
    by (auto simp: add.assoc)
qed simp

text \<open>C37. The buffer for extended attributes is exactly as large as it has to be: for attributes whose
  names and values are as long as they say, with less than 4 GiB in all, the encoder stays within a buffer of
  the computed size and reports that size as the number of bytes it has used.\<close>

theorem ea_buffer_fits:
  assumes "list_all ea_sized es" and "ea_total es < 2 ^ 32"
  shows "\<exists>b. smb2_encode_file_extended_info es (Some (replicate (unat (smb2_get_file_extended_size es 0)) junk)) (Some len) =
      Some (0, Some b, Some (smb2_get_file_extended_size es 0)) \<and> length b = ea_total es"
proof -
  have s: "smb2_get_file_extended_size es 0 = of_nat (ea_total es)" "unat (of_nat (ea_total es) :: u32) = ea_total es"
    using ea_size_total [of 0 es] assms(2) by (simp_all add: unat_of_nat)
  show ?thesis
    using encode_entries_fit [OF assms(1), of 0 "replicate (ea_total es) junk"] assms(2)
    unfolding s by (auto simp: smb2_encode_file_extended_info_def)
qed

theorem ea_buffer_fits_witness:
  "\<exists>b. smb2_encode_file_extended_info [ex_ea 0x41, ex_ea 0x42] (Some (replicate (unat (smb2_get_file_extended_size [ex_ea 0x41, ex_ea 0x42] 0)) 7))
      (Some 0) = Some (0, Some b, Some (smb2_get_file_extended_size [ex_ea 0x41, ex_ea 0x42] 0)) \<and> length b = 24"
  using ea_buffer_fits [of "[ex_ea 0x41, ex_ea 0x42]" 7 0] by (simp add: ea_sized_def ex_ea_def)

end
