(* ===== verification/Smb2_Lifetime.thy ===== *)
theory Smb2_Lifetime
  imports Smb2_Limits
begin

text \<open>
  Objects that are used after their end. The client keeps pointers to application data, file
  handles and directories in queued requests and hands them to its caller; the lemmas below show the
  paths on which such a pointer outlives its object.
\<close>

section \<open>A request that outlives its call\<close>

context request_builder
begin

lemma poll_failure_call:
  assumes "idle c" and "pre c" and "c_fresh c = d # m" and "d \<noteq> 0" and "c_heap c d = None" and "n_polls net = PollFailed # evs"
  shows "\<exists>c' e net' p. run_request env func failed kind (build env) k c err net = Some (failed SMB2_STATUS_SOCKET_ERROR, c', e, net') \<and>
    c_outqueue c' = [(c_message_id c, [p])] \<and> p_appData p = d \<and> c_heap c' d = None \<and> isConnected c'"
proof -
  let ?c = "put_cell (c\<lparr>c_fresh := m\<rparr>) d (CApp (new_app_data kind))"
  have c: "idle ?c" "pre ?c" "app_at ?c d = Some (new_app_data kind)"
    using assms(1) new_frame [OF assms(2,5)] by simp_all
  obtain p c1 where b: "build env ?c d = Some (0, c1)" "queued_request (fill ?c d) command d (body ?c) p c1"
    using builds [OF c, of env] by blast
  obtain h where h: "fill ?c d = ?c\<lparr>c_heap := h\<rparr>"
    using fill_heap by blast
  obtain i where c1: "c1 = ?c\<lparr>c_heap := h, c_message_id := i, c_outqueue := [(c_message_id c, [p])]\<rparr>" "p_appData p = d"
    using b(2) by (auto simp: queued_request_def h)
  obtain a where "app_at (fill ?c d) d = Some a"
    using fill_app [OF c(2,3)] by blast
  then have "h d \<noteq> None"
    by (auto simp: h app_at_def split: option.splits)
  moreover have "sendAndReceive env c1 err net =
      Some (-1, c1\<lparr>c_isComplete := False\<rparr>, Msg ''sendAndReceive: Poll failed'' [], net\<lparr>n_polls := evs\<rparr>)"
    using assms(1,6) by (auto simp: sendAndReceive_def c1 idle_def put_cell_def)
  ultimately have "run_request env func failed kind (build env) k c err net =
      Some (failed SMB2_STATUS_SOCKET_ERROR, c1\<lparr>c_isComplete := False, c_heap := h(d := None)\<rparr>,
        Pre func [] (Msg ''sendAndReceive: Poll failed'' []), net\<lparr>n_polls := evs\<rparr>)"
    using new_cell_some [OF assms(3-5)] b(1) assms(4) by (simp add: run_request_def delete_cell_def c1)
  then show ?thesis
    using c1 assms(1) by (auto simp: idle_def isConnected_def put_cell_def)
qed

end

text \<open>When \<^verbatim>\<open>poll\<close> fails, a synchronous call returns the socket error and destroys its application
  data, but the request stays in the out queue of a context that still counts as connected: it will be
  sent by the next call, and it refers to the object that is gone. Shown for echo, flush, close and read.\<close>

lemma failed_call_leaves_request:
  assumes "idle c" and "fh_at c fh = Some f" and "0 < cnt" and "0 < c_max_read_size c"
    and "c_fresh c = d # m" and "d \<noteq> 0" and "c_heap c d = None" and "n_polls net = PollFailed # evs"
    and "r \<in> {smb2_echo env c err net, smb2_fsync env c fh err net, smb2_close env c fh err net, smb2_pread env c fh buf cnt offset err net}"
  shows "\<exists>c' e net' p. r = Some (SMB2_STATUS_SOCKET_ERROR, c', e, net') \<and>
    c_outqueue c' = [(c_message_id c, [p])] \<and> p_appData p = d \<and> c_heap c' d = None \<and> isConnected c'"
proof -
  have con: "isConnected c" and fh: "fh_at c fh \<noteq> None" "fh \<noteq> d"
    using connected_idle [OF assms(1)] assms(2) fh_alive [OF assms(2,7)] by simp_all
  note rc = read_call [OF assms(1-3)]
  consider "r = smb2_echo env c err net" | "r = smb2_fsync env c fh err net" | "r = smb2_close env c fh err net"
    | "r = smb2_pread env c fh buf cnt offset err net"
    using assms(9) by blast
  then show ?thesis
  proof cases
    case 1
    then show ?thesis
      using echo_builder.poll_failure_call [OF assms(1) TrueI assms(5-8), where failed = id] con by (simp add: smb2_echo_def if_connected_def)
  next
    case 2
    then show ?thesis
      using flush_builder.poll_failure_call [OF assms(1) fh(1) assms(5-8), where failed = id] con by (simp add: smb2_fsync_def if_connected_def)
  next
    case 3
    then show ?thesis
      using close_builder.poll_failure_call [OF assms(1) fh(1) assms(5-8), where failed = id] con by (simp add: smb2_close_def if_connected_def)
  next
    case 4
    then show ?thesis
      using read_builder.poll_failure_call [OF rc(2), of fh cnt d m net evs env "''smb2_pread: ''" id buf offset _ err] assms fh rc(1,4)
      by simp
  qed
qed

section \<open>A path that cannot be converted\<close>

lemma set_error_some: "app_at c d = Some a \<Longrightarrow> setErrorMsg c d e = Some (put_cell c d (CApp (a\<lparr>ad_errMsg := e\<rparr>)))"
  by (simp add: setErrorMsg_def)

lemma put_delete: "(put_cell c d x)\<lparr>c_heap := (c_heap (put_cell c d x))(d := None)\<rparr> = c\<lparr>c_heap := (c_heap c)(d := None)\<rparr>"
  by (simp add: put_cell_def)

lemma bad_name_create:
  assumes "cr_name req = Some (x # xs)" and "x \<noteq> 0" and "utf8_to_ucs2 (x # xs) = Some None"
    and "d \<noteq> 0" and "app_at c d = Some a"
  shows "\<exists>e. Smb2Create_createPdu c req d = (if ad_bDelete a then Some (None, c\<lparr>c_heap := (c_heap c)(d := None)\<rparr>)
      else Some (None, put_cell c d (CApp (a\<lparr>ad_errMsg := e\<rparr>))))"
proof -
  have "p_appData (push_iov (Smb2Pdu c SMB2_CREATE d) v) = d" for v
    by (simp add: push_iov_def Smb2Pdu_def Let_def)
  then show ?thesis
    using assms by (auto simp: Smb2Create_createPdu_def finish_pdu_def Smb2Create_encodeRequest_def has_name_def fail_with_def set_error_some
        delete_cell_def put_delete) (simp add: put_cell_def)
qed

lemma bad_path_create:
  assumes "path = x # xs" and "x \<noteq> 0" and "utf8_to_ucs2 (c_str path) = Some None"
    and "c_fresh c = q # m" and "q \<noteq> 0" and "c_heap c q = None" and "d \<noteq> 0" and "app_at c d = Some (new_app_data CreateData)"
  shows "\<exists>c'. Smb2BuildCreateRequest env c path sf il cf da fa sa cd co d = Some (MINUS_ENOMEM, c') \<and> c_heap c' d = None"
proof -
  have p: "c_str path = x # (xs @ [0])" "utf8_to_ucs2 (x # (xs @ [0])) = Some None" and ne: "q \<noteq> d"
    using assms(1,3,6,8) by (auto simp: c_str_def app_at_def)
  let ?a = "setFH q (new_app_data CreateData)"
  let ?c = "put_cell (put_cell (c\<lparr>c_fresh := m\<rparr>) q (CFh (new_smb2fh (e_offset env)))) d (CApp ?a)"
  have a: "app_at ?c d = Some ?a" "\<not> ad_bDelete ?a"
    by (simp_all add: setFH_def new_app_data_def)
  have n: "new_cell c x = Some (q, put_cell (c\<lparr>c_fresh := m\<rparr>) q x)" for x
    by (rule new_cell_some [OF assms(4-6)])
  let ?req = "\<lparr>cr_security_flags = sf, cr_requested_oplock_level = 0, cr_impersonation_level = il, cr_smb_create_flags = cf,
     cr_desired_access = da, cr_file_attributes = fa, cr_share_access = sa, cr_create_disposition = cd,
     cr_create_options = create_options_of ?c co, cr_name = Some (c_str path), cr_create_context_length = 0, cr_create_context = None\<rparr>"
  obtain e where "Smb2Create_createPdu ?c ?req d = Some (None, put_cell ?c d (CApp (?a\<lparr>ad_errMsg := e\<rparr>)))"
    using bad_name_create [OF _ assms(2) p(2) assms(7) a(1), of ?req] a(2) p(1) by auto
  then show ?thesis
    using assms(7,8) ne by (simp add: Smb2BuildCreateRequest_def n upd_app_def prefix_error_def set_error_some delete_cell_def)
qed

text \<open>A path that is not valid UTF-8 makes opening a file and querying a file by its path undefined:
  the builder deletes the caller's local object in the first case, and in the second it reads the
  object that the destructor of the request has deleted.\<close>

lemma bad_path_undefined:
  assumes "isConnected c" and "path = x # xs" and "x \<noteq> 0" and "utf8_to_ucs2 (c_str path) = Some None"
    and "c_fresh c = q1 # q2 # q3 # m" and "distinct [0, q1, q2, q3]" and "c_heap c q1 = None" "c_heap c q2 = None" "c_heap c q3 = None"
  shows "smb2_open env c path flags err net = None \<and> smb2_stat env c path st err net = None"
proof
  have ne: "q1 \<noteq> 0" "q2 \<noteq> 0" "q3 \<noteq> 0" "q1 \<noteq> q2" "q1 \<noteq> q3" "q2 \<noteq> q3"
    using assms(6) by auto
  have n: "new_cell c x = Some (q1, put_cell (c\<lparr>c_fresh := q2 # q3 # m\<rparr>) q1 x)" for x
    by (rule new_cell_some [OF assms(5) ne(1) assms(7)])
  show "smb2_open env c path flags err net = None"
    using bad_path_create [OF assms(2-4), of "put_cell (c\<lparr>c_fresh := q2 # q3 # m\<rparr>) q1 (CApp (new_app_data CreateData))" q2 "q3 # m" q1
        env 0 SMB2_IMPERSONATION_IMPERSONATION 0 "open_access flags" 0 "SMB2_FILE_SHARE_READ OR SMB2_FILE_SHARE_WRITE"
        "open_disposition flags" "open_options flags"] ne assms(1,8)
    by (auto simp: smb2_open_def if_connected_def run_request_def n app_at_def)
  let ?i = "CInfo \<lparr>fi_info_type = SMB2_0_INFO_FILE, fi_file_info_class = SMB2_FILE_ALL_INFORMATION, fi_u_info = UNone\<rparr>"
  let ?c1 = "put_cell (c\<lparr>c_fresh := q2 # q3 # m\<rparr>) q1 ?i"
  let ?c2 = "put_cell (?c1\<lparr>c_fresh := q3 # m\<rparr>) q2 (CApp (new_app_data QueryInfoData))"
  let ?c3 = "put_cell (?c2\<lparr>c_fresh := m\<rparr>) q3 (CApp (setDelete True (new_app_data CreateData)))"
  have p: "c_str path = x # (xs @ [0])" "utf8_to_ucs2 (x # (xs @ [0])) = Some None"
    using assms(2,4) by (simp_all add: c_str_def)
  have n2: "new_cell ?c1 x = Some (q2, put_cell (?c1\<lparr>c_fresh := q3 # m\<rparr>) q2 x)" for x
    using ne assms(8) by (intro new_cell_some) simp_all
  have n3: "new_cell ?c2 x = Some (q3, put_cell (?c2\<lparr>c_fresh := m\<rparr>) q3 x)" for x
    using ne assms(9) by (intro new_cell_some) simp_all
  have "app_at ?c3 q3 = Some (setDelete True (new_app_data CreateData))" "ad_bDelete (setDelete True (new_app_data CreateData))"
    by (simp_all add: setDelete_def)
  then have "Smb2Create_createPdu ?c3 (open_request c' path acc share) q3 = Some (None, ?c3\<lparr>c_heap := (c_heap ?c3)(q3 := None)\<rparr>)" for c' acc share
    using bad_name_create [OF _ assms(3) p(2) ne(3), of "open_request c' path acc share" ?c3] by (auto simp: open_request_def p(1))
  moreover have "info_at ?c2 q1 = Some \<lparr>fi_info_type = SMB2_0_INFO_FILE, fi_file_info_class = SMB2_FILE_ALL_INFORMATION, fi_u_info = UNone\<rparr>"
    using ne by (simp add: info_at_def)
  ultimately have "Smb2BuildQueryInfoRequest_path env ?c2 path q1 q2 = None"
    using ne by (simp add: Smb2BuildQueryInfoRequest_path_def build_compound_def n3 app_at_def)
  then show "smb2_stat env c path st err net = None"
    using assms(1) by (simp add: smb2_stat_def stat_call_def query_info_call_def if_connected_def n n2 run_request_def)
qed

section \<open>A handle that has been deleted\<close>

text \<open>When an open fails, the reply handler deletes the file handle, but the application data still point to it, and the call returns that pointer.\<close>

lemma failed_open_returns_dead_handle:
  assumes "app_at c (p_appData p) = Some a" and "ad_kind a = CreateData" and "fh_at c (ad_fh a) = Some f" and "ad_fh a \<noteq> 0"
    and "hdr_status (p_header_resp p) \<noteq> 0"
  shows "\<exists>c' e. Smb2Create_ProcessReplyAndAppData c p = Some (0, c', p) \<and>
    returned_fh func c' (p_appData p) err net = Some (ad_fh a, c', e, net) \<and> c_heap c' (ad_fh a) = None"
proof -
  have "p_appData p \<noteq> ad_fh a"
    using assms(1,3) by (auto simp: app_at_def fh_at_def split: option.splits cell.splits)
  moreover have "c_heap c (ad_fh a) \<noteq> None"
    using assms(3) by (auto simp: fh_at_def split: option.splits)
  ultimately show ?thesis
    using assms by (simp add: Smb2Create_ProcessReplyAndAppData_def Let_def setNtStatus_def status_msg_def setErrorMsg_def getFH_def delete_cell_def
        returned_fh_def endSendReceive_def put_cell_def app_at_def)
qed

end
