(* ===== verification/Smb2_DceRpc.thy ===== *)
theory Smb2_DceRpc
  imports Smb2_InfoCmds
begin

text \<open>
  \<^verbatim>\<open>DceRpc.cpp\<close> and \<^verbatim>\<open>DceRpc.h\<close>: the remote procedure calls the client makes over a named pipe, to
  enumerate shares (srvsvc) and to translate a name into a SID (lsarpc). The structs of the header are packed and
  are copied to and from memory as they are; \<open>..._bytes\<close> gives the memory of a struct and
  \<open>..._of\<close> the struct in a piece of memory. A buffer is the memory from the given pointer to the end of
  its object; an access outside it is \<open>None\<close>. The static counter \<^verbatim>\<open>global_call_id\<close> is passed along.
\<close>

section \<open>Structs\<close>

record rpc_data_representation =
  dr_byte_order :: u8
  dr_char_encoding :: u8
  dr_floating_point :: u8
  dr_padding :: u8

record rpc_header =
  rh_version_major :: u8
  rh_version_minor :: u8
  rh_packet_type :: u8
  rh_packet_flags :: u8
  rh_data_rep :: rpc_data_representation
  rh_frag_length :: u16
  rh_auth_length :: u16
  rh_call_id :: u32

record rpc_bind_request =
  rb_dceRpcHdr :: rpc_header
  rb_max_xmit_frag :: u16
  rb_max_recv_frag :: u16
  rb_assoc_group :: u32
  rb_num_context_items :: u8
  rb_padding :: bytes

record rpc_bind_response =
  ra_dceRpcHdr :: rpc_header
  ra_max_xmit_frag :: u16
  ra_max_recv_frag :: u16

record rpc_bind_nack_response =
  rn_dceRpcHdr :: rpc_header
  rn_reject_reason :: u16

datatype ContextType = CONTEXT_SRVSVC | CONTEXT_LSARPC

record context_item =
  ci_context_id :: u16
  ci_num_trans_items :: u16
  ci_interface_uuid :: bytes
  ci_interface_version_major :: u16
  ci_interface_version_minor :: u16
  ci_transfer_syntax :: bytes
  ci_syntax_version_major :: u16
  ci_syntax_version_minor :: u16

record DceRpcOperationRequest =
  oq_dceRpcHdr :: rpc_header
  oq_alloc_hint :: u32
  oq_context_id :: u16
  oq_opnum :: u16

record DceRpcOperationResponse =
  os_dceRpcHdr :: rpc_header
  os_alloc_hint :: u32
  os_context_id :: u16
  os_cancel_count :: u8
  os_padding :: u8

record InfoStruct =
  is_info_level :: u32
  is_switch_value :: u32
  is_referent_id :: u32
  is_num_entries :: u32
  is_array_referent_id :: u32

record smb2_shareinfo =
  shi_name :: bytes
  shi_share_type :: u32
  shi_remark :: bytes
  shi_permissions :: u32
  shi_max_uses :: u32
  shi_current_uses :: u32
  shi_path :: bytes
  shi_password :: bytes

record smb2_shares =
  share_info_type :: u32
  sharelist :: "smb2_shareinfo list"

record PolicyHandle =
  ph_ContextType :: u32
  ph_a :: u32
  ph_b :: u16
  ph_c :: u16
  ph_d :: bytes

definition new_smb2_shareinfo :: smb2_shareinfo where
  "new_smb2_shareinfo = \<lparr>shi_name = [], shi_share_type = 0, shi_remark = [], shi_permissions = 0, shi_max_uses = 0,
     shi_current_uses = 0, shi_path = [], shi_password = []\<rparr>"

abbreviation (input) "RPC_PACKET_TYPE_REQUEST \<equiv> (0x00 :: u8)"
abbreviation (input) "RPC_PACKET_TYPE_BIND \<equiv> (0x0b :: u8)"
abbreviation (input) "RPC_PACKET_TYPE_BINDACK \<equiv> (0x0c :: u8)"
abbreviation (input) "RPC_PACKET_TYPE_BINDNACK \<equiv> (0x0d :: u8)"
abbreviation (input) "RPC_FLAG_FIRST_FRAG \<equiv> (0x01 :: u8)"
abbreviation (input) "RPC_FLAG_LAST_FRAG \<equiv> (0x02 :: u8)"
abbreviation (input) "DCE_OP_CLOSE_POLICY \<equiv> (0 :: u16)"
abbreviation (input) "DCE_OP_LOOKUP_NAMES \<equiv> (14 :: u16)"
abbreviation (input) "DCE_OP_SHARE_ENUM \<equiv> (15 :: u16)"
abbreviation (input) "DCE_OP_OPEN_POLICY2 \<equiv> (44 :: u16)"
abbreviation (input) "RIGHT_TO_LOOKUP_NAMES \<equiv> (0x00000800 :: u32)"

definition rpc_header_bytes :: "rpc_header \<Rightarrow> bytes" where
  "rpc_header_bytes h =
     [rh_version_major h, rh_version_minor h, rh_packet_type h, rh_packet_flags h,
      dr_byte_order (rh_data_rep h), dr_char_encoding (rh_data_rep h), dr_floating_point (rh_data_rep h), dr_padding (rh_data_rep h)] @
     htole16 (rh_frag_length h) @ htole16 (rh_auth_length h) @ htole32 (rh_call_id h)"

definition rpc_header_of :: "bytes \<Rightarrow> rpc_header" where
  "rpc_header_of b =
     \<lparr>rh_version_major = b ! 0, rh_version_minor = b ! 1, rh_packet_type = b ! 2, rh_packet_flags = b ! 3,
      rh_data_rep = \<lparr>dr_byte_order = b ! 4, dr_char_encoding = b ! 5, dr_floating_point = b ! 6, dr_padding = b ! 7\<rparr>,
      rh_frag_length = le16toh (sub_bytes b 8 2), rh_auth_length = le16toh (sub_bytes b 10 2),
      rh_call_id = le32toh (sub_bytes b 12 4)\<rparr>"

definition bind_request_bytes :: "rpc_bind_request \<Rightarrow> bytes" where
  "bind_request_bytes bnd = rpc_header_bytes (rb_dceRpcHdr bnd) @ htole16 (rb_max_xmit_frag bnd) @
     htole16 (rb_max_recv_frag bnd) @ htole32 (rb_assoc_group bnd) @ [rb_num_context_items bnd] @ rb_padding bnd"

definition context_item_bytes :: "context_item \<Rightarrow> bytes" where
  "context_item_bytes ctx = htole16 (ci_context_id ctx) @ htole16 (ci_num_trans_items ctx) @ ci_interface_uuid ctx @
     htole16 (ci_interface_version_major ctx) @ htole16 (ci_interface_version_minor ctx) @ ci_transfer_syntax ctx @
     htole16 (ci_syntax_version_major ctx) @ htole16 (ci_syntax_version_minor ctx)"

definition operation_request_bytes :: "DceRpcOperationRequest \<Rightarrow> bytes" where
  "operation_request_bytes q = rpc_header_bytes (oq_dceRpcHdr q) @ htole32 (oq_alloc_hint q) @
     htole16 (oq_context_id q) @ htole16 (oq_opnum q)"

section \<open>Binding\<close>

definition set_context_uuid :: "u32 \<Rightarrow> u16 \<Rightarrow> u16 \<Rightarrow> bytes \<Rightarrow> bytes" where
  "set_context_uuid a b c d = htole32 a @ htole16 b @ htole16 c @ d"

definition init_rpc_data_representation :: rpc_data_representation where
  "init_rpc_data_representation = \<lparr>dr_byte_order = 0x10, dr_char_encoding = 0, dr_floating_point = 0, dr_padding = 0\<rparr>"

definition init_rpc_header :: rpc_header where
  "init_rpc_header = \<lparr>rh_version_major = 5, rh_version_minor = 0, rh_packet_type = 0, rh_packet_flags = 0,
     rh_data_rep = init_rpc_data_representation, rh_frag_length = 0, rh_auth_length = 0, rh_call_id = 0\<rparr>"

definition init_rpc_bind_request :: rpc_bind_request where
  "init_rpc_bind_request = \<lparr>rb_dceRpcHdr = init_rpc_header, rb_max_xmit_frag = 32 * 1024, rb_max_recv_frag = 32 * 1024,
     rb_assoc_group = 0, rb_num_context_items = 0, rb_padding = [0, 0, 0]\<rparr>"

definition dcerpc_init_context :: "ContextType \<Rightarrow> context_item" where
  "dcerpc_init_context type =
     (let (cid, uuid, major, minor) =
        (case type of
           CONTEXT_SRVSVC \<Rightarrow> (1, set_context_uuid 0x4b324fc8 0x1670 0x01d3 [0x12, 0x78, 0x5a, 0x47, 0xbf, 0x6e, 0xe1, 0x88], 3, 0)
         | CONTEXT_LSARPC \<Rightarrow> (0, set_context_uuid 0x12345778 0x1234 0xabcd [0xef, 0x00, 0x01, 0x23, 0x45, 0x67, 0x89, 0xab], 0, 0))
      in \<lparr>ci_context_id = cid, ci_num_trans_items = 1, ci_interface_uuid = uuid, ci_interface_version_major = major,
          ci_interface_version_minor = minor,
          ci_transfer_syntax = set_context_uuid 0x8a885d04 0x1ceb 0x11c9 [0x9f, 0xe8, 0x08, 0x00, 0x2b, 0x10, 0x48, 0x60],
          ci_syntax_version_major = 2, ci_syntax_version_minor = 0\<rparr>)"

definition dcerpc_create_bind_req :: "u64 \<Rightarrow> int \<Rightarrow> rpc_bind_request \<times> u64" where
  "dcerpc_create_bind_req global_call_id num_context_items =
     (init_rpc_bind_request\<lparr>
        rb_dceRpcHdr := init_rpc_header\<lparr>rh_packet_type := RPC_PACKET_TYPE_BIND,
          rh_packet_flags := RPC_FLAG_FIRST_FRAG OR RPC_FLAG_LAST_FRAG,
          rh_frag_length := of_int (28 + num_context_items * 44), rh_call_id := ucast global_call_id\<rparr>,
        rb_num_context_items := of_int num_context_items\<rparr>,
      global_call_id + 1)"

text \<open>The three readers of a struct: a null pointer or too short a length is the result \<open>false\<close>.\<close>

definition get_struct :: "nat \<Rightarrow> (bytes \<Rightarrow> 's) \<Rightarrow> bytes option \<Rightarrow> u32 \<Rightarrow> 's option option" where
  "get_struct n of_bytes buf buf_len =
     (case buf of None \<Rightarrow> Some None
      | Some buf \<Rightarrow> if unat buf_len < n then Some None
                    else do { b \<leftarrow> mem_read buf 0 n; Some (Some (of_bytes b)) })"

definition dcerpc_get_response_header :: "bytes option \<Rightarrow> u32 \<Rightarrow> rpc_header option option" where
  "dcerpc_get_response_header = get_struct 16 rpc_header_of"

definition dcerpc_get_bind_ack_response :: "bytes option \<Rightarrow> u32 \<Rightarrow> rpc_bind_response option option" where
  "dcerpc_get_bind_ack_response = get_struct 20 (\<lambda>b. \<lparr>ra_dceRpcHdr = rpc_header_of b,
     ra_max_xmit_frag = le16toh (sub_bytes b 16 2), ra_max_recv_frag = le16toh (sub_bytes b 18 2)\<rparr>)"

definition dcerpc_get_bind_nack_response :: "bytes option \<Rightarrow> u32 \<Rightarrow> rpc_bind_nack_response option option" where
  "dcerpc_get_bind_nack_response = get_struct 18 (\<lambda>b. \<lparr>rn_dceRpcHdr = rpc_header_of b,
     rn_reject_reason = le16toh (sub_bytes b 16 2)\<rparr>)"

section \<open>Operations\<close>

definition dcerpc_init_Operation_Request :: "u16 \<Rightarrow> DceRpcOperationRequest" where
  "dcerpc_init_Operation_Request opnum =
     \<lparr>oq_dceRpcHdr = init_rpc_header, oq_alloc_hint = 0, oq_context_id = (if opnum = DCE_OP_SHARE_ENUM then 1 else 0),
      oq_opnum = opnum\<rparr>"

definition dcerpc_create_Operation_Request :: "u64 \<Rightarrow> u16 \<Rightarrow> u32 \<Rightarrow> DceRpcOperationRequest \<times> u64" where
  "dcerpc_create_Operation_Request global_call_id opnum payload_size =
     ((dcerpc_init_Operation_Request opnum)\<lparr>
        oq_dceRpcHdr := init_rpc_header\<lparr>rh_packet_type := RPC_PACKET_TYPE_REQUEST,
          rh_packet_flags := RPC_FLAG_FIRST_FRAG OR RPC_FLAG_LAST_FRAG,
          rh_frag_length := 24 + ucast payload_size, rh_call_id := ucast global_call_id\<rparr>,
        oq_alloc_hint := payload_size\<rparr>,
      global_call_id + 1)"

definition operation_response_of :: "bytes \<Rightarrow> DceRpcOperationResponse" where
  "operation_response_of b = \<lparr>os_dceRpcHdr = rpc_header_of b, os_alloc_hint = le32toh (sub_bytes b 16 4),
     os_context_id = le16toh (sub_bytes b 20 2), os_cancel_count = b ! 22, os_padding = b ! 23\<rparr>"

definition dcerpc_parse_Operation_Response ::
  "bytes \<Rightarrow> u32 \<Rightarrow> ((err_msg \<times> u32 option) + DceRpcOperationResponse) option" where
  \<comment> \<open>\<open>Inl\<close> is the result -1 with the message and the status, if it was written\<close>
  "dcerpc_parse_Operation_Response buffer buf_len =
     (if unat buf_len < 24
      then Some (Inl (Msg ''dcerpc_parse_Operation_Response: Response too small for DceRpcOperationResponse'' [], None))
      else do {
        b \<leftarrow> mem_read buffer 0 24;
        if buf_len - 24 \<le> 8
        then do { s \<leftarrow> mem_read buffer 24 4;
                  let status = le32toh s;
                  Some (Inl (Msg ''dcerpc_parse_Operation_Response: Got Error Response, status - %x'' [ucast status], Some status)) }
        else Some (Inr (operation_response_of b)) })"

definition dcerpc_get_reject_reason :: "u16 \<Rightarrow> string" where
  "dcerpc_get_reject_reason reason =
     (if reason = 0 then ''Reason not specified''
      else if reason = 1 then ''Temporary congestion''
      else if reason = 2 then ''Local limit exceeded''
      else if reason = 3 then ''Called paddr unknown''
      else if reason = 4 then ''Protocol version not supported''
      else if reason = 5 then ''Default context not supported''
      else if reason = 6 then ''User data not readable''
      else if reason = 7 then ''No PSAP available''
      else if reason = 8 then ''Authentication type not recognized''
      else if reason = 9 then ''Invalid checksum''
      else ''UNKNOWN Reject Reason'')"

section \<open>Strings in a request\<close>

type_synonym create_request = "(err_msg + bytes \<times> u32) option"
  \<comment> \<open>the buffer and the number of bytes used in it\<close>

definition align4 :: "u32 \<Rightarrow> u32" where
  \<comment> \<open>\<^verbatim>\<open>if ((x & 0x03) != 0) { padlen = 4 - (x & 0x03); x += padlen; }\<close>\<close>
  "align4 x = (if x AND 3 \<noteq> 0 then x + (4 - (x AND 3)) else x)"

definition at_offset_of :: "bytes \<Rightarrow> u32 \<Rightarrow> (bytes \<Rightarrow> create_request) \<Rightarrow> create_request" where
  \<comment> \<open>the call with the pointer \<^verbatim>\<open>buf + offset\<close>\<close>
  "at_offset_of buf offset f =
     do { p \<leftarrow> mem_ptr buf (uint offset);
          r \<leftarrow> f p;
          case r of Inl e \<Rightarrow> Some (Inl e) | Inr (b, used) \<Rightarrow> Some (Inr (take (unat offset) buf @ b, used)) }"

definition dcerpc_init_stringValue :: "bytes \<Rightarrow> bool \<Rightarrow> bytes \<Rightarrow> u32 \<Rightarrow> create_request" where
  "dcerpc_init_stringValue String bTerminateNull buf buf_len =
     (let len = (if bTerminateNull then of_nat (length String) + 1 else of_nat (length String)) :: u32;
          size_required = 12 + len * 2 in
      do { name \<leftarrow> utf8_to_ucs2 (c_str String);
           case name of
             None \<Rightarrow> Some (Inl (Msg ''dcerpc_init_stringValue: failed to convert server name to ucs2'' []))
           | Some val \<Rightarrow>
               if buf_len < size_required then Some (Inl (Msg ''dcerpc_init_stringValue: buffer too small'' []))
               else do { buf \<leftarrow> mem_write buf 0 (htole32 len @ htole32 0 @ htole32 len);
                         buf \<leftarrow> mem_write buf 12 (ucs2_bytes val);
                         Some (Inr (buf, size_required)) } })"

definition dcerpc_init_serverName :: "u32 \<Rightarrow> bytes \<Rightarrow> bytes \<Rightarrow> u32 \<Rightarrow> create_request" where
  "dcerpc_init_serverName refid name buf buf_len =
     do { buf \<leftarrow> mem_write buf 0 (htole32 refid);
          r \<leftarrow> at_offset_of buf 4 (\<lambda>p. dcerpc_init_stringValue name True p (buf_len - 4));
          case r of Inl e \<Rightarrow> Some (Inl e) | Inr (buf, size_name) \<Rightarrow> Some (Inr (buf, 4 + size_name)) }"

section \<open>Enumerating shares\<close>

definition srvsvc_init_InfoStruct :: "u32 \<Rightarrow> u32 \<Rightarrow> u32 \<Rightarrow> u32 \<Rightarrow> bytes" where
  "srvsvc_init_InfoStruct infolevel referent entries arrayId =
     htole32 infolevel @ htole32 infolevel @ htole32 referent @ htole32 entries @ htole32 arrayId"

definition srvsvc_create_NetrShareEnumRequest :: "bytes \<Rightarrow> u32 \<Rightarrow> u64 \<Rightarrow> bytes \<Rightarrow> u32 \<Rightarrow> create_request" where
  "srvsvc_create_NetrShareEnumRequest server_name shinfo_type resumeHandle buffer buffer_len =
     do { r \<leftarrow> dcerpc_init_serverName 0x0026e53c server_name buffer buffer_len;
          case r of Inl e \<Rightarrow> Some (Inl e)
          | Inr (buffer, size_used) \<Rightarrow> do {
              let offset = align4 size_used;
              buffer \<leftarrow> mem_write buffer (uint offset) (srvsvc_init_InfoStruct shinfo_type 0x01fbf3e8 0 0);
              let offset = offset + 20;
              buffer \<leftarrow> mem_write buffer (uint offset) (htole32 0xffffffff);
              let offset = offset + 4;
              buffer \<leftarrow> mem_write buffer (uint offset) (htole32 (ucast resumeHandle));
              Some (Inr (buffer, offset + 4)) } }"

definition read_u32 :: "bytes \<Rightarrow> u32 \<Rightarrow> u32 option" where
  \<comment> \<open>\<^verbatim>\<open>le32toh(*(uint32_t *)(buffer+offset))\<close>\<close>
  "read_u32 buffer offset = do { b \<leftarrow> mem_read buffer (uint offset) 4; Some (le32toh b) }"

definition srvsvc_get_NetrShareEnum_status :: "bytes \<Rightarrow> u32 \<Rightarrow> u32 option" where
  "srvsvc_get_NetrShareEnum_status buffer buf_len = read_u32 buffer (buf_len - 4)"

definition srvsvc_parse_NetrShareEnum_InfoStruct :: "bytes \<Rightarrow> u32 \<Rightarrow> (err_msg + InfoStruct) option" where
  "srvsvc_parse_NetrShareEnum_InfoStruct buffer buf_len =
     (if unat buf_len < 20 then Some (Inl (Msg ''srvsvc_parse_NetrShareEnum_InfoStruct:response too small for InfoStruct'' []))
      else do {
        l \<leftarrow> read_u32 buffer 0; s \<leftarrow> read_u32 buffer 4; r \<leftarrow> read_u32 buffer 8; n \<leftarrow> read_u32 buffer 12; a \<leftarrow> read_u32 buffer 16;
        Some (Inr \<lparr>is_info_level = l, is_switch_value = s, is_referent_id = r, is_num_entries = n, is_array_referent_id = a\<rparr>) })"

definition parse_string :: "u8 \<Rightarrow> bool \<Rightarrow> bytes \<Rightarrow> u32 \<Rightarrow> (bytes option \<times> u32) option" where
  \<comment> \<open>one string of the payload: alignment, \<^verbatim>\<open>stringValue\<close>, characters; an optional one of length 0 or 1 is skipped\<close>
  "parse_string junk optional payload payload_offset =
     do { let off = align4 payload_offset;
          b \<leftarrow> mem_read payload (uint off) 12;
          let len = le32toh (sub_bytes b 8 4);
          let off = off + 12;
          s \<leftarrow> (if optional \<and> len \<le> 1 then Some None
                else do { str \<leftarrow> ucs2_to_utf8 junk (raw_ucs2 (drop (unat off) payload)) (sint len);
                          Some (Some (c_string str)) });
          Some (s, off + 2 * len) }"

definition opt_string :: "bytes option \<Rightarrow> bytes" where
  \<comment> \<open>the member of the share is assigned if there is a string, and empty otherwise\<close>
  "opt_string s = (case s of None \<Rightarrow> [] | Some s \<Rightarrow> s)"

fun parse_shares1 :: "u8 \<Rightarrow> bytes \<Rightarrow> bytes \<Rightarrow> nat \<Rightarrow> u32 \<Rightarrow> u32 \<Rightarrow> (smb2_shareinfo list \<times> u32 \<times> u32) option" where
  "parse_shares1 junk buffer payload 0 buffer_offset payload_offset = Some ([], buffer_offset, payload_offset)"
| "parse_shares1 junk buffer payload (Suc n) buffer_offset payload_offset =
     do { info \<leftarrow> mem_read buffer (uint buffer_offset) 12;
          (name, payload_offset) \<leftarrow> parse_string junk False payload payload_offset;
          (remark, payload_offset) \<leftarrow> parse_string junk True payload payload_offset;
          (shs, buffer_offset, payload_offset) \<leftarrow> parse_shares1 junk buffer payload n (buffer_offset + 12) payload_offset;
          Some (new_smb2_shareinfo\<lparr>shi_share_type := le32toh (sub_bytes info 4 4), shi_name := opt_string name,
                  shi_remark := opt_string remark\<rparr> # shs, buffer_offset, payload_offset) }"

fun parse_shares2 :: "u8 \<Rightarrow> bytes \<Rightarrow> bytes \<Rightarrow> nat \<Rightarrow> u32 \<Rightarrow> u32 \<Rightarrow> (smb2_shareinfo list \<times> u32 \<times> u32) option" where
  "parse_shares2 junk buffer payload 0 buffer_offset payload_offset = Some ([], buffer_offset, payload_offset)"
| "parse_shares2 junk buffer payload (Suc n) buffer_offset payload_offset =
     do { info \<leftarrow> mem_read buffer (uint buffer_offset) 32;
          (name, payload_offset) \<leftarrow> parse_string junk False payload payload_offset;
          (remark, payload_offset) \<leftarrow> parse_string junk True payload payload_offset;
          (path, payload_offset) \<leftarrow> parse_string junk True payload payload_offset;
          (passwd, payload_offset) \<leftarrow>
            (if le32toh (sub_bytes info 28 4) \<noteq> 0 then parse_string junk True payload (align4 payload_offset)
             else Some (None, align4 payload_offset));
          (shs, buffer_offset, payload_offset) \<leftarrow> parse_shares2 junk buffer payload n (buffer_offset + 32) payload_offset;
          Some (\<lparr>shi_name = opt_string name, shi_share_type = le32toh (sub_bytes info 4 4), shi_remark = opt_string remark,
                  shi_permissions = le32toh (sub_bytes info 12 4), shi_max_uses = le32toh (sub_bytes info 16 4),
                  shi_current_uses = le32toh (sub_bytes info 20 4), shi_path = opt_string path,
                  shi_password = opt_string passwd\<rparr> # shs, buffer_offset, payload_offset) }"

text \<open>The two functions for the levels 1 and 2, which differ in the size of an entry and in the loop.\<close>

definition parse_share_buffer ::
  "nat \<Rightarrow> (bytes \<Rightarrow> bytes \<Rightarrow> nat \<Rightarrow> u32 \<Rightarrow> u32 \<Rightarrow> (smb2_shareinfo list \<times> u32 \<times> u32) option) \<Rightarrow> u32 \<Rightarrow>
   bytes \<Rightarrow> u32 \<Rightarrow> u32 \<Rightarrow> u32 \<Rightarrow> smb2_shares \<Rightarrow> (smb2_shares \<times> u32 \<times> u32 \<times> u32) option" where
  \<comment> \<open>the shares, \<^verbatim>\<open>total_entries\<close>, \<^verbatim>\<open>resumeHandlePtr\<close>, \<^verbatim>\<open>resumeHandle\<close>\<close>
  "parse_share_buffer entry loop level in_buffer in_buffer_len buffer_consumed share_count shares =
     do { buffer \<leftarrow> mem_ptr in_buffer (uint buffer_consumed);
          payload \<leftarrow> mem_ptr buffer (uint share_count * int entry);
          (shs, buffer_offset, payload_offset) \<leftarrow> loop buffer payload (unat share_count) 0 0;
          let shares = \<lparr>share_info_type = level, sharelist = sharelist shares @ shs\<rparr>;
          let buffer_offset = align4 (buffer_offset + (buffer_consumed + payload_offset));
          total_entries \<leftarrow> read_u32 in_buffer buffer_offset;
          let buffer_offset = buffer_offset + 4;
          resumeHandlePtr \<leftarrow> read_u32 in_buffer buffer_offset;
          resumeHandle \<leftarrow> (if in_buffer_len - buffer_offset = 8 then read_u32 in_buffer (buffer_offset + 4) else Some 0);
          Some (shares, total_entries, resumeHandlePtr, resumeHandle) }"

definition srvsvc_parse_NetrShareEnum_buffer ::
  "u8 \<Rightarrow> bytes \<Rightarrow> u32 \<Rightarrow> u32 \<Rightarrow> u32 \<Rightarrow> smb2_shares \<Rightarrow> (smb2_shares \<times> u32 \<times> u32 \<times> u32) option" where
  "srvsvc_parse_NetrShareEnum_buffer junk = parse_share_buffer 12 (parse_shares1 junk) 1"

definition srvsvc_parse_NetrShareEnum_buffer2 ::
  "u8 \<Rightarrow> bytes \<Rightarrow> u32 \<Rightarrow> u32 \<Rightarrow> u32 \<Rightarrow> smb2_shares \<Rightarrow> (smb2_shares \<times> u32 \<times> u32 \<times> u32) option" where
  "srvsvc_parse_NetrShareEnum_buffer2 junk = parse_share_buffer 32 (parse_shares2 junk) 2"

definition srvsvc_parse_NetrShareEnumResponse ::
  "u8 \<Rightarrow> bytes \<Rightarrow> u32 \<Rightarrow> smb2_shares \<Rightarrow> (err_msg + u32 \<times> smb2_shares \<times> u32 \<times> u32 \<times> u32) option" where
  \<comment> \<open>\<^verbatim>\<open>num_entries\<close>, then the results of the function for the level\<close>
  "srvsvc_parse_NetrShareEnumResponse junk buffer buf_len shares =
     do { r \<leftarrow> srvsvc_parse_NetrShareEnum_InfoStruct buffer buf_len;
          case r of Inl e \<Rightarrow> Some (Inl e)
          | Inr info \<Rightarrow>
              if is_info_level info = 1
              then do { r \<leftarrow> srvsvc_parse_NetrShareEnum_buffer junk buffer buf_len (20 + 4) (is_num_entries info) shares;
                        Some (Inr (is_num_entries info, r)) }
              else if is_info_level info = 2
              then do { r \<leftarrow> srvsvc_parse_NetrShareEnum_buffer2 junk buffer buf_len (20 + 4) (is_num_entries info) shares;
                        Some (Inr (is_num_entries info, r)) }
              else Some (Inl (Msg ''srvsvc_parse_NetrShareEnumResponse: unsupported share info type'' [])) }"

section \<open>Looking up a SID\<close>

definition policy_handle_bytes :: "PolicyHandle \<Rightarrow> bytes" where
  "policy_handle_bytes h = htole32 (ph_ContextType h) @ set_context_uuid (ph_a h) (ph_b h) (ph_c h) (ph_d h)"

definition lsarpc_create_OpenPolicy2Req :: "bytes \<Rightarrow> u32 \<Rightarrow> bytes \<Rightarrow> u32 \<Rightarrow> create_request" where
  "lsarpc_create_OpenPolicy2Req server_name access_mask buffer buffer_len =
     do { r \<leftarrow> dcerpc_init_serverName 0x01414938 server_name buffer buffer_len;
          case r of Inl e \<Rightarrow> Some (Inl e)
          | Inr (buffer, size_used) \<Rightarrow> do {
              let offset = align4 size_used;
              buffer \<leftarrow> mem_write buffer (uint offset) (htole32 24 @ replicate 20 0);
              let offset = offset + 24;
              buffer \<leftarrow> mem_write buffer (uint offset) (htole32 access_mask);
              Some (Inr (buffer, offset + 4)) } }"

definition lsarpc_parse_OpenPolicy2Res :: "bytes \<Rightarrow> u32 \<Rightarrow> (u32 + PolicyHandle) option" where
  \<comment> \<open>\<open>Inl\<close> is the result -1 with the status\<close>
  "lsarpc_parse_OpenPolicy2Res buffer bufLen =
     do { status \<leftarrow> read_u32 buffer (bufLen - 4);
          if status \<noteq> 0 then Some (Inl status)
          else do { b \<leftarrow> mem_read buffer 0 20;
                    Some (Inr \<lparr>ph_ContextType = le32toh (sub_bytes b 0 4), ph_a = le32toh (sub_bytes b 4 4),
                      ph_b = le16toh (sub_bytes b 8 2), ph_c = le16toh (sub_bytes b 10 2), ph_d = sub_bytes b 12 8\<rparr>) } }"

definition lsarpc_create_ClosePolicy2eq :: "PolicyHandle \<Rightarrow> bytes \<Rightarrow> u32 \<Rightarrow> (unit + bytes \<times> u32) option" where
  "lsarpc_create_ClosePolicy2eq handle buffer buffer_len =
     (if unat buffer_len < 20 then Some (Inl ())
      else do { b \<leftarrow> mem_write buffer 0 (policy_handle_bytes handle); Some (Inr (b, 20)) })"

definition lsarpc_create_LookUpNamesReq :: "PolicyHandle \<Rightarrow> bytes \<Rightarrow> bytes \<Rightarrow> bytes \<Rightarrow> u32 \<Rightarrow> create_request" where
  \<comment> \<open>\<^verbatim>\<open>sprintf\<close> prints into an array of 1024 bytes; the name it prints ends at the first NUL\<close>
  "lsarpc_create_LookUpNamesReq handle user domain buffer buffer_len =
     do { let name = c_string domain @ [0x5c] @ c_string user;
          if length name + 1 > 1024 then None
          else do {
            buffer \<leftarrow> mem_write buffer 0 (policy_handle_bytes handle);
            buffer \<leftarrow> mem_write buffer 20 (htole32 1);
            buffer \<leftarrow> mem_write buffer 24 (htole32 1);
            let offset = align4 28;
            buffer \<leftarrow> mem_write buffer (uint offset) (htole16 (of_nat (length name * 2)));
            buffer \<leftarrow> mem_write buffer (uint (offset + 2)) (htole16 (of_nat (length name * 2)));
            buffer \<leftarrow> mem_write buffer (uint (offset + 4)) (htole32 0x0141afb8);
            let offset = offset + 8;
            r \<leftarrow> at_offset_of buffer offset (\<lambda>p. dcerpc_init_stringValue (domain @ [0x5c] @ user) False p (buffer_len - offset));
            case r of Inl e \<Rightarrow> Some (Inl e)
            | Inr (buffer, nameLen) \<Rightarrow> do {
                let offset = align4 (offset + nameLen);
                buffer \<leftarrow> mem_write buffer (uint offset) (htole32 0);
                buffer \<leftarrow> mem_write buffer (uint (offset + 4)) (htole32 0);
                buffer \<leftarrow> mem_write buffer (uint (offset + 8)) (htole16 1);
                let offset = align4 (offset + 10);
                buffer \<leftarrow> mem_write buffer (uint offset) (htole32 0);
                Some (Inr (buffer, offset + 4)) } } }"

definition lsarpc_get_LookupNames_status :: "bytes \<Rightarrow> u32 \<Rightarrow> u32 option" where
  "lsarpc_get_LookupNames_status buffer bufLen = read_u32 buffer (bufLen - 4)"

fun read_sub_auths :: "bytes \<Rightarrow> nat \<Rightarrow> u32 \<Rightarrow> u32 list option" where
  "read_sub_auths buffer 0 offset = Some []"
| "read_sub_auths buffer (Suc n) offset =
     do { x \<leftarrow> read_u32 buffer offset; xs \<leftarrow> read_sub_auths buffer n (offset + 4); Some (x # xs) }"

definition lookup_sid :: "bytes \<Rightarrow> u32 \<Rightarrow> (err_msg + u8 \<times> bytes \<times> u32 list \<times> u32) option" where
  \<comment> \<open>the domain's SID from the alignment before it on: revision, identifier authority, sub-authorities, and the offset behind them\<close>
  "lookup_sid buffer offset =
     do { maxSubAuthCount \<leftarrow> read_u32 buffer offset;
          hd \<leftarrow> mem_read buffer (uint (offset + 4)) 2;
          let sub_auth_count = hd ! 1;
          if maxSubAuthCount \<noteq> ucast sub_auth_count
          then Some (Inl (Msg ''lsarpc_parse_LookupNamesRes: Mismatch of sub-auth counts'' []))
          else do {
            id_auth \<leftarrow> mem_read buffer (uint (offset + 6)) 6;
            let offset = align4 (offset + 12);
            subAuth \<leftarrow> read_sub_auths buffer (unat sub_auth_count) offset;
            Some (Inr (hd ! 0, id_auth, subAuth, align4 (offset + ucast sub_auth_count * 4))) } }"

definition lookup_rid :: "bytes \<Rightarrow> u32 \<Rightarrow> (u32 \<times> u32) option" where
  \<comment> \<open>\<^verbatim>\<open>ridEntries\<close> and \<^verbatim>\<open>RID\<close>, from the alignment behind the SID on\<close>
  "lookup_rid buffer offset =
     do { ridEntries \<leftarrow> read_u32 buffer offset;
          ridMaxCount \<leftarrow> read_u32 buffer (offset + 8);
          sidTypeValue \<leftarrow> mem_read buffer (uint (offset + 12)) 2;
          let offset = align4 (offset + 14);
          RID \<leftarrow> read_u32 buffer offset;
          domainIndex \<leftarrow> read_u32 buffer (offset + 4);
          Some (ridEntries, RID) }"

definition append_rid :: "u8 \<Rightarrow> u8 \<Rightarrow> bytes \<Rightarrow> u32 list \<Rightarrow> u32 \<Rightarrow> u32 \<Rightarrow> bytes option" where
  \<comment> \<open>the buffer is allocated for the SID of the domain and reallocated for as many more sub-authorities as there are
      entries, of which one is written\<close>
  "append_rid junk revision id_auth subAuth ridEntries RID =
     do { let sub_auth_count = (of_nat (length subAuth) + ucast ridEntries :: u8);
          let sidbuf = [revision, of_nat (length subAuth)] @ id_auth @ concat (map htole32 subAuth);
          let n = 8 + 4 * unat sub_auth_count;
          let sidbuf = take n sidbuf @ replicate (n - length sidbuf) junk;
          sidbuf \<leftarrow> mem_write sidbuf 0 [revision, sub_auth_count];
          mem_write sidbuf (8 + 4 * int (length subAuth)) (htole32 RID) }"

definition lsarpc_parse_LookupNamesRes :: "u8 \<Rightarrow> bytes \<Rightarrow> u32 \<Rightarrow> ((u32 \<times> err_msg option) + bytes) option" where
  \<comment> \<open>\<open>Inl\<close> is the result -1 with the status and the message, if there is one; \<open>Inr\<close> the buffer of the SID\<close>
  "lsarpc_parse_LookupNamesRes junk buffer bufLen =
     do { status \<leftarrow> read_u32 buffer (bufLen - 4);
          if status \<noteq> 0 then Some (Inl (status, None))
          else do {
            numEntries \<leftarrow> read_u32 buffer 4;
            MaxEntries \<leftarrow> read_u32 buffer 12;
            MaxCount \<leftarrow> read_u32 buffer 16;
            let offset = align4 20;
            Length \<leftarrow> mem_read buffer (uint offset) 2;
            MaxLength \<leftarrow> mem_read buffer (uint (offset + 2)) 2;
            domainName \<leftarrow> mem_read buffer (uint (offset + 12)) 12;
            let offset = align4 (offset + 24 + 2 * le32toh (sub_bytes domainName 8 4));
            r \<leftarrow> lookup_sid buffer offset;
            case r of Inl e \<Rightarrow> Some (Inl (status, Some e))
            | Inr (revision, id_auth, subAuth, offset) \<Rightarrow> do {
                (ridEntries, RID) \<leftarrow> lookup_rid buffer offset;
                sidbuf \<leftarrow> append_rid junk revision id_auth subAuth ridEntries RID;
                Some (Inr sidbuf) } } }"

end
