(* ===== verification/Smb2_Pipes.thy ===== *)
theory Smb2_Pipes
  imports Smb2_DceRpc Smb2_ApiInfo
begin

text \<open>
  The two calls of \<^verbatim>\<open>Smb2Api.cpp\<close> that talk to a service over a named pipe: \<^verbatim>\<open>smb2_list_shares\<close> and
  \<^verbatim>\<open>smb2_lookUpSid\<close>. Their local arrays enter the heap when they are first used and leave it where their scope
  ends, also on the way to the label \<^verbatim>\<open>error\<close>. \<^verbatim>\<open>%s\<close> in a message stands for the place of the inner message.
  The two loops of the enumeration end when the server says so: a run that does not end is \<open>None\<close>.
\<close>

section \<open>Binding to a service\<close>

definition transceive :: "env \<Rightarrow> smb2_context \<Rightarrow> ptr \<Rightarrow> ptr \<Rightarrow> u32 \<Rightarrow> ptr \<Rightarrow> ptr \<Rightarrow> err_msg \<Rightarrow> net \<Rightarrow> u32 api" where
  \<comment> \<open>\<^verbatim>\<open>FSCTL_PIPE_TRANSCEIVE\<close>, \<^verbatim>\<open>SMB2_0_IOCTL_IS_FSCTL\<close>\<close>
  "transceive env smb2 fh = smb2_ioctl env smb2 fh 0x0011C017 0x00000001"

definition bind_answer :: "bytes \<Rightarrow> u32 \<Rightarrow> (err_msg + u16 \<times> u16) option" where
  \<comment> \<open>\<^verbatim>\<open>max_xmit_frag\<close> and \<^verbatim>\<open>max_recv_frag\<close>, which stay 0 for any other packet type\<close>
  "bind_answer out cnt =
     do { h \<leftarrow> dcerpc_get_response_header (Some out) cnt;
          case h of None \<Rightarrow> Some (Inl (Msg ''Failed to parse dcerpc response header'' []))
          | Some h \<Rightarrow>
              if rh_packet_type h = RPC_PACKET_TYPE_BINDNACK
              then do { r \<leftarrow> dcerpc_get_bind_nack_response (Some out) cnt;
                        case r of None \<Rightarrow> Some (Inl (Msg ''Failed to parse dcerpc BINDNACK response'' []))
                        | Some nack \<Rightarrow> Some (Inl (Pre ''dcerpc BINDNACK reason : '' [] (Msg (dcerpc_get_reject_reason (rn_reject_reason nack)) []))) }
              else if rh_packet_type h = RPC_PACKET_TYPE_BINDACK
              then do { r \<leftarrow> dcerpc_get_bind_ack_response (Some out) cnt;
                        case r of None \<Rightarrow> Some (Inl (Msg ''Failed to parse dcerpc BINDACK response'' []))
                        | Some ack \<Rightarrow> Some (Inr (ra_max_xmit_frag ack, ra_max_recv_frag ack)) }
              else Some (Inr (0, 0)) }"

definition bind_pipe ::
  "env \<Rightarrow> ContextType \<Rightarrow> (err_msg \<Rightarrow> err_msg) \<Rightarrow> ptr \<Rightarrow> ptr \<Rightarrow> ptr \<Rightarrow> ptr \<Rightarrow> u64 \<Rightarrow> smb2_context \<Rightarrow> err_msg \<Rightarrow> net \<Rightarrow>
   ((err_msg + u16 \<times> u16) \<times> u64 \<times> smb2_context \<times> err_msg \<times> net) option" where
  "bind_pipe env type failed fh inb outb outc gid smb2 err net =
     do { let (bind_req, gid) = dcerpc_create_bind_req gid 1;
          b \<leftarrow> buf_at smb2 inb;
          b \<leftarrow> mem_write b 0 (bind_request_bytes bind_req);
          b \<leftarrow> mem_write b 28 (context_item_bytes (dcerpc_init_context type));
          (status, smb2, err, net) \<leftarrow> transceive env (put_cell smb2 inb (CBuf b)) fh inb (28 + 44) outb outc err net;
          if status \<noteq> SMB2_STATUS_SUCCESS then Some (Inl (failed err), gid, smb2, err, net)
          else do { out \<leftarrow> buf_at smb2 outb; cnt \<leftarrow> u32_at smb2 outc;
                    r \<leftarrow> bind_answer out cnt;
                    Some (r, gid, smb2, err, net) } }"

definition close_pipe :: "env \<Rightarrow> ptr \<Rightarrow> smb2_context \<Rightarrow> err_msg \<Rightarrow> net \<Rightarrow> (smb2_context \<times> net) option" where
  "close_pipe env fh smb2 error2 net =
     do { (_, smb2, error2, net) \<leftarrow> smb2_close env smb2 fh error2 net;
          (_, smb2, net) \<leftarrow> smb2_disconnect_share env smb2 net;
          Some (smb2, net) }"

fun delete_all :: "smb2_context \<Rightarrow> ptr list \<Rightarrow> smb2_context option" where
  "delete_all smb2 [] = Some smb2"
| "delete_all smb2 (p # ps) = do { smb2 \<leftarrow> delete_cell smb2 p; delete_all smb2 ps }"

section \<open>Enumerating shares\<close>

definition realloc_append :: "u8 \<Rightarrow> bytes \<Rightarrow> u32 \<Rightarrow> bytes \<Rightarrow> (bytes \<times> u32) option" where
  \<comment> \<open>\<^verbatim>\<open>realloc(sharesBuff, sharesBuffLen+frag_len)\<close> and the copy of the fragment behind \<^verbatim>\<open>sharesBuffLen\<close>\<close>
  "realloc_append junk buf len frag =
     do { let n = unat (len + of_nat (length frag));
          b \<leftarrow> mem_write (take n (buf @ replicate (n - length buf) junk)) (uint len) frag;
          Some (b, len + of_nat (length frag)) }"

partial_function (option) read_frags ::
  "env \<Rightarrow> ptr \<Rightarrow> u16 \<Rightarrow> bytes \<Rightarrow> u32 \<Rightarrow> smb2_context \<Rightarrow> err_msg \<Rightarrow> net \<Rightarrow>
   ((err_msg + bytes \<times> u32) \<times> smb2_context \<times> err_msg \<times> net) option" where
  "read_frags env fh max_recv_frag sharesBuff sharesBuffLen smb2 error2 net =
     (if c_fresh smb2 = [] then Some (Inl (Msg ''Failed to allocate fragmentBuf'' []), smb2, error2, net)
      else do {
        (fb, smb2) \<leftarrow> new_cell smb2 (CBuf (replicate (unat max_recv_frag) 0));
        (status, smb2, error2, net) \<leftarrow> smb2_pread env smb2 fh fb (ucast max_recv_frag) 0 error2 net;
        if status \<noteq> SMB2_STATUS_SUCCESS \<and> status \<noteq> SMB2_STATUS_END_OF_FILE
        then do { smb2 \<leftarrow> delete_cell smb2 fb; Some (Inl (Pre ''Failed to read remaining frags - '' [] error2), smb2, error2, net) }
        else do {
          f \<leftarrow> fh_at smb2 fh;
          fragmentBuf \<leftarrow> buf_at smb2 fb;
          r \<leftarrow> dcerpc_parse_Operation_Response fragmentBuf (fh_byte_count f);
          smb2 \<leftarrow> delete_cell smb2 fb;
          case r of
            Inl (e, _) \<Rightarrow> Some (Inl (Pre ''%s while reading DCE_OP_SHARE_ENUM fragment'' [] e), smb2, e, net)
          | Inr res \<Rightarrow> do {
              frag \<leftarrow> mem_read fragmentBuf 24 (unat (fh_byte_count f - 24));
              (sharesBuff, sharesBuffLen) \<leftarrow> realloc_append (e_byte env) sharesBuff sharesBuffLen frag;
              if rh_packet_flags (os_dceRpcHdr res) AND RPC_FLAG_LAST_FRAG \<noteq> 0
              then Some (Inr (sharesBuff, sharesBuffLen), smb2, error2, net)
              else read_frags env fh max_recv_frag sharesBuff sharesBuffLen smb2 error2 net } } })"

definition share_enum_request :: "u64 \<Rightarrow> bytes \<Rightarrow> u32 \<Rightarrow> u32 \<Rightarrow> (err_msg + bytes \<times> u32 \<times> u64) option" where
  \<comment> \<open>\<^verbatim>\<open>netShareEnumBuf\<close>, the number of bytes to send, and the call counter\<close>
  "share_enum_request gid server shinfo_type resumeHandle =
     do { r \<leftarrow> at_offset_of (replicate 1024 0) 24
            (\<lambda>p. srvsvc_create_NetrShareEnumRequest (0x5c # 0x5c # server) shinfo_type (ucast resumeHandle) p (1024 - 24));
          case r of Inl e \<Rightarrow> Some (Inl e)
          | Inr (b, payloadlen) \<Rightarrow> do {
              let (q, gid) = dcerpc_create_Operation_Request gid DCE_OP_SHARE_ENUM payloadlen;
              b \<leftarrow> mem_write b 0 (operation_request_bytes q);
              Some (Inr (b, 24 + payloadlen, gid)) } }"

definition parse_share_list ::
  "u8 \<Rightarrow> bytes \<Rightarrow> u32 \<Rightarrow> smb2_shares \<Rightarrow> (err_msg + u32 \<times> smb2_shares \<times> u32 \<times> u32 \<times> u32) option" where
  \<comment> \<open>the whole answer, all fragments: the status, then the list\<close>
  "parse_share_list junk sharesBuff sharesBuffLen shares =
     do { p \<leftarrow> mem_ptr sharesBuff 24;
          srvs_sts \<leftarrow> srvsvc_get_NetrShareEnum_status p (sharesBuffLen - 24);
          if srvs_sts \<noteq> 0 then Some (Inl (Msg ''SRVSVC NetrShareEnum Failed with error %x'' [ucast srvs_sts]))
          else do { r \<leftarrow> srvsvc_parse_NetrShareEnumResponse junk p (sharesBuffLen - 24 - 4) shares;
                    case r of Inl e \<Rightarrow> Some (Inl (Pre ''srvsvc_parse_NetrShareEnumResponse failed : '' [] e)) | Inr x \<Rightarrow> Some (Inr x) } }"

type_synonym share_state = "u32 \<times> u32 \<times> u32 \<times> smb2_shares \<times> u64 \<times> smb2_context \<times> err_msg \<times> net"
  \<comment> \<open>\<^verbatim>\<open>resumeHandle\<close>, \<^verbatim>\<open>shares_read\<close>, \<^verbatim>\<open>sharesBuffLen\<close>, the shares, the call counter, the context, \<^verbatim>\<open>error2\<close>, the scripts\<close>

definition share_batch ::
  "env \<Rightarrow> ptr \<Rightarrow> u16 \<Rightarrow> u16 \<Rightarrow> bytes \<Rightarrow> u32 \<Rightarrow> ptr \<Rightarrow> ptr \<Rightarrow> ptr \<Rightarrow> share_state \<Rightarrow> ((err_msg + u32) \<times> share_state) option" where
  \<comment> \<open>the body of the outer loop; its value is the error or \<^verbatim>\<open>total_share_count\<close>. \<^verbatim>\<open>sharesBuff\<close> is allocated anew in each turn,
      \<^verbatim>\<open>sharesBuffLen\<close> is not reset.\<close>
  "share_batch env fh max_xmit_frag max_recv_frag server shinfo_type nb ob oc st =
     (case st of (resumeHandle, shares_read, sharesBuffLen, shares, gid, smb2, error2, net) \<Rightarrow> do {
        r \<leftarrow> share_enum_request gid server shinfo_type resumeHandle;
        case r of Inl e \<Rightarrow> Some (Inl e, resumeHandle, shares_read, sharesBuffLen, shares, gid, smb2, e, net)
        | Inr (b, offset, gid) \<Rightarrow>
            let smb2 = put_cell smb2 nb (CBuf b) in
            if offset > ucast max_xmit_frag
            then Some (Inl (Msg ''IOCTL : DCE_OP_SHARE_ENUM Payload size is larger than max_xmit_frag'' []),
                   resumeHandle, shares_read, sharesBuffLen, shares, gid, smb2, error2, net)
            else do {
              (status, smb2, error2, net) \<leftarrow> transceive env smb2 fh nb offset ob oc error2 net;
              if status \<noteq> SMB2_STATUS_SUCCESS
              then Some (Inl (Pre ''IOCTL: DCE_OP_SHARE_ENUM  Failed : '' [] error2),
                     resumeHandle, shares_read, sharesBuffLen, shares, gid, smb2, error2, net)
              else do {
                output_buf \<leftarrow> buf_at smb2 ob;
                output_count \<leftarrow> u32_at smb2 oc;
                sharesBuff \<leftarrow> mem_read output_buf 0 (unat output_count);
                let sharesBuffLen = sharesBuffLen + output_count;
                r \<leftarrow> dcerpc_parse_Operation_Response sharesBuff sharesBuffLen;
                case r of
                  Inl (e, _) \<Rightarrow> Some (Inl (Pre ''%s For DCE_OP_SHARE_ENUM'' [] e),
                                  resumeHandle, shares_read, sharesBuffLen, shares, gid, smb2, e, net)
                | Inr dceOpRes \<Rightarrow> do {
                    (r, smb2, error2, net) \<leftarrow>
                      (if rh_packet_flags (os_dceRpcHdr dceOpRes) AND RPC_FLAG_LAST_FRAG \<noteq> 0
                       then Some (Inr (sharesBuff, sharesBuffLen), smb2, error2, net)
                       else read_frags env fh max_recv_frag sharesBuff sharesBuffLen smb2 error2 net);
                    case r of
                      Inl e \<Rightarrow> Some (Inl e, resumeHandle, shares_read, sharesBuffLen, shares, gid, smb2, error2, net)
                    | Inr (sharesBuff, sharesBuffLen) \<Rightarrow> do {
                        r \<leftarrow> parse_share_list (e_byte env) sharesBuff sharesBuffLen shares;
                        case r of
                          Inl e \<Rightarrow> Some (Inl e, resumeHandle, shares_read, sharesBuffLen, shares, gid, smb2, error2, net)
                        | Inr (share_count, shares, total_share_count, resumeHandlePtr, resumeHandle) \<Rightarrow>
                            Some (Inr total_share_count, resumeHandle, shares_read + share_count, sharesBuffLen, shares, gid,
                              smb2, error2, net) } } } } })"

partial_function (option) share_loop ::
  "env \<Rightarrow> ptr \<Rightarrow> u16 \<Rightarrow> u16 \<Rightarrow> bytes \<Rightarrow> u32 \<Rightarrow> share_state \<Rightarrow> (err_msg option \<times> share_state) option" where
  \<comment> \<open>\<^verbatim>\<open>netShareEnumBuf\<close>, \<^verbatim>\<open>output_buf\<close> and \<^verbatim>\<open>output_count\<close> are local to one turn\<close>
  "share_loop env fh max_xmit_frag max_recv_frag server shinfo_type st =
     (case st of (resumeHandle, shares_read, sharesBuffLen, shares, gid, smb2, error2, net) \<Rightarrow> do {
        (nb, smb2) \<leftarrow> new_cell smb2 (CBuf (replicate 1024 0));
        (ob, smb2) \<leftarrow> new_cell smb2 (CBuf (replicate (64 * 1024) 0));
        (oc, smb2) \<leftarrow> new_cell smb2 (CU32 (64 * 1024));
        (r, resumeHandle, shares_read, sharesBuffLen, shares, gid, smb2, error2, net) \<leftarrow>
          share_batch env fh max_xmit_frag max_recv_frag server shinfo_type nb ob oc
            (resumeHandle, shares_read, sharesBuffLen, shares, gid, smb2, error2, net);
        smb2 \<leftarrow> delete_all smb2 [nb, ob, oc];
        case r of
          Inl e \<Rightarrow> Some (Some e, resumeHandle, shares_read, sharesBuffLen, shares, gid, smb2, error2, net)
        | Inr total_share_count \<Rightarrow>
            if shares_read < total_share_count
            then share_loop env fh max_xmit_frag max_recv_frag server shinfo_type
                   (resumeHandle, shares_read, sharesBuffLen, shares, gid, smb2, error2, net)
            else Some (None, resumeHandle, shares_read, sharesBuffLen, shares, gid, smb2, error2, net) })"

definition smb2_list_shares ::
  "env \<Rightarrow> os \<Rightarrow> bytes option option \<Rightarrow> u64 \<Rightarrow> smb2_context \<Rightarrow> bytes \<Rightarrow> bytes \<Rightarrow> u32 \<Rightarrow> smb2_shares \<Rightarrow> err_msg \<Rightarrow> net \<Rightarrow>
   (int \<times> smb2_shares \<times> u64) api" where
  "smb2_list_shares env os user_file gid smb2 server user shinfo_type shares err net =
     (let func = ''smb2_list_shares: '' in
      if server = [] then Some ((-1, shares, gid), smb2, Pre func [] (Msg ''server not specified'' []), net)
      else if user = [] then Some ((-1, shares, gid), smb2, Pre func [] (Msg ''user not specified'' []), net)
      else do {
        (status, smb2, err, net) \<leftarrow>
          smb2_connect_share env os user_file (smb2\<lparr>c_use_cached_creds := True\<rparr>) server (ascii ''IPC$'') user err net;
        if status \<noteq> 0 then Some ((MINUS_ENOMEM, shares, gid), smb2, Pre func [] err, net)
        else do {
          (fh, smb2, err, net) \<leftarrow> smb2_open_pipe env smb2 (ascii ''srvsvc'') err net;
          if fh = 0
          then do { (_, smb2, net) \<leftarrow> smb2_disconnect_share env smb2 net; Some ((-1, shares, gid), smb2, Pre func [] err, net) }
          else do {
            (inb, smb2) \<leftarrow> new_cell smb2 (CBuf (replicate 1024 0));
            (outb, smb2) \<leftarrow> new_cell smb2 (CBuf (replicate 1024 0));
            (outc, smb2) \<leftarrow> new_cell smb2 (CU32 1024);
            (bound, gid, smb2, err, net) \<leftarrow> bind_pipe env CONTEXT_SRVSVC id fh inb outb outc gid smb2 err net;
            (failed, shares, gid, smb2, error2, net) \<leftarrow>
              (case bound of
                 Inl e \<Rightarrow> Some (Some e, shares, gid, smb2, Msg [] [], net)
               | Inr (max_xmit_frag, max_recv_frag) \<Rightarrow> do {
                   (r, _, _, _, shares, gid, smb2, error2, net) \<leftarrow>
                     share_loop env fh max_xmit_frag max_recv_frag server shinfo_type (0, 0, 0, shares, gid, smb2, Msg [] [], net);
                   Some (r, shares, gid, smb2, error2, net) });
            (smb2, net) \<leftarrow> close_pipe env fh smb2 error2 net;
            smb2 \<leftarrow> delete_all smb2 [inb, outb, outc];
            case failed of
              None \<Rightarrow> Some ((0, shares, gid), smb2, err, net)
            | Some e \<Rightarrow> Some ((-1, shares, gid), smb2, Pre func [] e, net) } } })"

section \<open>Looking up a SID\<close>

definition lsa_call ::
  "env \<Rightarrow> ptr \<Rightarrow> ptr \<Rightarrow> ptr \<Rightarrow> ptr \<Rightarrow> u16 \<Rightarrow> u16 \<Rightarrow> string \<Rightarrow> string \<Rightarrow> string \<Rightarrow> bytes \<Rightarrow> u32 \<Rightarrow> u64 \<Rightarrow> smb2_context \<Rightarrow> err_msg \<Rightarrow> net \<Rightarrow>
   ((err_msg + bytes \<times> u32) \<times> u64 \<times> smb2_context \<times> err_msg \<times> net) option" where
  \<comment> \<open>one operation: \<open>b\<close> is \<^verbatim>\<open>dceRpcBuf\<close> with the payload of \<open>used\<close> bytes behind the first 24; the value is the answer
      behind the header of the response with its length\<close>
  "lsa_call env fh inb outb outc max_xmit_frag opnum too_large failed bad b used gid smb2 error2 net =
     do { let offset = 24 + used;
          let (q, gid) = dcerpc_create_Operation_Request gid opnum used;
          b \<leftarrow> mem_write b 0 (operation_request_bytes q);
          let smb2 = put_cell (put_cell (put_cell smb2 inb (CBuf b)) outb (CBuf (replicate (64 * 1024) 0))) outc (CU32 (64 * 1024));
          if offset > ucast max_xmit_frag then Some (Inl (Msg too_large []), gid, smb2, error2, net)
          else do {
            (status, smb2, error2, net) \<leftarrow> transceive env smb2 fh inb offset outb outc error2 net;
            if status \<noteq> SMB2_STATUS_SUCCESS then Some (Inl (Pre failed [] error2), gid, smb2, error2, net)
            else do {
              out \<leftarrow> buf_at smb2 outb;
              output_count \<leftarrow> u32_at smb2 outc;
              r \<leftarrow> dcerpc_parse_Operation_Response out output_count;
              case r of
                Inl (e, _) \<Rightarrow> Some (Inl (Pre bad [] e), gid, smb2, e, net)
              | Inr _ \<Rightarrow> do { p \<leftarrow> mem_ptr out 24; Some (Inr (p, output_count - 24), gid, smb2, error2, net) } } } }"

definition open_policy ::
  "env \<Rightarrow> ptr \<Rightarrow> ptr \<Rightarrow> ptr \<Rightarrow> ptr \<Rightarrow> u16 \<Rightarrow> bytes \<Rightarrow> u64 \<Rightarrow> smb2_context \<Rightarrow> err_msg \<Rightarrow> net \<Rightarrow>
   ((err_msg + PolicyHandle) \<times> u64 \<times> smb2_context \<times> err_msg \<times> net) option" where
  \<comment> \<open>the result of \<^verbatim>\<open>lsarpc_create_OpenPolicy2Req\<close> is not tested: on failure \<^verbatim>\<open>bytes_used\<close> stays 0, and what the attempt
      has left in the buffer lies behind the bytes that are sent\<close>
  "open_policy env fh inb outb outc max_xmit_frag server gid smb2 error2 net =
     do { r \<leftarrow> at_offset_of (replicate 1024 0) 24
            (\<lambda>p. lsarpc_create_OpenPolicy2Req server RIGHT_TO_LOOKUP_NAMES p (1024 - 24));
          let (b, used, error2) = (case r of Inl e \<Rightarrow> (replicate 1024 0, 0, e) | Inr (b, used) \<Rightarrow> (b, used, error2));
          (r, gid, smb2, error2, net) \<leftarrow>
            lsa_call env fh inb outb outc max_xmit_frag DCE_OP_OPEN_POLICY2
              ''IOCTL: DCE_OP_OPEN_POLICY2 Payload size is larger than max_xmit_frag'' ''IOCTL Failed for OpenPolicy2:''
              ''%s for OpenPolicy2'' b used gid smb2 error2 net;
          case r of Inl e \<Rightarrow> Some (Inl e, gid, smb2, error2, net)
          | Inr (p, n) \<Rightarrow> do {
              r \<leftarrow> lsarpc_parse_OpenPolicy2Res p n;
              case r of
                Inl status \<Rightarrow> Some (Inl (Msg ''lsarpc_parse_OpenPolicy2Res failed : %x'' [ucast status]), gid, smb2, error2, net)
              | Inr h \<Rightarrow> Some (Inr h, gid, smb2, error2, net) } }"

definition lookup_names ::
  "env \<Rightarrow> ptr \<Rightarrow> ptr \<Rightarrow> ptr \<Rightarrow> ptr \<Rightarrow> u16 \<Rightarrow> PolicyHandle \<Rightarrow> bytes \<Rightarrow> bytes \<Rightarrow> u64 \<Rightarrow> smb2_context \<Rightarrow> err_msg \<Rightarrow> net \<Rightarrow>
   ((err_msg + bytes) \<times> u64 \<times> smb2_context \<times> err_msg \<times> net) option" where
  "lookup_names env fh inb outb outc max_xmit_frag handle user domain gid smb2 error2 net =
     do { r \<leftarrow> at_offset_of (replicate 1024 0) 24 (\<lambda>p. lsarpc_create_LookUpNamesReq handle user domain p (1024 - 24));
          case r of Inl e \<Rightarrow> Some (Inl (Pre ''Create LookupNames req failed:'' [] e), gid, smb2, e, net)
          | Inr (b, used) \<Rightarrow> do {
              (r, gid, smb2, error2, net) \<leftarrow>
                lsa_call env fh inb outb outc max_xmit_frag DCE_OP_LOOKUP_NAMES
                  ''IOCTL : LookupNames Payload size is larger than max_xmit_frag'' ''IOCTL Failed for LookupNames : ''
                  ''%s for LookupNames'' b used gid smb2 error2 net;
              case r of Inl e \<Rightarrow> Some (Inl e, gid, smb2, error2, net)
              | Inr (p, n) \<Rightarrow> do {
                  r \<leftarrow> lsarpc_parse_LookupNamesRes (e_byte env) p n;
                  case r of
                    Inl (status, e) \<Rightarrow>
                      let error2 = (case e of None \<Rightarrow> error2 | Some e \<Rightarrow> e) in
                      Some (Inl (Pre ''lsarpc_parse_LookupNamesRes failed : status = %x, error = %s'' [ucast status] error2), gid, smb2, error2, net)
                  | Inr sid \<Rightarrow> Some (Inr sid, gid, smb2, error2, net) } } }"

definition lookup_over_pipe ::
  "env \<Rightarrow> ptr \<Rightarrow> ptr \<Rightarrow> ptr \<Rightarrow> ptr \<Rightarrow> bytes \<Rightarrow> bytes \<Rightarrow> bytes \<Rightarrow> u64 \<Rightarrow> smb2_context \<Rightarrow> err_msg \<Rightarrow> net \<Rightarrow>
   ((err_msg + bytes) \<times> u64 \<times> smb2_context \<times> err_msg \<times> net) option" where
  \<comment> \<open>from the bind to the answer; the error is that of the jump to the label \<^verbatim>\<open>error\<close>\<close>
  "lookup_over_pipe env fh inb outb outc user domain server gid smb2 error2 net =
     do { (bound, gid, smb2, error2, net) \<leftarrow>
            bind_pipe env CONTEXT_LSARPC (Pre ''IOCTL Failed for bind:'' []) fh inb outb outc gid smb2 error2 net;
          case bound of Inl e \<Rightarrow> Some (Inl e, gid, smb2, error2, net)
          | Inr (max_xmit_frag, _) \<Rightarrow> do {
              (r, gid, smb2, error2, net) \<leftarrow> open_policy env fh inb outb outc max_xmit_frag server gid smb2 error2 net;
              case r of Inl e \<Rightarrow> Some (Inl e, gid, smb2, error2, net)
              | Inr h \<Rightarrow> lookup_names env fh inb outb outc max_xmit_frag h user domain gid smb2 error2 net } }"

definition smb2_lookUpSid ::
  "env \<Rightarrow> os \<Rightarrow> bytes option option \<Rightarrow> u64 \<Rightarrow> smb2_context \<Rightarrow> bytes \<Rightarrow> bytes \<Rightarrow> bytes \<Rightarrow> ptr \<Rightarrow> err_msg \<Rightarrow> net \<Rightarrow>
   (int \<times> ptr \<times> u64) api" where
  \<comment> \<open>\<open>sid\<close> is what the caller's pointer holds; on failure what it points to is freed\<close>
  "smb2_lookUpSid env os user_file gid smb2 user domain server sid err net =
     (let func = ''smb2_lookUpSid: '' in
      if server = [] then Some ((-1, sid, gid), smb2, Pre func [] (Msg ''server not specified'' []), net)
      else if user = [] then Some ((-1, sid, gid), smb2, Pre func [] (Msg ''user not specified'' []), net)
      else if domain = [] then Some ((-1, sid, gid), smb2, Pre func [] (Msg ''domain not specified'' []), net)
      else do {
        (status, smb2, error2, net) \<leftarrow>
          smb2_connect_share env os user_file (smb2\<lparr>c_use_cached_creds := True\<rparr>) server (ascii ''IPC$'') user (Msg [] []) net;
        if status \<noteq> 0 then Some ((MINUS_ENOMEM, sid, gid), smb2, Pre func [] error2, net)
        else do {
          (fh, smb2, error2, net) \<leftarrow> smb2_open_pipe env smb2 (ascii ''lsarpc'') error2 net;
          if fh = 0
          then do { (_, smb2, net) \<leftarrow> smb2_disconnect_share env smb2 net;
                    Some ((-1, sid, gid), smb2, Pre func [] (Pre ''Failed to open LSARPC pipe: '' [] error2), net) }
          else do {
            (inb, smb2) \<leftarrow> new_cell smb2 (CBuf (replicate 1024 0));
            (outb, smb2) \<leftarrow> new_cell smb2 (CBuf (replicate (64 * 1024) 0));
            (outc, smb2) \<leftarrow> new_cell smb2 (CU32 (64 * 1024));
            (r, gid, smb2, error2, net) \<leftarrow> lookup_over_pipe env fh inb outb outc user domain server gid smb2 error2 net;
            case r of
              Inl e \<Rightarrow> do {
                (smb2, net) \<leftarrow> close_pipe env fh smb2 error2 net;
                smb2 \<leftarrow> delete_all smb2 [sid, inb, outb, outc];
                Some ((-1, sid, gid), smb2, Pre func [] e, net) }
            | Inr sidbuf \<Rightarrow> do {
                (p, smb2) \<leftarrow> new_cell smb2 (CBuf sidbuf);
                (smb2, net) \<leftarrow> close_pipe env fh smb2 error2 net;
                smb2 \<leftarrow> delete_all smb2 [inb, outb, outc];
                Some ((0, p, gid), smb2, err, net) } } } })"

end
