(* ===== verification/Smb2_Shares.thy ===== *)
theory Smb2_Shares
  imports Smb2_Pipes
begin

text \<open>
  What the remote procedure calls achieve: an answer in the layout of the protocol is read as the
  list of shares or the SID it holds. The second half shows where the parsers and the enumeration
  leave their buffers.
\<close>

section \<open>Reading a buffer\<close>

abbreviation utf8 :: "u16 list \<Rightarrow> bytes" where
  "utf8 cs \<equiv> concat (map ucs2_cp_bytes cs)"

lemma uint_pos: "n < 2 ^ 32 \<Longrightarrow> uint (of_nat n :: u32) = int n"
  by (simp add: uint_nat unat_of_nat_u32)

lemma read_at:
  assumes "off = of_nat (length pre)" and "length (pre @ x @ post) < 2 ^ 32" and "n = length x"
  shows "mem_read (pre @ x @ post) (uint (off :: u32)) n = Some x"
proof -
  have "uint off = int (length pre)"
    using assms by (simp add: uint_pos)
  then show ?thesis
    using assms(3) by (simp add: mem_read_def sub_bytes_def)
qed

lemma read_buf:
  assumes "length buffer < 2 ^ 31" and "buffer = pre @ x @ post" and "off = of_nat (length pre)" and "n = length x"
  shows "mem_read buffer (uint (off :: u32)) n = Some x"
  using assms(1) unfolding assms(2) by (intro read_at [OF assms(3) _ assms(4)]) simp

lemma read_u32_at:
  "off = of_nat (length pre) \<Longrightarrow> length (pre @ htole32 w @ post) < 2 ^ 32 \<Longrightarrow> read_u32 (pre @ htole32 w @ post) off = Some w"
  by (simp add: read_u32_def read_at)

lemma read_ex:
  assumes "off = of_nat m" and "m + n \<le> length buffer" and "length buffer < 2 ^ 31"
  shows "\<exists>x. mem_read buffer (uint (off :: u32)) n = Some x" and "n = 4 \<Longrightarrow> \<exists>x. read_u32 buffer off = Some x"
proof -
  have "uint off = int m"
    using assms by (simp add: uint_pos)
  then show "\<exists>x. mem_read buffer (uint off) n = Some x" "n = 4 \<Longrightarrow> \<exists>x. read_u32 buffer off = Some x"
    using assms(2) by (simp_all add: mem_read_def read_u32_def)
qed

lemma align4_pad: "align4 x = x + of_nat (pad4 (unat x))"
  using pad4_word [of x] by (simp add: align4_def split: if_splits)

lemma align4_nat: "n < 2 ^ 32 \<Longrightarrow> align4 (of_nat n) = of_nat (n + pad4 n)"
  by (simp add: align4_pad unat_of_nat_u32)

lemma align4_aligned: "4 dvd n \<Longrightarrow> n < 2 ^ 32 \<Longrightarrow> align4 (of_nat n) = of_nat n"
  using align4_nat [of n] by (simp add: dvd_eq_mod_eq_0)

lemma align4_add:
  assumes "4 dvd n" and "n < 2 ^ 32"
  shows "align4 (of_nat n + x) = of_nat n + align4 x"
proof -
  have "unat (of_nat n + x) mod 4 = unat x mod 4"
    using mod4_sum [of "of_nat n" "unat x"] assms by (simp add: unat_of_nat_u32)
  then show ?thesis
    by (simp add: align4_pad add.assoc)
qed

section \<open>Strings\<close>

definition ndr_string :: "u16 list \<Rightarrow> bytes" where
  \<comment> \<open>a conformant varying string with its NUL, filled up to four bytes\<close>
  "ndr_string cs =
     (let n = of_nat (length cs + 1) in
      htole32 n @ htole32 0 @ htole32 n @ ucs2_bytes (cs @ [0]) @ replicate (pad4 (2 * (length cs + 1))) 0)"

lemma length_ndr_string: "length (ndr_string cs) = 12 + 2 * (length cs + 1) + pad4 (2 * (length cs + 1))"
  by (simp add: ndr_string_def Let_def)

lemma length_ndr_div: "length (ndr_string cs) = 12 + 4 * ((2 * (length cs + 1) + 3) div 4)"
proof -
  have "n + pad4 n = 4 * ((n + 3) div 4)" for n :: nat
  proof -
    obtain q r where "n = 4 * q + r" "r < 4"
      using that [of "n div 4" "n mod 4"] by simp
    then show ?thesis
      by (cases "r = 0 \<or> r = 1 \<or> r = 2"; cases "r = 3") auto
  qed
  then show ?thesis
    by (simp only: length_ndr_string add.assoc)
qed

lemma ndr_string_dvd: "4 dvd length (ndr_string cs)"
  by (simp add: length_ndr_div)

lemma ucs2_bytes_append: "ucs2_bytes (xs @ ys) = ucs2_bytes xs @ ucs2_bytes ys"
  by (simp add: ucs2_bytes_def)

lemma raw_ucs2_prefix: "take (length cs) (raw_ucs2 (ucs2_bytes cs @ rest)) = cs" "length cs \<le> length (raw_ucs2 (ucs2_bytes cs @ rest))"
proof -
  show l: "length cs \<le> length (raw_ucs2 (ucs2_bytes cs @ rest))"
    by (simp add: raw_ucs2_def)
  have "raw_ucs2 (ucs2_bytes cs @ rest) ! i = cs ! i" if "i < length cs" for i
  proof -
    have "sub_bytes (ucs2_bytes cs @ rest) (2 * i) 2 = sub_bytes (ucs2_bytes cs) (2 * i) 2"
      using that by (simp add: sub_bytes_def)
    then show ?thesis
      using that by (simp add: raw_ucs2_def sub_ucs2)
  qed
  then show "take (length cs) (raw_ucs2 (ucs2_bytes cs @ rest)) = cs"
    using l by (intro nth_equalityI) simp_all
qed

lemma string_chars:
  assumes "0 \<notin> set cs"
  shows "\<exists>str. ucs2_to_utf8 junk (raw_ucs2 (ucs2_bytes (cs @ [0]) @ rest)) (int (length (cs @ [0]))) = Some str \<and> c_string str = utf8 cs"
proof -
  let ?xs = "raw_ucs2 (ucs2_bytes (cs @ [0]) @ rest)"
  have t: "take (length (cs @ [0])) ?xs = cs @ [0]" "length (cs @ [0]) \<le> length ?xs"
    by (rule raw_ucs2_prefix)+
  then have "ucs2_to_utf8 junk ?xs (int (length (cs @ [0]))) = ucs2_to_utf8 junk (cs @ [0]) (int (length (cs @ [0])))"
    unfolding ucs2_to_utf8_def nat_int t(1) by simp
  also have "\<dots> = Some (utf8 (cs @ [0]) @ [0])"
    by (rule ucs2_to_utf8_all)
  finally show ?thesis
    using utf8_no_nul [OF assms] takeWhile_no_nul(2) [of "utf8 cs"]
    by (simp add: c_string_def takeWhile_append ucs2_cp_bytes_def Let_def ucs2_cp_size_def)
qed

lemma parse_string_eq:
  assumes "mem_read payload (uint (align4 off)) 12 = Some h" and "le32toh (sub_bytes h 8 4) = w"
    and "ucs2_to_utf8 junk (raw_ucs2 (drop (unat (align4 off + 12)) payload)) (sint w) = Some str"
  shows "parse_string junk optional payload off =
    Some (if optional \<and> w \<le> 1 then None else Some (c_string str), align4 off + 12 + 2 * w)"
  using assms by (simp add: parse_string_def Let_def)

lemma parse_string_at:
  assumes "payload = pre @ ndr_string cs @ post" and "length payload < 2 ^ 31" and "align4 off = of_nat (length pre)" and "4 dvd length pre"
    and "0 \<notin> set cs"
  shows "\<exists>s off'. parse_string junk optional payload off = Some (s, off') \<and> opt_string s = utf8 cs \<and>
    align4 off' = of_nat (length (pre @ ndr_string cs))"
proof -
  let ?n = "length cs + 1" and ?w = "of_nat (length cs + 1) :: u32" and ?o = "of_nat (length pre) :: u32"
  let ?h = "htole32 ?w @ htole32 0 @ htole32 ?w" and ?r = "replicate (pad4 (2 * ?n)) 0 @ post"
  have pay: "payload = pre @ ?h @ ucs2_bytes (cs @ [0]) @ ?r" "payload = (pre @ ?h) @ ucs2_bytes (cs @ [0]) @ ?r"
    by (simp_all add: assms(1) ndr_string_def Let_def)
  have len: "length pre + 12 + 2 * ?n + pad4 (2 * ?n) < 2 ^ 31"
    using assms(2) by (simp add: assms(1) length_ndr_string)
  have h: "mem_read payload (uint ?o) 12 = Some ?h"
    using assms(2) unfolding pay(1) by (intro read_at) simp_all
  have w: "le32toh (sub_bytes ?h 8 4) = ?w"
    by (simp add: sub_bytes_def del: of_nat_add of_nat_Suc)
  have sw: "sint ?w = int (length (cs @ [0]))"
    using len sint_small [of "?w"] unat_of_nat_u32 [of ?n] uint_pos [of ?n] by simp
  have o: "?o + 12 = of_nat (length (pre @ ?h))" "unat (?o + 12) = length (pre @ ?h)"
    using len unat_of_nat_u32 [of "length pre + 12"] by simp_all
  have d: "drop (unat (?o + 12)) payload = ucs2_bytes (cs @ [0]) @ ?r"
    unfolding o(2) pay(2) by simp
  obtain str where s: "ucs2_to_utf8 junk (raw_ucs2 (ucs2_bytes (cs @ [0]) @ ?r)) (int (length (cs @ [0]))) = Some str" "c_string str = utf8 cs"
    using string_chars [OF assms(5)] by blast
  let ?s = "if optional \<and> ?w \<le> 1 then None else Some (utf8 cs)"
  have "parse_string junk optional payload off = Some (?s, ?o + 12 + 2 * ?w)"
    using parse_string_eq [of payload off ?h ?w junk str optional] h w s unfolding assms(3) d sw s(2) by blast
  moreover have "opt_string ?s = utf8 cs"
  proof -
    have "cs = []" if "?w \<le> 1"
      using that len unat_of_nat_u32 [of ?n] by (simp add: word_le_nat_alt)
    then show ?thesis
      by (auto simp: opt_string_def)
  qed
  moreover have "align4 (?o + 12 + 2 * ?w) = of_nat (length (pre @ ndr_string cs))"
  proof -
    have "align4 (of_nat (length pre + 12) + of_nat (2 * ?n)) = of_nat (length pre + 12) + align4 (of_nat (2 * ?n))"
      using assms(4) len by (intro align4_add) simp_all
    then show ?thesis
      using len align4_nat [of "2 * ?n"] by (simp add: length_ndr_string add.assoc)
  qed
  ultimately show ?thesis
    by blast
qed

section \<open>The answer to an enumeration\<close>

text \<open>
  A server's answer at level 1 as the protocol lays it out: the fixed parts of the shares, one behind the other, then
  their names and remarks in the same order, then the total and the resume handle.
\<close>

record wire_share =
  ws_name :: "u16 list"
  ws_type :: u32
  ws_remark :: "u16 list"
  ws_name_id :: u32
  ws_remark_id :: u32

definition share_entry :: "wire_share \<Rightarrow> bytes" where
  "share_entry s = htole32 (ws_name_id s) @ htole32 (ws_type s) @ htole32 (ws_remark_id s)"

definition share_strings :: "wire_share \<Rightarrow> bytes" where
  "share_strings s = ndr_string (ws_name s) @ ndr_string (ws_remark s)"

definition share_of :: "wire_share \<Rightarrow> smb2_shareinfo" where
  "share_of s = new_smb2_shareinfo\<lparr>shi_name := utf8 (ws_name s), shi_share_type := ws_type s, shi_remark := utf8 (ws_remark s)\<rparr>"

definition share_ok :: "wire_share \<Rightarrow> bool" where
  \<comment> \<open>the strings have no NUL inside\<close>
  "share_ok s \<longleftrightarrow> 0 \<notin> set (ws_name s) \<and> 0 \<notin> set (ws_remark s)"

definition share_response :: "u32 \<Rightarrow> u32 \<Rightarrow> wire_share list \<Rightarrow> u32 \<Rightarrow> u32 \<Rightarrow> u32 \<Rightarrow> bytes" where
  "share_response ref arr ss tot rptr resume =
     srvsvc_init_InfoStruct 1 ref (of_nat (length ss)) arr @ htole32 (of_nat (length ss)) @
     concat (map share_entry ss) @ concat (map share_strings ss) @ htole32 tot @ htole32 rptr @ htole32 resume"

lemma length_share_entry [simp]: "length (share_entry s) = 12"
  by (simp add: share_entry_def)

lemma length_share_entries [simp]: "length (concat (map share_entry ss)) = 12 * length ss"
  by (induction ss) simp_all

lemma share_strings_dvd: "4 dvd length (concat (map share_strings ss))"
  by (induction ss) (simp_all add: share_strings_def ndr_string_dvd)

lemma share_type_sub: "le32toh (sub_bytes (share_entry s) 4 4) = ws_type s"
  by (simp add: share_entry_def sub_bytes_def)

lemma parse_shares1_at:
  assumes "buffer = pre @ concat (map share_entry ss) @ post" and "length buffer < 2 ^ 31" and "boff = of_nat (length pre)"
    and "payload = pre' @ concat (map share_strings ss) @ post'" and "length payload < 2 ^ 31"
    and "align4 poff = of_nat (length pre')" and "4 dvd length pre'" and "\<forall>s\<in>set ss. share_ok s"
  shows "\<exists>poff'. parse_shares1 junk buffer payload (length ss) boff poff =
      Some (map share_of ss, of_nat (length pre + 12 * length ss), poff') \<and>
    align4 poff' = of_nat (length (pre' @ concat (map share_strings ss)))"
  using assms
proof (induction ss arbitrary: pre boff pre' poff)
  case (Cons s ss)
  let ?n = "ndr_string (ws_name s)" and ?r = "ndr_string (ws_remark s)" and ?ps = "concat (map share_strings ss) @ post'"
  have info: "mem_read buffer (uint boff) 12 = Some (share_entry s)"
    using Cons.prems(2,3) unfolding Cons.prems(1) by (simp add: read_at)
  obtain nm o1 where n: "parse_string junk False payload poff = Some (nm, o1)" "opt_string nm = utf8 (ws_name s)"
      "align4 o1 = of_nat (length (pre' @ ?n))"
    using parse_string_at [of payload pre' "ws_name s" "?r @ ?ps" poff junk False] Cons.prems(4-8)
    by (auto simp: share_strings_def [of s] share_ok_def)
  obtain rm o2 where r: "parse_string junk True payload o1 = Some (rm, o2)" "opt_string rm = utf8 (ws_remark s)"
      "align4 o2 = of_nat (length ((pre' @ ?n) @ ?r))"
    using parse_string_at [of payload "pre' @ ?n" "ws_remark s" ?ps o1 junk True] Cons.prems(4-8) n(3) ndr_string_dvd [of "ws_name s"]
    by (auto simp: share_strings_def [of s] share_ok_def)
  obtain o3 where l: "parse_shares1 junk buffer payload (length ss) (boff + 12) o2 =
        Some (map share_of ss, of_nat (length (pre @ share_entry s) + 12 * length ss), o3)"
      "align4 o3 = of_nat (length ((pre' @ share_strings s) @ concat (map share_strings ss)))"
    using Cons.IH [of "pre @ share_entry s" "boff + 12" "pre' @ share_strings s" o2] Cons.prems r(3) ndr_string_dvd
    by (auto simp: share_strings_def [of s])
  show ?case
    using info n(1,2) r(1,2) l by (simp add: share_type_sub share_of_def share_strings_def [of s] ac_simps)
qed simp

lemma mem_ptr_at: "n = int (length pre) \<Longrightarrow> mem_ptr (pre @ post) n = Some post"
  by (simp add: mem_ptr_def)

lemma parse_share_buffer_eq:
  assumes "mem_ptr in_buffer (uint consumed) = Some b" and "mem_ptr b (uint n * int entry) = Some p"
    and "loop b p (unat n) 0 0 = Some (shs, boff, poff)" and "align4 (boff + (consumed + poff)) = off"
    and "read_u32 in_buffer off = Some tot" and "read_u32 in_buffer (off + 4) = Some rptr"
    and "len - (off + 4) = 8" and "read_u32 in_buffer (off + 4 + 4) = Some resume"
  shows "parse_share_buffer entry loop level in_buffer len consumed n shares =
    Some (\<lparr>share_info_type = level, sharelist = sharelist shares @ shs\<rparr>, tot, rptr, resume)"
  unfolding parse_share_buffer_def Let_def by (simp only: assms bind.bind_lunit prod.case refl if_True)

lemma share_buffer_parsed:
  assumes "\<forall>s\<in>set ss. share_ok s" and "length pre = 24" and "n = of_nat (length ss)"
    and "buffer = pre @ concat (map share_entry ss) @ concat (map share_strings ss) @ (htole32 tot @ htole32 rptr @ htole32 resume) @ post"
    and "length buffer < 2 ^ 31" and "len = of_nat (36 + 12 * length ss + length (concat (map share_strings ss)))"
  shows "srvsvc_parse_NetrShareEnum_buffer junk buffer len 24 n shares =
    Some (\<lparr>share_info_type = 1, sharelist = sharelist shares @ map share_of ss\<rparr>, tot, rptr, resume)"
proof -
  let ?e = "concat (map share_entry ss)" and ?p = "concat (map share_strings ss)" and ?t = "htole32 tot @ htole32 rptr @ htole32 resume"
  have n: "uint n = int (length ss)" "unat n = length ss"
    using assms(5) unfolding assms(3,4) by (simp_all add: uint_pos unat_of_nat_u32)
  have m: "mem_ptr buffer (uint (24 :: u32)) = Some (?e @ ?p @ ?t @ post)" "mem_ptr (?e @ ?p @ ?t @ post) (uint n * int 12) = Some (?p @ ?t @ post)"
    unfolding assms(4) by (simp_all add: mem_ptr_at assms(2) n)
  obtain po where l: "parse_shares1 junk (?e @ ?p @ ?t @ post) (?p @ ?t @ post) (length ss) 0 0 = Some (map share_of ss, of_nat (12 * length ss), po)"
      "align4 po = of_nat (length ?p)"
    using parse_shares1_at [of "?e @ ?p @ ?t @ post" "[]" ss "?p @ ?t @ post" 0 "?p @ ?t @ post" "[]" "?t @ post" 0 junk] assms(1,5)
    unfolding assms(4) by (auto simp: align4_def)
  let ?o = "of_nat (length (pre @ ?e @ ?p)) :: u32"
  have o: "align4 (of_nat (12 * length ss) + (24 + po)) = ?o"
    using align4_add [of "24 + 12 * length ss" po] assms(2,5) l(2) unfolding assms(4) by (simp add: ac_simps)
  have r: "read_u32 buffer ?o = Some tot" "read_u32 buffer (?o + 4) = Some rptr" "read_u32 buffer (?o + 4 + 4) = Some resume"
    using read_u32_at [of ?o "pre @ ?e @ ?p" tot] read_u32_at [of "?o + 4" "pre @ ?e @ ?p @ htole32 tot" rptr]
      read_u32_at [of "?o + 4 + 4" "pre @ ?e @ ?p @ htole32 tot @ htole32 rptr" resume] assms(5)
    unfolding assms(4) by simp_all
  have "len - (?o + 4) = 8"
    by (simp add: assms(2,6))
  then show ?thesis
    unfolding srvsvc_parse_NetrShareEnum_buffer_def
    using m(1,2) l(1) o r by (intro parse_share_buffer_eq) (simp_all only: n(2))
qed

lemma share_response_parsed:
  assumes "\<forall>s\<in>set ss. share_ok s" and "length (share_response ref arr ss tot rptr resume @ post) < 2 ^ 31"
  shows "srvsvc_parse_NetrShareEnumResponse junk (share_response ref arr ss tot rptr resume @ post)
      (of_nat (length (share_response ref arr ss tot rptr resume))) shares =
    Some (Inr (of_nat (length ss), \<lparr>share_info_type = 1, sharelist = sharelist shares @ map share_of ss\<rparr>, tot, rptr, resume))"
proof -
  let ?r = "share_response ref arr ss tot rptr resume" and ?n = "of_nat (length ss) :: u32"
  let ?h = "srvsvc_init_InfoStruct 1 ref ?n arr @ htole32 ?n"
  let ?rest = "concat (map share_entry ss) @ concat (map share_strings ss) @ (htole32 tot @ htole32 rptr @ htole32 resume) @ post"
  have b: "?r @ post = ?h @ ?rest"
    by (simp add: share_response_def)
  have w: "read_u32 (?r @ post) 0 = Some 1" "read_u32 (?r @ post) 4 = Some 1" "read_u32 (?r @ post) 8 = Some ref"
      "read_u32 (?r @ post) 12 = Some ?n" "read_u32 (?r @ post) 16 = Some arr"
    using assms(2) read_u32_at [of 0 "[]" 1] read_u32_at [of 4 "htole32 1" 1] read_u32_at [of 8 "htole32 1 @ htole32 1" ref]
      read_u32_at [of 12 "htole32 1 @ htole32 1 @ htole32 ref" ?n] read_u32_at [of 16 "htole32 1 @ htole32 1 @ htole32 ref @ htole32 ?n" arr]
    unfolding b srvsvc_init_InfoStruct_def by simp_all
  have "srvsvc_parse_NetrShareEnum_InfoStruct (?r @ post) (of_nat (length ?r)) =
      Some (Inr \<lparr>is_info_level = 1, is_switch_value = 1, is_referent_id = ref, is_num_entries = ?n, is_array_referent_id = arr\<rparr>)"
    unfolding srvsvc_parse_NetrShareEnum_InfoStruct_def w using assms(2) unat_of_nat_u32 [of "length ?r"]
    by (simp add: share_response_def srvsvc_init_InfoStruct_def)
  moreover have "srvsvc_parse_NetrShareEnum_buffer junk (?r @ post) (of_nat (length ?r)) 24 ?n shares =
      Some (\<lparr>share_info_type = 1, sharelist = sharelist shares @ map share_of ss\<rparr>, tot, rptr, resume)"
    using assms by (intro share_buffer_parsed [of _ ?h]) (simp_all add: share_response_def srvsvc_init_InfoStruct_def)
  ultimately show ?thesis
    by (simp add: srvsvc_parse_NetrShareEnumResponse_def)
qed

text \<open>C4. The whole answer to an enumeration, with the header of the response before it and the status behind it, is read
  as the list of its shares: each with its name, type and remark, in the order of the server, behind the shares of
  earlier answers, with the total and the handle to resume from.
\<close>

theorem share_list_parsed:
  assumes "length hdr = 24" and "\<forall>s\<in>set ss. share_ok s" and "length answer < 2 ^ 31"
    and "answer = hdr @ share_response ref arr ss tot rptr resume @ htole32 0"
  shows "parse_share_list junk answer (of_nat (length answer)) shares =
    Some (Inr (of_nat (length ss), \<lparr>share_info_type = 1, sharelist = sharelist shares @ map share_of ss\<rparr>, tot, rptr, resume))"
proof -
  let ?r = "share_response ref arr ss tot rptr resume"
  have p: "mem_ptr answer 24 = Some (?r @ htole32 0)"
    by (simp add: assms(1,4) mem_ptr_at)
  have l: "(of_nat (length answer) :: u32) - 24 = of_nat (length (?r @ htole32 0))" "(of_nat (length answer) :: u32) - 24 - 4 = of_nat (length ?r)"
    by (simp_all add: assms(1,4))
  have "srvsvc_get_NetrShareEnum_status (?r @ htole32 0) (of_nat (length answer) - 24) = Some 0"
    using assms(3) read_u32_at [of "of_nat (length ?r)" ?r 0 "[]"] unfolding l srvsvc_get_NetrShareEnum_status_def
    by (simp add: assms(4))
  then show ?thesis
    unfolding parse_share_list_def p using share_response_parsed [OF assms(2), of ref arr tot rptr resume "htole32 0"] assms(3)
    by (simp add: assms(1,4))
qed

theorem share_list_parsed_witness:
  "let s = \<lparr>ws_name = [0x43, 0x24], ws_type = 0x80000000, ws_remark = [0xe9], ws_name_id = 1, ws_remark_id = 2\<rparr> in
   parse_share_list 0 (replicate 24 0 @ share_response 5 6 [s, s\<lparr>ws_remark := []\<rparr>] 2 7 9 @ htole32 0)
     (of_nat (length (replicate 24 0 @ share_response 5 6 [s, s\<lparr>ws_remark := []\<rparr>] 2 7 9 @ htole32 0))) \<lparr>share_info_type = 0, sharelist = []\<rparr> =
   Some (Inr (2, \<lparr>share_info_type = 1, sharelist =
     [\<lparr>shi_name = [0x43, 0x24], shi_share_type = 0x80000000, shi_remark = [0xc3, 0xa9], shi_permissions = 0, shi_max_uses = 0,
       shi_current_uses = 0, shi_path = [], shi_password = []\<rparr>,
      \<lparr>shi_name = [0x43, 0x24], shi_share_type = 0x80000000, shi_remark = [], shi_permissions = 0, shi_max_uses = 0,
       shi_current_uses = 0, shi_path = [], shi_password = []\<rparr>]\<rparr>, 2, 7, 9))"
  unfolding Let_def
  by (subst share_list_parsed [OF _ _ _ refl]) (simp_all add: share_ok_def share_response_def srvsvc_init_InfoStruct_def share_strings_def ndr_string_def
    share_of_def new_smb2_shareinfo_def ucs2_cp_bytes_def ucs2_cp_size_def Let_def)

section \<open>The answer to a lookup\<close>

definition lookup_response :: "bytes \<Rightarrow> u16 list \<Rightarrow> smb2_sid \<Rightarrow> u32 \<Rightarrow> bytes \<Rightarrow> u32 \<Rightarrow> bytes \<Rightarrow> bytes" where
  \<comment> \<open>the domain with its name and SID, then \<open>n\<close> entries, the type of the first and its RID\<close>
  "lookup_response start domain sid n mid rid tail =
     (start @ htole32 (of_nat (length domain)) @ ucs2_bytes domain @ replicate (pad4 (2 * length domain)) 0) @
     htole32 (ucast (sid_sub_auth_count sid)) @ sid_bytes sid @ htole32 n @ mid @ htole32 rid @ tail @ htole32 0"

definition lookup_ok :: "bytes \<Rightarrow> smb2_sid \<Rightarrow> bytes \<Rightarrow> bytes \<Rightarrow> bool" where
  \<comment> \<open>the lengths of the parts\<close>
  "lookup_ok start sid mid tail \<longleftrightarrow> length start = 40 \<and> length mid = 12 \<and> 4 \<le> length tail \<and> length (sid_id_auth sid) = 6 \<and>
     length (sid_sub_auth sid) = unat (sid_sub_auth_count sid)"

lemma sid_bytes_length:
  "length (sid_id_auth sid) = 6 \<Longrightarrow> length (sid_bytes sid) = 8 + 4 * length (sid_sub_auth sid)"
  by (simp add: sid_bytes_def)

lemma read_sub_auths_at:
  assumes "buffer = pre @ concat (map htole32 xs) @ post" and "length buffer < 2 ^ 31" and "off = of_nat (length pre)"
  shows "read_sub_auths buffer (length xs) off = Some xs"
  using assms
proof (induction xs arbitrary: pre off)
  case (Cons x xs)
  have "read_u32 buffer off = Some x"
    using Cons.prems by (simp add: read_u32_at)
  moreover have "read_sub_auths buffer (length xs) (off + 4) = Some xs"
    using Cons.prems by (intro Cons.IH [of "pre @ htole32 x"]) simp_all
  ultimately show ?case
    by simp
qed simp

lemma lookup_sid_at:
  assumes "buffer = pre @ htole32 (ucast (sid_sub_auth_count sid)) @ sid_bytes sid @ post" and "length buffer < 2 ^ 31"
    and "off = of_nat (length pre)" and "4 dvd length pre" and "length (sid_id_auth sid) = 6"
    and "length (sid_sub_auth sid) = unat (sid_sub_auth_count sid)"
  shows "lookup_sid buffer off =
    Some (Inr (sid_revision sid, sid_id_auth sid, sid_sub_auth sid, of_nat (length (pre @ htole32 0 @ sid_bytes sid))))"
proof -
  let ?c = "sid_sub_auth_count sid" and ?xs = "sid_sub_auth sid"
  let ?h = "htole32 (ucast ?c)" and ?m = "[sid_revision sid, ?c]" and ?i = "sid_id_auth sid" and ?s = "concat (map htole32 (sid_sub_auth sid)) @ post"
  have b: "buffer = pre @ ?h @ ?m @ ?i @ ?s"
    by (simp add: assms(1) sid_bytes_def)
  have len: "length pre + 12 + 4 * length ?xs + length post < 2 ^ 31"
    using assms(2,5) by (simp add: b)
  have r1: "read_u32 buffer off = Some (ucast ?c)"
    using len assms(5) unfolding b by (intro read_u32_at) (simp_all add: assms(3))
  have r2: "mem_read buffer (uint (off + 4)) 2 = Some ?m"
    using assms(2) by (rule read_buf [of _ "pre @ ?h" _ "?i @ ?s"]) (simp_all add: b assms(3))
  have r3: "mem_read buffer (uint (off + 6)) 6 = Some ?i"
    using assms(2) by (rule read_buf [of _ "pre @ ?h @ ?m" _ ?s]) (simp_all add: b assms(3,5))
  have a: "align4 (off + 12) = of_nat (length pre + 12)" "align4 (of_nat (length pre + 12) + ucast ?c * 4) = of_nat (length (pre @ htole32 0 @ sid_bytes sid))"
    using align4_aligned [of "length pre + 12"] align4_aligned [of "length pre + 12 + 4 * unat ?c"] len assms(4)
    by (simp_all add: assms(3,5,6) sid_bytes_length ac_simps)
  have "read_sub_auths buffer (unat ?c) (of_nat (length pre + 12)) = Some ?xs"
    using read_sub_auths_at [of buffer "pre @ ?h @ ?m @ ?i" ?xs post "of_nat (length pre + 12)"] assms(2,5,6) unfolding b by simp
  then show ?thesis
    using a unfolding lookup_sid_def Let_def by (simp add: r1 r2 r3)
qed

lemma lookup_rid_at:
  assumes "length buffer < 2 ^ 31" and "buffer = pre @ htole32 n @ mid @ htole32 rid @ tail" and "off = of_nat (length pre)"
    and "4 dvd length pre" and "length mid = 12" and "4 \<le> length tail"
  shows "lookup_rid buffer off = Some (n, rid)"
proof -
  have len: "length pre + 24 \<le> length buffer"
    using assms(5,6) by (simp add: assms(2))
  obtain x y z where "read_u32 buffer (off + 8) = Some x" "mem_read buffer (uint (off + 12)) 2 = Some y" "read_u32 buffer (off + 16 + 4) = Some z"
    using read_ex(2) [of "off + 8" "length pre + 8" 4 buffer] read_ex(1) [of "off + 12" "length pre + 12" 2 buffer]
      read_ex(2) [of "off + 16 + 4" "length pre + 20" 4 buffer] assms(1,3) len by auto
  moreover have "read_u32 buffer off = Some n"
    using assms(1,3) unfolding assms(2) by (intro read_u32_at) simp_all
  moreover have "read_u32 (((pre @ htole32 n) @ mid) @ htole32 rid @ tail) (off + 16) = Some rid"
    using assms(1,3,5) unfolding assms(2) by (intro read_u32_at) simp_all
  moreover have "align4 (off + 14) = off + 16"
    using align4_add [of "length pre" 14] assms(3,4) assms(1) len by (simp add: align4_def)
  ultimately show ?thesis
    unfolding lookup_rid_def by (simp add: assms(2))
qed

lemma unat_of_nat_u8: "n < 256 \<Longrightarrow> unat (of_nat n :: u8) = n"
  by (simp add: unat_of_nat take_bit_nat_eq_self)

lemma append_rid_one:
  assumes "length id_auth = 6" and "length xs < 255"
  shows "append_rid junk revision id_auth xs 1 rid = Some ([revision, of_nat (length xs) + 1] @ id_auth @ concat (map htole32 (xs @ [rid])))"
proof -
  have "unat (of_nat (length xs) + 1 :: u8) = length xs + 1"
    using assms(2) unat_of_nat_u8 [of "length xs + 1"] by (simp add: add.commute)
  moreover have "nat (8 + 4 * int (length xs)) = 8 + 4 * length xs"
    by simp
  ultimately show ?thesis
    using assms(1) by (simp add: append_rid_def Let_def mem_write_def put_bytes_def take_Cons')
qed

text \<open>No entry in the answer: the RID is written behind the end of the buffer.\<close>

lemma append_rid_no_entry: "length id_auth = 6 \<Longrightarrow> length xs < 256 \<Longrightarrow> append_rid junk revision id_auth xs 0 rid = None"
  using unat_of_nat_u8 [of "length xs"] by (simp add: append_rid_def Let_def mem_write_def put_bytes_def)

lemma lookup_head:
  assumes "length start = 40" and "buffer = (start @ htole32 d @ chars) @ post" and "length buffer < 2 ^ 31"
  shows "\<exists>x1 x2 x3 x4 x5. read_u32 buffer 4 = Some x1 \<and> read_u32 buffer 12 = Some x2 \<and> read_u32 buffer 16 = Some x3 \<and>
      mem_read buffer 20 2 = Some x4 \<and> mem_read buffer 22 2 = Some x5"
    and "\<exists>name. mem_read buffer 32 12 = Some name \<and> le32toh (sub_bytes name 8 4) = d"
  using assms(1) by (auto simp: assms(2) mem_read_def read_u32_def sub_bytes_def)

lemma lookup_status:
  assumes "buffer = pre @ htole32 w" and "length buffer < 2 ^ 31"
  shows "read_u32 buffer (of_nat (length buffer) - 4) = Some w"
  using assms(2) read_u32_at [of "of_nat (length pre)" pre w "[]"] by (simp add: assms(1))

lemma lookup_parsed:
  assumes "lookup_ok start sid mid tail" and "answer = lookup_response start domain sid n mid rid tail" and "length answer < 2 ^ 31"
  shows "lsarpc_parse_LookupNamesRes junk answer (of_nat (length answer)) =
    do { sidbuf \<leftarrow> append_rid junk (sid_revision sid) (sid_id_auth sid) (sid_sub_auth sid) n rid; Some (Inr sidbuf) }"
proof -
  let ?d = "of_nat (length domain) :: u32" and ?k = "2 * length domain" and ?s = "htole32 (ucast (sid_sub_auth_count sid)) @ sid_bytes sid"
  let ?dom = "ucs2_bytes domain @ replicate (pad4 ?k) 0"
  let ?pre = "start @ htole32 ?d @ ?dom" and ?post = "htole32 n @ mid @ htole32 rid @ tail @ htole32 0"
  have ok: "length start = 40" "length mid = 12" "4 \<le> length tail" "length (sid_id_auth sid) = 6" "length (sid_sub_auth sid) = unat (sid_sub_auth_count sid)"
    using assms(1) by (simp_all add: lookup_ok_def)
  have b: "answer = ?pre @ ?s @ ?post"
    by (simp add: assms(2) lookup_response_def)
  have l: "length ?pre = 44 + (?k + pad4 ?k)" "44 + (?k + pad4 ?k) < 2 ^ 31"
    using assms(3) by (simp_all add: b ok(1))
  have d: "4 dvd length ?pre"
    unfolding l(1) by (rule dvd_add) (simp, simp only: dvd_eq_mod_eq_0 pad4_dvd)
  have "length (?pre @ ?s) = length ?pre + 4 * (3 + unat (sid_sub_auth_count sid))"
    using ok by (simp add: sid_bytes_length)
  then have d2: "4 dvd length (?pre @ ?s)"
    using d by (simp only: dvd_add_left_iff dvd_triv_left)
  have st: "read_u32 answer (of_nat (length answer) - 4) = Some 0"
    using assms(3) by (intro lookup_status [of _ "?pre @ ?s @ htole32 n @ mid @ htole32 rid @ tail"]) (simp_all add: b)
  have a: "align4 (44 + 2 * ?d) = of_nat (length ?pre)"
    using align4_add [of 44 "2 * ?d"] align4_nat [of ?k] l by simp
  have sid: "lookup_sid answer (of_nat (length ?pre)) =
      Some (Inr (sid_revision sid, sid_id_auth sid, sid_sub_auth sid, of_nat (length (?pre @ ?s))))"
    using lookup_sid_at [of answer ?pre sid ?post] assms(3) d ok by (simp add: b)
  have rid: "lookup_rid answer (of_nat (length (?pre @ ?s))) = Some (n, rid)"
    using ok by (intro lookup_rid_at [OF assms(3) _ refl d2, of _ mid _ "tail @ htole32 0"]) (simp_all add: b)
  have e: "align4 20 = 20" "uint (20 :: u32) = 20" "uint ((20 :: u32) + 2) = 22" "uint ((20 :: u32) + 12) = 32" "(20 :: u32) + 24 = 44"
    by (simp_all add: align4_def)
  obtain name where "mem_read answer 32 12 = Some name" "le32toh (sub_bytes name 8 4) = ?d"
    using lookup_head(2) [OF ok(1) b assms(3)] by blast
  then show ?thesis
    using lookup_head(1) [OF ok(1) b assms(3)] unfolding lsarpc_parse_LookupNamesRes_def Let_def e
    by (elim exE conjE) (simp only: st a sid rid bind.bind_lunit prod.case sum.case if_False refl not_True_eq_False)
qed

text \<open>The answer to a lookup, in the layout of the protocol with one entry, becomes the SID of the domain with the RID
  of the account as one more sub-authority.
\<close>

lemma lookup_appends_rid:
  assumes "lookup_ok start sid mid tail" and "sid_sub_auth_count sid < 255"
    and "answer = lookup_response start domain sid 1 mid rid tail" and "length answer < 2 ^ 31"
  shows "lsarpc_parse_LookupNamesRes junk answer (of_nat (length answer)) =
    Some (Inr (sid_bytes (sid\<lparr>sid_sub_auth_count := sid_sub_auth_count sid + 1, sid_sub_auth := sid_sub_auth sid @ [rid]\<rparr>)))"
proof -
  have ok: "length (sid_id_auth sid) = 6" "length (sid_sub_auth sid) = unat (sid_sub_auth_count sid)" "length (sid_sub_auth sid) < 255"
    using assms(1,2) by (simp_all add: lookup_ok_def word_less_nat_alt)
  then show ?thesis
    unfolding lookup_parsed [OF assms(1,3,4)] append_rid_one [OF ok(1,3)] by (simp add: sid_bytes_def)
qed

text \<open>An answer without an entry makes the client write behind the buffer of the SID.\<close>

lemma lookup_without_entry:
  assumes "lookup_ok start sid mid tail" and "answer = lookup_response start domain sid 0 mid rid tail" and "length answer < 2 ^ 31"
  shows "lsarpc_parse_LookupNamesRes junk answer (of_nat (length answer)) = None"
  using assms(1) unat_u8_less [of "sid_sub_auth_count sid"] unfolding lookup_parsed [OF assms]
  by (simp add: lookup_ok_def append_rid_no_entry)

section \<open>The requests\<close>

lemma write_zeros:
  "length x \<le> n \<Longrightarrow> off = int (length pre) \<Longrightarrow> mem_write (pre @ replicate n 0) off x = Some (pre @ x @ replicate (n - length x) 0)"
  by (simp add: mem_write_def put_bytes_def)

lemma write_zeros32:
  assumes "off = of_nat (length pre)" and "length pre < 2 ^ 31" and "length x + m = n"
  shows "mem_write (pre @ replicate n 0) (uint (off :: u32)) x = Some ((pre @ x) @ replicate m 0)"
  using assms write_zeros [of x n "uint off" pre] by (simp add: uint_pos)

lemma ndr_string_zeros:
  assumes "length (ndr_string cs) \<le> n"
  shows "htole32 (of_nat (length cs + 1)) @ htole32 0 @ htole32 (of_nat (length cs + 1)) @ ucs2_bytes cs @ replicate (n - (12 + 2 * length cs)) 0 =
    ndr_string cs @ replicate (n - length (ndr_string cs)) 0"
proof -
  let ?m = "length cs"
  have e: "n - (12 + 2 * ?m) = 2 + pad4 (2 * (?m + 1)) + (n - length (ndr_string cs))"
    using assms by (simp add: length_ndr_string)
  have "replicate (n - (12 + 2 * ?m)) (0 :: u8) = [0, 0] @ replicate (pad4 (2 * (?m + 1))) 0 @ replicate (n - length (ndr_string cs)) 0"
    unfolding e replicate_add by (simp only: numeral_2_eq_2 replicate_Suc replicate_0 append_Cons append_Nil)
  moreover have "ucs2_bytes (cs @ [0]) = ucs2_bytes cs @ [0, 0]"
    by (simp add: ucs2_bytes_def htole16_def numeral_2_eq_2)
  ultimately show ?thesis
    by (simp only: ndr_string_def Let_def append.assoc)
qed

lemma string_value_zeros:
  assumes "utf8_to_ucs2 (c_str s) = Some (Some cs)" and "length cs = length s" and "length (ndr_string cs) \<le> n" and "n < 2 ^ 31"
  shows "dcerpc_init_stringValue s True (replicate n 0) (of_nat n) =
    Some (Inr (ndr_string cs @ replicate (n - length (ndr_string cs)) 0, of_nat (12 + 2 * (length cs + 1))))"
proof -
  let ?w = "of_nat (length cs + 1) :: u32" and ?q = "12 + 2 * (length cs + 1)"
  let ?h = "htole32 ?w @ htole32 0 @ htole32 ?w"
  have q: "12 + ?w * 2 = of_nat ?q" "\<not> (of_nat n :: u32) < of_nat ?q"
    using assms(3,4) unat_of_nat_u32 [of n] unat_of_nat_u32 [of ?q]
    by (simp_all only: word_less_nat_alt) (simp_all add: length_ndr_string)
  have w: "mem_write (replicate n 0) 0 ?h = Some (?h @ replicate (n - 12) 0)"
    "mem_write (?h @ replicate (n - 12) 0) 12 (ucs2_bytes cs) = Some (?h @ ucs2_bytes cs @ replicate (n - (12 + 2 * length cs)) 0)"
    using assms(3) write_zeros [of ?h n 0 "[]"] write_zeros [of "ucs2_bytes cs" "n - 12" 12 ?h] by (simp_all add: length_ndr_string)
  have e: "of_nat (length s) + 1 = ?w"
    by (simp add: assms(2))
  show ?thesis
    unfolding dcerpc_init_stringValue_def Let_def if_True e q(1)
    using ndr_string_zeros [OF assms(3)] by (simp only: assms(1) q(2) w [unfolded append.assoc] bind.bind_lunit option.case if_False append.assoc)
qed

lemma server_name_zeros:
  assumes "utf8_to_ucs2 (c_str s) = Some (Some cs)" and "length cs = length s" and "length (ndr_string cs) + 4 \<le> n" and "n < 2 ^ 31"
  shows "dcerpc_init_serverName refid s (replicate n 0) (of_nat n) =
    Some (Inr (htole32 refid @ ndr_string cs @ replicate (n - 4 - length (ndr_string cs)) 0, of_nat (16 + 2 * (length cs + 1))))"
proof -
  have w: "mem_write (replicate n 0) 0 (htole32 refid) = Some (htole32 refid @ replicate (n - 4) 0)"
    using assms(3) write_zeros [of "htole32 refid" n 0 "[]"] by simp
  have v: "dcerpc_init_stringValue s True (replicate (n - 4) 0) (of_nat (n - 4)) =
      Some (Inr (ndr_string cs @ replicate (n - 4 - length (ndr_string cs)) 0, of_nat (12 + 2 * (length cs + 1))))"
    using assms by (intro string_value_zeros) simp_all
  have "(of_nat n :: u32) - 4 = of_nat (n - 4)"
    using assms(3) by simp
  then show ?thesis
    using v by (simp add: dcerpc_init_serverName_def w at_offset_of_def mem_ptr_at)
qed

definition share_enum_payload :: "u16 list \<Rightarrow> u32 \<Rightarrow> u32 \<Rightarrow> bytes" where
  \<comment> \<open>the arguments of \<^verbatim>\<open>NetrShareEnum\<close>: server, level with an empty container, preferred length, resume handle\<close>
  "share_enum_payload cs shinfo_type resumeHandle = htole32 0x0026e53c @ ndr_string cs @
     srvsvc_init_InfoStruct shinfo_type 0x01fbf3e8 0 0 @ htole32 0xffffffff @ htole32 resumeHandle"

lemma enum_request_zeros:
  assumes "utf8_to_ucs2 (c_str s) = Some (Some cs)" and "length cs = length s" and "length (share_enum_payload cs t r) \<le> n" and "n < 2 ^ 31"
  shows "srvsvc_create_NetrShareEnumRequest s t (ucast r) (replicate n 0) (of_nat n) =
    Some (Inr (share_enum_payload cs t r @ replicate (n - length (share_enum_payload cs t r)) 0, of_nat (length (share_enum_payload cs t r))))"
proof -
  let ?p = "htole32 0x0026e53c @ ndr_string cs" and ?i = "srvsvc_init_InfoStruct t 0x01fbf3e8 0 0" and ?k = "length (ndr_string cs)"
  have i: "length ?i = 20" and l: "length (share_enum_payload cs t r) = 32 + ?k"
    by (simp_all add: share_enum_payload_def srvsvc_init_InfoStruct_def)
  have k: "32 + ?k \<le> n"
    using assms(3) by (simp add: l)
  have o: "align4 (of_nat (16 + 2 * (length cs + 1))) = of_nat (4 + ?k)"
    using align4_add [of 16 "of_nat (2 * (length cs + 1))"] align4_nat [of "2 * (length cs + 1)"] k assms(4) by (simp add: length_ndr_string)
  let ?e = "htole32 0xffffffff" and ?o = "of_nat (4 + ?k) :: u32"
  have w: "mem_write (?p @ replicate (n - 4 - ?k) 0) (uint ?o) ?i = Some ((?p @ ?i) @ replicate (n - 24 - ?k) 0)"
    "mem_write ((?p @ ?i) @ replicate (n - 24 - ?k) 0) (uint (?o + 20)) ?e = Some (((?p @ ?i) @ ?e) @ replicate (n - 28 - ?k) 0)"
    "mem_write (((?p @ ?i) @ ?e) @ replicate (n - 28 - ?k) 0) (uint (?o + 20 + 4)) (htole32 r) =
       Some ((((?p @ ?i) @ ?e) @ htole32 r) @ replicate (n - 32 - ?k) 0)"
    using k assms(4) by (intro write_zeros32; simp add: i)+
  have "(((?p @ ?i) @ ?e) @ htole32 r) = share_enum_payload cs t r" "?o + 20 + 4 + 4 = of_nat (length (share_enum_payload cs t r))"
      "n - 32 - ?k = n - length (share_enum_payload cs t r)"
    by (simp_all add: l) (simp add: share_enum_payload_def)
  then show ?thesis
    using server_name_zeros [OF assms(1,2), of n "0x0026e53c"] k assms(4) w o
    by (simp add: srvsvc_create_NetrShareEnumRequest_def Let_def)
qed

text \<open>The request of an enumeration: for a server name of ASCII characters that leaves the payload within the buffer of 1024
  bytes, the bytes sent are the header of a request, with the length of the whole fragment and of its payload, and the
  arguments of the call in the layout of the protocol, and the counter of the calls goes on.
\<close>

lemma share_enum_request_layout:
  assumes "utf8_to_ucs2 (c_str (0x5c # 0x5c # server)) = Some (Some cs)" and "length cs = length server + 2" and "length cs \<le> 477"
    and payload_def: "payload = share_enum_payload cs shinfo_type resumeHandle"
  shows "\<exists>b n. share_enum_request gid server shinfo_type resumeHandle = Some (Inr (b, n, gid + 1)) \<and>
    take (unat n) b = operation_request_bytes
      \<lparr>oq_dceRpcHdr = \<lparr>rh_version_major = 5, rh_version_minor = 0, rh_packet_type = RPC_PACKET_TYPE_REQUEST,
         rh_packet_flags = 3, rh_data_rep = init_rpc_data_representation, rh_frag_length = of_nat (24 + length payload), rh_auth_length = 0,
         rh_call_id = ucast gid\<rparr>,
       oq_alloc_hint = of_nat (length payload), oq_context_id = 1, oq_opnum = DCE_OP_SHARE_ENUM\<rparr> @ payload"
proof -
  let ?q = "fst (dcerpc_create_Operation_Request gid DCE_OP_SHARE_ENUM (of_nat (length payload)))"
  let ?z = "replicate (1000 - length payload) 0"
  have l: "length payload \<le> 1000"
    using assms(3) by (simp add: payload_def share_enum_payload_def length_ndr_div srvsvc_init_InfoStruct_def)
  have c: "srvsvc_create_NetrShareEnumRequest (0x5c # 0x5c # server) shinfo_type (ucast resumeHandle) (replicate 1000 0) (of_nat 1000) =
      Some (Inr (payload @ ?z, of_nat (length payload)))"
    using l assms(1,2) unfolding payload_def by (intro enum_request_zeros) simp_all
  have q: "length (operation_request_bytes ?q) = 24"
    by (simp add: operation_request_bytes_def rpc_header_bytes_def)
  have n: "unat (24 + of_nat (length payload) :: u32) = 24 + length payload"
    using l unat_of_nat_u32 [of "24 + length payload"] by simp
  have "share_enum_request gid server shinfo_type resumeHandle =
      Some (Inr (operation_request_bytes ?q @ payload @ ?z, 24 + of_nat (length payload), gid + 1))"
    using c q by (simp add: share_enum_request_def at_offset_of_def mem_ptr_def mem_write_def put_bytes_def
      dcerpc_create_Operation_Request_def)
  moreover have "ucast (of_nat (length payload) :: u32) = (of_nat (length payload) :: u16)"
    using l by (simp add: unsigned_of_nat take_bit_nat_eq_self)
  ultimately show ?thesis
    using q by (simp add: n)
      (simp add: dcerpc_create_Operation_Request_def dcerpc_init_Operation_Request_def init_rpc_header_def)
qed

text \<open>A longer name passes the test, which asks for the room of the name alone: what follows it is written behind the buffer.\<close>

lemma enum_request_overflow:
  assumes "utf8_to_ucs2 (c_str (0x5c # 0x5c # server)) = Some (Some cs)" and "length cs = length server + 2"
    and "478 \<le> length cs" and "length cs \<le> 491"
  shows "share_enum_request gid server shinfo_type resumeHandle = None"
proof -
  let ?k = "length (ndr_string cs)" and ?n = "2 * (length cs + 1)"
  have k: "972 \<le> ?k" "?k \<le> 996"
    using assms(3,4) by (simp_all add: length_ndr_div)
  have o: "align4 (of_nat (16 + ?n)) = of_nat (4 + ?k)"
    using align4_add [of 16 "of_nat ?n"] align4_nat [of ?n] assms(4) by (simp add: length_ndr_string)
  have "unat (of_nat (4 + ?k) + 20 + 4 :: u32) = 28 + ?k"
    using k unat_of_nat_u32 [of "28 + ?k"] by simp
  then have "srvsvc_create_NetrShareEnumRequest (0x5c # 0x5c # server) shinfo_type (ucast resumeHandle) (replicate 1000 0) (of_nat 1000) = None"
    unfolding srvsvc_create_NetrShareEnumRequest_def
    using server_name_zeros [OF assms(1), of 1000 "0x0026e53c"] assms(2) k o
    by (auto simp: Let_def mem_write_def)
  then show ?thesis
    by (simp add: share_enum_request_def at_offset_of_def mem_ptr_def)
qed

text \<open>
  \<^verbatim>\<open>sharesBuffLen\<close> keeps the length of the previous answer: with it, the status of the next one is looked for behind its
  buffer.
\<close>

lemma stale_length_undefined:
  assumes "28 \<le> unat len" and "length buf < unat len"
  shows "parse_share_list junk buf len shares = None"
proof -
  have "unat (len - 28) = unat len - 28"
    using assms(1) unat_sub [of 28 len] by (simp add: word_le_nat_alt)
  then have "read_u32 (drop 24 buf) (len - 24 - 4) = None"
    using assms(2) by (simp add: read_u32_def mem_read_def)
  then show ?thesis
    by (simp add: parse_share_list_def mem_ptr_def srvsvc_get_NetrShareEnum_status_def)
qed

lemma second_batch_undefined:
  assumes "share_enum_request gid server shinfo_type resumeHandle = Some (Inr (b, offset, gid'))" and "\<not> offset > ucast max_xmit_frag"
    and "transceive env (put_cell smb2 nb (CBuf b)) fh nb offset ob oc error2 net = Some (SMB2_STATUS_SUCCESS, smb2', error2', net')"
    and "buf_at smb2' ob = Some out" and "u32_at smb2' oc = Some cnt" and "mem_read out 0 (unat cnt) = Some buf"
    and "dcerpc_parse_Operation_Response buf (sharesBuffLen + cnt) = Some (Inr res)"
    and "rh_packet_flags (os_dceRpcHdr res) AND RPC_FLAG_LAST_FRAG \<noteq> 0"
    and "28 \<le> unat sharesBuffLen" and "unat sharesBuffLen + unat cnt < 2 ^ 32"
  shows "share_batch env fh max_xmit_frag max_recv_frag server shinfo_type nb ob oc
    (resumeHandle, shares_read, sharesBuffLen, shares, gid, smb2, error2, net) = None"
proof -
  have "unat (sharesBuffLen + cnt) = unat sharesBuffLen + unat cnt"
    using assms(10) by (subst unat_add_lem [symmetric]) simp_all
  moreover have "length buf = unat cnt"
    using assms(6) by (auto simp: mem_read_def sub_bytes_def split: if_splits)
  ultimately have "parse_share_list (e_byte env) buf (sharesBuffLen + cnt) shares = None"
    using assms(9) by (intro stale_length_undefined) simp_all
  then show ?thesis
    using assms(1-8) by (simp add: share_batch_def Let_def)
qed

text \<open>A response that is a header alone is read four bytes past its end.\<close>

lemma short_response_undefined: "length buf = 24 \<Longrightarrow> dcerpc_parse_Operation_Response buf 24 = None"
  by (simp add: dcerpc_parse_Operation_Response_def mem_read_def)

end
