(* ===== verification/Rpc_Json.thy ===== *)
theory Rpc_Json
  imports Std_Map "HOL-Library.Char_ord" "HOL-Library.List_Lexorder"
begin

text \<open>
  JSON values as the JSON-RPC library uses them, and \<^verbatim>\<open>common.hpp\<close>. The value type and its operations follow the
  vendored \<^verbatim>\<open>nlohmann/json.hpp\<close>: an object is a \<^verbatim>\<open>std::map\<close>, a list of pairs in key order; a number is signed
  (\<open>JInt\<close>), unsigned (\<open>JUInt\<close>, what the parser makes of a number without a sign) or a floating-point number of the type
  \<open>'f\<close>. What is not modelled of that library is the record \<open>json_lib\<close>: the text form of a value and floating-point
  arithmetic. Exceptions are the left summand of a result; \<open>None\<close> is undefined behaviour.
\<close>

section \<open>Values\<close>

datatype value_t = VT_null | VT_object | VT_array | VT_string | VT_boolean | VT_number_integer | VT_number_unsigned
  | VT_number_float

datatype 'f json = JNull | JBool bool | JInt int | JUInt int | JFloat 'f | JString string
  | JArray "'f json list" | JObject "(string \<times> 'f json) list"

datatype 'f exn = JsonRpcException (Code: int) (Message: string) (Data: "'f json")
  | TypeError string | ParseError string | StdException string | OtherException

record 'f json_lib =
  jl_parse :: "string \<Rightarrow> 'f exn + 'f json"
  jl_dump :: "'f json \<Rightarrow> 'f exn + string"
  jl_double :: "int \<Rightarrow> 'f"
  jl_single :: "'f \<Rightarrow> 'f"
  jl_trunc :: "'f \<Rightarrow> int option"
  jl_less :: "'f \<Rightarrow> 'f \<Rightarrow> bool"

fun json_type :: "'f json \<Rightarrow> value_t" where
  "json_type JNull = VT_null"
| "json_type (JBool _) = VT_boolean"
| "json_type (JInt _) = VT_number_integer"
| "json_type (JUInt _) = VT_number_unsigned"
| "json_type (JFloat _) = VT_number_float"
| "json_type (JString _) = VT_string"
| "json_type (JArray _) = VT_array"
| "json_type (JObject _) = VT_object"

definition is_number :: "'f json \<Rightarrow> bool" where
  "is_number v \<longleftrightarrow> json_type v \<in> {VT_number_integer, VT_number_unsigned, VT_number_float}"

fun json_type_name :: "'f json \<Rightarrow> string" where
  "json_type_name JNull = ''null''"
| "json_type_name (JObject _) = ''object''"
| "json_type_name (JArray _) = ''array''"
| "json_type_name (JString _) = ''string''"
| "json_type_name (JBool _) = ''boolean''"
| "json_type_name _ = ''number''"

fun json_size :: "'f json \<Rightarrow> nat" where
  "json_size JNull = 0"
| "json_size (JArray xs) = length xs"
| "json_size (JObject m) = length m"
| "json_size _ = 1"

definition json_empty :: "'f json \<Rightarrow> bool" where
  "json_empty v \<longleftrightarrow> json_size v = 0"

definition json_find :: "string \<Rightarrow> 'f json \<Rightarrow> 'f json option" where
  "json_find key v = (case v of JObject m \<Rightarrow> map_find key m | _ \<Rightarrow> None)"

definition json_index :: "'f json \<Rightarrow> string \<Rightarrow> 'f json" where
  "json_index v key = (case json_find key v of Some x \<Rightarrow> x | None \<Rightarrow> JNull)"

definition json_set :: "string \<Rightarrow> 'f json \<Rightarrow> 'f json \<Rightarrow> 'f json" where
  "json_set key x v = (case v of JObject m \<Rightarrow> JObject (map_put key x m) | _ \<Rightarrow> JObject [(key, x)])"

definition map_emplace :: "string \<Rightarrow> 'a \<Rightarrow> (string \<times> 'a) list \<Rightarrow> (string \<times> 'a) list" where
  "map_emplace key x m = (if map_find key m = None then map_put key x m else m)"

definition json_object :: "(string \<times> 'f json) list \<Rightarrow> 'f json" where
  "json_object kvs = JObject (fold (\<lambda>(k, x). map_emplace k x) kvs [])"

fun json_push_back :: "'f json \<Rightarrow> 'f json \<Rightarrow> 'f json" where
  "json_push_back (JArray xs) x = JArray (xs @ [x])"
| "json_push_back _ x = JArray [x]"

text \<open>A value after it has been printed and read again: a number without a sign is unsigned.\<close>

fun norm :: "'f json \<Rightarrow> 'f json" where
  "norm (JInt n) = (if n < 0 then JInt n else JUInt n)"
| "norm (JArray xs) = JArray (map norm xs)"
| "norm (JObject m) = JObject (map (\<lambda>(k, x). (k, norm x)) m)"
| "norm v = v"

section \<open>Conversions\<close>

fun digits :: "nat \<Rightarrow> nat \<Rightarrow> string" where
  "digits 0 n = []"
| "digits (Suc f) n = (if n < 10 then [char_of (48 + n)] else digits f (n div 10) @ [char_of (48 + n mod 10)])"

definition to_string :: "int \<Rightarrow> string" where
  "to_string n = (if n < 0 then ''-'' @ digits 20 (nat (- n)) else digits 20 (nat n))"

definition type_error :: "int \<Rightarrow> string \<Rightarrow> 'f exn" where
  "type_error i what = TypeError (''[json.exception.type_error.'' @ to_string i @ ''] '' @ what)"

definition must_be :: "string \<Rightarrow> 'f json \<Rightarrow> 'f exn" where
  "must_be t v = type_error 302 (''type must be '' @ t @ '', but is '' @ json_type_name v)"

datatype cpp_type = TVoid | TString | TBool | TFloat | TDouble | TLongDouble
  | TShort | TInt | TLong | TLongLong | TUShort | TUInt | TULong | TULongLong
  | TVector cpp_type | TEnum string | TClass string

definition int_bits :: "cpp_type \<Rightarrow> nat" where
  "int_bits t = (if t \<in> {TShort, TUShort} then 16 else if t \<in> {TInt, TUInt} then 32 else 64)"

definition is_signed :: "cpp_type \<Rightarrow> bool" where
  "is_signed t \<longleftrightarrow> t \<in> {TShort, TInt, TLong, TLongLong}"

definition is_unsigned :: "cpp_type \<Rightarrow> bool" where
  "is_unsigned t \<longleftrightarrow> t \<in> {TUShort, TUInt, TULong, TULongLong}"

definition is_float :: "cpp_type \<Rightarrow> bool" where
  "is_float t \<longleftrightarrow> t \<in> {TFloat, TDouble, TLongDouble}"

definition int_cast :: "cpp_type \<Rightarrow> int \<Rightarrow> int" where
  "int_cast t n = (if is_signed t then (n + 2 ^ (int_bits t - 1)) mod 2 ^ int_bits t - 2 ^ (int_bits t - 1) else n mod 2 ^ int_bits t)"

definition in_range :: "cpp_type \<Rightarrow> int \<Rightarrow> bool" where
  "in_range t n \<longleftrightarrow> (if is_signed t then - (2 ^ (int_bits t - 1)) \<le> n \<and> n < 2 ^ (int_bits t - 1) else 0 \<le> n \<and> n < 2 ^ int_bits t)"

definition get_string :: "'f json \<Rightarrow> 'f exn + string" where
  "get_string v = (case v of JString s \<Rightarrow> Inr s | _ \<Rightarrow> Inl (must_be ''string'' v))"

definition get_bool :: "'f json \<Rightarrow> 'f exn + bool" where
  "get_bool v = (case v of JBool b \<Rightarrow> Inr b | _ \<Rightarrow> Inl (must_be ''boolean'' v))"

text \<open>\<open>get<T>\<close> for an integral type. \<open>long\<close> and \<open>unsigned long\<close> are the number types of the library, whose
  conversion refuses a Boolean; a floating-point number outside the range of the type is undefined.\<close>

definition get_integral :: "'f json_lib \<Rightarrow> cpp_type \<Rightarrow> 'f json \<Rightarrow> ('f exn + int) option" where
  "get_integral lib t v = (case v of
     JUInt n \<Rightarrow> Some (Inr (int_cast t n))
   | JInt n \<Rightarrow> Some (Inr (int_cast t n))
   | JFloat f \<Rightarrow> (case jl_trunc lib f of Some n \<Rightarrow> if in_range t n then Some (Inr n) else None | None \<Rightarrow> None)
   | JBool b \<Rightarrow> if t \<in> {TLong, TULong} then Some (Inl (must_be ''number'' v)) else Some (Inr (of_bool b))
   | _ \<Rightarrow> Some (Inl (must_be ''number'' v)))"

definition get_floating :: "'f json_lib \<Rightarrow> cpp_type \<Rightarrow> 'f json \<Rightarrow> 'f exn + 'f" where
  "get_floating lib t v = (let narrow = (if t = TFloat then jl_single lib else (\<lambda>f. f)) in case v of
     JUInt n \<Rightarrow> Inr (narrow (jl_double lib n))
   | JInt n \<Rightarrow> Inr (narrow (jl_double lib n))
   | JFloat f \<Rightarrow> Inr (narrow f)
   | JBool b \<Rightarrow> if t = TDouble then Inl (must_be ''number'' v) else Inr (jl_double lib (of_bool b))
   | _ \<Rightarrow> Inl (must_be ''number'' v))"

section \<open>common.hpp\<close>

definition has_key :: "'f json \<Rightarrow> string \<Rightarrow> bool" where
  "has_key v key \<longleftrightarrow> json_find key v \<noteq> None"

definition has_key_type :: "'f json \<Rightarrow> string \<Rightarrow> value_t \<Rightarrow> bool" where
  "has_key_type v key t \<longleftrightarrow> has_key v key \<and> json_type (json_index v key) = t"

definition valid_id :: "'f json \<Rightarrow> bool" where
  "valid_id request \<longleftrightarrow> has_key request ''id'' \<and>
     (is_number (json_index request ''id'') \<or> json_type (json_index request ''id'') = VT_string \<or> json_type (json_index request ''id'') = VT_null)"

definition valid_id_not_null :: "'f json \<Rightarrow> bool" where
  "valid_id_not_null request \<longleftrightarrow> has_key request ''id'' \<and>
     (is_number (json_index request ''id'') \<or> json_type (json_index request ''id'') = VT_string)"

definition parse_error :: int where "parse_error = -32700"
definition invalid_request :: int where "invalid_request = -32600"
definition method_not_found :: int where "method_not_found = -32601"
definition invalid_params :: int where "invalid_params = -32602"
definition internal_error :: int where "internal_error = -32603"

definition server_error :: int where "server_error = internal_error + 1"
definition invalid :: int where "invalid = server_error + 1"

definition Type :: "'f exn \<Rightarrow> int" where
  "Type e = (if Code e \<ge> -32603 \<and> Code e \<le> -32600 then Code e
     else if Code e \<ge> -32099 \<and> Code e \<le> -32000 then server_error
     else if Code e = -32700 then parse_error
     else invalid)"

definition fromJson :: "'f json \<Rightarrow> 'f exn" where
  "fromJson v = (let
     has_code = has_key_type v ''code'' VT_number_integer \<or> has_key_type v ''code'' VT_number_unsigned;
     has_message = has_key_type v ''message'' VT_string;
     has_data = has_key v ''data'';
     int_of = (\<lambda>c. case c of JInt n \<Rightarrow> int_cast TInt n | JUInt n \<Rightarrow> int_cast TInt n | _ \<Rightarrow> 0);
     string_of = (\<lambda>c. case c of JString s \<Rightarrow> s | _ \<Rightarrow> [])
   in if has_code \<and> has_message then
        (if has_data then JsonRpcException (int_of (json_index v ''code'')) (string_of (json_index v ''message'')) (json_index v ''data'')
         else JsonRpcException (int_of (json_index v ''code'')) (string_of (json_index v ''message'')) JNull)
      else JsonRpcException internal_error
        ''invalid error response: \"code\" (integer number) and \"message\" (string) are required'' JNull)"

section \<open>Lemmas\<close>

named_theorems json_simps \<open>looking up the members of objects\<close>

lemma map_of_emplace: "map_of (map_emplace k x m) k' = (case map_of m k' of Some y \<Rightarrow> Some y | None \<Rightarrow> if k' = k then Some x else None)"
  by (auto simp: map_emplace_def map_find_def find_map_put split: option.splits)

lemma map_of_emplaces:
  "map_of (fold (\<lambda>(k, x). map_emplace k x) kvs m) key = (case map_of m key of Some y \<Rightarrow> Some y | None \<Rightarrow> map_of kvs key)"
  by (induction kvs arbitrary: m) (auto simp: map_of_emplace split: option.splits)

lemma find_object [json_simps]: "json_find key (json_object kvs) = map_of kvs key"
  by (simp add: json_find_def json_object_def map_find_def map_of_emplaces)

lemma find_set [json_simps]:
  "json_type v = VT_object \<Longrightarrow> json_find key (json_set k x v) = (if key = k then Some x else json_find key v)"
  by (cases v) (simp_all add: json_find_def json_set_def map_find_def find_map_put)

lemma find_norm [json_simps]: "json_find key (norm v) = map_option norm (json_find key v)"
  by (cases v) (simp_all add: json_find_def map_find_def map_of_map)

lemma type_object [json_simps]: "json_type (json_object kvs) = VT_object"
  by (simp add: json_object_def)

lemma type_set [json_simps]: "json_type (json_set k x v) = VT_object"
  by (cases v) (simp_all add: json_set_def)

lemma type_norm: "json_type (norm v) = (if json_type v = VT_number_integer \<and> norm v \<noteq> v then VT_number_unsigned else json_type v)"
  by (cases v) simp_all

lemma type_norm_iff [json_simps]:
  "json_type (norm v) = VT_null \<longleftrightarrow> json_type v = VT_null"
  "json_type (norm v) = VT_object \<longleftrightarrow> json_type v = VT_object"
  "json_type (norm v) = VT_array \<longleftrightarrow> json_type v = VT_array"
  "json_type (norm v) = VT_string \<longleftrightarrow> json_type v = VT_string"
  by (cases v; simp)+

lemma is_number_norm [json_simps]: "is_number (norm v) = is_number v"
  by (cases v) (simp_all add: is_number_def)

lemma json_type_iff [simp]:
  "json_type v = VT_null \<longleftrightarrow> v = JNull"
  "json_type v = VT_string \<longleftrightarrow> (\<exists>s. v = JString s)"
  "json_type v = VT_array \<longleftrightarrow> (\<exists>xs. v = JArray xs)"
  by (cases v; simp)+

lemma has_key_object [json_simps]:
  "has_key (json_object kvs) k \<longleftrightarrow> map_of kvs k \<noteq> None"
  "json_index (json_object kvs) k = (case map_of kvs k of Some x \<Rightarrow> x | None \<Rightarrow> JNull)"
  by (simp_all add: has_key_def json_index_def json_simps)

lemma has_key_norm [json_simps]:
  "has_key (norm v) k \<longleftrightarrow> has_key v k"
  "has_key v k \<Longrightarrow> json_index (norm v) k = norm (json_index v k)"
  by (auto simp: has_key_def json_index_def json_simps)

lemma has_key_set [json_simps]:
  "json_type v = VT_object \<Longrightarrow> has_key (json_set k x v) key \<longleftrightarrow> key = k \<or> has_key v key"
  "json_type v = VT_object \<Longrightarrow> json_index (json_set k x v) key = (if key = k then x else json_index v key)"
  by (simp_all add: has_key_def json_index_def json_simps)

lemma has_key_not_object [json_simps]: "json_type v \<noteq> VT_object \<Longrightarrow> \<not> has_key v k"
  by (cases v) (simp_all add: has_key_def json_find_def)

lemma int_bits_pow: "(2 :: int) ^ int_bits t = 2 * 2 ^ (int_bits t - 1)"
  by (simp add: int_bits_def)

lemma int_cast_id: "in_range t n \<Longrightarrow> int_cast t n = n"
  using int_bits_pow [of t] by (auto simp: in_range_def int_cast_def)

lemma int_cast_range: "in_range t (int_cast t n)"
  using pos_mod_bound [of "2 ^ int_bits t" "n + 2 ^ (int_bits t - 1)"] pos_mod_sign [of "2 ^ int_bits t" "n + 2 ^ (int_bits t - 1)"]
    int_bits_pow [of t]
  by (simp add: in_range_def int_cast_def)

text \<open>The error the server sends is the one the client throws.\<close>

lemma fromJson_error:
  assumes "in_range TInt c"
  shows "fromJson (norm (json_object ([(''code'', JInt c), (''message'', JString m)] @ (if d = JNull then [] else [(''data'', d)]))))
    = JsonRpcException c m (norm d)"
  using assms int_cast_id [OF assms]
  by (auto simp: fromJson_def Let_def has_key_type_def json_simps)

end
