(* ===== verification/Rpc_Server.thy ===== *)
theory Rpc_Server
  imports Rpc_Json
begin

text \<open>
  The server half of the JSON-RPC library: \<^verbatim>\<open>typemapper.hpp\<close> (handles that check and convert the parameters of a C++
  function), \<^verbatim>\<open>dispatcher.hpp\<close> (the tables of procedures) and \<^verbatim>\<open>server.hpp\<close>. The application behind the
  procedures has a state of type \<open>'s\<close>: a handle takes the parameters and the state and returns the result or an
  exception with the new state. The values of the application's own classes and enumerations are of type \<open>'u\<close>; their
  \<^verbatim>\<open>from_json\<close> and \<^verbatim>\<open>to_json\<close> are the record \<open>user_types\<close>.
\<close>

section \<open>typemapper.hpp\<close>

datatype ('f, 'u) cval = CBool bool | CSigned int | CUnsigned int | CReal 'f | CString string
  | CVector "('f, 'u) cval list" | CUser 'u

record ('f, 'u) user_types =
  ut_from_json :: "string \<Rightarrow> 'f json \<Rightarrow> 'f exn + 'u"
  ut_to_json :: "'u \<Rightarrow> 'f json"

type_synonym ('s, 'f, 'a) action = "'s \<Rightarrow> (('f exn + 'a) \<times> 's) option"
type_synonym ('s, 'f) MethodHandle = "'f json \<Rightarrow> ('s, 'f, 'f json) action"
type_synonym ('s, 'f) NotificationHandle = "'f json \<Rightarrow> ('s, 'f, unit) action"

fun GetType :: "cpp_type \<Rightarrow> value_t" where
  "GetType (TVector _) = VT_array"
| "GetType (TEnum _) = VT_string"
| "GetType (TClass _) = VT_object"
| "GetType TVoid = VT_null"
| "GetType TString = VT_string"
| "GetType TBool = VT_boolean"
| "GetType t = (if is_float t then VT_number_float else if is_signed t then VT_number_integer else VT_number_unsigned)"

definition is_arithmetic :: "cpp_type \<Rightarrow> bool" where
  "is_arithmetic t \<longleftrightarrow> t = TBool \<or> is_float t \<or> is_signed t \<or> is_unsigned t"

fun type_name :: "value_t \<Rightarrow> string" where
  "type_name VT_number_integer = ''integer''"
| "type_name VT_boolean = ''boolean''"
| "type_name VT_number_float = ''float''"
| "type_name VT_number_unsigned = ''unsigned integer''"
| "type_name VT_object = ''object''"
| "type_name VT_array = ''array''"
| "type_name VT_string = ''string''"
| "type_name _ = ''null''"

definition wrong_type :: "nat \<Rightarrow> 'f json \<Rightarrow> value_t \<Rightarrow> 'f exn" where
  "wrong_type index x expectedType = JsonRpcException invalid_params
     (''invalid parameter: must be '' @ type_name expectedType @ '', but is '' @ type_name (json_type x)) (JUInt (int index))"

definition wrong_range :: "nat \<Rightarrow> value_t \<Rightarrow> 'f exn" where
  "wrong_range index expectedType = JsonRpcException invalid_params
     (''invalid parameter: exceeds value range of '' @ type_name expectedType) (JUInt (int index))"

definition numeric_max :: "cpp_type \<Rightarrow> int" where
  "numeric_max t = (if is_signed t then 2 ^ (int_bits t - 1) - 1 else 2 ^ int_bits t - 1)"

definition check_arithmetic :: "'f json_lib \<Rightarrow> cpp_type \<Rightarrow> nat \<Rightarrow> 'f json \<Rightarrow> value_t \<Rightarrow> ('f exn + unit) option" where
  "check_arithmetic lib t index x expectedType =
     (if expectedType = VT_number_unsigned \<and> json_type x = VT_number_integer then
        (case get_integral lib TLongLong x of
           Some (Inr n) \<Rightarrow> Some (if n < 0 then Inl (wrong_type index x expectedType) else Inr ())
         | Some (Inl e) \<Rightarrow> Some (Inl e) | None \<Rightarrow> None)
      else if json_type x = VT_number_unsigned \<and> expectedType = VT_number_integer then
        (case get_integral lib TULongLong x of
           Some (Inr n) \<Rightarrow> Some (if n > numeric_max t then Inl (wrong_range index expectedType) else Inr ())
         | Some (Inl e) \<Rightarrow> Some (Inl e) | None \<Rightarrow> None)
      else if (json_type x = VT_number_unsigned \<or> json_type x = VT_number_integer) \<and> expectedType = VT_number_float then
        (case get_floating lib TDouble x of
           Inl e \<Rightarrow> Some (Inl e)
         | Inr d \<Rightarrow> (case get_integral lib TLongLong (JFloat d) of
             Some (Inr l) \<Rightarrow> (case get_integral lib TLongLong x of
               Some (Inr n) \<Rightarrow> Some (if l \<noteq> n then Inl (wrong_range index expectedType) else Inr ())
             | Some (Inl e) \<Rightarrow> Some (Inl e) | None \<Rightarrow> None)
           | Some (Inl e) \<Rightarrow> Some (Inl e) | None \<Rightarrow> None))
      else Some (if json_type x \<noteq> expectedType then Inl (wrong_type index x expectedType) else Inr ()))"

definition check_param_type :: "'f json_lib \<Rightarrow> cpp_type \<Rightarrow> nat \<Rightarrow> 'f json \<Rightarrow> value_t \<Rightarrow> ('f exn + unit) option" where
  "check_param_type lib t index x expectedType =
     (if is_arithmetic t then check_arithmetic lib t index x expectedType
      else Some (if json_type x \<noteq> expectedType then Inl (wrong_type index x expectedType) else Inr ()))"

definition seq :: "('e + 'a) option \<Rightarrow> ('a \<Rightarrow> ('e + 'b) option) \<Rightarrow> ('e + 'b) option" where
  "seq m f = (case m of None \<Rightarrow> None | Some (Inl e) \<Rightarrow> Some (Inl e) | Some (Inr x) \<Rightarrow> f x)"

fun seq_map :: "('a \<Rightarrow> ('e + 'b) option) \<Rightarrow> 'a list \<Rightarrow> ('e + 'b list) option" where
  "seq_map f [] = Some (Inr [])"
| "seq_map f (x # xs) = seq (f x) (\<lambda>y. seq (seq_map f xs) (\<lambda>ys. Some (Inr (y # ys))))"

text \<open>\<open>get<T>\<close>; a vector converts its elements in order, a class or enumeration by the application's \<open>from_json\<close>.\<close>

fun get_value :: "'f json_lib \<Rightarrow> ('f, 'u) user_types \<Rightarrow> cpp_type \<Rightarrow> 'f json \<Rightarrow> ('f exn + ('f, 'u) cval) option" where
  "get_value lib ut (TVector t) v = (case v of
     JArray xs \<Rightarrow> seq (seq_map (get_value lib ut t) xs) (\<lambda>ys. Some (Inr (CVector ys)))
   | _ \<Rightarrow> Some (Inl (must_be ''array'' v)))"
| "get_value lib ut (TEnum n) v = Some (map_sum id CUser (ut_from_json ut n v))"
| "get_value lib ut (TClass n) v = Some (map_sum id CUser (ut_from_json ut n v))"
| "get_value lib ut TVoid v = None"
| "get_value lib ut TString v = Some (map_sum id CString (get_string v))"
| "get_value lib ut TBool v = Some (map_sum id CBool (get_bool v))"
| "get_value lib ut t v = (if is_float t then Some (map_sum id CReal (get_floating lib t v))
     else seq (get_integral lib t v) (\<lambda>n. Some (Inr (if is_signed t then CSigned n else CUnsigned n))))"

fun to_json :: "('f, 'u) user_types \<Rightarrow> ('f, 'u) cval \<Rightarrow> 'f json" where
  "to_json ut (CBool b) = JBool b"
| "to_json ut (CSigned n) = JInt n"
| "to_json ut (CUnsigned n) = JUInt n"
| "to_json ut (CReal f) = JFloat f"
| "to_json ut (CString s) = JString s"
| "to_json ut (CVector xs) = JArray (map (to_json ut) xs)"
| "to_json ut (CUser u) = ut_to_json ut u"

definition json_elem :: "'f json \<Rightarrow> nat \<Rightarrow> ('f exn + 'f json) option" where
  "json_elem params i = (case params of
     JArray xs \<Rightarrow> if i < length xs then Some (Inr (xs ! i)) else None
   | _ \<Rightarrow> Some (Inl (type_error 305 (''cannot use operator[] with a numeric argument with '' @ json_type_name params))))"

definition check_params :: "'f json_lib \<Rightarrow> cpp_type list \<Rightarrow> 'f json \<Rightarrow> ('f exn + unit list) option" where
  "check_params lib ts params =
     seq_map (\<lambda>(i, t). seq (json_elem params i) (\<lambda>x. check_param_type lib t i x (GetType t))) (enumerate 0 ts)"

definition get_params :: "'f json_lib \<Rightarrow> ('f, 'u) user_types \<Rightarrow> cpp_type list \<Rightarrow> 'f json \<Rightarrow> ('f exn + ('f, 'u) cval list) option" where
  "get_params lib ut ts params = seq_map (\<lambda>(i, t). seq (json_elem params i) (get_value lib ut t)) (enumerate 0 ts)"

definition wrong_count :: "nat \<Rightarrow> nat \<Rightarrow> 'f exn" where
  "wrong_count formalSize actualSize = JsonRpcException invalid_params
     (''invalid parameter: expected '' @ to_string (int formalSize) @ '' argument(s), but found '' @ to_string (int actualSize)) JNull"

definition checked_params :: "'f json_lib \<Rightarrow> ('f, 'u) user_types \<Rightarrow> cpp_type list \<Rightarrow> 'f json \<Rightarrow> ('f exn + ('f, 'u) cval list) option" where
  "checked_params lib ut ts params =
     (if json_size params \<noteq> length ts then Some (Inl (wrong_count (length ts) (json_size params)))
      else seq (check_params lib ts params) (\<lambda>_. get_params lib ut ts params))"

definition createMethodHandle ::
  "'f json_lib \<Rightarrow> ('f, 'u) user_types \<Rightarrow> cpp_type list \<Rightarrow> (('f, 'u) cval list \<Rightarrow> ('s, 'f, ('f, 'u) cval) action) \<Rightarrow> ('s, 'f) MethodHandle" where
  "createMethodHandle lib ut ts method params s = (case checked_params lib ut ts params of
     None \<Rightarrow> None
   | Some (Inl e) \<Rightarrow> Some (Inl e, s)
   | Some (Inr args) \<Rightarrow> map_option (\<lambda>(r, s'). (map_sum id (to_json ut) r, s')) (method args s))"

definition createNotificationHandle ::
  "'f json_lib \<Rightarrow> ('f, 'u) user_types \<Rightarrow> cpp_type list \<Rightarrow> (('f, 'u) cval list \<Rightarrow> ('s, 'f, unit) action) \<Rightarrow> ('s, 'f) NotificationHandle" where
  "createNotificationHandle lib ut ts method params s = (case checked_params lib ut ts params of
     None \<Rightarrow> None
   | Some (Inl e) \<Rightarrow> Some (Inl e, s)
   | Some (Inr args) \<Rightarrow> method args s)"

definition GetUncheckedHandle :: "('f json \<Rightarrow> ('s, 'f, 'f json) action) \<Rightarrow> ('s, 'f) MethodHandle" where
  "GetUncheckedHandle f = (\<lambda>params. f params)"

definition GetUncheckedNotificationHandle :: "('f json \<Rightarrow> ('s, 'f, unit) action) \<Rightarrow> ('s, 'f) NotificationHandle" where
  "GetUncheckedNotificationHandle f = (\<lambda>params. f params)"

section \<open>dispatcher.hpp\<close>

record ('s, 'f) dispatcher =
  methods :: "(string \<times> ('s, 'f) MethodHandle) list"
  notifications :: "(string \<times> ('s, 'f) NotificationHandle) list"
  mapping :: "(string \<times> string list) list"

definition Dispatcher :: "('s, 'f) dispatcher" where
  "Dispatcher = \<lparr>methods = [], notifications = [], mapping = []\<rparr>"

definition contains :: "('s, 'f) dispatcher \<Rightarrow> string \<Rightarrow> bool" where
  "contains d name \<longleftrightarrow> map_find name (methods d) \<noteq> None \<or> map_find name (notifications d) \<noteq> None"

definition add_mapping :: "string \<Rightarrow> string list \<Rightarrow> ('s, 'f) dispatcher \<Rightarrow> ('s, 'f) dispatcher" where
  "add_mapping name names d = (if names = [] then d else d\<lparr>mapping := map_put name names (mapping d)\<rparr>)"

definition dispatcher_add_method :: "string \<Rightarrow> ('s, 'f) MethodHandle \<Rightarrow> string list \<Rightarrow> ('s, 'f) dispatcher \<Rightarrow> bool \<times> ('s, 'f) dispatcher" where
  "dispatcher_add_method name callback names d =
     (if contains d name then (False, d)
      else (True, add_mapping name names (d\<lparr>methods := map_put name callback (methods d)\<rparr>)))"

definition dispatcher_add_notification ::
  "string \<Rightarrow> ('s, 'f) NotificationHandle \<Rightarrow> string list \<Rightarrow> ('s, 'f) dispatcher \<Rightarrow> bool \<times> ('s, 'f) dispatcher" where
  "dispatcher_add_notification name callback names d =
     (if contains d name then (False, d)
      else (True, add_mapping name names (d\<lparr>notifications := map_put name callback (notifications d)\<rparr>)))"

text \<open>The exception that leaves the handler: \<open>process_type_error\<close> adds the name or the position of the parameter. The
  data may be no number, then its conversion throws; the position may lie outside the mapping.\<close>

definition process_type_error :: "'f json_lib \<Rightarrow> ('s, 'f) dispatcher \<Rightarrow> string \<Rightarrow> 'f exn \<Rightarrow> 'f exn option" where
  "process_type_error lib d name e =
     (if Code e = -32602 \<and> \<not> json_empty (Data e) then
        (case get_integral lib TUInt (Data e) of
           None \<Rightarrow> None
         | Some (Inl x) \<Rightarrow> Some x
         | Some (Inr i) \<Rightarrow> (case map_find name (mapping d) of
             Some names \<Rightarrow> if nat i < length names
               then Some (JsonRpcException (Code e) (Message e @ '' for parameter '' @ ''\"'' @ names ! nat i @ ''\"'') JNull) else None
           | None \<Rightarrow> Some (JsonRpcException (Code e) (Message e @ '' for parameter '' @ to_string i) JNull)))
      else Some e)"

fun normalize_params :: "(string \<times> 'f json) list \<Rightarrow> string list \<Rightarrow> 'f json \<Rightarrow> 'f exn + 'f json" where
  "normalize_params params [] result = Inr result"
| "normalize_params params (p # ps) result = (case map_find p params of
     None \<Rightarrow> Inl (JsonRpcException invalid_params (''invalid parameter: missing named parameter \"'' @ p @ ''\"'') JNull)
   | Some x \<Rightarrow> normalize_params params ps (json_push_back result x))"

definition normalize_parameter :: "('s, 'f) dispatcher \<Rightarrow> string \<Rightarrow> 'f json \<Rightarrow> 'f exn + 'f json" where
  "normalize_parameter d name params = (case params of
     JArray _ \<Rightarrow> Inr params
   | JObject m \<Rightarrow> (case map_find name (mapping d) of
       None \<Rightarrow> Inl (JsonRpcException invalid_params ''invalid parameter: procedure doesn't support named parameter'' JNull)
     | Some names \<Rightarrow> normalize_params m names JNull)
   | _ \<Rightarrow> Inl (JsonRpcException invalid_request ''invalid request: params field must be an array, object'' JNull))"

definition rethrow :: "'f json_lib \<Rightarrow> ('s, 'f) dispatcher \<Rightarrow> string \<Rightarrow> 'f exn \<Rightarrow> 'f exn option" where
  "rethrow lib d name e = (case e of
     TypeError what \<Rightarrow> Some (JsonRpcException invalid_params (''invalid parameter: '' @ what) JNull)
   | JsonRpcException _ _ _ \<Rightarrow> process_type_error lib d name e
   | _ \<Rightarrow> Some e)"

definition invoke :: "'f json_lib \<Rightarrow> ('s, 'f) dispatcher \<Rightarrow> string \<Rightarrow> ('f json \<Rightarrow> ('s, 'f, 'a) action) \<Rightarrow> 'f json \<Rightarrow> ('s, 'f, 'a) action" where
  "invoke lib d name handle params s = (case normalize_parameter d name params of
     Inl e \<Rightarrow> map_option (\<lambda>x. (Inl x, s)) (rethrow lib d name e)
   | Inr p \<Rightarrow> (case handle p s of
       None \<Rightarrow> None
     | Some (Inl e, s') \<Rightarrow> map_option (\<lambda>x. (Inl x, s')) (rethrow lib d name e)
     | Some (Inr r, s') \<Rightarrow> Some (Inr r, s')))"

definition InvokeMethod :: "'f json_lib \<Rightarrow> ('s, 'f) dispatcher \<Rightarrow> string \<Rightarrow> 'f json \<Rightarrow> ('s, 'f, 'f json) action" where
  "InvokeMethod lib d name params s = (case map_find name (methods d) of
     None \<Rightarrow> Some (Inl (JsonRpcException method_not_found (''method not found: '' @ name) JNull), s)
   | Some handle \<Rightarrow> invoke lib d name handle params s)"

definition InvokeNotification :: "'f json_lib \<Rightarrow> ('s, 'f) dispatcher \<Rightarrow> string \<Rightarrow> 'f json \<Rightarrow> ('s, 'f, unit) action" where
  "InvokeNotification lib d name params s = (case map_find name (notifications d) of
     None \<Rightarrow> Some (Inl (JsonRpcException method_not_found (''notification not found: '' @ name) JNull), s)
   | Some handle \<Rightarrow> invoke lib d name handle params s)"

section \<open>server.hpp\<close>

definition reserved_name :: "string \<Rightarrow> bool" where
  "reserved_name name \<longleftrightarrow> take 4 name = ''rpc.''"

definition AddMethod :: "string \<Rightarrow> ('s, 'f) MethodHandle \<Rightarrow> string list \<Rightarrow> ('s, 'f) dispatcher \<Rightarrow> bool \<times> ('s, 'f) dispatcher" where
  "AddMethod name callback names d = (if reserved_name name then (False, d) else dispatcher_add_method name callback names d)"

definition AddNotification :: "string \<Rightarrow> ('s, 'f) NotificationHandle \<Rightarrow> string list \<Rightarrow> ('s, 'f) dispatcher \<Rightarrow> bool \<times> ('s, 'f) dispatcher" where
  "AddNotification name callback names d = (if reserved_name name then (False, d) else dispatcher_add_notification name callback names d)"

definition string_of :: "'f json \<Rightarrow> string" where
  "string_of v = (case v of JString s \<Rightarrow> s | _ \<Rightarrow> [])"

definition is_std_exception :: "'f exn \<Rightarrow> bool" where
  "is_std_exception e \<longleftrightarrow> e \<noteq> OtherException"

definition with_params :: "'f json \<Rightarrow> 'f json" where
  "with_params request =
     (if \<not> has_key request ''params'' \<or> has_key_type request ''params'' VT_null then json_set ''params'' (JArray []) request else request)"

definition ProcessSingleRequest :: "'f json_lib \<Rightarrow> ('s, 'f) dispatcher \<Rightarrow> 'f json \<Rightarrow> ('s, 'f, 'f json) action" where
  "ProcessSingleRequest lib d request s =
     (if \<not> has_key_type request ''jsonrpc'' VT_string \<or> json_index request ''jsonrpc'' \<noteq> JString ''2.0'' then
        Some (Inl (JsonRpcException invalid_request ''invalid request: missing jsonrpc field set to \"2.0\"'' JNull), s)
      else if \<not> has_key_type request ''method'' VT_string then
        Some (Inl (JsonRpcException invalid_request ''invalid request: method field must be a string'' JNull), s)
      else if has_key request ''id'' \<and> \<not> valid_id request then
        Some (Inl (JsonRpcException invalid_request ''invalid request: id field must be a number, string or null'' JNull), s)
      else if has_key request ''params'' \<and> json_type (json_index request ''params'') \<notin> {VT_array, VT_object, VT_null} then
        Some (Inl (JsonRpcException invalid_request ''invalid request: params field must be an array, object or null'' JNull), s)
      else (let request = with_params request; name = string_of (json_index request ''method''); params = json_index request ''params'' in
        if \<not> has_key request ''id'' then
          (case InvokeNotification lib d name params s of
             None \<Rightarrow> None
           | Some (Inr _, s') \<Rightarrow> Some (Inr JNull, s')
           | Some (Inl e, s') \<Rightarrow> Some (if is_std_exception e then Inr JNull else Inl e, s'))
        else (case InvokeMethod lib d name params s of
             None \<Rightarrow> None
           | Some (Inl e, s') \<Rightarrow> Some (Inl e, s')
           | Some (Inr r, s') \<Rightarrow>
               Some (Inr (json_object [(''jsonrpc'', JString ''2.0''), (''id'', json_index request ''id''), (''result'', r)]), s'))))"

definition exn_what :: "'f exn \<Rightarrow> string" where
  "exn_what e = (case e of TypeError w \<Rightarrow> w | ParseError w \<Rightarrow> w | StdException w \<Rightarrow> w | _ \<Rightarrow> [])"

definition error_response :: "'f json \<Rightarrow> 'f json \<Rightarrow> 'f json" where
  "error_response i err = json_object [(''id'', i), (''error'', err), (''jsonrpc'', JString ''2.0'')]"

definition error_object :: "int \<Rightarrow> string \<Rightarrow> 'f json" where
  "error_object c m = json_object [(''code'', JInt c), (''message'', JString m)]"

definition exn_response :: "'f json \<Rightarrow> 'f exn \<Rightarrow> 'f json" where
  "exn_response i e = (case e of
     JsonRpcException c m dat \<Rightarrow> error_response i (if dat \<noteq> JNull then json_set ''data'' dat (error_object c m) else error_object c m)
   | OtherException \<Rightarrow> error_response i (error_object internal_error ''internal server error'')
   | _ \<Rightarrow> error_response i (error_object internal_error (''internal server error: '' @ exn_what e)))"

definition HandleSingleRequest :: "'f json_lib \<Rightarrow> ('s, 'f) dispatcher \<Rightarrow> 'f json \<Rightarrow> 's \<Rightarrow> ('f json \<times> 's) option" where
  "HandleSingleRequest lib d request s = (let i = (if valid_id request then json_index request ''id'' else JNull) in
     case ProcessSingleRequest lib d request s of
       None \<Rightarrow> None
     | Some (Inr r, s') \<Rightarrow> Some (r, s')
     | Some (Inl e, s') \<Rightarrow> Some (exn_response i e, s'))"

fun handle_batch :: "'f json_lib \<Rightarrow> ('s, 'f) dispatcher \<Rightarrow> 'f json list \<Rightarrow> 's \<Rightarrow> ('f json list \<times> 's) option" where
  "handle_batch lib d [] s = Some ([], s)"
| "handle_batch lib d (r # rs) s = (case HandleSingleRequest lib d r s of
     None \<Rightarrow> None
   | Some (res, s') \<Rightarrow> (case handle_batch lib d rs s' of
       None \<Rightarrow> None
     | Some (ress, s'') \<Rightarrow> Some (if res \<noteq> JNull then res # ress else ress, s'')))"

definition HandleRequest :: "'f json_lib \<Rightarrow> ('s, 'f) dispatcher \<Rightarrow> string \<Rightarrow> ('s, 'f, string) action" where
  "HandleRequest lib d requestString s = (case jl_parse lib requestString of
     Inl (ParseError w) \<Rightarrow> Some (jl_dump lib (error_response JNull (error_object parse_error (''parse error: '' @ w))), s)
   | Inl e \<Rightarrow> Some (Inl e, s)
   | Inr (JArray rs) \<Rightarrow> map_option (\<lambda>(res, s'). (jl_dump lib (JArray res), s')) (handle_batch lib d rs s)
   | Inr (JObject m) \<Rightarrow> (case HandleSingleRequest lib d (JObject m) s of
       None \<Rightarrow> None
     | Some (res, s') \<Rightarrow> Some (if res \<noteq> JNull then jl_dump lib res else Inr [], s'))
   | Inr _ \<Rightarrow> Some (jl_dump lib (error_response JNull (error_object invalid_request ''invalid request: expected array or object'')), s))"

end
