(* ===== verification/Rpc_Client.thy ===== *)
theory Rpc_Client
  imports Rpc_Server
begin

text \<open>
  The client half of the JSON-RPC library: \<^verbatim>\<open>client.hpp\<close>, \<^verbatim>\<open>batchclient.hpp\<close> and the connector of
  \<^verbatim>\<open>inmemoryconnector.hpp\<close>, which hands a request to a server of the same process. A connector is a function from a
  request to the response, an action on the state behind it.
\<close>

section \<open>client.hpp\<close>

datatype version = v1 | v2

datatype id_type = IdInt int | IdString string

fun id_json :: "id_type \<Rightarrow> 'f json" where
  "id_json (IdInt n) = JInt n"
| "id_json (IdString s) = JString s"

type_synonym ('s, 'f) connector = "string \<Rightarrow> ('s, 'f, string) action"

definition InMemoryConnector :: "'f json_lib \<Rightarrow> ('s, 'f) dispatcher \<Rightarrow> ('s, 'f) connector" where
  "InMemoryConnector lib server = (\<lambda>request. HandleRequest lib server request)"

definition method_request :: "version \<Rightarrow> id_type \<Rightarrow> string \<Rightarrow> 'f json \<Rightarrow> 'f json" where
  "method_request v i name params = (let
     j = json_set ''id'' (id_json i) (json_object [(''method'', JString name)]);
     j = (if v = v2 then json_set ''jsonrpc'' (JString ''2.0'') j else j)
   in if \<not> json_empty params \<and> params \<noteq> JNull then json_set ''params'' params j
      else if json_type params = VT_array then json_set ''params'' params j
      else if v = v1 then json_set ''params'' JNull j
      else j)"

definition decode_response :: "'f json_lib \<Rightarrow> 'f json \<Rightarrow> ('f exn + (id_type \<times> 'f json)) option" where
  "decode_response lib response =
     (if has_key_type response ''error'' VT_object then Some (Inl (fromJson (json_index response ''error'')))
      else if has_key_type response ''error'' VT_string then
        Some (Inl (JsonRpcException internal_error (string_of (json_index response ''error'')) JNull))
      else if has_key response ''result'' \<and> has_key response ''id'' then
        (case json_index response ''id'' of
           JString s \<Rightarrow> Some (Inr (IdString s, json_index response ''result''))
         | i \<Rightarrow> seq (get_integral lib TInt i) (\<lambda>n. Some (Inr (IdInt n, json_index response ''result''))))
      else Some (Inl (JsonRpcException internal_error ''invalid server response: neither \"result\" nor \"error\" fields found'' JNull)))"

definition response_parse_error :: "'f exn \<Rightarrow> 'f exn" where
  "response_parse_error e = (case e of
     ParseError w \<Rightarrow> JsonRpcException parse_error (''invalid JSON response from server: '' @ w) JNull
   | _ \<Rightarrow> e)"

text \<open>The request goes out and the response is parsed; a parse error of either becomes an exception of the library.\<close>

definition send_request :: "'f json_lib \<Rightarrow> ('s, 'f) connector \<Rightarrow> 'f json \<Rightarrow> ('s, 'f, 'f json) action" where
  "send_request lib Send j s = (case jl_dump lib j of
     Inl e \<Rightarrow> Some (Inl (response_parse_error e), s)
   | Inr text \<Rightarrow> (case Send text s of
       None \<Rightarrow> None
     | Some (Inl e, s') \<Rightarrow> Some (Inl (response_parse_error e), s')
     | Some (Inr answer, s') \<Rightarrow> Some (case jl_parse lib answer of
         Inl e \<Rightarrow> Inl (response_parse_error e)
       | Inr response \<Rightarrow> Inr response, s')))"

definition call_method ::
  "'f json_lib \<Rightarrow> ('s, 'f) connector \<Rightarrow> version \<Rightarrow> id_type \<Rightarrow> string \<Rightarrow> 'f json \<Rightarrow> ('s, 'f, id_type \<times> 'f json) action" where
  "call_method lib Send v i name params s = (case send_request lib Send (method_request v i name params) s of
     None \<Rightarrow> None
   | Some (Inl e, s') \<Rightarrow> Some (Inl e, s')
   | Some (Inr response, s') \<Rightarrow> map_option (\<lambda>r. (r, s')) (decode_response lib response))"

definition get_result :: "'f json_lib \<Rightarrow> ('f, 'u) user_types \<Rightarrow> cpp_type \<Rightarrow> (('f exn + (id_type \<times> 'f json)) \<times> 's) option \<Rightarrow> (('f exn + ('f, 'u) cval) \<times> 's) option" where
  "get_result lib ut t m = (case m of
     None \<Rightarrow> None
   | Some (Inl e, s) \<Rightarrow> Some (Inl e, s)
   | Some (Inr (_, result), s) \<Rightarrow> map_option (\<lambda>r. (r, s)) (get_value lib ut t result))"

definition CallMethod ::
  "'f json_lib \<Rightarrow> ('f, 'u) user_types \<Rightarrow> ('s, 'f) connector \<Rightarrow> version \<Rightarrow> cpp_type \<Rightarrow> id_type \<Rightarrow> string \<Rightarrow> 'f json list \<Rightarrow> ('s, 'f, ('f, 'u) cval) action" where
  "CallMethod lib ut Send v t i name params s = get_result lib ut t (call_method lib Send v i name (JArray params) s)"

definition CallMethodNoParams ::
  "'f json_lib \<Rightarrow> ('f, 'u) user_types \<Rightarrow> ('s, 'f) connector \<Rightarrow> version \<Rightarrow> cpp_type \<Rightarrow> id_type \<Rightarrow> string \<Rightarrow> ('s, 'f, ('f, 'u) cval) action" where
  "CallMethodNoParams lib ut Send v t i name s = get_result lib ut t (call_method lib Send v i name (JObject []) s)"

definition CallMethodNamed ::
  "'f json_lib \<Rightarrow> ('f, 'u) user_types \<Rightarrow> ('s, 'f) connector \<Rightarrow> version \<Rightarrow> cpp_type \<Rightarrow> id_type \<Rightarrow> string \<Rightarrow> (string \<times> 'f json) list \<Rightarrow> ('s, 'f, ('f, 'u) cval) action" where
  "CallMethodNamed lib ut Send v t i name params s = get_result lib ut t (call_method lib Send v i name (JObject params) s)"

definition notification_request :: "version \<Rightarrow> string \<Rightarrow> 'f json \<Rightarrow> 'f json" where
  "notification_request v name params = (let
     j = json_object [(''method'', JString name)];
     j = (if v = v2 then json_set ''jsonrpc'' (JString ''2.0'') j else json_set ''id'' JNull j)
   in if \<not> json_empty params \<and> params \<noteq> JNull then json_set ''params'' params j
      else if v = v1 then json_set ''params'' JNull j
      else j)"

definition call_notification :: "'f json_lib \<Rightarrow> ('s, 'f) connector \<Rightarrow> version \<Rightarrow> string \<Rightarrow> 'f json \<Rightarrow> ('s, 'f, unit) action" where
  "call_notification lib Send v name params s = (case jl_dump lib (notification_request v name params) of
     Inl e \<Rightarrow> Some (Inl e, s)
   | Inr text \<Rightarrow> map_option (\<lambda>(r, s'). (map_sum id (\<lambda>_. ()) r, s')) (Send text s))"

definition CallNotification :: "'f json_lib \<Rightarrow> ('s, 'f) connector \<Rightarrow> version \<Rightarrow> string \<Rightarrow> 'f json list \<Rightarrow> ('s, 'f, unit) action" where
  "CallNotification lib Send v name params = call_notification lib Send v name (JArray params)"

definition CallNotificationNamed :: "'f json_lib \<Rightarrow> ('s, 'f) connector \<Rightarrow> version \<Rightarrow> string \<Rightarrow> (string \<times> 'f json) list \<Rightarrow> ('s, 'f, unit) action" where
  "CallNotificationNamed lib Send v name params = call_notification lib Send v name (JObject params)"

section \<open>batchclient.hpp\<close>

text \<open>A batch request is the list of the requests added so far.\<close>

definition batch_call :: "string \<Rightarrow> 'f json \<Rightarrow> 'f json" where
  "batch_call name params = json_object [(''method'', JString name), (''params'', params), (''jsonrpc'', JString ''2.0'')]"

definition AddMethodCall :: "id_type \<Rightarrow> string \<Rightarrow> 'f json list \<Rightarrow> 'f json list \<Rightarrow> 'f json list" where
  "AddMethodCall i name params call = call @ [json_set ''id'' (id_json i) (batch_call name (JArray params))]"

definition AddNamedMethodCall :: "id_type \<Rightarrow> string \<Rightarrow> (string \<times> 'f json) list \<Rightarrow> 'f json list \<Rightarrow> 'f json list" where
  "AddNamedMethodCall i name params call = call @ [json_set ''id'' (id_json i) (batch_call name (JObject params))]"

definition AddNotificationCall :: "string \<Rightarrow> 'f json list \<Rightarrow> 'f json list \<Rightarrow> 'f json list" where
  "AddNotificationCall name params call = call @ [batch_call name (JArray params)]"

definition AddNamedNotificationCall :: "string \<Rightarrow> (string \<times> 'f json) list \<Rightarrow> 'f json list \<Rightarrow> 'f json list" where
  "AddNamedNotificationCall name params call = call @ [batch_call name (JObject params)]"

definition Build :: "'f json list \<Rightarrow> 'f json" where
  "Build call = JArray call"

text \<open>The maps of a batch response are ordered by \<open>operator<\<close> of JSON values, which compares numbers of
  different kinds; an id is a number or a string. A number is below a string.\<close>

fun id_less :: "'f json_lib \<Rightarrow> 'f json \<Rightarrow> 'f json \<Rightarrow> bool" where
  "id_less lib (JString a) (JString b) = (a < b)"
| "id_less lib (JInt a) (JInt b) = (a < b)"
| "id_less lib (JUInt a) (JUInt b) = (a < b)"
| "id_less lib (JFloat a) (JFloat b) = jl_less lib a b"
| "id_less lib (JInt a) (JFloat b) = jl_less lib (jl_double lib a) b"
| "id_less lib (JFloat a) (JInt b) = jl_less lib a (jl_double lib b)"
| "id_less lib (JUInt a) (JFloat b) = jl_less lib (jl_double lib a) b"
| "id_less lib (JFloat a) (JUInt b) = jl_less lib a (jl_double lib b)"
| "id_less lib (JInt a) (JUInt b) = (a < int_cast TLong b)"
| "id_less lib (JUInt a) (JInt b) = (int_cast TLong a < b)"
| "id_less lib a b = (is_number a \<and> json_type b = VT_string)"

fun id_put :: "'f json_lib \<Rightarrow> 'f json \<Rightarrow> 'a \<Rightarrow> ('f json \<times> 'a) list \<Rightarrow> ('f json \<times> 'a) list" where
  "id_put lib k x [] = [(k, x)]"
| "id_put lib k x ((a, b) # m) =
     (if id_less lib a k then (a, b) # id_put lib k x m
      else if id_less lib k a then (k, x) # (a, b) # m
      else (a, x) # m)"

fun id_find :: "'f json_lib \<Rightarrow> 'f json \<Rightarrow> ('f json \<times> 'a) list \<Rightarrow> 'a option" where
  "id_find lib k [] = None"
| "id_find lib k ((a, b) # m) =
     (if id_less lib a k then id_find lib k m else if id_less lib k a then None else Some b)"

record 'f batch_response =
  response :: "'f json list"
  results :: "('f json \<times> nat) list"
  errors :: "('f json \<times> nat) list"
  nullIds :: "nat list"

definition add_response :: "'f json_lib \<Rightarrow> nat \<times> 'f json \<Rightarrow> 'f batch_response \<Rightarrow> 'f batch_response" where
  "add_response lib kv br = (let (key, v) = kv in
     if json_type v = VT_object \<and> valid_id_not_null v \<and> has_key v ''result'' then
       br\<lparr>results := id_put lib (json_index v ''id'') key (results br)\<rparr>
     else if json_type v = VT_object \<and> valid_id_not_null v \<and> has_key v ''error'' then
       br\<lparr>errors := id_put lib (json_index v ''id'') key (errors br)\<rparr>
     else br\<lparr>nullIds := nullIds br @ [key]\<rparr>)"

definition BatchResponse :: "'f json_lib \<Rightarrow> 'f json list \<Rightarrow> 'f batch_response" where
  "BatchResponse lib resp = fold (add_response lib) (enumerate 0 resp) \<lparr>response = resp, results = [], errors = [], nullIds = []\<rparr>"

definition Get :: "'f json_lib \<Rightarrow> ('f, 'u) user_types \<Rightarrow> cpp_type \<Rightarrow> 'f batch_response \<Rightarrow> 'f json \<Rightarrow> ('f exn + ('f, 'u) cval) option" where
  "Get lib ut t br i = (case id_find lib i (results br) of
     Some k \<Rightarrow> (case get_value lib ut t (json_index (response br ! k) ''result'') of
       Some (Inl (TypeError w)) \<Rightarrow> Some (Inl (JsonRpcException parse_error (''invalid return type: '' @ w) JNull))
     | r \<Rightarrow> r)
   | None \<Rightarrow> (case id_find lib i (errors br) of
       Some k \<Rightarrow> Some (Inl (fromJson (json_index (response br ! k) ''error'')))
     | None \<Rightarrow> Some (Inl (case jl_dump lib i of
         Inr text \<Rightarrow> JsonRpcException parse_error (''no result found for id '' @ text) JNull
       | Inl e \<Rightarrow> e))))"

definition HasErrors :: "'f batch_response \<Rightarrow> bool" where
  "HasErrors br \<longleftrightarrow> errors br \<noteq> [] \<or> nullIds br \<noteq> []"

definition GetInvalidIndexes :: "'f batch_response \<Rightarrow> nat list" where
  "GetInvalidIndexes br = nullIds br"

definition BatchCall :: "'f json_lib \<Rightarrow> ('s, 'f) connector \<Rightarrow> 'f json list \<Rightarrow> ('s, 'f, 'f batch_response) action" where
  "BatchCall lib Send request s = (case send_request lib Send (Build request) s of
     None \<Rightarrow> None
   | Some (Inl e, s') \<Rightarrow> Some (Inl e, s')
   | Some (Inr (JArray resp), s') \<Rightarrow> Some (Inr (BatchResponse lib resp), s')
   | Some (Inr _, s') \<Rightarrow>
       Some (Inl (JsonRpcException parse_error ''invalid JSON response from server: expected array'' JNull), s'))"

end
