(* ===== verification/Rpc_App.thy ===== *)
theory Rpc_App
  imports Rpc_Server
begin

text \<open>
  The example application of the JSON-RPC library: the classes of \<^verbatim>\<open>types.h\<close> with their conversions and the product store of
  \<^verbatim>\<open>server.hpp\<close>. The threads a registered event listener starts are recorded in the order of their start.
\<close>

section \<open>types.h\<close>

datatype category = cat_order | cat_cash_carry

record 'f product =
  prod_id :: string
  price :: 'f
  prod_name :: string
  cat :: category

record event_listener =
  evt_name :: string
  handleName :: string

datatype 'f user = UProduct "'f product" | UCategory category | UEventListener event_listener

definition category_table :: "(category \<times> 'f json) list" where
  "category_table = [(cat_order, JString ''order''), (cat_cash_carry, JString ''cc'')]"

definition category_to_json :: "category \<Rightarrow> 'f json" where
  "category_to_json e = (case find (\<lambda>p. fst p = e) category_table of Some p \<Rightarrow> snd p | None \<Rightarrow> snd (hd category_table))"

definition category_from_json :: "'f json \<Rightarrow> category" where
  "category_from_json j = (let m = category_table in case find (\<lambda>p. snd p = j) m of Some p \<Rightarrow> fst p | None \<Rightarrow> fst (hd m))"

definition product_to_json :: "'f product \<Rightarrow> 'f json" where
  "product_to_json p = json_object [(''id'', JString (prod_id p)), (''price'', JFloat (price p)), (''name'', JString (prod_name p)),
     (''category'', category_to_json (cat p))]"

definition json_at :: "'f json \<Rightarrow> string \<Rightarrow> 'f exn + 'f json" where
  "json_at j key = (case j of
     JObject m \<Rightarrow> (case map_find key m of
       Some x \<Rightarrow> Inr x
     | None \<Rightarrow> Inl (StdException (''[json.exception.out_of_range.403] key '' @ [CHR 0x27] @ key @ [CHR 0x27] @ '' not found'')))
   | _ \<Rightarrow> Inl (type_error 304 (''cannot use at() with '' @ json_type_name j)))"

definition and_then :: "'e + 'a \<Rightarrow> ('a \<Rightarrow> 'e + 'b) \<Rightarrow> 'e + 'b" where
  "and_then m f = (case m of Inl e \<Rightarrow> Inl e | Inr x \<Rightarrow> f x)"

definition product_from_json :: "'f json_lib \<Rightarrow> 'f json \<Rightarrow> 'f exn + 'f product" where
  "product_from_json lib j =
     and_then (and_then (json_at j ''name'') get_string) (\<lambda>n.
     and_then (and_then (json_at j ''id'') get_string) (\<lambda>i.
     and_then (and_then (json_at j ''price'') (get_floating lib TDouble)) (\<lambda>p.
     and_then (json_at j ''category'') (\<lambda>c.
     Inr \<lparr>prod_id = i, price = p, prod_name = n, cat = category_from_json c\<rparr>))))"

definition event_listener_to_json :: "event_listener \<Rightarrow> 'f json" where
  "event_listener_to_json p = json_object [(''name'', JString (evt_name p)), (''handleName'', JString (handleName p))]"

definition event_listener_from_json :: "'f json \<Rightarrow> 'f exn + event_listener" where
  "event_listener_from_json j =
     and_then (and_then (json_at j ''name'') get_string) (\<lambda>n.
     and_then (and_then (json_at j ''handleName'') get_string) (\<lambda>h.
     Inr \<lparr>evt_name = n, handleName = h\<rparr>))"

definition app_types :: "'f json_lib \<Rightarrow> ('f, 'f user) user_types" where
  "app_types lib = \<lparr>
     ut_from_json = (\<lambda>n j.
       if n = ''Product'' then map_sum id UProduct (product_from_json lib j)
       else if n = ''EventListener'' then map_sum id UEventListener (event_listener_from_json j)
       else Inr (UCategory (category_from_json j))),
     ut_to_json = (\<lambda>u. case u of
       UProduct p \<Rightarrow> product_to_json p
     | UCategory c \<Rightarrow> category_to_json c
     | UEventListener l \<Rightarrow> event_listener_to_json l)\<rparr>"

section \<open>server.hpp of the example\<close>

record 'f store =
  products :: "(string \<times> 'f product) list"
  started :: "(string \<times> event_listener) list"

definition ServerHandle :: "'f store" where
  "ServerHandle = \<lparr>products = [], started = []\<rparr>"

definition AddProduct :: "'f product \<Rightarrow> 'f store \<Rightarrow> bool \<times> 'f store" where
  "AddProduct p s = (if map_find (prod_id p) (products s) \<noteq> None then (False, s)
     else (True, s\<lparr>products := map_put (prod_id p) p (products s)\<rparr>))"

text \<open>For an unknown id a reference to a temporary object is returned, whose use is undefined.\<close>

definition GetProduct :: "string \<Rightarrow> 'f store \<Rightarrow> 'f product option" where
  "GetProduct i s = map_find i (products s)"

definition AllProducts :: "'f store \<Rightarrow> 'f product list" where
  "AllProducts s = map snd (products s)"

definition calc :: "int \<Rightarrow> int \<Rightarrow> int option" where
  "calc a b = (if in_range TInt (a + b) then Some (a + b) else None)"

definition regiserCb :: "event_listener \<Rightarrow> 'f store \<Rightarrow> 'f store" where
  "regiserCb evt s = s\<lparr>started := started s @ [(''onMousePressed'', evt), (''onMouseRelease'', evt)]\<rparr>"

definition registerEventListener :: "event_listener \<Rightarrow> 'f store \<Rightarrow> int \<times> 'f store" where
  "registerEventListener evt s = (0, regiserCb evt s)"

type_synonym 'f app_method = "('f, 'f user) cval list \<Rightarrow> ('f store, 'f, ('f, 'f user) cval) action"

fun call_AddProduct :: "'f app_method" where
  "call_AddProduct [CUser (UProduct p)] s = (case AddProduct p s of (r, s') \<Rightarrow> Some (Inr (CBool r), s'))"
| "call_AddProduct _ s = None"

fun call_GetProduct :: "'f app_method" where
  "call_GetProduct [CString i] s = map_option (\<lambda>p. (Inr (CUser (UProduct p)), s)) (GetProduct i s)"
| "call_GetProduct _ s = None"

fun call_AllProducts :: "'f app_method" where
  "call_AllProducts [] s = Some (Inr (CVector (map (\<lambda>p. CUser (UProduct p)) (AllProducts s))), s)"
| "call_AllProducts _ s = None"

fun call_calc :: "'f app_method" where
  "call_calc [CSigned a, CSigned b] s = map_option (\<lambda>n. (Inr (CSigned n), s)) (calc a b)"
| "call_calc _ s = None"

fun call_registerEventListener :: "'f app_method" where
  "call_registerEventListener [CUser (UEventListener evt)] s = (case registerEventListener evt s of (r, s') \<Rightarrow> Some (Inr (CSigned r), s'))"
| "call_registerEventListener _ s = None"

definition app_procedures :: "(string \<times> cpp_type list \<times> 'f app_method \<times> string list) list" where
  "app_procedures =
     [(''GetProduct'', [TString], call_GetProduct, [''id'']),
      (''AddProduct'', [TClass ''Product''], call_AddProduct, [''product'']),
      (''AllProducts'', [], call_AllProducts, []),
      (''calc'', [TInt, TInt], call_calc, [''int'', ''int'']),
      (''registerEventListener'', [TClass ''EventListener''], call_registerEventListener, [''evt''])]"

definition AppServer :: "'f json_lib \<Rightarrow> ('f store, 'f) dispatcher" where
  "AppServer lib = fold (\<lambda>(name, ts, f, names) d. snd (AddMethod name (createMethodHandle lib (app_types lib) ts f) names d))
     app_procedures Dispatcher"

section \<open>Lemmas\<close>

lemma add_methods:
  assumes "m = map_find name (methods d)" and "name \<noteq> n"
  shows "map_find name (methods (snd (AddMethod n f ns d))) = m"
  using assms by (simp add: AddMethod_def dispatcher_add_method_def add_mapping_def map_find_def find_map_put)

lemma add_method_found:
  "map_find n (methods (snd (AddMethod n f ns d))) =
     (if reserved_name n \<or> contains d n then map_find n (methods d) else Some f)"
  by (simp add: AddMethod_def dispatcher_add_method_def add_mapping_def map_find_def find_map_put)

lemma category_roundtrip: "category_from_json (category_to_json c) = c"
  by (cases c) (simp_all add: category_from_json_def category_to_json_def category_table_def)

lemma category_json: "norm (category_to_json c) = category_to_json c" "json_type (category_to_json c) = VT_string"
  by (cases c; simp add: category_to_json_def category_table_def)+

lemma json_at_find: "json_find k j = Some x \<Longrightarrow> json_at j k = Inr x"
  by (cases j) (simp_all add: json_at_def json_find_def)

lemma product_roundtrip: "product_from_json lib (norm (product_to_json p)) = Inr p"
  by (simp add: product_from_json_def json_at_find product_to_json_def json_simps and_then_def get_string_def get_floating_def
      category_json category_roundtrip)

lemma event_listener_roundtrip: "event_listener_from_json (norm (event_listener_to_json l)) = Inr l"
  by (simp add: event_listener_from_json_def json_at_find event_listener_to_json_def json_simps and_then_def get_string_def)

end
