(* ===== verification/Rpc_Text.thy ===== *)
theory Rpc_Text
  imports Rpc_Json
begin

text \<open>
  A printer and a parser of compact JSON text: an instance of \<open>json_lib\<close> on which calls can be evaluated. Whole
  numbers stand for floating-point numbers. The text is that of \<^verbatim>\<open>dump()\<close> without arguments: no white space, the members of an
  object in key order.
\<close>

definition quote :: "string \<Rightarrow> string" where
  "quote s = ''\"'' @ concat (map (\<lambda>c. if c = CHR 0x22 \<or> c = CHR 0x5C then [CHR 0x5C, c] else [c]) s) @ ''\"''"

fun commas :: "string list \<Rightarrow> string" where
  "commas [] = []"
| "commas [x] = x"
| "commas (x # xs) = x @ '','' @ commas xs"

fun print_json :: "int json \<Rightarrow> string" where
  "print_json JNull = ''null''"
| "print_json (JBool b) = (if b then ''true'' else ''false'')"
| "print_json (JInt n) = to_string n"
| "print_json (JUInt n) = to_string n"
| "print_json (JFloat n) = to_string n @ ''.0''"
| "print_json (JString s) = quote s"
| "print_json (JArray xs) = ''['' @ commas (map print_json xs) @ '']''"
| "print_json (JObject m) = ''{'' @ commas (map (\<lambda>(k, x). quote k @ '':'' @ print_json x) m) @ ''}''"

fun read_string :: "string \<Rightarrow> (string \<times> string) option" where
  "read_string [] = None"
| "read_string (c # cs) =
     (if c = CHR 0x22 then Some ([], cs)
      else if c = CHR 0x5C then (case cs of [] \<Rightarrow> None | x # ys \<Rightarrow> map_option (\<lambda>(s, r). (x # s, r)) (read_string ys))
      else map_option (\<lambda>(s, r). (c # s, r)) (read_string cs))"

definition is_digit :: "char \<Rightarrow> bool" where
  "is_digit c \<longleftrightarrow> 48 \<le> (of_char c :: nat) \<and> (of_char c :: nat) \<le> 57"

definition read_number :: "bool \<Rightarrow> string \<Rightarrow> (int json \<times> string) option" where
  "read_number neg cs = (let ds = takeWhile is_digit cs; r = dropWhile is_digit cs;
      n = foldl (\<lambda>n c. 10 * n + int (of_char c) - 48) 0 ds; m = (if neg then - n else n) in
    if ds = [] then None
    else if take 2 r = ''.0'' then Some (JFloat m, drop 2 r)
    else Some (if neg then JInt m else JUInt m, r))"

fun read_json :: "nat \<Rightarrow> string \<Rightarrow> (int json \<times> string) option"
  and read_elems :: "nat \<Rightarrow> string \<Rightarrow> (int json list \<times> string) option"
  and read_members :: "nat \<Rightarrow> string \<Rightarrow> ((string \<times> int json) list \<times> string) option" where
  "read_json 0 s = None"
| "read_json (Suc f) s = (case s of
     [] \<Rightarrow> None
   | c # cs \<Rightarrow>
       if take 4 s = ''null'' then Some (JNull, drop 4 s)
       else if take 4 s = ''true'' then Some (JBool True, drop 4 s)
       else if take 5 s = ''false'' then Some (JBool False, drop 5 s)
       else if c = CHR 0x22 then map_option (\<lambda>(x, r). (JString x, r)) (read_string cs)
       else if take 2 s = ''[]'' then Some (JArray [], drop 2 s)
       else if take 2 s = ''{}'' then Some (JObject [], drop 2 s)
       else if c = CHR ''['' then map_option (\<lambda>(xs, r). (JArray xs, r)) (read_elems f cs)
       else if c = CHR ''{'' then map_option (\<lambda>(m, r). (JObject m, r)) (read_members f cs)
       else if c = CHR ''-'' then read_number True cs
       else read_number False s)"
| "read_elems 0 s = None"
| "read_elems (Suc f) s = (case read_json f s of
     Some (x, CHR '','' # r) \<Rightarrow> map_option (\<lambda>(xs, r'). (x # xs, r')) (read_elems f r)
   | Some (x, CHR '']'' # r) \<Rightarrow> Some ([x], r)
   | _ \<Rightarrow> None)"
| "read_members 0 s = None"
| "read_members (Suc f) s = (case s of
     CHR 0x22 # cs \<Rightarrow> (case read_string cs of
       Some (k, CHR '':'' # r) \<Rightarrow> (case read_json f r of
           Some (x, CHR '','' # r') \<Rightarrow> map_option (\<lambda>(m, r''). ((k, x) # m, r'')) (read_members f r')
         | Some (x, CHR ''}'' # r') \<Rightarrow> Some ([(k, x)], r')
         | _ \<Rightarrow> None)
     | _ \<Rightarrow> None)
   | _ \<Rightarrow> None)"

definition compact :: "int json_lib" where
  "compact = \<lparr>
     jl_parse = (\<lambda>s. case read_json (Suc (length s)) s of
       Some (v, []) \<Rightarrow> Inr v
     | _ \<Rightarrow> Inl (ParseError ''[json.exception.parse_error.101] parse error'')),
     jl_dump = (\<lambda>v. Inr (print_json v)),
     jl_double = id, jl_single = id, jl_trunc = Some, jl_less = (<)\<rparr>"

end
