(* ===== verification/Rpc_Calls.thy ===== *)
theory Rpc_Calls
  imports Rpc_Client Rpc_App Rpc_Text
begin

text \<open>
  The theorems on the JSON-RPC library: what reaches the function behind a handle, what the server answers, and what a
  call over the connector returns. The text form of JSON enters by \<open>carries\<close>: printing a value and parsing the text
  gives the value back, where a number without a sign has become unsigned.
\<close>

definition carries :: "'f json_lib \<Rightarrow> 'f json \<Rightarrow> bool" where
  "carries lib j \<longleftrightarrow> (case jl_dump lib j of Inr text \<Rightarrow> jl_parse lib text = Inr (norm j) | Inl _ \<Rightarrow> False)"

section \<open>Typed parameters\<close>

text \<open>A value of a C++ type that survives its own conversions.\<close>

fun has_type :: "'f json_lib \<Rightarrow> ('f, 'u) user_types \<Rightarrow> cpp_type \<Rightarrow> ('f, 'u) cval \<Rightarrow> bool" where
  "has_type lib ut (TVector t) v = (case v of CVector xs \<Rightarrow> list_all (has_type lib ut t) xs | _ \<Rightarrow> False)"
| "has_type lib ut (TEnum n) v = (case v of
     CUser u \<Rightarrow> json_type (ut_to_json ut u) = VT_string \<and> ut_from_json ut n (norm (ut_to_json ut u)) = Inr u | _ \<Rightarrow> False)"
| "has_type lib ut (TClass n) v = (case v of
     CUser u \<Rightarrow> json_type (ut_to_json ut u) = VT_object \<and> ut_from_json ut n (norm (ut_to_json ut u)) = Inr u | _ \<Rightarrow> False)"
| "has_type lib ut TVoid v = False"
| "has_type lib ut TString v = (case v of CString _ \<Rightarrow> True | _ \<Rightarrow> False)"
| "has_type lib ut TBool v = (case v of CBool _ \<Rightarrow> True | _ \<Rightarrow> False)"
| "has_type lib ut t v = (case v of
     CReal f \<Rightarrow> is_float t \<and> (t = TFloat \<longrightarrow> jl_single lib f = f)
   | CSigned n \<Rightarrow> is_signed t \<and> in_range t n
   | CUnsigned n \<Rightarrow> is_unsigned t \<and> in_range t n
   | _ \<Rightarrow> False)"

lemmas type_defs = is_float_def is_signed_def is_unsigned_def is_arithmetic_def

lemma seq_simps [simp]:
  "seq None f = None" "seq (Some (Inl e)) f = Some (Inl e)" "seq (Some (Inr x)) f = f x"
  by (simp_all add: seq_def)

lemma seq_Inr: "seq m f = Some (Inr y) \<longleftrightarrow> (\<exists>x. m = Some (Inr x) \<and> f x = Some (Inr y))"
  by (auto simp: seq_def split: option.splits sum.splits)

lemma seq_map_Inr: "seq_map f xs = Some (Inr ys) \<longleftrightarrow> list_all2 (\<lambda>x y. f x = Some (Inr y)) xs ys"
  by (induction xs arbitrary: ys) (auto simp: seq_Inr list_all2_Cons1)

lemma list_all2_enumerate:
  "list_all2 P (enumerate n xs) ys \<longleftrightarrow> length xs = length ys \<and> (\<forall>i < length xs. P (n + i, xs ! i) (ys ! i))"
  by (auto simp: list_all2_conv_all_nth nth_enumerate_eq)

lemma get_to_json: "has_type lib ut t v \<Longrightarrow> get_value lib ut t (norm (to_json ut v)) = Some (Inr v)"
proof (induction lib ut t v rule: has_type.induct)
  case (1 lib ut t v)
  then show ?case
    by (auto simp: seq_map_Inr seq_Inr list_all_iff list_all2_conv_all_nth split: cval.splits)
qed (auto simp: get_string_def get_bool_def get_floating_def get_integral_def Let_def int_cast_id type_defs split: cval.splits)

lemma check_to_json: "has_type lib ut t v \<Longrightarrow> check_param_type lib t i (norm (to_json ut v)) (GetType t) = Some (Inr ())"
  by (cases t; cases v)
    (auto simp: check_param_type_def check_arithmetic_def type_defs numeric_max_def get_integral_def int_cast_id in_range_def
      int_bits_def json_simps)

lemma map_sum_Inr [simp]: "map_sum f g r = Inr y \<longleftrightarrow> (\<exists>x. r = Inr x \<and> y = g x)"
  by (cases r) auto

lemma checked_to_json:
  assumes "list_all2 (has_type lib ut) ts vs"
  shows "checked_params lib ut ts (JArray (map (\<lambda>v. norm (to_json ut v)) vs)) = Some (Inr vs)"
proof -
  let ?p = "JArray (map (\<lambda>v. norm (to_json ut v)) vs)"
  have l: "length ts = length vs" and t: "\<And>i. i < length vs \<Longrightarrow> has_type lib ut (ts ! i) (vs ! i)"
    using assms by (simp_all add: list_all2_conv_all_nth)
  have "check_params lib ts ?p = Some (Inr (replicate (length ts) ()))"
    using l t by (auto simp: check_params_def seq_map_Inr seq_Inr list_all2_enumerate json_elem_def check_to_json)
  moreover have "get_params lib ut ts ?p = Some (Inr vs)"
    using l t by (auto simp: get_params_def seq_map_Inr seq_Inr list_all2_enumerate json_elem_def get_to_json)
  ultimately show ?thesis
    using l by (simp add: checked_params_def)
qed

section \<open>A call\<close>

definition is_call :: "'f json \<Rightarrow> 'f json \<Rightarrow> string \<Rightarrow> 'f json list \<Rightarrow> bool" where
  "is_call r i name ps \<longleftrightarrow> json_find ''jsonrpc'' r = Some (JString ''2.0'') \<and> json_find ''method'' r = Some (JString name)
     \<and> json_find ''id'' r = Some i \<and> (is_number i \<or> json_type i = VT_string) \<and> json_find ''params'' r = Some (JArray ps)"

definition result_response :: "'f json \<Rightarrow> 'f json \<Rightarrow> 'f json" where
  "result_response i r = json_object [(''jsonrpc'', JString ''2.0''), (''id'', i), (''result'', r)]"

definition id_fits :: "id_type \<Rightarrow> bool" where
  "id_fits i \<longleftrightarrow> (case i of IdInt n \<Rightarrow> in_range TInt n | IdString _ \<Rightarrow> True)"

lemma norm_norm [simp]: "norm (norm v) = norm v"
  by (induction v rule: norm.induct) auto

lemma norm_id_number: "is_number (id_json i) \<or> (\<exists>s. norm (id_json i) = JString s)"
  by (cases i) (simp_all add: is_number_def)

lemma call_of_request: "is_call (norm (method_request v2 i name (JArray ps))) (norm (id_json i)) name (map norm ps)"
  by (simp add: norm_id_number is_call_def method_request_def Let_def json_simps)

lemma call_of_batch: "is_call (norm (json_set ''id'' (id_json i) (batch_call name (JArray ps)))) (norm (id_json i)) name (map norm ps)"
  by (simp add: norm_id_number is_call_def batch_call_def json_simps)

lemma handle_call:
  assumes "is_call r i name ps"
  shows "HandleSingleRequest lib d r s = (case InvokeMethod lib d name (JArray ps) s of
     None \<Rightarrow> None
   | Some (Inr x, s') \<Rightarrow> Some (result_response i x, s')
   | Some (Inl e, s') \<Rightarrow> Some (exn_response i e, s'))"
proof -
  have r: "has_key r k" "json_index r k = v" if "json_find k r = Some v" for k v
    using that by (simp_all add: has_key_def json_index_def)
  note c = assms [unfolded is_call_def]
  have k: "has_key r ''jsonrpc''" "has_key r ''method''" "has_key r ''id''" "has_key r ''params''"
      "json_index r ''jsonrpc'' = JString ''2.0''" "json_index r ''method'' = JString name" "json_index r ''id'' = i"
      "json_index r ''params'' = JArray ps"
    using c r by blast+
  moreover have "valid_id r"
    using c k by (auto simp: valid_id_def)
  moreover have "with_params r = r"
    using k by (simp add: with_params_def has_key_type_def)
  ultimately show ?thesis
    by (simp add: HandleSingleRequest_def ProcessSingleRequest_def Let_def has_key_type_def string_of_def result_response_def
        split: option.split sum.split)
qed

lemma HandleRequest_object:
  assumes "jl_parse lib text = Inr r" and "json_type r = VT_object"
  shows "HandleRequest lib d text s = (case HandleSingleRequest lib d r s of
     None \<Rightarrow> None | Some (res, s') \<Rightarrow> Some (if res \<noteq> JNull then jl_dump lib res else Inr [], s'))"
  using assms by (cases r) (simp_all add: HandleRequest_def)

lemma call_is_object: "is_call r i name ps \<Longrightarrow> json_type r = VT_object"
  by (cases r) (simp_all add: is_call_def json_find_def)

lemma json_object_not_null [simp]: "json_object kvs \<noteq> JNull"
  by (simp add: json_object_def)

lemma object_not_null [simp]: "result_response i x \<noteq> JNull" "exn_response i e \<noteq> JNull" "error_response i x \<noteq> JNull"
  by (simp_all add: result_response_def exn_response_def error_response_def split: exn.split)

text \<open>The contract of a connector: what it returns for a request is what the server answers.\<close>

locale connector_to =
  fixes lib :: "'f json_lib"
    and d :: "('s, 'f) dispatcher"
    and Send :: "('s, 'f) connector"
  assumes delivers: "HandleRequest lib d text s = Some (r, s') \<Longrightarrow> Send text s = Some (r, s')"
begin

lemma send_call:
  assumes "carries lib q" and "is_call (norm q) i name ps"
    and "InvokeMethod lib d name (JArray ps) s = Some (x, s')"
    and "res = (case x of Inr r \<Rightarrow> result_response i r | Inl e \<Rightarrow> exn_response i e)" and "carries lib res"
  shows "send_request lib Send q s = Some (Inr (norm res), s')"
proof -
  obtain q' where q: "jl_dump lib q = Inr q'" "jl_parse lib q' = Inr (norm q)"
    using assms(1) by (auto simp: carries_def split: sum.splits)
  obtain a where a: "jl_dump lib res = Inr a" "jl_parse lib a = Inr (norm res)"
    using assms(5) by (auto simp: carries_def split: sum.splits)
  have "HandleSingleRequest lib d (norm q) s = Some (res, s')"
    using assms(3,4) by (simp add: handle_call [OF assms(2)] split: sum.splits)
  moreover have "res \<noteq> JNull"
    using assms(4) by (simp split: sum.splits)
  ultimately show ?thesis
    using q a delivers [of q' s "jl_dump lib res" s'] by (simp add: send_request_def HandleRequest_object [OF q(2) call_is_object [OF assms(2)]])
qed

lemma send_batch:
  assumes "carries lib (Build reqs)" and "handle_batch lib d (map norm reqs) s = Some (ress, s')" and "carries lib (JArray ress)"
  shows "BatchCall lib Send reqs s = Some (Inr (BatchResponse lib (map norm ress)), s')"
proof -
  obtain q where q: "jl_dump lib (Build reqs) = Inr q" "jl_parse lib q = Inr (JArray (map norm reqs))"
    using assms(1) by (auto simp: carries_def Build_def split: sum.splits)
  obtain a where a: "jl_dump lib (JArray ress) = Inr a" "jl_parse lib a = Inr (JArray (map norm ress))"
    using assms(3) by (auto simp: carries_def split: sum.splits)
  have "HandleRequest lib d q s = Some (Inr a, s')"
    using q a assms(2) by (simp add: HandleRequest_def)
  from delivers [OF this] show ?thesis
    using q a by (simp add: BatchCall_def send_request_def)
qed

end

interpretation in_memory: connector_to lib d "InMemoryConnector lib d" for lib d
  by unfold_locales (simp add: InMemoryConnector_def)

lemma invoke_typed:
  assumes "map_find name (methods d) = Some (createMethodHandle lib ut ts method)"
    and "list_all2 (has_type lib ut) ts args" and "method args s = Some (x, s')"
  shows "InvokeMethod lib d name (JArray (map (\<lambda>v. norm (to_json ut v)) args)) s = (case x of
     Inr r \<Rightarrow> Some (Inr (to_json ut r), s') | Inl e \<Rightarrow> map_option (\<lambda>e'. (Inl e', s')) (rethrow lib d name e))"
  using assms checked_to_json [OF assms(2)]
  by (simp add: InvokeMethod_def invoke_def normalize_parameter_def createMethodHandle_def split: sum.split)

lemma decode_result:
  assumes "id_fits i"
  shows "decode_response lib (norm (result_response (norm (id_json i)) x)) = Some (Inr (i, norm x))"
  using assms int_cast_id
  by (cases i) (auto simp: decode_response_def result_response_def json_simps has_key_type_def id_fits_def get_integral_def)

lemma app_methods:
  "map_find ''calc'' (methods (AppServer lib)) = Some (createMethodHandle lib (app_types lib) [TInt, TInt] call_calc)"
  "map_find ''AddProduct'' (methods (AppServer lib)) = Some (createMethodHandle lib (app_types lib) [TClass ''Product''] call_AddProduct)"
  "map_find ''GetProduct'' (methods (AppServer lib)) = Some (createMethodHandle lib (app_types lib) [TString] call_GetProduct)"
  by (simp_all add: AppServer_def app_procedures_def AddMethod_def dispatcher_add_method_def contains_def Dispatcher_def add_mapping_def
      map_find_def find_map_put reserved_name_def)

lemma call_returns:
  assumes "map_find name (methods d) = Some (createMethodHandle lib ut ts method)"
    and "list_all2 (has_type lib ut) ts args" and "method args s = Some (Inr r, s')" and "has_type lib ut t r" and "id_fits i"
    and "carries lib (method_request v2 i name (JArray (map (to_json ut) args)))"
    and "carries lib (result_response (norm (id_json i)) (to_json ut r))"
  shows "CallMethod lib ut (InMemoryConnector lib d) v2 t i name (map (to_json ut) args) s = Some (Inr r, s')"
proof -
  have "InvokeMethod lib d name (JArray (map norm (map (to_json ut) args))) s = Some (Inr (to_json ut r), s')"
    using invoke_typed [OF assms(1-3)] by (simp add: comp_def)
  from in_memory.send_call [OF assms(6) call_of_request this refl] assms(7)
  have "send_request lib (InMemoryConnector lib d) (method_request v2 i name (JArray (map (to_json ut) args))) s
      = Some (Inr (norm (result_response (norm (id_json i)) (to_json ut r))), s')"
    by simp
  then show ?thesis
    using get_to_json [OF assms(4)] by (simp add: CallMethod_def call_method_def decode_result [OF assms(5)] get_result_def)
qed

text \<open>C11. A remote call returns what the function returns. When a function is registered with its parameter types and the client
  calls it with arguments of these types over the in-memory connector, the function is run once on exactly these
  arguments, and its result is what \<^verbatim>\<open>CallMethod\<close> returns.\<close>

theorem rpc_call_returns:
  assumes "map_find name (methods d) = Some (createMethodHandle lib ut ts method)"
    and "list_all2 (has_type lib ut) ts args" and "method args s = Some (Inr r, s')" and "has_type lib ut t r" and "id_fits i"
    and "carries lib (method_request v2 i name (JArray (map (to_json ut) args)))"
    and "carries lib (result_response (norm (id_json i)) (to_json ut r))"
  shows "CallMethod lib ut (InMemoryConnector lib d) v2 t i name (map (to_json ut) args) s = Some (Inr r, s')"
  using assms by (rule call_returns)

theorem rpc_call_returns_witness:
  "CallMethod compact (app_types compact) (InMemoryConnector compact (AppServer compact)) v2 TInt (IdInt 7) ''calc'' [JInt 5, JInt (-6)] ServerHandle
     = Some (Inr (CSigned (-1)), ServerHandle)"
proof -
  let ?args = "[CSigned 5, CSigned (-6)] :: (int, int user) cval list"
  have "list_all2 (has_type compact (app_types compact)) [TInt, TInt] ?args" "has_type compact (app_types compact) TInt (CSigned (-1))"
      "id_fits (IdInt 7)" "call_calc ?args ServerHandle = Some (Inr (CSigned (-1)), ServerHandle)"
    by (simp_all add: is_signed_def in_range_def int_bits_def id_fits_def calc_def)
  moreover have "carries compact (method_request v2 (IdInt 7) ''calc'' (JArray (map (to_json (app_types compact)) ?args)))"
    by code_simp
  moreover have "carries compact (result_response (norm (id_json (IdInt 7))) (to_json (app_types compact) (CSigned (-1))))"
    by code_simp
  ultimately show ?thesis
    using rpc_call_returns [OF app_methods(1), where args = ?args and s = ServerHandle and s' = ServerHandle and i = "IdInt 7" and t = TInt] by simp
qed

section \<open>Errors\<close>

text \<open>What arrives for an exception of the function, if the function is registered with the given names of its
  parameters. A complaint about a parameter, the code -32602 with data, is rewritten by the dispatcher: the data is the
  position of the parameter, and its name or the position is appended to the message. Data that is no number is
  itself an error. Undefined are a floating-point number that does not fit \<^verbatim>\<open>unsigned int\<close> and a position
  behind the names.\<close>

definition position :: "'f json_lib \<Rightarrow> 'f json \<Rightarrow> int option" where
  "position lib dat = (case dat of
     JUInt n \<Rightarrow> Some (n mod 2 ^ 32)
   | JInt n \<Rightarrow> Some (n mod 2 ^ 32)
   | JBool b \<Rightarrow> Some (if b then 1 else 0)
   | JFloat f \<Rightarrow> (case jl_trunc lib f of Some n \<Rightarrow> if 0 \<le> n \<and> n < 2 ^ 32 then Some n else None | None \<Rightarrow> None)
   | _ \<Rightarrow> None)"

definition complaint :: "string list option \<Rightarrow> string \<Rightarrow> int \<Rightarrow> 'f exn option" where
  "complaint names m n = map_option (\<lambda>p. JsonRpcException (-32602) (m @ '' for parameter '' @ p) JNull)
     (case names of
        None \<Rightarrow> Some (to_string n)
      | Some ns \<Rightarrow> if nat n < length ns then Some (''\"'' @ ns ! nat n @ ''\"'') else None)"

fun arrives :: "'f json_lib \<Rightarrow> string list option \<Rightarrow> 'f exn \<Rightarrow> 'f exn option" where
  "arrives lib names (JsonRpcException c m dat) =
     (if c \<noteq> -32602 \<or> json_empty dat then Some (JsonRpcException c m dat)
      else if is_number dat \<or> json_type dat = VT_boolean then Option.bind (position lib dat) (complaint names m)
      else Some (JsonRpcException (-32603)
        (''internal server error: [json.exception.type_error.302] type must be number, but is '' @ json_type_name dat) JNull))"
| "arrives lib names (TypeError w) = Some (JsonRpcException (-32602) (''invalid parameter: '' @ w) JNull)"
| "arrives lib names OtherException = Some (JsonRpcException (-32603) ''internal server error'' JNull)"
| "arrives lib names e = Some (JsonRpcException (-32603) (''internal server error: '' @ exn_what e) JNull)"

lemma get_position:
  "is_number dat \<or> json_type dat = VT_boolean \<Longrightarrow> get_integral lib TUInt dat = map_option Inr (position lib dat)"
  "\<not> is_number dat \<Longrightarrow> json_type dat \<noteq> VT_boolean \<Longrightarrow> get_integral lib TUInt dat = Some (Inl (must_be ''number'' dat))"
  by (cases dat; simp add: is_number_def get_integral_def position_def int_cast_def in_range_def type_defs int_bits_def split: option.split)+

lemma digits_numeral:
  "digits (numeral k) n = (if n < 10 then [char_of (48 + n)] else digits (pred_numeral k) (n div 10) @ [char_of (48 + n mod 10)])"
  by (simp add: numeral_eq_Suc)

lemma must_be_number:
  "must_be ''number'' dat = TypeError (''[json.exception.type_error.302] type must be number, but is '' @ json_type_name dat)"
proof -
  have "to_string 302 = ''302''" by code_simp
  then show ?thesis by (simp add: must_be_def type_error_def)
qed

lemma rethrow_arrives:
  assumes "arrives lib (map_find name (mapping d)) e = Some (JsonRpcException c m dat)"
  shows "\<exists>e'. rethrow lib d name e = Some e' \<and> exn_response i e' = exn_response i (JsonRpcException c m dat)"
proof (cases e)
  case (JsonRpcException c0 m0 d0)
  consider (plain) "c0 \<noteq> -32602 \<or> json_empty d0" | (number) "c0 = -32602" "\<not> json_empty d0" "is_number d0 \<or> json_type d0 = VT_boolean"
    | (other) "c0 = -32602" "\<not> json_empty d0" "\<not> is_number d0" "json_type d0 \<noteq> VT_boolean"
    by blast
  then show ?thesis
  proof cases
    case number
    then obtain n where n: "position lib d0 = Some n" "complaint (map_find name (mapping d)) m0 n = Some (JsonRpcException c m dat)"
      using assms JsonRpcException by (auto simp: bind_eq_Some_conv)
    then show ?thesis
      using number JsonRpcException get_position(1) [OF number(3), of lib]
      by (auto simp: rethrow_def process_type_error_def complaint_def split: option.splits if_splits)
  qed (use assms JsonRpcException get_position(2) [of d0 lib] in
      \<open>auto simp: rethrow_def process_type_error_def exn_response_def exn_what_def must_be_number internal_error_def\<close>)
qed (use assms in \<open>auto simp: rethrow_def exn_response_def exn_what_def internal_error_def invalid_params_def\<close>)

lemma decode_error_object:
  assumes "in_range TInt c"
  shows "decode_response lib (norm (error_response i (error_object c m))) = Some (Inl (JsonRpcException c m JNull))"
    and "decode_response lib (norm (error_response i (json_set ''data'' dat (error_object c m)))) = Some (Inl (JsonRpcException c m (norm dat)))"
  using int_cast_id [OF assms]
  by (auto simp: decode_response_def error_response_def error_object_def json_simps has_key_type_def fromJson_def Let_def)

lemma decode_exception:
  "in_range TInt c \<Longrightarrow> decode_response lib (norm (exn_response i (JsonRpcException c m dat))) = Some (Inl (JsonRpcException c m (norm dat)))"
  by (auto simp: exn_response_def decode_error_object)

text \<open>C12. Every exception of the function reaches the caller. When the function throws, \<^verbatim>\<open>CallMethod\<close> throws as well, and what
  the function did to the state before stays done. An exception of the library arrives with its code, message and data, except for
  the code -32602 with non-empty data: its data is taken for the position of a parameter, which is appended to the message, by
  name where the names were registered, and dropped, or becomes an internal error when it is no number. A type error of the JSON library arrives as
  invalid parameters, any other exception as an internal error with its text. The premise that something arrives excludes
  only the data whose reading is undefined: a floating-point number that is no \<^verbatim>\<open>unsigned int\<close> and a
  position behind the registered names.\<close>

theorem rpc_error_reaches_client:
  assumes "map_find name (methods d) = Some (createMethodHandle lib ut ts proc)"
    and "list_all2 (has_type lib ut) ts args" and "proc args s = Some (Inl e, s')"
    and "arrives lib (map_find name (mapping d)) e = Some (JsonRpcException c m dat)" and "in_range TInt c"
    and "carries lib (method_request v2 i name (JArray (map (to_json ut) args)))"
    and "carries lib (exn_response (norm (id_json i)) (JsonRpcException c m dat))"
  shows "CallMethod lib ut (InMemoryConnector lib d) v2 t i name (map (to_json ut) args) s =
    Some (Inl (JsonRpcException c m (norm dat)), s')"
proof -
  obtain e' where e: "rethrow lib d name e = Some e'"
    "exn_response (norm (id_json i)) e' = exn_response (norm (id_json i)) (JsonRpcException c m dat)"
    using rethrow_arrives [OF assms(4)] by blast
  have "InvokeMethod lib d name (JArray (map norm (map (to_json ut) args))) s = Some (Inl e', s')"
    using invoke_typed [OF assms(1-3)] e(1) by (simp add: comp_def)
  from in_memory.send_call [OF assms(6) call_of_request this refl] assms(7)
  have "send_request lib (InMemoryConnector lib d) (method_request v2 i name (JArray (map (to_json ut) args))) s
      = Some (Inr (norm (exn_response (norm (id_json i)) (JsonRpcException c m dat))), s')"
    by (simp add: e(2))
  then show ?thesis
    by (simp add: CallMethod_def call_method_def decode_exception [OF assms(5)] get_result_def)
qed

definition failing :: "(unit, int) dispatcher" where
  "failing = snd (AddMethod ''fail'' (createMethodHandle compact (app_types compact) [TInt]
     (\<lambda>_ s. Some (Inl (JsonRpcException (-32602) ''no such item'' (JInt 0)), s))) [''item''] Dispatcher)"

lemma carries_complaint:
  "carries compact (exn_response (norm (id_json (IdString ''a''))) (JsonRpcException (-32602) ''no such item for parameter \"item\"'' JNull))"
proof -
  let ?j = "JObject [(''error'', JObject [(''code'', JInt (-32602)), (''message'', JString ''no such item for parameter \"item\"'')]),
    (''id'', JString ''a''), (''jsonrpc'', JString ''2.0'')] :: int json"
  have c: "to_string (-32602) = ''-32602''"
    by (simp add: to_string_def digits_numeral char_of_def bit_0)
  have "exn_response (norm (id_json (IdString ''a''))) (JsonRpcException (-32602) ''no such item for parameter \"item\"'' JNull) = ?j"
    by code_simp
  moreover have "carries compact ?j"
    unfolding carries_def compact_def
    by (simp add: c) code_simp
  ultimately show ?thesis by simp
qed

theorem rpc_error_reaches_client_witness:
  "CallMethod compact (app_types compact) (InMemoryConnector compact failing) v2 TInt (IdString ''a'') ''fail'' [JInt 3] ()
     = Some (Inl (JsonRpcException (-32602) ''no such item for parameter \"item\"'' JNull), ())"
proof -
  let ?e = "JsonRpcException (-32602) ''no such item'' (JInt 0) :: int exn" and ?args = "[CSigned 3] :: (int, int user) cval list"
  let ?f = "\<lambda>_ s. Some (Inl ?e, s)" and ?m = "''no such item for parameter \"item\"''"
  have d: "map_find ''fail'' (methods failing) = Some (createMethodHandle compact (app_types compact) [TInt] ?f)"
    "map_find ''fail'' (mapping failing) = Some [''item'']"
    by (simp_all add: failing_def AddMethod_def dispatcher_add_method_def add_mapping_def contains_def Dispatcher_def reserved_name_def map_find_def)
  have "arrives compact (map_find ''fail'' (mapping failing)) ?e = Some (JsonRpcException (-32602) ?m JNull)"
    by (simp add: d json_empty_def is_number_def position_def complaint_def)
  moreover have "list_all2 (has_type compact (app_types compact)) [TInt] ?args" "in_range TInt (-32602)"
    by (simp_all add: is_signed_def in_range_def int_bits_def)
  moreover have "carries compact (method_request v2 (IdString ''a'') ''fail'' (JArray (map (to_json (app_types compact)) ?args)))"
    by code_simp
  moreover have "carries compact (exn_response (norm (id_json (IdString ''a''))) (JsonRpcException (-32602) ?m JNull))"
    by (rule carries_complaint)
  ultimately show ?thesis
    using rpc_error_reaches_client [OF d(1), where args = ?args and e = ?e and t = TInt and i = "IdString ''a''" and c = "-32602" and m = ?m
        and dat = JNull] by simp
qed

section \<open>The server\<close>

definition answers :: "'f json \<Rightarrow> 'f json \<Rightarrow> bool" where
  "answers r res \<longleftrightarrow>
     (if res = JNull then has_key_type r ''method'' VT_string \<and> \<not> has_key r ''id''
      else json_find ''jsonrpc'' res = Some (JString ''2.0'')
        \<and> json_find ''id'' res = Some (if valid_id r then json_index r ''id'' else JNull)
        \<and> (has_key res ''result'' \<longleftrightarrow> \<not> has_key res ''error'')
        \<and> (\<forall>e. json_find ''error'' res = Some e \<longrightarrow>
             has_key_type e ''code'' VT_number_integer \<and> has_key_type e ''message'' VT_string))"

lemma valid_with_params [simp]:
  assumes "json_type r = VT_object"
  shows "json_index (with_params r) ''id'' = json_index r ''id''" "has_key (with_params r) ''id'' = has_key r ''id''"
    "json_index (with_params r) ''method'' = json_index r ''method''"
  using assms by (simp_all add: with_params_def json_simps)

lemma answers_error: "answers r (exn_response (if valid_id r then json_index r ''id'' else JNull) e)"
  by (cases e)
    (simp_all add: answers_def exn_response_def error_response_def error_object_def json_simps has_key_type_def)

lemma answers_result: "valid_id r \<Longrightarrow> answers r (json_object [(''jsonrpc'', JString ''2.0''), (''id'', json_index r ''id''), (''result'', x)])"
  using object_not_null(1) [of "json_index r ''id''" x] by (simp add: answers_def json_simps result_response_def)

lemma single_answers:
  assumes "HandleSingleRequest lib d r s = Some (res, s')"
  shows "answers r res"
proof -
  let ?i = "if valid_id r then json_index r ''id'' else JNull"
  obtain x where x: "ProcessSingleRequest lib d r s = Some (x, s')" "res = (case x of Inr y \<Rightarrow> y | Inl e \<Rightarrow> exn_response ?i e)"
    using assms by (auto simp: HandleSingleRequest_def Let_def split: option.splits sum.splits prod.splits)
  show ?thesis
  proof (cases x)
    case (Inl e)
    then show ?thesis
      using answers_error [of r e] x(2) by (simp only: Inl sum.case)
  next
    case (Inr y)
    have o: "json_type r = VT_object"
      using x(1) Inr has_key_not_object [of r "''method''"] by (auto simp: ProcessSingleRequest_def has_key_type_def split: if_splits)
    show ?thesis
      using x Inr answers_result [of r] o
      by (auto simp: ProcessSingleRequest_def Let_def answers_def has_key_type_def split: if_splits option.splits sum.splits prod.splits)
  qed
qed

lemma batch_answers:
  "handle_batch lib d rs s = Some (ress, s') \<Longrightarrow> \<exists>xs. list_all2 answers rs xs \<and> ress = filter (\<lambda>x. x \<noteq> JNull) xs"
proof (induction rs arbitrary: s ress)
  case (Cons r rs)
  from Cons.prems obtain x s1 xs where x: "HandleSingleRequest lib d r s = Some (x, s1)" "handle_batch lib d rs s1 = Some (xs, s')"
      "ress = (if x \<noteq> JNull then x # xs else xs)"
    by (auto split: option.splits prod.splits)
  obtain ys where "list_all2 answers rs ys" "xs = filter (\<lambda>x. x \<noteq> JNull) ys"
    using Cons.IH [OF x(2)] by blast
  then show ?case
    using single_answers [OF x(1)] x(3) by (intro exI [of _ "x # ys"]) auto
qed simp

text \<open>C16. The server answers every request of the protocol. A batch is answered by the array of the answers of its members, in
  their order, and a single request by its answer: an object with the version, the id of the request (null when
  that is not valid) and either a result or an error with an integer code and a message. Only a request with a method
  and without an id, a notification, has no answer.\<close>

theorem server_answers:
  assumes "HandleRequest lib d text s = Some (out, s')"
  shows "(\<forall>rs. jl_parse lib text = Inr (JArray rs) \<longrightarrow>
      (\<exists>xs. list_all2 answers rs xs \<and> out = jl_dump lib (JArray (filter (\<lambda>x. x \<noteq> JNull) xs))))
    \<and> (\<forall>m. jl_parse lib text = Inr (JObject m) \<longrightarrow>
      (\<exists>x. answers (JObject m) x \<and> out = (if x \<noteq> JNull then jl_dump lib x else Inr [])))"
proof (intro conjI allI impI)
  fix rs
  assume "jl_parse lib text = Inr (JArray rs)"
  then show "\<exists>xs. list_all2 answers rs xs \<and> out = jl_dump lib (JArray (filter (\<lambda>x. x \<noteq> JNull) xs))"
    using assms batch_answers by (fastforce simp: HandleRequest_def)
next
  fix m
  assume "jl_parse lib text = Inr (JObject m)"
  then show "\<exists>x. answers (JObject m) x \<and> out = (if x \<noteq> JNull then jl_dump lib x else Inr [])"
    using assms single_answers by (fastforce simp: HandleRequest_def split: option.splits prod.splits)
qed

definition ex_batch :: string where
  "ex_batch = ''[{\"id\":1,\"jsonrpc\":\"2.0\",\"method\":\"calc\",\"params\":[1,2]},{\"jsonrpc\":\"2.0\",\"method\":\"gone\"},7]''"

lemma ex_batch_parsed: "jl_parse compact ex_batch = Inr (JArray
  [JObject [(''id'', JUInt 1), (''jsonrpc'', JString ''2.0''), (''method'', JString ''calc''), (''params'', JArray [JUInt 1, JUInt 2])],
   JObject [(''jsonrpc'', JString ''2.0''), (''method'', JString ''gone'')], JUInt 7])"
  by code_simp

theorem server_answers_witness:
  "\<exists>out. HandleRequest compact Dispatcher ex_batch () = Some (out, ())
    \<and> (\<forall>rs. jl_parse compact ex_batch = Inr (JArray rs) \<longrightarrow> length rs = 3 \<and>
      (\<exists>xs. list_all2 answers rs xs \<and> out = jl_dump compact (JArray (filter (\<lambda>x. x \<noteq> JNull) xs))))"
proof -
  have "handle_batch compact Dispatcher
     [JObject [(''id'', JUInt 1), (''jsonrpc'', JString ''2.0''), (''method'', JString ''calc''), (''params'', JArray [JUInt 1, JUInt 2])],
      JObject [(''jsonrpc'', JString ''2.0''), (''method'', JString ''gone'')], JUInt 7] () \<noteq> None"
    by (simp add: HandleSingleRequest_def ProcessSingleRequest_def Let_def has_key_type_def has_key_def json_index_def json_find_def
        map_find_def valid_id_def is_number_def with_params_def json_set_def find_map_put InvokeMethod_def InvokeNotification_def
        Dispatcher_def is_std_exception_def)
  then obtain out where h: "HandleRequest compact Dispatcher ex_batch () = Some (out, ())"
    by (auto simp: HandleRequest_def ex_batch_parsed)
  show ?thesis
    using h server_answers [OF h, THEN conjunct1] ex_batch_parsed by auto
qed

section \<open>Checked parameters\<close>

text \<open>A number of JSON as the library holds it, and the values for which the check of a floating-point parameter is defined.\<close>

fun held :: "'f json \<Rightarrow> bool" where
  "held (JInt n) \<longleftrightarrow> - (2 ^ 63) \<le> n \<and> n < 2 ^ 63"
| "held (JUInt n) \<longleftrightarrow> 0 \<le> n \<and> n < 2 ^ 64"
| "held _ \<longleftrightarrow> True"

fun float_number :: "'f json_lib \<Rightarrow> 'f json \<Rightarrow> bool" where
  "float_number lib (JInt n) \<longleftrightarrow> (case jl_trunc lib (jl_double lib n) of Some k \<Rightarrow> - (2 ^ 63) \<le> k \<and> k < 2 ^ 63 | None \<Rightarrow> False)"
| "float_number lib (JUInt n) \<longleftrightarrow> n < 2 ^ 63 \<and> (case jl_trunc lib (jl_double lib n) of Some k \<Rightarrow> - (2 ^ 63) \<le> k \<and> k < 2 ^ 63 | None \<Rightarrow> False)"
| "float_number lib _ \<longleftrightarrow> True"

text \<open>Which values a parameter of a type accepts, and which argument a value denotes there: an integer the one of the
  type that is equal to it modulo the size of the type.\<close>

fun accepts :: "'f json_lib \<Rightarrow> cpp_type \<Rightarrow> 'f json \<Rightarrow> bool" where
  "accepts lib (TVector t) v \<longleftrightarrow> (\<exists>xs. v = JArray xs)"
| "accepts lib (TEnum n) v \<longleftrightarrow> (\<exists>s. v = JString s)"
| "accepts lib (TClass n) v \<longleftrightarrow> (\<exists>m. v = JObject m)"
| "accepts lib TVoid v \<longleftrightarrow> v = JNull"
| "accepts lib TString v \<longleftrightarrow> (\<exists>s. v = JString s)"
| "accepts lib TBool v \<longleftrightarrow> (\<exists>b. v = JBool b)"
| "accepts lib t v \<longleftrightarrow>
     (if t \<in> {TFloat, TDouble, TLongDouble}
      then (\<exists>f. v = JFloat f) \<or> (\<exists>n. (v = JInt n \<or> v = JUInt n) \<and> jl_trunc lib (jl_double lib n) = Some n)
      else if t \<in> {TShort, TInt, TLong, TLongLong} then (\<exists>n. v = JInt n \<or> v = JUInt n \<and> n < 2 ^ (int_bits t - 1))
      else (\<exists>n. v = JUInt n \<or> v = JInt n \<and> 0 \<le> n))"

inductive denotes :: "'f json_lib \<Rightarrow> ('f, 'u) user_types \<Rightarrow> cpp_type \<Rightarrow> 'f json \<Rightarrow> ('f, 'u) cval \<Rightarrow> bool" for lib ut where
  "denotes lib ut TString (JString s) (CString s)"
| "denotes lib ut TBool (JBool b) (CBool b)"
| "list_all2 (denotes lib ut t) xs ys \<Longrightarrow> denotes lib ut (TVector t) (JArray xs) (CVector ys)"
| "ut_from_json ut n v = Inr u \<Longrightarrow> denotes lib ut (TEnum n) v (CUser u)"
| "ut_from_json ut n v = Inr u \<Longrightarrow> denotes lib ut (TClass n) v (CUser u)"
| "v = JInt n \<or> v = JUInt n \<Longrightarrow> t \<in> {TShort, TInt, TLong, TLongLong} \<Longrightarrow> k mod 2 ^ int_bits t = n mod 2 ^ int_bits t \<Longrightarrow>
     - (2 ^ (int_bits t - 1)) \<le> k \<Longrightarrow> k < 2 ^ (int_bits t - 1) \<Longrightarrow> denotes lib ut t v (CSigned k)"
| "v = JInt n \<or> v = JUInt n \<Longrightarrow> t \<in> {TUShort, TUInt, TULong, TULongLong} \<Longrightarrow> denotes lib ut t v (CUnsigned (n mod 2 ^ int_bits t))"
| "v = JFloat f \<or> (\<exists>n. (v = JInt n \<or> v = JUInt n) \<and> f = jl_double lib n) \<Longrightarrow> t \<in> {TDouble, TLongDouble} \<Longrightarrow> denotes lib ut t v (CReal f)"
| "v = JFloat f \<or> (\<exists>n. (v = JInt n \<or> v = JUInt n) \<and> f = jl_double lib n) \<Longrightarrow> denotes lib ut TFloat v (CReal (jl_single lib f))"
  monos list_all2_mono

lemma int_cast_unique:
  assumes "k mod 2 ^ int_bits t = n mod 2 ^ int_bits t" and "in_range t k"
  shows "int_cast t n = k"
proof -
  have "(n + m) mod 2 ^ int_bits t = (k + m) mod 2 ^ int_bits t" for m
    using assms(1) by (metis mod_add_left_eq)
  then have "int_cast t n = int_cast t k"
    using assms(1) by (simp add: int_cast_def)
  then show ?thesis
    using int_cast_id [OF assms(2)] by simp
qed

lemma get_denotes: "denotes lib ut t v a \<Longrightarrow> get_value lib ut t v = Some (Inr a)"
proof (induction rule: denotes.induct)
  case (3 t xs ys)
  then have "seq_map (get_value lib ut t) xs = Some (Inr ys)"
    unfolding seq_map_Inr by (rule list_all2_mono) blast
  then show ?case by simp
next
  case (6 v n t k)
  then have "int_cast t n = k"
    by (intro int_cast_unique) (auto simp: in_range_def is_signed_def)
  with 6 show ?case
    by (auto simp: get_integral_def type_defs)
qed (auto simp: get_string_def get_bool_def get_integral_def get_floating_def type_defs int_cast_def)

lemma check_accepts:
  assumes "held v" and "is_float t \<longrightarrow> float_number lib v"
  shows "(accepts lib t v \<longrightarrow> check_param_type lib t i v (GetType t) = Some (Inr ()))
    \<and> (\<not> accepts lib t v \<longrightarrow> (\<exists>m. check_param_type lib t i v (GetType t) = Some (Inl (JsonRpcException invalid_params m (JUInt (int i))))))"
  using assms
  by (cases t; cases v)
    (auto simp: check_param_type_def check_arithmetic_def type_defs get_integral_def get_floating_def wrong_type_def wrong_range_def
      numeric_max_def int_cast_def in_range_def int_bits_def split: option.splits)

lemma seq_map_first_error:
  "i < length xs \<Longrightarrow> (\<And>j. j < i \<Longrightarrow> \<exists>y. f (xs ! j) = Some (Inr y)) \<Longrightarrow> f (xs ! i) = Some (Inl e) \<Longrightarrow> seq_map f xs = Some (Inl e)"
proof (induction xs arbitrary: i)
  case (Cons x xs)
  show ?case
  proof (cases i)
    case (Suc k)
    have "seq_map f xs = Some (Inl e)"
      using Cons.prems Suc by (intro Cons.IH [of k]) force+
    then show ?thesis
      using Cons.prems(2) [of 0] Suc by auto
  qed (use Cons.prems in simp)
qed simp

text \<open>C15. A typed procedure is run on checked parameters only, and these reach it unchanged. A request with another number of
  parameters than the procedure has is refused as invalid parameters; so is one with the right number, of which the i-th is
  the first that its parameter type does not accept, with i as data; the procedure is not run in both cases and the
  state stays. When every parameter is accepted and denotes an argument, the procedure is run on exactly these arguments, and its result or
  exception is that of the handle. The numbers are 64-bit numbers of the JSON library, and for a floating-point parameter
  those whose conversion is defined.\<close>

theorem handle_checks_parameters:
  assumes "\<forall>v \<in> set vs. held v" and "\<forall>(t, v) \<in> set (zip ts vs). is_float t \<longrightarrow> float_number lib v"
    and handle_def: "handle = createMethodHandle lib ut ts proc"
  shows "(json_size params \<noteq> length ts \<longrightarrow> (\<exists>m. handle params s = Some (Inl (JsonRpcException (-32602) m JNull), s)))
    \<and> (length vs = length ts \<longrightarrow> i < length ts \<longrightarrow> (\<forall>j < i. accepts lib (ts ! j) (vs ! j)) \<longrightarrow> \<not> accepts lib (ts ! i) (vs ! i) \<longrightarrow>
         (\<exists>m. handle (JArray vs) s = Some (Inl (JsonRpcException (-32602) m (JUInt (int i))), s)))
    \<and> (list_all2 (accepts lib) ts vs \<longrightarrow> length args = length ts \<longrightarrow> (\<forall>j < length ts. denotes lib ut (ts ! j) (vs ! j) (args ! j)) \<longrightarrow>
         handle (JArray vs) s = map_option (\<lambda>(r, s'). (map_sum id (to_json ut) r, s')) (proc args s))"
proof (intro conjI impI)
  have check: "accepts lib (ts ! j) (vs ! j) \<Longrightarrow> check_param_type lib (ts ! j) j (vs ! j) (GetType (ts ! j)) = Some (Inr ())"
    "\<not> accepts lib (ts ! j) (vs ! j) \<Longrightarrow>
       \<exists>m. check_param_type lib (ts ! j) j (vs ! j) (GetType (ts ! j)) = Some (Inl (JsonRpcException invalid_params m (JUInt (int j))))"
    if "length vs = length ts" "j < length ts" for j
  proof -
    have "held (vs ! j)" "is_float (ts ! j) \<longrightarrow> float_number lib (vs ! j)"
      using assms(1,2) that by (auto simp: set_zip)
    from check_accepts [OF this, of j]
    show "accepts lib (ts ! j) (vs ! j) \<Longrightarrow> check_param_type lib (ts ! j) j (vs ! j) (GetType (ts ! j)) = Some (Inr ())"
      "\<not> accepts lib (ts ! j) (vs ! j) \<Longrightarrow>
         \<exists>m. check_param_type lib (ts ! j) j (vs ! j) (GetType (ts ! j)) = Some (Inl (JsonRpcException invalid_params m (JUInt (int j))))"
      by blast+
  qed
  show "\<exists>m. handle params s = Some (Inl (JsonRpcException (-32602) m JNull), s)" if "json_size params \<noteq> length ts"
    using that by (simp add: handle_def createMethodHandle_def checked_params_def wrong_count_def invalid_params_def)
  show "\<exists>m. handle (JArray vs) s = Some (Inl (JsonRpcException (-32602) m (JUInt (int i))), s)"
    if l: "length vs = length ts" "i < length ts" "\<forall>j < i. accepts lib (ts ! j) (vs ! j)" "\<not> accepts lib (ts ! i) (vs ! i)"
  proof -
    obtain m where m: "check_param_type lib (ts ! i) i (vs ! i) (GetType (ts ! i)) = Some (Inl (JsonRpcException invalid_params m (JUInt (int i))))"
      using check(2) [OF l(1,2,4)] by blast
    have "check_params lib ts (JArray vs) = Some (Inl (JsonRpcException invalid_params m (JUInt (int i))))"
      unfolding check_params_def
      using l m check(1) by (intro seq_map_first_error [of i]) (auto simp: nth_enumerate_eq json_elem_def)
    then show ?thesis
      using l by (simp add: handle_def createMethodHandle_def checked_params_def invalid_params_def)
  qed
  show "handle (JArray vs) s = map_option (\<lambda>(r, s'). (map_sum id (to_json ut) r, s')) (proc args s)"
    if "list_all2 (accepts lib) ts vs" "length args = length ts" "\<forall>j < length ts. denotes lib ut (ts ! j) (vs ! j) (args ! j)"
  proof -
    have a: "length vs = length ts" "\<And>j. j < length ts \<Longrightarrow> accepts lib (ts ! j) (vs ! j)"
      using that(1) by (simp_all add: list_all2_conv_all_nth)
    have "check_params lib ts (JArray vs) = Some (Inr (replicate (length ts) ()))"
      using a check(1) by (auto simp: check_params_def seq_map_Inr seq_Inr list_all2_enumerate json_elem_def)
    moreover have "get_params lib ut ts (JArray vs) = Some (Inr args)"
      using a that(2,3) by (auto simp: get_params_def seq_map_Inr seq_Inr list_all2_enumerate json_elem_def intro!: get_denotes)
    ultimately show ?thesis
      using a by (simp add: handle_def createMethodHandle_def checked_params_def)
  qed
qed

theorem handle_checks_parameters_witness:
  "(\<exists>m. createMethodHandle compact (app_types compact) [TInt, TInt] call_calc (JArray [JUInt 1]) ServerHandle
      = Some (Inl (JsonRpcException (-32602) m JNull), ServerHandle))
    \<and> (\<exists>m. createMethodHandle compact (app_types compact) [TInt, TInt] call_calc (JArray [JUInt 1, JString ''2'']) ServerHandle
      = Some (Inl (JsonRpcException (-32602) m (JUInt 1)), ServerHandle))
    \<and> createMethodHandle compact (app_types compact) [TInt, TInt] call_calc (JArray [JUInt 2, JInt (-3)]) ServerHandle
      = Some (Inr (JInt (-1)), ServerHandle)"
proof (intro conjI)
  note h = handle_checks_parameters [OF _ _ refl, where lib = compact and ut = "app_types compact" and ts = "[TInt, TInt]" and proc = call_calc and s = ServerHandle]
  show "\<exists>m. createMethodHandle compact (app_types compact) [TInt, TInt] call_calc (JArray [JUInt 1]) ServerHandle
      = Some (Inl (JsonRpcException (-32602) m JNull), ServerHandle)"
    using h [where vs = "[]" and params = "JArray [JUInt 1]"] by simp
  show "\<exists>m. createMethodHandle compact (app_types compact) [TInt, TInt] call_calc (JArray [JUInt 1, JString ''2'']) ServerHandle
      = Some (Inl (JsonRpcException (-32602) m (JUInt 1)), ServerHandle)"
    using h [where vs = "[JUInt 1, JString ''2'']" and i = 1] by (auto simp: type_defs int_bits_def less_Suc_eq)
  let ?args = "[CSigned 2, CSigned (-3)] :: (int, int user) cval list"
  have "denotes compact (app_types compact) TInt (JUInt 2) (CSigned 2)" "denotes compact (app_types compact) TInt (JInt (-3)) (CSigned (-3))"
    by (auto intro!: denotes.intros(6) simp: int_bits_def)
  then show "createMethodHandle compact (app_types compact) [TInt, TInt] call_calc (JArray [JUInt 2, JInt (-3)]) ServerHandle
      = Some (Inr (JInt (-1)), ServerHandle)"
    using h [where vs = "[JUInt 2, JInt (-3)]" and args = ?args]
    by (simp add: type_defs int_bits_def less_Suc_eq all_conj_distrib calc_def in_range_def)
qed

section \<open>Where the checks end\<close>

text \<open>Only a signed parameter is checked against its range, and only from above: a number too large for an unsigned short
  and one too small for a short reach the function cut to their low bits.\<close>

lemma unchecked_ranges:
  "checked_params lib ut [TUShort] (JArray [JUInt 65541]) = Some (Inr [CUnsigned 5])"
  "checked_params lib ut [TShort] (JArray [JInt (-40000)]) = Some (Inr [CSigned 25536])"
  by (simp_all add: checked_params_def check_params_def get_params_def json_elem_def check_param_type_def check_arithmetic_def type_defs
      get_integral_def int_cast_def int_bits_def numeric_max_def)

text \<open>The elements of a vector are not checked at all.\<close>

lemma unchecked_elements:
  "checked_params lib ut [TVector TInt] (JArray [JArray [JBool True, JUInt 4294967297]]) = Some (Inr [CVector [CSigned 1, CSigned 1]])"
  by (simp add: checked_params_def check_params_def get_params_def json_elem_def check_param_type_def type_defs
      get_integral_def int_cast_def int_bits_def)

text \<open>A large unsigned number for a floating-point parameter is cast to \<^verbatim>\<open>long long\<close>, which does not hold it.\<close>

lemma large_number_undefined:
  assumes "jl_trunc lib (jl_double lib n) = Some n" and "n \<ge> 2 ^ 63"
  shows "checked_params lib ut [TDouble] (JArray [JUInt n]) = None"
  using assms
  by (simp add: checked_params_def check_params_def json_elem_def check_param_type_def check_arithmetic_def type_defs
      get_integral_def get_floating_def in_range_def int_bits_def)

text \<open>The complaint about a parameter looks up its name in a mapping that may have fewer names than the function has parameters.\<close>

lemma short_mapping_undefined:
  assumes "map_find name (mapping d) = Some [a]"
  shows "rethrow lib d name (wrong_type 1 x t) = None"
  using assms by (simp add: rethrow_def process_type_error_def wrong_type_def invalid_params_def json_empty_def get_integral_def int_cast_def
      is_signed_def int_bits_def)

text \<open>An empty batch is answered by an empty array, where the protocol asks for an error, and a batch of
  notifications as well, where it asks for silence.\<close>

lemma empty_batch: "jl_parse lib text = Inr (JArray []) \<Longrightarrow> HandleRequest lib d text s = Some (jl_dump lib (JArray []), s)"
  by (simp add: HandleRequest_def)

text \<open>A notification whose handler throws something that is no \<^verbatim>\<open>std::exception\<close> is answered.\<close>

lemma notification_answered:
  assumes "map_find name (notifications d) = Some (\<lambda>_ s. Some (Inl OtherException, s))"
    and "r = batch_call name (JArray ps)"
  shows "HandleSingleRequest lib d r s = Some (exn_response JNull OtherException, s)"
  using assms by (simp add: HandleSingleRequest_def ProcessSingleRequest_def Let_def batch_call_def json_simps has_key_type_def valid_id_def
      with_params_def InvokeNotification_def string_of_def invoke_def normalize_parameter_def rethrow_def is_std_exception_def)

section \<open>The example server\<close>

lemma product_typed: "has_type lib (app_types lib) (TClass ''Product'') (CUser (UProduct p))"
  by (simp add: app_types_def product_roundtrip) (simp add: product_to_json_def json_simps)

definition add_request :: "id_type \<Rightarrow> 'f product \<Rightarrow> 'f json" where
  "add_request i p = method_request v2 i ''AddProduct'' (JArray [product_to_json p])"

definition get_request :: "id_type \<Rightarrow> 'f product \<Rightarrow> 'f json" where
  "get_request i p = method_request v2 i ''GetProduct'' (JArray [JString (prod_id p)])"

text \<open>C25. The product store over the wire. A product added by a remote call under a new id is what a later remote call for this id
  returns, with its name, price and category.\<close>

theorem product_store_roundtrip:
  assumes "map_find (prod_id p) (products s) = None" and "id_fits i" and "id_fits j"
    and "carries lib (add_request i p)" and "carries lib (result_response (norm (id_json i)) (JBool True))"
    and "carries lib (get_request j p)" and "carries lib (result_response (norm (id_json j)) (product_to_json p))"
  shows "\<exists>s'. CallMethod lib (app_types lib) (InMemoryConnector lib (AppServer lib)) v2 TBool i ''AddProduct'' [product_to_json p] s
        = Some (Inr (CBool True), s')
    \<and> CallMethod lib (app_types lib) (InMemoryConnector lib (AppServer lib)) v2 (TClass ''Product'') j ''GetProduct'' [JString (prod_id p)] s'
        = Some (Inr (CUser (UProduct p)), s')"
proof -
  let ?u = "CUser (UProduct p)" and ?s = "s\<lparr>products := map_put (prod_id p) p (products s)\<rparr>"
  have p: "ut_to_json (app_types lib) (UProduct p) = product_to_json p"
    by (simp add: app_types_def)
  have "call_AddProduct [?u] s = Some (Inr (CBool True), ?s)"
    using assms(1) by (simp add: AddProduct_def)
  from call_returns [OF app_methods(2) [of lib] _ this, where t = TBool and i = i] assms(2,4,5)
  have "CallMethod lib (app_types lib) (InMemoryConnector lib (AppServer lib)) v2 TBool i ''AddProduct'' [product_to_json p] s
        = Some (Inr (CBool True), ?s)"
    using product_typed [of lib p] by (simp add: p add_request_def)
  moreover have "call_GetProduct [CString (prod_id p)] ?s = Some (Inr ?u, ?s)"
    by (simp add: GetProduct_def map_find_def find_map_put)
  from call_returns [OF app_methods(3) [of lib] _ this, where t = "TClass ''Product''" and i = j] assms(3,6,7)
  have "CallMethod lib (app_types lib) (InMemoryConnector lib (AppServer lib)) v2 (TClass ''Product'') j ''GetProduct'' [JString (prod_id p)] ?s
        = Some (Inr ?u, ?s)"
    using product_typed [of lib p] by (simp add: p get_request_def)
  ultimately show ?thesis by blast
qed

definition ex_product :: "int product" where
  "ex_product = \<lparr>prod_id = ''0xff'', price = 22, prod_name = ''Product hello'', cat = cat_cash_carry\<rparr>"

theorem product_store_roundtrip_witness:
  "\<exists>s'. CallMethod compact (app_types compact) (InMemoryConnector compact (AppServer compact)) v2 TBool (IdInt 1) ''AddProduct'' [product_to_json ex_product] ServerHandle
        = Some (Inr (CBool True), s')
    \<and> CallMethod compact (app_types compact) (InMemoryConnector compact (AppServer compact)) v2 (TClass ''Product'') (IdInt 2) ''GetProduct'' [JString (prod_id ex_product)] s'
        = Some (Inr (CUser (UProduct ex_product)), s')"
proof (rule product_store_roundtrip)
  show "map_find (prod_id ex_product) (products ServerHandle) = None" "id_fits (IdInt 1)" "id_fits (IdInt 2)"
    by (simp_all add: ServerHandle_def map_find_def id_fits_def in_range_def is_signed_def int_bits_def)
  show "carries compact (add_request (IdInt 1) ex_product)" by code_simp
  show "carries compact (result_response (norm (id_json (IdInt 1))) (JBool True))" by code_simp
  show "carries compact (get_request (IdInt 2) ex_product)" by code_simp
  show "carries compact (result_response (norm (id_json (IdInt 2))) (product_to_json ex_product))" by code_simp
qed

end
