(* ===== verification/Rpc_Batch.thy ===== *)
theory Rpc_Batch
  imports Rpc_Calls "HOL-Library.Product_Lexorder"
begin

text \<open>
  Batches of the JSON-RPC library from end to end: what \<^verbatim>\<open>BatchCall\<close> and \<^verbatim>\<open>Get\<close> return for a batch of method calls over the
  in-memory connector. The maps of the batch response are related to the \<^verbatim>\<open>std::map\<close> of \<open>Std_Map\<close>.
\<close>

section \<open>Batches\<close>

text \<open>An id as a key of the order of JSON values: a number is below a string.\<close>

definition id_key :: "'f json \<Rightarrow> nat \<times> int \<times> string" where
  "id_key v = (case v of JString s \<Rightarrow> (1, 0, s) | JInt n \<Rightarrow> (0, n, []) | JUInt n \<Rightarrow> (0, n, []) | _ \<Rightarrow> (2, 0, []))"

definition simple_id :: "'f json \<Rightarrow> bool" where
  "simple_id v \<longleftrightarrow> (case v of JString _ \<Rightarrow> True | JInt n \<Rightarrow> True | JUInt n \<Rightarrow> in_range TLong n | _ \<Rightarrow> False)"

definition keyed :: "('f json \<times> 'a) list \<Rightarrow> ((nat \<times> int \<times> string) \<times> 'a) list" where
  "keyed m = map (\<lambda>(k, x). (id_key k, x)) m"

lemma id_less_key: "simple_id a \<Longrightarrow> simple_id b \<Longrightarrow> id_less lib a b \<longleftrightarrow> id_key a < id_key b"
  by (cases a; cases b) (auto simp: simple_id_def id_key_def is_number_def int_cast_id less_prod_def)

lemma keyed_put:
  "simple_id k \<Longrightarrow> list_all (\<lambda>p. simple_id (fst p)) m \<Longrightarrow>
     keyed (id_put lib k x m) = map_put (id_key k) x (keyed m) \<and> list_all (\<lambda>p. simple_id (fst p)) (id_put lib k x m)"
  by (induction lib k x m rule: id_put.induct) (auto simp: keyed_def id_less_key)

lemma keyed_find:
  "simple_id k \<Longrightarrow> list_all (\<lambda>p. simple_id (fst p)) m \<Longrightarrow> map_sorted (keyed m) \<Longrightarrow> id_find lib k m = map_find (id_key k) (keyed m)"
proof (induction lib k m rule: id_find.induct)
  case (2 lib k a b m)
  have "map_of (keyed m) (id_key k) = None" if "id_key k < id_key a"
    using 2(4) that by (auto simp: map_sorted_def keyed_def map_of_eq_None_iff)
  moreover have "keyed ((a, b) # m) = (id_key a, b) # keyed m"
    by (simp add: keyed_def)
  ultimately show ?case
    using 2 by (auto simp: id_less_key map_find_def map_sorted_def)
qed (simp add: keyed_def map_find_def)

lemma keyed_puts:
  assumes "list_all simple_id ks" and "list_all (\<lambda>p. simple_id (fst p)) m"
  shows "keyed (fold (\<lambda>(n, k). id_put lib k n) (enumerate i ks) m)
      = std_map.put_all (map (\<lambda>(n, k). (id_key k, n)) (enumerate i ks)) (keyed m)
    \<and> list_all (\<lambda>p. simple_id (fst p)) (fold (\<lambda>(n, k). id_put lib k n) (enumerate i ks) m)"
  using assms
proof (induction ks arbitrary: i m)
  case (Cons k ks)
  then show ?case
    using keyed_put [of k m lib i] by (simp add: std_map.put_all_def)
qed (simp add: std_map.put_all_def)

definition is_result :: "'f json \<Rightarrow> bool" where
  "is_result v \<longleftrightarrow> json_type v = VT_object \<and> valid_id_not_null v \<and> has_key v ''result''"

lemma add_results:
  "list_all is_result xs \<Longrightarrow> fold (add_response lib) (enumerate i xs) br
    = br\<lparr>results := fold (\<lambda>(n, k). id_put lib k n) (enumerate i (map (\<lambda>v. json_index v ''id'') xs)) (results br)\<rparr>"
  by (induction xs arbitrary: i br) (auto simp: add_response_def is_result_def)

lemma find_result:
  assumes "list_all is_result xs" and "list_all simple_id (map (\<lambda>v. json_index v ''id'') xs)"
    and "distinct (map (\<lambda>v. id_key (json_index v ''id'')) xs)" and "k < length xs"
    and "simple_id i" and "id_key i = id_key (json_index (xs ! k) ''id'')"
  shows "id_find lib i (results (BatchResponse lib xs)) = Some k"
proof -
  let ?ids = "map (\<lambda>v. json_index v ''id'') xs"
  let ?m = "fold (\<lambda>(n, k). id_put lib k n) (enumerate 0 ?ids) []"
  let ?l = "map (\<lambda>(n, k). (id_key k, n)) (enumerate 0 ?ids)"
  have r: "results (BatchResponse lib xs) = ?m"
    using add_results [OF assms(1)] by (simp add: BatchResponse_def)
  have m: "keyed ?m = std_map.put_all ?l []" "list_all (\<lambda>p. simple_id (fst p)) ?m"
    using keyed_puts [OF assms(2), of "[]" lib 0] by (simp_all add: keyed_def)
  have f: "map fst ?l = map (\<lambda>v. id_key (json_index v ''id'')) xs"
    by (auto intro!: nth_equalityI simp: nth_enumerate_eq)
  have "?l ! k = (id_key i, k)" "k < length ?l"
    using assms(4,6) by (simp_all add: nth_enumerate_eq)
  then have "(id_key i, k) \<in> set ?l"
    by (metis nth_mem)
  then have "map_of ?l (id_key i) = Some k"
    using assms(3) f by (simp add: map_of_eq_Some_iff)
  then have "map_find (id_key i) (keyed ?m) = Some k"
    using std_map.find_put_all [OF std_map.invar_nothing, of ?l] assms(3) f m(1) by simp
  moreover have "map_sorted (keyed ?m)"
    using m(1) std_map.invar_put_all [OF std_map.invar_nothing] by metis
  ultimately show ?thesis
    using r keyed_find [OF assms(5) m(2)] by simp
qed

section \<open>A batch of calls\<close>

type_synonym ('s, 'f, 'u) procedures = "string \<Rightarrow> (cpp_type list \<times> (('f, 'u) cval list \<Rightarrow> ('s, 'f, ('f, 'u) cval) action)) option"

text \<open>The functions run one after the other, each on the state the one before has left.\<close>

fun run_calls :: "('s, 'f, 'u) procedures \<Rightarrow> (id_type \<times> string \<times> ('f, 'u) cval list) list \<Rightarrow> 's \<Rightarrow> (('f, 'u) cval list \<times> 's) option" where
  "run_calls proc [] s = Some ([], s)"
| "run_calls proc ((i, name, args) # cs) s = (case proc name of
     None \<Rightarrow> None
   | Some (ts, f) \<Rightarrow> (case f args s of
       Some (Inr r, s') \<Rightarrow> map_option (\<lambda>(rs, s''). (r # rs, s'')) (run_calls proc cs s')
     | _ \<Rightarrow> None))"

definition batch_requests :: "('f, 'u) user_types \<Rightarrow> (id_type \<times> string \<times> ('f, 'u) cval list) list \<Rightarrow> 'f json list" where
  "batch_requests ut cs = fold (\<lambda>(i, name, args). AddMethodCall i name (map (to_json ut) args)) cs []"

definition batch_results :: "('f, 'u) user_types \<Rightarrow> (id_type \<times> 'a) list \<Rightarrow> ('f, 'u) cval list \<Rightarrow> 'f json list" where
  "batch_results ut cs rs = map (\<lambda>(c, r). result_response (norm (id_json (fst c))) (to_json ut r)) (zip cs rs)"

definition calls_typed :: "'f json_lib \<Rightarrow> ('f, 'u) user_types \<Rightarrow> ('s, 'f, 'u) procedures \<Rightarrow> (id_type \<times> string \<times> ('f, 'u) cval list) list \<Rightarrow> bool" where
  "calls_typed lib ut proc cs \<longleftrightarrow>
     list_all (\<lambda>(i, name, args). id_fits i \<and> (case proc name of Some (ts, _) \<Rightarrow> list_all2 (has_type lib ut) ts args | None \<Rightarrow> False)) cs"

definition registered :: "'f json_lib \<Rightarrow> ('f, 'u) user_types \<Rightarrow> ('s, 'f) dispatcher \<Rightarrow> ('s, 'f, 'u) procedures \<Rightarrow> bool" where
  "registered lib ut d proc \<longleftrightarrow>
     (\<forall>name ts f. proc name = Some (ts, f) \<longrightarrow> map_find name (methods d) = Some (createMethodHandle lib ut ts f))"

lemma batch_requests_map:
  "batch_requests ut cs = map (\<lambda>(i, name, args). json_set ''id'' (id_json i) (batch_call name (JArray (map (to_json ut) args)))) cs"
proof -
  have "fold (\<lambda>(i, name, args). AddMethodCall i name (map (to_json ut) args)) cs xs
      = xs @ map (\<lambda>(i, name, args). json_set ''id'' (id_json i) (batch_call name (JArray (map (to_json ut) args)))) cs" for xs
    by (induction cs arbitrary: xs) (auto simp: AddMethodCall_def)
  then show ?thesis by (simp add: batch_requests_def)
qed

lemma handle_batch_calls:
  assumes "registered lib ut d proc"
  shows "run_calls proc cs s = Some (rs, s') \<Longrightarrow> calls_typed lib ut proc cs \<Longrightarrow>
    handle_batch lib d (map norm (batch_requests ut cs)) s = Some (batch_results ut cs rs, s') \<and> length rs = length cs"
proof (induction cs arbitrary: s rs)
  case (Cons c cs)
  obtain i name args where c: "c = (i, name, args)" by (cases c)
  from Cons.prems c obtain ts f r s1 rs' where f: "proc name = Some (ts, f)" "f args s = Some (Inr r, s1)"
      "run_calls proc cs s1 = Some (rs', s')" "rs = r # rs'"
    by (auto split: option.splits sum.splits prod.splits)
  have t: "list_all2 (has_type lib ut) ts args" "calls_typed lib ut proc cs"
    using Cons.prems(2) c f(1) by (simp_all add: calls_typed_def)
  have "map_find name (methods d) = Some (createMethodHandle lib ut ts f)"
    using assms f(1) by (simp add: registered_def)
  from invoke_typed [OF this t(1) f(2)]
  have "HandleSingleRequest lib d (norm (json_set ''id'' (id_json i) (batch_call name (JArray (map (to_json ut) args))))) s
      = Some (result_response (norm (id_json i)) (to_json ut r), s1)"
    by (simp add: handle_call [OF call_of_batch] comp_def)
  then show ?case
    using Cons.IH [OF f(3) t(2)] c f(4) by (simp add: batch_requests_map batch_results_def)
qed (simp add: batch_requests_map batch_results_def)

lemma response_members:
  "is_result (norm (result_response (norm (id_json i)) x))"
  "json_index (norm (result_response j x)) ''id'' = norm j"
  "json_index (norm (result_response j x)) ''result'' = norm x"
  using norm_id_number [of i]
  by (auto simp: is_result_def result_response_def json_simps valid_id_not_null_def norm_id_number)

lemma id_key_norm [simp]: "id_key (norm (id_json i) :: 'f json) = id_key (id_json i :: 'f json)"
  by (cases i) (simp_all add: id_key_def)

lemma id_key_inject: "id_key (id_json i :: 'f json) = id_key (id_json j :: 'f json) \<longleftrightarrow> i = j"
  by (cases i; cases j) (simp_all add: id_key_def)

lemma distinct_keys: "distinct (map fst cs) \<Longrightarrow> distinct (map (\<lambda>c. id_key (id_json (fst c) :: 'f json)) cs)"
  by (induction cs) (auto simp: id_key_inject image_iff dest: bspec)

lemma simple_ids: "id_fits i \<Longrightarrow> simple_id (norm (id_json i))" "simple_id (id_json i)"
  by (cases i; auto simp: simple_id_def id_fits_def in_range_def is_signed_def int_bits_def)+

text \<open>C17. A batch returns each result under its id. When a client sends a batch of calls with different ids, and the functions run
  in this order on the state without an exception, then the batch response has no errors, and \<^verbatim>\<open>Get\<close> returns for the id
  of each call the result of its function.\<close>

theorem batch_get_returns:
  assumes "registered lib ut d proc" and "run_calls proc cs s = Some (rs, s')" and "calls_typed lib ut proc cs"
    and "distinct (map fst cs)" and "carries lib (Build (batch_requests ut cs))" and "carries lib (JArray (batch_results ut cs rs))"
  shows "\<exists>br. BatchCall lib (InMemoryConnector lib d) (batch_requests ut cs) s = Some (Inr br, s') \<and> \<not> HasErrors br
    \<and> (\<forall>k t. k < length cs \<and> has_type lib ut t (rs ! k) \<longrightarrow> Get lib ut t br (id_json (fst (cs ! k))) = Some (Inr (rs ! k)))"
proof -
  note h = handle_batch_calls [OF assms(1-3)]
  let ?xs = "map norm (batch_results ut cs rs)"
  let ?br = "BatchResponse lib ?xs"
  have ids: "map (\<lambda>v. json_index v ''id'') ?xs = map (\<lambda>c. norm (id_json (fst c))) cs"
    using h by (auto intro!: nth_equalityI simp: batch_results_def response_members)
  have r: "list_all is_result ?xs"
    by (auto simp: list_all_iff batch_results_def response_members)
  have s: "list_all simple_id (map (\<lambda>v. json_index v ''id'') ?xs)"
    using assms(3) unfolding ids by (fastforce simp: list_all_iff calls_typed_def intro: simple_ids(1))
  have dist: "distinct (map (\<lambda>v. id_key (json_index v ''id'')) ?xs)"
    using distinct_keys [OF assms(4)] arg_cong [OF ids, of "map id_key"] by (simp add: comp_def del: distinct_map)
  have br: "response ?br = ?xs" "\<not> HasErrors ?br"
    using add_results [OF r] by (simp_all add: BatchResponse_def HasErrors_def)
  have "Get lib ut t ?br (id_json (fst (cs ! k))) = Some (Inr (rs ! k))" if k: "k < length cs" "has_type lib ut t (rs ! k)" for k t
  proof -
    have x: "?xs ! k = norm (result_response (norm (id_json (fst (cs ! k)))) (to_json ut (rs ! k)))" "k < length ?xs"
      using k(1) h by (simp_all add: batch_results_def)
    have "id_find lib (id_json (fst (cs ! k))) (results ?br) = Some k"
      using find_result [OF r s dist x(2) simple_ids(2)] x(1) by (simp add: response_members)
    then show ?thesis
      using get_to_json [OF k(2)] x(1) br(1) by (simp add: Get_def response_members)
  qed
  then show ?thesis
    using in_memory.send_batch [OF assms(5) conjunct1 [OF h] assms(6)] br(2) by blast
qed

definition ex_calls :: "(id_type \<times> string \<times> (int, int user) cval list) list" where
  "ex_calls = [(IdInt 2, ''calc'', [CSigned 5, CSigned 6]), (IdString ''b'', ''calc'', [CSigned 1, CSigned (-9)])]"

definition ex_procs :: "(int store, int, int user) procedures" where
  "ex_procs name = (if name = ''calc'' then Some ([TInt, TInt], call_calc) else None)"

theorem batch_get_returns_witness:
  "\<exists>br. BatchCall compact (InMemoryConnector compact (AppServer compact)) (batch_requests (app_types compact) ex_calls) ServerHandle
        = Some (Inr br, ServerHandle)
    \<and> Get compact (app_types compact) TInt br (JInt 2) = Some (Inr (CSigned 11))
    \<and> Get compact (app_types compact) TInt br (JString ''b'') = Some (Inr (CSigned (-8)))"
proof -
  let ?rs = "[CSigned 11, CSigned (-8)] :: (int, int user) cval list"
  have reg: "registered compact (app_types compact) (AppServer compact) ex_procs"
    by (simp add: registered_def ex_procs_def app_methods)
  have run: "run_calls ex_procs ex_calls ServerHandle = Some (?rs, ServerHandle)"
    by (simp add: ex_calls_def ex_procs_def calc_def in_range_def is_signed_def int_bits_def)
  have typed: "calls_typed compact (app_types compact) ex_procs ex_calls" "distinct (map fst ex_calls)"
    by (simp_all add: calls_typed_def ex_calls_def ex_procs_def id_fits_def in_range_def is_signed_def int_bits_def)
  have c: "carries compact (Build (batch_requests (app_types compact) ex_calls))"
      "carries compact (JArray (batch_results (app_types compact) ex_calls ?rs))"
    by code_simp+
  obtain br where br: "BatchCall compact (InMemoryConnector compact (AppServer compact)) (batch_requests (app_types compact) ex_calls) ServerHandle
        = Some (Inr br, ServerHandle)"
      "\<forall>k t. k < length ex_calls \<and> has_type compact (app_types compact) t (?rs ! k) \<longrightarrow>
        Get compact (app_types compact) t br (id_json (fst (ex_calls ! k))) = Some (Inr (?rs ! k))"
    using batch_get_returns [OF reg run typed c] by blast
  have "Get compact (app_types compact) TInt br (JInt 2) = Some (Inr (CSigned 11))"
    using br(2) [rule_format, of 0 TInt] by (simp add: ex_calls_def in_range_def is_signed_def int_bits_def)
  moreover have "Get compact (app_types compact) TInt br (JString ''b'') = Some (Inr (CSigned (-8)))"
    using br(2) [rule_format, of 1 TInt] by (simp add: ex_calls_def in_range_def is_signed_def int_bits_def)
  ultimately show ?thesis
    using br(1) by blast
qed

end
