(* ===== verification/Rpc_Asio.thy ===== *)
theory Rpc_Asio
  imports Rpc_Client
begin

text \<open>
  The TCP connectors of \<^verbatim>\<open>asiotcpconnector.hpp\<close>. Each end of the connection has a thread that calls \<^verbatim>\<open>Send\<close> and a
  listener thread; both use the flags \<^verbatim>\<open>waiting_response\<close> and \<^verbatim>\<open>has_response\<close> under \<^verbatim>\<open>response_mutex\<close>. A step of
  the model is what a thread does between two points at which another thread can come in: setting the flags, a single write,
  the receipt of a message, waking up. The listener keeps the mutex from the receipt of a request to the last write of the
  answer. A request that throws ends the listener. Closing a connection is not modelled.
\<close>

section \<open>Framing\<close>

definition htonl :: "nat \<Rightarrow> string" where
  "htonl n = map char_of [n div 2 ^ 24 mod 256, n div 2 ^ 16 mod 256, n div 2 ^ 8 mod 256, n mod 256]"

definition ntohl :: "string \<Rightarrow> nat" where
  "ntohl cs = foldl (\<lambda>n c. 256 * n + of_char c) 0 cs"

definition read_frame :: "string \<Rightarrow> (string \<times> string) option" where
  "read_frame inp = (let n = ntohl (take 4 inp) in
     if length inp < 4 + n \<or> length inp < 4 then None else Some (take n (drop 4 inp), drop (4 + n) inp))"

lemma length_htonl [simp]: "length (htonl n) = 4"
  by (simp add: htonl_def)

lemma ntohl_htonl:
  assumes "n < 2 ^ 32"
  shows "ntohl (htonl n) = n"
proof -
  let ?a = "n div 256" and ?b = "n div 65536" and ?c = "n div 16777216"
  have "?b = ?a div 256" "?c = ?b div 256"
    by (simp_all add: div_mult2_eq [symmetric])
  moreover have "?c < 256"
    using assms by (simp add: less_mult_imp_div_less)
  ultimately show ?thesis
    using mult_div_mod_eq [of 256 n] mult_div_mod_eq [of 256 ?a] mult_div_mod_eq [of 256 ?b]
    by (simp add: ntohl_def htonl_def)
qed

lemma read_frame_append: "length m < 2 ^ 32 \<Longrightarrow> read_frame (htonl (length m) @ m @ rest) = Some (m, rest)"
  by (simp add: read_frame_def ntohl_htonl)

lemma read_frame_partial:
  "read_frame [] = None" "length m < 2 ^ 32 \<Longrightarrow> m \<noteq> [] \<Longrightarrow> read_frame (htonl (length m)) = None"
  by (simp_all add: read_frame_def ntohl_htonl)

section \<open>The two ends\<close>

datatype sender = SIdle | SReady string | SFlagged string | SLength string | SWait | SDone string

datatype listener = LRead | LAnswer string | LBody string | LEnded

record 's peer =
  waiting_response :: bool
  has_response :: bool
  last_response :: string
  sending :: sender
  listening :: listener
  application :: 's

record 's conn =
  client :: "'s peer"
  server :: "'s peer"
  to_server :: string
  to_client :: string

datatype act = Flag | WriteLength | WriteBody | Wake | Receive | AnswerLength | AnswerBody

definition mutex_free :: "'s peer \<Rightarrow> bool" where
  "mutex_free p \<longleftrightarrow> (case listening p of LAnswer _ \<Rightarrow> False | LBody _ \<Rightarrow> False | _ \<Rightarrow> True)"

definition receive_message :: "('s, 'f) connector \<Rightarrow> string \<Rightarrow> 's peer \<Rightarrow> 's peer option" where
  "receive_message serve message p =
     (if waiting_response p then Some (p\<lparr>last_response := message, has_response := True, waiting_response := False\<rparr>)
      else (case serve message (application p) of
        None \<Rightarrow> None
      | Some (Inl _, s) \<Rightarrow> Some (p\<lparr>application := s, listening := LEnded\<rparr>)
      | Some (Inr answer, s) \<Rightarrow> Some (p\<lparr>application := s, listening := if answer \<noteq> [] then LAnswer answer else LRead\<rparr>)))"

fun peer_act :: "('s, 'f) connector \<Rightarrow> act \<Rightarrow> 's peer \<times> string \<times> string \<Rightarrow> ('s peer \<times> string \<times> string) option" where
  "peer_act serve Flag (p, inp, outp) = (case sending p of
     SReady r \<Rightarrow> if mutex_free p then Some (p\<lparr>waiting_response := True, has_response := False, sending := SFlagged r\<rparr>, inp, outp) else None
   | _ \<Rightarrow> None)"
| "peer_act serve WriteLength (p, inp, outp) = (case sending p of
     SFlagged r \<Rightarrow> Some (p\<lparr>sending := SLength r\<rparr>, inp, outp @ htonl (length r mod 2 ^ 32)) | _ \<Rightarrow> None)"
| "peer_act serve WriteBody (p, inp, outp) = (case sending p of
     SLength r \<Rightarrow> Some (p\<lparr>sending := SWait\<rparr>, inp, outp @ r) | _ \<Rightarrow> None)"
| "peer_act serve Wake (p, inp, outp) =
     (if sending p = SWait \<and> has_response p \<and> mutex_free p then Some (p\<lparr>sending := SDone (last_response p)\<rparr>, inp, outp) else None)"
| "peer_act serve Receive (p, inp, outp) =
     (if listening p = LRead then (case read_frame inp of
        None \<Rightarrow> None
      | Some (message, rest) \<Rightarrow> map_option (\<lambda>p'. (p', rest, outp)) (receive_message serve message p))
      else None)"
| "peer_act serve AnswerLength (p, inp, outp) = (case listening p of
     LAnswer r \<Rightarrow> Some (p\<lparr>listening := LBody r\<rparr>, inp, outp @ htonl (length r mod 2 ^ 32)) | _ \<Rightarrow> None)"
| "peer_act serve AnswerBody (p, inp, outp) = (case listening p of
     LBody r \<Rightarrow> Some (p\<lparr>listening := LRead\<rparr>, inp, outp @ r) | _ \<Rightarrow> None)"

inductive conn_step :: "('s, 'f) connector \<Rightarrow> ('s, 'f) connector \<Rightarrow> 's conn \<Rightarrow> 's conn \<Rightarrow> bool"
  for cb srv where
  client_step: "peer_act cb a (client c, to_client c, to_server c) = Some (p, i, t) \<Longrightarrow>
    conn_step cb srv c (c\<lparr>client := p, to_client := i, to_server := t\<rparr>)"
| server_step: "peer_act srv a (server c, to_server c, to_client c) = Some (p, i, t) \<Longrightarrow>
    conn_step cb srv c (c\<lparr>server := p, to_server := i, to_client := t\<rparr>)"

definition quiet :: "'s \<Rightarrow> 's peer" where
  "quiet s = \<lparr>waiting_response = False, has_response = False, last_response = [], sending = SIdle, listening = LRead, application = s\<rparr>"

definition Send :: "string \<Rightarrow> 's \<Rightarrow> 's \<Rightarrow> 's conn" where
  "Send request sc ss = \<lparr>client = (quiet sc)\<lparr>sending := SReady request\<rparr>, server = quiet ss, to_server = [], to_client = []\<rparr>"

section \<open>One request\<close>

text \<open>The states of an exchange, in order.\<close>

fun exchange :: "string \<Rightarrow> string \<Rightarrow> 's \<Rightarrow> 's \<Rightarrow> 's \<Rightarrow> nat \<Rightarrow> 's conn" where
  "exchange req resp sc ss ss' n = (let
     p = (quiet sc)\<lparr>waiting_response := True\<rparr>; w = p\<lparr>sending := SWait\<rparr>; q = quiet ss; q' = quiet ss';
     got = w\<lparr>last_response := resp, has_response := True, waiting_response := False\<rparr>;
     st = (\<lambda>p q a b. \<lparr>client = p, server = q, to_server = a, to_client = b\<rparr>) in
   if n = 0 then Send req sc ss
   else if n = 1 then st (p\<lparr>sending := SFlagged req\<rparr>) q [] []
   else if n = 2 then st (p\<lparr>sending := SLength req\<rparr>) q (htonl (length req)) []
   else if n = 3 then st w q (htonl (length req) @ req) []
   else if n = 4 then st w (q'\<lparr>listening := if resp = [] then LRead else LAnswer resp\<rparr>) [] []
   else if n = 5 then st w (q'\<lparr>listening := LBody resp\<rparr>) [] (htonl (length resp))
   else if n = 6 then st w q' [] (htonl (length resp) @ resp)
   else if n = 7 then st got q' [] []
   else st (got\<lparr>sending := SDone resp\<rparr>) q' [] [])"

lemma conn_step_iff:
  "conn_step cb srv c c' \<longleftrightarrow>
     (\<exists>a p i t. peer_act cb a (client c, to_client c, to_server c) = Some (p, i, t) \<and> c' = c\<lparr>client := p, to_client := i, to_server := t\<rparr>)
   \<or> (\<exists>a p i t. peer_act srv a (server c, to_server c, to_client c) = Some (p, i, t) \<and> c' = c\<lparr>server := p, to_server := i, to_client := t\<rparr>)"
  unfolding conn_step.simps [of cb srv c c'] by blast

lemma ex_act: "(\<exists>a. P a) \<longleftrightarrow> P Flag \<or> P WriteLength \<or> P WriteBody \<or> P Wake \<or> P Receive \<or> P AnswerLength \<or> P AnswerBody"
  by (metis act.exhaust)

lemmas asio_simps = conn_step_iff ex_act quiet_def Send_def mutex_free_def receive_message_def read_frame_partial
  read_frame_append [where rest = "[]", simplified]

lemma exchange_step:
  assumes "srv req ss = Some (Inr resp, ss')" and "length req < 2 ^ 32" and "length resp < 2 ^ 32" and "req \<noteq> []"
    and n: "n \<le> (if resp = [] then 4 else 8)"
  shows "conn_step cb srv (exchange req resp sc ss ss' n) c \<longleftrightarrow>
    n < (if resp = [] then 4 else 8) \<and> c = exchange req resp sc ss ss' (Suc n)"
proof -
  have "n \<in> {0, 1, 2, 3, 4, 5, 6, 7, 8}" "resp = [] \<Longrightarrow> n \<le> 4"
    using n by (auto split: if_splits)
  then show ?thesis
    using assms(1-4) by (cases "resp = []") (elim insertE emptyE; auto simp: asio_simps Let_def)+
qed

lemma exchange_run:
  assumes "srv req ss = Some (Inr resp, ss')" and "length req < 2 ^ 32" and "length resp < 2 ^ 32" and "req \<noteq> []"
    and "(conn_step cb srv ^^ n) (Send req sc ss) c"
  shows "n \<le> (if resp = [] then 4 else 8) \<and> c = exchange req resp sc ss ss' n"
  using assms(5)
proof (induction n arbitrary: c)
  case 0
  then show ?case by (simp add: Let_def)
next
  case (Suc n)
  then obtain b where "(conn_step cb srv ^^ n) (Send req sc ss) b" "conn_step cb srv b c"
    by auto
  then show ?case
    using Suc.IH [of b] exchange_step [where srv = srv and req = req and ss = ss and n = n and cb = cb and sc = sc and c = c, OF assms(1-4)] by (auto simp del: exchange.simps split: if_splits)
qed

text \<open>C23. A request over TCP returns the answer of the other end. When the client sends a request on a quiet connection,
  every run has eight steps: until then some step is possible, and after them \<^verbatim>\<open>Send\<close> has returned the answer that the
  server at the other end gave to exactly this request, which it handled once.\<close>

theorem asio_exchange:
  assumes "srv req ss = Some (Inr resp, ss')" and "length req < 2 ^ 32" and "length resp < 2 ^ 32" and "req \<noteq> []" and "resp \<noteq> []"
    and "(conn_step cb srv ^^ n) (Send req sc ss) c"
  shows "n \<le> 8 \<and> (n < 8 \<longrightarrow> (\<exists>c'. conn_step cb srv c c'))
    \<and> (n = 8 \<longrightarrow> sending (client c) = SDone resp \<and> application (server c) = ss')"
proof -
  have n: "n \<le> 8" "c = exchange req resp sc ss ss' n"
    using exchange_run [where srv = srv and req = req and ss = ss, OF assms(1-4,6)] assms(5) by (simp_all del: exchange.simps)
  moreover have "conn_step cb srv c (exchange req resp sc ss ss' (Suc n))" if "n < 8"
    using exchange_step [where srv = srv and req = req and ss = ss and n = n and cb = cb and sc = sc, OF assms(1-4)] n assms(5) that by (simp del: exchange.simps)
  moreover have "n = 8 \<Longrightarrow> sending (client c) = SDone resp \<and> application (server c) = ss'"
    using n(2) by (simp add: Let_def quiet_def)
  ultimately show ?thesis by blast
qed

text \<open>The server of the example answers itself.\<close>

definition echo_server :: "(unit, int) connector" where
  "echo_server request s = Some (Inr request, s)"

theorem asio_exchange_witness:
  "\<exists>c. (conn_step echo_server echo_server ^^ 8) (Send ''ping'' () ()) c \<and> sending (client c) = SDone ''ping''"
proof -
  have e: "echo_server ''ping'' () = Some (Inr ''ping'', ())" "length ''ping'' < 2 ^ 32" "''ping'' \<noteq> []"
    by (simp_all add: echo_server_def)
  have "\<exists>c. (conn_step echo_server echo_server ^^ n) (Send ''ping'' () ()) c" if "n \<le> 8" for n
    using that
  proof (induction n)
    case (Suc n)
    then show ?case
      using asio_exchange [where srv = echo_server and req = "''ping''" and ss = "()", OF e(1,2,2,3,3)] by (metis Suc_le_lessD Suc_leD relpowp_Suc_I)
  qed auto
  then obtain c where c: "(conn_step echo_server echo_server ^^ 8) (Send ''ping'' () ()) c"
    by blast
  then show ?thesis
    using asio_exchange [where srv = echo_server and req = "''ping''" and ss = "()", OF e(1,2,2,3,3) c] by blast
qed

text \<open>C24. A notification over TCP never returns. A notification has no answer, and the connector waits for one: the run gets stuck
  after four steps with \<^verbatim>\<open>Send\<close> still waiting, although the server has handled the notification.\<close>

theorem asio_notification_hangs:
  assumes "srv req ss = Some (Inr [], ss')" and "length req < 2 ^ 32" and "req \<noteq> []"
    and "(conn_step cb srv ^^ n) (Send req sc ss) c"
  shows "n \<le> 4 \<and> (\<forall>r. sending (client c) \<noteq> SDone r)
    \<and> (n = 4 \<longrightarrow> sending (client c) = SWait \<and> application (server c) = ss' \<and> (\<nexists>c'. conn_step cb srv c c'))"
proof -
  have n: "n \<le> 4" "c = exchange req [] sc ss ss' n"
    using exchange_run [where srv = srv and req = req and ss = ss, OF assms(1,2) _ assms(3,4)] by (simp_all del: exchange.simps)
  moreover have "\<nexists>c'. conn_step cb srv c c'" if "n = 4"
    using exchange_step [where srv = srv and req = req and ss = ss and n = 4 and cb = cb and sc = sc, OF assms(1,2) _ assms(3)] n that by (simp del: exchange.simps)
  moreover have "\<forall>r. sending (client c) \<noteq> SDone r" "n = 4 \<longrightarrow> sending (client c) = SWait \<and> application (server c) = ss'"
    using n by (auto simp: Let_def quiet_def Send_def)
  ultimately show ?thesis by blast
qed

definition silent_server :: "(nat, int) connector" where
  "silent_server request s = Some (Inr [], s + 1)"

theorem asio_notification_hangs_witness:
  "\<exists>c. (conn_step silent_server silent_server ^^ 4) (Send ''note'' 0 0) c \<and> sending (client c) = SWait
    \<and> application (server c) = 1 \<and> (\<nexists>c'. conn_step silent_server silent_server c c')"
proof -
  have e: "silent_server ''note'' 0 = Some (Inr [], 1)" "length ''note'' < 2 ^ 32" "''note'' \<noteq> []"
    by (simp_all add: silent_server_def)
  have "(conn_step silent_server silent_server ^^ n) (Send ''note'' 0 0) (exchange ''note'' [] 0 0 1 n)" if "n \<le> 4" for n
    using that
  proof (induction n)
    case (Suc n)
    then have "conn_step silent_server silent_server (exchange ''note'' [] 0 0 1 n) (exchange ''note'' [] 0 0 1 (Suc n))"
      using exchange_step [where srv = silent_server and req = "''note''" and ss = 0 and n = n, OF e(1,2) _ e(3)] by (simp del: exchange.simps)
    with Suc show ?case
      by (auto simp del: exchange.simps intro!: relcomppI)
  qed simp
  then show ?thesis
    using asio_notification_hangs [where srv = silent_server and req = "''note''" and ss = 0 and n = 4, OF e] by blast
qed

section \<open>Crossing requests\<close>

fun run_acts :: "('s, 'f) connector \<Rightarrow> ('s, 'f) connector \<Rightarrow> (bool \<times> act) list \<Rightarrow> 's conn \<Rightarrow> 's conn option" where
  "run_acts cb srv [] c = Some c"
| "run_acts cb srv ((cl, a) # as) c =
     (if cl then (case peer_act cb a (client c, to_client c, to_server c) of
          None \<Rightarrow> None | Some (p, i, t) \<Rightarrow> run_acts cb srv as (c\<lparr>client := p, to_client := i, to_server := t\<rparr>))
      else (case peer_act srv a (server c, to_server c, to_client c) of
          None \<Rightarrow> None | Some (p, i, t) \<Rightarrow> run_acts cb srv as (c\<lparr>server := p, to_server := i, to_client := t\<rparr>)))"

lemma run_acts_steps: "run_acts cb srv as c = Some c' \<Longrightarrow> (conn_step cb srv)\<^sup>*\<^sup>* c c'"
proof (induction as arbitrary: c)
  case (Cons x as)
  then show ?case
    by (cases x) (auto split: if_splits option.splits intro: conn_step.intros converse_rtranclp_into_rtranclp)
qed simp

text \<open>When both ends send at the same time, each takes the request of the other for its answer, and no request is handled.\<close>

lemma crossing_requests_swapped:
  assumes "length r < 2 ^ 32" and "length q < 2 ^ 32"
  shows "\<exists>c. (conn_step cb srv)\<^sup>*\<^sup>* (Send r sc ss\<lparr>server := (quiet ss)\<lparr>sending := SReady q\<rparr>\<rparr>) c
    \<and> sending (client c) = SDone q \<and> sending (server c) = SDone r \<and> application (client c) = sc \<and> application (server c) = ss"
proof -
  let ?as = "[(True, Flag), (False, Flag), (True, WriteLength), (True, WriteBody), (False, WriteLength), (False, WriteBody),
    (True, Receive), (False, Receive), (True, Wake), (False, Wake)]"
  have "\<exists>c. run_acts cb srv ?as (Send r sc ss\<lparr>server := (quiet ss)\<lparr>sending := SReady q\<rparr>\<rparr>) = Some c
    \<and> sending (client c) = SDone q \<and> sending (server c) = SDone r \<and> application (client c) = sc \<and> application (server c) = ss"
    using assms by (simp add: Send_def quiet_def mutex_free_def receive_message_def read_frame_append [where rest = "[]", simplified])
  then show ?thesis
    using run_acts_steps by blast
qed

end
