(* ===== verification/Rpc_AppClient.thy ===== *)
theory Rpc_AppClient
  imports Rpc_Calls
begin

text \<open>
  The client of the example application (\<^verbatim>\<open>examples/main/client.hpp\<close>): its remote calls, numbered by \<^verbatim>\<open>g_msgid\<close>, the callbacks
  it offers to the server, and its test run. The state of a client is that of the remote side with the last number given.
  The lines printed are the results of the test run.
\<close>

section \<open>The listener\<close>

fun call_onMousePressed :: "('f, 'f user) cval list \<Rightarrow> ('s, 'f, ('f, 'f user) cval) action" where
  "call_onMousePressed [CSigned x, CSigned y] s = Some (Inr (CSigned 10), s)"
| "call_onMousePressed _ s = None"

fun call_onMouseRelease :: "('f, 'f user) cval list \<Rightarrow> ('s, 'f, unit) action" where
  "call_onMouseRelease [CSigned x, CSigned y] s = Some (Inr (), s)"
| "call_onMouseRelease _ s = None"

text \<open>Both handlers are added under the key of the first.\<close>

definition add_pressed :: "'f json_lib \<Rightarrow> ('s, 'f) dispatcher \<Rightarrow> bool \<times> ('s, 'f) dispatcher" where
  "add_pressed lib = AddMethod ''onMousePressed'' (createMethodHandle lib (app_types lib) [TInt, TInt] call_onMousePressed) [''x'', ''y'']"

definition add_released :: "'f json_lib \<Rightarrow> ('s, 'f) dispatcher \<Rightarrow> bool \<times> ('s, 'f) dispatcher" where
  "add_released lib = AddNotification ''onMousePressed'' (createNotificationHandle lib (app_types lib) [TInt, TInt] call_onMouseRelease) [''x'', ''y'']"

section \<open>The remote calls\<close>

type_synonym ('s, 'f, 'a) client_action = "('s \<times> int, 'f, 'a) action"

definition g_msgid :: "int \<Rightarrow> int option" where
  "g_msgid n = (if in_range TInt (n + 1) then Some (n + 1) else None)"

definition remote :: "'f json_lib \<Rightarrow> ('s, 'f) connector \<Rightarrow> cpp_type \<Rightarrow> string \<Rightarrow> 'f json list \<Rightarrow> ('s, 'f, ('f, 'f user) cval) client_action" where
  "remote lib Send t name params = (\<lambda>(s, n). case g_msgid n of
     None \<Rightarrow> None
   | Some i \<Rightarrow> map_option (\<lambda>(r, s'). (r, s', i)) (CallMethod lib (app_types lib) Send v2 t (IdInt i) name params s))"

definition C_AddProduct :: "'f json_lib \<Rightarrow> ('s, 'f) connector \<Rightarrow> 'f product \<Rightarrow> ('s, 'f, ('f, 'f user) cval) client_action" where
  "C_AddProduct lib Send p = remote lib Send TBool ''AddProduct'' [product_to_json p]"

definition C_GetProduct :: "'f json_lib \<Rightarrow> ('s, 'f) connector \<Rightarrow> string \<Rightarrow> ('s, 'f, ('f, 'f user) cval) client_action" where
  "C_GetProduct lib Send i = remote lib Send (TClass ''Product'') ''GetProduct'' [JString i]"

definition C_AllProducts :: "'f json_lib \<Rightarrow> ('s, 'f) connector \<Rightarrow> ('s, 'f, ('f, 'f user) cval) client_action" where
  "C_AllProducts lib Send = remote lib Send (TVector (TClass ''Product'')) ''AllProducts'' []"

definition C_calc :: "'f json_lib \<Rightarrow> ('s, 'f) connector \<Rightarrow> int \<Rightarrow> int \<Rightarrow> ('s, 'f, ('f, 'f user) cval) client_action" where
  "C_calc lib Send a b = remote lib Send TInt ''calc'' [JInt a, JInt b]"

definition C_register :: "'f json_lib \<Rightarrow> ('s, 'f) connector \<Rightarrow> event_listener \<Rightarrow> ('s, 'f, ('f, 'f user) cval) client_action" where
  "C_register lib Send evt = remote lib Send TInt ''registerEventListener'' [event_listener_to_json evt]"

definition and_do :: "('s, 'f, 'a) action \<Rightarrow> ('a \<Rightarrow> ('s, 'f, 'b) action) \<Rightarrow> ('s, 'f, 'b) action" where
  "and_do f g s = (case f s of
     None \<Rightarrow> None
   | Some (Inl e, s') \<Rightarrow> Some (Inl e, s')
   | Some (Inr x, s') \<Rightarrow> g x s')"

definition client_event :: event_listener where
  "client_event = \<lparr>evt_name = ''123'', handleName = ''EventListener''\<rparr>"

definition test :: "'f json_lib \<Rightarrow> ('s, 'f) connector \<Rightarrow> 'f \<Rightarrow> ('s, 'f, ('f, 'f user) cval \<times> ('f, 'f user) cval) client_action" where
  "test lib Send amount =
     (let p = \<lparr>prod_id = ''0xff'', price = amount, prod_name = ''Product hello'', cat = cat_cash_carry\<rparr>;
          p2 = p\<lparr>prod_id := ''0xff2'', prod_name := ''Product world''\<rparr>
      in and_do (C_AddProduct lib Send p) (\<lambda>_.
         and_do (C_AddProduct lib Send p2) (\<lambda>_.
         and_do (C_AllProducts lib Send) (\<lambda>all.
         and_do (C_calc lib Send 5 6) (\<lambda>ret.
         and_do (C_register lib Send client_event) (\<lambda>_ s.
         Some (Inr (all, ret), s)))))))"

section \<open>What they do\<close>

text \<open>The run of the example: the server lists both products in the order of their ids, adds the two numbers and
  starts the two callbacks; five numbers have been given.\<close>

lemma example_run:
  "case test compact (InMemoryConnector compact (AppServer compact)) 22 (ServerHandle, 0) of
     Some (Inr (CVector [CUser (UProduct a), CUser (UProduct b)], n), s, i) \<Rightarrow>
       prod_name a = ''Product hello'' \<and> prod_name b = ''Product world'' \<and> n = CSigned 11 \<and> i = 5
       \<and> map fst (started s) = [''onMousePressed'', ''onMouseRelease'']
   | _ \<Rightarrow> False"
  by code_simp

text \<open>The handler of the second callback is never registered, because the name is taken, and a notification of the server
  finds no handler.\<close>

lemma second_listener_refused:
  assumes "add_pressed lib Dispatcher = (r1, d1)" and "add_released lib d1 = (r2, d2)"
  shows "r1 \<and> \<not> r2 \<and> d2 = d1"
    and "InvokeNotification lib d2 ''onMouseRelease'' params s
      = Some (Inl (JsonRpcException method_not_found ''notification not found: onMouseRelease'' JNull), s)"
  using assms by (auto simp: add_pressed_def add_released_def AddMethod_def AddNotification_def dispatcher_add_method_def
      dispatcher_add_notification_def reserved_name_def contains_def Dispatcher_def add_mapping_def map_find_def find_map_put
      InvokeNotification_def)

text \<open>The constants of the error types that have no value of their own continue from the last one, so that the type of a
  server error is that of invalid parameters and an unknown code that of an unknown method.\<close>

lemma error_types_coincide:
  "Type (JsonRpcException (-32050) m x) = invalid_params" "Type (JsonRpcException 1 m x) = method_not_found"
  by (simp_all add: Type_def server_error_def invalid_def internal_error_def invalid_params_def method_not_found_def)

end
