(* ===== verification/Sig_Slot.thy ===== *)
theory Sig_Slot
  imports Main
begin

text \<open>
  The signal and slot library \<^verbatim>\<open>sigslot/signal.hpp\<close> in its thread-safe form (\<^verbatim>\<open>signal\<close>): slots, connections,
  blockers, observers and signals. Slots are objects with several owners, the lists of signals and the copies an
  emission works on, and connections refer to them weakly; so all objects live in a \<open>world\<close>: slots and signals by their number,
  the copies of running emissions on the stack \<open>pinned\<close>. A slot is alive while an owner has it. Operations under the mutex of
  a signal are single steps. \<open>None\<close> is undefined behaviour: the use of a signal that is gone. What a slot
  calls is the application's: a function on the world, so that slots may connect, disconnect and emit themselves.
\<close>

section \<open>State\<close>

text \<open>A callable as the library sees it: the bytes of its function pointer (none for a callable without one), its
  type, and whether the type has to be compared as well.\<close>

record callable =
  c_ptr :: "nat option"
  c_type :: nat
  must_check_object :: bool

record 'o slot =
  m_index :: nat
  m_group :: int
  m_connected :: bool
  m_blocked :: bool
  cleaner :: nat
  func :: callable
  ptr :: "'o option"
  tracked :: bool
  extended :: bool

type_synonym groups = "(nat list \<times> int) list"

record signal =
  m_slots :: groups
  m_block :: bool

type_synonym connection = "nat option"

record ('o, 'a) world =
  slots :: "'o slot list"
  signals :: "signal option list"
  pinned :: "nat list list"
  observers :: "'o \<Rightarrow> connection list"
  gone :: "'o \<Rightarrow> bool"
  app :: 'a

definition all_slots :: "groups \<Rightarrow> nat list" where
  "all_slots gs = concat (map fst gs)"

definition signal_at :: "('o, 'a) world \<Rightarrow> nat \<Rightarrow> signal option" where
  "signal_at w g = (if g < length (signals w) then signals w ! g else None)"

definition alive :: "('o, 'a) world \<Rightarrow> nat \<Rightarrow> bool" where
  "alive w a \<longleftrightarrow> (\<exists>s \<in> set (signals w). case s of Some sg \<Rightarrow> a \<in> set (all_slots (m_slots sg)) | None \<Rightarrow> False)
     \<or> (\<exists>p \<in> set (pinned w). a \<in> set p)"

definition put_slot :: "nat \<Rightarrow> ('o slot \<Rightarrow> 'o slot) \<Rightarrow> ('o, 'a) world \<Rightarrow> ('o, 'a) world" where
  "put_slot a f w = w\<lparr>slots := (slots w)[a := f (slots w ! a)]\<rparr>"

definition put_signal :: "nat \<Rightarrow> signal option \<Rightarrow> ('o, 'a) world \<Rightarrow> ('o, 'a) world" where
  "put_signal g s w = w\<lparr>signals := (signals w)[g := s]\<rparr>"

section \<open>Removing a slot from its group\<close>

definition set_index :: "nat \<Rightarrow> nat \<Rightarrow> 'o slot list \<Rightarrow> 'o slot list" where
  "set_index a i sl = sl[a := (sl ! a)\<lparr>m_index := i\<rparr>]"

definition swap_back :: "nat \<Rightarrow> nat list \<Rightarrow> nat list" where
  "swap_back i slts = slts[i := last slts, length slts - 1 := slts ! i]"

definition swap_remove :: "nat \<Rightarrow> nat list \<Rightarrow> 'o slot list \<Rightarrow> nat list \<times> 'o slot list" where
  "swap_remove i slts sl = (let slts' = swap_back i slts in (butlast slts', set_index (slts' ! i) i sl))"

fun clean_groups :: "nat \<Rightarrow> int \<Rightarrow> nat \<Rightarrow> groups \<Rightarrow> 'o slot list \<Rightarrow> groups \<times> 'o slot list" where
  "clean_groups idx gid a [] sl = ([], sl)"
| "clean_groups idx gid a ((slts, g) # gs) sl =
     (if g = gid then
        (if idx < length slts \<and> slts ! idx = a then
           (let (slts', sl') = swap_remove idx slts sl in ((slts', g) # gs, sl'))
         else ((slts, g) # gs, sl))
      else (let (gs', sl') = clean_groups idx gid a gs sl in ((slts, g) # gs', sl')))"

definition clean :: "nat \<Rightarrow> nat \<Rightarrow> ('o, 'a) world \<Rightarrow> ('o, 'a) world option" where
  "clean g a w = (case signal_at w g of
     None \<Rightarrow> None
   | Some sg \<Rightarrow> (let (gs, sl) = clean_groups (m_index (slots w ! a)) (m_group (slots w ! a)) a (m_slots sg) (slots w) in
       Some (put_signal g (Some (sg\<lparr>m_slots := gs\<rparr>)) (w\<lparr>slots := sl\<rparr>))))"

section \<open>Slots\<close>

definition slot_disconnect :: "nat \<Rightarrow> ('o, 'a) world \<Rightarrow> (bool \<times> ('o, 'a) world) option" where
  "slot_disconnect a w =
     (if m_connected (slots w ! a) then
        map_option (Pair True) (clean (cleaner (slots w ! a)) a (put_slot a (\<lambda>s. s\<lparr>m_connected := False\<rparr>) w))
      else Some (False, w))"

definition slot_connected :: "('o, 'a) world \<Rightarrow> nat \<Rightarrow> bool" where
  "slot_connected w a \<longleftrightarrow> (let s = slots w ! a in
     (if tracked s then \<not> (case ptr s of Some x \<Rightarrow> gone w x | None \<Rightarrow> True) else True) \<and> m_connected s)"

definition slot_block :: "nat \<Rightarrow> ('o, 'a) world \<Rightarrow> ('o, 'a) world" where
  "slot_block a w = put_slot a (\<lambda>s. s\<lparr>m_blocked := True\<rparr>) w"

definition slot_unblock :: "nat \<Rightarrow> ('o, 'a) world \<Rightarrow> ('o, 'a) world" where
  "slot_unblock a w = put_slot a (\<lambda>s. s\<lparr>m_blocked := False\<rparr>) w"

definition has_callable :: "callable \<Rightarrow> 'o slot \<Rightarrow> bool" where
  "has_callable c s \<longleftrightarrow> c_ptr c \<noteq> None \<and> c_ptr c = c_ptr (func s)"

definition has_full_callable :: "callable \<Rightarrow> 'o slot \<Rightarrow> bool" where
  "has_full_callable c s \<longleftrightarrow> has_callable c s \<and> (must_check_object c \<longrightarrow> c_type c = c_type (func s))"

definition get_object :: "('o, 'a) world \<Rightarrow> 'o slot \<Rightarrow> 'o option" where
  "get_object w s = (case ptr s of Some x \<Rightarrow> if tracked s \<and> gone w x then None else Some x | None \<Rightarrow> None)"

definition has_object :: "('o, 'a) world \<Rightarrow> 'o option \<Rightarrow> 'o slot \<Rightarrow> bool" where
  "has_object w x s \<longleftrightarrow> get_object w s = x"

type_synonym ('o, 'a, 'x) call = "callable \<Rightarrow> 'o option \<Rightarrow> connection \<Rightarrow> 'x \<Rightarrow> ('o, 'a) world \<Rightarrow> ('o, 'a) world option"

definition call_slot :: "('o, 'a, 'x) call \<Rightarrow> 'x \<Rightarrow> nat \<Rightarrow> ('o, 'a) world \<Rightarrow> ('o, 'a) world option" where
  "call_slot call args a w = (let s = slots w ! a in
     if tracked s then
       (case ptr s of
          Some x \<Rightarrow>
            if gone w x then map_option snd (slot_disconnect a w)
            else if m_connected s then call (func s) (Some x) None args w else Some w
        | None \<Rightarrow> map_option snd (slot_disconnect a w))
     else call (func s) (ptr s) (if extended s then Some a else None) args w)"

definition slot_call :: "('o, 'a, 'x) call \<Rightarrow> 'x \<Rightarrow> nat \<Rightarrow> ('o, 'a) world \<Rightarrow> ('o, 'a) world option" where
  "slot_call call args a w =
     (if m_connected (slots w ! a) \<and> \<not> m_blocked (slots w ! a) then call_slot call args a w else Some w)"

section \<open>Connections\<close>

definition lock :: "('o, 'a) world \<Rightarrow> connection \<Rightarrow> nat option" where
  "lock w c = (case c of Some a \<Rightarrow> if alive w a then Some a else None | None \<Rightarrow> None)"

definition connection_valid :: "('o, 'a) world \<Rightarrow> connection \<Rightarrow> bool" where
  "connection_valid w c \<longleftrightarrow> lock w c \<noteq> None"

definition connection_connected :: "('o, 'a) world \<Rightarrow> connection \<Rightarrow> bool" where
  "connection_connected w c \<longleftrightarrow> (case lock w c of Some a \<Rightarrow> slot_connected w a | None \<Rightarrow> False)"

definition connection_disconnect :: "connection \<Rightarrow> ('o, 'a) world \<Rightarrow> (bool \<times> ('o, 'a) world) option" where
  "connection_disconnect c w = (case lock w c of Some a \<Rightarrow> slot_disconnect a w | None \<Rightarrow> Some (False, w))"

definition connection_blocked :: "('o, 'a) world \<Rightarrow> connection \<Rightarrow> bool" where
  "connection_blocked w c \<longleftrightarrow> (case lock w c of Some a \<Rightarrow> m_blocked (slots w ! a) | None \<Rightarrow> False)"

definition connection_block :: "connection \<Rightarrow> ('o, 'a) world \<Rightarrow> ('o, 'a) world" where
  "connection_block c w = (case lock w c of Some a \<Rightarrow> slot_block a w | None \<Rightarrow> w)"

definition connection_unblock :: "connection \<Rightarrow> ('o, 'a) world \<Rightarrow> ('o, 'a) world" where
  "connection_unblock c w = (case lock w c of Some a \<Rightarrow> slot_unblock a w | None \<Rightarrow> w)"

text \<open>A blocker is its weak pointer; making it blocks, destroying it unblocks.\<close>

definition blocker :: "connection \<Rightarrow> ('o, 'a) world \<Rightarrow> connection \<times> ('o, 'a) world" where
  "blocker c w = (c, connection_block c w)"

definition blocker_release :: "connection \<Rightarrow> ('o, 'a) world \<Rightarrow> ('o, 'a) world" where
  "blocker_release c w = connection_unblock c w"

definition blocker_assign :: "connection \<Rightarrow> connection \<Rightarrow> ('o, 'a) world \<Rightarrow> connection \<times> connection \<times> ('o, 'a) world" where
  "blocker_assign this other w = (let w' = blocker_release this w in (other, this, w'))"

definition scoped_destroy :: "connection \<Rightarrow> ('o, 'a) world \<Rightarrow> ('o, 'a) world option" where
  "scoped_destroy c w = map_option snd (connection_disconnect c w)"

definition scoped_assign :: "connection \<Rightarrow> connection \<Rightarrow> ('o, 'a) world \<Rightarrow> (connection \<times> connection \<times> ('o, 'a) world) option" where
  "scoped_assign this other w = map_option (\<lambda>w'. (other, this, w')) (scoped_destroy this w)"

fun scoped_destroy_all :: "connection list \<Rightarrow> ('o, 'a) world \<Rightarrow> ('o, 'a) world option" where
  "scoped_destroy_all [] w = Some w"
| "scoped_destroy_all (c # cs) w = (case scoped_destroy c w of None \<Rightarrow> None | Some w' \<Rightarrow> scoped_destroy_all cs w')"

definition observer_disconnect_all :: "'o \<Rightarrow> ('o, 'a) world \<Rightarrow> ('o, 'a) world option" where
  "observer_disconnect_all x w = scoped_destroy_all (observers w x) (w\<lparr>observers := (observers w)(x := [])\<rparr>)"

definition add_connection :: "'o \<Rightarrow> connection \<Rightarrow> ('o, 'a) world \<Rightarrow> ('o, 'a) world" where
  "add_connection x c w = w\<lparr>observers := (observers w)(x := observers w x @ [c])\<rparr>"

section \<open>Signals\<close>

definition new_signal :: "('o, 'a) world \<Rightarrow> nat \<times> ('o, 'a) world" where
  "new_signal w = (length (signals w), w\<lparr>signals := signals w @ [Some \<lparr>m_slots = [], m_block = False\<rparr>]\<rparr>)"

definition move_construct :: "nat \<Rightarrow> ('o, 'a) world \<Rightarrow> (nat \<times> ('o, 'a) world) option" where
  "move_construct other w = (case signal_at w other of
     None \<Rightarrow> None
   | Some sg \<Rightarrow> Some (length (signals w),
       w\<lparr>signals := (signals w)[other := Some (sg\<lparr>m_slots := []\<rparr>)] @ [Some sg]\<rparr>))"

text \<open>A signal assigned to itself locks its mutex twice.\<close>

definition move_assign :: "nat \<Rightarrow> nat \<Rightarrow> ('o, 'a) world \<Rightarrow> ('o, 'a) world option" where
  "move_assign this other w = (case (signal_at w this, signal_at w other) of
     (Some s, Some t) \<Rightarrow> if this = other then None else Some (w\<lparr>signals := (signals w)[this := Some t, other := Some s]\<rparr>)
   | _ \<Rightarrow> None)"

definition on_signal :: "nat \<Rightarrow> (signal \<Rightarrow> signal) \<Rightarrow> ('o, 'a) world \<Rightarrow> ('o, 'a) world option" where
  "on_signal g f w = map_option (\<lambda>sg. put_signal g (Some (f sg)) w) (signal_at w g)"

definition signal_block :: "nat \<Rightarrow> ('o, 'a) world \<Rightarrow> ('o, 'a) world option" where
  "signal_block g w = on_signal g (\<lambda>sg. sg\<lparr>m_block := True\<rparr>) w"

definition signal_unblock :: "nat \<Rightarrow> ('o, 'a) world \<Rightarrow> ('o, 'a) world option" where
  "signal_unblock g w = on_signal g (\<lambda>sg. sg\<lparr>m_block := False\<rparr>) w"

definition signal_blocked :: "('o, 'a) world \<Rightarrow> nat \<Rightarrow> bool option" where
  "signal_blocked w g = map_option m_block (signal_at w g)"

definition slot_count :: "('o, 'a) world \<Rightarrow> nat \<Rightarrow> nat option" where
  "slot_count w g = map_option (\<lambda>sg. sum_list (map (\<lambda>(slts, _). length slts) (m_slots sg))) (signal_at w g)"

definition disconnect_all :: "nat \<Rightarrow> ('o, 'a) world \<Rightarrow> ('o, 'a) world option" where
  "disconnect_all g w = on_signal g (\<lambda>sg. sg\<lparr>m_slots := []\<rparr>) w"

definition destroy_signal :: "nat \<Rightarrow> ('o, 'a) world \<Rightarrow> ('o, 'a) world option" where
  "destroy_signal g w = map_option (put_signal g None) (disconnect_all g w)"

fun clear_group :: "int \<Rightarrow> groups \<Rightarrow> nat \<times> groups" where
  "clear_group gid [] = (0, [])"
| "clear_group gid ((slts, g) # gs) =
     (if g = gid then (length slts, ([], g) # gs) else (let (n, gs') = clear_group gid gs in (n, (slts, g) # gs')))"

definition disconnect_group :: "nat \<Rightarrow> int \<Rightarrow> ('o, 'a) world \<Rightarrow> (nat \<times> ('o, 'a) world) option" where
  "disconnect_group g gid w = map_option (\<lambda>sg. let (n, gs) = clear_group gid (m_slots sg) in
     (n, put_signal g (Some (sg\<lparr>m_slots := gs\<rparr>)) w)) (signal_at w g)"

fun insert_slot :: "nat \<Rightarrow> int \<Rightarrow> groups \<Rightarrow> nat \<times> groups" where
  "insert_slot a gid [] = (0, [([a], gid)])"
| "insert_slot a gid ((slts, g) # gs) =
     (if g < gid then (let (i, gs') = insert_slot a gid gs in (i, (slts, g) # gs'))
      else if g \<noteq> gid then (0, ([a], gid) # (slts, g) # gs)
      else (length slts, (slts @ [a], g) # gs))"

definition add_slot :: "nat \<Rightarrow> nat \<Rightarrow> ('o, 'a) world \<Rightarrow> ('o, 'a) world option" where
  "add_slot g a w = (case signal_at w g of
     None \<Rightarrow> None
   | Some sg \<Rightarrow> (let (i, gs) = insert_slot a (m_group (slots w ! a)) (m_slots sg) in
       Some (put_signal g (Some (sg\<lparr>m_slots := gs\<rparr>)) (w\<lparr>slots := set_index a i (slots w)\<rparr>))))"

definition make_slot :: "nat \<Rightarrow> callable \<Rightarrow> 'o option \<Rightarrow> bool \<Rightarrow> bool \<Rightarrow> int \<Rightarrow> ('o, 'a) world \<Rightarrow> nat \<times> ('o, 'a) world" where
  "make_slot g f x track ext gid w = (length (slots w), w\<lparr>slots := slots w @
     [\<lparr>m_index = 0, m_group = gid, m_connected = True, m_blocked = False, cleaner = g, func = f, ptr = x, tracked = track, extended = ext\<rparr>]\<rparr>)"

definition connect_slot :: "nat \<Rightarrow> callable \<Rightarrow> 'o option \<Rightarrow> bool \<Rightarrow> bool \<Rightarrow> int \<Rightarrow> ('o, 'a) world \<Rightarrow> (connection \<times> ('o, 'a) world) option" where
  "connect_slot g f x track ext gid w = (let (a, w') = make_slot g f x track ext gid w in map_option (Pair (Some a)) (add_slot g a w'))"

definition connect :: "nat \<Rightarrow> callable \<Rightarrow> int \<Rightarrow> ('o, 'a) world \<Rightarrow> (connection \<times> ('o, 'a) world) option" where
  "connect g f gid w = connect_slot g f None False False gid w"

definition connect_extended :: "nat \<Rightarrow> callable \<Rightarrow> int \<Rightarrow> ('o, 'a) world \<Rightarrow> (connection \<times> ('o, 'a) world) option" where
  "connect_extended g f gid w = connect_slot g f None False True gid w"

definition connect_observer :: "nat \<Rightarrow> callable \<Rightarrow> 'o \<Rightarrow> int \<Rightarrow> ('o, 'a) world \<Rightarrow> (connection \<times> ('o, 'a) world) option" where
  "connect_observer g f x gid w = map_option (\<lambda>(c, w'). (c, add_connection x c w')) (connect_slot g f (Some x) False False gid w)"

definition connect_pmf :: "nat \<Rightarrow> callable \<Rightarrow> 'o \<Rightarrow> int \<Rightarrow> ('o, 'a) world \<Rightarrow> (connection \<times> ('o, 'a) world) option" where
  "connect_pmf g f x gid w = connect_slot g f (Some x) False False gid w"

definition connect_pmf_extended :: "nat \<Rightarrow> callable \<Rightarrow> 'o \<Rightarrow> int \<Rightarrow> ('o, 'a) world \<Rightarrow> (connection \<times> ('o, 'a) world) option" where
  "connect_pmf_extended g f x gid w = connect_slot g f (Some x) False True gid w"

definition connect_pmf_tracked :: "nat \<Rightarrow> callable \<Rightarrow> 'o \<Rightarrow> int \<Rightarrow> ('o, 'a) world \<Rightarrow> (connection \<times> ('o, 'a) world) option" where
  "connect_pmf_tracked g f x gid w = connect_slot g f (Some x) True False gid w"

definition connect_tracked :: "nat \<Rightarrow> callable \<Rightarrow> 'o \<Rightarrow> int \<Rightarrow> ('o, 'a) world \<Rightarrow> (connection \<times> ('o, 'a) world) option" where
  "connect_tracked g f x gid w = connect_slot g f (Some x) True False gid w"

function remove_if :: "('o slot \<Rightarrow> bool) \<Rightarrow> nat \<Rightarrow> nat \<Rightarrow> nat list \<Rightarrow> 'o slot list \<Rightarrow> nat \<times> nat list \<times> 'o slot list" where
  "remove_if cond count i slts sl =
     (if i < length slts then
        (if cond (sl ! (slts ! i)) then (let (slts', sl') = swap_remove i slts sl in remove_if cond (count + 1) i slts' sl')
         else remove_if cond count (i + 1) slts sl)
      else (count, slts, sl))"
  by auto
termination
  by (relation "measure (\<lambda>(cond, count, i, slts, sl). length slts - i)")
    (auto simp: swap_remove_def swap_back_def Let_def)

declare remove_if.simps [simp del]

fun remove_groups :: "('o slot \<Rightarrow> bool) \<Rightarrow> nat \<Rightarrow> groups \<Rightarrow> 'o slot list \<Rightarrow> nat \<times> groups \<times> 'o slot list" where
  "remove_groups cond count [] sl = (count, [], sl)"
| "remove_groups cond count ((slts, g) # gs) sl =
     (let (n, slts', sl') = remove_if cond count 0 slts sl; (m, gs', sl'') = remove_groups cond n gs sl' in (m, (slts', g) # gs', sl''))"

definition disconnect_if :: "('o slot \<Rightarrow> bool) \<Rightarrow> nat \<Rightarrow> ('o, 'a) world \<Rightarrow> (nat \<times> ('o, 'a) world) option" where
  "disconnect_if cond g w = (case signal_at w g of
     None \<Rightarrow> None
   | Some sg \<Rightarrow> (let (n, gs, sl) = remove_groups cond 0 (m_slots sg) (slots w) in
       Some (n, put_signal g (Some (sg\<lparr>m_slots := gs\<rparr>)) (w\<lparr>slots := sl\<rparr>))))"

definition disconnect_callable :: "callable \<Rightarrow> nat \<Rightarrow> ('o, 'a) world \<Rightarrow> (nat \<times> ('o, 'a) world) option" where
  "disconnect_callable c g w = disconnect_if (has_full_callable c) g w"

definition disconnect_object :: "'o option \<Rightarrow> nat \<Rightarrow> ('o, 'a) world \<Rightarrow> (nat \<times> ('o, 'a) world) option" where
  "disconnect_object x g w = disconnect_if (has_object w x) g w"

definition disconnect_both :: "callable \<Rightarrow> 'o option \<Rightarrow> nat \<Rightarrow> ('o, 'a) world \<Rightarrow> (nat \<times> ('o, 'a) world) option" where
  "disconnect_both c x g w = disconnect_if (\<lambda>s. has_object w x s \<and> has_callable c s) g w"

fun emit_slots :: "('o, 'a, 'x) call \<Rightarrow> 'x \<Rightarrow> nat list \<Rightarrow> ('o, 'a) world \<Rightarrow> ('o, 'a) world option" where
  "emit_slots call args [] w = Some w"
| "emit_slots call args (a # as) w = (case slot_call call args a w of None \<Rightarrow> None | Some w' \<Rightarrow> emit_slots call args as w')"

definition emit :: "('o, 'a, 'x) call \<Rightarrow> nat \<Rightarrow> 'x \<Rightarrow> ('o, 'a) world \<Rightarrow> ('o, 'a) world option" where
  "emit call g args w = (case signal_at w g of
     None \<Rightarrow> None
   | Some sg \<Rightarrow>
       if m_block sg then Some w
       else (let ref = all_slots (m_slots sg) in
         map_option (\<lambda>w'. w'\<lparr>pinned := tl (pinned w')\<rparr>) (emit_slots call args ref (w\<lparr>pinned := ref # pinned w\<rparr>))))"

end
