(* ===== verification/Sig_Invariant.thy ===== *)
theory Sig_Invariant
  imports Sig_Slot
begin

text \<open>
  The invariant of the signal library: in every signal the groups stand in ascending order of their ids, each slot has its
  position in the list of its group as its index and the id of the group as its group, and no slot is in two signals.
  The removal of a slot relies on it, since it finds a slot by its index.
\<close>

definition group_wf :: "'o slot list \<Rightarrow> nat list \<Rightarrow> int \<Rightarrow> bool" where
  "group_wf sl slts gid \<longleftrightarrow>
     (\<forall>i < length slts. slts ! i < length sl \<and> m_index (sl ! (slts ! i)) = i \<and> m_group (sl ! (slts ! i)) = gid)"

definition groups_wf :: "'o slot list \<Rightarrow> groups \<Rightarrow> bool" where
  "groups_wf sl gs \<longleftrightarrow> sorted_wrt (<) (map snd gs) \<and> (\<forall>(slts, gid) \<in> set gs. group_wf sl slts gid)"

definition world_wf :: "('o, 'a) world \<Rightarrow> bool" where
  "world_wf w \<longleftrightarrow> (\<forall>g sg. signal_at w g = Some sg \<longrightarrow> groups_wf (slots w) (m_slots sg))
     \<and> (\<forall>g h sg sh. signal_at w g = Some sg \<longrightarrow> signal_at w h = Some sh \<longrightarrow> g \<noteq> h \<longrightarrow>
          set (all_slots (m_slots sg)) \<inter> set (all_slots (m_slots sh)) = {})"

text \<open>Two slots that differ in nothing but the index.\<close>

definition strip :: "'o slot \<Rightarrow> 'o slot" where
  "strip s = s\<lparr>m_index := 0\<rparr>"

definition same_but_index :: "'o slot list \<Rightarrow> 'o slot list \<Rightarrow> bool" where
  "same_but_index sl sl' \<longleftrightarrow> map strip sl = map strip sl'"

section \<open>One group\<close>

lemma all_slots_simps [simp]: "all_slots [] = []" "all_slots ((slts, g) # gs) = slts @ all_slots gs"
  by (simp_all add: all_slots_def)

lemma in_all_slots: "a \<in> set (all_slots gs) \<longleftrightarrow> (\<exists>slts g. (slts, g) \<in> set gs \<and> a \<in> set slts)"
  by (force simp: all_slots_def)

lemma strip_eq: "strip s = strip t \<Longrightarrow> m_group s = m_group t \<and> m_connected s = m_connected t \<and> m_blocked s = m_blocked t
    \<and> cleaner s = cleaner t \<and> func s = func t \<and> ptr s = ptr t \<and> tracked s = tracked t \<and> extended s = extended t"
  by (cases s; cases t) (simp add: strip_def)

lemma same_but_index_nth: "same_but_index sl sl' \<Longrightarrow> a < length sl \<Longrightarrow> strip (sl ! a) = strip (sl' ! a)"
  unfolding same_but_index_def by (metis length_map nth_map)

lemma same_but_index_length: "same_but_index sl sl' \<Longrightarrow> length sl' = length sl"
  unfolding same_but_index_def by (metis length_map)

lemma same_but_index_refl [simp]: "same_but_index sl sl"
  by (simp add: same_but_index_def)

lemma same_but_index_trans: "same_but_index sl sl' \<Longrightarrow> same_but_index sl' sl'' \<Longrightarrow> same_but_index sl sl''"
  by (simp add: same_but_index_def)

lemma set_index_same: "same_but_index sl (set_index a i sl)"
  by (cases "a < length sl") (auto simp: same_but_index_def set_index_def list_eq_iff_nth_eq nth_list_update strip_def)

lemma group_wf_distinct: "group_wf sl slts gid \<Longrightarrow> distinct slts"
  unfolding group_wf_def distinct_conv_nth by metis

lemma group_wf_frame:
  assumes "group_wf sl slts gid" and "length sl \<le> length sl'"
    and "\<And>a. a \<in> set slts \<Longrightarrow> m_index (sl' ! a) = m_index (sl ! a) \<and> m_group (sl' ! a) = m_group (sl ! a)"
  shows "group_wf sl' slts gid"
  using assms by (auto simp: group_wf_def intro: less_le_trans)

lemma groups_wf_frame:
  assumes "groups_wf sl gs" and "length sl \<le> length sl'"
    and "\<And>a. a \<in> set (all_slots gs) \<Longrightarrow> m_index (sl' ! a) = m_index (sl ! a) \<and> m_group (sl' ! a) = m_group (sl ! a)"
  shows "groups_wf sl' gs"
proof -
  have "group_wf sl' slts gid" if "(slts, gid) \<in> set gs" for slts gid
  proof (rule group_wf_frame [of sl])
    show "group_wf sl slts gid"
      using assms(1) that by (auto simp: groups_wf_def)
    show "m_index (sl' ! a) = m_index (sl ! a) \<and> m_group (sl' ! a) = m_group (sl ! a)" if "a \<in> set slts" for a
      using assms(3) \<open>(slts, gid) \<in> set gs\<close> that by (auto simp: in_all_slots)
  qed (rule assms(2))
  then show ?thesis
    using assms(1) by (auto simp: groups_wf_def)
qed

lemma butlast_swap_back:
  "i < length slts \<Longrightarrow> butlast (swap_back i slts) = butlast (slts[i := last slts])"
  by (simp add: swap_back_def butlast_list_update)

lemma swap_back_nth: "i < length slts \<Longrightarrow> swap_back i slts ! i = (if i = length slts - 1 then slts ! i else last slts)"
  by (auto simp: swap_back_def nth_list_update)

lemma last_nth: "i < length slts \<Longrightarrow> last slts = slts ! (length slts - 1)"
  by (cases slts) (simp_all add: last_conv_nth)

lemma swap_back_mem: "i < length slts \<Longrightarrow> swap_back i slts ! i \<in> set slts"
  by (simp add: swap_back_nth last_nth)

lemma swap_remove_nth:
  assumes "i < length slts" and "j < length slts - 1"
  shows "fst (swap_remove i slts sl) ! j = (if j = i then last slts else slts ! j)"
  using assms by (simp add: swap_remove_def Let_def butlast_swap_back nth_butlast)

lemma length_swap_remove [simp]: "length (fst (swap_remove i slts sl)) = length slts - 1"
  by (simp add: swap_remove_def swap_back_def Let_def)

lemma swap_remove_same: "same_but_index sl (snd (swap_remove i slts sl))"
  by (simp add: swap_remove_def Let_def set_index_same)

lemma mset_swap_remove:
  assumes "i < length slts" and "distinct slts"
  shows "set (fst (swap_remove i slts sl)) = set slts - {slts ! i} \<and> distinct (fst (swap_remove i slts sl))"
proof -
  let ?xs = "fst (swap_remove i slts sl)"
  let ?f = "\<lambda>j. if j = i then length slts - 1 else j"
  have n: "?xs ! j = slts ! ?f j" if "j < length slts - 1" for j
    using swap_remove_nth [OF assms(1) that] last_nth [OF assms(1)] by auto
  have "set ?xs = (\<lambda>j. slts ! ?f j) ` {..< length slts - 1}"
    using n by (force simp: in_set_conv_nth)
  moreover have "?f ` {..< length slts - 1} = {..< length slts} - {i}"
    using assms(1) by force
  ultimately have "set ?xs = (\<lambda>j. slts ! j) ` ({..< length slts} - {i})"
    by (metis (no_types, lifting) image_cong image_image)
  moreover have "set slts = (\<lambda>j. slts ! j) ` {..< length slts}"
    by (force simp: in_set_conv_nth)
  ultimately have "set ?xs = set slts - {slts ! i}"
    using assms by (auto simp: nth_eq_iff_index_eq)
  moreover have "distinct ?xs"
    using assms n by (auto simp: distinct_conv_nth split: if_splits)
  ultimately show ?thesis by simp
qed

lemma swap_remove_frame:
  "i < length slts \<Longrightarrow> a \<notin> set slts \<Longrightarrow> snd (swap_remove i slts sl) ! a = sl ! a"
  using swap_back_mem [of i slts] by (auto simp: swap_remove_def Let_def set_index_def intro: nth_list_update_neq)

lemma swap_remove_wf:
  assumes "group_wf sl slts gid" and "i < length slts"
  shows "group_wf (snd (swap_remove i slts sl)) (fst (swap_remove i slts sl)) gid"
  unfolding group_wf_def
proof (intro allI impI)
  fix j
  let ?xs = "fst (swap_remove i slts sl)" and ?sl = "snd (swap_remove i slts sl)"
  assume "j < length ?xs"
  then have j: "j < length slts - 1" by simp
  have l: "length ?sl = length sl"
    using swap_remove_same same_but_index_length by blast
  have last: "last slts = slts ! (length slts - 1)"
    using last_nth [OF assms(2)] .
  have d: "distinct slts" using group_wf_distinct [OF assms(1)] .
  have "slts ! j < length sl" "last slts < length sl" "m_index (sl ! (slts ! j)) = j"
      "m_group (sl ! (slts ! j)) = gid" "m_group (sl ! last slts) = gid"
    using assms j by (simp_all add: group_wf_def last)
  moreover have "slts ! j \<noteq> last slts" using d j by (simp add: last nth_eq_iff_index_eq)
  ultimately show "?xs ! j < length ?sl \<and> m_index (?sl ! (?xs ! j)) = j \<and> m_group (?sl ! (?xs ! j)) = gid"
    using swap_remove_nth [OF assms(2) j, of sl] l assms(2) j d
    by (auto simp: swap_remove_def Let_def set_index_def swap_back_nth nth_list_update nth_eq_iff_index_eq)
qed

section \<open>All groups of a signal\<close>

lemma groups_wf_Cons:
  "groups_wf sl ((slts, g) # gs) \<longleftrightarrow> group_wf sl slts g \<and> groups_wf sl gs \<and> (\<forall>x \<in> set gs. g < snd x)"
  by (auto simp: groups_wf_def)

lemma in_own_group:
  assumes "group_wf sl slts g" and "a \<in> set slts"
  shows "a < length sl \<and> m_group (sl ! a) = g \<and> m_index (sl ! a) < length slts \<and> slts ! m_index (sl ! a) = a"
  using assms by (auto simp: group_wf_def in_set_conv_nth)

lemma in_group:
  assumes "groups_wf sl gs" and "a \<in> set (all_slots gs)"
  shows "a < length sl \<and> m_group (sl ! a) \<in> snd ` set gs"
proof -
  obtain slts g where s: "(slts, g) \<in> set gs" "a \<in> set slts"
    using assms(2) by (auto simp: in_all_slots)
  then have "group_wf sl slts g"
    using assms(1) by (auto simp: groups_wf_def)
  then show ?thesis
    using in_own_group [of sl slts g a] s by force
qed

lemma groups_disjoint: "groups_wf sl ((slts, g) # gs) \<Longrightarrow> set slts \<inter> set (all_slots gs) = {}"
  using in_group [of sl gs] in_own_group [of sl slts g] by (fastforce simp: groups_wf_Cons)

lemma groups_distinct: "groups_wf sl gs \<Longrightarrow> distinct (all_slots gs)"
proof (induction gs)
  case (Cons x gs)
  then show ?case
    using groups_disjoint [of sl "fst x" "snd x" gs] group_wf_distinct [of sl "fst x" "snd x"]
    by (cases x) (simp add: groups_wf_Cons)
qed simp

text \<open>What an operation on the groups of one signal leaves: the invariant, the slots but for their indices, and all slots
  of other signals.\<close>

definition keeps :: "'o slot list \<Rightarrow> groups \<Rightarrow> 'o slot list \<Rightarrow> groups \<Rightarrow> bool" where
  "keeps sl gs sl' gs' \<longleftrightarrow> groups_wf sl' gs' \<and> same_but_index sl sl' \<and> map snd gs' = map snd gs
     \<and> (\<forall>b. b \<notin> set (all_slots gs) \<longrightarrow> sl' ! b = sl ! b)"

lemma keeps_Cons:
  assumes "groups_wf sl ((slts, g) # gs)" and "group_wf sl' slts' g" and "same_but_index sl sl'"
    and "\<And>b. b \<notin> set slts \<Longrightarrow> sl' ! b = sl ! b" and "set slts' \<subseteq> set slts"
    and "keeps sl' gs sl'' gs'"
  shows "keeps sl ((slts, g) # gs) sl'' ((slts', g) # gs')"
proof -
  have d: "set slts \<inter> set (all_slots gs) = {}"
    using groups_disjoint [OF assms(1)] .
  have "group_wf sl'' slts' g"
  proof (rule group_wf_frame [OF assms(2)])
    show "length sl' \<le> length sl''"
      using assms(6) same_but_index_length [of sl' sl''] by (simp add: keeps_def)
    show "m_index (sl'' ! a) = m_index (sl' ! a) \<and> m_group (sl'' ! a) = m_group (sl' ! a)" if "a \<in> set slts'" for a
    proof -
      have "a \<notin> set (all_slots gs)" using that d assms(5) by blast
      then show ?thesis using assms(6) by (simp add: keeps_def)
    qed
  qed
  moreover have "\<forall>x \<in> set gs'. g < snd x"
  proof -
    have "\<forall>y \<in> set (map snd gs). g < y"
      using assms(1) by (simp add: groups_wf_Cons)
    moreover have "map snd gs = map snd gs'"
      using assms(6) by (simp add: keeps_def)
    ultimately have "\<forall>y \<in> set (map snd gs'). g < y"
      by (simp only:)
    then show ?thesis by simp
  qed
  ultimately have "groups_wf sl'' ((slts', g) # gs')"
    using assms(6) by (simp add: keeps_def groups_wf_Cons)
  moreover have "sl'' ! b = sl ! b" if "b \<notin> set (all_slots ((slts, g) # gs))" for b
    using assms(4,6) that by (simp add: keeps_def)
  ultimately show ?thesis
    using assms(6) same_but_index_trans [OF assms(3), of sl''] by (simp add: keeps_def)
qed

lemma keeps_refl: "groups_wf sl gs \<Longrightarrow> keeps sl gs sl gs"
  by (simp add: keeps_def)

lemma clean_groups_spec:
  assumes "groups_wf sl gs" and "clean_groups (m_index (sl ! a)) (m_group (sl ! a)) a gs sl = (gs', sl')"
  shows "keeps sl gs sl' gs' \<and> set (all_slots gs') = set (all_slots gs) - {a}"
  using assms
proof (induction gs arbitrary: gs')
  case (Cons x gs)
  obtain slts g where x: "x = (slts, g)" by (cases x)
  let ?i = "m_index (sl ! a)"
  have wf: "group_wf sl slts g" "groups_wf sl gs"
    using Cons.prems(1) x by (simp_all add: groups_wf_Cons)
  have d: "set slts \<inter> set (all_slots gs) = {}"
    using groups_disjoint Cons.prems(1) x by blast
  show ?case
  proof (cases "g = m_group (sl ! a)")
    case False
    then obtain gs1 where gs1: "clean_groups ?i (m_group (sl ! a)) a gs sl = (gs1, sl')" "gs' = (slts, g) # gs1"
      using Cons.prems(2) x by (auto split: prod.splits)
    have "a \<notin> set slts"
      using in_own_group [OF wf(1)] False by blast
    then show ?thesis
      using Cons.IH [OF wf(2) gs1(1)] keeps_Cons [OF Cons.prems(1) [unfolded x] wf(1)] gs1(2) x by auto
  next
    case True
    have "a \<notin> set (all_slots gs)"
      using in_group [OF wf(2)] True Cons.prems(1) x by (force simp: groups_wf_Cons)
    show ?thesis
    proof (cases "?i < length slts \<and> slts ! ?i = a")
      case hit: True
      then have e: "gs' = (fst (swap_remove ?i slts sl), g) # gs" "sl' = snd (swap_remove ?i slts sl)"
        using Cons.prems(2) x True by (auto split: prod.splits)
      have r: "set (fst (swap_remove ?i slts sl)) = set slts - {a}"
        using mset_swap_remove [of ?i slts sl] group_wf_distinct [OF wf(1)] hit by auto
      have f: "sl' ! b = sl ! b" if "b \<notin> set slts" for b
        using swap_remove_frame [of ?i slts b sl] hit that e(2) by simp
      have "groups_wf sl' gs"
      proof (rule groups_wf_frame [OF wf(2)])
        show "length sl \<le> length sl'"
          using same_but_index_length [OF swap_remove_same [of sl ?i slts]] e(2) by simp
        show "m_index (sl' ! b) = m_index (sl ! b) \<and> m_group (sl' ! b) = m_group (sl ! b)" if "b \<in> set (all_slots gs)" for b
          using f [of b] d that by fastforce
      qed
      then have "keeps sl ((slts, g) # gs) sl' gs'"
        using keeps_Cons [OF Cons.prems(1) [unfolded x], of sl' "fst (swap_remove ?i slts sl)" sl' gs] keeps_refl
          swap_remove_wf [OF wf(1), of ?i] swap_remove_same [of sl ?i slts] hit f r e by auto
      then show ?thesis
        using r e x \<open>a \<notin> set (all_slots gs)\<close> by auto
    next
      case miss: False
      then have "gs' = (slts, g) # gs" "sl' = sl"
        using Cons.prems(2) x True by auto
      moreover have "a \<notin> set slts"
        using in_own_group [OF wf(1)] miss by blast
      ultimately show ?thesis
        using keeps_refl [OF Cons.prems(1)] x \<open>a \<notin> set (all_slots gs)\<close> by simp
    qed
  qed
qed (simp add: keeps_refl)

lemma remove_if_spec:
  assumes "\<And>s. cond (strip s) = cond s" and "group_wf sl slts g" and "remove_if cond n i slts sl = (m, slts', sl')"
  shows "group_wf sl' slts' g \<and> same_but_index sl sl' \<and> (\<forall>b. b \<notin> set slts \<longrightarrow> sl' ! b = sl ! b)
    \<and> set slts' = set slts - {a \<in> set (drop i slts). cond (sl ! a)} \<and> m + length slts' = n + length slts"
  using assms
proof (induction cond n i slts sl rule: remove_if.induct)
  case (1 cond n i slts sl)
  note wf = "1.prems"(2)
  show ?case
  proof (cases "i < length slts")
    case i: True
    then have dr: "drop i slts = slts ! i # drop (Suc i) slts"
      by (simp add: Cons_nth_drop_Suc)
    show ?thesis
    proof (cases "cond (sl ! (slts ! i))")
      case c: True
      let ?slts = "fst (swap_remove i slts sl)" and ?sl = "snd (swap_remove i slts sl)"
      have "remove_if cond (n + 1) i ?slts ?sl = (m, slts', sl')"
        using "1.prems"(3) i c by (subst (asm) remove_if.simps) (simp add: case_prod_beta)
      note IH = "1.IH"(1) [OF i c refl prod.collapse "1.prems"(1) swap_remove_wf [OF wf i] this]
      have d: "distinct slts" using group_wf_distinct [OF wf] .
      have s: "set ?slts = set slts - {slts ! i}"
        using mset_swap_remove [OF i d, of sl] by simp
      have drs: "set (drop i ?slts) = set (drop (Suc i) slts)"
      proof -
        have "fst (swap_remove i slts sl) = take i slts @ drop i ?slts"
        proof (rule nth_equalityI)
          show "length ?slts = length (take i slts @ drop i ?slts)" using i by simp
          show "?slts ! j = (take i slts @ drop i ?slts) ! j" if "j < length ?slts" for j
            using swap_remove_nth [OF i, of j sl] that i by (auto simp: nth_append)
        qed
        then have "set ?slts = set (take i slts) \<union> set (drop i ?slts)" "distinct (take i slts @ drop i ?slts)"
          using mset_swap_remove [OF i d, of sl] by (metis set_append)+
        moreover have "slts = take i slts @ slts ! i # drop (Suc i) slts"
          using i by (simp add: id_take_nth_drop)
        then have "set slts = insert (slts ! i) (set (take i slts) \<union> set (drop (Suc i) slts))" "distinct (take i slts @ slts ! i # drop (Suc i) slts)"
          using d by (metis Un_insert_right list.simps(15) set_append) (metis d \<open>slts = _\<close>)
        ultimately show ?thesis
          using s by auto
      qed
      have same: "cond (?sl ! a) = cond (sl ! a)" if "a \<in> set slts" for a
        using same_but_index_nth [OF swap_remove_same] in_own_group [OF wf that] "1.prems"(1) by metis
      show ?thesis
        using IH s drs dr c same same_but_index_trans [OF swap_remove_same [of sl i slts]] swap_remove_frame [OF i] i d
        by (auto dest: in_set_dropD)
    next
      case c: False
      then have "remove_if cond n (i + 1) slts sl = (m, slts', sl')"
        using "1.prems"(3) i by (subst (asm) remove_if.simps) simp
      then show ?thesis
        using "1.IH"(2) [OF i c "1.prems"(1) wf] dr c by auto
    qed
  next
    case False
    then show ?thesis
      using "1.prems" by (simp add: remove_if.simps [of cond n i])
  qed
qed

lemma remove_groups_spec:
  assumes "\<And>s. cond (strip s) = cond s" and "groups_wf sl gs" and "remove_groups cond n gs sl = (m, gs', sl')"
  shows "keeps sl gs sl' gs' \<and> set (all_slots gs') = {a \<in> set (all_slots gs). \<not> cond (sl ! a)}
    \<and> m + length (all_slots gs') = n + length (all_slots gs)"
  using assms(2,3)
proof (induction gs arbitrary: n sl gs' m sl')
  case (Cons x gs)
  obtain slts g where x: "x = (slts, g)" by (cases x)
  have wf: "group_wf sl slts g" "groups_wf sl gs"
    using Cons.prems(1) x by (simp_all add: groups_wf_Cons)
  have d: "set slts \<inter> set (all_slots gs) = {}"
    using groups_disjoint Cons.prems(1) x by blast
  obtain n1 slts1 sl1 where r1: "remove_if cond n 0 slts sl = (n1, slts1, sl1)" by (cases "remove_if cond n 0 slts sl")
  obtain m1 gs1 sl2 where r2: "remove_groups cond n1 gs sl1 = (m1, gs1, sl2)" by (cases "remove_groups cond n1 gs sl1")
  have e: "m = m1" "gs' = (slts1, g) # gs1" "sl' = sl2"
    using Cons.prems(2) x r1 r2 by (auto simp: Let_def)
  note s = remove_if_spec [OF assms(1) wf(1) r1]
  have f: "sl1 ! b = sl ! b" if "b \<in> set (all_slots gs)" for b
    using s d that by auto
  have "groups_wf sl1 gs"
    using same_but_index_length [of sl sl1] s f by (intro groups_wf_frame [OF wf(2)]) auto
  note IH = Cons.IH [OF this r2]
  have "keeps sl ((slts, g) # gs) sl2 ((slts1, g) # gs1)"
    using keeps_Cons [OF Cons.prems(1) [unfolded x]] s IH by auto
  moreover have "{a \<in> set (all_slots gs). \<not> cond (sl1 ! a)} = {a \<in> set (all_slots gs). \<not> cond (sl ! a)}"
    using f by auto
  ultimately show ?case
    using IH s e x by auto
qed (simp add: keeps_refl)

lemma clear_group_spec:
  assumes "groups_wf sl gs" and "clear_group gid gs = (n, gs')"
  shows "groups_wf sl gs' \<and> map snd gs' = map snd gs \<and> n + length (all_slots gs') = length (all_slots gs)
    \<and> set (all_slots gs') = {a \<in> set (all_slots gs). m_group (sl ! a) \<noteq> gid}"
  using assms
proof (induction gs arbitrary: gs' n)
  case (Cons x gs)
  obtain slts g where x: "x = (slts, g)" by (cases x)
  have wf: "group_wf sl slts g" "groups_wf sl gs" "\<forall>y \<in> set (map snd gs). g < y"
    using Cons.prems(1) x by (simp_all add: groups_wf_Cons)
  have g: "m_group (sl ! a) = g" if "a \<in> set slts" for a
    using in_own_group [OF wf(1) that] by simp
  show ?case
  proof (cases "g = gid")
    case True
    have "m_group (sl ! a) \<noteq> g" if "a \<in> set (all_slots gs)" for a
      using in_group [OF wf(2) that] wf(3) by auto
    then have "{a. (a \<in> set slts \<or> a \<in> set (all_slots gs)) \<and> m_group (sl ! a) \<noteq> g} = set (all_slots gs)"
      using g by auto
    moreover have "groups_wf sl (([], g) # gs)"
      using wf by (simp add: groups_wf_Cons group_wf_def)
    moreover have "gs' = ([], g) # gs" "n = length slts"
      using True Cons.prems(2) x by auto
    ultimately show ?thesis
      by (simp add: x True [symmetric])
  next
    case False
    then obtain gs1 where gs1: "clear_group gid gs = (n, gs1)" "gs' = (slts, g) # gs1"
      using Cons.prems(2) x by (auto split: prod.splits)
    note IH = Cons.IH [OF wf(2) gs1(1)]
    have "\<forall>y \<in> set (map snd gs1). g < y"
      using IH wf(3) by (simp only:)
    then have "\<forall>y \<in> set gs1. g < snd y"
      by (metis imageI list.set_map)
    then have "groups_wf sl gs'"
      using IH gs1(2) wf(1) by (simp add: groups_wf_Cons)
    then show ?thesis
      using IH gs1(2) x g False by auto
  qed
qed simp

lemma insert_slot_spec:
  assumes "groups_wf sl gs" and "insert_slot a gid gs = (i, gs')" and "a \<notin> set (all_slots gs)" and "a < length sl" and "m_group (sl ! a) = gid"
  shows "groups_wf (set_index a i sl) gs' \<and> set (all_slots gs') = insert a (set (all_slots gs))
    \<and> snd ` set gs' = insert gid (snd ` set gs)"
  using assms
proof (induction gs arbitrary: gs' i)
  case Nil
  then show ?case by (auto simp: groups_wf_def group_wf_def set_index_def)
next
  case (Cons x gs)
  obtain slts g where x: "x = (slts, g)" by (cases x)
  have wf: "group_wf sl slts g" "groups_wf sl gs" "\<forall>y \<in> snd ` set gs. g < y"
    using Cons.prems(1) x by (simp_all add: groups_wf_Cons)
  have a: "a \<notin> set slts" "a \<notin> set (all_slots gs)"
    using Cons.prems(3) x by simp_all
  have off: "set_index a j sl ! b = sl ! b" if "b \<noteq> a" for b j
    using that by (simp add: set_index_def)
  have l: "length (set_index a j sl) = length sl" for j
    by (simp add: set_index_def)
  have wf1: "group_wf (set_index a j sl) slts g" for j
    using group_wf_frame [OF wf(1), of "set_index a j sl"] l off a(1) by (metis order_refl)
  have wf2: "groups_wf (set_index a j sl) gs" for j
    using groups_wf_frame [OF wf(2), of "set_index a j sl"] l off a(2) by (metis order_refl)
  have own: "m_index (set_index a j sl ! a) = j" "m_group (set_index a j sl ! a) = gid" for j
    using Cons.prems(4,5) by (simp_all add: set_index_def)
  consider "g < gid" | "gid < g" | "g = gid" by linarith
  then show ?case
  proof cases
    case 1
    then obtain gs1 where gs1: "insert_slot a gid gs = (i, gs1)" "gs' = (slts, g) # gs1"
      using Cons.prems(2) x by (auto split: prod.splits)
    note IH = Cons.IH [OF wf(2) gs1(1) a(2) Cons.prems(4,5)]
    have "\<forall>y \<in> snd ` set gs1. g < y"
      using IH wf(3) 1 by simp
    then have "\<forall>y \<in> set gs1. g < snd y"
      by blast
    then have "groups_wf (set_index a i sl) gs'"
      using IH gs1(2) wf1 by (simp add: groups_wf_Cons)
    then show ?thesis
      using IH gs1(2) x by auto
  next
    case 2
    then have "\<forall>y \<in> set gs. gid < snd y"
      using wf(3) by (auto intro: less_trans)
    then show ?thesis
      using 2 Cons.prems(2,4) x wf1 wf2 wf(3) own l by (auto simp: groups_wf_Cons group_wf_def [of _ "[a]"])
  next
    case 3
    then have e: "i = length slts" "gs' = (slts @ [a], g) # gs"
      using Cons.prems(2) x by auto
    have "group_wf (set_index a i sl) (slts @ [a]) g"
      using wf1 [of i] own [of i] l Cons.prems(4) 3 e(1) by (auto simp: group_wf_def nth_append less_Suc_eq)
    then show ?thesis
      using e wf2 wf(3) 3 x by (auto simp: groups_wf_Cons)
  qed
qed

end
