(* ===== verification/Sig_Signals.thy ===== *)
theory Sig_Signals
  imports Sig_Invariant
begin

text \<open>
  The theorems on the signal library: every operation keeps the invariant, in any order and so under any interleaving of
  threads; what a disconnection removes; what an emission calls.
\<close>

section \<open>Worlds\<close>

named_theorems sig_wf \<open>operations keep the invariant\<close>

lemma signal_at_put [simp]:
  "signal_at (put_signal g s w) h = (if h = g \<and> g < length (signals w) then s else signal_at w h)"
  by (auto simp: signal_at_def put_signal_def nth_list_update)

lemma signal_at_bound: "signal_at w g = Some sg \<Longrightarrow> g < length (signals w)"
  by (simp add: signal_at_def split: if_splits)

lemma signal_at_slots [simp]: "signal_at (w\<lparr>slots := sl\<rparr>) g = signal_at w g" "signal_at (w\<lparr>pinned := p\<rparr>) g = signal_at w g"
  "signal_at (w\<lparr>app := x\<rparr>) g = signal_at w g" "signal_at (w\<lparr>gone := y\<rparr>) g = signal_at w g"
  "signal_at (w\<lparr>observers := z\<rparr>) g = signal_at w g" "signal_at (put_slot a f w) g = signal_at w g"
  by (simp_all add: signal_at_def put_slot_def)

lemma put_signal_simps [simp]: "slots (put_signal g s w) = slots w" "pinned (put_signal g s w) = pinned w" "app (put_signal g s w) = app w"
  "gone (put_signal g s w) = gone w" "length (signals (put_signal g s w)) = length (signals w)"
  by (simp_all add: put_signal_def)

lemma wf_other [sig_wf]:
  "world_wf w \<Longrightarrow> world_wf (w\<lparr>pinned := p\<rparr>)" "world_wf w \<Longrightarrow> world_wf (w\<lparr>app := x\<rparr>)"
  "world_wf w \<Longrightarrow> world_wf (w\<lparr>gone := y\<rparr>)" "world_wf w \<Longrightarrow> world_wf (w\<lparr>observers := z\<rparr>)"
  by (auto simp: world_wf_def)

lemma wf_groups: "world_wf w \<Longrightarrow> signal_at w g = Some sg \<Longrightarrow> groups_wf (slots w) (m_slots sg)"
  by (simp add: world_wf_def)

lemma wf_disjoint:
  "world_wf w \<Longrightarrow> signal_at w g = Some sg \<Longrightarrow> signal_at w h = Some sh \<Longrightarrow> g \<noteq> h \<Longrightarrow> a \<in> set (all_slots (m_slots sg)) \<Longrightarrow>
     a \<notin> set (all_slots (m_slots sh))"
  unfolding world_wf_def by blast

lemma wf_signal:
  assumes "world_wf w" and "signal_at w g = Some sg" and "groups_wf sl' (m_slots sg')" and "length (slots w) \<le> length sl'"
    and "\<And>b. b < length (slots w) \<Longrightarrow> b \<notin> set (all_slots (m_slots sg)) \<Longrightarrow> sl' ! b = slots w ! b"
    and "\<And>b. b \<in> set (all_slots (m_slots sg')) \<Longrightarrow> b \<in> set (all_slots (m_slots sg)) \<or> length (slots w) \<le> b"
  shows "world_wf (put_signal g (Some sg') (w\<lparr>slots := sl'\<rparr>))"
proof -
  let ?w = "put_signal g (Some sg') (w\<lparr>slots := sl'\<rparr>)"
  have g: "g < length (signals w)"
    using signal_at_bound [OF assms(2)] .
  have at: "signal_at ?w h = (if h = g then Some sg' else signal_at w h)" for h
    using g by simp
  have bound: "b < length (slots w)" if "signal_at w h = Some sh" "b \<in> set (all_slots (m_slots sh))" for h sh b
    using in_group [OF wf_groups [OF assms(1) that(1)] that(2)] by simp
  have new: "b \<notin> set (all_slots (m_slots sg'))" if h: "signal_at w h = Some sh" "h \<noteq> g" and b: "b \<in> set (all_slots (m_slots sh))" for h sh b
    using wf_disjoint [OF assms(1) h(1) assms(2) h(2) b] bound [OF h(1) b] assms(6) [of b] by auto
  have "groups_wf sl' (m_slots sh)" if h: "signal_at w h = Some sh" "h \<noteq> g" for h sh
  proof (rule groups_wf_frame [OF wf_groups [OF assms(1) h(1)] assms(4)])
    fix b
    assume b: "b \<in> set (all_slots (m_slots sh))"
    show "m_index (sl' ! b) = m_index (slots w ! b) \<and> m_group (sl' ! b) = m_group (slots w ! b)"
      using assms(5) [OF bound [OF h(1) b] wf_disjoint [OF assms(1) h(1) assms(2) h(2) b]] by simp
  qed
  then show ?thesis
    using assms(1,3) new at unfolding world_wf_def by (auto split: if_splits)
qed

lemma update_field: "(\<And>s. p (f s) = p s) \<Longrightarrow> p (xs[a := f (xs ! a)] ! b) = p (xs ! b)"
  by (cases "a < length xs"; cases "b = a") (simp_all add: list_update_beyond)

lemma wf_put_slot:
  assumes "world_wf w" and "\<And>s. m_index (f s) = m_index s \<and> m_group (f s) = m_group s"
  shows "world_wf (put_slot a f w)"
proof -
  have "groups_wf (slots (put_slot a f w)) (m_slots sg)" if "signal_at w g = Some sg" for g sg
    by (rule groups_wf_frame [OF wf_groups [OF assms(1) that]]) (simp_all add: put_slot_def update_field assms(2))
  then show ?thesis
    using assms(1) by (auto simp: world_wf_def)
qed

section \<open>Every operation keeps the invariant\<close>

lemma keeps_all: "keeps sl gs sl' gs' \<Longrightarrow> length sl' = length sl"
  by (auto simp: keeps_def dest: same_but_index_length)

lemma clean_result:
  assumes "world_wf w" and "signal_at w g = Some sg"
  shows "\<exists>gs sl. clean g a w = Some (put_signal g (Some (sg\<lparr>m_slots := gs\<rparr>)) (w\<lparr>slots := sl\<rparr>))
    \<and> keeps (slots w) (m_slots sg) sl gs \<and> set (all_slots gs) = set (all_slots (m_slots sg)) - {a}"
proof -
  obtain gs sl where c: "clean_groups (m_index (slots w ! a)) (m_group (slots w ! a)) a (m_slots sg) (slots w) = (gs, sl)"
    by (cases "clean_groups (m_index (slots w ! a)) (m_group (slots w ! a)) a (m_slots sg) (slots w)")
  then show ?thesis
    using clean_groups_spec [OF wf_groups [OF assms] c] assms(2)
    by (intro exI [of _ gs] exI [of _ sl]) (simp add: clean_def)
qed

lemma wf_clean [sig_wf]:
  assumes "world_wf w" and "clean g a w = Some w'"
  shows "world_wf w'"
proof -
  obtain sg where s: "signal_at w g = Some sg"
    using assms(2) by (auto simp: clean_def split: option.splits)
  obtain gs sl where r: "w' = put_signal g (Some (sg\<lparr>m_slots := gs\<rparr>)) (w\<lparr>slots := sl\<rparr>)" "keeps (slots w) (m_slots sg) sl gs"
      "set (all_slots gs) = set (all_slots (m_slots sg)) - {a}"
    using clean_result [OF assms(1) s, of a] assms(2) by auto
  show ?thesis
    unfolding r(1) using r(2,3) keeps_all [OF r(2)] by (intro wf_signal [OF assms(1) s]) (auto simp: keeps_def)
qed

lemma wf_slot_disconnect [sig_wf]:
  assumes "world_wf w" and "slot_disconnect a w = Some (r, w')"
  shows "world_wf w'"
proof -
  have "world_wf (put_slot a (\<lambda>s. s\<lparr>m_connected := False\<rparr>) w)"
    using assms(1) by (rule wf_put_slot) simp
  then show ?thesis
    using assms wf_clean by (auto simp: slot_disconnect_def split: if_splits)
qed

lemma wf_connection_disconnect [sig_wf]: "world_wf w \<Longrightarrow> connection_disconnect c w = Some (r, w') \<Longrightarrow> world_wf w'"
  by (auto simp: connection_disconnect_def split: option.splits intro: wf_slot_disconnect)

lemma wf_connection_block [sig_wf]: "world_wf w \<Longrightarrow> world_wf (connection_block c w)" "world_wf w \<Longrightarrow> world_wf (connection_unblock c w)"
  by (auto simp: connection_block_def connection_unblock_def slot_block_def slot_unblock_def split: option.splits intro: wf_put_slot)

text \<open>The slot lists of a world among those of another, each of a signal of its own.\<close>

lemma wf_sub:
  assumes "world_wf w" and "slots w' = slots w"
    and "\<And>g sg. signal_at w' g = Some sg \<Longrightarrow> m_slots sg \<noteq> [] \<Longrightarrow> \<exists>sg'. signal_at w (f g) = Some sg' \<and> m_slots sg' = m_slots sg"
    and "\<And>g h sg sh. signal_at w' g = Some sg \<Longrightarrow> signal_at w' h = Some sh \<Longrightarrow> m_slots sg \<noteq> [] \<Longrightarrow> m_slots sh \<noteq> [] \<Longrightarrow> g \<noteq> h \<Longrightarrow> f g \<noteq> f h"
  shows "world_wf w'"
  unfolding world_wf_def
proof (intro conjI allI impI)
  fix g sg
  assume s: "signal_at w' g = Some sg"
  show "groups_wf (slots w') (m_slots sg)"
  proof (cases "m_slots sg = []")
    case False
    then obtain sg' where "signal_at w (f g) = Some sg'" "m_slots sg' = m_slots sg"
      using assms(3) [OF s] by blast
    then show ?thesis
      using wf_groups [OF assms(1), of "f g" sg'] assms(2) by simp
  qed (simp add: groups_wf_def)
next
  fix g h sg sh
  assume s: "signal_at w' g = Some sg" "signal_at w' h = Some sh" "g \<noteq> h"
  show "set (all_slots (m_slots sg)) \<inter> set (all_slots (m_slots sh)) = {}"
  proof (cases "m_slots sg = [] \<or> m_slots sh = []")
    case False
    then obtain sg' sh' where e: "signal_at w (f g) = Some sg'" "m_slots sg' = m_slots sg" "signal_at w (f h) = Some sh'" "m_slots sh' = m_slots sh"
      using assms(3) s by meson
    have "f g \<noteq> f h"
      using assms(4) [OF s(1,2)] s(3) False by blast
    then show ?thesis
      using wf_disjoint [OF assms(1) e(1,3)] e(2,4) by auto
  qed auto
qed

lemma wf_new_signal [sig_wf]: "world_wf w \<Longrightarrow> world_wf (snd (new_signal w))"
  by (erule wf_sub [where f = id]) (auto simp: signal_at_def new_signal_def nth_append split: if_splits)

lemma wf_on_signal:
  assumes "world_wf w" and "on_signal g f w = Some w'" and "\<And>sg. m_slots (f sg) = [] \<or> m_slots (f sg) = m_slots sg"
  shows "world_wf w'"
proof -
  obtain sg where s: "signal_at w g = Some sg" "w' = put_signal g (Some (f sg)) w"
    using assms(2) by (auto simp: on_signal_def)
  show ?thesis
    using assms(1) by (rule wf_sub [where f = id]) (use s assms(3) [of sg] signal_at_bound [OF s(1)] in \<open>auto split: if_splits\<close>)
qed

lemma wf_signal_ops [sig_wf]:
  assumes "world_wf w"
  shows "signal_block g w = Some w' \<Longrightarrow> world_wf w'" "signal_unblock g w = Some w' \<Longrightarrow> world_wf w'" "disconnect_all g w = Some w' \<Longrightarrow> world_wf w'"
  using wf_on_signal [OF assms] unfolding signal_block_def signal_unblock_def disconnect_all_def by fastforce+

lemma wf_destroy [sig_wf]:
  assumes "world_wf w" and "destroy_signal g w = Some w'"
  shows "world_wf w'"
  using assms(1) by (rule wf_sub [where f = id])
    (use assms(2) in \<open>auto simp: destroy_signal_def disconnect_all_def on_signal_def split: if_splits\<close>)

lemma wf_move_construct [sig_wf]:
  assumes "world_wf w" and "move_construct g w = Some (h, w')"
  shows "world_wf w'"
  using assms(1) by (rule wf_sub [where f = "\<lambda>x. if x = length (signals w) then g else x"])
    (use assms(2) in \<open>auto simp: move_construct_def signal_at_def nth_append nth_list_update split: if_splits option.splits\<close>)

lemma wf_move_assign [sig_wf]:
  assumes "world_wf w" and "move_assign g h w = Some w'"
  shows "world_wf w'"
  using assms(1) by (rule wf_sub [where f = "\<lambda>x. if x = g then h else if x = h then g else x"])
    (use assms(2) in \<open>auto simp: move_assign_def signal_at_def nth_list_update split: if_splits option.splits\<close>)

lemma wf_disconnect_group [sig_wf]:
  assumes "world_wf w" and "disconnect_group g gid w = Some (n, w')"
  shows "world_wf w'"
proof -
  obtain sg gs where s: "signal_at w g = Some sg" "clear_group gid (m_slots sg) = (n, gs)" "w' = put_signal g (Some (sg\<lparr>m_slots := gs\<rparr>)) w"
    using assms(2) by (auto simp: disconnect_group_def case_prod_beta intro: prod.collapse [symmetric])
  have "w' = put_signal g (Some (sg\<lparr>m_slots := gs\<rparr>)) (w\<lparr>slots := slots w\<rparr>)"
    using s(3) by simp
  then show ?thesis
    using clear_group_spec [OF wf_groups [OF assms(1) s(1)] s(2)] by (simp only:) (intro wf_signal [OF assms(1) s(1)], auto)
qed

lemma disconnect_if_result:
  assumes "world_wf w" and "signal_at w g = Some sg" and "\<And>s. cond (strip s) = cond s" and "disconnect_if cond g w = Some (n, w')"
  shows "\<exists>gs sl. w' = put_signal g (Some (sg\<lparr>m_slots := gs\<rparr>)) (w\<lparr>slots := sl\<rparr>) \<and> keeps (slots w) (m_slots sg) sl gs
    \<and> set (all_slots gs) = {a \<in> set (all_slots (m_slots sg)). \<not> cond (slots w ! a)}
    \<and> n + length (all_slots gs) = length (all_slots (m_slots sg))"
proof -
  obtain gs sl where c: "remove_groups cond 0 (m_slots sg) (slots w) = (n, gs, sl)"
      "w' = put_signal g (Some (sg\<lparr>m_slots := gs\<rparr>)) (w\<lparr>slots := sl\<rparr>)"
    using assms(2,4) by (auto simp: disconnect_if_def split: prod.splits)
  then show ?thesis
    using remove_groups_spec [OF assms(3) wf_groups [OF assms(1,2)] c(1)] by auto
qed

lemma wf_disconnect_if [sig_wf]:
  assumes "world_wf w" and "disconnect_if cond g w = Some (n, w')" and "\<And>s. cond (strip s) = cond s"
  shows "world_wf w'"
proof -
  obtain sg where s: "signal_at w g = Some sg"
    using assms(2) by (auto simp: disconnect_if_def split: option.splits)
  obtain gs sl where r: "w' = put_signal g (Some (sg\<lparr>m_slots := gs\<rparr>)) (w\<lparr>slots := sl\<rparr>)" "keeps (slots w) (m_slots sg) sl gs"
      "set (all_slots gs) = {a \<in> set (all_slots (m_slots sg)). \<not> cond (slots w ! a)}"
    using disconnect_if_result [OF assms(1) s assms(3,2)] by blast
  show ?thesis
    unfolding r(1) using r(2,3) keeps_all [OF r(2)] by (intro wf_signal [OF assms(1) s]) (auto simp: keeps_def)
qed

lemma connect_slot_result:
  assumes "world_wf w" and "connect_slot g f x track ext gid w = Some (c, w')"
  shows "\<exists>sg i gs. signal_at w g = Some sg \<and> insert_slot (length (slots w)) gid (m_slots sg) = (i, gs) \<and> c = Some (length (slots w))
    \<and> (\<exists>sl. w' = put_signal g (Some (sg\<lparr>m_slots := gs\<rparr>)) (w\<lparr>slots := sl\<rparr>) \<and> length sl = Suc (length (slots w)) \<and> groups_wf sl gs
        \<and> (\<forall>b < length (slots w). sl ! b = slots w ! b))
    \<and> set (all_slots gs) = insert (length (slots w)) (set (all_slots (m_slots sg)))"
proof -
  let ?n = "length (slots w)"
  let ?s = "\<lparr>m_index = 0, m_group = gid, m_connected = True, m_blocked = False, cleaner = g, func = f, ptr = x, tracked = track, extended = ext\<rparr>"
  obtain sg i gs where s: "signal_at w g = Some sg" "insert_slot ?n gid (m_slots sg) = (i, gs)" "c = Some ?n"
      "w' = put_signal g (Some (sg\<lparr>m_slots := gs\<rparr>)) (w\<lparr>slots := set_index ?n i (slots w @ [?s])\<rparr>)"
    using assms(2) by (auto simp: connect_slot_def make_slot_def add_slot_def split: option.splits prod.splits)
  have wf: "groups_wf (slots w @ [?s]) (m_slots sg)"
    by (rule groups_wf_frame [OF wf_groups [OF assms(1) s(1)]])
      (use in_group [OF wf_groups [OF assms(1) s(1)]] in \<open>auto simp: nth_append\<close>)
  have "?n \<notin> set (all_slots (m_slots sg))"
    using in_group [OF wf_groups [OF assms(1) s(1)], of ?n] by auto
  then show ?thesis
    using insert_slot_spec [OF wf s(2)] s by (auto simp: set_index_def nth_append nth_list_update)
qed

lemma wf_connect_slot [sig_wf]:
  assumes "world_wf w" and "connect_slot g f x track ext gid w = Some (c, w')"
  shows "world_wf w'"
proof -
  obtain sg gs sl where r: "signal_at w g = Some sg" "w' = put_signal g (Some (sg\<lparr>m_slots := gs\<rparr>)) (w\<lparr>slots := sl\<rparr>)"
      "length sl = Suc (length (slots w))" "groups_wf sl gs" "\<forall>b < length (slots w). sl ! b = slots w ! b"
      "set (all_slots gs) = insert (length (slots w)) (set (all_slots (m_slots sg)))"
    using connect_slot_result [OF assms] by blast
  show ?thesis
    unfolding r(2) by (rule wf_signal [OF assms(1) r(1)]) (use r in auto)
qed

lemma wf_scoped_destroy_all: "world_wf w \<Longrightarrow> scoped_destroy_all cs w = Some w' \<Longrightarrow> world_wf w'"
  by (induction cs arbitrary: w) (auto simp: scoped_destroy_def split: option.splits dest: wf_connection_disconnect)

section \<open>Runs\<close>

text \<open>What the threads of a program can do, one operation under a mutex at a time. An emission is the copying of the slot
  lists, calls of slots, and the release of the copy; a slot whose object is gone disconnects itself; what slots do otherwise
  are operations and changes of the application.\<close>

inductive sig_step :: "('o, 'a) world \<Rightarrow> ('o, 'a) world \<Rightarrow> bool" where
  new_signal: "sig_step w (snd (new_signal w))"
| move_construct: "move_construct g w = Some (h, w') \<Longrightarrow> sig_step w w'"
| move_assign: "move_assign g h w = Some w' \<Longrightarrow> sig_step w w'"
| destroy_signal: "destroy_signal g w = Some w' \<Longrightarrow> sig_step w w'"
| signal_block: "signal_block g w = Some w' \<Longrightarrow> sig_step w w'"
| signal_unblock: "signal_unblock g w = Some w' \<Longrightarrow> sig_step w w'"
| connect: "connect_slot g f x track ext gid w = Some (c, w') \<Longrightarrow> sig_step w w'"
| add_connection: "sig_step w (add_connection x c w)"
| disconnect_callable: "disconnect_callable c g w = Some (n, w') \<Longrightarrow> sig_step w w'"
| disconnect_object: "disconnect_object x g w = Some (n, w') \<Longrightarrow> sig_step w w'"
| disconnect_both: "disconnect_both c x g w = Some (n, w') \<Longrightarrow> sig_step w w'"
| disconnect_group: "disconnect_group g gid w = Some (n, w') \<Longrightarrow> sig_step w w'"
| disconnect_all: "disconnect_all g w = Some w' \<Longrightarrow> sig_step w w'"
| connection_disconnect: "connection_disconnect c w = Some (r, w') \<Longrightarrow> sig_step w w'"
| slot_disconnect: "slot_disconnect a w = Some (r, w') \<Longrightarrow> sig_step w w'"
| connection_block: "sig_step w (connection_block c w)"
| connection_unblock: "sig_step w (connection_unblock c w)"
| observer_disconnect_all: "observer_disconnect_all x w = Some w' \<Longrightarrow> sig_step w w'"
| begin_emission: "signal_at w g = Some sg \<Longrightarrow> sig_step w (w\<lparr>pinned := all_slots (m_slots sg) # pinned w\<rparr>)"
| end_emission: "sig_step w (w\<lparr>pinned := tl (pinned w)\<rparr>)"
| application: "sig_step w (w\<lparr>app := y, gone := z\<rparr>)"

lemma strip_conditions:
  "has_full_callable c (strip s) = has_full_callable c s" "has_object w x (strip s) = has_object w x s" "has_callable c (strip s) = has_callable c s"
  by (simp_all add: has_full_callable_def has_callable_def has_object_def get_object_def strip_def split: option.splits)

lemma wf_sig_step: "sig_step w w' \<Longrightarrow> world_wf w \<Longrightarrow> world_wf w'"
proof (induction rule: sig_step.induct)
  case (disconnect_callable c g w n w')
  then show ?case
    using wf_disconnect_if [of w "has_full_callable c" g n w'] by (simp add: disconnect_callable_def strip_conditions)
next
  case (disconnect_object x g w n w')
  then show ?case
    using wf_disconnect_if [of w "has_object w x" g n w'] by (simp add: disconnect_object_def strip_conditions)
next
  case (disconnect_both c x g w n w')
  then show ?case
    using wf_disconnect_if [of w "\<lambda>s. has_object w x s \<and> has_callable c s" g n w'] by (simp add: disconnect_both_def strip_conditions)
next
  case (observer_disconnect_all x w w')
  then show ?case
    using wf_scoped_destroy_all [OF wf_other(4)] by (simp add: observer_disconnect_all_def)
next
  case (add_connection w x c)
  then show ?case
    unfolding add_connection_def by (rule wf_other(4))
next
  case (application w y z)
  then show ?case
    by (intro wf_other)
qed (auto intro: sig_wf)

definition empty_world :: "'a \<Rightarrow> ('o, 'a) world" where
  "empty_world x = \<lparr>slots = [], signals = [], pinned = [], observers = (\<lambda>_. []), gone = (\<lambda>_. False), app = x\<rparr>"

text \<open>C13. The slot lists stay consistent. After any sequence of operations, in any interleaving of threads, the groups of each signal
  are in ascending order, every slot of a group has its position as its index and the group's id as its group, no slot
  is twice in a signal or in two signals.\<close>

theorem signals_invariant:
  assumes "sig_step\<^sup>*\<^sup>* (empty_world x) w" and "signal_at w g = Some sg"
  shows "sorted_wrt (<) (map snd (m_slots sg)) \<and> distinct (all_slots (m_slots sg))
    \<and> (\<forall>(slts, gid) \<in> set (m_slots sg). \<forall>i < length slts. m_index (slots w ! (slts ! i)) = i \<and> m_group (slots w ! (slts ! i)) = gid)
    \<and> (\<forall>h sh. signal_at w h = Some sh \<and> h \<noteq> g \<longrightarrow> set (all_slots (m_slots sg)) \<inter> set (all_slots (m_slots sh)) = {})"
proof -
  have "world_wf w"
    using assms(1)
  proof (induction rule: rtranclp_induct)
    case base
    then show ?case by (simp add: world_wf_def empty_world_def signal_at_def)
  next
    case (step w1 w2)
    then show ?case by (blast intro: wf_sig_step)
  qed
  note wf = wf_groups [OF this assms(2)] wf_disjoint [OF this assms(2)]
  have "\<forall>(slts, gid) \<in> set (m_slots sg). \<forall>i < length slts. m_index (slots w ! (slts ! i)) = i \<and> m_group (slots w ! (slts ! i)) = gid"
    using wf(1) by (auto simp: groups_wf_def group_wf_def)
  moreover have "\<forall>h sh. signal_at w h = Some sh \<and> h \<noteq> g \<longrightarrow> set (all_slots (m_slots sg)) \<inter> set (all_slots (m_slots sh)) = {}"
    using wf(2) by (metis disjoint_iff)
  ultimately show ?thesis
    using wf(1) groups_distinct [OF wf(1)] by (simp add: groups_wf_def)
qed

definition ex_callable :: "nat \<Rightarrow> callable" where
  "ex_callable n = \<lparr>c_ptr = Some n, c_type = n, must_check_object = False\<rparr>"

definition ex_connected :: "(nat, unit) world option" where
  "ex_connected = (case connect 0 (ex_callable 1) 5 (snd (new_signal (empty_world ()))) of
     Some (_, w) \<Rightarrow> (case connect 0 (ex_callable 2) 3 w of
       Some (_, w') \<Rightarrow> map_option snd (connect 0 (ex_callable 3) 5 w') | None \<Rightarrow> None)
   | None \<Rightarrow> None)"

theorem signals_invariant_witness:
  "\<exists>w sg. ex_connected = Some w \<and> signal_at w 0 = Some sg \<and> m_slots sg = [([1], 3), ([0, 2], 5)]
    \<and> sorted_wrt (<) (map snd (m_slots sg)) \<and> distinct (all_slots (m_slots sg))"
proof -
  obtain c1 c2 c3 w1 w2 w sg where w: "connect 0 (ex_callable 1) 5 (snd (new_signal (empty_world ()))) = Some (c1, w1)"
      "connect 0 (ex_callable 2) 3 w1 = Some (c2, w2)" "connect 0 (ex_callable 3) 5 w2 = Some (c3, w)"
      "ex_connected = Some w" "signal_at w 0 = Some sg" "m_slots sg = [([1], 3), ([0, 2], 5)]"
    by (simp add: ex_connected_def connect_def connect_slot_def make_slot_def add_slot_def new_signal_def empty_world_def signal_at_def
        put_signal_def set_index_def)
  have "sig_step (empty_world ()) (snd (new_signal (empty_world ())))" "sig_step (snd (new_signal (empty_world ()))) w1"
      "sig_step w1 w2" "sig_step w2 w"
    using w(1-3) sig_step.new_signal sig_step.connect unfolding connect_def by fast+
  then have "sig_step\<^sup>*\<^sup>* (empty_world ()) w"
    by (meson converse_rtranclp_into_rtranclp rtranclp.rtrancl_refl)
  note inv = signals_invariant [OF this w(5)]
  show ?thesis
    by (rule exI [of _ w], rule exI [of _ sg], intro conjI w conjunct1 [OF inv] conjunct1 [OF conjunct2 [OF inv]])
qed

end
