(* ===== verification/Sig_Emission.thy ===== *)
theory Sig_Emission
  imports Sig_Signals
begin

text \<open>
  What the operations of the signal library achieve: a disconnection removes its slot and no other, a connection
  puts its slot behind those of its group, and an emission calls the slots that are connected and not blocked in the order of
  the groups. At the end the cases in which a signal does not do what its callers expect.
\<close>

section \<open>Disconnecting\<close>

lemma slot_count_length: "slot_count w g = map_option (\<lambda>sg. length (all_slots (m_slots sg))) (signal_at w g)"
proof -
  have "sum_list (map (\<lambda>(slts, _). length slts) gs) = length (all_slots gs)" for gs :: groups
    by (induction gs) auto
  then show ?thesis by (simp add: slot_count_def)
qed

lemma slot_disconnect_result:
  assumes "world_wf w" and "signal_at w g = Some sg" and "m_connected (slots w ! a)" and "cleaner (slots w ! a) = g" and "a < length (slots w)"
  shows "\<exists>w' sg'. slot_disconnect a w = Some (True, w') \<and> world_wf w' \<and> signal_at w' g = Some sg'
    \<and> set (all_slots (m_slots sg')) = set (all_slots (m_slots sg)) - {a} \<and> m_block sg' = m_block sg
    \<and> length (slots w') = length (slots w) \<and> (\<forall>b < length (slots w). b \<noteq> a \<longrightarrow> strip (slots w' ! b) = strip (slots w ! b))
    \<and> \<not> m_connected (slots w' ! a) \<and> app w' = app w \<and> gone w' = gone w \<and> pinned w' = pinned w"
proof -
  let ?w = "put_slot a (\<lambda>s. s\<lparr>m_connected := False\<rparr>) w"
  have wf: "world_wf ?w"
    using assms(1) by (rule wf_put_slot) simp
  have s: "signal_at ?w g = Some sg" "length (slots ?w) = length (slots w)" "\<not> m_connected (slots ?w ! a)"
      "\<And>b. b \<noteq> a \<Longrightarrow> slots ?w ! b = slots w ! b" "app ?w = app w" "gone ?w = gone w" "pinned ?w = pinned w"
    using assms(2,5) by (simp_all add: put_slot_def)
  obtain gs sl where c: "clean g a ?w = Some (put_signal g (Some (sg\<lparr>m_slots := gs\<rparr>)) (?w\<lparr>slots := sl\<rparr>))"
      "keeps (slots ?w) (m_slots sg) sl gs" "set (all_slots gs) = set (all_slots (m_slots sg)) - {a}"
    using clean_result [OF wf s(1), of a] by blast
  let ?w' = "put_signal g (Some (sg\<lparr>m_slots := gs\<rparr>)) (?w\<lparr>slots := sl\<rparr>)"
  have d: "slot_disconnect a w = Some (True, ?w')"
    using assms(3,4) c(1) by (simp add: slot_disconnect_def)
  have same: "same_but_index (slots ?w) sl"
    using c(2) by (simp add: keeps_def)
  have l: "length sl = length (slots w)"
    using keeps_all [OF c(2)] s(2) by simp
  have "\<not> m_connected (sl ! a)"
    using strip_eq [OF same_but_index_nth [OF same]] assms(5) s(2,3) by auto
  moreover have "strip (sl ! b) = strip (slots w ! b)" if "b < length (slots w)" "b \<noteq> a" for b
    using same_but_index_nth [OF same, of b] s(2,4) that by simp
  ultimately show ?thesis
    using d wf_slot_disconnect [OF assms(1) d] s(5-7) l c(3) signal_at_bound [OF s(1)]
    by (intro exI [of _ ?w'] exI [of _ "sg\<lparr>m_slots := gs\<rparr>"]) simp
qed

lemma in_signal_alive: "signal_at w g = Some sg \<Longrightarrow> a \<in> set (all_slots (m_slots sg)) \<Longrightarrow> alive w a"
proof -
  assume a: "signal_at w g = Some sg" "a \<in> set (all_slots (m_slots sg))"
  then have "Some sg \<in> set (signals w)"
    by (metis nth_mem option.distinct(1) signal_at_def)
  then show "alive w a"
    using a(2) by (force simp: alive_def)
qed

text \<open>C30. A connection disconnects its slot. Disconnecting a connected slot of a signal, whose cleaner is this signal, succeeds and takes
  exactly this slot out of the signal; the count of slots drops by one; the connection is not connected afterwards, and to
  disconnect again reports failure and changes nothing.\<close>

theorem disconnect_removes_slot:
  assumes "world_wf w" and "signal_at w g = Some sg" and "a \<in> set (all_slots (m_slots sg))"
    and "m_connected (slots w ! a)" and "cleaner (slots w ! a) = g"
  shows "\<exists>w' sg'. connection_disconnect (Some a) w = Some (True, w') \<and> signal_at w' g = Some sg'
    \<and> set (all_slots (m_slots sg')) = set (all_slots (m_slots sg)) - {a}
    \<and> slot_count w g = map_option Suc (slot_count w' g)
    \<and> \<not> connection_connected w' (Some a) \<and> connection_disconnect (Some a) w' = Some (False, w')"
proof -
  note wf = wf_groups [OF assms(1,2)]
  have "a < length (slots w)"
    using in_group [OF wf assms(3)] by simp
  from slot_disconnect_result [OF assms(1,2,4,5) this] obtain w' sg' where r: "slot_disconnect a w = Some (True, w')" "world_wf w'"
      "signal_at w' g = Some sg'" "set (all_slots (m_slots sg')) = set (all_slots (m_slots sg)) - {a}" "\<not> m_connected (slots w' ! a)"
    by blast
  have "card (set (all_slots (m_slots sg))) = Suc (card (set (all_slots (m_slots sg')))) "
    using r(4) assms(3) by (metis List.finite_set card_Suc_Diff1)
  then have "length (all_slots (m_slots sg)) = Suc (length (all_slots (m_slots sg')))"
    using distinct_card [OF groups_distinct [OF wf]] distinct_card [OF groups_distinct [OF wf_groups [OF r(2,3)]]] by simp
  then have n: "slot_count w g = map_option Suc (slot_count w' g)"
    using assms(2) r(3) by (simp add: slot_count_length)
  have l: "lock w (Some a) = Some a"
    using in_signal_alive [OF assms(2,3)] by (simp add: lock_def)
  have "connection_disconnect (Some a) w' = Some (False, w')" "\<not> connection_connected w' (Some a)"
    using r(5) by (simp_all add: connection_disconnect_def slot_disconnect_def connection_connected_def slot_connected_def Let_def lock_def)
  then show ?thesis
    using r(1,3,4) n l by (intro exI [of _ w'] exI [of _ sg']) (simp add: connection_disconnect_def)
qed

text \<open>C29. Disconnecting by callable or object removes exactly the matching slots. Whatever order the slots are visited in while the
  lists shrink, the slots that stay are those that do not match, and the result is the number of those removed.\<close>

theorem disconnect_if_exact:
  assumes "world_wf w" and "signal_at w g = Some sg" and "\<And>s. cond (strip s) = cond s" and "disconnect_if cond g w = Some (n, w')"
  shows "\<exists>sg'. signal_at w' g = Some sg' \<and> distinct (all_slots (m_slots sg'))
    \<and> set (all_slots (m_slots sg')) = {a \<in> set (all_slots (m_slots sg)). \<not> cond (slots w ! a)}
    \<and> n = card {a \<in> set (all_slots (m_slots sg)). cond (slots w ! a)}"
proof -
  obtain gs sl where r: "w' = put_signal g (Some (sg\<lparr>m_slots := gs\<rparr>)) (w\<lparr>slots := sl\<rparr>)"
      "set (all_slots gs) = {a \<in> set (all_slots (m_slots sg)). \<not> cond (slots w ! a)}"
      "n + length (all_slots gs) = length (all_slots (m_slots sg))"
    using disconnect_if_result [OF assms] by blast
  have at: "signal_at w' g = Some (sg\<lparr>m_slots := gs\<rparr>)"
    using r(1) signal_at_bound [OF assms(2)] by simp
  have d: "distinct (all_slots gs)"
    using groups_distinct [OF wf_groups [OF wf_disconnect_if [OF assms(1,4,3)] at]] by simp
  let ?A = "set (all_slots (m_slots sg))"
  have "card ?A = card {a \<in> ?A. cond (slots w ! a)} + card {a \<in> ?A. \<not> cond (slots w ! a)}"
    by (subst card_Un_disjoint [symmetric]) (auto intro: arg_cong [of _ _ card])
  then have "n = card {a \<in> ?A. cond (slots w ! a)}"
    using r(2,3) distinct_card [OF d] distinct_card [OF groups_distinct [OF wf_groups [OF assms(1,2)]]] by simp
  then show ?thesis
    using at r(2) d by simp
qed

section \<open>Connecting\<close>

lemma insert_slot_order:
  assumes "sorted_wrt (<) (map snd gs)" and "insert_slot a gid gs = (i, gs')"
  shows "\<exists>before after. gs = before @ after \<and> (\<forall>x \<in> set before. snd x \<le> gid) \<and> (\<forall>x \<in> set after. gid < snd x)
    \<and> all_slots gs' = all_slots before @ a # all_slots after"
  using assms
proof (induction gs arbitrary: gs')
  case (Cons x gs)
  obtain slts g where x: "x = (slts, g)" by (cases x)
  consider "g < gid" | "gid < g" | "g = gid" by linarith
  then show ?case
  proof cases
    case 1
    then obtain gs1 where gs1: "insert_slot a gid gs = (i, gs1)" "gs' = (slts, g) # gs1"
      using Cons.prems(2) x by (auto split: prod.splits)
    then obtain before after where "gs = before @ after" "\<forall>x \<in> set before. snd x \<le> gid" "\<forall>x \<in> set after. gid < snd x"
        "all_slots gs1 = all_slots before @ a # all_slots after"
      using Cons.IH [of gs1] Cons.prems(1) by auto
    then show ?thesis
      using gs1(2) x 1 by (intro exI [of _ "x # before"] exI [of _ after]) simp
  next
    case 2
    then show ?thesis
      using Cons.prems x by (intro exI [of _ "[]"] exI [of _ "x # gs"]) auto
  next
    case 3
    then show ?thesis
      using Cons.prems x by (intro exI [of _ "[x]"] exI [of _ gs]) auto
  qed
qed simp

text \<open>A new slot is called last in its group. Connecting a slot to a group leaves all slots of the signal in their order and puts the
  new one behind those of the groups up to its own and before those of higher groups.\<close>

lemma connect_appends_to_group:
  assumes "world_wf w" and "connect_slot g f x track ext gid w = Some (c, w')"
  shows "\<exists>sg sg' before after. signal_at w g = Some sg \<and> signal_at w' g = Some sg' \<and> c = Some (length (slots w))
    \<and> m_slots sg = before @ after \<and> (\<forall>gr \<in> set before. snd gr \<le> gid) \<and> (\<forall>gr \<in> set after. gid < snd gr)
    \<and> all_slots (m_slots sg') = all_slots before @ length (slots w) # all_slots after"
proof -
  obtain sg i gs sl where r: "signal_at w g = Some sg" "insert_slot (length (slots w)) gid (m_slots sg) = (i, gs)" "c = Some (length (slots w))"
      "w' = put_signal g (Some (sg\<lparr>m_slots := gs\<rparr>)) (w\<lparr>slots := sl\<rparr>)"
    using connect_slot_result [OF assms] by blast
  have "sorted_wrt (<) (map snd (m_slots sg))"
    using wf_groups [OF assms(1) r(1)] by (simp add: groups_wf_def)
  from insert_slot_order [OF this r(2)] obtain before after where "m_slots sg = before @ after" "\<forall>gr \<in> set before. snd gr \<le> gid"
      "\<forall>gr \<in> set after. gid < snd gr" "all_slots gs = all_slots before @ length (slots w) # all_slots after"
    by blast
  moreover have "signal_at w' g = Some (sg\<lparr>m_slots := gs\<rparr>)"
    using r(4) signal_at_bound [OF r(1)] by simp
  ultimately show ?thesis
    using r(1,3) by (intro exI [of _ sg] exI [of _ "sg\<lparr>m_slots := gs\<rparr>"] exI [of _ before] exI [of _ after]) simp
qed

section \<open>Emitting\<close>

definition object_gone :: "('o, 'a) world \<Rightarrow> nat \<Rightarrow> bool" where
  "object_gone w a \<longleftrightarrow> tracked (slots w ! a) \<and> (case ptr (slots w ! a) of Some x \<Rightarrow> gone w x | None \<Rightarrow> True)"

definition ready :: "('o, 'a) world \<Rightarrow> nat \<Rightarrow> bool" where
  "ready w a \<longleftrightarrow> m_connected (slots w ! a) \<and> \<not> m_blocked (slots w ! a)"

type_synonym ('o, 'a, 'x) effect = "callable \<Rightarrow> 'o option \<Rightarrow> connection \<Rightarrow> 'x \<Rightarrow> 'a \<Rightarrow> 'a"

text \<open>Slots that change the application only.\<close>

definition plain_call :: "('o, 'a, 'x) effect \<Rightarrow> ('o, 'a, 'x) call" where
  "plain_call h f x c args w = Some (w\<lparr>app := h f x c args (app w)\<rparr>)"

definition run_slot :: "('o, 'a, 'x) effect \<Rightarrow> 'x \<Rightarrow> 'o slot list \<Rightarrow> nat \<Rightarrow> 'a \<Rightarrow> 'a" where
  "run_slot h args sl a = (let s = sl ! a in h (func s) (ptr s) (if extended s \<and> \<not> tracked s then Some a else None) args)"

lemma slot_call_cases:
  "\<not> ready w a \<Longrightarrow> slot_call (plain_call h) args a w = Some w"
  "ready w a \<Longrightarrow> \<not> object_gone w a \<Longrightarrow> slot_call (plain_call h) args a w = Some (w\<lparr>app := run_slot h args (slots w) a (app w)\<rparr>)"
  "ready w a \<Longrightarrow> object_gone w a \<Longrightarrow> slot_call (plain_call h) args a w = map_option snd (slot_disconnect a w)"
  by (auto simp: slot_call_def ready_def object_gone_def call_slot_def plain_call_def run_slot_def Let_def split: option.splits)

lemma strip_agree:
  assumes "strip (slots w' ! b) = strip (slots w ! b)" and "gone w' = gone w"
  shows "ready w' b = ready w b" "object_gone w' b = object_gone w b" "run_slot h args (slots w') b = run_slot h args (slots w) b"
    "cleaner (slots w' ! b) = cleaner (slots w ! b)"
  using strip_eq [OF assms(1)] assms(2) by (simp_all add: ready_def object_gone_def run_slot_def Let_def split: option.splits)

lemma emit_slots_plain:
  assumes "world_wf w" and "signal_at w g = Some sg" and "distinct as"
    and "\<forall>a \<in> set as. a < length (slots w) \<and> cleaner (slots w ! a) = g"
  shows "\<exists>w' sg'. emit_slots (plain_call h) args as w = Some w' \<and> world_wf w' \<and> signal_at w' g = Some sg' \<and> pinned w' = pinned w
    \<and> app w' = fold (run_slot h args (slots w)) (filter (\<lambda>a. ready w a \<and> \<not> object_gone w a) as) (app w)
    \<and> set (all_slots (m_slots sg')) = set (all_slots (m_slots sg)) - {a \<in> set as. ready w a \<and> object_gone w a}"
  using assms
proof (induction as arbitrary: w sg)
  case (Cons a as)
  have next_step: ?case
    if s: "slot_call (plain_call h) args a w = Some w1" and w1: "world_wf w1" "signal_at w1 g = Some sg1" "pinned w1 = pinned w"
      "gone w1 = gone w" "length (slots w1) = length (slots w)"
      "\<And>b. b < length (slots w) \<Longrightarrow> b \<noteq> a \<Longrightarrow> strip (slots w1 ! b) = strip (slots w ! b)"
      "app w1 = (if ready w a \<and> \<not> object_gone w a then run_slot h args (slots w) a (app w) else app w)"
      "set (all_slots (m_slots sg1)) = set (all_slots (m_slots sg)) - (if ready w a \<and> object_gone w a then {a} else {})" for w1 sg1
  proof -
    have agree: "ready w1 b = ready w b" "object_gone w1 b = object_gone w b" "run_slot h args (slots w1) b = run_slot h args (slots w) b"
        "cleaner (slots w1 ! b) = cleaner (slots w ! b)" if "b \<in> set as" for b
    proof -
      have "strip (slots w1 ! b) = strip (slots w ! b)"
        using w1(6) Cons.prems(3,4) that by auto
      from strip_agree [OF this w1(4)]
      show "ready w1 b = ready w b" "object_gone w1 b = object_gone w b" "run_slot h args (slots w1) b = run_slot h args (slots w) b"
        "cleaner (slots w1 ! b) = cleaner (slots w ! b)" .
    qed
    have "\<forall>b \<in> set as. b < length (slots w1) \<and> cleaner (slots w1 ! b) = g"
      using Cons.prems(4) agree(4) w1(5) by simp
    from Cons.IH [OF w1(1,2) _ this] Cons.prems(3) obtain w' sg' where r: "emit_slots (plain_call h) args as w1 = Some w'" "world_wf w'"
        "signal_at w' g = Some sg'" "pinned w' = pinned w1"
        "app w' = fold (run_slot h args (slots w1)) (filter (\<lambda>a. ready w1 a \<and> \<not> object_gone w1 a) as) (app w1)"
        "set (all_slots (m_slots sg')) = set (all_slots (m_slots sg1)) - {a \<in> set as. ready w1 a \<and> object_gone w1 a}"
      by auto
    have "filter (\<lambda>a. ready w1 a \<and> \<not> object_gone w1 a) as = filter (\<lambda>a. ready w a \<and> \<not> object_gone w a) as"
      using agree by (intro filter_cong) auto
    moreover have "fold (run_slot h args (slots w1)) (filter P as) y = fold (run_slot h args (slots w)) (filter P as) y" for P y
      by (rule fold_cong) (use agree(3) in auto)
    ultimately have "app w' = fold (run_slot h args (slots w)) (filter (\<lambda>a. ready w a \<and> \<not> object_gone w a) (a # as)) (app w)"
      using r(5) w1(7) by simp
    moreover have "set (all_slots (m_slots sg')) = set (all_slots (m_slots sg)) - {b \<in> set (a # as). ready w b \<and> object_gone w b}"
      using r(6) w1(8) agree(1,2) by auto
    ultimately show ?case
      using s r(1-4) w1(3) by (intro exI [of _ w'] exI [of _ sg']) simp
  qed
  have a: "a < length (slots w)" "cleaner (slots w ! a) = g"
    using Cons.prems(4) by simp_all
  consider "\<not> ready w a" | "ready w a" "\<not> object_gone w a" | "ready w a" "object_gone w a" by blast
  then show ?case
  proof cases
    case 1
    then show ?thesis
      using next_step [OF slot_call_cases(1) Cons.prems(1,2)] by simp
  next
    case 2
    then show ?thesis
      using next_step [OF slot_call_cases(2), of sg] Cons.prems(1,2) wf_other(2) [OF Cons.prems(1)] by simp
  next
    case 3
    from slot_disconnect_result [OF Cons.prems(1,2) _ a(2,1)] 3(1) obtain w1 sg1 where "slot_disconnect a w = Some (True, w1)" "world_wf w1"
        "signal_at w1 g = Some sg1" "set (all_slots (m_slots sg1)) = set (all_slots (m_slots sg)) - {a}" "length (slots w1) = length (slots w)"
        "\<forall>b < length (slots w). b \<noteq> a \<longrightarrow> strip (slots w1 ! b) = strip (slots w ! b)" "app w1 = app w" "gone w1 = gone w" "pinned w1 = pinned w"
      by (auto simp: ready_def)
    then show ?thesis
      using next_step [of w1 sg1] slot_call_cases(3) [OF 3, of h args] 3 by simp
  qed
qed auto

text \<open>C14. An emission calls the right slots in order, when the slots change nothing but the application and every slot of the signal
  has the signal itself as its cleaner (which a move of the signal destroys). An emission of a blocked signal
  does nothing. Otherwise it calls each slot that is connected, not blocked and whose tracked object is alive, once, in the order of the
  groups and within a group in the order of its list. A slot that is connected and not blocked and whose object is gone
  is taken out of the signal; all others stay, also the blocked ones whose object is gone.\<close>

theorem emission_calls_slots:
  assumes "world_wf w" and "signal_at w g = Some sg" and "\<forall>a \<in> set (all_slots (m_slots sg)). cleaner (slots w ! a) = g"
  shows "(m_block sg \<longrightarrow> emit (plain_call h) g args w = Some w) \<and> (\<not> m_block sg \<longrightarrow>
    (\<exists>w' sg'. emit (plain_call h) g args w = Some w' \<and> signal_at w' g = Some sg'
    \<and> app w' = fold (run_slot h args (slots w)) (filter (\<lambda>a. ready w a \<and> \<not> object_gone w a) (all_slots (m_slots sg))) (app w)
    \<and> set (all_slots (m_slots sg')) = {a \<in> set (all_slots (m_slots sg)). \<not> (ready w a \<and> object_gone w a)}))"
proof (intro conjI impI)
  show "emit (plain_call h) g args w = Some w" if "m_block sg"
    using that assms(2) by (simp add: emit_def)
  assume "\<not> m_block sg"
  let ?as = "all_slots (m_slots sg)" and ?w = "w\<lparr>pinned := all_slots (m_slots sg) # pinned w\<rparr>"
  note wf = wf_groups [OF assms(1,2)]
  have "\<forall>a \<in> set ?as. a < length (slots ?w) \<and> cleaner (slots ?w ! a) = g"
    using in_group [OF wf] assms(3) by simp
  from emit_slots_plain [OF wf_other(1) [OF assms(1)] _ groups_distinct [OF wf] this, of sg h args] assms(2)
  obtain w' sg' where r: "emit_slots (plain_call h) args ?as ?w = Some w'" "signal_at w' g = Some sg'"
      "app w' = fold (run_slot h args (slots ?w)) (filter (\<lambda>a. ready ?w a \<and> \<not> object_gone ?w a) ?as) (app ?w)"
      "set (all_slots (m_slots sg')) = set ?as - {a \<in> set ?as. ready ?w a \<and> object_gone ?w a}"
    by auto
  have same: "ready ?w a = ready w a" "object_gone ?w a = object_gone w a" for a
    by (simp_all add: ready_def object_gone_def split: option.splits)
  show "\<exists>w' sg'. emit (plain_call h) g args w = Some w' \<and> signal_at w' g = Some sg'
    \<and> app w' = fold (run_slot h args (slots w)) (filter (\<lambda>a. ready w a \<and> \<not> object_gone w a) (all_slots (m_slots sg))) (app w)
    \<and> set (all_slots (m_slots sg')) = {a \<in> set (all_slots (m_slots sg)). \<not> (ready w a \<and> object_gone w a)}"
    using r assms(2) \<open>\<not> m_block sg\<close> unfolding same
    by (intro exI [of _ "w'\<lparr>pinned := tl (pinned w')\<rparr>"] exI [of _ sg']) (auto simp: emit_def Let_def)
qed

section \<open>Examples\<close>

text \<open>Three slots in two groups, the first of which has lost the object it tracks.\<close>

definition ex_world :: "(nat, nat list) world" where
  "ex_world = \<lparr>slots =
      [\<lparr>m_index = 0, m_group = 3, m_connected = True, m_blocked = False, cleaner = 0, func = ex_callable 1, ptr = Some 7, tracked = True, extended = False\<rparr>,
       \<lparr>m_index = 0, m_group = 5, m_connected = True, m_blocked = False, cleaner = 0, func = ex_callable 2, ptr = None, tracked = False, extended = False\<rparr>,
       \<lparr>m_index = 1, m_group = 5, m_connected = True, m_blocked = True, cleaner = 0, func = ex_callable 3, ptr = None, tracked = False, extended = False\<rparr>],
     signals = [Some \<lparr>m_slots = [([0], 3), ([1, 2], 5)], m_block = False\<rparr>], pinned = [], observers = (\<lambda>_. []), gone = (\<lambda>x. x = 7), app = []\<rparr>"

lemma ex_world_wf: "world_wf ex_world"
  by (auto simp: world_wf_def ex_world_def signal_at_def groups_wf_def group_wf_def less_Suc_eq split: if_splits)

lemma ex_signal: "signal_at ex_world 0 = Some \<lparr>m_slots = [([0], 3), ([1, 2], 5)], m_block = False\<rparr>"
  by (simp add: ex_world_def signal_at_def)

definition log_call :: "(nat, nat list, unit) effect" where
  "log_call f x c args l = l @ [c_type f]"

theorem emission_calls_slots_witness:
  "\<exists>w' sg'. emit (plain_call log_call) 0 () ex_world = Some w' \<and> signal_at w' 0 = Some sg' \<and> app w' = [2]
    \<and> set (all_slots (m_slots sg')) = {1, 2}"
proof -
  have c: "\<forall>a \<in> set (all_slots (m_slots \<lparr>m_slots = [([0], 3), ([1, 2], 5)], m_block = False\<rparr>)). cleaner (slots ex_world ! a) = 0"
    by (simp add: ex_world_def)
  from emission_calls_slots [OF ex_world_wf ex_signal c, of log_call "()"] show ?thesis
    by (simp add: ready_def object_gone_def ex_world_def run_slot_def log_call_def ex_callable_def) (auto simp: numeral_2_eq_2)
qed

theorem disconnect_removes_slot_witness:
  "\<exists>w' sg'. connection_disconnect (Some 1) ex_world = Some (True, w') \<and> signal_at w' 0 = Some sg' \<and> set (all_slots (m_slots sg')) = {0, 2}
    \<and> connection_disconnect (Some 1) w' = Some (False, w')"
proof -
  have "m_connected (slots ex_world ! 1)" "cleaner (slots ex_world ! 1) = 0" "1 \<in> set (all_slots (m_slots \<lparr>m_slots = [([0], 3), ([1, 2], 5)], m_block = False\<rparr>))"
      "set (all_slots (m_slots \<lparr>m_slots = [([0], 3), ([1, 2], 5)], m_block = False\<rparr>)) - {1} = {0, 2}"
    by (auto simp: ex_world_def)
  note s = this
  from disconnect_removes_slot [OF ex_world_wf ex_signal s(3,1,2)] obtain w' sg' where
      "connection_disconnect (Some 1) ex_world = Some (True, w')" "signal_at w' 0 = Some sg'"
      "set (all_slots (m_slots sg')) = set (all_slots (m_slots \<lparr>m_slots = [([0], 3), ([1, 2], 5)], m_block = False\<rparr>)) - {1}"
      "connection_disconnect (Some 1) w' = Some (False, w')"
    by blast
  then show ?thesis
    using s(4) by (intro exI [of _ w'] exI [of _ sg']) simp
qed

theorem disconnect_if_exact_witness:
  "\<exists>w' sg'. disconnect_callable (ex_callable 2) 0 ex_world = Some (1, w') \<and> signal_at w' 0 = Some sg' \<and> set (all_slots (m_slots sg')) = {0, 2}"
proof -
  let ?c = "has_full_callable (ex_callable 2)"
  have e: "{a \<in> set (all_slots [([0], 3), ([1, 2], 5)]). \<not> ?c (slots ex_world ! a)} = {0, 2}"
      "{a \<in> set (all_slots [([0], 3), ([1, 2], 5)]). ?c (slots ex_world ! a)} = {1}"
    by (auto simp: ex_world_def has_full_callable_def has_callable_def ex_callable_def)
  obtain n w' where d: "disconnect_if ?c 0 ex_world = Some (n, w')"
    by (simp add: disconnect_if_def ex_signal case_prod_beta Let_def del: remove_groups.simps)
  from disconnect_if_exact [OF ex_world_wf ex_signal strip_conditions(1) d] obtain sg' where
      "signal_at w' 0 = Some sg'" "set (all_slots (m_slots sg')) = {0, 2}" "n = 1"
    using e by auto
  then show ?thesis
    by (simp add: disconnect_callable_def d)
qed

section \<open>Where a signal surprises\<close>

text \<open>A slot remembers the signal it was made for. After that signal has been moved, disconnecting the slot
  does not take it out of the new signal: the slot is never called again, but stays and is counted.\<close>

lemma moved_signal_keeps_slot:
  "\<exists>h w w'. move_construct 0 ex_world = Some (h, w) \<and> connection_disconnect (Some 1) w = Some (True, w')
    \<and> slot_count w h = Some 3 \<and> slot_count w' h = Some 3"
  by (simp add: move_construct_def ex_world_def signal_at_def connection_disconnect_def lock_def alive_def slot_disconnect_def put_slot_def clean_def
      put_signal_def slot_count_def)

text \<open>When the moved-from signal has been destroyed, disconnecting the slot uses a dead object.\<close>

lemma disconnect_after_move_undefined:
  "\<exists>h w w'. move_construct 0 ex_world = Some (h, w) \<and> destroy_signal 0 w = Some w' \<and> connection_disconnect (Some 1) w' = None"
  by (simp add: move_construct_def ex_world_def signal_at_def connection_disconnect_def lock_def alive_def slot_disconnect_def put_slot_def clean_def
      put_signal_def destroy_signal_def disconnect_all_def on_signal_def)

text \<open>Blockers do not nest: the end of one unblocks the slot while another is still there.\<close>

lemma blockers_do_not_nest:
  assumes "alive w a" and "a < length (slots w)"
  shows "\<not> m_blocked (slots (blocker_release (Some a) (snd (blocker (Some a) (snd (blocker (Some a) w))))) ! a)"
proof -
  have "alive (put_slot a f v) a = alive v a" for f and v :: "('a, 'b) world"
    by (simp add: alive_def put_slot_def)
  then show ?thesis
    using assms by (simp add: blocker_release_def connection_unblock_def blocker_def connection_block_def lock_def slot_block_def slot_unblock_def)
      (simp add: put_slot_def)
qed

text \<open>Disconnecting a group or all slots drops them from the signal but leaves them marked as connected: an
  emission that is under way still calls them.\<close>

lemma disconnect_all_leaves_connected:
  "disconnect_all g w = Some w' \<Longrightarrow> slots w' = slots w" "disconnect_group g gid w = Some (n, w'') \<Longrightarrow> slots w'' = slots w"
  by (auto simp: disconnect_all_def on_signal_def disconnect_group_def case_prod_beta)

end
