(* ===== verification/Sig_Cow.thy ===== *)
theory Sig_Cow
  imports Main "HOL-Library.Multiset"
begin

text \<open>
  The copy-on-write container that holds the slot list of a signal (\<^verbatim>\<open>copy_on_write\<close> in \<^verbatim>\<open>signal.hpp\<close>), so that an emission works on
  the list it has taken while others change the signal. Containers share a payload with a count; a container that was
  moved from has none. The specification is a list of independent values, one per container: it is refined by
  the shared payloads. A container is \<open>None\<close> once it is destroyed.
\<close>

section \<open>Model\<close>

record 'v cow_heap =
  payload :: "nat \<Rightarrow> (nat \<times> 'v) option"
  next_payload :: nat
  handles :: "nat option option list"

definition held :: "'v cow_heap \<Rightarrow> nat \<Rightarrow> nat option option" where
  "held h i = (if i < length (handles h) then handles h ! i else None)"

definition set_handle :: "nat \<Rightarrow> nat option option \<Rightarrow> 'v cow_heap \<Rightarrow> 'v cow_heap" where
  "set_handle i d h = h\<lparr>handles := (handles h)[i := d]\<rparr>"

definition new_payload :: "'v \<Rightarrow> 'v cow_heap \<Rightarrow> nat \<times> 'v cow_heap" where
  "new_payload x h = (next_payload h, h\<lparr>payload := (payload h)(next_payload h \<mapsto> (1, x)), next_payload := next_payload h + 1\<rparr>)"

definition retain :: "nat \<Rightarrow> 'v cow_heap \<Rightarrow> 'v cow_heap option" where
  "retain a h = map_option (\<lambda>(c, x). h\<lparr>payload := (payload h)(a \<mapsto> (c + 1, x))\<rparr>) (payload h a)"

definition release_payload :: "nat option \<Rightarrow> 'v cow_heap \<Rightarrow> 'v cow_heap option" where
  "release_payload m h = (case m of
     None \<Rightarrow> Some h
   | Some a \<Rightarrow> map_option (\<lambda>(c, x). h\<lparr>payload := (payload h)(a := if c - 1 = 0 then None else Some (c - 1, x))\<rparr>) (payload h a))"

definition cow_new :: "'v \<Rightarrow> 'v cow_heap \<Rightarrow> 'v cow_heap" where
  "cow_new x h = (let (a, h') = new_payload x h in h'\<lparr>handles := handles h' @ [Some (Some a)]\<rparr>)"

definition cow_copy :: "nat \<Rightarrow> 'v cow_heap \<Rightarrow> 'v cow_heap option" where
  "cow_copy j h = (case held h j of
     Some (Some a) \<Rightarrow> map_option (\<lambda>h'. h'\<lparr>handles := handles h' @ [Some (Some a)]\<rparr>) (retain a h)
   | _ \<Rightarrow> None)"

definition cow_move :: "nat \<Rightarrow> 'v cow_heap \<Rightarrow> 'v cow_heap option" where
  "cow_move j h = (case held h j of
     None \<Rightarrow> None
   | Some m \<Rightarrow> (let h' = set_handle j (Some None) h in Some (h'\<lparr>handles := handles h' @ [Some m]\<rparr>)))"

definition cow_destroy :: "nat \<Rightarrow> 'v cow_heap \<Rightarrow> 'v cow_heap option" where
  "cow_destroy i h = (case held h i of None \<Rightarrow> None | Some m \<Rightarrow> release_payload m (set_handle i None h))"

text \<open>An assignment takes the new payload into a temporary, swaps, and destroys the temporary with the old payload.\<close>

definition swap_in :: "nat \<Rightarrow> nat option \<Rightarrow> 'v cow_heap \<Rightarrow> 'v cow_heap option" where
  "swap_in i m h = (case held h i of None \<Rightarrow> None | Some old \<Rightarrow> release_payload old (set_handle i (Some m) h))"

definition cow_move_assign :: "nat \<Rightarrow> nat \<Rightarrow> 'v cow_heap \<Rightarrow> 'v cow_heap option" where
  "cow_move_assign i j h = (case held h j of None \<Rightarrow> None | Some m \<Rightarrow> swap_in i m (set_handle j (Some None) h))"

definition cow_assign :: "nat \<Rightarrow> nat \<Rightarrow> 'v cow_heap \<Rightarrow> 'v cow_heap option" where
  "cow_assign i j h = (if i = j then map_option (\<lambda>_. h) (held h i)
     else (case held h j of
       Some (Some a) \<Rightarrow> (case retain a h of None \<Rightarrow> None | Some h' \<Rightarrow> swap_in i (Some a) h')
     | _ \<Rightarrow> None))"

definition cow_read :: "'v cow_heap \<Rightarrow> nat \<Rightarrow> 'v option" where
  "cow_read h i = (case held h i of Some (Some a) \<Rightarrow> map_option snd (payload h a) | _ \<Rightarrow> None)"

definition set_value :: "nat \<Rightarrow> ('v \<Rightarrow> 'v) \<Rightarrow> 'v cow_heap \<Rightarrow> 'v cow_heap option" where
  "set_value i f h = (case held h i of
     Some (Some a) \<Rightarrow> map_option (\<lambda>(c, x). h\<lparr>payload := (payload h)(a \<mapsto> (c, f x))\<rparr>) (payload h a)
   | _ \<Rightarrow> None)"

text \<open>\<open>write\<close> with what the caller does through the reference it returns.\<close>

definition cow_write :: "nat \<Rightarrow> ('v \<Rightarrow> 'v) \<Rightarrow> 'v cow_heap \<Rightarrow> 'v cow_heap option" where
  "cow_write i f h = (case held h i of
     Some (Some a) \<Rightarrow> (case payload h a of
       None \<Rightarrow> None
     | Some (c, x) \<Rightarrow>
         if c = 1 then set_value i f h
         else (let (b, h') = new_payload x h in case swap_in i (Some b) h' of None \<Rightarrow> None | Some h'' \<Rightarrow> set_value i f h''))
   | _ \<Rightarrow> None)"

section \<open>Specification\<close>

datatype 'v cow_op = New 'v | Copy nat | Move nat | Destroy nat | Assign nat nat | MoveAssign nat nat | Write nat "'v \<Rightarrow> 'v"

fun cow_run :: "'v cow_op \<Rightarrow> 'v cow_heap \<Rightarrow> 'v cow_heap option" where
  "cow_run (New x) h = Some (cow_new x h)"
| "cow_run (Copy j) h = cow_copy j h"
| "cow_run (Move j) h = cow_move j h"
| "cow_run (Destroy i) h = cow_destroy i h"
| "cow_run (Assign i j) h = cow_assign i j h"
| "cow_run (MoveAssign i j) h = cow_move_assign i j h"
| "cow_run (Write i f) h = cow_write i f h"

definition at :: "'a option list \<Rightarrow> nat \<Rightarrow> 'a option" where
  "at xs i = (if i < length xs then xs ! i else None)"

text \<open>Independent values; a container that was moved from has no value.\<close>

fun val_run :: "'v cow_op \<Rightarrow> 'v option option list \<Rightarrow> 'v option option list option" where
  "val_run (New x) vs = Some (vs @ [Some (Some x)])"
| "val_run (Copy j) vs = (case at vs j of Some (Some x) \<Rightarrow> Some (vs @ [Some (Some x)]) | _ \<Rightarrow> None)"
| "val_run (Move j) vs = map_option (\<lambda>x. vs[j := Some None] @ [Some x]) (at vs j)"
| "val_run (Destroy i) vs = map_option (\<lambda>_. vs[i := None]) (at vs i)"
| "val_run (Assign i j) vs = (if i = j then map_option (\<lambda>_. vs) (at vs i)
     else case (at vs i, at vs j) of (Some _, Some (Some x)) \<Rightarrow> Some (vs[i := Some (Some x)]) | _ \<Rightarrow> None)"
| "val_run (MoveAssign i j) vs = (case (at vs i, at vs j) of (Some _, Some x) \<Rightarrow> Some (vs[j := Some None, i := Some x]) | _ \<Rightarrow> None)"
| "val_run (Write i f) vs = (case at vs i of Some (Some x) \<Rightarrow> Some (vs[i := Some (Some (f x))]) | _ \<Rightarrow> None)"

fun run_ops :: "('o \<Rightarrow> 's \<Rightarrow> 's option) \<Rightarrow> 'o list \<Rightarrow> 's \<Rightarrow> 's option" where
  "run_ops r [] s = Some s"
| "run_ops r (x # xs) s = (case r x s of None \<Rightarrow> None | Some s' \<Rightarrow> run_ops r xs s')"

definition no_cows :: "'v cow_heap" where
  "no_cows = \<lparr>payload = (\<lambda>_. None), next_payload = 0, handles = []\<rparr>"

definition pvalue :: "'v cow_heap \<Rightarrow> nat \<Rightarrow> 'v" where
  "pvalue h a = snd (the (payload h a))"

definition abs_cow :: "'v cow_heap \<Rightarrow> 'v option option list" where
  "abs_cow h = map (map_option (map_option (pvalue h))) (handles h)"

section \<open>Counting\<close>

definition refs_to :: "'v cow_heap \<Rightarrow> nat \<Rightarrow> nat" where
  "refs_to h a = count (mset (handles h)) (Some (Some a))"

definition pcount :: "'v cow_heap \<Rightarrow> nat \<Rightarrow> nat" where
  "pcount h a = (case payload h a of Some (c, _) \<Rightarrow> c | None \<Rightarrow> 0)"

text \<open>The counts are those of the containers and, while an operation is under way, of the temporaries.\<close>

definition balanced :: "(nat \<Rightarrow> nat) \<Rightarrow> 'v cow_heap \<Rightarrow> bool" where
  "balanced e h \<longleftrightarrow> (\<forall>a. pcount h a = refs_to h a + e a) \<and> (\<forall>a c x. payload h a = Some (c, x) \<longrightarrow> 0 < c)
     \<and> (\<forall>a \<ge> next_payload h. payload h a = None)"

abbreviation cow_wf :: "'v cow_heap \<Rightarrow> bool" where
  "cow_wf h \<equiv> balanced (\<lambda>_. 0) h"

lemma count_update:
  assumes "i < length xs"
  shows "count (mset (xs[i := y])) z + of_bool (xs ! i = z) = count (mset xs) z + of_bool (y = z)"
proof -
  have "0 < count (mset xs) (xs ! i)" using assms by simp
  then show ?thesis
    using assms by (cases "xs ! i = z") (auto simp: mset_update)
qed

lemma refs_set_handle:
  "held h i = Some m \<Longrightarrow> refs_to (set_handle i d h) a + of_bool (m = Some a) = refs_to h a + of_bool (d = Some (Some a))"
  using count_update [of i "handles h" d "Some (Some a)"] by (auto simp: held_def refs_to_def set_handle_def split: if_splits)

lemma refs_held: "held h i = Some (Some a) \<Longrightarrow> 0 < refs_to h a"
  by (auto simp: held_def refs_to_def split: if_splits) (metis nth_mem)

lemma refs_append [simp]: "refs_to (h\<lparr>handles := handles h @ [d]\<rparr>) a = refs_to h a + of_bool (d = Some (Some a))"
  by (simp add: refs_to_def)

lemma balanced_payload: "balanced e h \<Longrightarrow> 0 < refs_to h a + e a \<Longrightarrow> \<exists>c x. payload h a = Some (c, x) \<and> c = refs_to h a + e a"
  by (cases "payload h a") (auto simp: balanced_def pcount_def split: option.splits dest: spec [of _ a])

lemma handle_simps [simp]:
  "held (set_handle i d h) k = (if k = i \<and> i < length (handles h) then d else held h k)"
  "payload (set_handle i d h) = payload h" "next_payload (set_handle i d h) = next_payload h"
  "handles (set_handle i d h) = (handles h)[i := d]" "pcount (set_handle i d h) = pcount h" "pvalue (set_handle i d h) = pvalue h"
  by (auto simp: held_def set_handle_def nth_list_update pcount_def pvalue_def fun_eq_iff)

lemma held_bound: "held h i = Some m \<Longrightarrow> i < length (handles h) \<and> handles h ! i = Some m"
  by (simp add: held_def split: if_splits)

lemma held_same: "handles h' = handles h \<Longrightarrow> held h' = held h"
  by (simp add: held_def fun_eq_iff)

lemma at_abs: "at (abs_cow h) i = map_option (map_option (pvalue h)) (held h i)"
  by (simp add: at_def abs_cow_def held_def)

lemma abs_set_handle: "abs_cow (set_handle i d h) = (abs_cow h)[i := map_option (map_option (pvalue h)) d]"
  by (simp add: abs_cow_def map_update)

lemma abs_same:
  assumes "handles h' = handles h" and "\<And>a. 0 < refs_to h a \<Longrightarrow> pvalue h' a = pvalue h a"
  shows "abs_cow h' = abs_cow h"
proof -
  have "map_option (map_option (pvalue h')) d = map_option (map_option (pvalue h)) d" if "d \<in> set (handles h)" for d
  proof (cases d)
    case (Some m)
    with that assms(2) show ?thesis
      by (cases m) (auto simp: refs_to_def)
  qed simp
  then show ?thesis
    using assms(1) by (simp add: abs_cow_def)
qed

section \<open>Parts of the operations\<close>

lemma release_ok:
  assumes "balanced (\<lambda>b. e b + of_bool (m = Some b)) h"
  shows "\<exists>h'. release_payload m h = Some h' \<and> balanced e h' \<and> handles h' = handles h \<and> abs_cow h' = abs_cow h
    \<and> (\<forall>a. 0 < refs_to h a \<longrightarrow> pvalue h' a = pvalue h a)"
proof (cases m)
  case (Some a)
  then obtain c x where p: "payload h a = Some (c, x)" "c = refs_to h a + e a + 1"
    using balanced_payload [OF assms, of a] by auto
  let ?h = "h\<lparr>payload := (payload h)(a := if c - 1 = 0 then None else Some (c - 1, x))\<rparr>"
  have v: "pvalue ?h b = pvalue h b" if "0 < refs_to h b" for b
    using that p by (auto simp: pvalue_def)
  moreover have "balanced e ?h"
    using assms p Some unfolding balanced_def by (auto simp: pcount_def refs_to_def split: if_splits)
  moreover have "release_payload m h = Some ?h"
    using p(1) Some by (simp add: release_payload_def)
  moreover have "abs_cow ?h = abs_cow h"
    using v by (intro abs_same) simp_all
  ultimately show ?thesis
    by (intro exI [of _ ?h]) simp
qed (use assms in \<open>simp add: release_payload_def\<close>)

lemma swap_in_ok:
  assumes "balanced (\<lambda>b. of_bool (m = Some b)) h" and "held h i = Some old"
  shows "\<exists>h'. swap_in i m h = Some h' \<and> cow_wf h' \<and> handles h' = (handles h)[i := Some m]
    \<and> abs_cow h' = (abs_cow h)[i := Some (map_option (pvalue h) m)] \<and> (\<forall>a. m = Some a \<longrightarrow> pvalue h' a = pvalue h a)"
proof -
  let ?h = "set_handle i (Some m) h"
  have r: "refs_to ?h a + of_bool (old = Some a) = refs_to h a + of_bool (m = Some a)" for a
    using refs_set_handle [OF assms(2), of "Some m" a] by simp
  have "pcount h a = refs_to ?h a + of_bool (old = Some a)" for a
    using assms(1) r by (simp add: balanced_def)
  then have "balanced (\<lambda>b. 0 + of_bool (old = Some b)) ?h"
    using assms(1) by (simp add: balanced_def)
  from release_ok [OF this] obtain h' where h: "release_payload old ?h = Some h'" "cow_wf h'" "handles h' = handles ?h" "abs_cow h' = abs_cow ?h"
      "\<And>a. 0 < refs_to ?h a \<Longrightarrow> pvalue h' a = pvalue ?h a"
    by blast
  moreover have "0 < refs_to ?h a" if "m = Some a" for a
    using refs_held [of ?h i a] held_bound [OF assms(2)] that by simp
  ultimately show ?thesis
    using assms(2) by (simp add: swap_in_def abs_set_handle)
qed

lemma new_payload_ok:
  assumes "cow_wf h" and "new_payload x h = (a, h')"
  shows "balanced (\<lambda>b. of_bool (a = b)) h'" "handles h' = handles h" "abs_cow h' = abs_cow h" "pvalue h' a = x"
proof -
  have a: "a = next_payload h" "payload h a = None"
    using assms by (auto simp: new_payload_def balanced_def)
  then have "refs_to h a = 0"
    using assms(1) unfolding balanced_def pcount_def by (metis add_is_0 option.simps(4))
  then show "balanced (\<lambda>b. of_bool (a = b)) h'"
    using assms a by (auto simp: new_payload_def balanced_def pcount_def refs_to_def split: if_splits) blast
  show "handles h' = handles h" "pvalue h' a = x"
    using assms(2) by (auto simp: new_payload_def pvalue_def)
  show "abs_cow h' = abs_cow h"
    using assms(2) \<open>refs_to h a = 0\<close> by (intro abs_same) (auto simp: new_payload_def pvalue_def)
qed

lemma retain_ok:
  assumes "cow_wf h" and "0 < refs_to h a"
  shows "\<exists>h'. retain a h = Some h' \<and> balanced (\<lambda>b. of_bool (a = b)) h' \<and> handles h' = handles h \<and> abs_cow h' = abs_cow h \<and> pvalue h' = pvalue h"
proof -
  obtain c x where p: "payload h a = Some (c, x)" "c = refs_to h a"
    using balanced_payload [OF assms(1), of a] assms(2) by auto
  let ?h = "h\<lparr>payload := (payload h)(a \<mapsto> (c + 1, x))\<rparr>"
  have "balanced (\<lambda>b. of_bool (a = b)) ?h"
    using assms(1) p unfolding balanced_def by (auto simp: pcount_def refs_to_def)
  moreover have "pvalue ?h = pvalue h"
    using p by (auto simp: pvalue_def)
  ultimately show ?thesis
    using p abs_same [of ?h h] by (simp add: retain_def)
qed

lemma append_ok:
  assumes "balanced (\<lambda>b. of_bool (m = Some b)) h"
  shows "cow_wf (h\<lparr>handles := handles h @ [Some m]\<rparr>)"
    and "abs_cow (h\<lparr>handles := handles h @ [Some m]\<rparr>) = abs_cow h @ [Some (map_option (pvalue h) m)]"
proof -
  have "pvalue (h\<lparr>handles := handles h @ [Some m]\<rparr>) = pvalue h"
    by (simp add: pvalue_def fun_eq_iff)
  then show "abs_cow (h\<lparr>handles := handles h @ [Some m]\<rparr>) = abs_cow h @ [Some (map_option (pvalue h) m)]"
    by (simp add: abs_cow_def)
qed (use assms in \<open>simp add: balanced_def pcount_def\<close>)

lemma set_value_ok:
  assumes "cow_wf h" and "held h i = Some (Some a)" and "refs_to h a = 1"
  shows "\<exists>h'. set_value i f h = Some h' \<and> cow_wf h' \<and> abs_cow h' = (abs_cow h)[i := Some (Some (f (pvalue h a)))]"
proof -
  note i = held_bound [OF assms(2)]
  obtain c x where p: "payload h a = Some (c, x)"
    using balanced_payload [OF assms(1), of a] assms(3) by auto
  let ?h = "h\<lparr>payload := (payload h)(a \<mapsto> (c, f x))\<rparr>"
  have "refs_to (set_handle i None h) a = 0"
    using refs_set_handle [OF assms(2), of None a] assms(3) by simp
  then have o: "handles h ! k \<noteq> Some (Some a)" if "k < length (handles h)" "k \<noteq> i" for k
    using that by (auto simp: refs_to_def in_set_conv_nth)
  have "abs_cow ?h = (abs_cow h)[i := Some (Some (f (pvalue h a)))]"
  proof (rule nth_equalityI)
    fix k assume "k < length (abs_cow ?h)"
    then have k: "k < length (handles h)" by (simp add: abs_cow_def)
    show "abs_cow ?h ! k = (abs_cow h)[i := Some (Some (f (pvalue h a)))] ! k"
    proof (cases "k = i")
      case True
      then show ?thesis using i p by (simp add: abs_cow_def pvalue_def)
    next
      case False
      then have "map_option (map_option (pvalue ?h)) (handles h ! k) = map_option (map_option (pvalue h)) (handles h ! k)"
        using o [OF k] by (intro option.map_cong0) (auto simp: pvalue_def intro!: option.map_cong0)
      then show ?thesis using False k by (simp add: abs_cow_def)
    qed
  qed (simp add: abs_cow_def)
  moreover have "cow_wf ?h"
    using assms(1) p by (auto simp: balanced_def pcount_def refs_to_def split: option.splits dest: spec [of _ a])
  ultimately show ?thesis
    using assms(2) p by (simp add: set_value_def)
qed

section \<open>Refinement\<close>

definition refines :: "'v cow_heap option \<Rightarrow> 'v option option list option \<Rightarrow> bool" where
  "refines h vs \<longleftrightarrow> map_option abs_cow h = vs \<and> (\<forall>h'. h = Some h' \<longrightarrow> cow_wf h')"

lemma refinesI: "\<exists>h'. h = Some h' \<and> cow_wf h' \<and> abs_cow h' = vs \<Longrightarrow> refines h (Some vs)"
  by (auto simp: refines_def)

lemma refines_None: "refines None None"
  by (simp add: refines_def)

lemma refines_new: "cow_wf h \<Longrightarrow> refines (cow_run (New x) h) (val_run (New x) (abs_cow h))"
proof -
  assume w: "cow_wf h"
  obtain a h' where n: "new_payload x h = (a, h')" by force
  note o = new_payload_ok [OF w n]
  have "cow_wf (h'\<lparr>handles := handles h' @ [Some (Some a)]\<rparr>)" "abs_cow (h'\<lparr>handles := handles h' @ [Some (Some a)]\<rparr>) = abs_cow h @ [Some (Some x)]"
    using append_ok [of "Some a" h'] o by simp_all
  then show ?thesis
    using n by (simp add: cow_new_def refines_def)
qed

lemma refines_copy: "cow_wf h \<Longrightarrow> refines (cow_run (Copy j) h) (val_run (Copy j) (abs_cow h))"
proof (cases "held h j")
  case (Some m)
  assume w: "cow_wf h"
  show ?thesis
  proof (cases m)
    case (Some a)
    then have j: "held h j = Some (Some a)"
      using \<open>held h j = Some m\<close> by simp
    from retain_ok [OF w refs_held [OF j]] obtain h' where h: "retain a h = Some h'" "balanced (\<lambda>b. of_bool (a = b)) h'"
        "abs_cow h' = abs_cow h" "pvalue h' = pvalue h"
      by blast
    then show ?thesis
      using append_ok [of "Some a" h'] j by (simp add: cow_copy_def at_abs refines_def)
  qed (use Some in \<open>simp add: cow_copy_def at_abs refines_None\<close>)
qed (simp add: cow_copy_def at_abs refines_None)

lemma unheld:
  assumes "cow_wf h" and "held h j = Some m"
  shows "balanced (\<lambda>b. of_bool (m = Some b)) (set_handle j (Some None) h)"
  using assms(1) refs_set_handle [OF assms(2), of "Some None"] by (simp add: balanced_def)

lemma refines_move: "cow_wf h \<Longrightarrow> refines (cow_run (Move j) h) (val_run (Move j) (abs_cow h))"
proof (cases "held h j")
  case (Some m)
  assume w: "cow_wf h"
  show ?thesis
    using append_ok [OF unheld [OF w Some]] Some
    by (simp add: cow_move_def at_abs refines_def Let_def abs_set_handle)
qed (simp add: cow_move_def at_abs refines_None)

lemma refines_destroy: "cow_wf h \<Longrightarrow> refines (cow_run (Destroy i) h) (val_run (Destroy i) (abs_cow h))"
proof (cases "held h i")
  case (Some m)
  assume w: "cow_wf h"
  then have "balanced (\<lambda>b. 0 + of_bool (m = Some b)) (set_handle i None h)"
    using refs_set_handle [OF Some, of None] by (simp add: balanced_def)
  from release_ok [OF this] show ?thesis
    using Some by (auto simp: cow_destroy_def at_abs refines_def abs_set_handle)
qed (simp add: cow_destroy_def at_abs refines_None)

lemma refines_assign: "cow_wf h \<Longrightarrow> refines (cow_run (Assign i j) h) (val_run (Assign i j) (abs_cow h))"
proof (cases "i = j")
  case False
  assume w: "cow_wf h"
  show ?thesis
  proof (cases "\<exists>a old. held h j = Some (Some a) \<and> held h i = Some old")
    case True
    then obtain a old where j: "held h j = Some (Some a)" and i: "held h i = Some old" by blast
    from retain_ok [OF w refs_held [OF j]] obtain h' where h: "retain a h = Some h'" "balanced (\<lambda>b. of_bool (a = b)) h'"
        "handles h' = handles h" "abs_cow h' = abs_cow h" "pvalue h' = pvalue h"
      by blast
    moreover have "held h' i = Some old"
      using i held_same [OF h(3)] by simp
    ultimately show ?thesis
      using swap_in_ok [of "Some a" h' i old] False i j by (auto simp: cow_assign_def at_abs refines_def)
  next
    case no: False
    then show ?thesis
    proof (cases "\<exists>a. held h j = Some (Some a)")
      case True
      then obtain a where j: "held h j = Some (Some a)" by blast
      moreover obtain h' where r: "retain a h = Some h'" "handles h' = handles h"
        using retain_ok [OF w refs_held [OF j]] by blast
      moreover have "held h i = None"
        using no j by auto
      ultimately show ?thesis
        using False held_same [OF r(2)] by (simp add: cow_assign_def at_abs refines_def swap_in_def)
    qed (use False in \<open>auto simp: cow_assign_def at_abs refines_def split: option.splits\<close>)
  qed
qed (cases "held h j"; simp add: cow_assign_def at_abs refines_def)

lemma refines_move_assign: "cow_wf h \<Longrightarrow> refines (cow_run (MoveAssign i j) h) (val_run (MoveAssign i j) (abs_cow h))"
proof (cases "held h j")
  case (Some m)
  assume w: "cow_wf h"
  let ?h = "set_handle j (Some None) h"
  have i: "held ?h i = (if i = j then Some None else held h i)"
    using held_bound [OF Some] by simp
  show ?thesis
  proof (cases "held ?h i")
    case None
    then show ?thesis
      using Some i by (simp add: cow_move_assign_def at_abs refines_def swap_in_def split: if_splits)
  next
    case old: (Some old)
    then show ?thesis
      using swap_in_ok [OF unheld [OF w Some] old] Some i
      by (cases "i = j") (auto simp: cow_move_assign_def at_abs refines_def abs_set_handle)
  qed
qed (simp add: cow_move_assign_def at_abs refines_def split: option.splits)

lemma refines_write: "cow_wf h \<Longrightarrow> refines (cow_run (Write i f) h) (val_run (Write i f) (abs_cow h))"
proof (cases "\<exists>a. held h i = Some (Some a)")
  case True
  assume w: "cow_wf h"
  from True obtain a where a: "held h i = Some (Some a)" by blast
  then obtain c x where p: "payload h a = Some (c, x)" "c = refs_to h a" "pvalue h a = x"
    using balanced_payload [OF w, of a] refs_held [OF a] by (auto simp: pvalue_def)
  show ?thesis
  proof (cases "c = 1")
    case True
    then show ?thesis
      using set_value_ok [OF w a, of f] p a by (auto simp: cow_write_def at_abs refines_def)
  next
    case False
    obtain b h' where n: "new_payload x h = (b, h')" by force
    note o = new_payload_ok [OF w n]
    have "held h' i = Some (Some a)"
      using a held_same [OF o(2)] by simp
    from swap_in_ok [of "Some b" h' i, OF _ this] o obtain h2 where h2: "swap_in i (Some b) h' = Some h2" "cow_wf h2"
        "handles h2 = (handles h)[i := Some (Some b)]" "abs_cow h2 = (abs_cow h)[i := Some (Some x)]" "pvalue h2 b = x"
      by auto
    have i: "held h2 i = Some (Some b)"
      using h2(3) held_bound [OF a] by (simp add: held_def)
    have "Some (Some b) \<notin> set (handles h)"
      using w n unfolding balanced_def new_payload_def pcount_def refs_to_def
      by (metis (no_types, lifting) add_is_0 count_eq_zero_iff le_refl option.simps(4) prod.inject set_mset_mset)
    then have "refs_to h2 b = 1"
      using h2(3) held_bound [OF a] count_update [of i "handles h" "Some (Some b)" "Some (Some b)"] nth_mem [of i "handles h"]
      by (cases "a = b") (simp_all add: refs_to_def)
    from set_value_ok [OF h2(2) i this, of f] show ?thesis
      using False a p n h2 by (auto simp: cow_write_def at_abs refines_def)
  qed
qed (auto simp: cow_write_def at_abs refines_def split: option.splits)

lemmas refines_ops = refines_new refines_copy refines_move refines_destroy refines_assign refines_move_assign refines_write

lemma refines_run: "cow_wf h \<Longrightarrow> refines (cow_run op h) (val_run op (abs_cow h))"
  by (cases op) (simp_all only: refines_ops)

lemma run_refines:
  assumes "cow_wf h"
  shows "refines (run_ops cow_run ops h) (run_ops val_run ops (abs_cow h))"
  using assms
proof (induction ops arbitrary: h)
  case Nil
  then show ?case by (simp add: refines_def)
next
  case (Cons op ops)
  note r = refines_run [OF Cons.prems, of op]
  then show ?case
    using Cons.IH by (cases "cow_run op h"; cases "val_run op (abs_cow h)") (auto simp: refines_def)
qed

text \<open>C26. Containers that share a payload behave as independent values. Any sequence of constructions, copies, moves, assignments,
  writes and destructions runs on the shared payloads exactly when it runs on values of one container each, and then every container
  holds the same value: a write is seen in its own container only. The count of each payload is the
  number of its containers, so that it is deleted with the last.\<close>

theorem cow_refines_values:
  "map_option abs_cow (run_ops cow_run ops no_cows) = run_ops val_run ops []
    \<and> (case run_ops cow_run ops no_cows of
        Some h \<Rightarrow> \<forall>a. (payload h a = None) = (refs_to h a = 0) \<and> pcount h a = refs_to h a
      | None \<Rightarrow> True)"
proof -
  have "cow_wf (no_cows :: 'a cow_heap)" "abs_cow (no_cows :: 'a cow_heap) = []"
    by (simp_all add: no_cows_def balanced_def pcount_def refs_to_def abs_cow_def)
  then have r: "refines (run_ops cow_run ops no_cows) (run_ops val_run ops [])"
    using run_refines [of no_cows ops] by simp
  have "(payload h a = None) = (refs_to h a = 0) \<and> pcount h a = refs_to h a" if "cow_wf h" for h :: "'a cow_heap" and a
  proof -
    have "pcount h a = refs_to h a" "\<And>c x. payload h a = Some (c, x) \<Longrightarrow> 0 < c"
      using that by (auto simp: balanced_def)
    then show ?thesis
      by (cases "payload h a") (auto simp: pcount_def)
  qed
  then show ?thesis
    using r by (auto simp: refines_def split: option.splits)
qed

end
