(* ===== verification/Ref_Count.thy ===== *)
theory Ref_Count
  imports Main "HOL-Library.Multiset"
begin

text \<open>
  The smart pointers of \<^verbatim>\<open>SmartPtr.h\<close> for classes that derive from \<^verbatim>\<open>SmartRef\<close>, as the client uses them: the object carries
  its reference count, a smart pointer its address. Objects and smart pointers are numbered; a deleted object has no count,
  a destroyed smart pointer no content. The use of a deleted object is \<open>None\<close>. Counts are taken to stay below the
  range of \<^verbatim>\<open>int\<close>.
\<close>

section \<open>Model\<close>

record heap =
  refcounts :: "int option list"
  smart_ptrs :: "nat option option list"

definition content :: "heap \<Rightarrow> nat \<Rightarrow> nat option option" where
  "content h v = (if v < length (smart_ptrs h) then smart_ptrs h ! v else None)"

definition object_count :: "heap \<Rightarrow> nat \<Rightarrow> int option" where
  "object_count h a = (if a < length (refcounts h) then refcounts h ! a else None)"

definition set_content :: "nat \<Rightarrow> nat option option \<Rightarrow> heap \<Rightarrow> heap" where
  "set_content v d h = h\<lparr>smart_ptrs := (smart_ptrs h)[v := d]\<rparr>"

definition set_count :: "nat \<Rightarrow> int option \<Rightarrow> heap \<Rightarrow> heap" where
  "set_count a n h = h\<lparr>refcounts := (refcounts h)[a := n]\<rparr>"

definition new_object :: "heap \<Rightarrow> nat \<times> heap" where
  "new_object h = (length (refcounts h), h\<lparr>refcounts := refcounts h @ [Some 0]\<rparr>)"

definition refCount :: "heap \<Rightarrow> nat \<Rightarrow> int option" where
  "refCount h v = (case content h v of None \<Rightarrow> None | Some None \<Rightarrow> Some 0 | Some (Some a) \<Rightarrow> object_count h a)"

definition incRefCount :: "nat \<Rightarrow> heap \<Rightarrow> heap option" where
  "incRefCount v h = (case content h v of
     None \<Rightarrow> None
   | Some None \<Rightarrow> Some h
   | Some (Some a) \<Rightarrow> map_option (\<lambda>n. set_count a (Some (n + 1)) h) (object_count h a))"

text \<open>The pointer keeps its content when the count stays positive: every caller overwrites it.\<close>

definition p_release :: "nat \<Rightarrow> heap \<Rightarrow> heap option" where
  "p_release v h = (case content h v of
     None \<Rightarrow> None
   | Some None \<Rightarrow> Some h
   | Some (Some a) \<Rightarrow> map_option (\<lambda>n. if n - 1 = 0 then set_content v (Some None) (set_count a None h) else set_count a (Some (n - 1)) h)
       (object_count h a))"

definition p_assign_ptr :: "nat \<Rightarrow> nat option \<Rightarrow> heap \<Rightarrow> heap option" where
  "p_assign_ptr v p h =
     (if content h v = Some p then Some h
      else (case p_release v h of None \<Rightarrow> None | Some h' \<Rightarrow> incRefCount v (set_content v (Some p) h')))"

definition p_assign :: "nat \<Rightarrow> nat \<Rightarrow> heap \<Rightarrow> heap option" where
  "p_assign v u h = (case content h u of None \<Rightarrow> None | Some p \<Rightarrow> p_assign_ptr v p h)"

definition SmartPtr :: "heap \<Rightarrow> nat \<times> heap" where
  "SmartPtr h = (length (smart_ptrs h), h\<lparr>smart_ptrs := smart_ptrs h @ [Some None]\<rparr>)"

definition SmartPtr_from :: "nat option \<Rightarrow> heap \<Rightarrow> (nat \<times> heap) option" where
  "SmartPtr_from p h = (let (v, h') = SmartPtr h in map_option (Pair v) (p_assign_ptr v p h'))"

definition SmartPtr_copy :: "nat \<Rightarrow> heap \<Rightarrow> (nat \<times> heap) option" where
  "SmartPtr_copy u h = (let (v, h') = SmartPtr h in map_option (Pair v) (p_assign v u h'))"

definition SmartPtr_destroy :: "nat \<Rightarrow> heap \<Rightarrow> heap option" where
  "SmartPtr_destroy v h = map_option (set_content v None) (p_release v h)"

definition clear :: "nat \<Rightarrow> heap \<Rightarrow> heap option" where
  "clear v h = map_option (set_content v (Some None)) (p_release v h)"

text \<open>The object behind a pointer, its test for emptiness, and \<^verbatim>\<open>operator->\<close>, which throws when there is none.\<close>

definition sp_ptr :: "heap \<Rightarrow> nat \<Rightarrow> nat option option" where
  "sp_ptr h v = (case content h v of
     None \<Rightarrow> None
   | Some None \<Rightarrow> Some None
   | Some (Some a) \<Rightarrow> if object_count h a = None then None else Some (Some a))"

definition sp_empty :: "heap \<Rightarrow> nat \<Rightarrow> bool option" where
  "sp_empty h v = map_option (\<lambda>p. p = None) (sp_ptr h v)"

definition deref :: "heap \<Rightarrow> nat \<Rightarrow> (string + nat) option" where
  "deref h v = map_option (\<lambda>p. case p of None \<Rightarrow> Inl ''Cannot reference null pointer'' | Some a \<Rightarrow> Inr a) (sp_ptr h v)"

section \<open>Counting\<close>

definition refs :: "heap \<Rightarrow> nat \<Rightarrow> int" where
  "refs h a = int (count (mset (smart_ptrs h)) (Some (Some a)))"

definition counted :: "heap \<Rightarrow> bool" where
  "counted h \<longleftrightarrow> (\<forall>a. (case object_count h a of Some n \<Rightarrow> n | None \<Rightarrow> 0) = refs h a)"

lemma refs_set_content:
  "v < length (smart_ptrs h) \<Longrightarrow> refs (set_content v d h) a = refs h a - of_bool (content h v = Some (Some a)) + of_bool (d = Some (Some a))"
proof -
  assume v: "v < length (smart_ptrs h)"
  show ?thesis
  proof (cases "smart_ptrs h ! v = Some (Some a)")
    case True
    then have "Some (Some a) \<in># mset (smart_ptrs h)"
      using v by (metis nth_mem set_mset_mset)
    then have "int (count (mset (smart_ptrs h)) (Some (Some a)) - Suc 0) = int (count (mset (smart_ptrs h)) (Some (Some a))) - 1"
      by (simp add: Suc_leI of_nat_diff)
    then show ?thesis
      using v True by (auto simp: refs_def set_content_def content_def mset_update)
  qed (use v in \<open>auto simp: refs_def set_content_def content_def mset_update\<close>)
qed

lemma refs_set_count [simp]: "refs (set_count a n h) b = refs h b"
  by (simp add: refs_def set_count_def)

lemma content_simps [simp]:
  "content (set_count a n h) v = content h v"
  "content (set_content v d h) u = (if u = v \<and> v < length (smart_ptrs h) then d else content h u)"
  by (auto simp: content_def set_count_def set_content_def nth_list_update)

lemma object_count_simps [simp]:
  "object_count (set_content v d h) a = object_count h a"
  "object_count (set_count b n h) a = (if a = b \<and> b < length (refcounts h) then n else object_count h a)"
  by (auto simp: object_count_def set_count_def set_content_def nth_list_update)

lemma length_simps [simp]: "length (smart_ptrs (set_content v d h)) = length (smart_ptrs h)" "smart_ptrs (set_count a n h) = smart_ptrs h"
  "length (refcounts (set_count a n h)) = length (refcounts h)" "refcounts (set_content v d h) = refcounts h"
  by (simp_all add: set_content_def set_count_def)

lemma refs_pos: "content h v = Some (Some a) \<Longrightarrow> 0 < refs h a"
proof -
  assume "content h v = Some (Some a)"
  then have "Some (Some a) \<in> set (smart_ptrs h)"
    by (metis content_def nth_mem option.distinct(1))
  then show ?thesis by (simp add: refs_def)
qed

lemma counted_alive: "counted h \<Longrightarrow> content h v = Some (Some a) \<Longrightarrow> object_count h a = Some (refs h a) \<and> a < length (refcounts h)"
proof -
  assume "counted h" "content h v = Some (Some a)"
  then have "(case object_count h a of Some n \<Rightarrow> n | None \<Rightarrow> 0) = refs h a" "0 < refs h a"
    using refs_pos by (simp_all add: counted_def)
  then have c: "object_count h a = Some (refs h a)"
    by (cases "object_count h a") simp_all
  moreover have "a < length (refcounts h)"
    using c by (simp add: object_count_def split: if_splits)
  ultimately show ?thesis by simp
qed

lemma content_bound: "content h v \<noteq> None \<Longrightarrow> v < length (smart_ptrs h)"
  by (simp add: content_def split: if_splits)

text \<open>Releasing a pointer and giving it a new content keeps the counts of all objects but the new one.\<close>

lemma release_set:
  assumes "counted h" and "content h v \<noteq> None"
  shows "\<exists>h'. p_release v h = Some h' \<and> length (smart_ptrs h') = length (smart_ptrs h) \<and> length (refcounts h') = length (refcounts h)
    \<and> (\<forall>u. u \<noteq> v \<longrightarrow> content h' u = content h u) \<and> content h' v \<noteq> None
    \<and> (\<forall>b. (case object_count h' b of Some n \<Rightarrow> n | None \<Rightarrow> 0) = refs h b - of_bool (content h v = Some (Some b)))
    \<and> (\<forall>b d. refs (set_content v d h') b = refs h b - of_bool (content h v = Some (Some b)) + of_bool (d = Some (Some b)))
    \<and> (\<forall>b. content h v \<noteq> Some (Some b) \<longrightarrow> object_count h' b = object_count h b)"
proof -
  have v: "v < length (smart_ptrs h)"
    using content_bound [OF assms(2)] .
  have c: "(case object_count h b of Some n \<Rightarrow> n | None \<Rightarrow> 0) = refs h b" for b
    using assms(1) by (simp add: counted_def)
  show ?thesis
  proof (cases "content h v")
    case (Some d)
    show ?thesis
    proof (cases d)
      case None
      then show ?thesis
        using Some c refs_set_content [OF v] by (simp add: p_release_def)
    next
      case (Some a)
      then have a: "content h v = Some (Some a)"
        using \<open>content h v = Some d\<close> by simp
      have n: "object_count h a = Some (refs h a)" "a < length (refcounts h)"
        using counted_alive [OF assms(1) a] by simp_all
      show ?thesis
        using a n c v refs_set_content [OF v] by (auto simp: p_release_def refs_set_content)
    qed
  qed (use assms(2) in simp)
qed

lemma counted_set:
  assumes "counted h" and "content h v \<noteq> None" and "p_release v h = Some h'" and "d = None \<or> d = Some None"
  shows "counted (set_content v d h')"
  using release_set [OF assms(1,2)] assms(3,4) by (auto simp: counted_def)

lemma counted_assign:
  assumes "counted h" and "content h v \<noteq> None" and "case p of Some a \<Rightarrow> object_count h a \<noteq> None | None \<Rightarrow> True"
  shows "\<exists>h'. p_assign_ptr v p h = Some h' \<and> counted h' \<and> content h' v = Some p"
proof (cases "content h v = Some p")
  case True
  then show ?thesis using assms(1) by (simp add: p_assign_ptr_def)
next
  case False
  from release_set [OF assms(1,2)] obtain h1 where r: "p_release v h = Some h1" "length (smart_ptrs h1) = length (smart_ptrs h)"
      "length (refcounts h1) = length (refcounts h)"
      "\<And>b. (case object_count h1 b of Some n \<Rightarrow> n | None \<Rightarrow> 0) = refs h b - of_bool (content h v = Some (Some b))"
      "\<And>b d. refs (set_content v d h1) b = refs h b - of_bool (content h v = Some (Some b)) + of_bool (d = Some (Some b))"
      "\<And>b. content h v \<noteq> Some (Some b) \<Longrightarrow> object_count h1 b = object_count h b"
    by blast
  let ?h = "set_content v (Some p) h1"
  have v: "v < length (smart_ptrs h1)"
    using content_bound [OF assms(2)] r(2) by simp
  show ?thesis
  proof (cases p)
    case None
    then have "counted ?h"
      using r(4,5) by (simp add: counted_def)
    then show ?thesis
      using False None r(1) v by (simp add: p_assign_ptr_def incRefCount_def)
  next
    case (Some a)
    obtain n where n: "object_count h1 a = Some n"
      using r(6) [of a] False Some assms(3) by auto
    then have "n = refs h a - of_bool (content h v = Some (Some a))"
      using r(4) [of a] by simp
    moreover have "a < length (refcounts h1)"
      using n by (simp add: object_count_def split: if_splits)
    ultimately have "counted (set_count a (Some (n + 1)) ?h)"
      using r(4,5) Some by (auto simp: counted_def)
    then show ?thesis
      using False Some r(1) v n by (simp add: p_assign_ptr_def incRefCount_def)
  qed
qed

section \<open>Runs\<close>

inductive ptr_step :: "heap \<Rightarrow> heap \<Rightarrow> bool" where
  new_object: "ptr_step h (snd (new_object h))"
| construct: "ptr_step h (snd (SmartPtr h))"
| construct_from: "(case p of Some a \<Rightarrow> object_count h a \<noteq> None | None \<Rightarrow> True) \<Longrightarrow> SmartPtr_from p h = Some (v, h') \<Longrightarrow> ptr_step h h'"
| construct_copy: "SmartPtr_copy u h = Some (v, h') \<Longrightarrow> ptr_step h h'"
| assign_ptr: "(case p of Some a \<Rightarrow> object_count h a \<noteq> None | None \<Rightarrow> True) \<Longrightarrow> p_assign_ptr v p h = Some h' \<Longrightarrow> ptr_step h h'"
| assign: "p_assign v u h = Some h' \<Longrightarrow> ptr_step h h'"
| clear: "clear v h = Some h' \<Longrightarrow> ptr_step h h'"
| destroy: "SmartPtr_destroy v h = Some h' \<Longrightarrow> ptr_step h h'"

lemma content_release: "p_release v h = Some h' \<Longrightarrow> content h v \<noteq> None"
  by (simp add: p_release_def split: option.splits)

lemma content_assign: "p_assign_ptr v p h = Some h' \<Longrightarrow> content h v \<noteq> None"
  by (auto simp: p_assign_ptr_def split: if_splits option.splits dest: content_release)

lemma counted_p_assign:
  assumes "counted h" and "content h v \<noteq> None" and "content h u = Some p"
  shows "\<exists>h'. p_assign v u h = Some h' \<and> counted h' \<and> content h' v = Some p"
proof -
  have "case p of Some a \<Rightarrow> object_count h a \<noteq> None | None \<Rightarrow> True"
    using counted_alive [OF assms(1), of u] assms(3) by (cases p) auto
  then show ?thesis
    using counted_assign [OF assms(1,2)] assms(3) by (simp add: p_assign_def)
qed

lemma counted_new: "counted h \<Longrightarrow> counted (snd (new_object h))" "counted h \<Longrightarrow> counted (snd (SmartPtr h))"
  "content (snd (SmartPtr h)) (length (smart_ptrs h)) = Some None"
  "u < length (smart_ptrs h) \<Longrightarrow> content (snd (SmartPtr h)) u = content h u" "object_count (snd (SmartPtr h)) a = object_count h a"
proof -
  assume c: "counted h"
  have "refs (snd (new_object h)) b = refs h b" for b
    by (simp add: refs_def new_object_def)
  moreover have "(case object_count (snd (new_object h)) b of Some n \<Rightarrow> n | None \<Rightarrow> 0) = (case object_count h b of Some n \<Rightarrow> n | None \<Rightarrow> 0)" for b
    by (auto simp: new_object_def object_count_def nth_append)
  ultimately show "counted (snd (new_object h))"
    using c by (simp add: counted_def)
  show "counted (snd (SmartPtr h))"
  proof -
    have "refs (snd (SmartPtr h)) b = refs h b" "object_count (snd (SmartPtr h)) b = object_count h b" for b
      by (simp_all add: refs_def SmartPtr_def object_count_def)
    then show ?thesis
      using c by (simp add: counted_def)
  qed
qed (simp_all add: content_def SmartPtr_def nth_append object_count_def)

lemma counted_step: "ptr_step h h' \<Longrightarrow> counted h \<Longrightarrow> counted h'"
proof (induction rule: ptr_step.induct)
  case (construct_from p h v h')
  then show ?case
    using counted_assign [OF counted_new(2), of h "length (smart_ptrs h)" p]
    by (auto simp: SmartPtr_from_def counted_new(3,5) case_prod_beta split: option.splits) (simp add: SmartPtr_def)+
next
  case (construct_copy u h v h')
  let ?h = "snd (SmartPtr h)" and ?v = "length (smart_ptrs h)"
  have a: "p_assign ?v u ?h = Some h'"
    using construct_copy.hyps by (auto simp: SmartPtr_copy_def SmartPtr_def)
  then obtain p where "content ?h u = Some p"
    by (auto simp: p_assign_def split: option.splits)
  then show ?case
    using counted_p_assign [OF counted_new(2) [OF construct_copy.prems], of ?v u p] a counted_new(3) [of h] by simp
next
  case (assign_ptr p h v h')
  then show ?case
    using counted_assign [OF _ content_assign] by force
next
  case (assign v u h h')
  then obtain p where "content h u = Some p" "p_assign_ptr v p h = Some h'"
    by (auto simp: p_assign_def split: option.splits)
  then show ?case
    using counted_p_assign [OF assign.prems content_assign] assign.hyps by force
next
  case (clear v h h')
  then show ?case
    using counted_set [OF _ content_release] by (auto simp: clear_def)
next
  case (destroy v h h')
  then show ?case
    using counted_set [OF _ content_release] by (auto simp: SmartPtr_destroy_def)
qed (simp_all add: counted_new)

lemma counted_reached:
  assumes "ptr_step\<^sup>*\<^sup>* \<lparr>refcounts = [], smart_ptrs = []\<rparr> h"
  shows "counted h"
  using assms
proof (induction rule: rtranclp_induct)
  case base
  then show ?case by (simp add: counted_def object_count_def refs_def)
next
  case (step h1 h2)
  then show ?case by (blast intro: counted_step)
qed

text \<open>C31. Reference counts are exact. After any sequence of constructions, copies, assignments and destructions of smart pointers, the
  count of every object that has not been deleted is the number of smart pointers that refer to it; no
  smart pointer refers to a deleted object; dereferencing one gives the object it refers to; and releasing a smart pointer deletes its object exactly
  when it was the last.\<close>

theorem smart_ptr_counts:
  assumes "ptr_step\<^sup>*\<^sup>* \<lparr>refcounts = [], smart_ptrs = []\<rparr> h" and "content h v = Some (Some a)"
  shows "refCount h v = Some (refs h a) \<and> 0 < refs h a \<and> deref h v = Some (Inr a)
    \<and> (\<exists>h'. SmartPtr_destroy v h = Some h' \<and> object_count h' a = (if refs h a = 1 then None else Some (refs h a - 1))
        \<and> (\<forall>b. b \<noteq> a \<longrightarrow> object_count h' b = object_count h b))"
  using counted_alive [OF counted_reached [OF assms(1)] assms(2)] assms(2) refs_pos [OF assms(2)]
  by (simp add: refCount_def SmartPtr_destroy_def p_release_def deref_def sp_ptr_def)

definition ex_heap :: heap where
  "ex_heap = \<lparr>refcounts = [Some 2], smart_ptrs = [Some (Some 0), Some (Some 0)]\<rparr>"

theorem smart_ptr_counts_witness:
  "refCount ex_heap 1 = Some 2 \<and> (\<exists>h'. SmartPtr_destroy 1 ex_heap = Some h' \<and> object_count h' 0 = Some 1)"
proof -
  let ?h0 = "\<lparr>refcounts = [], smart_ptrs = []\<rparr>"
  let ?h1 = "snd (new_object ?h0)"
  obtain h2 where "SmartPtr_from (Some 0) ?h1 = Some (0, h2)" "SmartPtr_copy 0 h2 = Some (1, ex_heap)" "object_count ?h1 0 \<noteq> None"
    by (simp add: SmartPtr_from_def SmartPtr_def p_assign_ptr_def content_def p_release_def set_content_def incRefCount_def set_count_def
        object_count_def new_object_def SmartPtr_copy_def p_assign_def ex_heap_def)
  then have "ptr_step ?h0 ?h1" "ptr_step ?h1 h2" "ptr_step h2 ex_heap"
    using ptr_step.new_object [of ?h0] ptr_step.construct_from [where p = "Some 0"] ptr_step.construct_copy by auto
  then have "ptr_step\<^sup>*\<^sup>* ?h0 ex_heap"
    by (meson converse_rtranclp_into_rtranclp rtranclp.rtrancl_refl)
  moreover have "content ex_heap 1 = Some (Some 0)" "refs ex_heap 0 = 2"
    by (simp_all add: ex_heap_def content_def refs_def)
  ultimately show ?thesis
    using smart_ptr_counts [of ex_heap 1 0] by auto
qed

end
