(* ===== verification/Task_Thread.thy ===== *)
theory Task_Thread
  imports Main "HOL-Library.Multiset"
begin

text \<open>
  The thread that runs posted tasks at their times (\<^verbatim>\<open>src/cpp/ex/task_thread/task_thread.hpp\<close>). The state holds the place of the
  thread in \<^verbatim>\<open>ThreadLoop\<close>, the queue, the notifications that posts have still to give after leaving the lock, the clock and
  the progress of the destructor; tasks are numbered in the order of their posts, and what has been run is recorded with the time of its start
  and the number of posts until then. A section under the lock is one step. Times and delays are counted in units of the clock. The queue gives any of the tasks with the least time.
\<close>

record 't task_item =
  func :: 't
  exec_time :: int
  post :: nat

type_synonym 't started = "'t task_item \<times> int \<times> nat"

datatype 't place = Top | Lock | Wait "int option" | Run "'t started" | Sync "'t started" nat | Ended

datatype dtor = Alive | Stopping | Joining | Destroyed

record 't task_thread =
  running :: bool
  place :: "'t place"
  task_queue :: "'t task_item list"
  notifies :: nat
  now :: int
  posts :: nat
  futures :: "nat list"
  ran :: "'t started list"
  dtor :: dtor

section \<open>The operations\<close>

definition TaskThread :: "int \<Rightarrow> 't task_thread" where
  "TaskThread time = \<lparr>running = True, place = Top, task_queue = [], notifies = 0, now = time, posts = 0, futures = [], ran = [], dtor = Alive\<rparr>"

definition emplace :: "'t \<Rightarrow> int \<Rightarrow> 't task_thread \<Rightarrow> 't task_thread" where
  "emplace f time t = t\<lparr>task_queue := task_queue t @ [\<lparr>func = f, exec_time = time, post = posts t\<rparr>], posts := posts t + 1, notifies := notifies t + 1\<rparr>"

definition PostDelayedTask :: "'t \<Rightarrow> int \<Rightarrow> int \<Rightarrow> 't task_thread \<Rightarrow> 't task_thread" where
  "PostDelayedTask f delay time t = emplace f (time + delay) t"

definition PostTask :: "'t \<Rightarrow> int \<Rightarrow> 't task_thread \<Rightarrow> 't task_thread" where
  "PostTask f time t = PostDelayedTask f 0 time t"

text \<open>The caller waits for the future of the post, in another thread or in the task that is running.\<close>

definition PostTaskSync :: "'t \<Rightarrow> 't task_thread \<Rightarrow> 't task_thread" where
  "PostTaskSync f t = (emplace f (now t) t)\<lparr>futures := posts t # futures t\<rparr>"

definition PostTaskSync_inside :: "'t \<Rightarrow> 't started \<Rightarrow> 't task_thread \<Rightarrow> 't task_thread" where
  "PostTaskSync_inside f e t = (emplace f (now t) t)\<lparr>place := Sync e (posts t)\<rparr>"

definition future_ready :: "nat \<Rightarrow> 't task_thread \<Rightarrow> bool" where
  "future_ready n t \<longleftrightarrow> n \<in> (\<lambda>e. post (fst e)) ` set (ran t)"

definition wake :: "'t place \<Rightarrow> 't place" where
  "wake p = (case p of Wait _ \<Rightarrow> Top | _ \<Rightarrow> p)"

definition is_top :: "'t task_item \<Rightarrow> 't task_item list \<Rightarrow> bool" where
  "is_top x q \<longleftrightarrow> x \<in> set q \<and> (\<forall>y \<in> set q. exec_time x \<le> exec_time y)"

text \<open>What the thread does by itself, and the notifications under way.\<close>

inductive ThreadLoop :: "'t task_thread \<Rightarrow> 't task_thread \<Rightarrow> bool" where
  loop: "place t = Top \<Longrightarrow> ThreadLoop t (t\<lparr>place := if running t then Lock else Ended\<rparr>)"
| empty: "place t = Lock \<Longrightarrow> task_queue t = [] \<Longrightarrow> ThreadLoop t (t\<lparr>place := Wait None\<rparr>)"
| early: "place t = Lock \<Longrightarrow> is_top x (task_queue t) \<Longrightarrow> now t < exec_time x \<Longrightarrow> ThreadLoop t (t\<lparr>place := Wait (Some (exec_time x))\<rparr>)"
| take: "place t = Lock \<Longrightarrow> is_top x (task_queue t) \<Longrightarrow> exec_time x \<le> now t \<Longrightarrow>
    ThreadLoop t (t\<lparr>place := Run (x, now t, posts t), task_queue := remove1 x (task_queue t)\<rparr>)"
| finish: "place t = Run e \<Longrightarrow> ThreadLoop t (t\<lparr>place := Top, ran := ran t @ [e]\<rparr>)"
| timeout: "place t = Wait (Some time) \<Longrightarrow> time \<le> now t \<Longrightarrow> ThreadLoop t (t\<lparr>place := Top\<rparr>)"
| resume: "place t = Sync e n \<Longrightarrow> future_ready n t \<Longrightarrow> ThreadLoop t (t\<lparr>place := Run e\<rparr>)"
| notify_one: "0 < notifies t \<Longrightarrow> ThreadLoop t (t\<lparr>notifies := notifies t - 1, place := wake (place t)\<rparr>)"

text \<open>What the other threads do: posts, also by the running task, the clock, spurious wake-ups, and the destructor.\<close>

inductive other_step :: "'t task_thread \<Rightarrow> 't task_thread \<Rightarrow> bool" where
  delayed: "time \<le> now t \<Longrightarrow> other_step t (PostDelayedTask f delay time t)"
| sync: "other_step t (PostTaskSync f t)"
| inside: "place t = Run e \<Longrightarrow> other_step t (PostTaskSync_inside f e t)"
| return: "n \<in> set (futures t) \<Longrightarrow> future_ready n t \<Longrightarrow> other_step t (t\<lparr>futures := remove1 n (futures t)\<rparr>)"
| tick: "now t \<le> time \<Longrightarrow> other_step t (t\<lparr>now := time\<rparr>)"
| spurious: "other_step t (t\<lparr>place := wake (place t)\<rparr>)"
| stop: "dtor t = Alive \<Longrightarrow> other_step t (t\<lparr>running := False, dtor := Stopping\<rparr>)"
| notify_all: "dtor t = Stopping \<Longrightarrow> other_step t (t\<lparr>dtor := Joining, place := wake (place t)\<rparr>)"
| join: "dtor t = Joining \<Longrightarrow> place t = Ended \<Longrightarrow> other_step t (t\<lparr>dtor := Destroyed\<rparr>)"

definition task_step :: "'t task_thread \<Rightarrow> 't task_thread \<Rightarrow> bool" where
  "task_step t t' \<longleftrightarrow> ThreadLoop t t' \<or> other_step t t'"

inductive_cases thread_cases: "ThreadLoop t t'"
inductive_cases other_cases: "other_step t t'"

section \<open>The invariant\<close>

definition started_all :: "'t task_thread \<Rightarrow> 't started list" where
  "started_all t = ran t @ (case place t of Run e \<Rightarrow> [e] | Sync e _ \<Rightarrow> [e] | _ \<Rightarrow> [])"

text \<open>A task that was started has no later time than one that had been posted by then and is run after it.\<close>

definition not_later :: "'t started \<Rightarrow> 't task_item \<Rightarrow> bool" where
  "not_later e y \<longleftrightarrow> (post y < snd (snd e) \<longrightarrow> exec_time (fst e) \<le> exec_time y)"

definition accounted :: "'t task_thread \<Rightarrow> bool" where
  "accounted t \<longleftrightarrow> mset (map post (map fst (started_all t) @ task_queue t)) = mset [0..<posts t]"

definition in_time :: "'t task_thread \<Rightarrow> bool" where
  "in_time t \<longleftrightarrow> (\<forall>e \<in> set (started_all t). exec_time (fst e) \<le> fst (snd e) \<and> fst (snd e) \<le> now t \<and> snd (snd e) \<le> posts t)"

definition in_order :: "'t task_thread \<Rightarrow> bool" where
  "in_order t \<longleftrightarrow> sorted_wrt (\<lambda>e f. not_later e (fst f)) (started_all t)
     \<and> (\<forall>e \<in> set (started_all t). \<forall>y \<in> set (task_queue t). not_later e y)"

text \<open>A thread that waits has nothing to do before the time it waits for, or a notification is under way.\<close>

fun settled :: "'t task_item list \<Rightarrow> 't place \<Rightarrow> bool" where
  "settled q (Wait None) = (q = [])"
| "settled q (Wait (Some time)) = (\<forall>x \<in> set q. time \<le> exec_time x)"
| "settled q _ = True"

definition no_lost_task :: "'t task_thread \<Rightarrow> bool" where
  "no_lost_task t \<longleftrightarrow> 0 < notifies t \<or> settled (task_queue t) (place t)"

definition task_wf :: "'t task_thread \<Rightarrow> bool" where
  "task_wf t \<longleftrightarrow> accounted t \<and> in_time t \<and> in_order t \<and> no_lost_task t"

lemmas task_wf_defs = task_wf_def accounted_def in_time_def in_order_def no_lost_task_def

lemma started_wake [simp]: "started_all (t\<lparr>place := wake (place t)\<rparr>) = started_all t"
  "started_all (t\<lparr>notifies := n, place := wake (place t)\<rparr>) = started_all t"
  "started_all (t\<lparr>dtor := d, place := wake (place t)\<rparr>) = started_all t"
  by (cases "place t"; simp add: started_all_def wake_def)+

lemma started_other [simp]:
  "started_all (t\<lparr>now := time\<rparr>) = started_all t" "started_all (t\<lparr>futures := fs\<rparr>) = started_all t"
  "started_all (t\<lparr>running := b\<rparr>) = started_all t" "started_all (t\<lparr>dtor := d\<rparr>) = started_all t"
  by (simp_all add: started_all_def)

lemma wf_wake:
  assumes "task_wf t"
  shows "task_wf (t\<lparr>place := wake (place t)\<rparr>)" "task_wf (t\<lparr>dtor := d, place := wake (place t)\<rparr>)"
    "task_wf (t\<lparr>notifies := n, place := wake (place t)\<rparr>)"
  using assms by (cases "place t"; simp add: task_wf_defs started_all_def wake_def)+

lemma wf_ThreadLoop:
  assumes "ThreadLoop t t'" and "task_wf t"
  shows "task_wf t'"
  using assms
proof (cases rule: ThreadLoop.cases)
  case (take x)
  have "mset (map post (task_queue t)) = add_mset (post x) (mset (map post (remove1 x (task_queue t))))"
    using take by (simp add: is_top_def flip: image_mset_add_mset)
  moreover have sub: "set (remove1 x (task_queue t)) \<subseteq> set (task_queue t)"
    by (rule set_remove1_subset)
  moreover have "not_later (x, now t, posts t) y" if "y \<in> set (remove1 x (task_queue t))" for y
    using take(3) sub that by (auto simp: not_later_def is_top_def)
  ultimately show ?thesis
    using assms(2) take by (auto simp: task_wf_defs started_all_def sorted_wrt_append is_top_def)
next
  case notify_one
  then show ?thesis using assms(2) wf_wake by simp
qed (auto simp: task_wf_defs started_all_def is_top_def split: if_splits)

lemma wf_emplace:
  assumes "task_wf t"
  shows "task_wf (emplace f time t)" "task_wf ((emplace f time t)\<lparr>futures := fs\<rparr>)"
    "place t = Run e \<Longrightarrow> task_wf ((emplace f time t)\<lparr>place := Sync e n\<rparr>)"
proof -
  have e: "started_all (emplace f time t) = started_all t" "started_all ((emplace f time t)\<lparr>futures := fs\<rparr>) = started_all t"
      "place t = Run e \<Longrightarrow> started_all ((emplace f time t)\<lparr>place := Sync e n\<rparr>) = started_all t"
    by (simp_all add: started_all_def emplace_def)
  have "not_later x \<lparr>func = f, exec_time = time, post = posts t\<rparr>" if "x \<in> set (started_all t)" for x
    using assms that by (auto simp: task_wf_def in_time_def not_later_def)
  then show "task_wf (emplace f time t)" "task_wf ((emplace f time t)\<lparr>futures := fs\<rparr>)"
      "place t = Run e \<Longrightarrow> task_wf ((emplace f time t)\<lparr>place := Sync e n\<rparr>)"
    using assms by (auto simp: task_wf_defs e) (auto simp: emplace_def atLeast0_lessThan_Suc)
qed

lemma wf_other_step:
  assumes "other_step t t'" and "task_wf t"
  shows "task_wf t'"
  using assms
proof (cases rule: other_step.cases)
  case delayed
  then show ?thesis using wf_emplace assms(2) by (simp add: PostDelayedTask_def)
next
  case sync
  then show ?thesis using wf_emplace assms(2) by (simp add: PostTaskSync_def)
next
  case inside
  then show ?thesis using wf_emplace assms(2) by (simp add: PostTaskSync_inside_def)
next
  case spurious
  then show ?thesis using wf_wake assms(2) by simp
next
  case notify_all
  then show ?thesis using wf_wake assms(2) by simp
qed (auto simp: task_wf_defs intro: order_trans)

lemma wf_reachable:
  assumes "task_step\<^sup>*\<^sup>* t t'" and "task_wf t"
  shows "task_wf t'"
  using assms by (induction rule: rtranclp_induct) (auto simp: task_step_def intro: wf_ThreadLoop wf_other_step)

lemma wf_TaskThread: "task_wf (TaskThread time)"
  by (simp add: task_wf_defs TaskThread_def started_all_def)

section \<open>Tasks run once, in time and in order\<close>

text \<open>C27. Tasks run once, in time and in order. After any interleaving of posts, wake-ups and the loop, every post is either among the tasks
  that were started or in the queue, and none is there twice; no task was started before its time; a task that was started has no later
  time than any task that had been posted by then and was started after it or still waits.\<close>

theorem tasks_run_in_order:
  assumes "task_step\<^sup>*\<^sup>* (TaskThread time) t"
  shows "mset (map post (map fst (started_all t) @ task_queue t)) = mset [0..<posts t]
    \<and> (\<forall>(x, s, p) \<in> set (started_all t). exec_time x \<le> s)
    \<and> (\<forall>i j. i < j \<and> j < length (started_all t) \<and> post (fst (started_all t ! j)) < snd (snd (started_all t ! i)) \<longrightarrow>
          exec_time (fst (started_all t ! i)) \<le> exec_time (fst (started_all t ! j)))
    \<and> (\<forall>(x, s, p) \<in> set (started_all t). \<forall>y \<in> set (task_queue t). post y < p \<longrightarrow> exec_time x \<le> exec_time y)"
  using wf_reachable [OF assms wf_TaskThread]
  by (auto simp: task_wf_def accounted_def in_time_def in_order_def not_later_def sorted_wrt_iff_nth_less)

lemma top_exists:
  assumes "x \<in> set q"
  shows "\<exists>y. is_top y q \<and> exec_time y \<le> exec_time x"
proof -
  have "q \<noteq> []" using assms by auto
  then show ?thesis
    using assms by (intro exI [of _ "arg_min_list exec_time q"]) (auto simp: is_top_def arg_min_list_in f_arg_min_list_f)
qed

text \<open>How many steps the thread can take before it starts a task that is due.\<close>

definition steps_left :: "'t task_thread \<Rightarrow> nat" where
  "steps_left t = notifies t + (case place t of Wait _ \<Rightarrow> 3 | Top \<Rightarrow> 2 | Lock \<Rightarrow> 1 | _ \<Rightarrow> 0)"

definition due :: "'t task_thread \<Rightarrow> bool" where
  "due t \<longleftrightarrow> running t \<and> (\<exists>x \<in> set (task_queue t). exec_time x \<le> now t) \<and> (case place t of Run _ \<Rightarrow> False | Sync _ _ \<Rightarrow> False | Ended \<Rightarrow> False | _ \<Rightarrow> True)"

text \<open>C28. A task that is due is started. While the thread has not been stopped and is not busy with a task, and some task is due, then
  the thread has a step to take, whatever wake-ups were given before; each of its steps starts a task whose time
  has come or leaves fewer to take.\<close>

theorem due_task_starts:
  assumes "task_step\<^sup>*\<^sup>* (TaskThread time) t" and "due t"
  shows "(\<exists>t'. ThreadLoop t t') \<and> (\<forall>t'. ThreadLoop t t' \<longrightarrow>
      (\<exists>x. place t' = Run (x, now t, posts t) \<and> x \<in> set (task_queue t) \<and> exec_time x \<le> now t) \<or> (due t' \<and> steps_left t' < steps_left t))"
proof (intro conjI allI impI)
  have n: "no_lost_task t"
    using wf_reachable [OF assms(1) wf_TaskThread] by (simp add: task_wf_def)
  obtain x where "x \<in> set (task_queue t)" "exec_time x \<le> now t"
    using assms(2) by (auto simp: due_def)
  then obtain y where y: "is_top y (task_queue t)" "exec_time y \<le> now t"
    using top_exists [of x "task_queue t"] by (fastforce simp: is_top_def)
  show "\<exists>t'. ThreadLoop t t'"
  proof (cases "place t")
    case (Wait w)
    then show ?thesis
      using n y assms(2) by (cases w) (fastforce simp: no_lost_task_def is_top_def intro: timeout notify_one)+
  qed (use y assms(2) in \<open>auto simp: due_def intro: loop take\<close>)
  fix t'
  assume "ThreadLoop t t'"
  then show "(\<exists>x. place t' = Run (x, now t, posts t) \<and> x \<in> set (task_queue t) \<and> exec_time x \<le> now t)
      \<or> (due t' \<and> steps_left t' < steps_left t)"
    using assms(2) y by cases (auto simp: due_def steps_left_def wake_def is_top_def split: place.splits)
qed

section \<open>Runs\<close>

definition ex_late :: "string task_item" where
  "ex_late = \<lparr>func = ''late'', exec_time = 5, post = 0\<rparr>"

definition ex_soon :: "string task_item" where
  "ex_soon = \<lparr>func = ''soon'', exec_time = 0, post = 1\<rparr>"

definition ex_posted :: "string task_thread" where
  "ex_posted = PostTask ''soon'' 0 (PostDelayedTask ''late'' 5 0 (TaskThread 0))"

definition ex_running :: "string task_thread" where
  "ex_running = ex_posted\<lparr>place := Run (ex_soon, 0, 2), task_queue := [ex_late]\<rparr>"

lemma ex_posted_simps:
  "task_queue ex_posted = [ex_late, ex_soon]" "place ex_posted = Top" "running ex_posted" "now ex_posted = 0" "posts ex_posted = 2"
  "ran ex_posted = []"
  by (simp_all add: ex_posted_def PostTask_def PostDelayedTask_def emplace_def TaskThread_def ex_late_def ex_soon_def)

lemma ex_posted_reached: "task_step\<^sup>*\<^sup>* (TaskThread 0) ex_posted"
proof -
  have "task_step (TaskThread 0) (PostDelayedTask ''late'' 5 0 (TaskThread 0))"
    using other_step.delayed [of 0 "TaskThread 0" "''late''" 5] by (simp add: task_step_def TaskThread_def)
  moreover have "task_step (PostDelayedTask ''late'' 5 0 (TaskThread 0)) ex_posted"
    using other_step.delayed [of 0 "PostDelayedTask ''late'' 5 0 (TaskThread 0)" "''soon''" 0]
    by (simp add: task_step_def ex_posted_def PostTask_def PostDelayedTask_def emplace_def TaskThread_def)
  ultimately show ?thesis by simp
qed

lemma ex_running_reached: "task_step\<^sup>*\<^sup>* (TaskThread 0) ex_running"
proof -
  let ?t = "ex_posted\<lparr>place := Lock\<rparr>"
  have "task_step ex_posted ?t"
    using ThreadLoop.loop [of ex_posted] by (simp add: task_step_def ex_posted_simps)
  moreover have "task_step ?t ex_running"
    using ThreadLoop.take [of ?t ex_soon] by (simp add: task_step_def ex_posted_simps ex_running_def is_top_def ex_soon_def ex_late_def)
  ultimately show ?thesis
    using ex_posted_reached by (meson rtranclp.rtrancl_into_rtrancl)
qed

theorem tasks_run_in_order_witness:
  "started_all ex_running = [(ex_soon, 0, 2)] \<and> task_queue ex_running = [ex_late]
    \<and> mset (map post (map fst (started_all ex_running) @ task_queue ex_running)) = mset [0..<posts ex_running]"
  using tasks_run_in_order [OF ex_running_reached] by (simp add: ex_running_def started_all_def ex_posted_simps)

theorem due_task_starts_witness: "\<exists>t. due ex_posted \<and> ThreadLoop ex_posted t"
proof -
  have "due ex_posted"
    by (simp add: due_def ex_posted_simps ex_soon_def)
  then show ?thesis
    using due_task_starts [OF ex_posted_reached] by blast
qed

section \<open>Where the thread stops\<close>

text \<open>The flag is cleared and the notification given without the lock: when this happens between the test of the loop and the wait, the
  thread waits with nobody left to wake it, and the destructor never returns.\<close>

lemma destructor_hangs:
  "\<exists>t :: 't task_thread. task_step\<^sup>*\<^sup>* (TaskThread time) t \<and> dtor t = Joining \<and> place t = Wait None \<and> (\<nexists>t'. ThreadLoop t t')"
proof -
  let ?s = "TaskThread time :: 't task_thread"
  let ?a = "?s\<lparr>place := Lock\<rparr>"
  let ?b = "?a\<lparr>running := False, dtor := Stopping\<rparr>"
  let ?c = "?b\<lparr>dtor := Joining, place := wake (place ?b)\<rparr>"
  let ?d = "?c\<lparr>place := Wait None\<rparr>"
  have "task_step ?s ?a"
    using ThreadLoop.loop [of ?s] by (simp add: task_step_def TaskThread_def)
  moreover have "task_step ?a ?b"
    using other_step.stop [of ?a] by (simp add: task_step_def TaskThread_def)
  moreover have "task_step ?b ?c"
    using other_step.notify_all [of ?b] by (simp add: task_step_def)
  moreover have "task_step ?c ?d"
    using ThreadLoop.empty [of ?c] by (simp add: task_step_def TaskThread_def wake_def)
  moreover have "\<nexists>t'. ThreadLoop ?d t'"
    by (auto elim!: thread_cases simp: TaskThread_def)
  ultimately show ?thesis
    by (intro exI [of _ ?d]) (auto intro: converse_rtranclp_into_rtranclp)
qed

text \<open>A task that posts synchronously waits for a task behind itself, for ever.\<close>

lemma sync_inside_never_returns:
  assumes "task_step\<^sup>*\<^sup>* (TaskThread time) t" and "place t = Run e" and "task_step\<^sup>*\<^sup>* (PostTaskSync_inside f e t) t'"
  shows "place t' = Sync e (posts t)"
proof -
  have wf: "accounted t"
    using wf_reachable [OF assms(1) wf_TaskThread] by (simp add: task_wf_def)
  have "future_ready (posts t) t \<Longrightarrow> posts t \<in> set (map post (map fst (started_all t) @ task_queue t))"
    by (auto simp: future_ready_def started_all_def)
  then have n: "\<not> future_ready (posts t) t"
    using mset_eq_setD [OF wf [unfolded accounted_def]] by auto
  from assms(3) have "place t' = Sync e (posts t) \<and> ran t' = ran t"
  proof (induction rule: rtranclp_induct)
    case base
    then show ?case by (simp add: PostTaskSync_inside_def emplace_def)
  next
    case (step a b)
    then have "\<not> future_ready (posts t) a"
      using n by (simp add: future_ready_def)
    with step show ?case
      by (auto simp: task_step_def wake_def PostDelayedTask_def PostTaskSync_def emplace_def elim!: thread_cases other_cases)
  qed
  then show ?thesis ..
qed

text \<open>The destructor waits for the running task only: what is still in the queue is never run.\<close>

lemma queue_dropped:
  "\<exists>t. task_step\<^sup>*\<^sup>* (TaskThread 0) t \<and> dtor t = Destroyed \<and> task_queue t = [ex_late, ex_soon]"
proof -
  let ?b = "ex_posted\<lparr>running := False, dtor := Stopping\<rparr>"
  let ?c = "?b\<lparr>dtor := Joining, place := wake (place ?b)\<rparr>"
  let ?d = "?c\<lparr>place := Ended\<rparr>"
  let ?e = "?d\<lparr>dtor := Destroyed\<rparr>"
  have "dtor ex_posted = Alive"
    by (simp add: ex_posted_def PostTask_def PostDelayedTask_def emplace_def TaskThread_def)
  then have "task_step ex_posted ?b"
    using other_step.stop [of ex_posted] by (simp add: task_step_def)
  moreover have "task_step ?b ?c"
    using other_step.notify_all [of ?b] by (simp add: task_step_def)
  moreover have "task_step ?c ?d"
    using ThreadLoop.loop [of ?c] by (simp add: task_step_def ex_posted_simps wake_def)
  moreover have "task_step ?d ?e"
    using other_step.join [of ?d] by (simp add: task_step_def)
  ultimately show ?thesis
    using ex_posted_reached
    by (intro exI [of _ ?e]) (auto simp: ex_posted_simps intro: rtranclp_trans converse_rtranclp_into_rtranclp)
qed

end
