(* ===== verification/Spec2Isabelle.thy ===== *)
theory Spec2Isabelle
  imports Smb2_Lifetime Smb2_Shares Rpc_Batch Rpc_Asio Rpc_AppClient Sig_Emission Sig_Cow Ref_Count
    Task_Thread
begin

text \<open>
  A verification development for the SMB2/3 client library OpenSmbC
  (\<^verbatim>\<open>src/cpp/samba/client/OpenSmbC\<close>), the largest program of the repository, for the JSON-RPC library
  (\<^verbatim>\<open>src/cpp/jsonrpc/json-rpc-cxx\<close>) and for the signal library (\<^verbatim>\<open>src/cpp/sigslot/palacaze\<close>), with the task thread of \<^verbatim>\<open>src/cpp/ex\<close>. File names below are
  relative to the \<^verbatim>\<open>src\<close> and \<^verbatim>\<open>include\<close> directories of these.

  \<^bold>\<open>The program.\<close> A caller holds a \<^verbatim>\<open>Smb2Context\<close> and uses its synchronous calls (\<^verbatim>\<open>Smb2Api.cpp\<close>). A call
  puts its arguments into application data (\<^verbatim>\<open>AppData.h\<close>), lets a builder
  (\<^verbatim>\<open>Smb2RequestBuilder.cpp\<close>) fill in a request struct, lets the class of the command
  (\<^verbatim>\<open>Smb2Read.cpp\<close>, ...) encode it into I/O vectors (\<^verbatim>\<open>DataTypes.cpp\<close>) of a PDU (\<^verbatim>\<open>Smb2Pdu.cpp\<close>), and
  queues the PDU (\<^verbatim>\<open>Smb2Context.cpp\<close>), which numbers and signs it (\<^verbatim>\<open>Smb2Signing.cpp\<close>). Then
  \<^verbatim>\<open>sendAndReceive\<close> polls the socket (\<^verbatim>\<open>Smb2Socket.cpp\<close>): the PDU is written, moves to the wait queue, and the
  reply is read in parts by a state machine that looks up the PDU by its message id and gives each part
  to the handlers of its command, which fill in the application data and the objects they point to.

  A JSON-RPC server (\<^verbatim>\<open>server.hpp\<close>) parses a text, looks up the method in its \<^verbatim>\<open>Dispatcher\<close>
  (\<^verbatim>\<open>dispatcher.hpp\<close>) and runs the handle, which checks and converts the parameters (\<^verbatim>\<open>typemapper.hpp\<close>); exceptions become
  error responses. A client (\<^verbatim>\<open>client.hpp\<close>, \<^verbatim>\<open>batchclient.hpp\<close>) writes the text and gives it to a connector: in memory, or
  over TCP, where both ends can call each other. A signal (\<^verbatim>\<open>signal.hpp\<close>) keeps slots in groups and calls them
  when it is emitted; connections, blockers, observers and tracked objects act on single slots.

  \<^bold>\<open>The model.\<close> The theories follow this order, one per component:
  \<^item> \<open>Smb2_Base\<close>: bytes, memory accesses (\<open>None\<close> outside an object), byte order, C strings; the shared
    simplification sets.
  \<^item> \<open>Smb2_Iovec\<close> (\<^verbatim>\<open>DataTypes.cpp\<close>): the accessors of I/O vectors, padding. The locale of a fixed-width field
    is interpreted for the 8, 16, 32 and 64 bit accessors.
  \<^item> \<open>Smb2_Unicode\<close> (\<^verbatim>\<open>util.cpp\<close>): UTF-8 and UCS-2.
  \<^item> \<open>Smb2_Types\<close> (\<^verbatim>\<open>smb2.h\<close>, \<^verbatim>\<open>DataTypes.h\<close>): the protocol structs as records.
  \<^item> \<open>Smb2_FileData\<close>, \<open>Smb2_Security\<close> (\<^verbatim>\<open>Smb2DataFile.cpp\<close>, \<^verbatim>\<open>Smb2DataFileSystem.cpp\<close>,
    \<^verbatim>\<open>Smb2DataSecurity.cpp\<close>): the codecs of file information and security descriptors.
  \<^item> \<open>Std_Map\<close>: \<^verbatim>\<open>std::map\<close> as a sorted association list, behind a locale.
  \<^item> \<open>Smb2_State\<close>: file handles, directories, application data, PDUs, the context. Objects with several
    owners live in \<open>c_heap\<close>, a map from addresses to typed cells; \<^verbatim>\<open>new\<close> takes addresses from the script
    \<open>c_fresh\<close>, \<^verbatim>\<open>delete\<close> empties a cell, and the use of an empty cell is \<open>None\<close>.
  \<^item> \<open>Smb2_Pdu\<close>, \<open>Smb2_Signing\<close>, \<open>Smb2_Context\<close>: header codec, compounds, error replies; AES-CMAC and
    signing; the queues with the step relation \<open>qstep\<close> of a connection, \<open>context_step\<close> with the closing of the
    context, and their invariants.
  \<^item> \<open>Smb2_Command\<close>: the contracts \<open>request_command\<close> (what a valid request looks like on the wire) and
    \<open>reply_command\<close> (what the handlers do with an error reply); \<open>Smb2_SimpleCmds\<close>, \<open>Smb2_FileCmds\<close>,
    \<open>Smb2_InfoCmds\<close>, \<open>Smb2_Session\<close> model the thirteen command classes and interpret the contracts for each;
    \<open>Smb2_Dispatch\<close> is the virtual call.
  \<^item> \<open>Smb2_Util\<close>, \<open>Smb2_Auth\<close>: URLs, times, NT status names; NTLMv2 and Kerberos.
  \<^item> \<open>Smb2_Socket\<close>, \<open>Smb2_Transport\<close>, \<open>Smb2_Exchange\<close>: sending, receiving, the poll loop, and what a whole
    exchange achieves.
  \<^item> \<open>Smb2_Request\<close>: the builders, and the contract \<open>request_builder\<close> of a builder of one request, interpreted
    for echo, flush, close and read. \<open>Smb2_Api\<close>, \<open>Smb2_ApiInfo\<close>: the synchronous calls.
  \<^item> \<open>Smb2_DceRpc\<close>, \<open>Smb2_Pipes\<close>: the remote procedure calls of \<^verbatim>\<open>DceRpc.cpp\<close>, and the two calls made of them
    over a named pipe, \<^verbatim>\<open>smb2_list_shares\<close> and \<^verbatim>\<open>smb2_lookUpSid\<close>.
  \<^item> \<open>Smb2_Calls\<close>, \<open>Smb2_Compound\<close>, \<open>Smb2_Limits\<close>, \<open>Smb2_Lifetime\<close>, \<open>Smb2_Shares\<close>: the theorems on the calls.
  \<^item> \<open>Ref_Count\<close> (\<^verbatim>\<open>SmartPtr.h\<close>): reference counts under the step relation \<open>ptr_step\<close>.
  \<^item> \<open>Rpc_Json\<close>, \<open>Rpc_Server\<close>, \<open>Rpc_Client\<close>, \<open>Rpc_App\<close>, \<open>Rpc_AppClient\<close>: JSON values with the operations used of the vendored
    library, the server, the client, and the example application on both sides. A procedure is a list of parameter types with a function on values
    and a state. \<open>Rpc_Text\<close> is one concrete way to print and parse, for the examples.
  \<^item> \<open>Rpc_Calls\<close>, \<open>Rpc_Batch\<close>: the theorems on calls and batches; what they need of a connector is the locale
    \<open>connector_to\<close>, interpreted for the in-memory connector. \<open>Rpc_Asio\<close>: two ends of a TCP connection with their threads as the
    step relation \<open>conn_step\<close>.
  \<^item> \<open>Sig_Slot\<close> (\<^verbatim>\<open>signal.hpp\<close>): slots and signals in a store, so that connections and signals share slots;
    \<open>Sig_Invariant\<close>, \<open>Sig_Signals\<close>: the invariant under \<open>sig_step\<close>; \<open>Sig_Emission\<close>: what disconnection and emission do.
    \<open>Sig_Cow\<close>: the copy-on-write container of the slot list, which refines independent values.
  \<^item> \<open>Task_Thread\<close> (\<^verbatim>\<open>src/cpp/ex/task_thread\<close>): posted tasks, the loop that runs them and the destructor as a step relation.

  A function of the source is a function on the context that returns the C result with the new context;
  an output parameter is a further result. \<open>None\<close> stands for undefined behaviour (access outside
  an object, use of a deleted object, a read of the wrong union member), for an exception of \<^verbatim>\<open>new\<close>,
  and for a run that waits for an event the script does not hold. Errors the code reports are values.
  Machine integers are words of their width; \<^verbatim>\<open>size_t\<close> has 64 bits, the machine is little endian.
  An error message is its format and arguments.

  \<^bold>\<open>The environment.\<close> The record \<open>env\<close> holds what the program takes from outside: the hash and cipher functions of
  OpenSSL (\<open>crypto\<close>), GSS-API, time and random numbers, what uninitialised memory holds, and the
  fuel \<open>e_fuel\<close> of the loops that decode lists a server sends, which may be endless
  (\<open>Smb2_FileData.ea_chain_never_ends\<close>). The scripts of \<open>net\<close> give the results of \<^verbatim>\<open>poll\<close>, \<^verbatim>\<open>readv\<close> and \<^verbatim>\<open>writev\<close>
  in order, so that partial reads and writes, errors and hang-ups are covered. The loops over
  these scripts end with the script; the theorems of \<open>Smb2_Transport\<close> give the length of script that is enough.
  For JSON-RPC the record \<open>json_lib\<close> holds parsing, printing and floating-point numbers, and \<open>user_types\<close> the conversions of the application;
  theorems that need a value to survive printing and parsing say so (\<open>carries\<close>). What a slot does is a parameter of
  the emission and may use every operation of the library.
  The loop that doubles a buffer has a bound of 23 turns, which suffices
  (\<open>Smb2_Limits.encode_retry_ends\<close>). The two loops of the enumeration run as long as the server says; a run without
  end is \<open>None\<close>.

  \<^bold>\<open>What is shown.\<close> End to end: a positioned read returns the bytes of the server
  (\<open>pread_delivers\<close>), an error status of the server is what the call returns (\<open>api_error_status\<close>,
  and for all commands but tree disconnect \<open>error_reaches_caller\<close>; the two status values with handling of their own are
  excepted), a query by path is one related compound
  (\<open>path_query_is_compound\<close>), the answer to a share enumeration is the list of its shares
  (\<open>share_list_parsed\<close>) and that to a name lookup the SID of the account (\<open>lookup_appends_rid\<close>). Transport: as long as every read delivers data, reception does not depend on how the stream is cut and
  consumes whole messages (a read that would block inside a message breaks both,
  \<open>Smb2_Transport.read_error_shifts_data\<close>), sending survives partial writes and refines the queue machine, whose
  invariant every operation keeps but a close with requests pending. Encoding: requests have the layout of the protocol, codecs
  round-trip, AES-CMAC is that of RFC 4493, the NTLM answer to a challenge is that of MS-NLMP for user names in ASCII, with the response key spelled out, the signing key is derived
  as MS-SMB2 says. Safety and bounds: accessors and decoders stay inside their objects under stated conditions,
  buffers are large enough, sizes asked for are limited. JSON-RPC: a call returns the result or the exception of the procedure
  (\<open>rpc_call_returns\<close>, \<open>rpc_error_reaches_client\<close>), every request is answered under its id (\<open>server_answers\<close>), a
  procedure is run on checked parameters of the right number and types only (\<open>handle_checks_parameters\<close>), a batch returns each result under its id, and
  over TCP a request is answered (\<open>asio_exchange\<close>), a notification is not (\<open>asio_notification_hangs\<close>). Signals: the slot lists stay
  consistent (\<open>signals_invariant\<close>), disconnection is exact, emission calls the right slots in order, on a list that
  no write can change (\<open>cow_refines_values\<close>). Reference counts
  are exact (\<open>smart_ptr_counts\<close>). The task thread runs each task once, in time and in order (\<open>tasks_run_in_order\<close>), and
  misses none that is due (\<open>due_task_starts\<close>). Where the code does not do what it means to, a
  lemma shows the run.

  \<^bold>\<open>Not modelled.\<close> The code under \<^verbatim>\<open>#if 0\<close>. Printing of descriptors and \<^verbatim>\<open>stringf\<close> have no effect on the state of
  the model; in the client model smart pointers are values, their counts are those of \<open>Ref_Count\<close>. Socket options are set without effect.
  The HTTP connector and the opening and closing of TCP connections are calls of libraries. Of the signal library the traits and the spin
  mutex are left out; an emission works on the list of slots it has taken.
  The other programs of the repository (demonstrations of coroutines, Qt and terminal interfaces, command line examples) are user
  interface and calls of libraries.
\<close>

end
